(* ===== verification/Prelude.thy ===== *)
theory Prelude
  imports
    "HOL-Library.Word"
    "HOL-Library.AList"
    "HOL-Library.List_Lexorder"
    "HOL-Library.Char_ord"
    "HOL-Library.Product_Lexorder"
    "HOL-Library.Multiset"
begin

text \<open>
  The vocabulary every other theory of the development shares.

  \<^item> Machine types: \<open>u64\<close> is Go's \<open>uint64\<close> (versions, leader terms and map epochs, all of
    which the code increments), \<open>i32\<close> is the protobuf \<open>int32\<close>; Go's \<open>int\<close> is \<open>int\<close>.
  \<^item> \<open>time\<close> is Go's \<open>time.Time\<close> as nanoseconds since the instant of \<open>time.Time{}\<close>, so that
    \<open>zero_time\<close> is \<open>0\<close> and \<open>IsZero\<close> compares with it.
  \<^item> A Go map is an association list without repeated keys (\<open>keys\<close>, \<open>AList.update\<close>,
    \<open>AList.delete\<close>): the list is executable, and its order stands for the order in which
    \<open>range\<close> happens to visit the map.
  \<^item> Go strings are \<open>string\<close>; Go's \<open><\<close> on strings is the lexicographic order on bytes, which is
    the order of \<open>List_Lexorder\<close> over \<open>Char_ord\<close>.
  \<^item> \<open>itoa\<close> is the decimal rendering of \<open>fmt.Sprintf\<close>'s \<open>%d\<close>, \<open>TrimSpace\<close> the function of
    package \<open>strings\<close> on ASCII text.
\<close>

type_synonym u64 = "64 word"
type_synonym i32 = "32 word"
type_synonym time = int
type_synonym ('k, 'v) alist = "('k \<times> 'v) list"

named_theorems world_simps \<open>unfolding rules for the operations of a world\<close>
named_theorems wf_intros \<open>introduction rules that re-establish well-formedness\<close>
named_theorems store_simps \<open>unfolding rules for the operations on Redis\<close>
named_theorems wire_simps \<open>unfolding rules for the protobuf mappers\<close>

section \<open>Time\<close>

definition zero_time :: time where
  "zero_time = 0"

definition IsZero :: "time \<Rightarrow> bool" where
  "IsZero t \<longleftrightarrow> t = zero_time"

definition second :: int where
  "second = 1000000000"

section \<open>Association lists as Go maps\<close>

abbreviation keys :: "('k, 'v) alist \<Rightarrow> 'k list" where
  "keys al \<equiv> map fst al"

definition has_key :: "('k, 'v) alist \<Rightarrow> 'k \<Rightarrow> bool" where
  "has_key al k \<longleftrightarrow> map_of al k \<noteq> None"

text \<open>Go's \<open>m[k]\<close> on a missing key is the zero value \<open>z\<close> of the value type.\<close>

definition get_or :: "'v \<Rightarrow> ('k, 'v) alist \<Rightarrow> 'k \<Rightarrow> 'v" where
  "get_or z al k = (case map_of al k of None \<Rightarrow> z | Some v \<Rightarrow> v)"

section \<open>Strings\<close>

definition digit :: "nat \<Rightarrow> char" where
  "digit d = char_of (48 + d)"

fun itoa :: "nat \<Rightarrow> string" where
  "itoa n = (if n < 10 then [digit n] else itoa (n div 10) @ [digit (n mod 10)])"

declare itoa.simps [simp del]

definition undigit :: "char \<Rightarrow> nat" where
  "undigit c = of_char c - 48"

definition atoi :: "string \<Rightarrow> nat" where
  "atoi s = foldl (\<lambda>a c. 10 * a + undigit c) 0 s"

text \<open>A string given by its UTF-8 bytes.\<close>

definition utf8 :: "nat list \<Rightarrow> string" where
  "utf8 bs = map char_of bs"

definition is_space :: "char \<Rightarrow> bool" where
  "is_space c \<longleftrightarrow> c \<in> {CHR '' '', CHR 0x09, CHR 0x0A, CHR 0x0B, CHR 0x0C, CHR 0x0D}"

definition TrimSpace :: "string \<Rightarrow> string" where
  "TrimSpace s = rev (dropWhile is_space (rev (dropWhile is_space s)))"

text \<open>
  The check \<open>strings.TrimSpace(id) == "" || id != strings.TrimSpace(id)\<close>, which the code
  writes out wherever it refuses an identifier.
\<close>

definition bad_id :: "string \<Rightarrow> bool" where
  "bad_id s \<longleftrightarrow> TrimSpace s = [] \<or> s \<noteq> TrimSpace s"

section \<open>Lemmas on association lists\<close>

lemma has_key_iff: "has_key al k \<longleftrightarrow> k \<in> set (keys al)"
  by (simp add: has_key_def map_of_eq_None_iff)

lemma map_of_update [simp]: "map_of (AList.update k v al) = (map_of al)(k \<mapsto> v)"
  by (rule update_conv')

lemma map_of_delete [simp]: "map_of (AList.delete k al) = (map_of al)(k := None)"
  by (rule delete_conv')

lemma keys_update: "keys (AList.update k v al) = (if k \<in> set (keys al) then keys al else keys al @ [k])"
  by (simp add: update_keys)

lemma distinct_keys_update [simp]:
  "distinct (keys al) \<Longrightarrow> distinct (keys (AList.update k v al))"
  by (simp add: keys_update)

lemma fst_set_update [simp]: "fst ` set (AList.update k v al) = insert k (fst ` set al)"
  by (simp add: dom_map_of_conv_image_fst [symmetric])

lemma fst_set_delete [simp]: "fst ` set (AList.delete k al) = fst ` set al - {k}"
  by (auto simp: dom_map_of_conv_image_fst [symmetric])

lemma keys_delete: "keys (AList.delete k al) = filter (\<lambda>x. x \<noteq> k) (keys al)"
  by (induction al) (auto simp: AList.delete_eq)

lemma distinct_keys_delete [simp]:
  "distinct (keys al) \<Longrightarrow> distinct (keys (AList.delete k al))"
  by (simp add: keys_delete)

lemma set_update:
  assumes "distinct (keys al)"
  shows "set (AList.update k v al) = insert (k, v) {e \<in> set al. fst e \<noteq> k}"
  using assms by (induction al) (auto simp: image_iff)

lemma set_delete: "set (AList.delete k al) = {e \<in> set al. fst e \<noteq> k}"
  by (auto simp: AList.delete_eq)

lemma in_set_map_of: "distinct (keys al) \<Longrightarrow> (k, v) \<in> set al \<longleftrightarrow> map_of al k = Some v"
  by simp

lemma length_update_old [simp]:
  "k \<in> set (keys al) \<Longrightarrow> length (AList.update k v al) = length al"
  by (induction al) auto

lemma length_update_new [simp]:
  "k \<notin> set (keys al) \<Longrightarrow> length (AList.update k v al) = Suc (length al)"
  by (induction al) auto

lemma map_of_map_value:
  "map_of (map (\<lambda>(k, v). (k, f k v)) al) k = map_option (f k) (map_of al k)"
  by (induction al) auto

lemma sorted_list_keys_perm:
  "map_of al k = Some v \<Longrightarrow> k \<in> set (sort (keys al))"
  by (force dest: map_of_SomeD)

text \<open>An association list keyed by a field of its values is determined by its values.\<close>

lemma map_of_by_field:
  assumes "distinct (map f xs)"
  shows "map_of (map (\<lambda>x. (f x, g x)) xs) k = (if k \<in> f ` set xs then Some (g (the_inv_into (set xs) f k)) else None)"
proof (cases "k \<in> f ` set xs")
  case True
  then obtain x where x: "x \<in> set xs" "k = f x" by blast
  have inj: "inj_on f (set xs)" using assms by (simp add: distinct_map)
  have "map_of (map (\<lambda>x. (f x, g x)) xs) (f x) = Some (g x)"
    using assms x(1) by (force simp: comp_def intro: map_of_is_SomeI)
  moreover have "the_inv_into (set xs) f k = x"
    using inj x by (simp add: the_inv_into_f_f)
  ultimately show ?thesis using True x by simp
next
  case False
  then show ?thesis by (auto simp: map_of_eq_None_iff image_iff)
qed

section \<open>Lemmas on strings\<close>

lemma undigit_digit: "d < 10 \<Longrightarrow> undigit (digit d) = d"
  by (simp add: digit_def undigit_def)

lemma atoi_snoc: "atoi (s @ [c]) = 10 * atoi s + undigit c"
  by (simp add: atoi_def)

lemma atoi_itoa: "atoi (itoa n) = n"
proof (induction n rule: itoa.induct)
  case (1 n)
  show ?case
  proof (cases "n < 10")
    case True
    then show ?thesis by (simp add: itoa.simps [of n] atoi_def undigit_digit)
  next
    case False
    with "1.IH" show ?thesis
      by (simp add: itoa.simps [of n] atoi_snoc undigit_digit)
  qed
qed

lemma itoa_inject [simp]: "itoa m = itoa n \<longleftrightarrow> m = n"
  by (metis atoi_itoa)

lemma bad_id_Nil [simp]: "bad_id []"
  by (simp add: bad_id_def TrimSpace_def)

section \<open>Reading integers off the wire\<close>

lemma sint_of_int_i32:
  assumes "- (2 ^ 31) \<le> x" and "x < 2 ^ 31"
  shows "sint (word_of_int x :: i32) = x"
  using assms by (simp add: sint_sbintrunc' signed_take_bit_int_eq_self)

end
