(* ===== verification/Protocol.thy ===== *)
theory Protocol
  imports Prelude
begin

text \<open>
  Package \<open>protocol\<close>: the constants of the game and the read models that travel between the
  node, the gateway and the client (\<open>protocol/message.go\<close>, \<open>protocol/world_state.go\<close>), one
  record per Go struct with the fields in the source's order. Field names carry a short prefix
  because Isabelle's record fields share one name space. The pooled \<open>WorldState\<close> is covered by
  \<open>FreeWorldState\<close>, whose effect on the object is that of the source; that the pool hands the
  same object out again is the reason why the reset has to be complete.
\<close>

section \<open>Constants\<close>

definition MapWidth :: nat where "MapWidth = 56"
definition MapHeight :: nat where "MapHeight = 24"

definition InitHP :: int where "InitHP = 120"
definition InitAttack :: int where "InitAttack = 35"
definition AttackRange :: int where "AttackRange = 2"
definition BossAtkRange :: int where "BossAtkRange = 4"
definition NPCDamage :: int where "NPCDamage = 18"
definition HealAmount :: int where "HealAmount = 30"
definition MaxPotions :: int where "MaxPotions = 3"
definition PotionCap :: int where "PotionCap = 8"
definition PotionPrice :: int where "PotionPrice = 3"
definition WeaponPrice :: int where "WeaponPrice = 8"
definition WeaponBoost :: int where "WeaponBoost = 6"
definition MinNPCs :: nat where "MinNPCs = 5"
definition MaxTreasures :: nat where "MaxTreasures = 8"

definition DirUp :: string where "DirUp = ''up''"
definition DirDown :: string where "DirDown = ''down''"
definition DirLeft :: string where "DirLeft = ''left''"
definition DirRight :: string where "DirRight = ''right''"

lemmas protocol_consts =
  InitHP_def InitAttack_def AttackRange_def BossAtkRange_def NPCDamage_def HealAmount_def
  MaxPotions_def PotionCap_def PotionPrice_def WeaponPrice_def WeaponBoost_def MinNPCs_def
  MaxTreasures_def MapWidth_def MapHeight_def

lemmas dir_defs = DirUp_def DirDown_def DirLeft_def DirRight_def

section \<open>Read models\<close>

record PlayerView =
  pv_Username :: string
  pv_MapID :: string
  pv_X :: int
  pv_Y :: int
  pv_HP :: int
  pv_MaxHP :: int
  pv_Attack :: int
  pv_Potions :: int
  pv_Treasures :: int
  pv_Kills :: int
  pv_Deaths :: int
  pv_Victories :: int
  pv_Alive :: bool
  pv_RespawnIn :: int
  pv_LastUpdate :: string

record NPCView =
  nv_ID :: string
  nv_Name :: string
  nv_X :: int
  nv_Y :: int
  nv_HP :: int
  nv_MaxHP :: int
  nv_Attack :: int
  nv_Alive :: bool

record TreasureView =
  tv_ID :: string
  tv_Kind :: string
  tv_X :: int
  tv_Y :: int
  tv_Value :: int

record MapBrief =
  mb_ID :: string
  mb_Name :: string
  mb_NodeID :: string
  mb_Players :: int
  mb_NPCs :: int
  mb_Treasures :: int
  mb_Version :: int
  mb_Primary :: bool
  mb_IsCurrent :: bool
  mb_Checkpoint :: int

record NodeView =
  no_ID :: string
  no_Addr :: string
  no_Healthy :: bool
  no_PrimaryMaps :: "string list"
  no_LastHeartbeat :: string

record GatewayStatus =
  gs_Summary :: string
  gs_RoutingReady :: bool
  gs_TopologyVersion :: u64
  gs_Nodes :: "NodeView list"

record MapView =
  mv_ID :: string
  mv_Name :: string
  mv_NodeID :: string
  mv_Width :: int
  mv_Height :: int
  mv_Terrain :: "string list"
  mv_Players :: "PlayerView list"
  mv_NPCs :: "NPCView list"
  mv_Treasures :: "TreasureView list"
  mv_Version :: int

record BossSite =
  bs_MapID :: string
  bs_X :: int
  bs_Y :: int

record BossState =
  b_Name :: string
  b_Alive :: bool
  b_LastHit :: string
  b_RespawnAt :: time
  b_AttackGap :: int
  b_Sites :: "BossSite list"
  b_Version :: int

record BossView =
  bv_Name :: string
  bv_HP :: int
  bv_MaxHP :: int
  bv_Alive :: bool
  bv_LastHit :: string
  bv_RespawnIn :: int
  bv_AttackGap :: int
  bv_Sites :: "BossSite list"
  bv_Version :: int

record WorldState =
  ws_Self :: PlayerView
  ws_Map :: MapView
  ws_Maps :: "MapBrief list"
  ws_Nodes :: "NodeView list"
  ws_Boss :: BossView
  ws_Events :: "string list"
  ws_SessionVersion :: int
  ws_TopologyVersion :: u64
  ws_MapEpoch :: u64

record UserProfile =
  u_Username :: string
  u_PasswordHash :: string
  u_LastMap :: string
  u_LastNode :: string
  u_X :: int
  u_Y :: int
  u_HP :: int
  u_MaxHP :: int
  u_Attack :: int
  u_Potions :: int
  u_Treasures :: int
  u_Kills :: int
  u_Deaths :: int
  u_Victories :: int
  u_Alive :: bool

record HotSession =
  h_Username :: string
  h_MapID :: string
  h_NodeID :: string
  h_X :: int
  h_Y :: int
  h_HP :: int
  h_Treasures :: int
  h_SessionVersion :: int
  h_UpdatedAt :: time

record MapCheckpoint =
  c_MapID :: string
  c_NodeID :: string
  c_MapEpoch :: u64
  c_Version :: int
  c_Terrain :: "string list"
  c_Players :: "PlayerView list"
  c_NPCs :: "NPCView list"
  c_Treasures :: "TreasureView list"
  c_Checkpoint :: time

section \<open>Zero values\<close>

text \<open>Go's composite literal \<open>T{}\<close> for the structs the code returns beside an error.\<close>

definition zero_PlayerView :: PlayerView where
  "zero_PlayerView = \<lparr>pv_Username = [], pv_MapID = [], pv_X = 0, pv_Y = 0, pv_HP = 0, pv_MaxHP = 0,
     pv_Attack = 0, pv_Potions = 0, pv_Treasures = 0, pv_Kills = 0, pv_Deaths = 0, pv_Victories = 0,
     pv_Alive = False, pv_RespawnIn = 0, pv_LastUpdate = []\<rparr>"

definition zero_NPCView :: NPCView where
  "zero_NPCView = \<lparr>nv_ID = [], nv_Name = [], nv_X = 0, nv_Y = 0, nv_HP = 0, nv_MaxHP = 0,
     nv_Attack = 0, nv_Alive = False\<rparr>"

definition zero_TreasureView :: TreasureView where
  "zero_TreasureView = \<lparr>tv_ID = [], tv_Kind = [], tv_X = 0, tv_Y = 0, tv_Value = 0\<rparr>"

definition zero_MapView :: MapView where
  "zero_MapView = \<lparr>mv_ID = [], mv_Name = [], mv_NodeID = [], mv_Width = 0, mv_Height = 0,
     mv_Terrain = [], mv_Players = [], mv_NPCs = [], mv_Treasures = [], mv_Version = 0\<rparr>"

definition zero_BossView :: BossView where
  "zero_BossView = \<lparr>bv_Name = [], bv_HP = 0, bv_MaxHP = 0, bv_Alive = False, bv_LastHit = [],
     bv_RespawnIn = 0, bv_AttackGap = 0, bv_Sites = [], bv_Version = 0\<rparr>"

definition zero_BossState :: BossState where
  "zero_BossState = \<lparr>b_Name = [], b_Alive = False, b_LastHit = [], b_RespawnAt = zero_time,
     b_AttackGap = 0, b_Sites = [], b_Version = 0\<rparr>"

definition zero_NodeView :: NodeView where
  "zero_NodeView = \<lparr>no_ID = [], no_Addr = [], no_Healthy = False, no_PrimaryMaps = [],
     no_LastHeartbeat = []\<rparr>"

definition zero_UserProfile :: UserProfile where
  "zero_UserProfile = \<lparr>u_Username = [], u_PasswordHash = [], u_LastMap = [], u_LastNode = [],
     u_X = 0, u_Y = 0, u_HP = 0, u_MaxHP = 0, u_Attack = 0, u_Potions = 0, u_Treasures = 0,
     u_Kills = 0, u_Deaths = 0, u_Victories = 0, u_Alive = False\<rparr>"

definition zero_MapCheckpoint :: MapCheckpoint where
  "zero_MapCheckpoint = \<lparr>c_MapID = [], c_NodeID = [], c_MapEpoch = 0, c_Version = 0, c_Terrain = [],
     c_Players = [], c_NPCs = [], c_Treasures = [], c_Checkpoint = zero_time\<rparr>"

definition zero_WorldState :: WorldState where
  "zero_WorldState = \<lparr>ws_Self = zero_PlayerView, ws_Map = zero_MapView, ws_Maps = [], ws_Nodes = [],
     ws_Boss = zero_BossView, ws_Events = [], ws_SessionVersion = 0, ws_TopologyVersion = 0,
     ws_MapEpoch = 0\<rparr>"

section \<open>The pooled world state\<close>

text \<open>
  \<open>FreeWorldState\<close> before it puts the object back: slices are truncated in place (\<open>[:0]\<close>, an
  empty slice) and scalars are cleared one by one.
\<close>

definition FreeWorldState :: "WorldState \<Rightarrow> WorldState" where
  "FreeWorldState ws =
     (let m = ws_Map ws; b = ws_Boss ws;
          ws = ws\<lparr>ws_Maps := [], ws_Nodes := [], ws_Events := []\<rparr>;
          m = m\<lparr>mv_Terrain := [], mv_Players := [], mv_NPCs := [], mv_Treasures := []\<rparr>;
          b = b\<lparr>bv_Sites := []\<rparr>;
          ws = ws\<lparr>ws_Self := zero_PlayerView\<rparr>;
          m = m\<lparr>mv_ID := [], mv_Name := [], mv_NodeID := []\<rparr>;
          m = m\<lparr>mv_Width := 0, mv_Height := 0\<rparr>;
          m = m\<lparr>mv_Version := 0\<rparr>;
          b = b\<lparr>bv_Name := [], bv_LastHit := []\<rparr>;
          b = b\<lparr>bv_HP := 0, bv_MaxHP := 0\<rparr>;
          b = b\<lparr>bv_Alive := False\<rparr>;
          b = b\<lparr>bv_RespawnIn := 0, bv_AttackGap := 0\<rparr>;
          b = b\<lparr>bv_Version := 0\<rparr>
      in ws\<lparr>ws_Map := m, ws_Boss := b, ws_SessionVersion := 0, ws_TopologyVersion := 0,
            ws_MapEpoch := 0\<rparr>)"

lemma FreeWorldState_zero: "FreeWorldState ws = zero_WorldState"
  by (cases ws) (simp add: FreeWorldState_def zero_WorldState_def zero_MapView_def zero_BossView_def
      Let_def)

end
