(* ===== verification/Maps.thy ===== *)
theory Maps
  imports Protocol
begin

text \<open>
  The map builder of \<open>world/maps.go\<close>: a grid is a list of rows of cells (\<open>[][]rune\<close>), the
  in-place drawing routines return the changed grid, and each \<open>for\<close> loop is a fold over the
  interval the loop runs through. The three built-in maps are evaluated by the kernel, which
  shows that they are well-formed (size, closed border, free spawn cell, boss site that can be
  reached on foot) and that two of them hold a walled-in cell.
\<close>

type_synonym grid = "char list list"

record MapConfig =
  cfg_ID :: string
  cfg_Name :: string
  cfg_Layout :: "string list"
  SpawnX :: int
  SpawnY :: int
  BossX :: int
  BossY :: int

section \<open>Grids\<close>

text \<open>\<open>[]rune(row)\<close> and \<open>string(row)\<close>: on the one-byte cells of a map both keep the characters.\<close>

definition stringsToGrid :: "string list \<Rightarrow> grid" where
  "stringsToGrid rows = map (\<lambda>row. row) rows"

definition gridToStrings :: "grid \<Rightarrow> string list" where
  "gridToStrings grid = map (\<lambda>row. row) grid"

definition put :: "char \<Rightarrow> grid \<Rightarrow> int \<Rightarrow> int \<Rightarrow> grid" where
  "put c grid x y = grid[nat y := (grid ! nat y)[nat x := c]]"

definition blankGrid :: grid where
  "blankGrid = replicate MapHeight (replicate MapWidth CHR ''.'')"

definition drawBorder :: "grid \<Rightarrow> grid" where
  "drawBorder grid =
     (let grid = fold (\<lambda>x g. put CHR ''#'' (put CHR ''#'' g x 0) x (int (length g) - 1))
                   [0..int (length (grid ! 0)) - 1] grid
      in fold (\<lambda>y g. put CHR ''#'' (put CHR ''#'' g 0 y) (int (length (g ! nat y)) - 1) y)
           [0..int (length grid) - 1] grid)"

definition fillRect :: "grid \<Rightarrow> int \<Rightarrow> int \<Rightarrow> int \<Rightarrow> int \<Rightarrow> grid" where
  "fillRect grid x y width height =
     fold (\<lambda>yy g. fold (\<lambda>xx g. put CHR ''#'' g xx yy)
                     [x..min (x + width) (int (length (g ! nat yy))) - 1] g)
       [y..min (y + height) (int (length grid)) - 1] grid"

definition drawH :: "grid \<Rightarrow> int \<Rightarrow> int \<Rightarrow> int \<Rightarrow> grid" where
  "drawH grid y fromX toX =
     (if y < 0 \<or> y \<ge> int (length grid) then grid
      else fold (\<lambda>x g. put CHR ''#'' g x y)
             [max 0 fromX..min toX (int (length (grid ! nat y)) - 1)] grid)"

definition drawV :: "grid \<Rightarrow> int \<Rightarrow> int \<Rightarrow> int \<Rightarrow> grid" where
  "drawV grid x fromY toY =
     fold (\<lambda>y g. if x \<ge> 0 \<and> x < int (length (g ! nat y)) then put CHR ''#'' g x y else g)
       [max 0 fromY..min toY (int (length grid) - 1)] grid"

definition carve :: "grid \<Rightarrow> int \<Rightarrow> int \<Rightarrow> grid" where
  "carve grid x y =
     (if y \<ge> 0 \<and> y < int (length grid) \<and> x \<ge> 0 \<and> x < int (length (grid ! nat y))
      then put CHR ''.'' grid x y else grid)"

section \<open>The built-in maps\<close>

definition buildGreenMap :: MapConfig where
  "buildGreenMap =
     (let grid = blankGrid;
          grid = drawBorder grid;
          grid = fillRect grid 8 3 14 5;
          grid = fillRect grid 33 14 14 4;
          grid = drawV grid 26 1 21;
          grid = drawV grid 45 2 13;
          grid = drawH grid 9 1 20;
          grid = drawH grid 7 30 54;
          grid = carve grid 26 5;
          grid = carve grid 26 12;
          grid = carve grid 26 18;
          grid = carve grid 45 5;
          grid = carve grid 45 10;
          grid = carve grid 6 9;
          grid = carve grid 12 9;
          grid = carve grid 18 9;
          grid = carve grid 37 7;
          grid = carve grid 44 7;
          grid = carve grid 50 7
      in \<lparr>cfg_ID = ''green'',
          cfg_Name = utf8 [0xE9, 0x9D, 0x92, 0xE5, 0xB2, 0x9A, 0xE8, 0xA6, 0x81, 0xE5, 0xA1, 0x9E],
          cfg_Layout = gridToStrings grid, SpawnX = 4, SpawnY = 4, BossX = 50, BossY = 20\<rparr>)"

definition buildCaveMap :: MapConfig where
  "buildCaveMap =
     (let grid = blankGrid;
          grid = drawBorder grid;
          grid = fillRect grid 5 5 10 9;
          grid = fillRect grid 36 12 12 7;
          grid = drawV grid 28 1 22;
          grid = drawH grid 4 18 51;
          grid = drawH grid 18 2 25;
          grid = drawV grid 18 10 20;
          grid = carve grid 28 4;
          grid = carve grid 28 11;
          grid = carve grid 28 18;
          grid = carve grid 22 4;
          grid = carve grid 34 4;
          grid = carve grid 45 4;
          grid = carve grid 9 18;
          grid = carve grid 14 18;
          grid = carve grid 18 15
      in \<lparr>cfg_ID = ''cave'',
          cfg_Name = utf8 [0xE7, 0x8E, 0x84, 0xE7, 0x9F, 0xBF, 0xE5, 0x9C, 0xB0, 0xE7, 0xAA, 0x9F],
          cfg_Layout = gridToStrings grid, SpawnX = 4, SpawnY = 20, BossX = 49, BossY = 20\<rparr>)"

definition buildRuinsMap :: MapConfig where
  "buildRuinsMap =
     (let grid = blankGrid;
          grid = drawBorder grid;
          grid = drawV grid 12 2 20;
          grid = drawV grid 24 1 18;
          grid = drawV grid 37 5 22;
          grid = drawH grid 6 2 22;
          grid = drawH grid 13 15 40;
          grid = fillRect grid 42 3 8 5;
          grid = fillRect grid 6 15 8 4;
          grid = carve grid 12 5;
          grid = carve grid 12 11;
          grid = carve grid 12 17;
          grid = carve grid 24 4;
          grid = carve grid 24 10;
          grid = carve grid 24 16;
          grid = carve grid 37 9;
          grid = carve grid 37 17;
          grid = carve grid 8 6;
          grid = carve grid 18 6;
          grid = carve grid 19 13;
          grid = carve grid 29 13;
          grid = carve grid 44 13
      in \<lparr>cfg_ID = ''ruins'',
          cfg_Name = utf8 [0xE6, 0xAE, 0x8B, 0xE6, 0x98, 0x9F, 0xE9, 0x81, 0x97, 0xE8, 0xBF, 0xB9],
          cfg_Layout = gridToStrings grid, SpawnX = 50, SpawnY = 4, BossX = 50, BossY = 20\<rparr>)"

definition AvailableMaps :: "MapConfig list" where
  "AvailableMaps = [buildGreenMap, buildCaveMap, buildRuinsMap]"

definition DefaultMapID :: string where
  "DefaultMapID = ''green''"

text \<open>\<open>FindConfig\<close> returns \<open>(MapConfig{}, false)\<close> for an unknown id: \<open>None\<close> here.\<close>

fun find_config :: "string \<Rightarrow> MapConfig list \<Rightarrow> MapConfig option" where
  "find_config i [] = None"
| "find_config i (cfg # cfgs) = (if cfg_ID cfg = i then Some cfg else find_config i cfgs)"

definition FindConfig :: "string \<Rightarrow> MapConfig option" where
  "FindConfig i = find_config i AvailableMaps"

section \<open>Open cells and paths\<close>

definition open_cell :: "grid \<Rightarrow> int \<Rightarrow> int \<Rightarrow> bool" where
  "open_cell t x y \<longleftrightarrow>
     0 \<le> y \<and> y < int (length t) \<and> 0 \<le> x \<and> x < int (length (t ! nat y)) \<and> t ! nat y ! nat x \<noteq> CHR ''#''"

text \<open>The cell one step away, as \<open>World.MovePlayer\<close> computes it from the direction's name.\<close>

definition step_to :: "string \<Rightarrow> int \<Rightarrow> int \<Rightarrow> int \<times> int" where
  "step_to dir x y =
     (if dir = DirUp then (x, y - 1) else if dir = DirDown then (x, y + 1)
      else if dir = DirLeft then (x - 1, y) else if dir = DirRight then (x + 1, y) else (x, y))"

fun walk :: "grid \<Rightarrow> string list \<Rightarrow> int \<times> int \<Rightarrow> (int \<times> int) option" where
  "walk t [] p = Some p"
| "walk t (d # ds) p =
     (let (x, y) = step_to d (fst p) (snd p) in if open_cell t x y then walk t ds (x, y) else None)"

definition closed_border :: "grid \<Rightarrow> bool" where
  "closed_border t \<longleftrightarrow>
     list_all (\<lambda>c. c = CHR ''#'') (hd t) \<and> list_all (\<lambda>c. c = CHR ''#'') (last t) \<and>
     list_all (\<lambda>row. hd row = CHR ''#'' \<and> last row = CHR ''#'') t"

definition wf_config :: "MapConfig \<Rightarrow> bool" where
  "wf_config cfg \<longleftrightarrow>
     length (cfg_Layout cfg) = MapHeight \<and>
     list_all (\<lambda>row. length row = MapWidth) (cfg_Layout cfg) \<and>
     closed_border (stringsToGrid (cfg_Layout cfg)) \<and>
     open_cell (stringsToGrid (cfg_Layout cfg)) (SpawnX cfg) (SpawnY cfg) \<and>
     open_cell (stringsToGrid (cfg_Layout cfg)) (BossX cfg) (BossY cfg)"

definition walled_in :: "grid \<Rightarrow> int \<Rightarrow> int \<Rightarrow> bool" where
  "walled_in t x y \<longleftrightarrow> open_cell t x y \<and>
     list_all (\<lambda>d. \<not> open_cell t (fst (step_to d x y)) (snd (step_to d x y)))
       [DirUp, DirDown, DirLeft, DirRight]"

section \<open>What the builder draws\<close>

lemma green_layout: "cfg_Layout buildGreenMap =
     [''########################################################'',
      ''#.........................#............................#'',
      ''#.........................#..................#.........#'',
      ''#.......##############....#..................#.........#'',
      ''#.......##############....#..................#.........#'',
      ''#.......##############.................................#'',
      ''#.......##############....#..................#.........#'',
      ''#.......##############....#...#######.######.#####.#####'',
      ''#.........................#..................#.........#'',
      ''######.#####.#####.##.....#..................#.........#'',
      ''#.........................#............................#'',
      ''#.........................#..................#.........#'',
      ''#............................................#.........#'',
      ''#.........................#..................#.........#'',
      ''#.........................#......##############........#'',
      ''#.........................#......##############........#'',
      ''#.........................#......##############........#'',
      ''#.........................#......##############........#'',
      ''#......................................................#'',
      ''#.........................#............................#'',
      ''#.........................#............................#'',
      ''#.........................#............................#'',
      ''#......................................................#'',
      ''########################################################'']"
  by code_simp

lemma cave_layout: "cfg_Layout buildCaveMap =
     [''########################################################'',
      ''#...........................#..........................#'',
      ''#...........................#..........................#'',
      ''#...........................#..........................#'',
      ''#.................####.#####.#####.##########.######...#'',
      ''#....##########.............#..........................#'',
      ''#....##########.............#..........................#'',
      ''#....##########.............#..........................#'',
      ''#....##########.............#..........................#'',
      ''#....##########.............#..........................#'',
      ''#....##########...#.........#..........................#'',
      ''#....##########...#....................................#'',
      ''#....##########...#.........#.......############.......#'',
      ''#....##########...#.........#.......############.......#'',
      ''#.................#.........#.......############.......#'',
      ''#...........................#.......############.......#'',
      ''#.................#.........#.......############.......#'',
      ''#.................#.........#.......############.......#'',
      ''#.#######.####.###########..........############.......#'',
      ''#.................#.........#..........................#'',
      ''#.................#.........#..........................#'',
      ''#...........................#..........................#'',
      ''#...........................#..........................#'',
      ''########################################################'']"
  by code_simp

lemma ruins_layout: "cfg_Layout buildRuinsMap =
     [''########################################################'',
      ''#.......................#..............................#'',
      ''#...........#...........#..............................#'',
      ''#...........#...........#.................########.....#'',
      ''#...........#.............................########.....#'',
      ''#.......................#............#....########.....#'',
      ''#.######.#########.####.#............#....########.....#'',
      ''#...........#...........#............#....########.....#'',
      ''#...........#...........#............#.................#'',
      ''#...........#...........#..............................#'',
      ''#...........#........................#.................#'',
      ''#.......................#............#.................#'',
      ''#...........#...........#............#.................#'',
      ''#...........#..####.#########.###########..............#'',
      ''#...........#...........#............#.................#'',
      ''#.....########..........#............#.................#'',
      ''#.....########.......................#.................#'',
      ''#.....######.#..........#..............................#'',
      ''#.....########..........#............#.................#'',
      ''#...........#........................#.................#'',
      ''#...........#........................#.................#'',
      ''#....................................#.................#'',
      ''#....................................#.................#'',
      ''########################################################'']"
  by code_simp

lemma map_ids [simp]:
  "cfg_ID buildGreenMap = ''green''" "cfg_ID buildCaveMap = ''cave''" "cfg_ID buildRuinsMap = ''ruins''"
  by (simp_all add: buildGreenMap_def buildCaveMap_def buildRuinsMap_def Let_def)

lemma map_sites:
  "SpawnX buildGreenMap = 4" "SpawnY buildGreenMap = 4" "BossX buildGreenMap = 50" "BossY buildGreenMap = 20"
  "SpawnX buildCaveMap = 4" "SpawnY buildCaveMap = 20" "BossX buildCaveMap = 49" "BossY buildCaveMap = 20"
  "SpawnX buildRuinsMap = 50" "SpawnY buildRuinsMap = 4" "BossX buildRuinsMap = 50" "BossY buildRuinsMap = 20"
  by (simp_all add: buildGreenMap_def buildCaveMap_def buildRuinsMap_def Let_def)

lemma wf_green: "wf_config buildGreenMap"
  unfolding wf_config_def green_layout map_sites by code_simp

lemma wf_cave: "wf_config buildCaveMap"
  unfolding wf_config_def cave_layout map_sites by code_simp

lemma wf_ruins: "wf_config buildRuinsMap"
  unfolding wf_config_def ruins_layout map_sites by code_simp


lemma FindConfig_Some: "FindConfig i = Some cfg \<Longrightarrow> cfg_ID cfg = i \<and> cfg \<in> set AvailableMaps"
  by (auto simp: FindConfig_def AvailableMaps_def split: if_splits)

lemma FindConfig_known:
  "FindConfig i \<noteq> None \<longleftrightarrow> i = ''green'' \<or> i = ''cave'' \<or> i = ''ruins''"
  by (auto simp: FindConfig_def AvailableMaps_def)

definition green_path :: "string list" where
  "green_path = replicate 4 DirDown @ replicate 2 DirRight @ replicate 10 DirDown @ replicate 21 DirRight @ replicate 2 DirDown @ replicate 23 DirRight"

definition cave_path :: "string list" where
  "cave_path = replicate 1 DirDown @ replicate 15 DirRight @ replicate 2 DirUp @ replicate 7 DirRight @ replicate 1 DirUp @ replicate 3 DirRight @ replicate 2 DirDown @ replicate 20 DirRight"

definition ruins_path :: "string list" where
  "ruins_path = replicate 16 DirDown"

text \<open>On every built-in map a player can walk from the spawn cell to the boss site.\<close>

theorem boss_reachable:
  "walk (stringsToGrid (cfg_Layout buildGreenMap)) green_path (SpawnX buildGreenMap, SpawnY buildGreenMap)
     = Some (BossX buildGreenMap, BossY buildGreenMap) \<and>
   walk (stringsToGrid (cfg_Layout buildCaveMap)) cave_path (SpawnX buildCaveMap, SpawnY buildCaveMap)
     = Some (BossX buildCaveMap, BossY buildCaveMap) \<and>
   walk (stringsToGrid (cfg_Layout buildRuinsMap)) ruins_path (SpawnX buildRuinsMap, SpawnY buildRuinsMap)
     = Some (BossX buildRuinsMap, BossY buildRuinsMap)"
proof (intro conjI)
  show "walk (stringsToGrid (cfg_Layout buildGreenMap)) green_path (SpawnX buildGreenMap, SpawnY buildGreenMap)
     = Some (BossX buildGreenMap, BossY buildGreenMap)"
    unfolding green_layout map_sites by code_simp
  show "walk (stringsToGrid (cfg_Layout buildCaveMap)) cave_path (SpawnX buildCaveMap, SpawnY buildCaveMap)
     = Some (BossX buildCaveMap, BossY buildCaveMap)"
    unfolding cave_layout map_sites by code_simp
  show "walk (stringsToGrid (cfg_Layout buildRuinsMap)) ruins_path (SpawnX buildRuinsMap, SpawnY buildRuinsMap)
     = Some (BossX buildRuinsMap, BossY buildRuinsMap)"
    unfolding ruins_layout map_sites by code_simp
qed

text \<open>The cave map's cell (28,4) and the ruins map's cell (12,17) are carved out of solid wall:
  they are open, so they are spawn candidates, but no step leads out of them.\<close>

theorem carved_pockets:
  "walled_in (stringsToGrid (cfg_Layout buildCaveMap)) 28 4 \<and>
   walled_in (stringsToGrid (cfg_Layout buildRuinsMap)) 12 17"
proof
  show "walled_in (stringsToGrid (cfg_Layout buildCaveMap)) 28 4"
    unfolding cave_layout by code_simp
  show "walled_in (stringsToGrid (cfg_Layout buildRuinsMap)) 12 17"
    unfolding ruins_layout by code_simp
qed

end
