(* ===== verification/World.thy ===== *)
theory World
  imports Maps
begin

text \<open>
  The game world of one map (\<open>world/world.go\<close>, \<open>world/tick.go\<close>): its state as a record and one
  definition per method. Every method of \<open>World\<close> holds the world's mutex for its whole body, so
  it is a function from the world to its result and the world after it.

  \<^item> \<open>now\<close> is the clock: the one reading that stands for the \<open>time.Now()\<close> calls of one method
    body. \<open>rfc3339\<close> is the clock's textual rendering in the process's time zone.
  \<^item> The random source is the sequence \<open>draws\<close> of the values it will produce and the number of
    them already consumed; \<open>Intn n\<close> takes the next one modulo \<open>n\<close>. Every sequence of results of
    \<open>rand.Intn\<close> is one of these, so a theorem about all \<open>draws\<close> covers every run.
  \<^item> \<open>ord\<close> is the order in which \<open>range w.players\<close> visits the players, which Go leaves open,
    where the loop body changes the world. Loops that only search walk the association list.
  \<^item> The texts built by \<open>fmt.Sprintf\<close> are values of \<open>event\<close>, one constructor per format string
    with its arguments; \<open>NoText\<close> is the empty string.
\<close>

record Player =
  p_Username :: string
  p_MapID :: string
  p_X :: int
  p_Y :: int
  p_HP :: int
  p_MaxHP :: int
  p_Attack :: int
  p_Potions :: int
  p_Treasures :: int
  p_Kills :: int
  p_Deaths :: int
  p_Victories :: int
  p_Alive :: bool
  p_RespawnAt :: time
  p_LastUpdate :: time

record NPC =
  n_ID :: string
  n_Name :: string
  n_X :: int
  n_Y :: int
  n_HP :: int
  n_MaxHP :: int
  n_Attack :: int
  n_Alive :: bool

record Treasure =
  t_ID :: string
  t_Kind :: string
  t_X :: int
  t_Y :: int
  t_Value :: int

record rng =
  draws :: "nat \<Rightarrow> nat"
  drawn :: nat

record World =
  w_cfg :: MapConfig
  w_terrain :: grid
  w_players :: "(string, Player) alist"
  w_npcs :: "(string, NPC) alist"
  w_treasures :: "(string, Treasure) alist"
  w_rng :: rng
  w_version :: int
  w_nextNPC :: nat
  w_nextTreasure :: nat

datatype event =
    NoText
  | DownMove string int | Blocked string | Moved string int int | PickedUp string int int string int
  | DownHeal string int | NoPotions string | Healed string int
  | DownAttack string int | HitNPC string string int | KilledNPC string string | NoTarget string
  | HitPlayer string string int | YouWereHit string int | KilledPlayer string string
  | YouWereKilled string int
  | DownShop string int | LootShortPotion | PotionsFull | BoughtPotion string
  | LootShortWeapon | BoughtWeapon string | NoSuchItem
  | Revived string | SpawnedNPC string string int int | SpawnedTreasure string int int
  | KnockedDown string string | NPCHit string string int
  | BossDownAttack | BossRespawning | BossNoSite | BossOutOfRange int
  | BossHit string string int int | BossKilled string string int int string

section \<open>Helpers\<close>

definition valueOr :: "int \<Rightarrow> int \<Rightarrow> int" where
  "valueOr v fallback = (if v = 0 then fallback else v)"

definition distance :: "int \<Rightarrow> int \<Rightarrow> int \<Rightarrow> int \<Rightarrow> int" where
  "distance ax ay bx by' = \<bar>ax - bx\<bar> + \<bar>ay - by'\<bar>"

definition Intn :: "nat \<Rightarrow> World \<Rightarrow> nat \<times> World" where
  "Intn n w = (let r = w_rng w in (draws r (drawn r) mod n, w\<lparr>w_rng := r\<lparr>drawn := Suc (drawn r)\<rparr>\<rparr>))"

definition bump_version :: "World \<Rightarrow> World" where
  "bump_version w = w\<lparr>w_version := w_version w + 1\<rparr>"

text \<open>Writes through the pointer stored under a key.\<close>

definition set_player :: "string \<Rightarrow> Player \<Rightarrow> World \<Rightarrow> World" where
  "set_player k p w = w\<lparr>w_players := AList.update k p (w_players w)\<rparr>"

definition set_npc :: "string \<Rightarrow> NPC \<Rightarrow> World \<Rightarrow> World" where
  "set_npc k n w = w\<lparr>w_npcs := AList.update k n (w_npcs w)\<rparr>"

definition set_treasure :: "string \<Rightarrow> Treasure \<Rightarrow> World \<Rightarrow> World" where
  "set_treasure k t w = w\<lparr>w_treasures := AList.update k t (w_treasures w)\<rparr>"

definition terrain_width :: "World \<Rightarrow> int" where
  "terrain_width w = int (length (hd (w_terrain w)))"

definition terrain_height :: "World \<Rightarrow> int" where
  "terrain_height w = int (length (w_terrain w))"

definition treasureAtLocked :: "int \<Rightarrow> int \<Rightarrow> World \<Rightarrow> (string \<times> Treasure) option" where
  "treasureAtLocked x y w = List.find (\<lambda>(i, t). t_X t = x \<and> t_Y t = y) (w_treasures w)"

definition walkableForLocked :: "int \<Rightarrow> int \<Rightarrow> string \<Rightarrow> World \<Rightarrow> bool" where
  "walkableForLocked x y ignorePlayer w =
     (if y < 0 \<or> y \<ge> int (length (w_terrain w)) \<or> x < 0 \<or> x \<ge> int (length (w_terrain w ! nat y))
      then False
      else if w_terrain w ! nat y ! nat x = CHR ''#'' then False
      else if list_ex (\<lambda>(_, p). p_Username p \<noteq> ignorePlayer \<and> p_Alive p \<and> p_X p = x \<and> p_Y p = y)
                (w_players w) then False
      else if list_ex (\<lambda>(_, n). n_Alive n \<and> n_X n = x \<and> n_Y n = y) (w_npcs w) then False
      else True)"

definition all_cells :: "World \<Rightarrow> (int \<times> int) list" where
  "all_cells w = concat (map (\<lambda>y. map (\<lambda>x. (int x, int y)) [0..<length (w_terrain w ! y)])
                           [0..<length (w_terrain w)])"

fun random_tries :: "nat \<Rightarrow> string \<Rightarrow> World \<Rightarrow> (int \<times> int) option \<times> World" where
  "random_tries 0 ignorePlayer w = (None, w)"
| "random_tries (Suc n) ignorePlayer w =
     (let (x, w) = Intn (length (hd (w_terrain w))) w;
          (y, w) = Intn (length (w_terrain w)) w
      in if walkableForLocked (int x) (int y) ignorePlayer w then (Some (int x, int y), w)
         else random_tries n ignorePlayer w)"

definition randomOpenCellLocked :: "string \<Rightarrow> World \<Rightarrow> (int \<times> int) option \<times> World" where
  "randomOpenCellLocked ignorePlayer w =
     (case random_tries 256 ignorePlayer w of
        (Some c, w) \<Rightarrow> (Some c, w)
      | (None, w) \<Rightarrow> (List.find (\<lambda>(x, y). walkableForLocked x y ignorePlayer w) (all_cells w), w))"

section \<open>Choosing a spawn cell\<close>

definition nearest :: "int \<Rightarrow> int \<Rightarrow> (int \<times> int) list \<Rightarrow> int" where
  "nearest x y ps =
     fold (\<lambda>(a, b) best. if distance x y a b < best then distance x y a b else best) ps
       (int (MapWidth + MapHeight))"

definition spawnScoreLocked :: "int \<Rightarrow> int \<Rightarrow> bool \<Rightarrow> World \<Rightarrow> int" where
  "spawnScoreLocked x y preferNPC w =
     (let bestNPC = nearest x y (map (\<lambda>(_, n). (n_X n, n_Y n)) (filter (\<lambda>(_, n). n_Alive n) (w_npcs w)));
          bestPlayer = nearest x y (map (\<lambda>(_, p). (p_X p, p_Y p)) (filter (\<lambda>(_, p). p_Alive p) (w_players w)));
          bestTreasure = nearest x y (map (\<lambda>(_, t). (t_X t, t_Y t)) (w_treasures w));
          width = terrain_width w;
          height = terrain_height w;
          edgeMargin = min (min x (width - 1 - x)) (min y (height - 1 - y));
          centerDist = distance x y (width div 2) (height div 2);
          score = bestNPC * 120 + bestPlayer * 20 + bestTreasure * 15 + edgeMargin * 30 - centerDist * 3
      in if preferNPC then score + distance x y (SpawnX (w_cfg w)) (SpawnY (w_cfg w)) * 2 else score)"

text \<open>The candidates sorted by falling score, then by row, then by column.\<close>

definition spawn_candidates :: "string \<Rightarrow> bool \<Rightarrow> World \<Rightarrow> (int \<times> int) list" where
  "spawn_candidates ignorePlayer preferNPC w =
     map (\<lambda>(s, y, x). (x, y))
       (sort (map (\<lambda>(x, y). (- spawnScoreLocked x y preferNPC w, y, x))
                (filter (\<lambda>(x, y). walkableForLocked x y ignorePlayer w) (all_cells w))))"

definition bestSpawnCellLocked :: "string \<Rightarrow> bool \<Rightarrow> World \<Rightarrow> (int \<times> int) option \<times> World" where
  "bestSpawnCellLocked ignorePlayer preferNPC w =
     (let candidates = spawn_candidates ignorePlayer preferNPC w
      in if candidates = [] then (None, w)
         else let limit = (if length candidates < 12 then length candidates else 12);
                  (k, w) = Intn limit w
              in (Some (candidates ! k), w))"

definition findSafePositionLocked :: "int \<Rightarrow> int \<Rightarrow> string \<Rightarrow> World \<Rightarrow> (int \<times> int) \<times> World" where
  "findSafePositionLocked preferredX preferredY ignorePlayer w =
     (if walkableForLocked preferredX preferredY ignorePlayer w then ((preferredX, preferredY), w)
      else case bestSpawnCellLocked ignorePlayer True w of
             (Some c, w) \<Rightarrow> (c, w)
           | (None, w) \<Rightarrow> ((SpawnX (w_cfg w), SpawnY (w_cfg w)), w))"

section \<open>Life and death of a player\<close>

definition knockDownPlayerLocked :: "time \<Rightarrow> Player \<Rightarrow> Player" where
  "knockDownPlayerLocked now p =
     p\<lparr>p_HP := 0, p_Alive := False, p_Deaths := p_Deaths p + 1,
       p_RespawnAt := now + 4 * second, p_LastUpdate := now\<rparr>"

definition refreshPlayerStateLocked :: "time \<Rightarrow> string \<Rightarrow> World \<Rightarrow> World" where
  "refreshPlayerStateLocked now k w =
     (case map_of (w_players w) k of
        None \<Rightarrow> w
      | Some p \<Rightarrow>
          if p_Alive p \<or> IsZero (p_RespawnAt p) \<or> now < p_RespawnAt p then w
          else let ((x, y), w) = findSafePositionLocked (SpawnX (w_cfg w)) (SpawnY (w_cfg w)) (p_Username p) w
               in bump_version (set_player k
                    (p\<lparr>p_X := x, p_Y := y, p_HP := p_MaxHP p, p_Potions := max (p_Potions p) MaxPotions,
                       p_Alive := True, p_RespawnAt := zero_time, p_LastUpdate := now\<rparr>) w))"

definition respawnPlayer :: "time \<Rightarrow> string \<Rightarrow> World \<Rightarrow> World" where
  "respawnPlayer now username w =
     (case map_of (w_players w) username of
        None \<Rightarrow> w
      | Some p \<Rightarrow>
          if p_Alive p then w
          else let ((x, y), w) = findSafePositionLocked (SpawnX (w_cfg w)) (SpawnY (w_cfg w)) username w
               in bump_version (set_player username
                    (p\<lparr>p_X := x, p_Y := y, p_HP := p_MaxHP p, p_Potions := MaxPotions,
                       p_Alive := True, p_RespawnAt := zero_time, p_LastUpdate := now\<rparr>) w))"

definition playerRespawnInLocked :: "time \<Rightarrow> Player \<Rightarrow> int" where
  "playerRespawnInLocked now p =
     (if p_Alive p \<or> IsZero (p_RespawnAt p) then 0
      else let remain = (p_RespawnAt p - now) div second in if remain < 1 then 1 else remain)"

definition profileLocked :: "World \<Rightarrow> Player \<Rightarrow> UserProfile" where
  "profileLocked w p =
     \<lparr>u_Username = p_Username p, u_PasswordHash = [], u_LastMap = cfg_ID (w_cfg w), u_LastNode = [],
      u_X = p_X p, u_Y = p_Y p, u_HP = p_HP p, u_MaxHP = p_MaxHP p, u_Attack = p_Attack p,
      u_Potions = p_Potions p, u_Treasures = p_Treasures p, u_Kills = p_Kills p,
      u_Deaths = p_Deaths p, u_Victories = p_Victories p, u_Alive = p_Alive p\<rparr>"

definition playerViewLocked :: "(time \<Rightarrow> string) \<Rightarrow> time \<Rightarrow> Player \<Rightarrow> PlayerView" where
  "playerViewLocked rfc3339 now p =
     \<lparr>pv_Username = p_Username p, pv_MapID = p_MapID p, pv_X = p_X p, pv_Y = p_Y p, pv_HP = p_HP p,
      pv_MaxHP = p_MaxHP p, pv_Attack = p_Attack p, pv_Potions = p_Potions p,
      pv_Treasures = p_Treasures p, pv_Kills = p_Kills p, pv_Deaths = p_Deaths p,
      pv_Victories = p_Victories p, pv_Alive = p_Alive p, pv_RespawnIn = playerRespawnInLocked now p,
      pv_LastUpdate = rfc3339 (p_LastUpdate p)\<rparr>"

section \<open>Players enter and leave\<close>

definition restored_player :: "time \<Rightarrow> World \<Rightarrow> UserProfile \<Rightarrow> int \<Rightarrow> int \<Rightarrow> Player" where
  "restored_player now w profile x y =
     (let player =
            \<lparr>p_Username = u_Username profile, p_MapID = cfg_ID (w_cfg w), p_X = x, p_Y = y,
             p_HP = valueOr (u_HP profile) InitHP, p_MaxHP = valueOr (u_MaxHP profile) InitHP,
             p_Attack = valueOr (u_Attack profile) InitAttack,
             p_Potions = valueOr (u_Potions profile) MaxPotions,
             p_Treasures = u_Treasures profile, p_Kills = u_Kills profile,
             p_Deaths = u_Deaths profile, p_Victories = u_Victories profile,
             p_Alive = u_Alive profile, p_RespawnAt = zero_time, p_LastUpdate = now\<rparr>;
          player = (if u_HP profile = 0 \<and> \<not> u_Alive profile then player\<lparr>p_Alive := False\<rparr> else player)
      in if p_HP player \<le> 0 then player\<lparr>p_HP := p_MaxHP player, p_Alive := True\<rparr> else player)"

definition AddOrRestorePlayer ::
    "(time \<Rightarrow> string) \<Rightarrow> time \<Rightarrow> UserProfile \<Rightarrow> World \<Rightarrow> PlayerView \<times> World" where
  "AddOrRestorePlayer rfc3339 now profile w =
     (let (x, y) = (if u_LastMap profile \<noteq> cfg_ID (w_cfg w) then (SpawnX (w_cfg w), SpawnY (w_cfg w))
                    else (u_X profile, u_Y profile));
          ((x, y), w) = findSafePositionLocked x y [] w;
          player = restored_player now w profile x y;
          w = bump_version (set_player (p_Username player) player w)
      in (playerViewLocked rfc3339 now player, w))"

definition RemovePlayer :: "string \<Rightarrow> World \<Rightarrow> (UserProfile \<times> bool) \<times> World" where
  "RemovePlayer username w =
     (case map_of (w_players w) username of
        None \<Rightarrow> ((zero_UserProfile, False), w)
      | Some p \<Rightarrow> ((profileLocked w p, True),
                    bump_version (w\<lparr>w_players := AList.delete username (w_players w)\<rparr>)))"

definition ProfileOf :: "time \<Rightarrow> string \<Rightarrow> World \<Rightarrow> (UserProfile \<times> bool) \<times> World" where
  "ProfileOf now username w =
     (case map_of (w_players w) username of
        None \<Rightarrow> ((zero_UserProfile, False), w)
      | Some _ \<Rightarrow>
          let w = refreshPlayerStateLocked now username w
          in ((profileLocked w (the (map_of (w_players w) username)), True), w))"

fun FlushProfiles :: "time \<Rightarrow> time \<Rightarrow> string list \<Rightarrow> World \<Rightarrow> UserProfile list \<times> World" where
  "FlushProfiles now since [] w = ([], w)"
| "FlushProfiles now since (k # ord) w =
     (let w = refreshPlayerStateLocked now k w;
          (rest, w') = FlushProfiles now since ord w
      in (case map_of (w_players w) k of
            None \<Rightarrow> (rest, w')
          | Some p \<Rightarrow> (if p_LastUpdate p > since then profileLocked w p # rest else rest, w')))"

section \<open>Commands of a player\<close>

text \<open>
  The opening of every command: an unknown player is refused, a player whose respawn time has
  come is revived first.
\<close>

definition MovePlayer ::
    "time \<Rightarrow> string \<Rightarrow> string \<Rightarrow> World \<Rightarrow> (event \<times> UserProfile \<times> bool) \<times> World" where
  "MovePlayer now username dir w =
     (case map_of (w_players w) username of
        None \<Rightarrow> ((NoText, zero_UserProfile, False), w)
      | Some _ \<Rightarrow>
          let w = refreshPlayerStateLocked now username w;
              player = the (map_of (w_players w) username)
          in if \<not> p_Alive player then
               ((DownMove username (playerRespawnInLocked now player), profileLocked w player, True), w)
             else
               let (nx, ny) = step_to dir (p_X player) (p_Y player)
               in if \<not> walkableForLocked nx ny (p_Username player) w then
                    ((Blocked username, profileLocked w player, True), w)
                  else
                    let player = player\<lparr>p_X := nx, p_Y := ny, p_LastUpdate := now\<rparr>
                    in case treasureAtLocked nx ny w of
                         None \<Rightarrow>
                           let w = bump_version (set_player username player w)
                           in ((Moved username nx ny, profileLocked w player, True), w)
                       | Some (treasureID, treasure) \<Rightarrow>
                           let player = player\<lparr>p_Treasures := p_Treasures player + t_Value treasure\<rparr>;
                               w = set_player username player w;
                               w = w\<lparr>w_treasures := AList.delete treasureID (w_treasures w)\<rparr>;
                               w = bump_version w
                           in ((PickedUp username nx ny (t_Kind treasure) (t_Value treasure),
                                profileLocked w player, True), w))"

definition HealPlayer :: "time \<Rightarrow> string \<Rightarrow> World \<Rightarrow> (event \<times> UserProfile \<times> bool) \<times> World" where
  "HealPlayer now username w =
     (case map_of (w_players w) username of
        None \<Rightarrow> ((NoText, zero_UserProfile, False), w)
      | Some _ \<Rightarrow>
          let w = refreshPlayerStateLocked now username w;
              player = the (map_of (w_players w) username)
          in if \<not> p_Alive player then
               ((DownHeal username (playerRespawnInLocked now player), profileLocked w player, True), w)
             else if p_Potions player \<le> 0 then
               ((NoPotions username, profileLocked w player, True), w)
             else
               let before = p_HP player;
                   player = player\<lparr>p_Potions := p_Potions player - 1, p_HP := p_HP player + HealAmount\<rparr>;
                   player = (if p_HP player > p_MaxHP player then player\<lparr>p_HP := p_MaxHP player\<rparr> else player);
                   player = player\<lparr>p_LastUpdate := now\<rparr>;
                   w = bump_version (set_player username player w)
               in ((Healed username (p_HP player - before), profileLocked w player, True), w))"

definition BuyItem ::
    "time \<Rightarrow> string \<Rightarrow> string \<Rightarrow> World \<Rightarrow> (event \<times> UserProfile \<times> bool) \<times> World" where
  "BuyItem now username item w =
     (case map_of (w_players w) username of
        None \<Rightarrow> ((NoText, zero_UserProfile, False), w)
      | Some _ \<Rightarrow>
          let w = refreshPlayerStateLocked now username w;
              player = the (map_of (w_players w) username)
          in if \<not> p_Alive player then
               ((DownShop username (playerRespawnInLocked now player), profileLocked w player, True), w)
             else if item = ''potion'' then
               (if p_Treasures player < PotionPrice then
                  ((LootShortPotion, profileLocked w player, True), w)
                else if p_Potions player \<ge> PotionCap then
                  ((PotionsFull, profileLocked w player, True), w)
                else
                  let player = player\<lparr>p_Treasures := p_Treasures player - PotionPrice,
                                      p_Potions := p_Potions player + 1, p_LastUpdate := now\<rparr>;
                      w = bump_version (set_player username player w)
                  in ((BoughtPotion username, profileLocked w player, True), w))
             else if item = ''weapon'' then
               (if p_Treasures player < WeaponPrice then
                  ((LootShortWeapon, profileLocked w player, True), w)
                else
                  let player = player\<lparr>p_Treasures := p_Treasures player - WeaponPrice,
                                      p_Attack := p_Attack player + WeaponBoost, p_LastUpdate := now\<rparr>;
                      w = bump_version (set_player username player w)
                  in ((BoughtWeapon username, profileLocked w player, True), w))
             else ((NoSuchItem, profileLocked w player, True), w))"

definition RewardPlayer :: "time \<Rightarrow> string \<Rightarrow> int \<Rightarrow> int \<Rightarrow> World \<Rightarrow> (UserProfile \<times> bool) \<times> World" where
  "RewardPlayer now username treasureDelta victoryDelta w =
     (case map_of (w_players w) username of
        None \<Rightarrow> ((zero_UserProfile, False), w)
      | Some player \<Rightarrow>
          let player = player\<lparr>p_Treasures := p_Treasures player + treasureDelta,
                              p_Victories := p_Victories player + victoryDelta, p_LastUpdate := now\<rparr>;
              w = bump_version (set_player username player w)
          in ((profileLocked w player, True), w))"

section \<open>Loot\<close>

definition treasure_id :: "World \<Rightarrow> nat \<Rightarrow> string" where
  "treasure_id w n = cfg_ID (w_cfg w) @ ''-t-'' @ itoa n"

definition dropTreasureLocked ::
    "int \<Rightarrow> int \<Rightarrow> int \<Rightarrow> string \<Rightarrow> World \<Rightarrow> Treasure option \<times> World" where
  "dropTreasureLocked x y value kind w =
     (if x < 0 \<or> y < 0 \<or> y \<ge> int (length (w_terrain w)) \<or> x \<ge> int (length (w_terrain w ! nat y))
      then (None, w)
      else case treasureAtLocked x y w of
             Some (i, t) \<Rightarrow>
               let t = t\<lparr>t_Value := t_Value t + value\<rparr>
               in (Some t, bump_version (set_treasure i t w))
           | None \<Rightarrow>
               let i = treasure_id w (w_nextTreasure w);
                   w = w\<lparr>w_nextTreasure := w_nextTreasure w + 1\<rparr>;
                   t = \<lparr>t_ID = i, t_Kind = kind, t_X = x, t_Y = y, t_Value = value\<rparr>
               in (Some t, bump_version (set_treasure i t w)))"

definition spawnTreasureLocked :: "string \<Rightarrow> World \<Rightarrow> Treasure option \<times> World" where
  "spawnTreasureLocked kind w =
     (case bestSpawnCellLocked [] False w of
        (None, w) \<Rightarrow> (None, w)
      | (Some (x, y), w) \<Rightarrow>
          let (v, w) = Intn 4 w in dropTreasureLocked x y (1 + int v) kind w)"

definition loot_kind_npc :: string where
  "loot_kind_npc = utf8 [0xE6, 0x80, 0xAA, 0xE7, 0x89, 0xA9, 0xE6, 0x88, 0x98, 0xE5, 0x88, 0xA9, 0xE5, 0x93, 0x81]"

definition loot_kind_wild :: string where
  "loot_kind_wild = utf8 [0xE9, 0x87, 0x8E, 0xE5, 0xA4, 0x96, 0xE5, 0xAE, 0x9D, 0xE7, 0xAE, 0xB1]"

definition loot_kind_relic :: string where
  "loot_kind_relic = utf8 [0xE9, 0x81, 0x97, 0xE8, 0xBF, 0xB9, 0xE8, 0xA1, 0xA5, 0xE7, 0xBB, 0x99]"

section \<open>Attack\<close>

definition pick_npc :: "int \<Rightarrow> int \<Rightarrow> (string, NPC) alist \<Rightarrow> NPC option" where
  "pick_npc x y npcs =
     fold (\<lambda>(_, n) best.
             if \<not> n_Alive n \<or> distance x y (n_X n) (n_Y n) > AttackRange then best
             else case best of
                    None \<Rightarrow> Some n
                  | Some b \<Rightarrow> if n_HP n < n_HP b \<or> (n_HP n = n_HP b \<and> n_ID n < n_ID b) then Some n else best)
       npcs None"

definition pick_player :: "string \<Rightarrow> int \<Rightarrow> int \<Rightarrow> (string, Player) alist \<Rightarrow> Player option" where
  "pick_player username x y players =
     fold (\<lambda>(_, p) best.
             if p_Username p = username \<or> \<not> p_Alive p \<or> distance x y (p_X p) (p_Y p) > AttackRange then best
             else case best of
                    None \<Rightarrow> Some p
                  | Some b \<Rightarrow> if p_HP p < p_HP b \<or> (p_HP p = p_HP b \<and> p_Username p < p_Username b)
                              then Some p else best)
       players None"

definition Attack ::
    "time \<Rightarrow> string \<Rightarrow> World \<Rightarrow> (event \<times> string \<times> event \<times> UserProfile \<times> bool) \<times> World" where
  "Attack now username w =
     (case map_of (w_players w) username of
        None \<Rightarrow> ((NoText, [], NoText, zero_UserProfile, False), w)
      | Some _ \<Rightarrow>
          let w = refreshPlayerStateLocked now username w;
              player = the (map_of (w_players w) username)
          in if \<not> p_Alive player then
               ((DownAttack username (playerRespawnInLocked now player), [], NoText,
                 profileLocked w player, True), w)
             else
               case pick_npc (p_X player) (p_Y player) (w_npcs w) of
                 Some npc \<Rightarrow>
                   let npc = npc\<lparr>n_HP := n_HP npc - p_Attack player\<rparr>;
                       player = player\<lparr>p_LastUpdate := now\<rparr>
                   in if n_HP npc \<le> 0 then
                        let player = player\<lparr>p_Kills := p_Kills player + 1\<rparr>;
                            w = w\<lparr>w_npcs := AList.delete (n_ID npc) (w_npcs w)\<rparr>;
                            w = set_player username player w;
                            (v, w) = Intn 3 w;
                            (_, w) = dropTreasureLocked (n_X npc) (n_Y npc) (2 + int v) loot_kind_npc w;
                            w = bump_version w
                        in ((KilledNPC username (n_Name npc), [], NoText, profileLocked w player, True), w)
                      else
                        let w = set_player username player (set_npc (n_ID npc) npc w);
                            w = bump_version w
                        in ((HitNPC username (n_Name npc) (p_Attack player), [], NoText,
                             profileLocked w player, True), w)
               | None \<Rightarrow>
                   (case pick_player username (p_X player) (p_Y player) (w_players w) of
                      None \<Rightarrow> ((NoTarget username, [], NoText, profileLocked w player, True), w)
                    | Some target \<Rightarrow>
                        let target = target\<lparr>p_HP := p_HP target - p_Attack player\<rparr>;
                            player = player\<lparr>p_LastUpdate := now\<rparr>
                        in if p_HP target \<le> 0 then
                             let player = player\<lparr>p_Kills := p_Kills player + 1\<rparr>;
                                 target = knockDownPlayerLocked now target;
                                 w = set_player username player (set_player (p_Username target) target w);
                                 w = bump_version w
                             in ((KilledPlayer username (p_Username target), p_Username target,
                                  YouWereKilled username (playerRespawnInLocked now target),
                                  profileLocked w player, True), w)
                           else
                             let w = set_player username player (set_player (p_Username target) target w);
                                 w = bump_version w
                             in ((HitPlayer username (p_Username target) (p_Attack player), p_Username target,
                                  YouWereHit username (p_Attack player), profileLocked w player, True), w)))"

section \<open>Boss helpers and counters\<close>

definition Sl2_WithinRange :: "string \<Rightarrow> World \<Rightarrow> bool" where
  "Sl2_WithinRange username w =
     (case map_of (w_players w) username of
        None \<Rightarrow> False
      | Some p \<Rightarrow> distance (BossX (w_cfg w)) (BossY (w_cfg w)) (p_X p) (p_Y p) \<le> BossAtkRange)"

definition Sl2_GetDamadge :: "string \<Rightarrow> World \<Rightarrow> int" where
  "Sl2_GetDamadge username w = (case map_of (w_players w) username of None \<Rightarrow> 0 | Some p \<Rightarrow> p_Attack p)"

definition Counts :: "World \<Rightarrow> int \<times> int \<times> int \<times> int" where
  "Counts w = (int (length (w_players w)), int (length (w_npcs w)), int (length (w_treasures w)), w_version w)"

end
