(* ===== verification/Tick.thy ===== *)
theory Tick
  imports World "HOL-Library.Monad_Syntax"
begin

text \<open>
  The autonomous part of a world (\<open>world/tick.go\<close>): spawning, the background step and the
  construction of a new world.

  \<^item> The loop that refills the monsters in \<open>BackgroundStep\<close> always ends, although a spawn does
    not always add a monster: after \<open>RestoreCheckpoint\<close> the next id can be in use already, and
    the new monster then replaces the old one. \<open>npc_loop\<close> is defined with a termination proof
    whose measure counts the ids still in the way.
  \<^item> The two loops of \<open>bootstrap\<close> ignore the result of the spawn, so they never end on a map
    without a free cell, and the treasure loop depends on the dice: they are
    \<open>partial_function\<close>s, with \<open>None\<close> for a run that does not return.
\<close>

section \<open>Spawning monsters\<close>

definition npc_id :: "World \<Rightarrow> nat \<Rightarrow> string" where
  "npc_id w n = cfg_ID (w_cfg w) @ ''-npc-'' @ itoa n"

definition npc_names :: "string list" where
  "npc_names =
     [utf8 [0xE5, 0x8F, 0xB2, 0xE8, 0x8E, 0xB1, 0xE5, 0xA7, 0x86],
      utf8 [0xE8, 0x8D, 0x92, 0xE5, 0x8E, 0x9F, 0xE7, 0x8B, 0xBC],
      utf8 [0xE6, 0xB5, 0x81, 0xE5, 0xAF, 0x87],
      utf8 [0xE5, 0xAE, 0x9D, 0xE5, 0x8C, 0xA3, 0xE6, 0x80, 0xAA],
      utf8 [0xE7, 0x9F, 0xB3, 0xE5, 0x83, 0x8F, 0xE9, 0xAD, 0x94],
      utf8 [0xE6, 0xBD, 0x9C, 0xE8, 0xA1, 0x8C, 0xE5, 0x85, 0xBD]]"

definition spawnNPCLocked :: "World \<Rightarrow> NPC option \<times> World" where
  "spawnNPCLocked w =
     (case bestSpawnCellLocked [] True w of
        (None, w) \<Rightarrow> (None, w)
      | (Some (x, y), w) \<Rightarrow>
          let i = npc_id w (w_nextNPC w);
              (d, w) = Intn 30 w;
              npc = \<lparr>n_ID = i, n_Name = npc_names ! (w_nextNPC w mod length npc_names),
                     n_X = x, n_Y = y, n_HP = 70 + int d, n_MaxHP = 90, n_Attack = NPCDamage,
                     n_Alive = True\<rparr>;
              w = w\<lparr>w_nextNPC := w_nextNPC w + 1\<rparr>
          in (Some npc, bump_version (set_npc i npc w)))"

section \<open>Frame facts needed for termination\<close>

lemma Intn_frame [simp]:
  "w_cfg (snd (Intn n w)) = w_cfg w" "w_terrain (snd (Intn n w)) = w_terrain w"
  "w_players (snd (Intn n w)) = w_players w" "w_npcs (snd (Intn n w)) = w_npcs w"
  "w_treasures (snd (Intn n w)) = w_treasures w" "w_version (snd (Intn n w)) = w_version w"
  "w_nextNPC (snd (Intn n w)) = w_nextNPC w" "w_nextTreasure (snd (Intn n w)) = w_nextTreasure w"
  by (simp_all add: Intn_def Let_def)

lemma bestSpawnCell_frame [simp]:
  "w_cfg (snd (bestSpawnCellLocked u b w)) = w_cfg w"
  "w_terrain (snd (bestSpawnCellLocked u b w)) = w_terrain w"
  "w_players (snd (bestSpawnCellLocked u b w)) = w_players w"
  "w_npcs (snd (bestSpawnCellLocked u b w)) = w_npcs w"
  "w_treasures (snd (bestSpawnCellLocked u b w)) = w_treasures w"
  "w_version (snd (bestSpawnCellLocked u b w)) = w_version w"
  "w_nextNPC (snd (bestSpawnCellLocked u b w)) = w_nextNPC w"
  "w_nextTreasure (snd (bestSpawnCellLocked u b w)) = w_nextTreasure w"
  by (simp_all add: bestSpawnCellLocked_def Let_def Intn_def)

lemma npc_id_inject [simp]: "npc_id w m = npc_id w n \<longleftrightarrow> m = n"
  by (simp add: npc_id_def)

lemma npc_id_cong: "w_cfg w' = w_cfg w \<Longrightarrow> npc_id w' = npc_id w"
  by (auto simp: npc_id_def)

text \<open>What one spawn does to the fields the loop reads.\<close>

lemma spawnNPC_Some:
  assumes "spawnNPCLocked w = (Some npc, w')"
  shows "w_cfg w' = w_cfg w" and "w_nextNPC w' = Suc (w_nextNPC w)"
    and "w_npcs w' = AList.update (npc_id w (w_nextNPC w)) npc (w_npcs w)"
    and "n_ID npc = npc_id w (w_nextNPC w)"
  using assms
  by (auto simp: spawnNPCLocked_def Let_def set_npc_def bump_version_def npc_id_def Intn_def
      bestSpawnCellLocked_def split: prod.splits option.splits if_splits)

definition ids_in_the_way :: "World \<Rightarrow> nat set" where
  "ids_in_the_way w = {i. w_nextNPC w \<le> i \<and> npc_id w i \<in> set (keys (w_npcs w))}"

lemma finite_ids_in_the_way [simp]: "finite (ids_in_the_way w)"
proof -
  have "npc_id w ` ids_in_the_way w \<subseteq> set (keys (w_npcs w))"
    by (auto simp: ids_in_the_way_def)
  then have "finite (npc_id w ` ids_in_the_way w)"
    using finite_subset by blast
  then show ?thesis
    by (rule finite_imageD) (simp add: inj_on_def)
qed

lemma spawn_decreases:
  assumes few: "length (w_npcs w) < MinNPCs" and s: "spawnNPCLocked w = (Some npc, w')"
  shows "(MinNPCs - length (w_npcs w')) + card (ids_in_the_way w')
         < (MinNPCs - length (w_npcs w)) + card (ids_in_the_way w)"
proof -
  note f = spawnNPC_Some [OF s]
  let ?i = "npc_id w (w_nextNPC w)"
  have way: "ids_in_the_way w' = ids_in_the_way w - {w_nextNPC w}"
    by (auto simp: ids_in_the_way_def npc_id_cong [OF f(1)] f(2,3) keys_update Suc_le_eq le_less image_iff)
  show ?thesis
  proof (cases "?i \<in> set (keys (w_npcs w))")
    case True
    then have "w_nextNPC w \<in> ids_in_the_way w" by (simp add: ids_in_the_way_def)
    then have "card (ids_in_the_way w') < card (ids_in_the_way w)"
      unfolding way by (intro psubset_card_mono) auto
    with True show ?thesis by (simp add: f(3))
  next
    case False
    then have "length (w_npcs w') = Suc (length (w_npcs w))" by (simp add: f(3))
    moreover have "card (ids_in_the_way w') \<le> card (ids_in_the_way w)"
      unfolding way by (intro card_mono) auto
    ultimately show ?thesis using few by linarith
  qed
qed

section \<open>The background step\<close>

function npc_loop :: "World \<Rightarrow> event list \<times> World" where
  "npc_loop w =
     (if length (w_npcs w) < MinNPCs then
        (case spawnNPCLocked w of
           (Some npc, w') \<Rightarrow>
             let (events, w'') = npc_loop w'
             in (SpawnedNPC (cfg_Name (w_cfg w)) (n_Name npc) (n_X npc) (n_Y npc) # events, w'')
         | (None, w') \<Rightarrow> ([], w'))
      else ([], w))"
  by pat_completeness auto
termination
proof (relation "measure (\<lambda>w. (MinNPCs - length (w_npcs w)) + card (ids_in_the_way w))", goal_cases)
  case 1
  show ?case by simp
next
  case (2 w x y npc)
  then show ?case using spawn_decreases [of w npc y] by simp
qed

declare npc_loop.simps [simp del]

fun refresh_loop :: "time \<Rightarrow> string list \<Rightarrow> World \<Rightarrow> event list \<times> World" where
  "refresh_loop now [] w = ([], w)"
| "refresh_loop now (k # ord) w =
     (case map_of (w_players w) k of
        None \<Rightarrow> refresh_loop now ord w
      | Some p \<Rightarrow>
          let w' = refreshPlayerStateLocked now k w;
              revived = \<not> p_Alive p \<and> p_Alive (the (map_of (w_players w') k));
              (events, w'') = refresh_loop now ord w'
          in (if revived then Revived (p_Username p) # events else events, w''))"

text \<open>
  \<open>closestPlayerLocked\<close> returns a pointer into \<open>w.players\<close>: the key of the chosen player here.
\<close>

fun closest_loop :: "time \<Rightarrow> int \<Rightarrow> int \<Rightarrow> int \<Rightarrow> string list \<Rightarrow> string option \<Rightarrow> World \<Rightarrow> string option \<times> World" where
  "closest_loop now x y radius [] best w = (best, w)"
| "closest_loop now x y radius (k # ord) best w =
     (let w = refreshPlayerStateLocked now k w
      in case map_of (w_players w) k of
           None \<Rightarrow> closest_loop now x y radius ord best w
         | Some p \<Rightarrow>
             if \<not> p_Alive p \<or> distance x y (p_X p) (p_Y p) > radius
             then closest_loop now x y radius ord best w
             else
               let better = (case best of
                               None \<Rightarrow> True
                             | Some j \<Rightarrow>
                                 let b = the (map_of (w_players w) j)
                                 in p_HP p < p_HP b \<or> (p_HP p = p_HP b \<and> p_Username p < p_Username b))
               in closest_loop now x y radius ord (if better then Some k else best) w)"

definition closestPlayerLocked :: "time \<Rightarrow> int \<Rightarrow> int \<Rightarrow> int \<Rightarrow> string list \<Rightarrow> World \<Rightarrow> string option \<times> World" where
  "closestPlayerLocked now x y radius ord w = closest_loop now x y radius ord None w"

definition npc_step_to :: "nat \<Rightarrow> int \<Rightarrow> int \<Rightarrow> int \<times> int" where
  "npc_step_to d x y =
     (if d = 0 then (x, y - 1) else if d = 1 then (x, y + 1) else if d = 2 then (x - 1, y) else (x + 1, y))"

fun wander_loop :: "nat list \<Rightarrow> string \<Rightarrow> NPC \<Rightarrow> World \<Rightarrow> World" where
  "wander_loop [] i npc w = w"
| "wander_loop (d # ds) i npc w =
     (let (nx, ny) = npc_step_to d (n_X npc) (n_Y npc)
      in if walkableForLocked nx ny [] w
         then bump_version (set_npc i (npc\<lparr>n_X := nx, n_Y := ny\<rparr>) w)
         else wander_loop ds i npc w)"

definition npc_turn :: "time \<Rightarrow> string list \<Rightarrow> string \<Rightarrow> World \<Rightarrow> event list \<times> World" where
  "npc_turn now ord i w =
     (case map_of (w_npcs w) i of
        None \<Rightarrow> ([], w)
      | Some npc \<Rightarrow>
          if \<not> n_Alive npc then ([], w)
          else case closestPlayerLocked now (n_X npc) (n_Y npc) 1 ord w of
                 (Some k, w) \<Rightarrow>
                   let target = the (map_of (w_players w) k);
                       target = target\<lparr>p_HP := p_HP target - n_Attack npc, p_LastUpdate := now\<rparr>
                   in if p_HP target \<le> 0 then
                        let target = knockDownPlayerLocked now target
                        in ([KnockedDown (p_Username target) (n_Name npc)], bump_version (set_player k target w))
                      else ([NPCHit (n_Name npc) (p_Username target) (n_Attack npc)],
                            bump_version (set_player k target w))
               | (None, w) \<Rightarrow>
                   let (base, w) = Intn 4 w
                   in ([], wander_loop (map (\<lambda>step. (base + step) mod 4) [0..<4]) i npc w))"

fun npc_turns :: "time \<Rightarrow> string list \<Rightarrow> string list \<Rightarrow> World \<Rightarrow> event list \<times> World" where
  "npc_turns now ord [] w = ([], w)"
| "npc_turns now ord (i # ids) w =
     (let (e1, w) = npc_turn now ord i w; (e2, w) = npc_turns now ord ids w in (e1 @ e2, w))"

definition treasure_roll :: "World \<Rightarrow> event list \<times> World" where
  "treasure_roll w =
     (if length (w_treasures w) < MaxTreasures then
        let (d, w) = Intn 100 w
        in if d < 45 then
             (case spawnTreasureLocked loot_kind_wild w of
                (Some t, w) \<Rightarrow> ([SpawnedTreasure (cfg_Name (w_cfg w)) (t_X t) (t_Y t)], w)
              | (None, w) \<Rightarrow> ([], w))
           else ([], w)
      else ([], w))"

definition BackgroundStep :: "time \<Rightarrow> string list \<Rightarrow> World \<Rightarrow> event list \<times> World" where
  "BackgroundStep now ord w =
     (let (e1, w) = refresh_loop now ord w;
          (e2, w) = npc_loop w;
          (e3, w) = treasure_roll w;
          ids = sort (keys (w_npcs w));
          (e4, w) = npc_turns now ord ids w
      in (e1 @ e2 @ e3 @ e4, w))"

section \<open>A new world\<close>

partial_function (option) boot_npcs :: "World \<Rightarrow> World option" where
  "boot_npcs w = (if length (w_npcs w) < MinNPCs then boot_npcs (snd (spawnNPCLocked w)) else Some w)"

partial_function (option) boot_treasures :: "World \<Rightarrow> World option" where
  "boot_treasures w =
     (if length (w_treasures w) < MaxTreasures div 2
      then boot_treasures (snd (spawnTreasureLocked loot_kind_relic w)) else Some w)"

definition bootstrap :: "World \<Rightarrow> World option" where
  "bootstrap w = do { w \<leftarrow> boot_npcs w; boot_treasures w }"

definition empty_world :: "MapConfig \<Rightarrow> (nat \<Rightarrow> nat) \<Rightarrow> World" where
  "empty_world cfg d =
     \<lparr>w_cfg = cfg, w_terrain = stringsToGrid (cfg_Layout cfg), w_players = [], w_npcs = [],
      w_treasures = [], w_rng = \<lparr>draws = d, drawn = 0\<rparr>, w_version = 0, w_nextNPC = 0,
      w_nextTreasure = 0\<rparr>"

definition NewWorld :: "MapConfig \<Rightarrow> (nat \<Rightarrow> nat) \<Rightarrow> World option" where
  "NewWorld cfg d = bootstrap (empty_world cfg d)"

end
