(* ===== verification/Checkpoint.thy ===== *)
theory Checkpoint
  imports Tick
begin

text \<open>
  Snapshots and checkpoints of a world (\<open>World.Snapshot\<close> in \<open>world/world.go\<close>,
  \<open>world/checkpoint.go\<close>): the view a node publishes and the state a new owner starts from.
  The lists of a snapshot are sorted by user name and id, so they do not depend on the order in
  which the maps were visited.
\<close>

section \<open>Snapshot\<close>

definition npc_view :: "NPC \<Rightarrow> NPCView" where
  "npc_view n = \<lparr>nv_ID = n_ID n, nv_Name = n_Name n, nv_X = n_X n, nv_Y = n_Y n, nv_HP = n_HP n,
     nv_MaxHP = n_MaxHP n, nv_Attack = n_Attack n, nv_Alive = n_Alive n\<rparr>"

definition treasure_view :: "Treasure \<Rightarrow> TreasureView" where
  "treasure_view t = \<lparr>tv_ID = t_ID t, tv_Kind = t_Kind t, tv_X = t_X t, tv_Y = t_Y t, tv_Value = t_Value t\<rparr>"

fun snapshot_players ::
    "(time \<Rightarrow> string) \<Rightarrow> time \<Rightarrow> string list \<Rightarrow> World \<Rightarrow> PlayerView list \<times> World" where
  "snapshot_players rfc3339 now [] w = ([], w)"
| "snapshot_players rfc3339 now (k # ord) w =
     (let w = refreshPlayerStateLocked now k w;
          (rest, w') = snapshot_players rfc3339 now ord w
      in (case map_of (w_players w) k of
            None \<Rightarrow> (rest, w')
          | Some p \<Rightarrow> (playerViewLocked rfc3339 now p # rest, w')))"

definition Snapshot ::
    "(time \<Rightarrow> string) \<Rightarrow> time \<Rightarrow> string list \<Rightarrow> string \<Rightarrow> World \<Rightarrow> MapView \<times> World" where
  "Snapshot rfc3339 now ord nodeID w =
     (let (players, w) = snapshot_players rfc3339 now ord w;
          players = sort_key pv_Username players;
          npcs = sort_key nv_ID (map (\<lambda>(_, n). npc_view n) (w_npcs w));
          treasures = sort_key tv_ID (map (\<lambda>(_, t). treasure_view t) (w_treasures w))
      in (\<lparr>mv_ID = cfg_ID (w_cfg w), mv_Name = cfg_Name (w_cfg w), mv_NodeID = nodeID,
           mv_Width = int (length (hd (cfg_Layout (w_cfg w)))),
           mv_Height = int (length (cfg_Layout (w_cfg w))),
           mv_Terrain = gridToStrings (w_terrain w), mv_Players = players, mv_NPCs = npcs,
           mv_Treasures = treasures, mv_Version = w_version w\<rparr>, w))"

section \<open>Checkpoint\<close>

definition CaptureCheckpoint ::
    "(time \<Rightarrow> string) \<Rightarrow> time \<Rightarrow> string list \<Rightarrow> string \<Rightarrow> World \<Rightarrow> MapCheckpoint \<times> World" where
  "CaptureCheckpoint rfc3339 now ord nodeID w =
     (let (snapshot, w) = Snapshot rfc3339 now ord nodeID w
      in (\<lparr>c_MapID = mv_ID snapshot, c_NodeID = mv_NodeID snapshot, c_MapEpoch = 0,
           c_Version = mv_Version snapshot, c_Terrain = mv_Terrain snapshot,
           c_Players = mv_Players snapshot, c_NPCs = mv_NPCs snapshot,
           c_Treasures = mv_Treasures snapshot, c_Checkpoint = now\<rparr>, w))"

definition player_of_view :: "time \<Rightarrow> World \<Rightarrow> PlayerView \<Rightarrow> Player" where
  "player_of_view now w v =
     \<lparr>p_Username = pv_Username v, p_MapID = cfg_ID (w_cfg w), p_X = pv_X v, p_Y = pv_Y v,
      p_HP = pv_HP v, p_MaxHP = pv_MaxHP v, p_Attack = pv_Attack v,
      p_Potions = valueOr (pv_Potions v) MaxPotions, p_Treasures = pv_Treasures v,
      p_Kills = pv_Kills v, p_Deaths = pv_Deaths v, p_Victories = pv_Victories v,
      p_Alive = pv_Alive v, p_RespawnAt = zero_time, p_LastUpdate = now\<rparr>"

definition npc_of_view :: "NPCView \<Rightarrow> NPC" where
  "npc_of_view v = \<lparr>n_ID = nv_ID v, n_Name = nv_Name v, n_X = nv_X v, n_Y = nv_Y v, n_HP = nv_HP v,
     n_MaxHP = nv_MaxHP v, n_Attack = nv_Attack v, n_Alive = nv_Alive v\<rparr>"

definition treasure_of_view :: "TreasureView \<Rightarrow> Treasure" where
  "treasure_of_view v = \<lparr>t_ID = tv_ID v, t_Kind = tv_Kind v, t_X = tv_X v, t_Y = tv_Y v, t_Value = tv_Value v\<rparr>"

text \<open>\<open>m := make(map\<dots>); for _, v := range vs { m[key(v)] = val(v) }\<close>\<close>

definition build_map :: "('a \<Rightarrow> 'k) \<Rightarrow> ('a \<Rightarrow> 'v) \<Rightarrow> 'a list \<Rightarrow> ('k, 'v) alist" where
  "build_map key val vs = fold (\<lambda>v m. AList.update (key v) (val v) m) vs []"

definition RestoreCheckpoint :: "time \<Rightarrow> MapCheckpoint \<Rightarrow> World \<Rightarrow> World" where
  "RestoreCheckpoint now cp w =
     (if c_MapID cp \<noteq> cfg_ID (w_cfg w) \<or> c_Version cp = 0 then w
      else
        let w = (if c_Terrain cp \<noteq> [] then w\<lparr>w_terrain := stringsToGrid (c_Terrain cp)\<rparr> else w);
            w = w\<lparr>w_players := build_map pv_Username (player_of_view now w) (c_Players cp)\<rparr>;
            w = w\<lparr>w_npcs := build_map nv_ID npc_of_view (c_NPCs cp)\<rparr>;
            w = w\<lparr>w_treasures := build_map tv_ID treasure_of_view (c_Treasures cp)\<rparr>;
            w = w\<lparr>w_version := c_Version cp\<rparr>
        in w\<lparr>w_nextNPC := length (w_npcs w) + 1, w_nextTreasure := length (w_treasures w) + 1\<rparr>)"

section \<open>Maps built from lists\<close>

lemma keys_build_fold:
  "set (keys (fold (\<lambda>v m. AList.update (key v) (val v) m) vs m)) = set (keys m) \<union> key ` set vs"
  by (induction vs arbitrary: m) (auto simp: keys_update)

lemma distinct_build_fold:
  "distinct (keys m) \<Longrightarrow> distinct (keys (fold (\<lambda>v m. AList.update (key v) (val v) m) vs m))"
  by (induction vs arbitrary: m) (simp_all add: keys_update)

lemma keys_build_map: "set (keys (build_map key val vs)) = key ` set vs"
  unfolding build_map_def keys_build_fold by simp

lemma distinct_build_map [simp]: "distinct (keys (build_map key val vs))"
  unfolding build_map_def by (rule distinct_build_fold) simp

lemma map_of_build_fold:
  "distinct (map key vs) \<Longrightarrow>
   map_of (fold (\<lambda>v m. AList.update (key v) (val v) m) vs m) k =
     (case map_of (map (\<lambda>v. (key v, val v)) vs) k of None \<Rightarrow> map_of m k | Some x \<Rightarrow> Some x)"
proof (induction vs arbitrary: m)
  case Nil
  then show ?case by simp
next
  case (Cons v vs)
  have "map_of (map (\<lambda>v. (key v, val v)) vs) (key v) = None"
    using Cons.prems by (auto simp: map_of_eq_None_iff)
  with Cons show ?case by (auto split: option.splits)
qed

lemma map_of_build_map:
  "distinct (map key vs) \<Longrightarrow> map_of (build_map key val vs) = map_of (map (\<lambda>v. (key v, val v)) vs)"
  by (rule ext) (simp add: build_map_def map_of_build_fold split: option.splits)

text \<open>Sorting the values of a map by their key does not change what is found under a key.\<close>

lemma map_of_sorted_values:
  assumes d: "distinct (keys al)" and kf: "\<And>k v. (k, v) \<in> set al \<Longrightarrow> key (view v) = k"
  shows "map_of (map (\<lambda>x. (key x, val x)) (sort_key key (map (\<lambda>(_, v). view v) al))) k
         = map_option (\<lambda>v. val (view v)) (map_of al k)"
proof -
  let ?vs = "map (\<lambda>(_, v). view v) al"
  have keys: "map key ?vs = keys al"
    using kf by (auto simp: comp_def)
  have ds: "distinct (map key (sort_key key ?vs))"
  proof -
    have "mset (map key (sort_key key ?vs)) = mset (map key ?vs)" by (metis mset_map mset_sort)
    then show ?thesis using d keys by (metis mset_eq_imp_distinct_iff)
  qed
  show ?thesis
  proof (cases "map_of al k")
    case None
    then have "k \<notin> key ` set ?vs"
      using keys by (metis list.set_map map_of_eq_None_iff)
    then have "map_of (map (\<lambda>x. (key x, val x)) (sort_key key ?vs)) k = None"
      by (auto simp: map_of_eq_None_iff image_iff)
    with None show ?thesis by simp
  next
    case (Some v)
    then have inset: "(k, v) \<in> set al" by (rule map_of_SomeD)
    then have kv: "key (view v) = k" by (rule kf)
    have "(k, val (view v)) \<in> set (map (\<lambda>x. (key x, val x)) (sort_key key ?vs))"
      using inset kv by force
    then have "map_of (map (\<lambda>x. (key x, val x)) (sort_key key ?vs)) k = Some (val (view v))"
      using ds by (intro map_of_is_SomeI) (auto simp: comp_def)
    with Some show ?thesis by simp
  qed
qed

end
