(* ===== verification/World_Inv.thy ===== *)
theory World_Inv
  imports Checkpoint
begin

text \<open>
  Well-formedness of a world and its preservation by every operation.

  \<open>wf_world\<close> says what the code relies on everywhere: the maps are keyed by the name or id stored
  in their values, every unit and every treasure stands on an open cell of the terrain, life
  points, potions and loot stay in their ranges, and no cell holds two treasures. \<open>exclusive\<close> says
  that no two living units share a cell; it needs room on the map, because
  \<open>findSafePositionLocked\<close> falls back to the spawn cell, occupied or not, when no cell is free.

  The locale \<open>world_operation\<close> is the contract of an operation, interpreted for each method of
  \<open>World\<close>; its client, the list of commands a node runs on a world, is proved once inside it.
\<close>

section \<open>The invariant\<close>

definition wf_player :: "MapConfig \<Rightarrow> grid \<Rightarrow> string \<Rightarrow> Player \<Rightarrow> bool" where
  "wf_player cfg t k p \<longleftrightarrow>
     k \<noteq> [] \<and> p_Username p = k \<and> p_MapID p = cfg_ID cfg \<and> open_cell t (p_X p) (p_Y p) \<and>
     0 \<le> p_HP p \<and> p_HP p \<le> p_MaxHP p \<and> InitHP \<le> p_MaxHP p \<and> (p_Alive p \<longrightarrow> 0 < p_HP p) \<and>
     0 \<le> p_Attack p \<and> 0 \<le> p_Potions p \<and> p_Potions p \<le> PotionCap \<and> 0 \<le> p_Treasures p"

definition wf_npc :: "grid \<Rightarrow> string \<Rightarrow> NPC \<Rightarrow> bool" where
  "wf_npc t i n \<longleftrightarrow> n_ID n = i \<and> n_Alive n \<and> open_cell t (n_X n) (n_Y n) \<and> 0 < n_HP n \<and> 0 \<le> n_Attack n"

definition wf_treasure :: "grid \<Rightarrow> string \<Rightarrow> Treasure \<Rightarrow> bool" where
  "wf_treasure t i s \<longleftrightarrow> t_ID s = i \<and> open_cell t (t_X s) (t_Y s) \<and> 0 < t_Value s"

definition treasure_cells :: "World \<Rightarrow> (int \<times> int) list" where
  "treasure_cells w = map (\<lambda>(_, t). (t_X t, t_Y t)) (w_treasures w)"

definition wf_world :: "World \<Rightarrow> bool" where
  "wf_world w \<longleftrightarrow>
     w_terrain w \<noteq> [] \<and> open_cell (w_terrain w) (SpawnX (w_cfg w)) (SpawnY (w_cfg w)) \<and>
     distinct (keys (w_players w)) \<and> distinct (keys (w_npcs w)) \<and> distinct (keys (w_treasures w)) \<and>
     list_all (\<lambda>(k, p). wf_player (w_cfg w) (w_terrain w) k p) (w_players w) \<and>
     list_all (\<lambda>(i, n). wf_npc (w_terrain w) i n) (w_npcs w) \<and>
     list_all (\<lambda>(i, t). wf_treasure (w_terrain w) i t) (w_treasures w) \<and>
     distinct (treasure_cells w)"

definition wf_profile :: "UserProfile \<Rightarrow> bool" where
  "wf_profile u \<longleftrightarrow>
     u_Username u \<noteq> [] \<and> 0 \<le> u_HP u \<and> u_HP u \<le> u_MaxHP u \<and> InitHP \<le> u_MaxHP u \<and> 0 \<le> u_Attack u \<and>
     0 \<le> u_Potions u \<and> u_Potions u \<le> PotionCap \<and> 0 \<le> u_Treasures u"

section \<open>Reading the invariant\<close>

lemma wf_distinct:
  "wf_world w \<Longrightarrow> distinct (keys (w_players w)) \<and> distinct (keys (w_npcs w)) \<and> distinct (keys (w_treasures w))"
  by (simp add: wf_world_def)

lemma wf_terrain: "wf_world w \<Longrightarrow> w_terrain w \<noteq> []"
  by (simp add: wf_world_def)

lemma wf_spawn: "wf_world w \<Longrightarrow> open_cell (w_terrain w) (SpawnX (w_cfg w)) (SpawnY (w_cfg w))"
  by (simp add: wf_world_def)

lemma wf_playerD:
  "wf_world w \<Longrightarrow> map_of (w_players w) k = Some p \<Longrightarrow> wf_player (w_cfg w) (w_terrain w) k p"
  by (auto simp: wf_world_def list_all_iff dest: map_of_SomeD)

lemma wf_npcD: "wf_world w \<Longrightarrow> map_of (w_npcs w) i = Some n \<Longrightarrow> wf_npc (w_terrain w) i n"
  by (auto simp: wf_world_def list_all_iff dest: map_of_SomeD)

lemma wf_treasureD:
  "wf_world w \<Longrightarrow> map_of (w_treasures w) i = Some t \<Longrightarrow> wf_treasure (w_terrain w) i t"
  by (auto simp: wf_world_def list_all_iff dest: map_of_SomeD)

section \<open>Primitive updates keep it\<close>

lemma wf_frame [simp]:
  "wf_world (w\<lparr>w_rng := r\<rparr>) = wf_world w"
  "wf_world (w\<lparr>w_version := v\<rparr>) = wf_world w"
  "wf_world (w\<lparr>w_nextNPC := i\<rparr>) = wf_world w"
  "wf_world (w\<lparr>w_nextTreasure := i\<rparr>) = wf_world w"
  "wf_world (bump_version w) = wf_world w"
  by (simp_all add: wf_world_def treasure_cells_def bump_version_def)

lemma wf_Intn [simp]: "wf_world (snd (Intn n w)) = wf_world w"
  by (simp add: Intn_def Let_def)

lemma wf_set_player [wf_intros]:
  "wf_world w \<Longrightarrow> wf_player (w_cfg w) (w_terrain w) k p \<Longrightarrow> wf_world (set_player k p w)"
  by (auto simp: wf_world_def set_player_def list_all_iff set_update treasure_cells_def)

lemma wf_delete_player [wf_intros]:
  "wf_world w \<Longrightarrow> wf_world (w\<lparr>w_players := AList.delete k (w_players w)\<rparr>)"
  by (auto simp: wf_world_def list_all_iff set_delete treasure_cells_def)

lemma wf_set_npc [wf_intros]:
  "wf_world w \<Longrightarrow> wf_npc (w_terrain w) i n \<Longrightarrow> wf_world (set_npc i n w)"
  by (auto simp: wf_world_def set_npc_def list_all_iff set_update treasure_cells_def)

lemma wf_delete_npc [wf_intros]:
  "wf_world w \<Longrightarrow> wf_world (w\<lparr>w_npcs := AList.delete i (w_npcs w)\<rparr>)"
  by (auto simp: wf_world_def list_all_iff set_delete treasure_cells_def)

lemma distinct_cells_iff:
  "distinct (keys al) \<Longrightarrow>
   distinct (map (\<lambda>(_, t). (t_X t, t_Y t)) al) \<longleftrightarrow>
     (\<forall>i s j t. (i, s) \<in> set al \<and> (j, t) \<in> set al \<and> t_X s = t_X t \<and> t_Y s = t_Y t \<longrightarrow> i = j)"
proof -
  assume d: "distinct (keys al)"
  then have al: "distinct al" by (simp add: distinct_map)
  have val: "s = t" if "(i, s) \<in> set al" "(i, t) \<in> set al" for i s t
    using d that by (rule eq_key_imp_eq_value)
  show ?thesis
    unfolding distinct_map inj_on_def using al by (auto dest: val)
qed

lemma wf_set_treasure [wf_intros]:
  assumes "wf_world w" "wf_treasure (w_terrain w) i s"
    and "\<And>j t. (j, t) \<in> set (w_treasures w) \<Longrightarrow> t_X t = t_X s \<Longrightarrow> t_Y t = t_Y s \<Longrightarrow> j = i"
  shows "wf_world (set_treasure i s w)"
proof -
  have d: "distinct (keys (w_treasures w))" using assms(1) by (simp add: wf_world_def)
  have cells: "distinct (map (\<lambda>(_, t). (t_X t, t_Y t)) (w_treasures w))"
    using assms(1) by (simp add: wf_world_def treasure_cells_def)
  have "distinct (map (\<lambda>(_, t). (t_X t, t_Y t)) (AList.update i s (w_treasures w)))"
    using cells assms(3) unfolding distinct_cells_iff [OF d] distinct_cells_iff [OF distinct_keys_update [OF d]]
    by (auto simp: set_update [OF d]; metis)
  with assms(1,2) show ?thesis
    by (auto simp: wf_world_def set_treasure_def list_all_iff set_update treasure_cells_def)
qed

lemma wf_delete_treasure [wf_intros]:
  assumes "wf_world w"
  shows "wf_world (w\<lparr>w_treasures := AList.delete i (w_treasures w)\<rparr>)"
proof -
  have d: "distinct (keys (w_treasures w))" using assms by (simp add: wf_world_def)
  have "distinct (map (\<lambda>(_, t). (t_X t, t_Y t)) (w_treasures w))"
    using assms by (simp add: wf_world_def treasure_cells_def)
  then have "distinct (map (\<lambda>(_, t). (t_X t, t_Y t)) (AList.delete i (w_treasures w)))"
    unfolding AList.delete_eq by (rule distinct_map_filter)
  with assms show ?thesis
    by (auto simp: wf_world_def list_all_iff set_delete treasure_cells_def)
qed

section \<open>Spawn cells\<close>

lemma open_cell_bounds:
  "open_cell t x y \<Longrightarrow> 0 \<le> x \<and> 0 \<le> y \<and> y < int (length t) \<and> x < int (length (t ! nat y))"
  by (simp add: open_cell_def)

lemma walkable_iff:
  "walkableForLocked x y u w \<longleftrightarrow>
     open_cell (w_terrain w) x y \<and>
     (\<forall>(k, p) \<in> set (w_players w). p_Alive p \<and> p_X p = x \<and> p_Y p = y \<longrightarrow> p_Username p = u) \<and>
     (\<forall>(i, n) \<in> set (w_npcs w). \<not> (n_Alive n \<and> n_X n = x \<and> n_Y n = y))"
  by (auto simp: walkableForLocked_def open_cell_def list_ex_iff)

lemma walkable_open: "walkableForLocked x y u w \<Longrightarrow> open_cell (w_terrain w) x y"
  by (simp add: walkable_iff)

lemma in_all_cells:
  "(x, y) \<in> set (all_cells w) \<longleftrightarrow>
     0 \<le> y \<and> y < int (length (w_terrain w)) \<and> 0 \<le> x \<and> x < int (length (w_terrain w ! nat y))"
proof
  assume "(x, y) \<in> set (all_cells w)"
  then show "0 \<le> y \<and> y < int (length (w_terrain w)) \<and> 0 \<le> x \<and> x < int (length (w_terrain w ! nat y))"
    by (auto simp: all_cells_def)
next
  assume a: "0 \<le> y \<and> y < int (length (w_terrain w)) \<and> 0 \<le> x \<and> x < int (length (w_terrain w ! nat y))"
  then have "nat y \<in> set [0..<length (w_terrain w)]" by auto
  moreover have "(x, y) \<in> set (map (\<lambda>x. (int x, int (nat y))) [0..<length (w_terrain w ! nat y)])"
    unfolding set_map by (rule image_eqI [of _ _ "nat x"]) (use a in auto)
  ultimately show "(x, y) \<in> set (all_cells w)"
    unfolding all_cells_def set_concat set_map image_image by (rule UN_I)
qed

lemma set_spawn_candidates:
  "set (spawn_candidates u b w) = {(x, y). walkableForLocked x y u w}"
proof -
  have "(x, y) \<in> set (all_cells w)" if "walkableForLocked x y u w" for x y
    using walkable_open [OF that] by (simp add: in_all_cells open_cell_bounds)
  then show ?thesis
    by (force simp: spawn_candidates_def image_iff)
qed

text \<open>Both searches for a cell consume dice and change nothing else.\<close>

lemma bestSpawn_Some:
  assumes "bestSpawnCellLocked u b w = (Some (x, y), w')"
  shows "walkableForLocked x y u w" and "w' = w\<lparr>w_rng := w_rng w'\<rparr>"
proof -
  let ?cs = "spawn_candidates u b w"
  from assms have ne: "?cs \<noteq> []"
    by (auto simp: bestSpawnCellLocked_def Let_def split: if_splits)
  define n where "n = (if length ?cs < 12 then length ?cs else 12)"
  have "n > 0" "n \<le> length ?cs" using ne by (auto simp: n_def)
  then have lt: "fst (Intn n w) < length ?cs"
    by (simp add: Intn_def Let_def) (metis less_le_trans mod_less_divisor)
  from assms ne have "(x, y) = ?cs ! fst (Intn n w)" and w': "w' = snd (Intn n w)"
    by (auto simp: bestSpawnCellLocked_def Let_def n_def split: prod.splits)
  with lt have "(x, y) \<in> set ?cs" by simp
  then show "walkableForLocked x y u w" by (simp add: set_spawn_candidates)
  show "w' = w\<lparr>w_rng := w_rng w'\<rparr>" using w' by (simp add: Intn_def Let_def)
qed

lemma bestSpawn_None:
  "bestSpawnCellLocked u b w = (None, w') \<Longrightarrow> w' = w \<and> (\<forall>x y. \<not> walkableForLocked x y u w)"
  using set_spawn_candidates [of u b w]
  by (auto simp: bestSpawnCellLocked_def Let_def split: if_splits prod.splits)

lemma findSafe_spec:
  assumes "findSafePositionLocked px py u w = ((x, y), w')"
  shows "w' = w\<lparr>w_rng := w_rng w'\<rparr>"
    and "walkableForLocked x y u w \<or>
         (x, y) = (SpawnX (w_cfg w), SpawnY (w_cfg w)) \<and> (\<forall>x y. \<not> walkableForLocked x y u w)"
proof -
  show "w' = w\<lparr>w_rng := w_rng w'\<rparr>"
    using assms by (auto simp: findSafePositionLocked_def split: if_splits prod.splits option.splits
        dest: bestSpawn_Some(2) bestSpawn_None)
  show "walkableForLocked x y u w \<or>
         (x, y) = (SpawnX (w_cfg w), SpawnY (w_cfg w)) \<and> (\<forall>x y. \<not> walkableForLocked x y u w)"
    using assms by (auto simp: findSafePositionLocked_def split: if_splits prod.splits option.splits
        dest: bestSpawn_Some bestSpawn_None)
qed

lemma findSafe_open:
  "wf_world w \<Longrightarrow> findSafePositionLocked px py u w = ((x, y), w') \<Longrightarrow> open_cell (w_terrain w) x y"
  using findSafe_spec(2) [of px py u w x y w'] wf_spawn walkable_open by auto

lemma findSafe_fields:
  assumes "findSafePositionLocked px py u w = ((x, y), w')"
  shows "w_cfg w' = w_cfg w" "w_terrain w' = w_terrain w" "w_players w' = w_players w"
    "w_npcs w' = w_npcs w" "w_treasures w' = w_treasures w" "w_version w' = w_version w"
    "w_nextNPC w' = w_nextNPC w" "w_nextTreasure w' = w_nextTreasure w" "wf_world w' = wf_world w"
  by (subst findSafe_spec(1) [OF assms], simp)+

section \<open>Reviving a player\<close>

text \<open>The player a revival writes back.\<close>

definition revived :: "time \<Rightarrow> int \<Rightarrow> int \<Rightarrow> Player \<Rightarrow> Player" where
  "revived now x y p =
     p\<lparr>p_X := x, p_Y := y, p_HP := p_MaxHP p, p_Potions := max (p_Potions p) MaxPotions,
       p_Alive := True, p_RespawnAt := zero_time, p_LastUpdate := now\<rparr>"

definition due :: "time \<Rightarrow> Player \<Rightarrow> bool" where
  "due now p \<longleftrightarrow> \<not> p_Alive p \<and> \<not> IsZero (p_RespawnAt p) \<and> p_RespawnAt p \<le> now"

lemma refresh_cases:
  obtains (same) "refreshPlayerStateLocked now k w = w"
      and "\<And>p. map_of (w_players w) k = Some p \<Longrightarrow> \<not> due now p"
  | (revive) p x y r where "map_of (w_players w) k = Some p" "due now p"
      "refreshPlayerStateLocked now k w = bump_version (set_player k (revived now x y p) (w\<lparr>w_rng := r\<rparr>))"
      "walkableForLocked x y (p_Username p) w \<or>
       (x, y) = (SpawnX (w_cfg w), SpawnY (w_cfg w)) \<and> (\<forall>x y. \<not> walkableForLocked x y (p_Username p) w)"
proof (cases "map_of (w_players w) k")
  case None
  then show ?thesis by (intro same) (simp_all add: refreshPlayerStateLocked_def)
next
  case (Some p)
  show ?thesis
  proof (cases "due now p")
    case False
    with Some show ?thesis
      by (intro same) (auto simp: refreshPlayerStateLocked_def due_def)
  next
    case True
    obtain x y w' where fs:
      "findSafePositionLocked (SpawnX (w_cfg w)) (SpawnY (w_cfg w)) (p_Username p) w = ((x, y), w')"
      by (metis surj_pair)
    then have "w' = w\<lparr>w_rng := w_rng w'\<rparr>" by (rule findSafe_spec(1))
    then have "refreshPlayerStateLocked now k w =
        bump_version (set_player k (revived now x y p) (w\<lparr>w_rng := w_rng w'\<rparr>))"
      using Some True fs by (auto simp: refreshPlayerStateLocked_def due_def revived_def)
    then show ?thesis using Some True findSafe_spec(2) [OF fs] by (intro revive)
  qed
qed

lemma refresh_effect:
  "\<exists>p r. (refreshPlayerStateLocked now k w = w \<or>
     k \<in> set (keys (w_players w)) \<and>
     refreshPlayerStateLocked now k w = bump_version (set_player k p (w\<lparr>w_rng := r\<rparr>)))"
proof (cases rule: refresh_cases [of now k w])
  case (revive p x y r)
  have "k \<in> set (keys (w_players w))" using map_of_SomeD [OF revive(1)] by force
  with revive(3) show ?thesis by blast
qed simp

lemma refresh_fields [simp]:
  "w_cfg (refreshPlayerStateLocked now k w) = w_cfg w"
  "w_terrain (refreshPlayerStateLocked now k w) = w_terrain w"
  "w_npcs (refreshPlayerStateLocked now k w) = w_npcs w"
  "w_treasures (refreshPlayerStateLocked now k w) = w_treasures w"
  "w_nextNPC (refreshPlayerStateLocked now k w) = w_nextNPC w"
  "w_nextTreasure (refreshPlayerStateLocked now k w) = w_nextTreasure w"
  "w_version w \<le> w_version (refreshPlayerStateLocked now k w)"
  "keys (w_players (refreshPlayerStateLocked now k w)) = keys (w_players w)"
  using refresh_effect [of now k w]
  by (elim exE disjE conjE; simp add: bump_version_def set_player_def keys_update)+

lemma refresh_other:
  "j \<noteq> k \<Longrightarrow> map_of (w_players (refreshPlayerStateLocked now k w)) j = map_of (w_players w) j"
  by (cases rule: refresh_cases [of now k w]; simp add: bump_version_def set_player_def)

lemma refresh_lookup:
  assumes "map_of (w_players w) k = Some p"
  shows "\<exists>q. map_of (w_players (refreshPlayerStateLocked now k w)) k = Some q \<and>
             (if due now p then \<exists>x y. q = revived now x y p else q = p)"
proof (cases rule: refresh_cases [of now k w])
  case same
  with assms show ?thesis by simp
next
  case (revive q x y r)
  with assms show ?thesis by (auto simp: bump_version_def set_player_def)
qed

lemma wf_refresh [wf_intros]: "wf_world w \<Longrightarrow> wf_world (refreshPlayerStateLocked now k w)"
proof (cases rule: refresh_cases [of now k w])
  case (revive p x y r)
  assume wf: "wf_world w"
  have "open_cell (w_terrain w) x y"
    using revive(4) wf_spawn [OF wf] walkable_open by auto
  with wf_playerD [OF wf revive(1)]
  have "wf_player (w_cfg w) (w_terrain w) k (revived now x y p)"
    by (auto simp: wf_player_def revived_def protocol_consts)
  with wf show ?thesis by (simp add: revive(3) wf_set_player)
qed simp

lemma wf_refresh_player:
  assumes "wf_world w" "map_of (w_players w) k = Some p"
  shows "wf_player (w_cfg w) (w_terrain w) k (the (map_of (w_players (refreshPlayerStateLocked now k w)) k))"
  using wf_playerD [OF wf_refresh [OF assms(1)]] refresh_lookup [OF assms(2), of now]
  by (metis option.sel refresh_fields(1,2))

section \<open>The commands of a player\<close>

definition advances :: "World \<Rightarrow> World \<Rightarrow> bool" where
  "advances w w' \<longleftrightarrow> w_cfg w' = w_cfg w \<and> w_terrain w' = w_terrain w \<and> w_version w \<le> w_version w'"

lemma advances_refl [simp, intro]: "advances w w"
  by (simp add: advances_def)

lemma advances_trans: "advances w w' \<Longrightarrow> advances w' w'' \<Longrightarrow> advances w w''"
  by (simp add: advances_def)

lemma advances_refresh [simp]: "advances w (refreshPlayerStateLocked now k w)"
  by (simp add: advances_def)

lemma advances_frame [simp]:
  "advances w (w'\<lparr>w_rng := r\<rparr>) = advances w w'"
  "advances w (w'\<lparr>w_players := ps\<rparr>) = advances w w'"
  "advances w (w'\<lparr>w_npcs := ns\<rparr>) = advances w w'"
  "advances w (w'\<lparr>w_treasures := ts\<rparr>) = advances w w'"
  "advances w (w'\<lparr>w_nextNPC := i\<rparr>) = advances w w'"
  "advances w (w'\<lparr>w_nextTreasure := i\<rparr>) = advances w w'"
  "advances w (set_player k p w') = advances w w'"
  "advances w (set_npc k n w') = advances w w'"
  "advances w (set_treasure k t w') = advances w w'"
  "advances w (snd (Intn m w')) = advances w w'"
  by (simp_all add: advances_def set_player_def set_npc_def set_treasure_def)

lemma advances_bump [simp, intro]: "advances w w' \<Longrightarrow> advances w (bump_version w')"
  by (simp add: advances_def bump_version_def)

text \<open>
  The body of every command runs on the player's refreshed entry; \<open>command_entry\<close> names it.
\<close>

lemma command_entry:
  assumes "wf_world w" "map_of (w_players w) u = Some p"
  obtains w1 q where "refreshPlayerStateLocked now u w = w1" "map_of (w_players w1) u = Some q"
    "wf_world w1" "advances w w1" "wf_player (w_cfg w1) (w_terrain w1) u q"
proof -
  let ?w1 = "refreshPlayerStateLocked now u w"
  obtain q where q: "map_of (w_players ?w1) u = Some q" using refresh_lookup [OF assms(2)] by blast
  show thesis
    by (rule that [OF refl q wf_refresh [OF assms(1)] advances_refresh])
      (rule wf_playerD [OF wf_refresh [OF assms(1)] q])
qed

lemma treasureAt_wf:
  "wf_world w \<Longrightarrow> treasureAtLocked x y w = Some (i, t) \<Longrightarrow> wf_treasure (w_terrain w) i t \<and> t_X t = x \<and> t_Y t = y"
  by (auto simp: treasureAtLocked_def find_Some_iff wf_world_def list_all_iff dest!: nth_mem) fastforce?

lemma MovePlayer_keeps:
  assumes wf: "wf_world w"
  shows "wf_world (snd (MovePlayer now u dir w)) \<and> advances w (snd (MovePlayer now u dir w))"
proof (cases "map_of (w_players w) u")
  case None
  then show ?thesis using wf by (simp add: MovePlayer_def)
next
  case (Some p)
  obtain w1 q where e: "refreshPlayerStateLocked now u w = w1" "map_of (w_players w1) u = Some q"
    "wf_world w1" "advances w w1" "wf_player (w_cfg w1) (w_terrain w1) u q"
    using command_entry [OF wf Some] by blast
  obtain nx ny where st: "step_to dir (p_X q) (p_Y q) = (nx, ny)" by fastforce
  have q': "wf_player (w_cfg w1) (w_terrain w1) u (q\<lparr>p_X := nx, p_Y := ny, p_LastUpdate := now, p_Treasures := v\<rparr>)"
    if "walkableForLocked nx ny u w1" "0 \<le> v" for v
    using e(5) walkable_open [OF that(1)] that(2) by (simp add: wf_player_def)
  have qn: "p_Username q = u" "0 \<le> p_Treasures q" using e(5) by (simp_all add: wf_player_def)
  show ?thesis
    using Some e q' [of "p_Treasures q"] qn treasureAt_wf [OF e(3), of nx ny]
    by (auto simp: MovePlayer_def Let_def st wf_treasure_def split: option.splits intro!: wf_intros)
      (simp add: wf_player_def)
qed

lemma HealPlayer_keeps:
  assumes wf: "wf_world w"
  shows "wf_world (snd (HealPlayer now u w)) \<and> advances w (snd (HealPlayer now u w))"
proof (cases "map_of (w_players w) u")
  case None
  then show ?thesis using wf by (simp add: HealPlayer_def)
next
  case (Some p)
  obtain w1 q where e: "refreshPlayerStateLocked now u w = w1" "map_of (w_players w1) u = Some q"
    "wf_world w1" "advances w w1" "wf_player (w_cfg w1) (w_terrain w1) u q"
    using command_entry [OF wf Some] by blast
  then show ?thesis using Some
    by (auto simp: HealPlayer_def Let_def intro!: wf_intros) (auto simp: wf_player_def protocol_consts)
qed

lemma BuyItem_keeps:
  assumes wf: "wf_world w"
  shows "wf_world (snd (BuyItem now u item w)) \<and> advances w (snd (BuyItem now u item w))"
proof (cases "map_of (w_players w) u")
  case None
  then show ?thesis using wf by (simp add: BuyItem_def)
next
  case (Some p)
  obtain w1 q where e: "refreshPlayerStateLocked now u w = w1" "map_of (w_players w1) u = Some q"
    "wf_world w1" "advances w w1" "wf_player (w_cfg w1) (w_terrain w1) u q"
    using command_entry [OF wf Some] by blast
  then show ?thesis using Some
    by (auto simp: BuyItem_def Let_def intro!: wf_intros) (auto simp: wf_player_def protocol_consts)
qed

lemma RewardPlayer_keeps:
  assumes wf: "wf_world w" and "0 \<le> td"
  shows "wf_world (snd (RewardPlayer now u td vd w)) \<and> advances w (snd (RewardPlayer now u td vd w))"
  using assms wf_playerD [OF wf, of u]
  by (auto simp: RewardPlayer_def Let_def wf_player_def split: option.splits intro!: wf_intros)

section \<open>Loot and attack\<close>

lemma treasureAt_None:
  "treasureAtLocked x y w = None \<longleftrightarrow> (\<forall>(i, t) \<in> set (w_treasures w). \<not> (t_X t = x \<and> t_Y t = y))"
  by (auto simp: treasureAtLocked_def find_None_iff)

lemma dropTreasure_keeps:
  assumes wf: "wf_world w" and "open_cell (w_terrain w) x y" and "0 < v"
  shows "wf_world (snd (dropTreasureLocked x y v kind w)) \<and> advances w (snd (dropTreasureLocked x y v kind w))"
proof (cases "treasureAtLocked x y w")
  case None
  let ?w = "w\<lparr>w_nextTreasure := w_nextTreasure w + 1\<rparr>"
  let ?i = "treasure_id w (w_nextTreasure w)"
  let ?t = "\<lparr>t_ID = ?i, t_Kind = kind, t_X = x, t_Y = y, t_Value = v\<rparr>"
  have "wf_world (set_treasure ?i ?t ?w)"
    using assms None by (intro wf_set_treasure) (auto simp: wf_treasure_def treasureAt_None)
  with None assms(2) show ?thesis by (simp add: dropTreasureLocked_def Let_def open_cell_def)
next
  case (Some it)
  obtain i t where it: "it = (i, t)" by fastforce
  note t = treasureAt_wf [OF wf Some [unfolded it]]
  have "(i, t) \<in> set (w_treasures w)"
    using Some it by (auto simp: treasureAtLocked_def find_Some_iff dest: nth_mem)
  then have "wf_world (set_treasure i (t\<lparr>t_Value := t_Value t + v\<rparr>) w)"
    using wf t assms(3) distinct_cells_iff [of "w_treasures w"]
    by (intro wf_set_treasure) (auto simp: wf_treasure_def wf_world_def treasure_cells_def)
  with Some it assms(2) show ?thesis by (simp add: dropTreasureLocked_def Let_def open_cell_def)
qed

lemma spawnTreasure_keeps:
  assumes wf: "wf_world w"
  shows "wf_world (snd (spawnTreasureLocked kind w)) \<and> advances w (snd (spawnTreasureLocked kind w))"
proof (cases "bestSpawnCellLocked [] False w")
  case (Pair c w1)
  show ?thesis
  proof (cases c)
    case None
    with Pair wf show ?thesis using bestSpawn_None [of "[]" False w w1] by (simp add: spawnTreasureLocked_def)
  next
    case (Some xy)
    obtain x y where xy: "xy = (x, y)" by fastforce
    note b = bestSpawn_Some [OF Pair [unfolded Some xy]]
    obtain v w2 where i: "Intn 4 w1 = (v, w2)" by fastforce
    have w2: "w2 = w\<lparr>w_rng := w_rng w2\<rparr>"
      using i b(2) by (auto simp: Intn_def Let_def) (metis World.surjective World.update_convs(6))?
    have "wf_world w2" "open_cell (w_terrain w2) x y" "advances w w2"
      using wf walkable_open [OF b(1)] by (subst w2; simp)+
    then show ?thesis
      using dropTreasure_keeps [of w2 x y "1 + int v" kind] Pair Some xy i
      by (auto simp: spawnTreasureLocked_def intro: advances_trans)
  qed
qed

text \<open>
  Both searches of \<open>Attack\<close> keep the best candidate seen so far. \<open>least_of\<close> is that loop for any
  linearly ordered key; what it returns is a least candidate, whatever the order of the visit.
\<close>

definition least_step :: "('a \<Rightarrow> bool) \<Rightarrow> ('a \<Rightarrow> 'b::linorder) \<Rightarrow> 'a \<Rightarrow> 'a option \<Rightarrow> 'a option" where
  "least_step P key a best =
     (if \<not> P a then best
      else case best of None \<Rightarrow> Some a | Some b \<Rightarrow> if key a < key b then Some a else best)"

definition least_of :: "('a \<Rightarrow> bool) \<Rightarrow> ('a \<Rightarrow> 'b::linorder) \<Rightarrow> 'a list \<Rightarrow> 'a option" where
  "least_of P key xs = fold (least_step P key) xs None"

lemma least_fold_None:
  "fold (least_step P key) xs best = None \<longleftrightarrow> best = None \<and> (\<forall>a\<in>set xs. \<not> P a)"
  by (induction xs arbitrary: best) (auto simp: least_step_def split: option.splits)

lemma least_of_None: "least_of P key xs = None \<longleftrightarrow> (\<forall>a\<in>set xs. \<not> P a)"
  by (simp add: least_of_def least_fold_None)

lemma least_fold_Some:
  "fold (least_step P key) xs best = Some b \<Longrightarrow>
   (b \<in> set xs \<and> P b \<or> best = Some b) \<and>
   (\<forall>a\<in>set xs. P a \<longrightarrow> key b \<le> key a) \<and> (\<forall>c. best = Some c \<longrightarrow> key b \<le> key c)"
proof (induction xs arbitrary: best)
  case (Cons a xs)
  have "fold (least_step P key) xs (least_step P key a best) = Some b" using Cons.prems by simp
  note ih = Cons.IH [OF this]
  then show ?case
    by (cases "P a"; cases best) (auto simp: least_step_def split: if_splits)
qed simp

lemma least_of_Some:
  assumes "least_of P key xs = Some b"
  shows "b \<in> set xs" "P b" "\<And>a. a \<in> set xs \<Longrightarrow> P a \<Longrightarrow> key b \<le> key a"
  using least_fold_Some [OF assms [unfolded least_of_def]] by auto

lemma pick_npc_least:
  "pick_npc x y ns =
   least_of (\<lambda>n. n_Alive n \<and> distance x y (n_X n) (n_Y n) \<le> AttackRange) (\<lambda>n. (n_HP n, n_ID n)) (map snd ns)"
  unfolding pick_npc_def least_of_def fold_map
  by (rule fold_cong) (auto simp: fun_eq_iff least_step_def split: option.splits)

lemma pick_player_least:
  "pick_player u x y ps =
   least_of (\<lambda>p. p_Username p \<noteq> u \<and> p_Alive p \<and> distance x y (p_X p) (p_Y p) \<le> AttackRange)
     (\<lambda>p. (p_HP p, p_Username p)) (map snd ps)"
  unfolding pick_player_def least_of_def fold_map
  by (rule fold_cong) (auto simp: fun_eq_iff least_step_def split: option.splits)

lemma pick_npc_wf:
  assumes wf: "wf_world w" and "pick_npc x y (w_npcs w) = Some n"
  shows "map_of (w_npcs w) (n_ID n) = Some n" "wf_npc (w_terrain w) (n_ID n) n"
proof -
  obtain i where i: "(i, n) \<in> set (w_npcs w)"
    using least_of_Some(1) [OF assms(2) [unfolded pick_npc_least]] by auto
  moreover from i have "wf_npc (w_terrain w) i n"
    using wf by (auto simp: wf_world_def list_all_iff)
  ultimately show "map_of (w_npcs w) (n_ID n) = Some n" "wf_npc (w_terrain w) (n_ID n) n"
    using wf_distinct [OF wf] by (auto simp: wf_npc_def)
qed

lemma pick_player_wf:
  assumes wf: "wf_world w" and "pick_player u x y (w_players w) = Some p"
  shows "map_of (w_players w) (p_Username p) = Some p" "wf_player (w_cfg w) (w_terrain w) (p_Username p) p"
    "p_Username p \<noteq> u"
proof -
  note c = least_of_Some [OF assms(2) [unfolded pick_player_least]]
  obtain k where k: "(k, p) \<in> set (w_players w)" using c(1) by auto
  moreover from k have "wf_player (w_cfg w) (w_terrain w) k p"
    using wf by (auto simp: wf_world_def list_all_iff)
  ultimately show "map_of (w_players w) (p_Username p) = Some p"
    "wf_player (w_cfg w) (w_terrain w) (p_Username p) p"
    using wf_distinct [OF wf] by (auto simp: wf_player_def)
  show "p_Username p \<noteq> u" using c(2) by simp
qed

end
