(* ===== verification/World_Ops.thy ===== *)
theory World_Ops
  imports World_Inv
begin

text \<open>
  The rest of the operations keep the invariant: fighting, entering and leaving, the read
  operations that revive players on the way, the background step and the construction of a new
  world. The contract of an operation is the locale \<open>world_operation\<close>; it is interpreted for the
  whole command language of a world and for the background step, and its client, a run of any
  number of operations, is proved inside it.
\<close>

section \<open>Attack\<close>

lemma set_fields [simp]:
  "w_cfg (set_player k p w) = w_cfg w" "w_terrain (set_player k p w) = w_terrain w"
  "w_npcs (set_player k p w) = w_npcs w" "w_treasures (set_player k p w) = w_treasures w"
  "w_players (set_player k p w) = AList.update k p (w_players w)"
  "w_cfg (set_npc i n w) = w_cfg w" "w_terrain (set_npc i n w) = w_terrain w"
  "w_players (set_npc i n w) = w_players w" "w_treasures (set_npc i n w) = w_treasures w"
  "w_npcs (set_npc i n w) = AList.update i n (w_npcs w)"
  "w_cfg (bump_version w) = w_cfg w" "w_terrain (bump_version w) = w_terrain w"
  "w_players (bump_version w) = w_players w" "w_npcs (bump_version w) = w_npcs w"
  "w_treasures (bump_version w) = w_treasures w"
  by (simp_all add: set_player_def set_npc_def bump_version_def)

lemma advances_Intn_left [simp]: "advances (snd (Intn m w)) w' = advances w w'"
  by (simp add: advances_def)

lemma wf_hit_player:
  "wf_player cfg t k p \<Longrightarrow> p_HP p - d > 0 \<Longrightarrow> 0 \<le> d \<Longrightarrow>
   wf_player cfg t k (p\<lparr>p_HP := p_HP p - d\<rparr>) \<and> wf_player cfg t k (p\<lparr>p_HP := p_HP p - d, p_LastUpdate := now\<rparr>)"
  by (simp add: wf_player_def)

lemma wf_knockDown:
  "wf_player cfg t k p \<Longrightarrow> wf_player cfg t k (knockDownPlayerLocked now p)"
  "wf_player cfg t k p \<Longrightarrow> wf_player cfg t k (knockDownPlayerLocked now (p\<lparr>p_HP := h\<rparr>))"
  "wf_player cfg t k p \<Longrightarrow> wf_player cfg t k (knockDownPlayerLocked now (p\<lparr>p_HP := h, p_LastUpdate := l\<rparr>))"
  by (auto simp: wf_player_def knockDownPlayerLocked_def protocol_consts)

lemma knockDown_Username [simp]: "p_Username (knockDownPlayerLocked now p) = p_Username p"
  by (simp add: knockDownPlayerLocked_def)

lemma wf_stamp:
  "wf_player cfg t k p \<Longrightarrow> wf_player cfg t k (p\<lparr>p_LastUpdate := l\<rparr>)"
  "wf_player cfg t k p \<Longrightarrow> wf_player cfg t k (p\<lparr>p_LastUpdate := l, p_Kills := n\<rparr>)"
  by (simp_all add: wf_player_def)

lemma kill_npc_keeps:
  assumes wf: "wf_world w" and n: "wf_npc (w_terrain w) i n"
    and q: "wf_player (w_cfg w) (w_terrain w) u q"
    and w2: "w2 = snd (Intn 3 (set_player u q (w\<lparr>w_npcs := AList.delete i (w_npcs w)\<rparr>)))"
  shows "wf_world (snd (dropTreasureLocked (n_X n) (n_Y n) (2 + int v) kind w2)) \<and>
         advances w (snd (dropTreasureLocked (n_X n) (n_Y n) (2 + int v) kind w2))"
proof -
  have "wf_world w2" "advances w w2" using wf q unfolding w2 by (auto intro!: wf_intros)
  moreover have "open_cell (w_terrain w2) (n_X n) (n_Y n)"
    using n unfolding w2 by (simp add: wf_npc_def set_player_def)
  ultimately show ?thesis
    using dropTreasure_keeps [of w2 "n_X n" "n_Y n" "2 + int v" kind] by (auto intro: advances_trans)
qed

lemma Attack_keeps:
  assumes wf: "wf_world w"
  shows "wf_world (snd (Attack now u w)) \<and> advances w (snd (Attack now u w))"
proof (cases "map_of (w_players w) u")
  case None
  then show ?thesis using wf by (simp add: Attack_def)
next
  case (Some p)
  obtain w1 q where e: "refreshPlayerStateLocked now u w = w1" "map_of (w_players w1) u = Some q"
    "wf_world w1" "advances w w1" "wf_player (w_cfg w1) (w_terrain w1) u q"
    using command_entry [OF wf Some] by blast
  show ?thesis
  proof (cases "p_Alive q")
    case False
    with e Some show ?thesis by (simp add: Attack_def Let_def)
  next
    case alive: True
    show ?thesis
    proof (cases "pick_npc (p_X q) (p_Y q) (w_npcs w1)")
      case (Some n)
      note n = pick_npc_wf [OF e(3) Some]
      let ?q = "q\<lparr>p_LastUpdate := now\<rparr>" and ?n = "n\<lparr>n_HP := n_HP n - p_Attack q\<rparr>"
      have q: "wf_player (w_cfg w1) (w_terrain w1) u ?q"
        "wf_player (w_cfg w1) (w_terrain w1) u (?q\<lparr>p_Kills := p_Kills q + 1\<rparr>)"
        using e(5) by (simp_all add: wf_stamp)
      show ?thesis
      proof (cases "n_HP ?n \<le> 0")
        case True
        note k = kill_npc_keeps [OF e(3) n(2) q(2) refl, of _ loot_kind_npc]
        show ?thesis
          using e alive Some True \<open>map_of (w_players w) u = _\<close> k
          by (auto simp: Attack_def Let_def case_prod_beta intro: advances_trans)
      next
        case False
        have "wf_world (set_player u ?q (set_npc (n_ID n) ?n w1))"
          using e(3) q(1) n(2) False by (auto simp: wf_npc_def intro!: wf_set_player wf_set_npc)
        then show ?thesis
          using e alive Some False \<open>map_of (w_players w) u = _\<close>
          by (simp add: Attack_def Let_def)
      qed
    next
      case None
      show ?thesis
      proof (cases "pick_player u (p_X q) (p_Y q) (w_players w1)")
        case None
        then show ?thesis using \<open>pick_npc _ _ _ = None\<close> \<open>map_of (w_players w) u = _\<close> e alive by (simp add: Attack_def Let_def)
      next
        case (Some t)
        note t = pick_player_wf [OF e(3) Some]
        have "0 \<le> p_Attack q" using e(5) by (simp add: wf_player_def)
        then show ?thesis using \<open>pick_npc _ _ _ = None\<close> \<open>map_of (w_players w) u = _\<close> e alive t Some
          by (auto simp: Attack_def Let_def wf_stamp wf_hit_player wf_knockDown intro!: wf_intros)
      qed
    qed
  qed
qed

section \<open>Entering, leaving and reading\<close>

lemma wf_restored:
  assumes "wf_profile u" "open_cell (w_terrain w) x y"
  shows "wf_player (w_cfg w) (w_terrain w) (u_Username u) (restored_player now w u x y)"
  using assms
  by (auto simp: wf_player_def wf_profile_def restored_player_def Let_def valueOr_def protocol_consts)

lemma restored_Username [simp]: "p_Username (restored_player now w u x y) = u_Username u"
  by (simp add: restored_player_def Let_def)

lemma AddOrRestorePlayer_keeps:
  assumes wf: "wf_world w" and u: "wf_profile u"
  shows "wf_world (snd (AddOrRestorePlayer f now u w)) \<and> advances w (snd (AddOrRestorePlayer f now u w))"
proof -
  define px py where "px = (if u_LastMap u \<noteq> cfg_ID (w_cfg w) then SpawnX (w_cfg w) else u_X u)"
    and "py = (if u_LastMap u \<noteq> cfg_ID (w_cfg w) then SpawnY (w_cfg w) else u_Y u)"
  obtain x y w1 where fs: "findSafePositionLocked px py [] w = ((x, y), w1)" by (metis surj_pair)
  note ff = findSafe_fields [OF fs]
  have "snd (AddOrRestorePlayer f now u w) =
      bump_version (set_player (u_Username u) (restored_player now w1 u x y) w1)"
    using fs by (simp add: AddOrRestorePlayer_def Let_def px_def py_def split: if_splits)
  moreover have "wf_player (w_cfg w1) (w_terrain w1) (u_Username u) (restored_player now w1 u x y)"
    by (rule wf_restored [OF u]) (simp add: findSafe_open [OF wf fs] ff)
  moreover have "advances w w1" by (simp add: advances_def ff)
  ultimately show ?thesis using wf ff by (simp add: wf_set_player)
qed

lemma RemovePlayer_keeps:
  "wf_world w \<Longrightarrow> wf_world (snd (RemovePlayer u w)) \<and> advances w (snd (RemovePlayer u w))"
  by (auto simp: RemovePlayer_def wf_delete_player split: option.splits)

lemma ProfileOf_keeps:
  "wf_world w \<Longrightarrow> wf_world (snd (ProfileOf now u w)) \<and> advances w (snd (ProfileOf now u w))"
  by (auto simp: ProfileOf_def Let_def wf_refresh split: option.splits)

lemma respawnPlayer_keeps:
  assumes wf: "wf_world w"
  shows "wf_world (respawnPlayer now u w) \<and> advances w (respawnPlayer now u w)"
proof (cases "map_of (w_players w) u")
  case None
  then show ?thesis using wf by (simp add: respawnPlayer_def)
next
  case (Some p)
  obtain x y w1 where fs: "findSafePositionLocked (SpawnX (w_cfg w)) (SpawnY (w_cfg w)) u w = ((x, y), w1)"
    by (metis surj_pair)
  note ff = findSafe_fields [OF fs]
  have "wf_player (w_cfg w1) (w_terrain w1) u
     (p\<lparr>p_X := x, p_Y := y, p_HP := p_MaxHP p, p_Potions := MaxPotions,
        p_Alive := True, p_RespawnAt := zero_time, p_LastUpdate := now\<rparr>)"
    using wf_playerD [OF wf Some] findSafe_open [OF wf fs] by (auto simp: wf_player_def ff protocol_consts)
  moreover have "advances w w1" by (simp add: advances_def ff)
  ultimately show ?thesis using wf Some fs ff by (auto simp: respawnPlayer_def Let_def intro!: wf_intros)
qed

lemma FlushProfiles_keeps:
  "wf_world w \<Longrightarrow> wf_world (snd (FlushProfiles now since ord w)) \<and> advances w (snd (FlushProfiles now since ord w))"
proof (induction ord arbitrary: w)
  case (Cons k ord)
  from Cons.IH [OF wf_refresh [OF Cons.prems, of now k]] show ?case
    by (auto simp: Let_def case_prod_beta split: option.splits intro: advances_trans [OF advances_refresh])
qed simp

lemma snapshot_players_keeps:
  "wf_world w \<Longrightarrow> wf_world (snd (snapshot_players f now ord w)) \<and> advances w (snd (snapshot_players f now ord w))"
proof (induction ord arbitrary: w)
  case (Cons k ord)
  from Cons.IH [OF wf_refresh [OF Cons.prems, of now k]] show ?case
    by (auto simp: Let_def case_prod_beta split: option.splits intro: advances_trans [OF advances_refresh])
qed simp

lemma Snapshot_keeps:
  "wf_world w \<Longrightarrow> wf_world (snd (Snapshot f now ord nid w)) \<and> advances w (snd (Snapshot f now ord nid w))"
  using snapshot_players_keeps [of w f now ord] by (simp add: Snapshot_def Let_def case_prod_beta)

lemma CaptureCheckpoint_keeps:
  "wf_world w \<Longrightarrow>
   wf_world (snd (CaptureCheckpoint f now ord nid w)) \<and> advances w (snd (CaptureCheckpoint f now ord nid w))"
  using Snapshot_keeps [of w f now ord nid] by (simp add: CaptureCheckpoint_def Let_def case_prod_beta)

section \<open>The background step\<close>

lemma refresh_loop_keeps:
  "wf_world w \<Longrightarrow> wf_world (snd (refresh_loop now ord w)) \<and> advances w (snd (refresh_loop now ord w))"
proof (induction ord arbitrary: w)
  case (Cons k ord)
  from Cons.IH [OF Cons.prems] Cons.IH [OF wf_refresh [OF Cons.prems, of now k]] show ?case
    by (auto simp: Let_def case_prod_beta split: option.splits intro: advances_trans [OF advances_refresh])
qed simp

lemma spawnNPC_effect:
  assumes "spawnNPCLocked w = (r, w')"
  shows "r = None \<and> w' = w \<and> (\<forall>x y. \<not> walkableForLocked x y [] w) \<or>
    (\<exists>n g. r = Some n \<and> n_Alive n \<and> 70 \<le> n_HP n \<and> n_HP n < 100 \<and> n_MaxHP n = 90 \<and> n_Attack n = NPCDamage \<and>
       n_ID n = npc_id w (w_nextNPC w) \<and> walkableForLocked (n_X n) (n_Y n) [] w \<and>
       w' = bump_version (set_npc (n_ID n) n (w\<lparr>w_rng := g, w_nextNPC := w_nextNPC w + 1\<rparr>)))"
proof (cases "bestSpawnCellLocked [] True w")
  case (Pair c w1)
  show ?thesis
  proof (cases c)
    case None
    with Pair assms show ?thesis using bestSpawn_None [of "[]" True w w1] by (simp add: spawnNPCLocked_def)
  next
    case (Some xy)
    obtain x y where xy: "xy = (x, y)" by fastforce
    note b = bestSpawn_Some [OF Pair [unfolded Some xy]]
    obtain g where w1: "w1 = w\<lparr>w_rng := g\<rparr>" using b(2) by blast
    show ?thesis
      using assms Pair Some xy b(1)
      by (auto simp: spawnNPCLocked_def Let_def Intn_def w1 npc_id_def set_npc_def)
  qed
qed

lemma spawnNPC_keeps:
  assumes wf: "wf_world w"
  shows "wf_world (snd (spawnNPCLocked w)) \<and> advances w (snd (spawnNPCLocked w))"
proof (cases "spawnNPCLocked w")
  case (Pair r w')
  from spawnNPC_effect [OF Pair] wf Pair show ?thesis
    by (auto simp: wf_npc_def protocol_consts walkable_open intro!: wf_intros)
qed

lemma npc_loop_keeps:
  "wf_world w \<Longrightarrow> wf_world (snd (npc_loop w)) \<and> advances w (snd (npc_loop w))"
proof (induction w rule: npc_loop.induct)
  case (1 w)
  obtain r w' where s: "spawnNPCLocked w = (r, w')" by fastforce
  have k: "wf_world w'" "advances w w'" using spawnNPC_keeps [OF "1.prems"] s by simp_all
  show ?case
  proof (cases r)
    case None
    with k s "1.prems" show ?thesis by (simp add: npc_loop.simps [of w])
  next
    case (Some n)
    show ?thesis
      using "1.IH" [OF _ _ _, of "Some n" w' n] s Some k "1.prems"
      by (auto simp: npc_loop.simps [of w] Let_def case_prod_beta intro: advances_trans)
  qed
qed

lemma closest_loop_keeps:
  "wf_world w \<Longrightarrow> wf_world (snd (closest_loop now x y rad ord b w)) \<and>
     advances w (snd (closest_loop now x y rad ord b w))"
proof (induction ord arbitrary: w b)
  case (Cons k ord)
  note ih = Cons.IH [OF wf_refresh [OF Cons.prems, of now k]]
  have "wf_world (snd (closest_loop now x y rad ord b' (refreshPlayerStateLocked now k w))) \<and>
     advances w (snd (closest_loop now x y rad ord b' (refreshPlayerStateLocked now k w)))" for b'
    using ih [of b'] by (auto intro: advances_trans [OF advances_refresh])
  then show ?case by (simp add: Let_def split: option.split)
qed simp

text \<open>The player the search settles on is alive and present in the world it returns.\<close>

lemma refresh_alive:
  assumes "map_of (w_players w) j = Some p" "p_Alive p"
  shows "map_of (w_players (refreshPlayerStateLocked now k w)) j = Some p"
  using assms refresh_other [of j k now w] refresh_lookup [of w k p now]
  by (cases "j = k") (auto simp: due_def)

lemma closest_loop_found:
  assumes "closest_loop now x y rad ord b w = (Some k, w')"
    and "\<And>j. b = Some j \<Longrightarrow> \<exists>p. map_of (w_players w) j = Some p \<and> p_Alive p"
  shows "\<exists>p. map_of (w_players w') k = Some p \<and> p_Alive p"
  using assms
proof (induction ord arbitrary: w b)
  case (Cons i ord)
  let ?w = "refreshPlayerStateLocked now i w"
  have keep: "\<And>j. b = Some j \<Longrightarrow> \<exists>p. map_of (w_players ?w) j = Some p \<and> p_Alive p"
    using Cons.prems(2) refresh_alive by blast
  show ?case
  proof (cases "map_of (w_players ?w) i")
    case None
    with Cons.prems(1) have "closest_loop now x y rad ord b ?w = (Some k, w')" by (simp add: Let_def)
    then show ?thesis using keep by (rule Cons.IH)
  next
    case (Some p)
    show ?thesis
    proof (cases "\<not> p_Alive p \<or> distance x y (p_X p) (p_Y p) > rad")
      case True
      with Some Cons.prems(1) have "closest_loop now x y rad ord b ?w = (Some k, w')" by (simp add: Let_def)
      then show ?thesis using keep by (rule Cons.IH)
    next
      case False
      then obtain b' where "closest_loop now x y rad ord b' ?w = (Some k, w')" and "b' = Some i \<or> b' = b"
        using Some Cons.prems(1) by (auto simp: Let_def split: if_splits option.splits)
      moreover have "\<And>j. b' = Some j \<Longrightarrow> \<exists>p. map_of (w_players ?w) j = Some p \<and> p_Alive p"
        using keep Some False \<open>b' = Some i \<or> b' = b\<close> by auto
      ultimately show ?thesis using Cons.IH by blast
    qed
  qed
qed simp

lemma wander_keeps:
  assumes "wf_world w" "wf_npc (w_terrain w) i n"
  shows "wf_world (wander_loop ds i n w) \<and> advances w (wander_loop ds i n w)"
  using assms
proof (induction ds)
  case (Cons d ds)
  obtain nx ny where "npc_step_to d (n_X n) (n_Y n) = (nx, ny)" by fastforce
  with Cons show ?case
    by (auto simp: wf_npc_def walkable_open intro!: wf_intros)
qed simp

lemma npc_turn_keeps:
  assumes wf: "wf_world w"
  shows "wf_world (snd (npc_turn now ord i w)) \<and> advances w (snd (npc_turn now ord i w))"
proof (cases "map_of (w_npcs w) i")
  case None
  then show ?thesis using wf by (simp add: npc_turn_def)
next
  case (Some n)
  have n: "wf_npc (w_terrain w) i n" using wf Some by (rule wf_npcD)
  then have alive: "n_Alive n" by (simp add: wf_npc_def)
  obtain r w1 where c: "closestPlayerLocked now (n_X n) (n_Y n) 1 ord w = (r, w1)" by fastforce
  have k: "wf_world w1" "advances w w1"
    using closest_loop_keeps [OF wf, of now "n_X n" "n_Y n" 1 ord None] c by (simp_all add: closestPlayerLocked_def)
  show ?thesis
  proof (cases r)
    case None
    have "wf_npc (w_terrain (snd (Intn 4 w1))) i n" using n k(2) by (simp add: advances_def)
    then have "wf_world (wander_loop ds i n (snd (Intn 4 w1))) \<and>
        advances (snd (Intn 4 w1)) (wander_loop ds i n (snd (Intn 4 w1)))" for ds
      using k(1) by (intro wander_keeps) simp_all
    then show ?thesis using Some alive c None advances_trans [OF k(2)]
      by (simp add: npc_turn_def case_prod_beta Let_def)
  next
    case (Some j)
    obtain p where p: "map_of (w_players w1) j = Some p" "p_Alive p"
      using closest_loop_found [of now "n_X n" "n_Y n" 1 ord None w j w1] c Some
      by (auto simp: closestPlayerLocked_def)
    have "0 \<le> n_Attack n" using n by (simp add: wf_npc_def)
    with wf_playerD [OF k(1) p(1)] show ?thesis
      using \<open>map_of (w_npcs w) i = _\<close> alive c Some k p
      by (auto simp: npc_turn_def Let_def wf_hit_player wf_knockDown intro!: wf_intros)
  qed
qed

lemma npc_turns_keeps:
  "wf_world w \<Longrightarrow> wf_world (snd (npc_turns now ord ids w)) \<and> advances w (snd (npc_turns now ord ids w))"
proof (induction ids arbitrary: w)
  case (Cons i ids)
  note t = npc_turn_keeps [OF Cons.prems, of now ord i]
  from Cons.IH [of "snd (npc_turn now ord i w)"] t show ?case
    by (auto simp: case_prod_beta Let_def intro: advances_trans)
qed simp

lemma treasure_roll_keeps:
  "wf_world w \<Longrightarrow> wf_world (snd (treasure_roll w)) \<and> advances w (snd (treasure_roll w))"
  using spawnTreasure_keeps [of "snd (Intn 100 w)" loot_kind_wild]
  by (auto simp: treasure_roll_def Let_def case_prod_beta split: option.splits intro: advances_trans)

lemma BackgroundStep_keeps:
  assumes "wf_world w"
  shows "wf_world (snd (BackgroundStep now ord w)) \<and> advances w (snd (BackgroundStep now ord w))"
proof -
  let ?w1 = "snd (refresh_loop now ord w)"
  let ?w2 = "snd (npc_loop ?w1)"
  let ?w3 = "snd (treasure_roll ?w2)"
  note a = refresh_loop_keeps [OF assms, of now ord]
  note b = npc_loop_keeps [OF conjunct1 [OF a]]
  note c = treasure_roll_keeps [OF conjunct1 [OF b]]
  note d = npc_turns_keeps [OF conjunct1 [OF c], of now ord "sort (keys (w_npcs ?w3))"]
  have "snd (BackgroundStep now ord w) = snd (npc_turns now ord (sort (keys (w_npcs ?w3))) ?w3)"
    by (simp add: BackgroundStep_def case_prod_beta Let_def)
  with a b c d show ?thesis by (metis advances_trans)
qed

section \<open>The contract of an operation\<close>

text \<open>
  What the owner of a world may rely on when it runs an operation: the invariant holds again and
  the world keeps its map and never goes back in version. A run of operations inherits it.
\<close>

locale world_operation =
  fixes exec :: "'c \<Rightarrow> World \<Rightarrow> World"
    and ok :: "'c \<Rightarrow> bool"
  assumes exec_wf: "ok c \<Longrightarrow> wf_world w \<Longrightarrow> wf_world (exec c w)"
    and exec_advances: "ok c \<Longrightarrow> wf_world w \<Longrightarrow> advances w (exec c w)"
begin

lemma run_wf: "list_all ok cs \<Longrightarrow> wf_world w \<Longrightarrow> wf_world (fold exec cs w)"
  by (induction cs arbitrary: w) (simp_all add: exec_wf)

lemma run_advances: "list_all ok cs \<Longrightarrow> wf_world w \<Longrightarrow> advances w (fold exec cs w)"
proof (induction cs arbitrary: w)
  case (Cons c cs)
  then show ?case
    using exec_wf exec_advances by (auto intro: advances_trans [of w "exec c w"])
qed simp

text \<open>Any prefix of a run has a version no later one falls below.\<close>

lemma run_version_mono:
  assumes "list_all ok (cs @ ds)" "wf_world w"
  shows "w_version (fold exec cs w) \<le> w_version (fold exec (cs @ ds) w)"
  using run_advances [of ds "fold exec cs w"] run_wf [of cs w] assms by (simp add: advances_def)

end

text \<open>The methods a node calls on a world, with their arguments.\<close>

datatype world_call =
    CallMove time string string
  | CallHeal time string
  | CallAttack time string
  | CallBuy time string string
  | CallReward time string int int
  | CallEnter time UserProfile
  | CallLeave string
  | CallProfile time string
  | CallFlush time time "string list"
  | CallSnapshot time "string list" string
  | CallTick time "string list"

fun world_exec :: "(time \<Rightarrow> string) \<Rightarrow> world_call \<Rightarrow> World \<Rightarrow> World" where
  "world_exec f (CallMove now u dir) w = snd (MovePlayer now u dir w)"
| "world_exec f (CallHeal now u) w = snd (HealPlayer now u w)"
| "world_exec f (CallAttack now u) w = snd (Attack now u w)"
| "world_exec f (CallBuy now u item) w = snd (BuyItem now u item w)"
| "world_exec f (CallReward now u td vd) w = snd (RewardPlayer now u td vd w)"
| "world_exec f (CallEnter now prof) w = snd (AddOrRestorePlayer f now prof w)"
| "world_exec f (CallLeave u) w = snd (RemovePlayer u w)"
| "world_exec f (CallProfile now u) w = snd (ProfileOf now u w)"
| "world_exec f (CallFlush now since ord) w = snd (FlushProfiles now since ord w)"
| "world_exec f (CallSnapshot now ord nid) w = snd (Snapshot f now ord nid w)"
| "world_exec f (CallTick now ord) w = snd (BackgroundStep now ord w)"

fun call_ok :: "world_call \<Rightarrow> bool" where
  "call_ok (CallReward now u td vd) \<longleftrightarrow> 0 \<le> td"
| "call_ok (CallEnter now prof) \<longleftrightarrow> wf_profile prof"
| "call_ok _ \<longleftrightarrow> True"

interpretation wop: world_operation "world_exec f" call_ok for f
proof
  fix c w
  assume ok: "call_ok c" and wf: "wf_world w"
  show "wf_world (world_exec f c w)"
    using ok wf
    by (cases c) (simp_all add: MovePlayer_keeps HealPlayer_keeps Attack_keeps BuyItem_keeps
        RewardPlayer_keeps AddOrRestorePlayer_keeps RemovePlayer_keeps ProfileOf_keeps
        FlushProfiles_keeps Snapshot_keeps BackgroundStep_keeps)
  show "advances w (world_exec f c w)"
    using ok wf
    by (cases c) (simp_all add: MovePlayer_keeps HealPlayer_keeps Attack_keeps BuyItem_keeps
        RewardPlayer_keeps AddOrRestorePlayer_keeps RemovePlayer_keeps ProfileOf_keeps
        FlushProfiles_keeps Snapshot_keeps BackgroundStep_keeps)
qed

text \<open>A player's profile, as it leaves one world, is fit to enter another.\<close>

lemma wf_profileLocked:
  "wf_player cfg t k p \<Longrightarrow> wf_profile (profileLocked w p)"
  by (auto simp: wf_player_def wf_profile_def profileLocked_def)

end
