(* ===== verification/World_Space.thy ===== *)
theory World_Space
  imports World_Ops
begin

text \<open>
  Room on a map. \<open>exclusive\<close> says that no two living units share a cell. The code keeps it as
  long as the map has room for everybody (\<open>roomy\<close>): when no cell is free,
  \<open>findSafePositionLocked\<close> puts a player on the spawn cell whoever stands there. With room, every
  operation keeps \<open>exclusive\<close>, and \<open>NewWorld\<close> returns a fully populated world for dice that show
  every face again and again.
\<close>

section \<open>Free cells\<close>

definition open_cells :: "grid \<Rightarrow> (int \<times> int) list" where
  "open_cells t = filter (\<lambda>(x, y). open_cell t x y)
     (concat (map (\<lambda>y. map (\<lambda>x. (int x, int y)) [0..<length (t ! y)]) [0..<length t]))"

definition roomy :: "World \<Rightarrow> bool" where
  "roomy w \<longleftrightarrow> length (w_players w) + max MinNPCs (length (w_npcs w)) < length (open_cells (w_terrain w))"

definition exclusive :: "World \<Rightarrow> bool" where
  "exclusive w \<longleftrightarrow>
     (\<forall>(k, p) \<in> set (w_players w). \<forall>(j, q) \<in> set (w_players w).
        p_Alive p \<and> p_Alive q \<and> p_X p = p_X q \<and> p_Y p = p_Y q \<longrightarrow> k = j) \<and>
     (\<forall>(i, n) \<in> set (w_npcs w). \<forall>(j, m) \<in> set (w_npcs w).
        n_Alive n \<and> n_Alive m \<and> n_X n = n_X m \<and> n_Y n = n_Y m \<longrightarrow> i = j) \<and>
     (\<forall>(k, p) \<in> set (w_players w). \<forall>(i, n) \<in> set (w_npcs w).
        \<not> (p_Alive p \<and> n_Alive n \<and> p_X p = n_X n \<and> p_Y p = n_Y n))"

lemma exclusiveI:
  assumes "\<And>k p j q. (k, p) \<in> set (w_players w) \<Longrightarrow> (j, q) \<in> set (w_players w) \<Longrightarrow>
             p_Alive p \<Longrightarrow> p_Alive q \<Longrightarrow> p_X p = p_X q \<Longrightarrow> p_Y p = p_Y q \<Longrightarrow> k = j"
    and "\<And>i n j m. (i, n) \<in> set (w_npcs w) \<Longrightarrow> (j, m) \<in> set (w_npcs w) \<Longrightarrow>
             n_Alive n \<Longrightarrow> n_Alive m \<Longrightarrow> n_X n = n_X m \<Longrightarrow> n_Y n = n_Y m \<Longrightarrow> i = j"
    and "\<And>k p i n. (k, p) \<in> set (w_players w) \<Longrightarrow> (i, n) \<in> set (w_npcs w) \<Longrightarrow>
             p_Alive p \<Longrightarrow> n_Alive n \<Longrightarrow> p_X p = n_X n \<Longrightarrow> p_Y p = n_Y n \<Longrightarrow> False"
  shows "exclusive w"
  unfolding exclusive_def using assms by blast

lemma exclusive_players:
  "exclusive w \<Longrightarrow> (k, p) \<in> set (w_players w) \<Longrightarrow> (j, q) \<in> set (w_players w) \<Longrightarrow>
   p_Alive p \<Longrightarrow> p_Alive q \<Longrightarrow> p_X p = p_X q \<Longrightarrow> p_Y p = p_Y q \<Longrightarrow> k = j"
  unfolding exclusive_def by fast

lemma exclusive_npcs:
  "exclusive w \<Longrightarrow> (i, n) \<in> set (w_npcs w) \<Longrightarrow> (j, m) \<in> set (w_npcs w) \<Longrightarrow>
   n_Alive n \<Longrightarrow> n_Alive m \<Longrightarrow> n_X n = n_X m \<Longrightarrow> n_Y n = n_Y m \<Longrightarrow> i = j"
  unfolding exclusive_def by fast

lemma exclusive_mixed:
  "exclusive w \<Longrightarrow> (k, p) \<in> set (w_players w) \<Longrightarrow> (i, n) \<in> set (w_npcs w) \<Longrightarrow>
   p_Alive p \<Longrightarrow> n_Alive n \<Longrightarrow> p_X p = n_X n \<Longrightarrow> p_Y p = n_Y n \<Longrightarrow> False"
  unfolding exclusive_def by fast

lemma distinct_grid: "distinct (concat (map (\<lambda>y. map (\<lambda>x. (int x, int y)) [0..<f y]) [0..<n]))"
  by (induction n) (auto simp: distinct_map inj_on_def)

lemma distinct_all_cells: "distinct (all_cells w)"
  by (simp add: all_cells_def distinct_grid)

lemma distinct_open_cells: "distinct (open_cells t)"
  by (simp add: open_cells_def distinct_grid)

lemma set_open_cells: "set (open_cells (w_terrain (w :: World))) = {(x, y). open_cell (w_terrain w) x y}"
proof -
  have "(x, y) \<in> set (all_cells w)" if "open_cell (w_terrain w) x y" for x y
    using that by (simp add: in_all_cells open_cell_bounds)
  then show ?thesis unfolding open_cells_def all_cells_def [symmetric] by auto
qed

definition occupied :: "World \<Rightarrow> (int \<times> int) list" where
  "occupied w = map (\<lambda>(_, p). (p_X p, p_Y p)) (w_players w) @ map (\<lambda>(_, n). (n_X n, n_Y n)) (w_npcs w)"

lemma free_walkable:
  "open_cell (w_terrain w) x y \<Longrightarrow> (x, y) \<notin> set (occupied w) \<Longrightarrow> walkableForLocked x y u w"
  by (auto simp: walkable_iff occupied_def)

text \<open>At most as many cells are taken as there are units.\<close>

lemma many_walkable:
  "length (open_cells (w_terrain w)) \<le>
   length (w_players w) + length (w_npcs w) + card {(x, y). walkableForLocked x y u w}"
proof -
  let ?F = "{(x, y). walkableForLocked x y u w}"
  have sub: "?F \<subseteq> set (open_cells (w_terrain w))" by (auto simp: set_open_cells walkable_iff)
  have "set (open_cells (w_terrain w)) \<subseteq> set (occupied w) \<union> ?F"
    by (auto simp: set_open_cells intro: free_walkable)
  then have "card (set (open_cells (w_terrain w))) \<le> card (set (occupied w) \<union> ?F)"
    using finite_subset [OF sub] by (intro card_mono) auto
  also have "\<dots> \<le> length (occupied w) + card ?F"
    by (meson add_le_mono1 card_Un_le card_length le_trans)
  finally show ?thesis by (simp add: occupied_def distinct_card [OF distinct_open_cells])
qed

lemma roomy_walkable: "roomy w \<Longrightarrow> \<exists>x y. walkableForLocked x y u w"
proof (rule ccontr)
  assume r: "roomy w" and "\<nexists>x y. walkableForLocked x y u w"
  then have "{(x, y). walkableForLocked x y u w} = {}" by blast
  then show False using many_walkable [of w u] r by (simp add: roomy_def)
qed

lemma findSafe_roomy:
  "roomy w \<Longrightarrow> findSafePositionLocked px py u w = ((x, y), w') \<Longrightarrow> walkableForLocked x y u w"
  using findSafe_spec(2) roomy_walkable by blast

section \<open>The stronger invariant\<close>

definition sane :: "World \<Rightarrow> bool" where
  "sane w \<longleftrightarrow> wf_world w \<and> exclusive w \<and> roomy w"

lemma sane_wf: "sane w \<Longrightarrow> wf_world w"
  by (simp add: sane_def)

lemma sane_frame [simp]:
  "sane (w\<lparr>w_rng := r\<rparr>) = sane w" "sane (w\<lparr>w_version := v\<rparr>) = sane w"
  "sane (w\<lparr>w_nextNPC := i\<rparr>) = sane w" "sane (w\<lparr>w_nextTreasure := i\<rparr>) = sane w"
  "sane (bump_version w) = sane w" "sane (snd (Intn m w)) = sane w"
  by (simp_all add: sane_def exclusive_def roomy_def bump_version_def Intn_def Let_def)

lemma sane_cong:
  "sane w \<Longrightarrow> wf_world w' \<Longrightarrow> w_players w' = w_players w \<Longrightarrow> w_npcs w' = w_npcs w \<Longrightarrow>
   w_terrain w' = w_terrain w \<Longrightarrow> sane w'"
  by (simp add: sane_def exclusive_def roomy_def)

text \<open>A unit may be written where it already stands, dead, or on a free cell.\<close>

definition may_stand :: "string \<Rightarrow> Player \<Rightarrow> World \<Rightarrow> bool" where
  "may_stand k p w \<longleftrightarrow> \<not> p_Alive p \<or> walkableForLocked (p_X p) (p_Y p) k w \<or>
     (\<exists>q. map_of (w_players w) k = Some q \<and> p_Alive q \<and> p_X q = p_X p \<and> p_Y q = p_Y p)"

lemma may_stand_alone:
  assumes wf: "wf_world w" and ex: "exclusive w" and st: "may_stand k p w" and a: "p_Alive p"
  shows "(j, q) \<in> set (w_players w) \<Longrightarrow> p_Alive q \<Longrightarrow> p_X q = p_X p \<Longrightarrow> p_Y q = p_Y p \<Longrightarrow> j = k"
    and "(i, n) \<in> set (w_npcs w) \<Longrightarrow> n_Alive n \<Longrightarrow> n_X n = p_X p \<Longrightarrow> n_Y n = p_Y p \<Longrightarrow> False"
proof -
  from st a consider "walkableForLocked (p_X p) (p_Y p) k w"
    | q where "(k, q) \<in> set (w_players w)" "p_Alive q" "p_X q = p_X p" "p_Y q = p_Y p"
    unfolding may_stand_def by (auto dest: map_of_SomeD)
  note cs = this
  show "(j, q) \<in> set (w_players w) \<Longrightarrow> p_Alive q \<Longrightarrow> p_X q = p_X p \<Longrightarrow> p_Y q = p_Y p \<Longrightarrow> j = k"
  proof (cases rule: cs)
    case 1
    assume q: "(j, q) \<in> set (w_players w)" "p_Alive q" "p_X q = p_X p" "p_Y q = p_Y p"
    have "p_Username q = j" using q(1) wf by (auto simp: wf_world_def list_all_iff wf_player_def)
    with 1 q show "j = k" by (auto simp: walkable_iff)
  next
    case (2 q')
    then show "(j, q) \<in> set (w_players w) \<Longrightarrow> p_Alive q \<Longrightarrow> p_X q = p_X p \<Longrightarrow> p_Y q = p_Y p \<Longrightarrow> j = k"
      using exclusive_players [OF ex] by metis
  qed
  show "(i, n) \<in> set (w_npcs w) \<Longrightarrow> n_Alive n \<Longrightarrow> n_X n = p_X p \<Longrightarrow> n_Y n = p_Y p \<Longrightarrow> False"
  proof (cases rule: cs)
    case 1
    then show "(i, n) \<in> set (w_npcs w) \<Longrightarrow> n_Alive n \<Longrightarrow> n_X n = p_X p \<Longrightarrow> n_Y n = p_Y p \<Longrightarrow> False"
      by (auto simp: walkable_iff)
  next
    case (2 q')
    then show "(i, n) \<in> set (w_npcs w) \<Longrightarrow> n_Alive n \<Longrightarrow> n_X n = p_X p \<Longrightarrow> n_Y n = p_Y p \<Longrightarrow> False"
      using exclusive_mixed [OF ex] by metis
  qed
qed

lemma exclusive_set_player:
  assumes wf: "wf_world w" and ex: "exclusive w" and st: "may_stand k p w"
  shows "exclusive (set_player k p w)"
proof -
  have s: "(k1, p1) \<in> set (AList.update k p (w_players w)) \<longleftrightarrow>
      k1 = k \<and> p1 = p \<or> k1 \<noteq> k \<and> (k1, p1) \<in> set (w_players w)" for k1 p1
    using wf_distinct [OF wf] by (auto simp: set_update)
  note ms = may_stand_alone [OF wf ex st]
  show ?thesis
  proof (rule exclusiveI; unfold set_fields s)
    fix k1 p1 k2 p2
    assume "k1 = k \<and> p1 = p \<or> k1 \<noteq> k \<and> (k1, p1) \<in> set (w_players w)"
      "k2 = k \<and> p2 = p \<or> k2 \<noteq> k \<and> (k2, p2) \<in> set (w_players w)"
      "p_Alive p1" "p_Alive p2" "p_X p1 = p_X p2" "p_Y p1 = p_Y p2"
    then show "k1 = k2" by (metis ms(1) exclusive_players [OF ex])
  next
    fix k1 p1 i n
    assume "k1 = k \<and> p1 = p \<or> k1 \<noteq> k \<and> (k1, p1) \<in> set (w_players w)" "(i, n) \<in> set (w_npcs w)"
      "p_Alive p1" "n_Alive n" "p_X p1 = n_X n" "p_Y p1 = n_Y n"
    then show False by (metis ms(2) exclusive_mixed [OF ex])
  qed (rule exclusive_npcs [OF ex])
qed

lemma sane_set_player [wf_intros]:
  assumes "sane w" "wf_player (w_cfg w) (w_terrain w) k p" "may_stand k p w" "k \<in> set (keys (w_players w))"
  shows "sane (set_player k p w)"
  using assms by (simp add: sane_def wf_set_player exclusive_set_player roomy_def)

definition npc_may_stand :: "string \<Rightarrow> NPC \<Rightarrow> World \<Rightarrow> bool" where
  "npc_may_stand i n w \<longleftrightarrow> walkableForLocked (n_X n) (n_Y n) [] w \<or>
     (\<exists>m. map_of (w_npcs w) i = Some m \<and> n_Alive m \<and> n_X m = n_X n \<and> n_Y m = n_Y n)"

lemma walkable_any: "wf_world w \<Longrightarrow> walkableForLocked x y [] w \<Longrightarrow> walkableForLocked x y u w"
  by (fastforce simp: walkable_iff wf_world_def list_all_iff wf_player_def)

lemma npc_may_stand_alone:
  assumes wf: "wf_world w" and ex: "exclusive w" and st: "npc_may_stand i n w"
  shows "(j, q) \<in> set (w_players w) \<Longrightarrow> p_Alive q \<Longrightarrow> p_X q = n_X n \<Longrightarrow> p_Y q = n_Y n \<Longrightarrow> False"
    and "(j, m) \<in> set (w_npcs w) \<Longrightarrow> n_Alive m \<Longrightarrow> n_X m = n_X n \<Longrightarrow> n_Y m = n_Y n \<Longrightarrow> j = i"
proof -
  from st consider "walkableForLocked (n_X n) (n_Y n) [] w"
    | m where "(i, m) \<in> set (w_npcs w)" "n_Alive m" "n_X m = n_X n" "n_Y m = n_Y n"
    unfolding npc_may_stand_def by (auto dest: map_of_SomeD)
  note cs = this
  show "(j, q) \<in> set (w_players w) \<Longrightarrow> p_Alive q \<Longrightarrow> p_X q = n_X n \<Longrightarrow> p_Y q = n_Y n \<Longrightarrow> False"
  proof (cases rule: cs)
    case 1
    assume q: "(j, q) \<in> set (w_players w)" "p_Alive q" "p_X q = n_X n" "p_Y q = n_Y n"
    have "p_Username q \<noteq> []" using q(1) wf by (auto simp: wf_world_def list_all_iff wf_player_def)
    with 1 q show False by (auto simp: walkable_iff)
  next
    case (2 m)
    then show "(j, q) \<in> set (w_players w) \<Longrightarrow> p_Alive q \<Longrightarrow> p_X q = n_X n \<Longrightarrow> p_Y q = n_Y n \<Longrightarrow> False"
      using exclusive_mixed [OF ex] by metis
  qed
  show "(j, m) \<in> set (w_npcs w) \<Longrightarrow> n_Alive m \<Longrightarrow> n_X m = n_X n \<Longrightarrow> n_Y m = n_Y n \<Longrightarrow> j = i"
  proof (cases rule: cs)
    case 1
    then show "(j, m) \<in> set (w_npcs w) \<Longrightarrow> n_Alive m \<Longrightarrow> n_X m = n_X n \<Longrightarrow> n_Y m = n_Y n \<Longrightarrow> j = i"
      by (auto simp: walkable_iff)
  next
    case (2 m')
    then show "(j, m) \<in> set (w_npcs w) \<Longrightarrow> n_Alive m \<Longrightarrow> n_X m = n_X n \<Longrightarrow> n_Y m = n_Y n \<Longrightarrow> j = i"
      using exclusive_npcs [OF ex] by metis
  qed
qed

lemma exclusive_set_npc:
  assumes wf: "wf_world w" and ex: "exclusive w" and st: "npc_may_stand i n w"
  shows "exclusive (set_npc i n w)"
proof -
  have s: "(i1, n1) \<in> set (AList.update i n (w_npcs w)) \<longleftrightarrow>
      i1 = i \<and> n1 = n \<or> i1 \<noteq> i \<and> (i1, n1) \<in> set (w_npcs w)" for i1 n1
    using wf_distinct [OF wf] by (auto simp: set_update)
  note ms = npc_may_stand_alone [OF wf ex st]
  show ?thesis
  proof (rule exclusiveI; unfold set_fields s)
    fix i1 n1 i2 n2
    assume "i1 = i \<and> n1 = n \<or> i1 \<noteq> i \<and> (i1, n1) \<in> set (w_npcs w)"
      "i2 = i \<and> n2 = n \<or> i2 \<noteq> i \<and> (i2, n2) \<in> set (w_npcs w)"
      "n_Alive n1" "n_Alive n2" "n_X n1 = n_X n2" "n_Y n1 = n_Y n2"
    then show "i1 = i2" by (metis ms(2) exclusive_npcs [OF ex])
  next
    fix k1 p1 i1 n1
    assume "(k1, p1) \<in> set (w_players w)" "i1 = i \<and> n1 = n \<or> i1 \<noteq> i \<and> (i1, n1) \<in> set (w_npcs w)"
      "p_Alive p1" "n_Alive n1" "p_X p1 = n_X n1" "p_Y p1 = n_Y n1"
    then show False by (metis ms(1) exclusive_mixed [OF ex])
  qed (rule exclusive_players [OF ex])
qed

lemma sane_set_npc [wf_intros]:
  assumes "sane w" "wf_npc (w_terrain w) i n" "npc_may_stand i n w"
    "i \<in> set (keys (w_npcs w)) \<or> length (w_npcs w) < MinNPCs"
  shows "sane (set_npc i n w)"
  using assms
  by (cases "i \<in> set (keys (w_npcs w))") (auto simp: sane_def wf_set_npc exclusive_set_npc roomy_def)

lemma exclusive_subset:
  assumes "exclusive w" "set (w_players w') \<subseteq> set (w_players w)" "set (w_npcs w') \<subseteq> set (w_npcs w)"
  shows "exclusive w'"
proof (rule exclusiveI)
  fix k p j q
  assume "(k, p) \<in> set (w_players w')" "(j, q) \<in> set (w_players w')"
    "p_Alive p" "p_Alive q" "p_X p = p_X q" "p_Y p = p_Y q"
  then show "k = j" by (rule exclusive_players [OF assms(1) subsetD [OF assms(2)] subsetD [OF assms(2)]])
next
  fix i n j m
  assume "(i, n) \<in> set (w_npcs w')" "(j, m) \<in> set (w_npcs w')"
    "n_Alive n" "n_Alive m" "n_X n = n_X m" "n_Y n = n_Y m"
  then show "i = j" by (rule exclusive_npcs [OF assms(1) subsetD [OF assms(3)] subsetD [OF assms(3)]])
next
  fix k p i n
  assume "(k, p) \<in> set (w_players w')" "(i, n) \<in> set (w_npcs w')"
    "p_Alive p" "n_Alive n" "p_X p = n_X n" "p_Y p = n_Y n"
  then show False by (rule exclusive_mixed [OF assms(1) subsetD [OF assms(2)] subsetD [OF assms(3)]])
qed

lemma length_delete: "length (AList.delete k al) \<le> length al"
  by (simp add: AList.delete_eq)

lemma sane_delete [wf_intros]:
  "sane w \<Longrightarrow> sane (w\<lparr>w_players := AList.delete k (w_players w)\<rparr>)"
  "sane w \<Longrightarrow> sane (w\<lparr>w_npcs := AList.delete i (w_npcs w)\<rparr>)"
  using length_delete [of k "w_players w"] length_delete [of i "w_npcs w"]
  by (auto simp: sane_def roomy_def wf_intros set_delete elim!: exclusive_subset)

section \<open>Operations keep units apart\<close>

lemma may_stand_frame [simp]:
  "may_stand k p (w\<lparr>w_rng := r\<rparr>) = may_stand k p w"
  "npc_may_stand i n (w\<lparr>w_rng := r\<rparr>) = npc_may_stand i n w"
  "npc_may_stand i n (w\<lparr>w_nextNPC := m\<rparr>) = npc_may_stand i n w"
  "npc_may_stand i n (snd (Intn m' w)) = npc_may_stand i n w"
  by (simp_all add: may_stand_def npc_may_stand_def walkable_iff Intn_def Let_def)

lemma key_present: "map_of al k = Some v \<Longrightarrow> k \<in> set (keys al)"
  by (force dest: map_of_SomeD)

lemma may_stand_still:
  "map_of (w_players w) k = Some q \<Longrightarrow> p_X p = p_X q \<Longrightarrow> p_Y p = p_Y q \<Longrightarrow> (p_Alive p \<Longrightarrow> p_Alive q) \<Longrightarrow>
   may_stand k p w"
  by (auto simp: may_stand_def)

lemma sane_refresh [wf_intros]: "sane w \<Longrightarrow> sane (refreshPlayerStateLocked now k w)"
proof (cases rule: refresh_cases [of now k w])
  case (revive p x y r)
  assume s: "sane w"
  have user: "p_Username p = k" using wf_playerD [OF sane_wf [OF s] revive(1)] by (simp add: wf_player_def)
  have "walkableForLocked x y k w"
    using revive(4) s roomy_walkable [of w k] user by (auto simp: sane_def)
  then have "may_stand k (revived now x y p) w" by (simp add: may_stand_def revived_def)
  moreover have "wf_player (w_cfg w) (w_terrain w) k (revived now x y p)"
    using wf_playerD [OF sane_wf [OF s] revive(1)] walkable_open [OF \<open>walkableForLocked x y k w\<close>]
    by (auto simp: wf_player_def revived_def protocol_consts)
  ultimately show ?thesis using s key_present [OF revive(1)] by (simp add: revive(3) sane_set_player)
qed simp

lemma sane_rewrite:
  assumes "sane w" "map_of (w_players w) k = Some q" "wf_player (w_cfg w) (w_terrain w) k p"
    "p_X p = p_X q" "p_Y p = p_Y q" "p_Alive p \<longrightarrow> p_Alive q"
  shows "sane (set_player k p w)"
  using assms key_present [OF assms(2)] by (intro sane_set_player may_stand_still) auto

lemma sane_entry:
  assumes "sane w" "map_of (w_players w) u = Some p"
  obtains w1 q where "refreshPlayerStateLocked now u w = w1" "map_of (w_players w1) u = Some q"
    "sane w1" "wf_player (w_cfg w1) (w_terrain w1) u q" "u \<in> set (keys (w_players w1))"
proof -
  obtain w1 q where "refreshPlayerStateLocked now u w = w1" "map_of (w_players w1) u = Some q"
    "wf_player (w_cfg w1) (w_terrain w1) u q"
    using command_entry [OF sane_wf [OF assms(1)] assms(2)] by metis
  moreover from this have "sane w1" using sane_refresh [OF assms(1)] by blast
  ultimately show thesis using that key_present by metis
qed

lemma sane_set_player_wf:
  assumes "sane w" "wf_world (set_player k p w)" "may_stand k p w" "k \<in> set (keys (w_players w))"
  shows "sane (set_player k p w)"
  using assms by (simp add: sane_def exclusive_set_player roomy_def)

lemma sane_take_treasure: "sane w \<Longrightarrow> sane (w\<lparr>w_treasures := AList.delete i (w_treasures w)\<rparr>)"
  by (rule sane_cong) (auto simp: wf_delete_treasure sane_wf)

lemma MovePlayer_sane:
  assumes s: "sane w"
  shows "sane (snd (MovePlayer now u dir w))"
proof (cases "map_of (w_players w) u")
  case None
  then show ?thesis using s by (simp add: MovePlayer_def)
next
  case (Some p)
  obtain w1 q where e: "refreshPlayerStateLocked now u w = w1" "map_of (w_players w1) u = Some q"
    "sane w1" "wf_player (w_cfg w1) (w_terrain w1) u q" "u \<in> set (keys (w_players w1))"
    using sane_entry [OF s Some] by blast
  obtain nx ny where st: "step_to dir (p_X q) (p_Y q) = (nx, ny)" by fastforce
  have qn: "p_Username q = u" using e(4) by (simp add: wf_player_def)
  have put: "sane (set_player u (q\<lparr>p_X := nx, p_Y := ny, p_LastUpdate := now, p_Treasures := v\<rparr>) w1)"
    if "walkableForLocked nx ny u w1" "0 \<le> v" for v
    using e(3-5) that walkable_open [OF that(1)]
    by (intro sane_set_player) (auto simp: wf_player_def may_stand_def)
  have put': "sane (set_player u (q\<lparr>p_X := nx, p_Y := ny, p_LastUpdate := now\<rparr>) w1)"
    if "walkableForLocked nx ny u w1"
    using put [OF that, of "p_Treasures q"] e(4) by (simp add: wf_player_def)
  have nonneg: "0 \<le> p_Treasures q + t_Value t" if "treasureAtLocked nx ny w1 = Some (i, t)" for i t
    using treasureAt_wf [OF sane_wf [OF e(3)] that] e(4) by (simp add: wf_treasure_def wf_player_def)
  show ?thesis
  proof (cases "p_Alive q \<and> walkableForLocked nx ny u w1")
    case False
    then show ?thesis using Some e(1-3) st qn by (auto simp: MovePlayer_def Let_def)
  next
    case True
    show ?thesis
    proof (cases "treasureAtLocked nx ny w1")
      case None
      then show ?thesis using Some e(1,2) st qn True put' by (simp add: MovePlayer_def Let_def)
    next
      case (Some it)
      obtain i t where it: "it = (i, t)" by fastforce
      have "sane (set_player u (q\<lparr>p_X := nx, p_Y := ny, p_LastUpdate := now, p_Treasures := p_Treasures q + t_Value t\<rparr>) w1)"
        using put True nonneg Some it by blast
      from sane_take_treasure [OF this, of i] show ?thesis
        using \<open>map_of (w_players w) u = _\<close> e(1,2) st qn True Some it by (simp add: MovePlayer_def Let_def)
    qed
  qed
qed

lemma HealPlayer_sane:
  assumes s: "sane w"
  shows "sane (snd (HealPlayer now u w))"
proof (cases "map_of (w_players w) u")
  case None
  then show ?thesis using s by (simp add: HealPlayer_def)
next
  case (Some p)
  obtain w1 q where e: "refreshPlayerStateLocked now u w = w1" "map_of (w_players w1) u = Some q"
    "sane w1" "wf_player (w_cfg w1) (w_terrain w1) u q" "u \<in> set (keys (w_players w1))"
    using sane_entry [OF s Some] by blast
  then show ?thesis using Some
    by (simp add: HealPlayer_def Let_def)
      (intro conjI impI sane_rewrite [OF e(3,2)]; simp add: wf_player_def protocol_consts)
qed

lemma BuyItem_sane:
  assumes s: "sane w"
  shows "sane (snd (BuyItem now u item w))"
proof (cases "map_of (w_players w) u")
  case None
  then show ?thesis using s by (simp add: BuyItem_def)
next
  case (Some p)
  obtain w1 q where e: "refreshPlayerStateLocked now u w = w1" "map_of (w_players w1) u = Some q"
    "sane w1" "wf_player (w_cfg w1) (w_terrain w1) u q" "u \<in> set (keys (w_players w1))"
    using sane_entry [OF s Some] by blast
  then show ?thesis using Some
    by (simp add: BuyItem_def Let_def)
      (intro conjI impI sane_rewrite [OF e(3,2)]; simp add: wf_player_def protocol_consts)
qed

lemma RewardPlayer_sane:
  assumes s: "sane w" and "0 \<le> td"
  shows "sane (snd (RewardPlayer now u td vd w))"
proof (cases "map_of (w_players w) u")
  case (Some p)
  have "sane (set_player u (p\<lparr>p_Treasures := p_Treasures p + td, p_Victories := p_Victories p + vd, p_LastUpdate := now\<rparr>) w)"
    using wf_playerD [OF sane_wf [OF s] Some] assms(2) by (intro sane_rewrite [OF s Some]) (auto simp: wf_player_def)
  with Some show ?thesis by (simp add: RewardPlayer_def Let_def)
qed (simp add: RewardPlayer_def s)

lemma sane_loot:
  assumes s: "sane w" and "open_cell (w_terrain w) x y" "0 < v"
  shows "sane (snd (dropTreasureLocked x y v kind w))"
proof -
  have "w_players (snd (dropTreasureLocked x y v kind w)) = w_players w"
    "w_npcs (snd (dropTreasureLocked x y v kind w)) = w_npcs w"
    by (simp_all add: dropTreasureLocked_def Let_def set_treasure_def bump_version_def split: option.splits)
  with s show ?thesis
    using dropTreasure_keeps [OF sane_wf [OF s] assms(2,3), of kind]
    by (auto simp: advances_def intro: sane_cong)
qed

lemma knockDown_fields [simp]:
  "p_X (knockDownPlayerLocked now p) = p_X p" "p_Y (knockDownPlayerLocked now p) = p_Y p"
  "\<not> p_Alive (knockDownPlayerLocked now p)"
  by (simp_all add: knockDownPlayerLocked_def)

lemma Attack_sane:
  assumes s: "sane w"
  shows "sane (snd (Attack now u w))"
proof (cases "map_of (w_players w) u")
  case None
  then show ?thesis using s by (simp add: Attack_def)
next
  case (Some p)
  note u = Some
  obtain w1 q where e: "refreshPlayerStateLocked now u w = w1" "map_of (w_players w1) u = Some q"
    "sane w1" "wf_player (w_cfg w1) (w_terrain w1) u q" "u \<in> set (keys (w_players w1))"
    using sane_entry [OF s Some] by blast
  have att: "0 \<le> p_Attack q" using e(4) by (simp add: wf_player_def)
  show ?thesis
  proof (cases "p_Alive q")
    case False
    with e u show ?thesis by (simp add: Attack_def Let_def)
  next
    case alive: True
    show ?thesis
    proof (cases "pick_npc (p_X q) (p_Y q) (w_npcs w1)")
      case (Some n)
      note n = pick_npc_wf [OF sane_wf [OF e(3)] Some]
      show ?thesis
      proof (cases "n_HP n - p_Attack q \<le> 0")
        case True
        let ?w2 = "set_player u (q\<lparr>p_LastUpdate := now, p_Kills := p_Kills q + 1\<rparr>)
                     (w1\<lparr>w_npcs := AList.delete (n_ID n) (w_npcs w1)\<rparr>)"
        have "sane ?w2"
          using e(2,4) by (intro sane_rewrite [of _ _ q] sane_delete e(3)) (auto simp: wf_stamp)
        then have "sane (snd (dropTreasureLocked (n_X n) (n_Y n) (2 + int v) loot_kind_npc (snd (Intn 3 ?w2))))" for v
          using n(2) by (intro sane_loot) (auto simp: wf_npc_def)
        then show ?thesis using e(1,2) alive Some True u
          by (simp add: Attack_def Let_def case_prod_beta)
      next
        case False
        have "sane (set_npc (n_ID n) (n\<lparr>n_HP := n_HP n - p_Attack q\<rparr>) w1)"
          using n False key_present [OF n(1)]
          by (intro sane_set_npc e(3)) (auto simp: wf_npc_def npc_may_stand_def)
        then have "sane (set_player u (q\<lparr>p_LastUpdate := now\<rparr>) (set_npc (n_ID n) (n\<lparr>n_HP := n_HP n - p_Attack q\<rparr>) w1))"
          by (rule sane_rewrite [where q = q]) (use e(2,4) in \<open>simp_all add: wf_stamp\<close>)
        then show ?thesis using e(1,2) alive Some False u by (simp add: Attack_def Let_def)
      qed
    next
      case None
      show ?thesis
      proof (cases "pick_player u (p_X q) (p_Y q) (w_players w1)")
        case None
        then show ?thesis using \<open>pick_npc _ _ _ = None\<close> u e alive by (simp add: Attack_def Let_def)
      next
        case (Some t)
        note t = pick_player_wf [OF sane_wf [OF e(3)] Some]
        have hit: "sane (set_player u q' (set_player (p_Username t) t' w1))"
          if "wf_player (w_cfg w1) (w_terrain w1) (p_Username t) t'" "p_X t' = p_X t" "p_Y t' = p_Y t"
            "p_Alive t' \<longrightarrow> p_Alive t" "q' = q\<lparr>p_LastUpdate := now\<rparr> \<or> q' = q\<lparr>p_LastUpdate := now, p_Kills := p_Kills q + 1\<rparr>"
          for t' q'
        proof -
          have "sane (set_player (p_Username t) t' w1)" by (rule sane_rewrite [OF e(3) t(1)]) (use that in auto)
          then show ?thesis
            by (rule sane_rewrite [where q = q]) (use e(2,4) t(3) that(5) in \<open>auto simp: wf_stamp\<close>)
        qed
        show ?thesis
          using \<open>pick_npc _ _ _ = None\<close> u e(1,2) alive Some
          by (simp add: Attack_def Let_def)
            (intro conjI impI hit; simp add: wf_hit_player [OF t(2)] wf_knockDown [OF t(2)] att)
      qed
    qed
  qed
qed

lemma AddOrRestorePlayer_sane:
  assumes s: "sane w" and u: "wf_profile u"
    and room: "length (w_players w) + max MinNPCs (length (w_npcs w)) + 1 < length (open_cells (w_terrain w))"
  shows "sane (snd (AddOrRestorePlayer f now u w))"
proof -
  define px py where "px = (if u_LastMap u \<noteq> cfg_ID (w_cfg w) then SpawnX (w_cfg w) else u_X u)"
    and "py = (if u_LastMap u \<noteq> cfg_ID (w_cfg w) then SpawnY (w_cfg w) else u_Y u)"
  obtain x y w1 where fs: "findSafePositionLocked px py [] w = ((x, y), w1)" by (metis surj_pair)
  obtain g where w1: "w1 = w\<lparr>w_rng := g\<rparr>" using findSafe_spec(1) [OF fs] by blast
  let ?p = "restored_player now w1 u x y"
  have eq: "snd (AddOrRestorePlayer f now u w) = bump_version (set_player (u_Username u) ?p w1)"
    using fs by (simp add: AddOrRestorePlayer_def Let_def px_def py_def split: if_splits)
  have "walkableForLocked x y (u_Username u) w"
    by (rule walkable_any [OF sane_wf [OF s] findSafe_roomy [OF _ fs]]) (use s in \<open>simp add: sane_def\<close>)
  moreover have "p_X ?p = x" "p_Y ?p = y" by (simp_all add: restored_player_def Let_def)
  ultimately have st: "may_stand (u_Username u) ?p w1" by (simp add: may_stand_def w1 walkable_iff)
  have s1: "sane w1" using s by (simp add: w1)
  have "roomy (set_player (u_Username u) ?p w1)"
    using room by (cases "u_Username u \<in> set (keys (w_players w))") (auto simp: roomy_def w1)
  then show ?thesis
    unfolding eq sane_frame
    using AddOrRestorePlayer_keeps [OF sane_wf [OF s] u, of f now] exclusive_set_player [OF sane_wf [OF s1] _ st] s1
    by (simp add: sane_def eq)
qed

lemma RemovePlayer_sane: "sane w \<Longrightarrow> sane (snd (RemovePlayer u w))"
  by (auto simp: RemovePlayer_def sane_delete split: option.splits)

lemma ProfileOf_sane: "sane w \<Longrightarrow> sane (snd (ProfileOf now u w))"
  by (auto simp: ProfileOf_def Let_def sane_refresh split: option.splits)

lemma FlushProfiles_sane: "sane w \<Longrightarrow> sane (snd (FlushProfiles now since ord w))"
  by (induction ord arbitrary: w) (auto simp: Let_def case_prod_beta sane_refresh split: option.splits)

lemma snapshot_players_sane: "sane w \<Longrightarrow> sane (snd (snapshot_players f now ord w))"
  by (induction ord arbitrary: w) (auto simp: Let_def case_prod_beta sane_refresh split: option.splits)

lemma Snapshot_sane: "sane w \<Longrightarrow> sane (snd (Snapshot f now ord nid w))"
  by (simp add: Snapshot_def Let_def case_prod_beta snapshot_players_sane)

lemma refresh_loop_sane: "sane w \<Longrightarrow> sane (snd (refresh_loop now ord w))"
  by (induction ord arbitrary: w) (auto simp: Let_def case_prod_beta sane_refresh split: option.splits)

lemma spawnNPC_sane:
  assumes s: "sane w" and few: "length (w_npcs w) < MinNPCs"
  shows "sane (snd (spawnNPCLocked w))"
proof (cases "spawnNPCLocked w")
  case (Pair r w')
  from spawnNPC_effect [OF Pair] s few Pair spawnNPC_keeps [OF sane_wf [OF s]] show ?thesis
    by (auto simp: wf_npc_def protocol_consts walkable_open npc_may_stand_def walkable_iff intro!: sane_set_npc)
qed

lemma npc_loop_sane: "sane w \<Longrightarrow> sane (snd (npc_loop w))"
proof (induction w rule: npc_loop.induct)
  case (1 w)
  obtain r w' where sp: "spawnNPCLocked w = (r, w')" by fastforce
  show ?case
  proof (cases "length (w_npcs w) < MinNPCs")
    case True
    have "sane w'" using spawnNPC_sane [OF "1.prems" True] sp by simp
    with "1.IH" [OF True, of r w'] sp True show ?thesis
      by (cases r) (simp_all add: npc_loop.simps [of w] Let_def case_prod_beta)
  next
    case False
    with "1.prems" show ?thesis by (simp add: npc_loop.simps [of w])
  qed
qed

lemma closest_loop_sane: "sane w \<Longrightarrow> sane (snd (closest_loop now x y rad ord b w))"
  by (induction ord arbitrary: w b) (simp_all add: Let_def sane_refresh split: option.split)

lemma closest_loop_npcs [simp]: "w_npcs (snd (closest_loop now x y rad ord b w)) = w_npcs w"
  by (induction ord arbitrary: w b) (simp_all add: Let_def split: option.split)

lemma wander_sane:
  assumes "sane w" "wf_npc (w_terrain w) i n" "i \<in> set (keys (w_npcs w))"
  shows "sane (wander_loop ds i n w)"
  using assms
proof (induction ds)
  case (Cons d ds)
  obtain nx ny where st: "npc_step_to d (n_X n) (n_Y n) = (nx, ny)" by fastforce
  have "sane (set_npc i (n\<lparr>n_X := nx, n_Y := ny\<rparr>) w)" if "walkableForLocked nx ny [] w"
    using Cons.prems that by (intro sane_set_npc) (auto simp: wf_npc_def walkable_open npc_may_stand_def)
  with Cons st show ?case by simp
qed simp

lemma npc_turn_sane:
  assumes s: "sane w"
  shows "sane (snd (npc_turn now ord i w))"
proof (cases "map_of (w_npcs w) i")
  case None
  then show ?thesis using s by (simp add: npc_turn_def)
next
  case (Some n)
  note i = Some
  have n: "wf_npc (w_terrain w) i n" using sane_wf [OF s] Some by (rule wf_npcD)
  then have alive: "n_Alive n" and att: "0 \<le> n_Attack n" by (simp_all add: wf_npc_def)
  obtain r w1 where c: "closestPlayerLocked now (n_X n) (n_Y n) 1 ord w = (r, w1)" by fastforce
  have w1: "sane w1" "w_npcs w1 = w_npcs w" "w_terrain w1 = w_terrain w"
    using closest_loop_sane [OF s, of now "n_X n" "n_Y n" 1 ord None]
      arg_cong [OF c [unfolded closestPlayerLocked_def], of "\<lambda>r. w_npcs (snd r)"]
      closest_loop_keeps [OF sane_wf [OF s], of now "n_X n" "n_Y n" 1 ord None] c
    by (simp_all add: closestPlayerLocked_def advances_def)
  show ?thesis
  proof (cases r)
    case None
    have "sane (wander_loop ds i n (snd (Intn 4 w1)))" for ds
      using w1 n key_present [OF i] by (intro wander_sane) simp_all
    then show ?thesis using i alive c None by (simp add: npc_turn_def case_prod_beta Let_def)
  next
    case (Some j)
    obtain p where p: "map_of (w_players w1) j = Some p" "p_Alive p"
      using closest_loop_found [of now "n_X n" "n_Y n" 1 ord None w j w1] c Some
      by (auto simp: closestPlayerLocked_def)
    note pw = wf_playerD [OF sane_wf [OF w1(1)] p(1)]
    show ?thesis
      using i alive c Some p
      by (simp add: npc_turn_def Let_def)
        (intro conjI impI sane_rewrite [OF w1(1) p(1)]; simp add: wf_hit_player [OF pw] wf_knockDown [OF pw] att)
  qed
qed

lemma npc_turns_sane: "sane w \<Longrightarrow> sane (snd (npc_turns now ord ids w))"
  by (induction ids arbitrary: w) (simp_all add: case_prod_beta Let_def npc_turn_sane)

lemma spawnTreasure_fields:
  "w_players (snd (spawnTreasureLocked kind w)) = w_players w"
  "w_npcs (snd (spawnTreasureLocked kind w)) = w_npcs w"
  using bestSpawnCell_frame [of "[]" False w]
  by (auto simp: spawnTreasureLocked_def dropTreasureLocked_def Let_def set_treasure_def bump_version_def
      case_prod_beta split: option.splits)

lemma treasure_roll_sane:
  assumes s: "sane w"
  shows "sane (snd (treasure_roll w))"
proof (rule sane_cong [OF s])
  show "wf_world (snd (treasure_roll w))" "w_terrain (snd (treasure_roll w)) = w_terrain w"
    using treasure_roll_keeps [OF sane_wf [OF s]] by (simp_all add: advances_def)
  show "w_players (snd (treasure_roll w)) = w_players w" "w_npcs (snd (treasure_roll w)) = w_npcs w"
    by (simp_all add: treasure_roll_def Let_def case_prod_beta spawnTreasure_fields split: option.split)
qed

lemma BackgroundStep_sane: "sane w \<Longrightarrow> sane (snd (BackgroundStep now ord w))"
  by (simp add: BackgroundStep_def case_prod_beta Let_def npc_turns_sane treasure_roll_sane npc_loop_sane refresh_loop_sane)

section \<open>The contract with room\<close>

locale roomy_operation = world_operation +
  fixes fits :: "'a \<Rightarrow> World \<Rightarrow> bool"
  assumes exec_sane: "ok c \<Longrightarrow> fits c w \<Longrightarrow> sane w \<Longrightarrow> sane (exec c w)"
begin

lemma run_sane: "list_all (\<lambda>c. ok c \<and> (\<forall>w. fits c w)) cs \<Longrightarrow> sane w \<Longrightarrow> sane (fold exec cs w)"
  by (induction cs arbitrary: w) (simp_all add: exec_sane)

end

text \<open>Only entering needs room: one cell more than the units already on the map.\<close>

fun call_fits :: "world_call \<Rightarrow> World \<Rightarrow> bool" where
  "call_fits (CallEnter now prof) w \<longleftrightarrow>
     length (w_players w) + max MinNPCs (length (w_npcs w)) + 1 < length (open_cells (w_terrain w))"
| "call_fits _ w \<longleftrightarrow> True"

interpretation rop: roomy_operation "world_exec f" call_ok call_fits for f
proof
  fix c w
  assume ok: "call_ok c" "call_fits c w" "sane w"
  then show "sane (world_exec f c w)"
    by (cases c) (simp_all add: MovePlayer_sane HealPlayer_sane Attack_sane BuyItem_sane
        RewardPlayer_sane AddOrRestorePlayer_sane RemovePlayer_sane ProfileOf_sane
        FlushProfiles_sane Snapshot_sane BackgroundStep_sane)
qed

end
