(* ===== verification/World_Boot.thy ===== *)
theory World_Boot
  imports World_Space
begin

text \<open>
  Liveness of \<open>NewWorld\<close>. The monster loop of \<open>bootstrap\<close> returns for all dice on a map with
  room. The treasure loop may drop a treasure on one that lies there already, which merges the
  two and does not count, so it returns only if the dice are fair enough: \<open>fair_dice\<close> asks that
  every face of the twelve-sided draw comes up again among every second draw.
\<close>

definition fair_dice :: "(nat \<Rightarrow> nat) \<Rightarrow> bool" where
  "fair_dice d \<longleftrightarrow> (\<forall>i. \<forall>c < 12. \<exists>j. d (i + 2 * j) mod 12 = c)"

lemma fair_half: "fair_dice (\<lambda>n. n div 2)"
  unfolding fair_dice_def
proof (intro allI impI)
  fix i c :: nat
  assume c: "c < 12"
  have "((i + 2 * (11 * (i div 2) + c)) div 2) = i div 2 + (11 * (i div 2) + c)" by simp
  also have "\<dots> = c + 12 * (i div 2)" by simp
  finally have "((i + 2 * (11 * (i div 2) + c)) div 2) mod 12 = c" using c by simp
  then show "\<exists>j. (i + 2 * j) div 2 mod 12 = c" by blast
qed

section \<open>Enough room on the maps\<close>

lemma open_cells_ge:
  assumes "distinct xs" "list_all (\<lambda>(x, y). open_cell t x y) xs"
  shows "length xs \<le> length (open_cells t)"
proof -
  have "set xs \<subseteq> set (open_cells t)"
    using assms(2) set_open_cells [of "undefined\<lparr>w_terrain := t\<rparr>"] by (auto simp: list_all_iff)
  then have "card (set xs) \<le> card (set (open_cells t))" by (intro card_mono) simp_all
  then show ?thesis using assms(1) distinct_open_cells by (simp add: distinct_card)
qed

text \<open>The first row alone has enough open cells.\<close>

definition first_row :: "(int \<times> int) list" where
  "first_row = map (\<lambda>x. (int x, 1)) [1..<24]"

lemma open_cells_maps:
  assumes "cfg \<in> set AvailableMaps"
  shows "20 < length (open_cells (stringsToGrid (cfg_Layout cfg)))"
proof -
  have "list_all (\<lambda>(x, y). open_cell (stringsToGrid (cfg_Layout buildGreenMap)) x y) first_row"
    unfolding green_layout by code_simp
  moreover have "list_all (\<lambda>(x, y). open_cell (stringsToGrid (cfg_Layout buildCaveMap)) x y) first_row"
    unfolding cave_layout by code_simp
  moreover have "list_all (\<lambda>(x, y). open_cell (stringsToGrid (cfg_Layout buildRuinsMap)) x y) first_row"
    unfolding ruins_layout by code_simp
  ultimately have "list_all (\<lambda>(x, y). open_cell (stringsToGrid (cfg_Layout cfg)) x y) first_row"
    using assms by (auto simp: AvailableMaps_def)
  moreover have "distinct first_row" "length first_row = 23"
    by (simp_all add: first_row_def distinct_map inj_on_def)
  ultimately show ?thesis using open_cells_ge [of first_row "stringsToGrid (cfg_Layout cfg)"] by simp
qed

lemma sane_empty_world:
  assumes "cfg \<in> set AvailableMaps"
  shows "sane (empty_world cfg d)"
proof -
  have wf: "wf_config cfg" using assms wf_green wf_cave wf_ruins by (auto simp: AvailableMaps_def)
  then have "stringsToGrid (cfg_Layout cfg) \<noteq> []"
    by (auto simp: wf_config_def open_cell_def)
  with wf open_cells_maps [OF assms] show ?thesis
    by (simp add: sane_def empty_world_def wf_world_def wf_config_def exclusive_def roomy_def treasure_cells_def
        protocol_consts)
qed

section \<open>Monsters\<close>

definition fresh_npcs :: "World \<Rightarrow> bool" where
  "fresh_npcs w \<longleftrightarrow> ids_in_the_way w = {}"

lemma spawnNPC_fresh:
  assumes s: "sane w" and few: "length (w_npcs w) < MinNPCs" and f: "fresh_npcs w"
  obtains w' where "snd (spawnNPCLocked w) = w'" "sane w'" "fresh_npcs w'"
    "length (w_npcs w') = Suc (length (w_npcs w))" "w_players w' = w_players w" "w_treasures w' = w_treasures w"
    "w_nextTreasure w' = w_nextTreasure w" "w_cfg w' = w_cfg w" "w_terrain w' = w_terrain w"
    "draws (w_rng w') = draws (w_rng w)"
proof -
  obtain r w' where sp: "spawnNPCLocked w = (r, w')" by fastforce
  have "\<exists>x y. walkableForLocked x y [] w" using s roomy_walkable by (auto simp: sane_def)
  then obtain n g where e: "r = Some n" "n_ID n = npc_id w (w_nextNPC w)"
    "w' = bump_version (set_npc (n_ID n) n (w\<lparr>w_rng := g, w_nextNPC := w_nextNPC w + 1\<rparr>))"
    using spawnNPC_effect [OF sp] by blast
  have new: "npc_id w (w_nextNPC w) \<notin> set (keys (w_npcs w))"
    using f by (auto simp: fresh_npcs_def ids_in_the_way_def)
  show thesis
  proof
    show "snd (spawnNPCLocked w) = w'" by (simp add: sp)
    show "sane w'" using spawnNPC_sane [OF s few] sp by simp
    show "length (w_npcs w') = Suc (length (w_npcs w))" using new by (simp add: e)
    show "fresh_npcs w'"
      using f by (auto simp: fresh_npcs_def ids_in_the_way_def e npc_id_def set_npc_def bump_version_def)
    show "draws (w_rng w') = draws (w_rng w)"
      using sp by (auto simp: spawnNPCLocked_def bestSpawnCellLocked_def Let_def Intn_def set_npc_def bump_version_def
          split: if_splits prod.splits)
  qed (simp_all add: e set_npc_def bump_version_def)
qed

lemma boot_npcs_returns:
  assumes "sane w" "fresh_npcs w" "length (w_npcs w) \<le> MinNPCs"
  shows "\<exists>w'. boot_npcs w = Some w' \<and> sane w' \<and> length (w_npcs w') = MinNPCs \<and>
    w_players w' = w_players w \<and> w_treasures w' = w_treasures w \<and> w_nextTreasure w' = w_nextTreasure w \<and>
    w_cfg w' = w_cfg w \<and> w_terrain w' = w_terrain w \<and> draws (w_rng w') = draws (w_rng w)"
  using assms
proof (induction "MinNPCs - length (w_npcs w)" arbitrary: w)
  case 0
  then have "\<not> length (w_npcs w) < MinNPCs" by simp
  with 0 show ?case by (subst boot_npcs.simps) auto
next
  case (Suc n)
  then have few: "length (w_npcs w) < MinNPCs" by simp
  obtain w' where w': "snd (spawnNPCLocked w) = w'" "sane w'" "fresh_npcs w'"
    "length (w_npcs w') = Suc (length (w_npcs w))" "w_players w' = w_players w" "w_treasures w' = w_treasures w"
    "w_nextTreasure w' = w_nextTreasure w" "w_cfg w' = w_cfg w" "w_terrain w' = w_terrain w"
    "draws (w_rng w') = draws (w_rng w)"
    using spawnNPC_fresh [OF Suc.prems(1) few Suc.prems(2)] by metis
  have "n = MinNPCs - length (w_npcs w')" "length (w_npcs w') \<le> MinNPCs"
    using Suc.hyps(2) w'(4) few by simp_all
  from Suc.hyps(1) [OF this(1) w'(2,3) this(2)] show ?case
    using few w' by (subst boot_npcs.simps) simp
qed

section \<open>Treasures\<close>

definition fresh_treasures :: "World \<Rightarrow> bool" where
  "fresh_treasures w \<longleftrightarrow> (\<forall>i \<ge> w_nextTreasure w. treasure_id w i \<notin> set (keys (w_treasures w)))"

text \<open>A merge changes the value of one treasure and no position, so the candidates stay the same.\<close>

lemma positions_update:
  assumes "map_of al i = Some t" "t_X t' = t_X t" "t_Y t' = t_Y t"
  shows "map (\<lambda>(_, t). (t_X t, t_Y t)) (AList.update i t' al) = map (\<lambda>(_, t). (t_X t, t_Y t)) al"
  using assms by (induction al) (auto split: if_splits)

lemma spawn_candidates_cong:
  assumes "w_terrain w' = w_terrain w" "w_players w' = w_players w" "w_npcs w' = w_npcs w" "w_cfg w' = w_cfg w"
    and "map (\<lambda>(_, t). (t_X t, t_Y t)) (w_treasures w') = map (\<lambda>(_, t). (t_X t, t_Y t)) (w_treasures w)"
  shows "spawn_candidates u b w' = spawn_candidates u b w"
proof -
  have walk: "walkableForLocked x y u w' = walkableForLocked x y u w" for x y
    using assms by (simp add: walkable_iff)
  have score: "spawnScoreLocked x y b w' = spawnScoreLocked x y b w" for x y
    using assms by (simp add: spawnScoreLocked_def terrain_width_def terrain_height_def Let_def)
  show ?thesis using assms(1) by (simp add: spawn_candidates_def walk score all_cells_def)
qed

lemma distinct_spawn_candidates: "distinct (spawn_candidates u b w)"
proof -
  let ?cs = "filter (\<lambda>(x, y). walkableForLocked x y u w) (all_cells w)"
  let ?f = "\<lambda>(x, y). (- spawnScoreLocked x y b w, y, x)"
  have "distinct (sort (map ?f ?cs))"
    using distinct_all_cells by (auto simp: distinct_map inj_on_def)
  then show ?thesis
    unfolding spawn_candidates_def distinct_map by (auto simp: inj_on_def)
qed

lemma many_candidates:
  assumes "length (w_players w) + length (w_npcs w) + 12 \<le> length (open_cells (w_terrain w))"
  shows "12 \<le> length (spawn_candidates u b w)"
proof -
  have "length (spawn_candidates u b w) = card {(x, y). walkableForLocked x y u w}"
    using distinct_card [OF distinct_spawn_candidates, of u b w] by (simp add: set_spawn_candidates)
  with many_walkable [of w u] assms show ?thesis by linarith
qed

text \<open>Three treasures cannot block twelve cells.\<close>

lemma free_candidate:
  assumes "12 \<le> length (spawn_candidates u b w)" "length (w_treasures w) < 4"
  shows "\<exists>c < 12. \<exists>x y. spawn_candidates u b w ! c = (x, y) \<and> treasureAtLocked x y w = None"
proof (rule ccontr)
  let ?cs = "spawn_candidates u b w"
  assume "\<not> ?thesis"
  then have blocked: "?cs ! c \<in> set (treasure_cells w)" if "c < 12" for c
    using that by (cases "?cs ! c") (fastforce simp: treasureAt_None treasure_cells_def)
  have "set (take 12 ?cs) \<subseteq> set (treasure_cells w)"
  proof
    fix c
    assume "c \<in> set (take 12 ?cs)"
    then obtain i where "i < 12" "c = ?cs ! i" by (auto simp: in_set_conv_nth)
    then show "c \<in> set (treasure_cells w)" using blocked by simp
  qed
  then have "card (set (take 12 ?cs)) \<le> card (set (treasure_cells w))"
    by (intro card_mono) simp_all
  moreover have "card (set (take 12 ?cs)) = 12"
    using distinct_card [OF distinct_take [OF distinct_spawn_candidates, of 12 u b w]] assms(1) by simp
  moreover have "card (set (treasure_cells w)) \<le> 3"
    using card_length [of "treasure_cells w"] assms(2) by (simp add: treasure_cells_def)
  ultimately show False by simp
qed

definition boot_frame :: "World \<Rightarrow> World \<Rightarrow> bool" where
  "boot_frame w w' \<longleftrightarrow> w_players w' = w_players w \<and> w_npcs w' = w_npcs w \<and> w_terrain w' = w_terrain w \<and>
     w_cfg w' = w_cfg w \<and> draws (w_rng w') = draws (w_rng w)"

lemma boot_frame_trans: "boot_frame w w' \<Longrightarrow> boot_frame w' w'' \<Longrightarrow> boot_frame w w''"
  by (simp add: boot_frame_def)

lemma spawnTreasure_eq:
  assumes "12 \<le> length (spawn_candidates [] False w)"
    and "spawn_candidates [] False w ! (draws (w_rng w) (drawn (w_rng w)) mod 12) = (x, y)"
  shows "\<exists>v. spawnTreasureLocked kind w =
    dropTreasureLocked x y (1 + int v) kind (w\<lparr>w_rng := (w_rng w)\<lparr>drawn := drawn (w_rng w) + 2\<rparr>\<rparr>)"
  using assms by (force simp: spawnTreasureLocked_def bestSpawnCellLocked_def Let_def Intn_def)

lemma drop_in_range:
  "open_cell (w_terrain w) x y \<Longrightarrow>
   \<not> (x < 0 \<or> y < 0 \<or> y \<ge> int (length (w_terrain w)) \<or> x \<ge> int (length (w_terrain w ! nat y)))"
  by (simp add: open_cell_def)

lemma spawnTreasure_step:
  assumes s: "sane w" and many: "12 \<le> length (spawn_candidates [] False w)" and fr: "fresh_treasures w"
    and c: "spawn_candidates [] False w ! (draws (w_rng w) (drawn (w_rng w)) mod 12) = (x, y)"
    and w': "w' = snd (spawnTreasureLocked kind w)"
  shows "sane w'" "boot_frame w w'" "drawn (w_rng w') = drawn (w_rng w) + 2" "fresh_treasures w'"
    "treasureAtLocked x y w = None \<Longrightarrow> length (w_treasures w') = Suc (length (w_treasures w))"
    "treasureAtLocked x y w \<noteq> None \<Longrightarrow> length (w_treasures w') = length (w_treasures w) \<and>
       map (\<lambda>(_, t). (t_X t, t_Y t)) (w_treasures w') = map (\<lambda>(_, t). (t_X t, t_Y t)) (w_treasures w)"
proof -
  let ?w = "w\<lparr>w_rng := (w_rng w)\<lparr>drawn := drawn (w_rng w) + 2\<rparr>\<rparr>"
  obtain v where eq: "w' = snd (dropTreasureLocked x y (1 + int v) kind ?w)"
    using spawnTreasure_eq [OF many c, of kind] w' by metis
  have "(x, y) \<in> set (spawn_candidates [] False w)"
    unfolding c [symmetric] using many by (intro nth_mem) (simp add: less_le_trans [OF mod_less_divisor])
  then have op: "open_cell (w_terrain w) x y"
    by (simp add: set_spawn_candidates walkable_iff)
  note rng = drop_in_range [OF op]
  have at: "treasureAtLocked x y (w\<lparr>w_rng := r\<rparr>) = treasureAtLocked x y w" for r
    by (simp add: treasureAtLocked_def)
  have tid: "treasure_id (w\<lparr>w_rng := r\<rparr>) = treasure_id w" for r by (rule ext) (simp add: treasure_id_def)
  show "sane w'" unfolding eq using s op by (intro sane_loot) simp_all
  show "boot_frame w w'" "drawn (w_rng w') = drawn (w_rng w) + 2"
    using rng by (simp_all add: eq dropTreasureLocked_def Let_def set_treasure_def bump_version_def boot_frame_def
        split: option.split)
  have new: "w_treasures w' = AList.update (treasure_id w (w_nextTreasure w))
       \<lparr>t_ID = treasure_id w (w_nextTreasure w), t_Kind = kind, t_X = x, t_Y = y, t_Value = 1 + int v\<rparr> (w_treasures w)"
    "w_nextTreasure w' = Suc (w_nextTreasure w)" if "treasureAtLocked x y w = None"
    using that rng by (simp_all add: eq dropTreasureLocked_def Let_def set_treasure_def bump_version_def at tid)
  have old: "\<exists>i t. map_of (w_treasures w) i = Some t \<and>
       w_treasures w' = AList.update i (t\<lparr>t_Value := t_Value t + (1 + int v)\<rparr>) (w_treasures w) \<and>
       w_nextTreasure w' = w_nextTreasure w" if some: "treasureAtLocked x y w \<noteq> None"
  proof -
    obtain i t where it: "treasureAtLocked x y w = Some (i, t)" using some by fastforce
    then have "(i, t) \<in> set (w_treasures w)"
      by (auto simp: treasureAtLocked_def find_Some_iff dest: nth_mem)
    then have "map_of (w_treasures w) i = Some t" using wf_distinct [OF sane_wf [OF s]] by simp
    then show ?thesis
      using it rng by (simp add: eq dropTreasureLocked_def Let_def set_treasure_def bump_version_def at) blast
  qed
  have cfg: "w_cfg w' = w_cfg w" using \<open>boot_frame w w'\<close> by (simp add: boot_frame_def)
  show "fresh_treasures w'"
  proof (cases "treasureAtLocked x y w = None")
    case True
    with fr show ?thesis by (auto simp: fresh_treasures_def new treasure_id_def cfg)
  next
    case False
    obtain i t where "map_of (w_treasures w) i = Some t"
       "w_treasures w' = AList.update i (t\<lparr>t_Value := t_Value t + (1 + int v)\<rparr>) (w_treasures w)"
       "w_nextTreasure w' = w_nextTreasure w" using old [OF False] by blast
    with fr key_present [of "w_treasures w" i t] show ?thesis
      by (auto simp: fresh_treasures_def treasure_id_def cfg)
  qed
  show "length (w_treasures w') = Suc (length (w_treasures w))" if "treasureAtLocked x y w = None"
    using fr by (simp add: new [OF that] fresh_treasures_def)
  show "length (w_treasures w') = length (w_treasures w) \<and>
       map (\<lambda>(_, t). (t_X t, t_Y t)) (w_treasures w') = map (\<lambda>(_, t). (t_X t, t_Y t)) (w_treasures w)"
    if none: "treasureAtLocked x y w \<noteq> None"
    using old [OF none] positions_update [of "w_treasures w"] by (force dest: key_present)
qed

text \<open>
  One more treasure comes at the latest when the die shows the face \<open>c\<close> of a free candidate:
  until then the merges leave the list of candidates alone.
\<close>

lemma boot_treasures_grow:
  assumes "sane w" "12 \<le> length (spawn_candidates [] False w)" "fresh_treasures w"
    and "length (w_treasures w) < MaxTreasures div 2"
    and "spawn_candidates [] False w ! c = (x, y)" "treasureAtLocked x y w = None"
    and "draws (w_rng w) (drawn (w_rng w) + 2 * j) mod 12 = c"
  shows "\<exists>w'. boot_treasures w = boot_treasures w' \<and> sane w' \<and> fresh_treasures w' \<and> boot_frame w w' \<and>
     length (w_treasures w') = Suc (length (w_treasures w))"
  using assms
proof (induction j arbitrary: w)
  case 0
  define w' where "w' = snd (spawnTreasureLocked loot_kind_relic w)"
  have c: "spawn_candidates [] False w ! (draws (w_rng w) (drawn (w_rng w)) mod 12) = (x, y)"
    using 0 by simp
  note st = spawnTreasure_step [OF 0(1-3) c w'_def]
  have "boot_treasures w = boot_treasures w'"
    using 0(4) by (subst boot_treasures.simps) (simp add: w'_def)
  with st 0(6) show ?case by blast
next
  case (Suc j)
  define w' where "w' = snd (spawnTreasureLocked loot_kind_relic w)"
  obtain x' y' where c: "spawn_candidates [] False w ! (draws (w_rng w) (drawn (w_rng w)) mod 12) = (x', y')"
    by fastforce
  note st = spawnTreasure_step [OF Suc.prems(1-3) c w'_def]
  have eq: "boot_treasures w = boot_treasures w'"
    using Suc.prems(4) by (subst boot_treasures.simps) (simp add: w'_def)
  show ?case
  proof (cases "treasureAtLocked x' y' w = None")
    case True
    with eq st show ?thesis by blast
  next
    case False
    note same = st(6) [OF False]
    have cand: "spawn_candidates [] False w' = spawn_candidates [] False w"
      using st(2) same by (intro spawn_candidates_cong) (simp_all add: boot_frame_def)
    have free: "treasureAtLocked x y w' = None"
    proof -
      have "(x, y) \<notin> set (map (\<lambda>(_, t). (t_X t, t_Y t)) (w_treasures w))"
        using Suc.prems(6) by (auto simp: treasureAt_None)
      then have "(x, y) \<notin> set (map (\<lambda>(_, t). (t_X t, t_Y t)) (w_treasures w'))" using same by metis
      then show ?thesis by (force simp: treasureAt_None)
    qed
    have "\<exists>w''. boot_treasures w' = boot_treasures w'' \<and> sane w'' \<and> fresh_treasures w'' \<and> boot_frame w' w'' \<and>
       length (w_treasures w'') = Suc (length (w_treasures w'))"
    proof (rule Suc.IH)
      show "draws (w_rng w') (drawn (w_rng w') + 2 * j) mod 12 = c"
        using Suc.prems(7) st(2,3) by (simp add: boot_frame_def algebra_simps)
    qed (use st cand same free Suc.prems in simp_all)
    with eq same boot_frame_trans [OF st(2)] show ?thesis by (metis (no_types, lifting))
  qed
qed

lemma boot_treasures_returns:
  assumes "sane w" "fresh_treasures w" "fair_dice (draws (w_rng w))"
    and "length (w_players w) + length (w_npcs w) + 12 \<le> length (open_cells (w_terrain w))"
    and "length (w_treasures w) \<le> MaxTreasures div 2"
  shows "\<exists>w'. boot_treasures w = Some w' \<and> sane w' \<and> boot_frame w w' \<and>
     length (w_treasures w') = MaxTreasures div 2"
  using assms
proof (induction "MaxTreasures div 2 - length (w_treasures w)" arbitrary: w)
  case 0
  then have "\<not> length (w_treasures w) < MaxTreasures div 2" by simp
  with 0 show ?case by (subst boot_treasures.simps) (auto simp: boot_frame_def)
next
  case (Suc n)
  then have few: "length (w_treasures w) < MaxTreasures div 2" by simp
  note many = many_candidates [OF Suc.prems(4), of "[]" False]
  obtain c x y where c: "c < 12" "spawn_candidates [] False w ! c = (x, y)" "treasureAtLocked x y w = None"
    using free_candidate [OF many] few by (auto simp: MaxTreasures_def)
  obtain j where j: "draws (w_rng w) (drawn (w_rng w) + 2 * j) mod 12 = c"
    using Suc.prems(3) c(1) by (auto simp: fair_dice_def)
  obtain w' where w': "boot_treasures w = boot_treasures w'" "sane w'" "fresh_treasures w'" "boot_frame w w'"
    "length (w_treasures w') = Suc (length (w_treasures w))"
    using boot_treasures_grow [OF Suc.prems(1) many Suc.prems(2) few c(2,3) j] by blast
  have "\<exists>w''. boot_treasures w' = Some w'' \<and> sane w'' \<and> boot_frame w' w'' \<and>
      length (w_treasures w'') = MaxTreasures div 2"
    by (rule Suc.hyps(1)) (use Suc.hyps(2) Suc.prems few w' in \<open>simp_all add: boot_frame_def\<close>)
  with w'(1) boot_frame_trans [OF w'(4)] show ?case by metis
qed

lemma NewWorld_boots:
  assumes "cfg \<in> set AvailableMaps" "fair_dice d"
  shows "\<exists>w. NewWorld cfg d = Some w \<and> sane w \<and> w_cfg w = cfg \<and>
     w_players w = [] \<and> length (w_npcs w) = MinNPCs \<and> length (w_treasures w) = MaxTreasures div 2"
proof -
  let ?w = "empty_world cfg d"
  have e: "sane ?w" "fresh_npcs ?w" "length (w_npcs ?w) \<le> MinNPCs"
    using sane_empty_world [OF assms(1), of d] by (simp_all add: fresh_npcs_def ids_in_the_way_def empty_world_def)
  obtain w1 where w1: "boot_npcs ?w = Some w1" "sane w1" "length (w_npcs w1) = MinNPCs"
    "w_players w1 = []" "w_treasures w1 = []" "w_nextTreasure w1 = 0" "w_cfg w1 = cfg" "draws (w_rng w1) = d"
    "w_terrain w1 = stringsToGrid (cfg_Layout cfg)"
    using boot_npcs_returns [OF e] by (auto simp: empty_world_def)
  have "length (w_players w1) + length (w_npcs w1) + 12 \<le> length (open_cells (w_terrain w1))"
    using w1 open_cells_maps [OF assms(1)] by (simp add: MinNPCs_def)
  then obtain w2 where "boot_treasures w1 = Some w2" "sane w2" "boot_frame w1 w2"
     "length (w_treasures w2) = MaxTreasures div 2"
    using boot_treasures_returns [of w1] w1 assms(2) by (auto simp: fresh_treasures_def)
  then show ?thesis using w1 by (auto simp: NewWorld_def bootstrap_def boot_frame_def)
qed

text \<open>C2: for each of the three maps and for fair dice the constructor of a world returns, and the
  world it returns is well-formed and fully populated, with no two units on one cell.\<close>

theorem NewWorld_returns:
  assumes "cfg \<in> set AvailableMaps" "fair_dice d"
  shows "\<exists>w. NewWorld cfg d = Some w \<and> wf_world w \<and> exclusive w \<and> roomy w \<and> w_cfg w = cfg \<and>
     w_players w = [] \<and> length (w_npcs w) = MinNPCs \<and> length (w_treasures w) = MaxTreasures div 2"
  using NewWorld_boots [OF assms] by (auto simp: sane_def)

theorem NewWorld_returns_witness:
  "\<exists>w. NewWorld buildGreenMap (\<lambda>n. n div 2) = Some w \<and> wf_world w \<and> exclusive w \<and> roomy w \<and>
     w_cfg w = buildGreenMap \<and> w_players w = [] \<and> length (w_npcs w) = MinNPCs \<and>
     length (w_treasures w) = MaxTreasures div 2"
  by (rule NewWorld_returns) (simp_all add: AvailableMaps_def fair_half)

end
