(* ===== verification/World_Props.thy ===== *)
theory World_Props
  imports World_Boot
begin

text \<open>
  What the commands of a world do, property by property: the invariant over any run, units kept
  apart, the choice of a target, the accounting of loot in moves and in the shop, the loss of a
  player who is restored while down, and the checkpoint as a round trip.
\<close>

section \<open>A small world for the witnesses\<close>

definition yard :: MapConfig where
  "yard = \<lparr>cfg_ID = ''yard'', cfg_Name = ''yard'', cfg_Layout = [''######'', ''#....#'', ''#....#'', ''######''],
           SpawnX = 1, SpawnY = 1, BossX = 4, BossY = 2\<rparr>"

definition hero :: "string \<Rightarrow> int \<Rightarrow> int \<Rightarrow> Player" where
  "hero u x y = \<lparr>p_Username = u, p_MapID = ''yard'', p_X = x, p_Y = y, p_HP = 100, p_MaxHP = 120,
     p_Attack = 35, p_Potions = 2, p_Treasures = 4, p_Kills = 0, p_Deaths = 0, p_Victories = 0,
     p_Alive = True, p_RespawnAt = 0, p_LastUpdate = 0\<rparr>"

definition small_world :: World where
  "small_world = \<lparr>w_cfg = yard, w_terrain = cfg_Layout yard,
     w_players = [(''ann'', hero ''ann'' 1 1)],
     w_npcs = [(''yard-npc-0'', \<lparr>n_ID = ''yard-npc-0'', n_Name = ''wolf'', n_X = 3, n_Y = 1, n_HP = 80,
                n_MaxHP = 90, n_Attack = 18, n_Alive = True\<rparr>)],
     w_treasures = [(''yard-t-0'', \<lparr>t_ID = ''yard-t-0'', t_Kind = ''box'', t_X = 2, t_Y = 1, t_Value = 3\<rparr>)],
     w_rng = \<lparr>draws = (\<lambda>n. n), drawn = 0\<rparr>, w_version = 7, w_nextNPC = 1, w_nextTreasure = 1\<rparr>"

lemmas small_defs = small_world_def yard_def hero_def

lemma small_wf: "wf_world small_world"
  by (simp add: wf_world_def small_defs wf_player_def wf_npc_def wf_treasure_def open_cell_def
      treasure_cells_def protocol_consts)

lemma small_sane: "sane small_world"
proof -
  have "length (open_cells (w_terrain small_world)) = 8" by (simp add: small_defs open_cells_def open_cell_def upt_rec)
  then show ?thesis
    by (simp add: sane_def small_wf roomy_def exclusive_def) (simp add: small_defs protocol_consts)
qed

section \<open>The invariant\<close>

text \<open>C1: a run of any number of calls on a well-formed world leaves it well-formed, on the same map
  with the same terrain, and its version never goes back.\<close>

theorem world_run_keeps:
  assumes "list_all call_ok cs" "wf_world w"
  shows "wf_world (fold (world_exec f) cs w) \<and> w_cfg (fold (world_exec f) cs w) = w_cfg w \<and>
    w_terrain (fold (world_exec f) cs w) = w_terrain w \<and> w_version w \<le> w_version (fold (world_exec f) cs w)"
  using wop.run_wf [OF assms] wop.run_advances [OF assms] by (simp add: advances_def)

theorem world_run_keeps_witness:
  "wf_world (fold (world_exec (\<lambda>_. [])) [CallMove 5 ''ann'' DirRight, CallTick 9 [''ann''], CallAttack 9 ''ann''] small_world) \<and>
   w_version small_world \<le>
     w_version (fold (world_exec (\<lambda>_. [])) [CallMove 5 ''ann'' DirRight, CallTick 9 [''ann''], CallAttack 9 ''ann''] small_world)"
  using world_run_keeps [of "[CallMove 5 ''ann'' DirRight, CallTick 9 [''ann''], CallAttack 9 ''ann'']" small_world "\<lambda>_. []"]
    small_wf by simp

text \<open>C23: on a map with room, no call of a world ever puts two living units on one cell; entering
  needs one free cell more.\<close>

theorem units_stay_apart:
  assumes "call_ok c" "call_fits c w" "sane w"
  shows "exclusive (world_exec f c w) \<and> roomy (world_exec f c w)"
  using rop.exec_sane [OF assms] by (simp add: sane_def)

theorem units_stay_apart_witness:
  "exclusive (world_exec (\<lambda>_. []) (CallTick 9 [''ann'']) small_world) \<and>
   roomy (world_exec (\<lambda>_. []) (CallTick 9 [''ann'']) small_world)"
  by (rule units_stay_apart) (simp_all add: small_sane)

section \<open>Attack\<close>

definition npc_in_reach :: "Player \<Rightarrow> NPC \<Rightarrow> bool" where
  "npc_in_reach p n \<longleftrightarrow> n_Alive n \<and> distance (p_X p) (p_Y p) (n_X n) (n_Y n) \<le> AttackRange"

lemma refresh_alive_id:
  "map_of (w_players w) k = Some p \<Longrightarrow> p_Alive p \<Longrightarrow> refreshPlayerStateLocked now k w = w"
  by (simp add: refreshPlayerStateLocked_def)

lemma pick_npc_weakest:
  assumes wf: "wf_world w" and n: "map_of (w_npcs w) i = Some n" and r: "npc_in_reach p n"
    and least: "\<And>j m. map_of (w_npcs w) j = Some m \<Longrightarrow> npc_in_reach p m \<Longrightarrow> (n_HP n, i) \<le> (n_HP m, j)"
  shows "pick_npc (p_X p) (p_Y p) (w_npcs w) = Some n"
proof (cases "pick_npc (p_X p) (p_Y p) (w_npcs w)")
  case None
  then show ?thesis
    using map_of_SomeD [OF n] r unfolding pick_npc_least least_of_None npc_in_reach_def by force
next
  case (Some b)
  note c = least_of_Some [OF Some [unfolded pick_npc_least]]
  note b = pick_npc_wf [OF wf Some]
  have i: "n_ID n = i" using wf_npcD [OF wf n] by (simp add: wf_npc_def)
  have "(n_HP b, n_ID b) \<le> (n_HP n, n_ID n)"
    using c(3) [of n] map_of_SomeD [OF n] r by (force simp: npc_in_reach_def)
  moreover have "(n_HP n, i) \<le> (n_HP b, n_ID b)"
    using least [OF b(1)] c(2) by (simp add: npc_in_reach_def)
  ultimately have "n_ID b = i" using i by (auto simp: less_eq_prod_def)
  with b(1) n Some show ?thesis by simp
qed

text \<open>The attack of a living player falls on the weakest monster in reach, the one with the least
  life points and then the least id, whatever the order in which the map is visited: it loses the
  attacker's attack value or, when that kills it, disappears. No other monster is touched, and of
  the players only the attacker's own entry.\<close>

theorem attack_hits_weakest_npc:
  assumes "wf_world w" "map_of (w_players w) u = Some p" "p_Alive p"
    and "map_of (w_npcs w) i = Some n" "npc_in_reach p n"
    and "\<And>j m. map_of (w_npcs w) j = Some m \<Longrightarrow> npc_in_reach p m \<Longrightarrow> (n_HP n, i) \<le> (n_HP m, j)"
  shows "map_of (w_npcs (snd (Attack now u w))) =
      (map_of (w_npcs w))(i := if n_HP n \<le> p_Attack p then None else Some (n\<lparr>n_HP := n_HP n - p_Attack p\<rparr>)) \<and>
    (\<forall>k. k \<noteq> u \<longrightarrow> map_of (w_players (snd (Attack now u w))) k = map_of (w_players w) k) \<and>
    map_option p_Kills (map_of (w_players (snd (Attack now u w))) u) =
      Some (p_Kills p + (if n_HP n \<le> p_Attack p then 1 else 0))"
proof -
  note pick = pick_npc_weakest [OF assms(1,4,5,6)]
  have i: "n_ID n = i" using wf_npcD [OF assms(1,4)] by (simp add: wf_npc_def)
  have drop: "w_npcs (snd (dropTreasureLocked x y v k w')) = w_npcs w'"
    "w_players (snd (dropTreasureLocked x y v k w')) = w_players w'" for x y v k w'
    by (simp_all add: dropTreasureLocked_def Let_def set_treasure_def bump_version_def split: option.splits)
  show ?thesis
    using assms(2,3) pick
    by (simp add: Attack_def refresh_alive_id Let_def case_prod_beta drop i)
qed

theorem attack_hits_weakest_npc_witness:
  "map_of (w_npcs (snd (Attack 9 ''ann'' small_world))) ''yard-npc-0'' =
     Some ((snd (hd (w_npcs small_world)))\<lparr>n_HP := 45\<rparr>)"
proof -
  let ?p = "hero ''ann'' 1 1" and ?n = "snd (hd (w_npcs small_world))"
  have one: "map_of (w_npcs small_world) j = Some m \<Longrightarrow> j = ''yard-npc-0'' \<and> m = ?n" for j m
    by (simp add: small_defs split: if_splits)
  have "map_of (w_players small_world) ''ann'' = Some ?p" "p_Alive ?p"
    "map_of (w_npcs small_world) ''yard-npc-0'' = Some ?n" "npc_in_reach ?p ?n"
    by (simp_all add: small_defs npc_in_reach_def distance_def AttackRange_def)
  note pre = this
  have least: "(n_HP ?n, ''yard-npc-0'') \<le> (n_HP m, j)" if "map_of (w_npcs small_world) j = Some m" for j m
    using one [OF that] by simp
  have "map_of (w_npcs (snd (Attack 9 ''ann'' small_world))) ''yard-npc-0'' =
      (if n_HP ?n \<le> p_Attack ?p then None else Some (?n\<lparr>n_HP := n_HP ?n - p_Attack ?p\<rparr>))"
    by (subst conjunct1 [OF attack_hits_weakest_npc [OF small_wf pre least]]) simp_all
  then show ?thesis by (simp add: small_defs)
qed

section \<open>Loot\<close>

lemma sum_update:
  fixes g :: "'v \<Rightarrow> int"
  assumes "distinct (keys al)" "map_of al k = Some v"
  shows "(\<Sum>(_, x) \<leftarrow> AList.update k v' al. g x) = (\<Sum>(_, x) \<leftarrow> al. g x) - g v + g v'"
  using assms by (induction al) (auto split: if_splits)

lemma sum_delete:
  fixes g :: "'v \<Rightarrow> int"
  assumes "distinct (keys al)" "map_of al k = Some v"
  shows "(\<Sum>(_, x) \<leftarrow> AList.delete k al. g x) = (\<Sum>(_, x) \<leftarrow> al. g x) - g v"
  using assms
proof (induction al)
  case (Cons e al)
  obtain k' v1 where e: "e = (k', v1)" by fastforce
  show ?case
  proof (cases "k' = k")
    case True
    then have "AList.delete k al = al" using Cons.prems(1) e by (simp add: delete_idem)
    with Cons.prems True e show ?thesis by simp
  next
    case False
    with Cons e show ?thesis by simp
  qed
qed simp

definition total_loot :: "World \<Rightarrow> int" where
  "total_loot w = (\<Sum>(_, p) \<leftarrow> w_players w. p_Treasures p) + (\<Sum>(_, t) \<leftarrow> w_treasures w. t_Value t)"

lemma total_loot_set_player:
  assumes "wf_world w" "map_of (w_players w) k = Some q"
  shows "total_loot (set_player k p w) = total_loot w - p_Treasures q + p_Treasures p"
  using sum_update [of "w_players w" k q p_Treasures p] wf_distinct [OF assms(1)] assms(2)
  by (simp add: total_loot_def set_player_def)

lemma total_loot_frame [simp]:
  "total_loot (bump_version w) = total_loot w" "total_loot (w\<lparr>w_rng := r\<rparr>) = total_loot w"
  by (simp_all add: total_loot_def bump_version_def)

lemma total_loot_refresh:
  assumes "wf_world w"
  shows "total_loot (refreshPlayerStateLocked now k w) = total_loot w"
proof (cases rule: refresh_cases [of now k w])
  case (revive p x y r)
  have "wf_world (w\<lparr>w_rng := r\<rparr>)" using assms by simp
  then show ?thesis
    using total_loot_set_player [of "w\<lparr>w_rng := r\<rparr>" k p] revive(1)
    by (simp add: revive(3) revived_def)
qed simp

text \<open>Moving neither creates nor destroys loot: what a treasure on the way is worth goes to the
  player who picks it up and is gone from the map.\<close>

theorem move_conserves_loot:
  assumes wf: "wf_world w"
  shows "total_loot (snd (MovePlayer now u dir w)) = total_loot w"
proof (cases "map_of (w_players w) u")
  case None
  then show ?thesis by (simp add: MovePlayer_def)
next
  case (Some p)
  obtain w1 q where e: "refreshPlayerStateLocked now u w = w1" "map_of (w_players w1) u = Some q"
    "wf_world w1"
    using command_entry [OF wf Some] by metis
  have loot: "total_loot w1 = total_loot w" using total_loot_refresh [OF wf] e(1) by blast
  obtain nx ny where st: "step_to dir (p_X q) (p_Y q) = (nx, ny)" by fastforce
  note put = total_loot_set_player [OF e(3,2)]
  have take: "total_loot (v\<lparr>w_treasures := AList.delete i (w_treasures v)\<rparr>) = total_loot v - t_Value t"
    if "map_of (w_treasures v) i = Some t" "distinct (keys (w_treasures v))" for v i t
    using sum_delete [OF that(2,1), of t_Value] by (simp add: total_loot_def)
  have pick: "map_of (w_treasures w1) i = Some t" if "treasureAtLocked nx ny w1 = Some (i, t)" for i t
    using that wf_distinct [OF e(3)] by (auto simp: treasureAtLocked_def find_Some_iff dest!: nth_mem)
  show ?thesis
  proof (cases "treasureAtLocked nx ny w1")
    case None
    then show ?thesis using Some e(1,2) st loot by (simp add: MovePlayer_def Let_def put)
  next
    case (Some it)
    obtain i t where it: "it = (i, t)" by fastforce
    show ?thesis
      using \<open>map_of (w_players w) u = _\<close> e(1,2) st Some it loot wf_distinct [OF e(3)]
        take [of "set_player u _ w1" i t] pick [of i t]
      by (simp add: MovePlayer_def Let_def put)
  qed
qed

theorem move_conserves_loot_witness: "total_loot (snd (MovePlayer 5 ''ann'' DirRight small_world)) = 7"
  using move_conserves_loot [OF small_wf, of 5 "''ann''" DirRight] by (simp add: total_loot_def small_defs)

section \<open>A player restored while down\<close>

text \<open>
  \<open>stuck k w\<close>: the player \<open>k\<close> is down and has no respawn time. \<open>refreshPlayerStateLocked\<close> skips
  such a player, and nothing else revives anybody.
\<close>

definition stuck :: "string \<Rightarrow> World \<Rightarrow> bool" where
  "stuck k w \<longleftrightarrow> (\<exists>p. map_of (w_players w) k = Some p \<and> \<not> p_Alive p \<and> IsZero (p_RespawnAt p))"

lemma stuck_frame [simp]:
  "stuck k (bump_version w) = stuck k w" "stuck k (set_npc i n w) = stuck k w"
  "stuck k (snd (Intn m w)) = stuck k w" "stuck k (w\<lparr>w_rng := r\<rparr>) = stuck k w"
  "stuck k (w\<lparr>w_npcs := ns\<rparr>) = stuck k w" "stuck k (w\<lparr>w_treasures := ts\<rparr>) = stuck k w"
  "stuck k (snd (dropTreasureLocked x y v kd w)) = stuck k w"
  "stuck k (snd (spawnTreasureLocked kd w)) = stuck k w"
  by (simp_all add: stuck_def spawnTreasure_fields dropTreasureLocked_def Let_def set_treasure_def bump_version_def
      split: option.splits)

lemma stuck_set_other: "j \<noteq> k \<Longrightarrow> stuck k (set_player j p w) = stuck k w"
  by (simp add: stuck_def)

lemma stuck_not_alive: "stuck k w \<Longrightarrow> map_of (w_players w) j = Some p \<Longrightarrow> p_Alive p \<Longrightarrow> j \<noteq> k"
  by (auto simp: stuck_def)

lemma stuck_refresh [simp]: "stuck k (refreshPlayerStateLocked now j w) = stuck k w"
proof (cases rule: refresh_cases [of now j w])
  case (revive p x y r)
  show ?thesis
  proof (cases "j = k")
    case True
    show ?thesis unfolding revive(3) using True revive(1,2) by (auto simp: stuck_def due_def revived_def)
  qed (simp add: revive(3) stuck_set_other)
qed simp

lemma refresh_lookup_stuck:
  "stuck k w \<Longrightarrow> map_of (w_players w) j = Some p \<Longrightarrow>
   \<exists>q. map_of (w_players (refreshPlayerStateLocked now j w)) j = Some q \<and> (p_Alive q \<longrightarrow> j \<noteq> k)"
  using refresh_lookup [of w j p now] stuck_not_alive [of k "refreshPlayerStateLocked now j w" j] by auto

lemma stuck_commands:
  assumes s: "stuck k w"
  shows "stuck k (snd (MovePlayer now u dir w))" "stuck k (snd (HealPlayer now u w))"
    "stuck k (snd (BuyItem now u item w))"
proof -
  show "stuck k (snd (MovePlayer now u dir w))"
  proof (cases "map_of (w_players w) u")
    case (Some p)
    from refresh_lookup_stuck [OF s Some, of now] s show ?thesis
      by (auto simp: Some MovePlayer_def Let_def stuck_set_other split: prod.split option.split)
  qed (simp add: MovePlayer_def s)
  show "stuck k (snd (HealPlayer now u w))"
  proof (cases "map_of (w_players w) u")
    case (Some p)
    from refresh_lookup_stuck [OF s Some, of now] s show ?thesis
      by (auto simp: Some HealPlayer_def Let_def stuck_set_other)
  qed (simp add: HealPlayer_def s)
  show "stuck k (snd (BuyItem now u item w))"
  proof (cases "map_of (w_players w) u")
    case (Some p)
    from refresh_lookup_stuck [OF s Some, of now] s show ?thesis
      by (auto simp: Some BuyItem_def Let_def stuck_set_other)
  qed (simp add: BuyItem_def s)
qed

lemma stuck_reward: "stuck k w \<Longrightarrow> stuck k (snd (RewardPlayer now u td vd w))"
  by (cases "u = k") (auto simp: RewardPlayer_def Let_def stuck_def split: option.split)

lemma stuck_attack:
  assumes s: "stuck k w" and wf: "wf_world w"
  shows "stuck k (snd (Attack now u w))"
proof (cases "map_of (w_players w) u")
  case (Some p)
  obtain w1 q where e: "refreshPlayerStateLocked now u w = w1" "map_of (w_players w1) u = Some q" "wf_world w1"
    using command_entry [OF wf Some] by metis
  have s1: "stuck k w1" using s e(1) stuck_refresh by metis
  have u: "p_Alive q \<Longrightarrow> u \<noteq> k" using stuck_not_alive [OF s1 e(2)] by blast
  have t: "p_Username t \<noteq> k" if "pick_player u (p_X q) (p_Y q) (w_players w1) = Some t" for t
    using pick_player_wf(1) [OF e(3) that] least_of_Some(2) [OF that [unfolded pick_player_least]]
      stuck_not_alive [OF s1] by blast
  show ?thesis
    using Some e(1,2) s1 u t
    by (simp add: Attack_def Let_def case_prod_beta stuck_set_other split: option.split)
qed (simp add: Attack_def s)

lemma stuck_loops:
  "stuck k (snd (FlushProfiles now since ord w)) = stuck k w"
  "stuck k (snd (snapshot_players f now ord w)) = stuck k w"
  "stuck k (snd (refresh_loop now ord w)) = stuck k w"
  "stuck k (snd (closest_loop now x y rad ord b w)) = stuck k w"
proof -
  show "stuck k (snd (FlushProfiles now since ord w)) = stuck k w"
    by (induction ord arbitrary: w) (simp_all add: Let_def case_prod_beta split: option.split)
  show "stuck k (snd (snapshot_players f now ord w)) = stuck k w"
    by (induction ord arbitrary: w) (simp_all add: Let_def case_prod_beta split: option.split)
  show "stuck k (snd (refresh_loop now ord w)) = stuck k w"
    by (induction ord arbitrary: w) (simp_all add: Let_def case_prod_beta split: option.split)
  show "stuck k (snd (closest_loop now x y rad ord b w)) = stuck k w"
    by (induction ord arbitrary: w b) (simp_all add: Let_def split: option.split)
qed

lemma stuck_npc_loop: "stuck k (snd (npc_loop w)) = stuck k w"
proof (induction w rule: npc_loop.induct)
  case (1 w)
  obtain r w' where sp: "spawnNPCLocked w = (r, w')" by fastforce
  have "w_players w' = w_players w" using spawnNPC_effect [OF sp] by auto
  then have "stuck k w' = stuck k w" by (simp add: stuck_def)
  with 1 sp show ?case
    by (cases r) (auto simp: npc_loop.simps [of w] Let_def case_prod_beta)
qed

lemma stuck_wander: "stuck k (wander_loop ds i n w) = stuck k w"
  by (induction ds) (simp_all split: prod.split)

lemma stuck_npc_turns: "stuck k w \<Longrightarrow> stuck k (snd (npc_turns now ord ids w))"
proof (induction ids arbitrary: w)
  case (Cons i ids)
  have "stuck k (snd (npc_turn now ord i w))"
  proof (cases "map_of (w_npcs w) i")
    case (Some n)
    obtain r w1 where c: "closestPlayerLocked now (n_X n) (n_Y n) 1 ord w = (r, w1)" by fastforce
    have s1: "stuck k w1" using Cons.prems stuck_loops(4) c by (metis closestPlayerLocked_def snd_conv)
    have "j \<noteq> k" if "r = Some j" for j
      using closest_loop_found [of now "n_X n" "n_Y n" 1 ord None w j w1] c that stuck_not_alive [OF s1]
      by (auto simp: closestPlayerLocked_def)
    then show ?thesis using Some c s1 Cons.prems
      by (auto simp: npc_turn_def Let_def case_prod_beta stuck_set_other stuck_wander split: option.split)
  qed (simp add: npc_turn_def Cons.prems)
  from Cons.IH [OF this] show ?case by (simp add: Let_def case_prod_beta)
qed simp

lemma stuck_tick: "stuck k w \<Longrightarrow> stuck k (snd (BackgroundStep now ord w))"
  by (auto simp: BackgroundStep_def case_prod_beta Let_def stuck_loops stuck_npc_loop treasure_roll_def
      split: option.split intro!: stuck_npc_turns)

fun touches :: "world_call \<Rightarrow> string \<Rightarrow> bool" where
  "touches (CallEnter now prof) k \<longleftrightarrow> u_Username prof = k"
| "touches (CallLeave u) k \<longleftrightarrow> u = k"
| "touches _ k \<longleftrightarrow> False"

lemma stuck_call:
  assumes s: "stuck k w" and wf: "wf_world w" and t: "\<not> touches c k"
  shows "stuck k (world_exec f c w)"
proof (cases c)
  case (CallEnter now prof)
  obtain x y w1 where fs: "findSafePositionLocked
      (if u_LastMap prof \<noteq> cfg_ID (w_cfg w) then SpawnX (w_cfg w) else u_X prof)
      (if u_LastMap prof \<noteq> cfg_ID (w_cfg w) then SpawnY (w_cfg w) else u_Y prof) [] w = ((x, y), w1)"
    by (metis surj_pair)
  have "stuck k w1" using s findSafe_fields(3) [OF fs] by (simp add: stuck_def)
  then show ?thesis using fs t CallEnter
    by (auto simp: AddOrRestorePlayer_def Let_def stuck_set_other split: if_splits)
next
  case (CallLeave u)
  with s t show ?thesis by (auto simp: RemovePlayer_def stuck_def split: option.splits)
next
  case (CallProfile now u)
  with s show ?thesis by (auto simp: ProfileOf_def Let_def split: option.split)
next
  case (CallSnapshot now ord nid)
  with s show ?thesis by (simp add: Snapshot_def Let_def case_prod_beta stuck_loops)
qed (use s wf in \<open>simp_all add: stuck_commands stuck_reward stuck_attack stuck_loops stuck_tick\<close>)

text \<open>A player who is saved while down is lost. When the profile says so, entering puts the player
  on the map down and without a respawn time; from then on no sequence of calls revives the player,
  however late the clock, unless the player leaves; and the profile saved on leaving is down
  again, so the next entry has the same result.\<close>

theorem saved_down_is_lost:
  assumes wf: "wf_world w" and prof: "wf_profile u" "\<not> u_Alive u"
    and cs: "list_all (\<lambda>c. call_ok c \<and> \<not> touches c (u_Username u)) cs"
    and w': "w' = fold (world_exec f) cs (snd (AddOrRestorePlayer f now u w))"
  shows "\<exists>p. map_of (w_players w') (u_Username u) = Some p \<and> \<not> p_Alive p \<and>
    fst (RemovePlayer (u_Username u) w') = (profileLocked w' p, True) \<and>
    wf_profile (profileLocked w' p) \<and> \<not> u_Alive (profileLocked w' p)"
proof -
  obtain x y w1 where fs: "findSafePositionLocked
      (if u_LastMap u \<noteq> cfg_ID (w_cfg w) then SpawnX (w_cfg w) else u_X u)
      (if u_LastMap u \<noteq> cfg_ID (w_cfg w) then SpawnY (w_cfg w) else u_Y u) [] w = ((x, y), w1)"
    by (metis surj_pair)
  let ?w0 = "snd (AddOrRestorePlayer f now u w)"
  have eq: "?w0 = bump_version (set_player (u_Username u) (restored_player now w1 u x y) w1)"
    using fs by (simp add: AddOrRestorePlayer_def Let_def split: if_splits)
  have "stuck (u_Username u) ?w0"
    unfolding eq using prof by (auto simp: stuck_def restored_player_def Let_def valueOr_def wf_profile_def protocol_consts IsZero_def)
  moreover have "wf_world ?w0" using AddOrRestorePlayer_keeps [OF wf prof(1)] by blast
  ultimately have "stuck (u_Username u) (fold (world_exec f) cs ?w0) \<and> wf_world (fold (world_exec f) cs ?w0)"
    using cs
  proof (induction cs arbitrary: w' rule: rev_induct)
    case (snoc c cs)
    then show ?case using stuck_call [of "u_Username u" _ c f] wop.exec_wf [of c _ f] by simp
  qed simp
  then obtain p where "map_of (w_players w') (u_Username u) = Some p" "\<not> p_Alive p" "wf_world w'"
    by (auto simp: stuck_def w')
  moreover from this have "wf_profile (profileLocked w' p)"
    using wf_profileLocked [OF wf_playerD] by blast
  ultimately show ?thesis by (simp add: RemovePlayer_def profileLocked_def)
qed

definition down_profile :: UserProfile where
  "down_profile = (profileLocked small_world (hero ''bob'' 2 2))\<lparr>u_HP := 0, u_Alive := False\<rparr>"

theorem saved_down_is_lost_witness:
  "\<exists>p. map_of (w_players (fold (world_exec (\<lambda>_. [])) [CallTick 99000000000 [''ann'', ''bob'']]
       (snd (AddOrRestorePlayer (\<lambda>_. []) 5 down_profile small_world)))) ''bob'' = Some p \<and> \<not> p_Alive p"
proof -
  have "u_Username down_profile = ''bob''" "wf_profile down_profile" "\<not> u_Alive down_profile"
    by (simp_all add: down_profile_def profileLocked_def wf_profile_def small_defs protocol_consts)
  from saved_down_is_lost [OF small_wf this(2,3), of "[CallTick 99000000000 [''ann'', ''bob'']]", OF _ refl] this(1)
  show ?thesis by fastforce
qed

end
