(* ===== verification/Checkpoint_Props.thy ===== *)
theory Checkpoint_Props
  imports World_Props
begin

text \<open>
  The checkpoint a node writes and a new owner restores: what comes back, that the world is
  well-formed again, and the counters the restored world starts from.
\<close>

section \<open>What a snapshot lists\<close>

lemma snapshot_players_keys [simp]:
  "keys (w_players (snd (snapshot_players f now ord w))) = keys (w_players w)"
  by (induction ord arbitrary: w) (simp_all add: Let_def case_prod_beta split: option.split)

lemma snapshot_players_fields [simp]:
  "w_cfg (snd (snapshot_players f now ord w)) = w_cfg w"
  "w_terrain (snd (snapshot_players f now ord w)) = w_terrain w"
  "w_npcs (snd (snapshot_players f now ord w)) = w_npcs w"
  "w_treasures (snd (snapshot_players f now ord w)) = w_treasures w"
  by (induction ord arbitrary: w; simp add: Let_def case_prod_beta split: option.split)+

lemma snapshot_players_other:
  "k \<notin> set ord \<Longrightarrow> map_of (w_players (snd (snapshot_players f now ord w))) k = map_of (w_players w) k"
  by (induction ord arbitrary: w) (simp_all add: Let_def case_prod_beta refresh_other split: option.split)

text \<open>The views are those of the players as the snapshot leaves them.\<close>

lemma snapshot_players_views:
  assumes "distinct ord" "set ord \<subseteq> set (keys (w_players w))"
  shows "fst (snapshot_players f now ord w) =
    map (\<lambda>k. playerViewLocked f now (the (map_of (w_players (snd (snapshot_players f now ord w))) k))) ord"
  using assms
proof (induction ord arbitrary: w)
  case (Cons k ord)
  let ?w = "refreshPlayerStateLocked now k w"
  obtain q where q: "map_of (w_players ?w) k = Some q"
    using Cons.prems(2) by (cases "map_of (w_players ?w) k") (auto simp: map_of_eq_None_iff simp flip: set_map)
  have "map_of (w_players (snd (snapshot_players f now ord ?w))) k = Some q"
    using snapshot_players_other [of k ord f now ?w] Cons.prems(1) q by simp
  with Cons.IH [of ?w] Cons.prems q show ?case by (simp add: Let_def case_prod_beta)
qed simp

section \<open>Round trip\<close>

definition restored_view :: "time \<Rightarrow> Player \<Rightarrow> Player" where
  "restored_view now p =
     p\<lparr>p_Potions := valueOr (p_Potions p) MaxPotions, p_RespawnAt := zero_time, p_LastUpdate := now\<rparr>"

lemma player_of_view_of:
  "p_MapID p = cfg_ID (w_cfg w) \<Longrightarrow> player_of_view now' w (playerViewLocked f now p) = restored_view now' p"
  by (simp add: player_of_view_def playerViewLocked_def restored_view_def)

lemma npc_of_view_of [simp]: "npc_of_view (npc_view n) = n"
  by (simp add: npc_of_view_def npc_view_def)

lemma treasure_of_view_of [simp]: "treasure_of_view (treasure_view t) = t"
  by (simp add: treasure_of_view_def treasure_view_def)

lemma distinct_sorted_views:
  assumes "distinct (keys al)" "\<And>k v. (k, v) \<in> set al \<Longrightarrow> key (view v) = k"
  shows "distinct (map key (sort_key key (map (\<lambda>(_, v). view v) al)))"
proof -
  have "map key (map (\<lambda>(_, v). view v) al) = keys al" using assms(2) by auto
  moreover have "mset (map key (sort_key key (map (\<lambda>(_, v). view v) al))) = mset (map key (map (\<lambda>(_, v). view v) al))"
    by (metis mset_map mset_sort)
  ultimately show ?thesis using assms(1) by (metis mset_eq_imp_distinct_iff)
qed

text \<open>Rebuilding a map from its sorted views gives the entries back.\<close>

lemma rebuild:
  assumes "distinct (keys al)" "\<And>k v. (k, v) \<in> set al \<Longrightarrow> key (view v) = k"
  shows "map_of (build_map key val (sort_key key (map (\<lambda>(_, v). view v) al))) k
       = map_option (\<lambda>v. val (view v)) (map_of al k)"
proof -
  have "distinct (map key (sort_key key (map (\<lambda>(_, v). view v) al)))"
    using assms by (rule distinct_sorted_views)
  then show ?thesis
    using map_of_sorted_values [of al key view val k] assms by (simp add: map_of_build_map)
qed

lemma set_eq_map_of:
  assumes "distinct (keys al)" "distinct (keys bl)" "\<And>k. map_of al k = map_of bl k"
  shows "set al = set bl"
proof -
  have "(k, v) \<in> set al \<longleftrightarrow> (k, v) \<in> set bl" for k v
    unfolding in_set_map_of [OF assms(1)] in_set_map_of [OF assms(2)] assms(3) ..
  then show ?thesis by auto
qed

lemma stringsToGrid_inverse [simp]: "stringsToGrid (gridToStrings t) = t"
  by (simp add: stringsToGrid_def gridToStrings_def)

lemma gridToStrings_Nil [simp]: "gridToStrings t = [] \<longleftrightarrow> t = []"
  by (simp add: gridToStrings_def)

text \<open>The world a checkpoint restores, entry by entry.\<close>

lemma restore_capture:
  assumes wf: "wf_world w" and ord: "distinct ord" "set ord = set (keys (w_players w))"
    and cap: "CaptureCheckpoint f now ord nid w = (cp, w1)"
    and cfg: "w_cfg w0 = w_cfg w" and ver: "w_version w1 \<noteq> 0"
    and w': "w' = RestoreCheckpoint now' cp w0"
  shows "wf_world w1" "w_cfg w1 = w_cfg w" "w_cfg w' = w_cfg w1" "w_terrain w' = w_terrain w1"
    "w_version w' = w_version w1"
    "map_of (w_npcs w') i = map_of (w_npcs w1) i" "map_of (w_treasures w') j = map_of (w_treasures w1) j"
    "map_of (w_players w') k = map_option (restored_view now') (map_of (w_players w1) k)"
    "distinct (keys (w_npcs w'))" "distinct (keys (w_treasures w'))" "distinct (keys (w_players w'))"
    "w_nextNPC w' = Suc (length (w_npcs w'))" "w_nextTreasure w' = Suc (length (w_treasures w'))"
proof -
  have w1: "w1 = snd (snapshot_players f now ord w)"
    using cap by (auto simp: CaptureCheckpoint_def Snapshot_def Let_def case_prod_beta)
  show wf1: "wf_world w1" using snapshot_players_keeps [OF wf, of f now ord] by (simp add: w1)
  note d1 = wf_distinct [OF wf1]
  show cfg1: "w_cfg w1 = w_cfg w" by (simp add: w1)
  let ?al = "map (\<lambda>k. (k, the (map_of (w_players w1) k))) ord"
  have views: "fst (snapshot_players f now ord w) = map (\<lambda>(_, p). playerViewLocked f now p) ?al"
    using snapshot_players_views [of ord w f now] ord by (simp add: w1)
  have keysord: "map_of (w_players w1) k \<noteq> None \<longleftrightarrow> k \<in> set ord" for k
    using ord(2) snapshot_players_keys [of f now ord w]
    by (metis w1 map_of_eq_None_iff set_map)
  have al: "map_of ?al k = map_of (w_players w1) k" for k
  proof -
    have "map_of ?al k = (if k \<in> set ord then Some (the (map_of (w_players w1) k)) else None)"
      by (induction ord) auto
    then show ?thesis using keysord [of k] by auto
  qed
  have dal: "distinct (keys ?al)" using ord(1) by (simp add: comp_def)
  have wfp: "wf_player (w_cfg w) (w_terrain w1) k p" if "map_of (w_players w1) k = Some p" for k p
    using wf_playerD [OF wf1 that] cfg1 by simp
  have userv: "pv_Username (playerViewLocked f now p) = k" if "(k, p) \<in> set ?al" for k p
    using that wfp al in_set_map_of [OF dal, of k p] by (auto simp: wf_player_def playerViewLocked_def)
  have nv: "nv_ID (npc_view n) = i" if "(i, n) \<in> set (w_npcs w1)" for i n
    using that wf1 by (auto simp: wf_world_def list_all_iff wf_npc_def npc_view_def)
  have tv: "tv_ID (treasure_view t) = i" if "(i, t) \<in> set (w_treasures w1)" for i t
    using that wf1 by (auto simp: wf_world_def list_all_iff wf_treasure_def treasure_view_def)
  have cpf: "c_MapID cp = cfg_ID (w_cfg w0)" "c_Version cp = w_version w1" "c_Terrain cp = gridToStrings (w_terrain w1)"
    "c_Players cp = sort_key pv_Username (map (\<lambda>(_, p). playerViewLocked f now p) ?al)"
    "c_NPCs cp = sort_key nv_ID (map (\<lambda>(_, n). npc_view n) (w_npcs w1))"
    "c_Treasures cp = sort_key tv_ID (map (\<lambda>(_, t). treasure_view t) (w_treasures w1))"
    using cap by (auto simp: CaptureCheckpoint_def Snapshot_def Let_def case_prod_beta cfg w1 views [unfolded w1])
  have ne: "c_Terrain cp \<noteq> []" using wf_terrain [OF wf1] by (simp add: cpf)
  let ?t = "w0\<lparr>w_terrain := w_terrain w1\<rparr>"
  have eqs: "w_cfg w' = w_cfg w0" "w_terrain w' = w_terrain w1" "w_version w' = w_version w1"
    "w_players w' = build_map pv_Username (player_of_view now' ?t) (c_Players cp)"
    "w_npcs w' = build_map nv_ID npc_of_view (c_NPCs cp)"
    "w_treasures w' = build_map tv_ID treasure_of_view (c_Treasures cp)"
    "w_nextNPC w' = Suc (length (w_npcs w'))" "w_nextTreasure w' = Suc (length (w_treasures w'))"
    using ver ne unfolding w' by (simp_all add: RestoreCheckpoint_def cpf(1,2) Let_def) (simp_all add: cpf(3))
  show "w_cfg w' = w_cfg w1" "w_terrain w' = w_terrain w1" "w_version w' = w_version w1"
    "w_nextNPC w' = Suc (length (w_npcs w'))" "w_nextTreasure w' = Suc (length (w_treasures w'))"
    using eqs cfg cfg1 by simp_all
  show "distinct (keys (w_npcs w'))" "distinct (keys (w_treasures w'))" "distinct (keys (w_players w'))"
    unfolding eqs(4-6) by simp_all
  show "map_of (w_npcs w') i = map_of (w_npcs w1) i"
    unfolding eqs(5) cpf(5) using rebuild [of "w_npcs w1" nv_ID npc_view npc_of_view i] nv d1
    by (simp add: option.map_ident)
  show "map_of (w_treasures w') j = map_of (w_treasures w1) j"
    unfolding eqs(6) cpf(6) using rebuild [of "w_treasures w1" tv_ID treasure_view treasure_of_view j] tv d1
    by (simp add: option.map_ident)
  have "map_of (w_players w') k = map_option (\<lambda>p. player_of_view now' ?t (playerViewLocked f now p)) (map_of ?al k)"
    unfolding eqs(4) cpf(4) by (rule rebuild [OF dal], rule userv)
  then show "map_of (w_players w') k = map_option (restored_view now') (map_of (w_players w1) k)"
    unfolding al using wfp by (cases "map_of (w_players w1) k") (auto simp: player_of_view_of wf_player_def cfg)
qed

lemma wf_of_sets:
  assumes "wf_world w1" "w_cfg w' = w_cfg w1" "w_terrain w' = w_terrain w1"
    and "distinct (keys (w_players w'))" "distinct (keys (w_npcs w'))" "distinct (keys (w_treasures w'))"
    and "\<And>i. map_of (w_npcs w') i = map_of (w_npcs w1) i" "\<And>i. map_of (w_treasures w') i = map_of (w_treasures w1) i"
    and "\<And>k p. map_of (w_players w') k = Some p \<Longrightarrow> wf_player (w_cfg w1) (w_terrain w1) k p"
  shows "wf_world w'"
proof -
  note d = wf_distinct [OF assms(1)]
  have n: "set (w_npcs w') = set (w_npcs w1)" using assms(5,7) d by (intro set_eq_map_of) auto
  have t: "set (w_treasures w') = set (w_treasures w1)" using assms(6,8) d by (intro set_eq_map_of) auto
  have cells: "distinct (map (\<lambda>(_, t). (t_X t, t_Y t)) (w_treasures w'))"
    using assms(1) d unfolding distinct_cells_iff [OF assms(6)] t wf_world_def treasure_cells_def
    by (simp add: distinct_cells_iff)
  have p: "wf_player (w_cfg w1) (w_terrain w1) k p" if "(k, p) \<in> set (w_players w')" for k p
    using assms(9) in_set_map_of [OF assms(4)] that by blast
  show ?thesis
    using assms(1-6) n t cells p by (auto simp: wf_world_def list_all_iff treasure_cells_def)
qed

lemma restored_wf:
  assumes "wf_world w" "distinct ord" "set ord = set (keys (w_players w))"
    and "CaptureCheckpoint f now ord nid w = (cp, w1)" "w_cfg w0 = w_cfg w" "w_version w1 \<noteq> 0"
  shows "wf_world (RestoreCheckpoint now' cp w0)"
proof -
  note r = restore_capture [where now' = now', OF assms refl]
  show ?thesis
  proof (rule wf_of_sets [OF r(1,3,4,11,9,10,6,7)])
    fix k p
    assume "map_of (w_players (RestoreCheckpoint now' cp w0)) k = Some p"
    then obtain q where q: "map_of (w_players w1) k = Some q" "p = restored_view now' q" using r(8) by auto
    show "wf_player (w_cfg w1) (w_terrain w1) k p"
      using wf_playerD [OF r(1) q(1)] by (auto simp: q(2) wf_player_def restored_view_def valueOr_def protocol_consts)
  qed
qed

text \<open>C24: the checkpoint of a well-formed world, restored on a fresh world of the same map, gives the
  terrain, the version, every monster and every treasure back exactly, and every player up to
  the respawn time (cleared), the time of the last update and an empty potion bag (refilled);
  the restored world is well-formed.\<close>

theorem checkpoint_roundtrip:
  assumes "wf_world w" "distinct ord" "set ord = set (keys (w_players w))"
    and "CaptureCheckpoint f now ord nid w = (cp, w1)" "w_cfg w0 = w_cfg w" "w_version w1 \<noteq> 0"
  shows "w_terrain (RestoreCheckpoint now' cp w0) = w_terrain w1 \<and>
    w_version (RestoreCheckpoint now' cp w0) = w_version w1 \<and>
    map_of (w_npcs (RestoreCheckpoint now' cp w0)) = map_of (w_npcs w1) \<and>
    map_of (w_treasures (RestoreCheckpoint now' cp w0)) = map_of (w_treasures w1) \<and>
    map_of (w_players (RestoreCheckpoint now' cp w0)) = (\<lambda>k. map_option (restored_view now') (map_of (w_players w1) k)) \<and>
    wf_world (RestoreCheckpoint now' cp w0)"
  using restore_capture(4-8) [where now' = now', OF assms refl] restored_wf [OF assms, of now']
  by (auto simp: fun_eq_iff)

theorem checkpoint_roundtrip_witness:
  "map_of (w_npcs (RestoreCheckpoint 9 (fst (CaptureCheckpoint (\<lambda>_. []) 5 [''ann''] ''n1'' small_world))
       (empty_world yard (\<lambda>n. n)))) ''yard-npc-0'' = Some (snd (hd (w_npcs small_world)))"
proof -
  have "w_version (snd (CaptureCheckpoint (\<lambda>_. []) 5 [''ann''] ''n1'' small_world)) = 7"
    and n: "w_npcs (snd (CaptureCheckpoint (\<lambda>_. []) 5 [''ann''] ''n1'' small_world)) = w_npcs small_world"
    by (simp_all add: CaptureCheckpoint_def Snapshot_def refreshPlayerStateLocked_def small_defs Let_def)
  moreover have "distinct [''ann'']" "set [''ann''] = set (keys (w_players small_world))"
    "w_cfg (empty_world yard (\<lambda>n. n)) = w_cfg small_world"
    by (simp_all add: small_defs empty_world_def)
  ultimately have "map_of (w_npcs (RestoreCheckpoint 9 (fst (CaptureCheckpoint (\<lambda>_. []) 5 [''ann''] ''n1'' small_world))
       (empty_world yard (\<lambda>n. n)))) = map_of (w_npcs small_world)"
    using checkpoint_roundtrip [OF small_wf, of "[''ann'']" "\<lambda>_. []" 5 "''n1''"
        "fst (CaptureCheckpoint (\<lambda>_. []) 5 [''ann''] ''n1'' small_world)"
        "snd (CaptureCheckpoint (\<lambda>_. []) 5 [''ann''] ''n1'' small_world)" "empty_world yard (\<lambda>n. n)" 9]
    by simp
  then show ?thesis by (simp add: small_defs)
qed

section \<open>The counters after a restore\<close>

text \<open>\<open>RestoreCheckpoint\<close> restarts the id counter at the number of monsters plus one. If a monster
  of the checkpoint carries that number, the next spawn does not add a monster: it takes the
  living one's id and replaces it.\<close>

theorem restore_then_spawn_overwrites:
  assumes cp: "c_MapID cp = cfg_ID (w_cfg w)" "c_Version cp \<noteq> 0" "distinct (map nv_ID (c_NPCs cp))"
    and v: "v \<in> set (c_NPCs cp)" "nv_ID v = npc_id w (length (c_NPCs cp) + 1)"
    and free: "walkableForLocked x y [] (RestoreCheckpoint now cp w)"
  shows "\<exists>n w2. spawnNPCLocked (RestoreCheckpoint now cp w) = (Some n, w2) \<and> n_ID n = nv_ID v \<and>
    map_of (w_npcs (RestoreCheckpoint now cp w)) (nv_ID v) = Some (npc_of_view v) \<and>
    map_of (w_npcs w2) (nv_ID v) = Some n \<and>
    length (w_npcs w2) = length (w_npcs (RestoreCheckpoint now cp w))"
proof -
  let ?w = "RestoreCheckpoint now cp w"
  have eqs: "w_npcs ?w = build_map nv_ID npc_of_view (c_NPCs cp)" "w_nextNPC ?w = Suc (length (w_npcs ?w))"
    "w_cfg ?w = w_cfg w"
    using cp(1,2) by (simp_all add: RestoreCheckpoint_def Let_def)
  have look: "map_of (w_npcs ?w) (nv_ID v) = Some (npc_of_view v)"
    unfolding eqs(1) map_of_build_map [OF cp(3)]
    using v(1) cp(3) by (intro map_of_is_SomeI) (auto simp: comp_def)
  have len: "length (w_npcs ?w) = length (c_NPCs cp)"
  proof -
    have "set (keys (w_npcs ?w)) = set (map nv_ID (c_NPCs cp))" unfolding eqs(1) keys_build_map by simp
    then show ?thesis
      using distinct_card [OF cp(3)] distinct_card [of "keys (w_npcs ?w)"] eqs(1) by simp
  qed
  obtain r w2 where sp: "spawnNPCLocked ?w = (r, w2)" by fastforce
  obtain n g where n: "r = Some n" "n_ID n = npc_id ?w (w_nextNPC ?w)"
    "w2 = bump_version (set_npc (n_ID n) n (?w\<lparr>w_rng := g, w_nextNPC := w_nextNPC ?w + 1\<rparr>))"
    using spawnNPC_effect [OF sp] free by blast
  have id: "n_ID n = nv_ID v" using n(2) v(2) eqs len by (simp add: npc_id_def)
  show ?thesis
    using sp n look id key_present [OF look] by (simp add: set_npc_def)
qed

definition two_npcs :: MapCheckpoint where
  "two_npcs =
     (let npc = (\<lambda>i x. \<lparr>nv_ID = ''yard-npc-'' @ itoa i, nv_Name = ''wolf'', nv_X = x, nv_Y = 1, nv_HP = 80, nv_MaxHP = 90,
                         nv_Attack = 18, nv_Alive = True\<rparr>)
      in \<lparr>c_MapID = ''yard'', c_NodeID = ''n1'', c_MapEpoch = 1, c_Version = 12, c_Terrain = cfg_Layout yard,
          c_Players = [], c_NPCs = [npc 3 2, npc 4 3], c_Treasures = [], c_Checkpoint = 0\<rparr>)"

theorem restore_then_spawn_overwrites_witness:
  "\<exists>n w2. spawnNPCLocked (RestoreCheckpoint 9 two_npcs (empty_world yard (\<lambda>n. n))) = (Some n, w2) \<and>
     n_ID n = ''yard-npc-3'' \<and> length (w_npcs w2) = 2"
proof -
  let ?w = "empty_world yard (\<lambda>n. n)"
  have len: "length (w_npcs (RestoreCheckpoint 9 two_npcs ?w)) = 2"
    and "walkableForLocked 1 1 [] (RestoreCheckpoint 9 two_npcs ?w)"
    and "c_MapID two_npcs = cfg_ID (w_cfg ?w)" "c_Version two_npcs \<noteq> 0" "distinct (map nv_ID (c_NPCs two_npcs))"
    and "hd (c_NPCs two_npcs) \<in> set (c_NPCs two_npcs)"
    and "nv_ID (hd (c_NPCs two_npcs)) = npc_id ?w (length (c_NPCs two_npcs) + 1)"
    by (simp_all add: two_npcs_def yard_def empty_world_def RestoreCheckpoint_def Let_def build_map_def
        walkableForLocked_def npc_of_view_def npc_id_def stringsToGrid_def itoa.simps digit_def)
  note pre = this
  have id: "nv_ID (hd (c_NPCs two_npcs)) = ''yard-npc-3''" by code_simp
  from restore_then_spawn_overwrites [OF pre(3-7) pre(2)] show ?thesis
    unfolding id len by blast
qed

end
