(* ===== verification/Topology.thy ===== *)
theory Topology
  imports Protocol
begin

text \<open>
  The routing topology (\<open>storage/topology.go\<close>, \<open>storage/topology_bootstrap.go\<close>): who owns which
  map, under which ownership epoch. \<open>Validate\<close> returns the first violation it meets, in the order
  of the source; \<open>BuildInitialTopology\<close> has three outcomes, an error, not ready yet, or the first
  topology.

  A nil map and an empty one are the same association list, and times are instants, so
  \<open>Normalize\<close> and \<open>Clone\<close> are the identity on the model.
\<close>

record Topology =
  tp_Version :: u64
  tp_LeaderTerm :: u64
  tp_Owners :: "(string, string) alist"
  tp_MapEpochs :: "(string, u64) alist"
  tp_UpdatedAt :: time

record NodeRegistryInfo =
  nr_ID :: string
  nr_Addr :: string
  nr_MapID :: string
  nr_Draining :: bool

datatype topology_error =
    VersionZero | UpdatedAtUnset | InvalidMapID string | UnknownMap string
  | InvalidOwner string string | EpochNotPositive string

definition Clone :: "Topology \<Rightarrow> Topology" where
  "Clone t = \<lparr>tp_Version = tp_Version t, tp_LeaderTerm = tp_LeaderTerm t, tp_Owners = tp_Owners t,
              tp_MapEpochs = tp_MapEpochs t, tp_UpdatedAt = tp_UpdatedAt t\<rparr>"

section \<open>Validation\<close>

definition map_ids_of :: "Topology \<Rightarrow> string list" where
  "map_ids_of t = sort (remdups (keys (tp_Owners t) @ keys (tp_MapEpochs t)))"

definition validate_map :: "string list option \<Rightarrow> Topology \<Rightarrow> string \<Rightarrow> topology_error option" where
  "validate_map knownMapIDs t mapID =
     (if bad_id mapID then Some (InvalidMapID mapID)
      else if (case knownMapIDs of None \<Rightarrow> False | Some ks \<Rightarrow> mapID \<notin> set ks) then Some (UnknownMap mapID)
      else if (case map_of (tp_Owners t) mapID of None \<Rightarrow> False | Some owner \<Rightarrow> owner \<noteq> [] \<and> bad_id owner)
        then Some (InvalidOwner mapID (get_or [] (tp_Owners t) mapID))
      else if (case map_of (tp_MapEpochs t) mapID of None \<Rightarrow> True | Some e \<Rightarrow> e = 0)
        then Some (EpochNotPositive mapID)
      else None)"

fun first_error :: "('a \<Rightarrow> 'e option) \<Rightarrow> 'a list \<Rightarrow> 'e option" where
  "first_error f [] = None"
| "first_error f (x # xs) = (case f x of Some e \<Rightarrow> Some e | None \<Rightarrow> first_error f xs)"

definition Validate :: "string list option \<Rightarrow> Topology \<Rightarrow> topology_error option" where
  "Validate knownMapIDs t =
     (if tp_Version t = 0 then Some VersionZero
      else if IsZero (tp_UpdatedAt t) then Some UpdatedAtUnset
      else first_error (validate_map knownMapIDs t) (map_ids_of t))"

definition prepareTopology :: "Topology \<Rightarrow> topology_error + Topology" where
  "prepareTopology t =
     (let prepared = Clone t
      in case Validate None prepared of Some e \<Rightarrow> Inl e | None \<Rightarrow> Inr prepared)"

section \<open>The first topology\<close>

definition minimumMapCandidates :: nat where
  "minimumMapCandidates = 2"

datatype boot_error =
    NoMaps | BadNodeID string | BadNodeAddr string string | DuplicateNode string
  | BadNodeMap string string | UnknownNodeMap string string | InvalidTopology topology_error

text \<open>One registration: the node ids seen so far and the candidates per map, in the order met.\<close>

fun register_all ::
    "string list \<Rightarrow> NodeRegistryInfo list \<Rightarrow> string list \<Rightarrow> (string, string list) alist
     \<Rightarrow> boot_error + (string, string list) alist" where
  "register_all known [] seen cands = Inr cands"
| "register_all known (n # ns) seen cands =
     (if bad_id (nr_ID n) then Inl (BadNodeID (nr_ID n))
      else if bad_id (nr_Addr n) then Inl (BadNodeAddr (nr_ID n) (nr_Addr n))
      else if nr_ID n \<in> set seen then Inl (DuplicateNode (nr_ID n))
      else if bad_id (nr_MapID n) then Inl (BadNodeMap (nr_ID n) (nr_MapID n))
      else if nr_MapID n \<notin> set known then Inl (UnknownNodeMap (nr_ID n) (nr_MapID n))
      else register_all known ns (nr_ID n # seen)
             (AList.update (nr_MapID n) (get_or [] cands (nr_MapID n) @ [nr_ID n]) cands))"

fun assign_owners :: "(string, string list) alist \<Rightarrow> string list \<Rightarrow> (string, string) alist option" where
  "assign_owners cands [] = Some []"
| "assign_owners cands (mapID # ms) =
     (let declared = get_or [] cands mapID
      in if length declared < minimumMapCandidates then None
         else case assign_owners cands ms of
                None \<Rightarrow> None
              | Some rest \<Rightarrow> Some ((mapID, hd (sort declared)) # rest))"

definition BuildInitialTopology ::
    "string list \<Rightarrow> NodeRegistryInfo list \<Rightarrow> time \<Rightarrow> boot_error + Topology option" where
  "BuildInitialTopology knownMapIDs nodes now =
     (let mapIDs = sort (remdups knownMapIDs)
      in if mapIDs = [] then Inl NoMaps
         else case register_all knownMapIDs (sort_key nr_ID nodes) [] [] of
                Inl e \<Rightarrow> Inl e
              | Inr cands \<Rightarrow>
                  (case assign_owners cands mapIDs of
                     None \<Rightarrow> Inr None
                   | Some owners \<Rightarrow>
                       let t = \<lparr>tp_Version = 1, tp_LeaderTerm = 0, tp_Owners = owners,
                                tp_MapEpochs = map (\<lambda>m. (m, 1)) mapIDs, tp_UpdatedAt = now\<rparr>
                       in case Validate (Some knownMapIDs) t of
                            Some e \<Rightarrow> Inl (InvalidTopology e)
                          | None \<Rightarrow> Inr (Some t)))"

section \<open>Lemmas on validation\<close>

lemma first_error_None: "first_error f xs = None \<longleftrightarrow> (\<forall>x\<in>set xs. f x = None)"
  by (induction xs) (auto split: option.splits)

lemma Clone_id [simp]: "Clone t = t"
  by (simp add: Clone_def)

lemma set_map_ids_of: "set (map_ids_of t) = set (keys (tp_Owners t)) \<union> set (keys (tp_MapEpochs t))"
  by (simp add: map_ids_of_def)

lemma Validate_None_iff:
  "Validate k t = None \<longleftrightarrow> tp_Version t \<noteq> 0 \<and> \<not> IsZero (tp_UpdatedAt t) \<and>
     (\<forall>m \<in> set (map_ids_of t). validate_map k t m = None)"
  by (simp add: Validate_def first_error_None)

lemma Validate_weaken: "Validate (Some ks) t = None \<Longrightarrow> Validate None t = None"
  by (force simp: Validate_None_iff validate_map_def split: if_splits)

lemma Validate_epoch:
  assumes "Validate k t = None" "m \<in> set (keys (tp_Owners t)) \<union> set (keys (tp_MapEpochs t))"
  shows "\<exists>e. map_of (tp_MapEpochs t) m = Some e \<and> e \<noteq> 0"
proof -
  have "validate_map k t m = None" using assms by (simp add: Validate_None_iff set_map_ids_of)
  then show ?thesis by (cases "map_of (tp_MapEpochs t) m") (auto simp: validate_map_def split: if_splits)
qed

lemma prepareTopology_Inr: "prepareTopology t = Inr p \<longleftrightarrow> p = t \<and> Validate None t = None"
  by (auto simp: prepareTopology_def Let_def split: option.splits)

section \<open>Lemmas on the bootstrap\<close>

definition candidates_of :: "string \<Rightarrow> NodeRegistryInfo list \<Rightarrow> string list" where
  "candidates_of m ns = map nr_ID (filter (\<lambda>n. nr_MapID n = m) ns)"

definition good_node :: "string list \<Rightarrow> NodeRegistryInfo \<Rightarrow> bool" where
  "good_node known n \<longleftrightarrow>
     \<not> bad_id (nr_ID n) \<and> \<not> bad_id (nr_Addr n) \<and> \<not> bad_id (nr_MapID n) \<and> nr_MapID n \<in> set known"

lemma candidates_of_Cons:
  "candidates_of m (n # ns) = (if nr_MapID n = m then nr_ID n # candidates_of m ns else candidates_of m ns)"
  by (simp add: candidates_of_def)

lemma get_or_update: "get_or z (AList.update k v al) j = (if j = k then v else get_or z al j)"
  by (simp add: get_or_def)

lemma register_all_step:
  "register_all known (n # ns) seen cands = Inr cs \<longleftrightarrow>
   good_node known n \<and> nr_ID n \<notin> set seen \<and>
   register_all known ns (nr_ID n # seen)
     (AList.update (nr_MapID n) (get_or [] cands (nr_MapID n) @ [nr_ID n]) cands) = Inr cs"
  by (simp add: good_node_def)

declare register_all.simps(2) [simp del]

lemma register_all_Inr:
  assumes "register_all known ns seen cands = Inr cs"
  shows "list_all (good_node known) ns \<and> distinct (map nr_ID ns) \<and> set (map nr_ID ns) \<inter> set seen = {} \<and>
    (\<forall>m. get_or [] cs m = get_or [] cands m @ candidates_of m ns)"
  using assms
proof (induction ns arbitrary: seen cands)
  case Nil
  then show ?case by (simp add: candidates_of_def)
next
  case (Cons n ns)
  note st = Cons.prems [unfolded register_all_step]
  from st Cons.IH [OF st [THEN conjunct2, THEN conjunct2]] show ?case
    by (auto simp: candidates_of_Cons get_or_update)
qed

lemma register_all_ok:
  assumes "list_all (good_node known) ns" "distinct (map nr_ID ns)" "set (map nr_ID ns) \<inter> set seen = {}"
  shows "\<exists>cs. register_all known ns seen cands = Inr cs"
  using assms
proof (induction ns arbitrary: seen cands)
  case (Cons n ns)
  then have "\<exists>cs. register_all known ns (nr_ID n # seen)
     (AList.update (nr_MapID n) (get_or [] cands (nr_MapID n) @ [nr_ID n]) cands) = Inr cs"
    by (intro Cons.IH) auto
  with Cons.prems show ?case unfolding register_all_step by auto
qed simp

lemma assign_owners_Some:
  assumes "assign_owners cands ms = Some owners"
  shows "keys owners = ms" and "\<forall>m \<in> set ms. minimumMapCandidates \<le> length (get_or [] cands m)"
    and "m \<in> set ms \<Longrightarrow> map_of owners m = Some (hd (sort (get_or [] cands m)))"
  using assms by (induction ms arbitrary: owners) (auto simp: Let_def split: if_splits option.splits)

lemma assign_owners_None:
  "assign_owners cands ms = None \<longleftrightarrow> (\<exists>m \<in> set ms. length (get_or [] cands m) < minimumMapCandidates)"
  by (induction ms) (auto simp: Let_def split: option.splits)

lemma sort_key_perm_unique:
  assumes "mset xs = mset ys" "distinct (map f xs)"
  shows "sort_key f xs = sort_key f ys"
proof (rule properties_for_sort_key)
  show "mset (sort_key f ys) = mset xs" using assms(1) by simp
  show "sorted (map f (sort_key f ys))" by simp
  fix k
  assume "k \<in> set (sort_key f ys)"
  have d: "distinct (map f ys)" using assms by (metis mset_eq_imp_distinct_iff mset_map)
  have one: "filter (\<lambda>x. f k = f x) zs = [k]" if "k \<in> set zs" "distinct (map f zs)" for zs
    using that
  proof (induction zs)
    case (Cons z zs)
    then show ?case by (cases "k = z") (auto simp: filter_empty_conv image_iff)
  qed simp
  have k: "k \<in> set ys" "k \<in> set xs" "k \<in> set (sort_key f ys)"
    using \<open>k \<in> set (sort_key f ys)\<close> assms(1) by (auto dest: mset_eq_setD)
  have "distinct (map f (sort_key f ys))" using d by (metis mset_eq_imp_distinct_iff mset_map mset_sort)
  then show "filter (\<lambda>x. f k = f x) (sort_key f ys) = filter (\<lambda>x. f k = f x) xs"
    using one [OF k(3)] one [OF k(2) assms(2)] by simp
qed

lemma candidates_sorted:
  "mset (candidates_of m (sort_key f ns)) = mset (candidates_of m ns)"
  unfolding candidates_of_def by (simp add: mset_filter)

lemma map_of_const_keys: "map_of (map (\<lambda>m. (m, c)) ms) m = (if m \<in> set ms then Some c else None)"
  by (induction ms) auto

lemma hd_sort_Min: "xs \<noteq> [] \<Longrightarrow> hd (sort xs) = Min (set (xs :: 'a::linorder list))"
proof -
  assume "xs \<noteq> []"
  then obtain y ys where y: "sort xs = y # ys" by (metis length_0_conv length_sort neq_Nil_conv)
  have "set xs = insert y (set ys)" using y by (metis list.simps(15) set_sort)
  moreover have "\<forall>z \<in> set ys. y \<le> z" using y by (metis sorted_simps(2) sorted_sort)
  ultimately have "Min (set xs) = y" by (intro Min_eqI) auto
  then show ?thesis by (simp add: y)
qed

lemma length_candidates_sorted: "length (candidates_of m (sort_key f ns)) = length (candidates_of m ns)"
  using mset_eq_length [OF candidates_sorted [of m f ns]] .

lemma set_candidates_sorted: "set (candidates_of m (sort_key f ns)) = set (candidates_of m ns)"
  using mset_eq_setD [OF candidates_sorted [of m f ns]] .

lemma bootstrap_owner_valid:
  assumes "\<forall>n \<in> set ns. \<not> bad_id (nr_ID n)" "2 \<le> length (candidates_of m ns)"
  shows "\<not> bad_id (Min (set (candidates_of m ns)))"
proof -
  have "Min (set (candidates_of m ns)) \<in> set (candidates_of m ns)" using assms(2) by (intro Min_in) auto
  with assms(1) show ?thesis by (auto simp: candidates_of_def)
qed

lemma build_order_irrelevant:
  assumes "distinct (map nr_ID nodes)" "mset nodes' = mset nodes"
  shows "BuildInitialTopology known nodes' now = BuildInitialTopology known nodes now"
  using sort_key_perm_unique [OF assms(2) [symmetric] assms(1)] by (simp add: BuildInitialTopology_def Let_def)

lemma build_registers:
  assumes "list_all (good_node known) nodes" "distinct (map nr_ID nodes)"
  obtains cs where "register_all known (sort_key nr_ID nodes) [] [] = Inr cs"
    "\<And>m. get_or [] cs m = candidates_of m (sort_key nr_ID nodes)"
proof -
  have "list_all (good_node known) (sort_key nr_ID nodes)" "distinct (map nr_ID (sort_key nr_ID nodes))"
    using assms by (simp add: list_all_iff) (metis mset_eq_imp_distinct_iff mset_map mset_sort assms(2))
  then obtain cs where cs: "register_all known (sort_key nr_ID nodes) [] [] = Inr cs"
    using register_all_ok [of known "sort_key nr_ID nodes" "[]" "[]"] by auto
  show thesis by (rule that [OF cs]) (use register_all_Inr [OF cs] in \<open>simp add: get_or_def\<close>)
qed

lemma sorted_known_nonempty: "known \<noteq> [] \<Longrightarrow> sort (remdups known) \<noteq> []"
  by (metis length_0_conv length_sort remdups_eq_nil_iff)

lemma build_waits:
  assumes "known \<noteq> []" "list_all (good_node known) nodes" "distinct (map nr_ID nodes)"
    and "m \<in> set known" "length (candidates_of m nodes) < minimumMapCandidates"
  shows "BuildInitialTopology known nodes now = Inr None"
proof -
  obtain cs where cs: "register_all known (sort_key nr_ID nodes) [] [] = Inr cs"
    "\<And>m. get_or [] cs m = candidates_of m (sort_key nr_ID nodes)"
    using build_registers [OF assms(2,3)] by blast
  have "assign_owners cs (sort (remdups known)) = None"
    using assms(4,5) by (auto simp: assign_owners_None cs(2) length_candidates_sorted)
  with sorted_known_nonempty [OF assms(1)] cs(1) show ?thesis by (simp add: BuildInitialTopology_def Let_def)
qed

definition initial_topology :: "string list \<Rightarrow> (string, string) alist \<Rightarrow> time \<Rightarrow> Topology" where
  "initial_topology known owners now =
     \<lparr>tp_Version = 1, tp_LeaderTerm = 0, tp_Owners = owners, tp_MapEpochs = map (\<lambda>m. (m, 1)) (sort (remdups known)), tp_UpdatedAt = now\<rparr>"

lemma initial_topology_valid:
  assumes "\<not> IsZero now" "list_all (\<lambda>m. \<not> bad_id m) known" "set (keys owners) = set known"
    and "\<And>m. m \<in> set known \<Longrightarrow> \<exists>a. map_of owners m = Some a \<and> \<not> bad_id a"
  shows "Validate (Some known) (initial_topology known owners now) = None"
proof -
  have "validate_map (Some known) (initial_topology known owners now) m = None" if "m \<in> set known" for m
    using that assms(2) assms(4) [OF that] by (auto simp: validate_map_def initial_topology_def map_of_const_keys list_all_iff)
  moreover have "set (map_ids_of (initial_topology known owners now)) = set known"
    using assms(3) by (auto simp: set_map_ids_of initial_topology_def image_image)
  ultimately show ?thesis using assms(1) by (simp add: Validate_None_iff initial_topology_def)
qed

lemma build_assigns:
  assumes known: "known \<noteq> []" "list_all (\<lambda>m. \<not> bad_id m) known"
    and nodes: "list_all (good_node known) nodes" "distinct (map nr_ID nodes)" and now: "\<not> IsZero now"
    and enough: "\<And>m. m \<in> set known \<Longrightarrow> minimumMapCandidates \<le> length (candidates_of m nodes)"
  shows "\<exists>owners. BuildInitialTopology known nodes now = Inr (Some (initial_topology known owners now)) \<and>
    Validate (Some known) (initial_topology known owners now) = None \<and>
    (\<forall>m. map_of owners m = (if m \<in> set known then Some (Min (set (candidates_of m nodes))) else None))"
proof -
  obtain cs where cs: "register_all known (sort_key nr_ID nodes) [] [] = Inr cs"
    "\<And>m. get_or [] cs m = candidates_of m (sort_key nr_ID nodes)"
    using build_registers [OF nodes] by blast
  have "assign_owners cs (sort (remdups known)) \<noteq> None"
    using enough unfolding assign_owners_None by (auto simp: cs(2) length_candidates_sorted not_less)
  then obtain owners where ow: "assign_owners cs (sort (remdups known)) = Some owners" by auto
  note a = assign_owners_Some [OF ow]
  have owner: "map_of owners m = Some (Min (set (candidates_of m nodes)))" if "m \<in> set known" for m
  proof -
    have "candidates_of m (sort_key nr_ID nodes) \<noteq> []"
      using enough [OF that] by (metis length_candidates_sorted list.size(3) minimumMapCandidates_def not_numeral_le_zero)
    then show ?thesis using a(3) [of m] that by (simp add: cs(2) hd_sort_Min set_candidates_sorted)
  qed
  have none: "map_of owners m = None" if "m \<notin> set known" for m
    using a(1) that by (simp add: map_of_eq_None_iff flip: set_map)
  have "\<not> bad_id (Min (set (candidates_of m nodes)))" if "m \<in> set known" for m
    using bootstrap_owner_valid [of nodes m] nodes(1) enough [OF that] by (auto simp: list_all_iff good_node_def minimumMapCandidates_def)
  then have v: "Validate (Some known) (initial_topology known owners now) = None"
    using owner arg_cong [OF a(1), of set] by (intro initial_topology_valid [OF now known(2)]) auto
  then have "BuildInitialTopology known nodes now = Inr (Some (initial_topology known owners now))"
    using sorted_known_nonempty [OF known(1)] cs(1) ow by (simp add: BuildInitialTopology_def initial_topology_def Let_def)
  with v owner none show ?thesis by auto
qed

text \<open>C29: with well-formed registrations of distinct nodes the first topology exists exactly when every
  map has two candidates; it passes validation, gives every map to the candidate with the least
  id, starts all epochs at one, and does not depend on the order of the registrations.\<close>

theorem BuildInitialTopology_correct:
  assumes known: "known \<noteq> []" "list_all (\<lambda>m. \<not> bad_id m) known"
    and nodes: "list_all (good_node known) nodes" "distinct (map nr_ID nodes)" and now: "\<not> IsZero now"
    and perm: "mset nodes' = mset nodes"
  shows "BuildInitialTopology known nodes' now = BuildInitialTopology known nodes now \<and>
    (if \<forall>m \<in> set known. minimumMapCandidates \<le> length (candidates_of m nodes)
     then \<exists>t. BuildInitialTopology known nodes now = Inr (Some t) \<and> Validate (Some known) t = None \<and>
       tp_Version t = 1 \<and> tp_LeaderTerm t = 0 \<and>
       (\<forall>m. map_of (tp_Owners t) m = (if m \<in> set known then Some (Min (set (candidates_of m nodes))) else None)) \<and>
       (\<forall>m. map_of (tp_MapEpochs t) m = (if m \<in> set known then Some 1 else None))
     else BuildInitialTopology known nodes now = Inr None)"
proof (cases "\<forall>m \<in> set known. minimumMapCandidates \<le> length (candidates_of m nodes)")
  case True
  then obtain owners where ow: "BuildInitialTopology known nodes now = Inr (Some (initial_topology known owners now))"
    "Validate (Some known) (initial_topology known owners now) = None"
    "\<forall>m. map_of owners m = (if m \<in> set known then Some (Min (set (candidates_of m nodes))) else None)"
    using build_assigns [OF known nodes now] by blast
  have "map_of (tp_MapEpochs (initial_topology known owners now)) m = (if m \<in> set known then Some 1 else None)" for m
    by (simp add: initial_topology_def map_of_const_keys)
  with True ow build_order_irrelevant [OF nodes(2) perm] show ?thesis
    by (auto simp: initial_topology_def)
next
  case False
  then show ?thesis using build_waits [OF known(1) nodes] build_order_irrelevant [OF nodes(2) perm] by (auto simp: not_le)
qed

definition demo_nodes :: "NodeRegistryInfo list" where
  "demo_nodes = [\<lparr>nr_ID = ''n2'', nr_Addr = ''h:2'', nr_MapID = ''m'', nr_Draining = False\<rparr>,
                 \<lparr>nr_ID = ''n1'', nr_Addr = ''h:1'', nr_MapID = ''m'', nr_Draining = False\<rparr>]"

theorem BuildInitialTopology_correct_witness:
  "\<exists>t. BuildInitialTopology [''m''] (rev demo_nodes) 7 = Inr (Some t) \<and> map_of (tp_Owners t) ''m'' = Some ''n1''"
proof -
  have pre: "[''m''] \<noteq> []" "list_all (\<lambda>m. \<not> bad_id m) [''m'']" "list_all (good_node [''m'']) demo_nodes"
    "distinct (map nr_ID demo_nodes)" "\<not> IsZero 7" "mset (rev demo_nodes) = mset demo_nodes"
    by (simp_all add: demo_nodes_def good_node_def bad_id_def TrimSpace_def is_space_def IsZero_def zero_time_def)
  have "minimumMapCandidates \<le> length (candidates_of ''m'' demo_nodes)"
    "Min (set (candidates_of ''m'' demo_nodes)) = ''n1''"
    by (simp_all add: demo_nodes_def candidates_of_def minimumMapCandidates_def min_def)
  with BuildInitialTopology_correct [OF pre] show ?thesis by fastforce
qed

end
