(* ===== verification/Redis.thy ===== *)
theory Redis
  imports Topology
begin

text \<open>
  What the code uses of Redis and of the JSON libraries. Neither is part of the repository, so
  both are arguments of every definition that talks to them: \<open>redis\<close> is the record of the commands
  the code issues over an unknown state \<open>'s\<close> with stored values \<open>'d\<close>, \<open>json\<close> the record of encoders
  and decoders. What the code relies on is the locale \<open>redis_server\<close>: reading after writing, per
  command, as the Redis documentation states it, and decoding after encoding.

  \<^item> \<open>GET\<close> and \<open>SET\<close> are for keys that never expire. Keys with a time to live go through
    \<open>TGET\<close>, \<open>TSET\<close> and \<open>TDEL\<close>, which take the time of the server.
  \<^item> \<open>unpack_max\<close> is the number of values Lua's \<open>unpack\<close> can return; a script that asks for more
    stops with a run-time error, and Redis does not undo what it has written by then.
  \<^item> The numbers of a script are Lua's doubles, printed by \<open>cjson\<close> with 14 digits. The model
    compares them exactly, which is what the scripts do below \<open>10 ^ 14\<close>; the counters start at one
    and every change of the topology adds one.
  \<^item> \<open>net\<close> says what the network does to one round trip: the command runs and its reply arrives,
    the command is lost, or the command runs and its reply is lost. The last two are the same error
    to the caller.

  \<open>mem_redis\<close> is a server in memory; it interprets the locale, so the laws can be met.
\<close>

record Fence =
  fn_MapID :: string
  fn_Owner :: string
  fn_Epoch :: u64

record GlobalSession =
  gl_Username :: string
  gl_MapID :: string
  gl_NodeID :: string
  gl_Version :: int

record sessionMigration =
  sm_MapID :: string
  sm_OldNodeID :: string
  sm_NewNodeID :: string

record ('s, 'd) redis =
  GET :: "string \<Rightarrow> 's \<Rightarrow> 'd option"
  SET :: "string \<Rightarrow> 'd \<Rightarrow> 's \<Rightarrow> 's"
  INCRBY :: "string \<Rightarrow> int \<Rightarrow> 's \<Rightarrow> int \<times> 's"
  HGETALL :: "string \<Rightarrow> 's \<Rightarrow> (string, 'd) alist"
  HSET :: "string \<Rightarrow> string \<Rightarrow> 'd \<Rightarrow> 's \<Rightarrow> 's"
  HDEL :: "string \<Rightarrow> string \<Rightarrow> 's \<Rightarrow> 's"
  TGET :: "time \<Rightarrow> string \<Rightarrow> 's \<Rightarrow> 'd option"
  TSET :: "time \<Rightarrow> string \<Rightarrow> 'd \<Rightarrow> int \<Rightarrow> 's \<Rightarrow> 's"
  TDEL :: "string \<Rightarrow> 's \<Rightarrow> 's"
  SCAN :: "time \<Rightarrow> string \<Rightarrow> 's \<Rightarrow> string list"
  PUBLISH :: "string \<Rightarrow> string \<Rightarrow> 's \<Rightarrow> 's"
  unpack_max :: nat

record 'd json =
  enc_topology :: "Topology \<Rightarrow> 'd"
  dec_topology :: "'d \<Rightarrow> Topology option"
  enc_fence :: "Fence \<Rightarrow> 'd"
  dec_fence :: "'d \<Rightarrow> Fence option"
  enc_session :: "GlobalSession \<Rightarrow> 'd"
  dec_session :: "'d \<Rightarrow> GlobalSession option"
  enc_hot :: "HotSession \<Rightarrow> 'd"
  dec_hot :: "'d \<Rightarrow> HotSession option"
  enc_checkpoint :: "MapCheckpoint \<Rightarrow> 'd"
  dec_checkpoint :: "'d \<Rightarrow> MapCheckpoint option"
  enc_node :: "NodeRegistryInfo \<Rightarrow> 'd"
  dec_node :: "'d \<Rightarrow> NodeRegistryInfo option"
  enc_boss :: "BossState \<Rightarrow> 'd"
  dec_boss :: "'d \<Rightarrow> BossState option"
  enc_int :: "int \<Rightarrow> 'd"
  dec_int :: "'d \<Rightarrow> int option"
  enc_text :: "string \<Rightarrow> 'd"
  dec_text :: "'d \<Rightarrow> string option"

definition HGET :: "('s, 'd) redis \<Rightarrow> string \<Rightarrow> string \<Rightarrow> 's \<Rightarrow> 'd option" where
  "HGET R h f s = map_of (HGETALL R h s) f"

definition num_at :: "('s, 'd) redis \<Rightarrow> 'd json \<Rightarrow> string \<Rightarrow> 's \<Rightarrow> int" where
  "num_at R J k s = (case GET R k s of None \<Rightarrow> 0 | Some v \<Rightarrow> (case dec_int J v of None \<Rightarrow> 0 | Some n \<Rightarrow> n))"

section \<open>The network\<close>

datatype net = Delivered | ReqLost | ReplyLost

definition rpc :: "net \<Rightarrow> ('s \<Rightarrow> 'r \<times> 's) \<Rightarrow> 's \<Rightarrow> 'r option \<times> 's" where
  "rpc n cmd s =
     (case n of
        Delivered \<Rightarrow> (Some (fst (cmd s)), snd (cmd s))
      | ReqLost \<Rightarrow> (None, s)
      | ReplyLost \<Rightarrow> (None, snd (cmd s)))"

lemma rpc_cases: "snd (rpc n cmd s) = s \<or> snd (rpc n cmd s) = snd (cmd s)"
  by (cases n) (simp_all add: rpc_def)

lemma rpc_Some: "rpc n cmd s = (Some r, s') \<longleftrightarrow> n = Delivered \<and> cmd s = (r, s')"
  by (cases n; cases "cmd s") (auto simp: rpc_def)

section \<open>The contract\<close>

locale redis_server =
  fixes R :: "('s, 'd) redis" and J :: "'d json"
  assumes GET_SET: "GET R k (SET R k' v s) = (if k = k' then Some v else GET R k s)"
    and GET_HSET: "GET R k (HSET R h f v s) = GET R k s"
    and GET_HDEL: "GET R k (HDEL R h f s) = GET R k s"
    and GET_TSET: "GET R k (TSET R now k' v ttl s) = GET R k s"
    and GET_TDEL: "GET R k (TDEL R k' s) = GET R k s"
    and GET_PUBLISH: "GET R k (PUBLISH R ch e s) = GET R k s"
    and INCRBY_value: "fst (INCRBY R k d s) = num_at R J k s + d"
    and GET_INCRBY: "GET R k (snd (INCRBY R k' d s)) =
          (if k = k' then Some (enc_int J (num_at R J k' s + d)) else GET R k s)"
    and HGETALL_distinct: "distinct (keys (HGETALL R h s))"
    and HGET_SET: "HGET R h f (SET R k v s) = HGET R h f s"
    and HGET_INCRBY: "HGET R h f (snd (INCRBY R k d s)) = HGET R h f s"
    and HGET_HSET: "HGET R h f (HSET R h' f' v s) = (if h = h' \<and> f = f' then Some v else HGET R h f s)"
    and HGET_HDEL: "HGET R h f (HDEL R h' f' s) = (if h = h' \<and> f = f' then None else HGET R h f s)"
    and HGET_TSET: "HGET R h f (TSET R now k v ttl s) = HGET R h f s"
    and HGET_TDEL: "HGET R h f (TDEL R k s) = HGET R h f s"
    and HGET_PUBLISH: "HGET R h f (PUBLISH R ch e s) = HGET R h f s"
    and TGET_TSET: "0 < ttl \<Longrightarrow> TGET R now' k (TSET R now k' v ttl s) =
          (if k = k' then if now' < now + ttl then Some v else None else TGET R now' k s)"
    and TGET_TDEL: "TGET R now k (TDEL R k' s) = (if k = k' then None else TGET R now k s)"
    and TGET_SET: "TGET R now k (SET R k' v s) = TGET R now k s"
    and TGET_INCRBY: "TGET R now k (snd (INCRBY R k' d s)) = TGET R now k s"
    and TGET_HSET: "TGET R now k (HSET R h f v s) = TGET R now k s"
    and TGET_expired: "TGET R now k s = None \<Longrightarrow> now \<le> now' \<Longrightarrow> TGET R now' k s = None"
    and TGET_same: "TGET R now k s = Some v \<Longrightarrow> TGET R now' k s = Some v' \<Longrightarrow> v = v'"
    and SCAN_keys: "set (SCAN R now p s) = {k. take (length p) k = p \<and> TGET R now k s \<noteq> None}"
    and dec_enc_topology: "dec_topology J (enc_topology J t) = Some t"
    and dec_enc_fence: "dec_fence J (enc_fence J fc) = Some fc"
    and dec_enc_session: "dec_session J (enc_session J g) = Some g"
    and dec_enc_hot: "dec_hot J (enc_hot J hs) = Some hs"
    and dec_enc_checkpoint: "dec_checkpoint J (enc_checkpoint J c) = Some c"
    and dec_enc_node: "dec_node J (enc_node J n) = Some n"
    and dec_enc_boss: "dec_boss J (enc_boss J b) = Some b"
    and dec_enc_int: "dec_int J (enc_int J i) = Some i"
    and dec_enc_text: "dec_text J (enc_text J x) = Some x"
begin

lemmas get_rules = GET_SET GET_HSET GET_HDEL GET_TSET GET_TDEL GET_PUBLISH GET_INCRBY
lemmas hget_rules = HGET_SET HGET_INCRBY HGET_HSET HGET_HDEL HGET_TSET HGET_TDEL HGET_PUBLISH
lemmas tget_rules = TGET_TSET TGET_TDEL TGET_SET TGET_INCRBY TGET_HSET
lemmas dec_enc = dec_enc_topology dec_enc_fence dec_enc_session dec_enc_hot dec_enc_checkpoint
  dec_enc_node dec_enc_boss dec_enc_int dec_enc_text

lemma num_at_SET: "num_at R J k (SET R k' (enc_int J i) s) = (if k = k' then i else num_at R J k s)"
  by (simp add: num_at_def GET_SET dec_enc_int)

lemma num_at_INCRBY:
  "num_at R J k (snd (INCRBY R k' d s)) = (if k = k' then num_at R J k' s + d else num_at R J k s)"
  by (simp add: num_at_def GET_INCRBY dec_enc_int)

lemma in_HGETALL: "(f, v) \<in> set (HGETALL R h s) \<longleftrightarrow> HGET R h f s = Some v"
  using HGETALL_distinct by (simp add: HGET_def)

text \<open>A batch of writes to one hash, as \<open>HSET key f1 v1 f2 v2 \<dots>\<close> does them.\<close>

lemma GET_fold_HSET: "GET R k (fold (\<lambda>(f, v). HSET R h f v) us s) = GET R k s"
  by (induction us arbitrary: s) (auto simp: GET_HSET)

lemma TGET_fold_HSET: "TGET R now k (fold (\<lambda>(f, v). HSET R h f v) us s) = TGET R now k s"
  by (induction us arbitrary: s) (auto simp: TGET_HSET)

lemma HGET_fold_HSET:
  "distinct (keys us) \<Longrightarrow>
   HGET R h' f (fold (\<lambda>(f, v). HSET R h f v) us s) =
     (if h' = h then case map_of us f of None \<Rightarrow> HGET R h' f s | Some v \<Rightarrow> Some v else HGET R h' f s)"
proof (induction us arbitrary: s)
  case (Cons u us)
  obtain g v where u: "u = (g, v)" by fastforce
  have "map_of us g = None" using Cons.prems u by (simp add: map_of_eq_None_iff)
  with Cons u show ?case by (auto simp: HGET_HSET split: option.splits)
qed simp

text \<open>A batch of \<open>SET\<close>s on distinct keys.\<close>

lemma GET_fold_SET:
  "distinct (map key xs) \<Longrightarrow>
   GET R k (fold (\<lambda>x. SET R (key x) (val x)) xs s) =
     (case map_of (map (\<lambda>x. (key x, val x)) xs) k of None \<Rightarrow> GET R k s | Some v \<Rightarrow> Some v)"
proof (induction xs arbitrary: s)
  case (Cons x xs)
  have "map_of (map (\<lambda>x. (key x, val x)) xs) (key x) = None"
    using Cons.prems by (auto simp: map_of_eq_None_iff)
  with Cons show ?case by (auto simp: GET_SET split: option.splits)
qed simp

lemma HGET_fold_SET: "HGET R h f (fold (\<lambda>x. SET R (key x) (val x)) xs s) = HGET R h f s"
  by (induction xs arbitrary: s) (simp_all add: HGET_SET)

lemma TGET_fold_SET: "TGET R now k (fold (\<lambda>x. SET R (key x) (val x)) xs s) = TGET R now k s"
  by (induction xs arbitrary: s) (simp_all add: TGET_SET)

end

section \<open>A server in memory\<close>

datatype doc =
    DTopology Topology | DFence Fence | DSession GlobalSession | DHot HotSession
  | DCheckpoint MapCheckpoint | DNode NodeRegistryInfo | DBoss BossState | DInt int | DText string
  | Garbage

record mem =
  m_keys :: "(string, doc) alist"
  m_hashes :: "(string, (string, doc) alist) alist"
  m_timed :: "(string, doc \<times> time) alist"
  m_sent :: "(string \<times> string) list"

definition mem_json :: "doc json" where
  "mem_json =
     \<lparr>enc_topology = DTopology, dec_topology = (\<lambda>d. case d of DTopology x \<Rightarrow> Some x | _ \<Rightarrow> None),
      enc_fence = DFence, dec_fence = (\<lambda>d. case d of DFence x \<Rightarrow> Some x | _ \<Rightarrow> None),
      enc_session = DSession, dec_session = (\<lambda>d. case d of DSession x \<Rightarrow> Some x | _ \<Rightarrow> None),
      enc_hot = DHot, dec_hot = (\<lambda>d. case d of DHot x \<Rightarrow> Some x | _ \<Rightarrow> None),
      enc_checkpoint = DCheckpoint, dec_checkpoint = (\<lambda>d. case d of DCheckpoint x \<Rightarrow> Some x | _ \<Rightarrow> None),
      enc_node = DNode, dec_node = (\<lambda>d. case d of DNode x \<Rightarrow> Some x | _ \<Rightarrow> None),
      enc_boss = DBoss, dec_boss = (\<lambda>d. case d of DBoss x \<Rightarrow> Some x | _ \<Rightarrow> None),
      enc_int = DInt, dec_int = (\<lambda>d. case d of DInt x \<Rightarrow> Some x | _ \<Rightarrow> None),
      enc_text = DText, dec_text = (\<lambda>d. case d of DText x \<Rightarrow> Some x | _ \<Rightarrow> None)\<rparr>"

definition mem_num :: "string \<Rightarrow> mem \<Rightarrow> int" where
  "mem_num k m = (case map_of (m_keys m) k of Some (DInt n) \<Rightarrow> n | _ \<Rightarrow> 0)"

definition mem_hash :: "string \<Rightarrow> mem \<Rightarrow> (string, doc) alist" where
  "mem_hash h m = AList.clearjunk (get_or [] (m_hashes m) h)"

definition mem_tget :: "time \<Rightarrow> string \<Rightarrow> mem \<Rightarrow> doc option" where
  "mem_tget now k m = (case map_of (m_timed m) k of Some (v, e) \<Rightarrow> if now < e then Some v else None | None \<Rightarrow> None)"

definition mem_redis :: "nat \<Rightarrow> (mem, doc) redis" where
  "mem_redis limit =
     \<lparr>GET = (\<lambda>k m. map_of (m_keys m) k),
      SET = (\<lambda>k v m. m\<lparr>m_keys := AList.update k v (m_keys m)\<rparr>),
      INCRBY = (\<lambda>k d m. (mem_num k m + d, m\<lparr>m_keys := AList.update k (DInt (mem_num k m + d)) (m_keys m)\<rparr>)),
      HGETALL = mem_hash,
      HSET = (\<lambda>h f v m. m\<lparr>m_hashes := AList.update h (AList.update f v (mem_hash h m)) (m_hashes m)\<rparr>),
      HDEL = (\<lambda>h f m. m\<lparr>m_hashes := AList.update h (AList.delete f (mem_hash h m)) (m_hashes m)\<rparr>),
      TGET = mem_tget,
      TSET = (\<lambda>now k v ttl m. m\<lparr>m_timed := AList.update k (v, now + ttl) (m_timed m)\<rparr>),
      TDEL = (\<lambda>k m. m\<lparr>m_timed := AList.delete k (m_timed m)\<rparr>),
      SCAN = (\<lambda>now p m. filter (\<lambda>k. take (length p) k = p \<and> mem_tget now k m \<noteq> None) (remdups (keys (m_timed m)))),
      PUBLISH = (\<lambda>ch e m. m\<lparr>m_sent := m_sent m @ [(ch, e)]\<rparr>),
      unpack_max = limit\<rparr>"

definition mem_empty :: mem where
  "mem_empty = \<lparr>m_keys = [], m_hashes = [], m_timed = [], m_sent = []\<rparr>"

lemmas mem_defs = mem_redis_def mem_json_def

lemma mem_hash_simps:
  "mem_hash h (m\<lparr>m_keys := ks\<rparr>) = mem_hash h m" "mem_hash h (m\<lparr>m_timed := ts\<rparr>) = mem_hash h m"
  "mem_hash h (m\<lparr>m_sent := es\<rparr>) = mem_hash h m"
  "map_of (mem_hash h (m\<lparr>m_hashes := AList.update h' al (m_hashes m)\<rparr>)) f =
     (if h = h' then map_of al f else map_of (mem_hash h m) f)"
  by (simp_all add: mem_hash_def get_or_def AList.map_of_clearjunk)

lemma distinct_mem_hash: "distinct (keys (mem_hash h m))"
  by (simp add: mem_hash_def)

lemma mem_tget_simps:
  "mem_tget now k (m\<lparr>m_keys := ks\<rparr>) = mem_tget now k m" "mem_tget now k (m\<lparr>m_hashes := hs\<rparr>) = mem_tget now k m"
  by (simp_all add: mem_tget_def)

interpretation mem: redis_server "mem_redis limit" mem_json for limit
proof
  show "set (SCAN (mem_redis limit) now p s) =
      {k. take (length p) k = p \<and> TGET (mem_redis limit) now k s \<noteq> None}" for now p s
    by (auto simp: mem_redis_def mem_tget_def split: option.splits dest: map_of_SomeD intro: rev_image_eqI)
  show "TGET (mem_redis limit) now k s = None \<Longrightarrow> now \<le> now' \<Longrightarrow> TGET (mem_redis limit) now' k s = None" for now now' k s
    by (auto simp: mem_redis_def mem_tget_def split: option.splits if_splits)
  show "TGET (mem_redis limit) now k s = Some v \<Longrightarrow> TGET (mem_redis limit) now' k s = Some v' \<Longrightarrow> v = v'" for now now' k s v v'
    by (auto simp: mem_redis_def mem_tget_def split: option.splits if_splits)
qed (auto simp: mem_defs HGET_def num_at_def mem_num_def mem_hash_simps mem_tget_simps mem_tget_def
    distinct_mem_hash split: option.splits doc.splits)

end
