(* ===== verification/Store.thy ===== *)
theory Store
  imports Redis
begin

text \<open>
  The Redis half of \<open>storage/store.go\<close>: one definition per method of \<open>Store\<close>. The Lua scripts are
  part of the source and are translated statement by statement (\<open>*_script\<close>); Redis runs a script
  without interleaving, so a script is one command of the network. A method takes one \<open>net\<close> per
  round trip and returns its result, errors included, with the server's state.
\<close>

datatype store_error =
    ErrTopologyVersionConflict | ErrTopologyCorrupt | ErrMapFenceRejected | ErrGlobalSessionCorrupt
  | ErrMapEpochInvariant | ErrLeaderTermInvariant | ErrBossNotInitialized
  | ErrRedis | ErrScript | ErrArgument | ErrInvalidTopology topology_error | ErrVersionStep | ErrDecode | ErrPanic

section \<open>Keys\<close>

definition TopologyRedisKey :: string where "TopologyRedisKey = ''battle:topology''"
definition TopologyEventChannel :: string where "TopologyEventChannel = ''events:topology''"
definition MapFenceRedisKeyPrefix :: string where "MapFenceRedisKeyPrefix = ''battle:map:fence:''"
definition CoordinatorLeaderTermRedisKey :: string where
  "CoordinatorLeaderTermRedisKey = ''battle:coordinator:leader:term''"
definition registry_prefix :: string where "registry_prefix = ''battle:node:registry:''"
definition boss_hp_key :: string where "boss_hp_key = ''boss:global:hp''"
definition boss_state_key :: string where "boss_state_key = ''boss:global:state''"
definition boss_lock_key :: string where "boss_lock_key = ''boss:global:respawn_lock''"

definition MapFenceRedisKey :: "string \<Rightarrow> string" where
  "MapFenceRedisKey mapID = MapFenceRedisKeyPrefix @ mapID"

lemmas key_defs = TopologyRedisKey_def MapFenceRedisKeyPrefix_def CoordinatorLeaderTermRedisKey_def
  registry_prefix_def boss_hp_key_def boss_state_key_def boss_lock_key_def MapFenceRedisKey_def

lemma MapFenceRedisKey_inject [simp]: "MapFenceRedisKey m = MapFenceRedisKey m' \<longleftrightarrow> m = m'"
  by (simp add: MapFenceRedisKey_def)

lemma keys_apart [simp]:
  "TopologyRedisKey \<noteq> MapFenceRedisKey m" "MapFenceRedisKey m \<noteq> TopologyRedisKey"
  "CoordinatorLeaderTermRedisKey \<noteq> MapFenceRedisKey m" "MapFenceRedisKey m \<noteq> CoordinatorLeaderTermRedisKey"
  "CoordinatorLeaderTermRedisKey \<noteq> TopologyRedisKey" "TopologyRedisKey \<noteq> CoordinatorLeaderTermRedisKey"
  "boss_hp_key \<noteq> TopologyRedisKey" "TopologyRedisKey \<noteq> boss_hp_key"
  "boss_state_key \<noteq> TopologyRedisKey" "TopologyRedisKey \<noteq> boss_state_key"
  "boss_hp_key \<noteq> MapFenceRedisKey m" "MapFenceRedisKey m \<noteq> boss_hp_key"
  "boss_state_key \<noteq> MapFenceRedisKey m" "MapFenceRedisKey m \<noteq> boss_state_key"
  "boss_hp_key \<noteq> CoordinatorLeaderTermRedisKey" "CoordinatorLeaderTermRedisKey \<noteq> boss_hp_key"
  "boss_state_key \<noteq> CoordinatorLeaderTermRedisKey" "CoordinatorLeaderTermRedisKey \<noteq> boss_state_key"
  "boss_hp_key \<noteq> boss_state_key" "boss_state_key \<noteq> boss_hp_key"
  by (simp_all add: key_defs)

section \<open>Hot sessions and unfenced checkpoints\<close>

definition SaveHotSession ::
    "('s, 'd) redis \<Rightarrow> 'd json \<Rightarrow> net \<Rightarrow> HotSession \<Rightarrow> 's \<Rightarrow> store_error option \<times> 's" where
  "SaveHotSession R J n session s =
     (case rpc n (\<lambda>s. ((), HSET R ''hot_sessions'' (h_Username session) (enc_hot J session) s)) s of
        (None, s) \<Rightarrow> (Some ErrRedis, s) | (Some _, s) \<Rightarrow> (None, s))"

definition DeleteHotSession :: "('s, 'd) redis \<Rightarrow> net \<Rightarrow> string \<Rightarrow> 's \<Rightarrow> store_error option \<times> 's" where
  "DeleteHotSession R n username s =
     (case rpc n (\<lambda>s. ((), HDEL R ''hot_sessions'' username s)) s of
        (None, s) \<Rightarrow> (Some ErrRedis, s) | (Some _, s) \<Rightarrow> (None, s))"

definition SaveCheckpoint ::
    "('s, 'd) redis \<Rightarrow> 'd json \<Rightarrow> net \<Rightarrow> MapCheckpoint \<Rightarrow> 's \<Rightarrow> store_error option \<times> 's" where
  "SaveCheckpoint R J n cp s =
     (case rpc n (\<lambda>s. ((), HSET R ''checkpoints'' (c_MapID cp) (enc_checkpoint J cp) s)) s of
        (None, s) \<Rightarrow> (Some ErrRedis, s) | (Some _, s) \<Rightarrow> (None, s))"

section \<open>Fenced checkpoints\<close>

definition saveCheckpointIfOwner_script ::
    "('s, 'd) redis \<Rightarrow> 'd json \<Rightarrow> string \<Rightarrow> string \<Rightarrow> u64 \<Rightarrow> string \<Rightarrow> 'd \<Rightarrow> 's \<Rightarrow> int \<times> 's" where
  "saveCheckpointIfOwner_script R J fenceKey nodeID epoch mapID data s =
     (case GET R fenceKey s of
        None \<Rightarrow> (0, s)
      | Some fence \<Rightarrow>
          (case dec_fence J fence of
             None \<Rightarrow> (-1, s)
           | Some decoded \<Rightarrow>
               if fn_Owner decoded \<noteq> nodeID \<or> fn_Epoch decoded \<noteq> epoch then (0, s)
               else (1, HSET R ''checkpoints'' mapID data s)))"

definition SaveCheckpointIfOwner ::
    "('s, 'd) redis \<Rightarrow> 'd json \<Rightarrow> net \<Rightarrow> MapCheckpoint \<Rightarrow> string \<Rightarrow> u64 \<Rightarrow> 's \<Rightarrow> store_error option \<times> 's" where
  "SaveCheckpointIfOwner R J n cp nodeID epoch s =
     (if c_MapID cp = [] then (Some ErrArgument, s)
      else if nodeID = [] then (Some ErrArgument, s)
      else if epoch = 0 then (Some ErrArgument, s)
      else if c_NodeID cp \<noteq> nodeID \<or> c_MapEpoch cp \<noteq> epoch then (Some ErrArgument, s)
      else case rpc n (saveCheckpointIfOwner_script R J (MapFenceRedisKey (c_MapID cp)) nodeID epoch
                         (c_MapID cp) (enc_checkpoint J cp)) s of
             (None, s) \<Rightarrow> (Some ErrRedis, s)
           | (Some result, s) \<Rightarrow> (if result \<noteq> 1 then Some ErrMapFenceRejected else None, s))"

definition RequireMapFence ::
    "('s, 'd) redis \<Rightarrow> 'd json \<Rightarrow> net \<Rightarrow> string \<Rightarrow> string \<Rightarrow> u64 \<Rightarrow> 's \<Rightarrow> store_error option" where
  "RequireMapFence R J n mapID nodeID epoch s =
     (if mapID = [] \<or> nodeID = [] \<or> epoch = 0 then Some ErrMapFenceRejected
      else case fst (rpc n (\<lambda>s. (GET R (MapFenceRedisKey mapID) s, s)) s) of
             None \<Rightarrow> Some ErrMapFenceRejected
           | Some None \<Rightarrow> Some ErrMapFenceRejected
           | Some (Some data) \<Rightarrow>
               (case dec_fence J data of
                  None \<Rightarrow> Some ErrMapFenceRejected
                | Some fence \<Rightarrow>
                    if fn_Owner fence \<noteq> nodeID \<or> fn_Epoch fence \<noteq> epoch then Some ErrMapFenceRejected else None))"

definition LoadCheckpoint ::
    "('s, 'd) redis \<Rightarrow> 'd json \<Rightarrow> net \<Rightarrow> string \<Rightarrow> 's \<Rightarrow> MapCheckpoint option" where
  "LoadCheckpoint R J n mapID s =
     (case fst (rpc n (\<lambda>s. (HGET R ''checkpoints'' mapID s, s)) s) of
        Some (Some data) \<Rightarrow> dec_checkpoint J data
      | _ \<Rightarrow> None)"

section \<open>The topology\<close>

definition LoadTopology ::
    "('s, 'd) redis \<Rightarrow> 'd json \<Rightarrow> net \<Rightarrow> 's \<Rightarrow> store_error + Topology option" where
  "LoadTopology R J n s =
     (case fst (rpc n (\<lambda>s. (GET R TopologyRedisKey s, s)) s) of
        None \<Rightarrow> Inl ErrRedis
      | Some None \<Rightarrow> Inr None
      | Some (Some data) \<Rightarrow>
          (case dec_topology J data of
             None \<Rightarrow> Inl ErrTopologyCorrupt
           | Some topology \<Rightarrow>
               (case Validate None topology of
                  Some _ \<Rightarrow> Inl ErrTopologyCorrupt
                | None \<Rightarrow> Inr (Some topology))))"

text \<open>
  The check of the epochs in the script: a map keeps its epoch with its owner and moves to the
  next one when the owner changes, no map disappears, and a new map starts at one. All failures
  return \<open>-3\<close>, so the order in which \<open>pairs\<close> visits the tables does not matter.
\<close>

definition epoch_step_ok :: "Topology \<Rightarrow> Topology \<Rightarrow> string \<times> u64 \<Rightarrow> bool" where
  "epoch_step_ok cur nxt = (\<lambda>(mapID, currentEpoch).
     (case map_of (tp_MapEpochs nxt) mapID of
        None \<Rightarrow> False
      | Some nextEpoch \<Rightarrow>
          if get_or [] (tp_Owners cur) mapID \<noteq> get_or [] (tp_Owners nxt) mapID
          then unat nextEpoch = unat currentEpoch + 1
          else unat nextEpoch = unat currentEpoch))"

definition epochs_ok :: "Topology \<Rightarrow> Topology \<Rightarrow> bool" where
  "epochs_ok cur nxt \<longleftrightarrow>
     list_all (epoch_step_ok cur nxt) (tp_MapEpochs cur) \<and>
     list_all (\<lambda>(mapID, nextEpoch). has_key (tp_MapEpochs cur) mapID \<or> unat nextEpoch = 1) (tp_MapEpochs nxt)"

definition moves_session :: "sessionMigration \<Rightarrow> GlobalSession \<Rightarrow> bool" where
  "moves_session mig g \<longleftrightarrow> gl_MapID g = sm_MapID mig \<and> gl_NodeID g = sm_OldNodeID mig"

definition moved_session :: "sessionMigration \<Rightarrow> GlobalSession \<Rightarrow> GlobalSession" where
  "moved_session mig g = g\<lparr>gl_NodeID := sm_NewNodeID mig, gl_Version := gl_Version g + 1\<rparr>"

fun session_updates ::
    "'d json \<Rightarrow> sessionMigration \<Rightarrow> (string, 'd) alist \<Rightarrow> (string, 'd) alist option" where
  "session_updates J mig [] = Some []"
| "session_updates J mig ((user, raw) # rest) =
     (case dec_session J raw of
        None \<Rightarrow> None
      | Some session \<Rightarrow>
          (case session_updates J mig rest of
             None \<Rightarrow> None
           | Some updates \<Rightarrow>
               Some (if moves_session mig session
                     then (user, enc_session J (moved_session mig session)) # updates else updates)))"

text \<open>
  The fences a commit writes: one per map of \<open>Owners\<close>, not of \<open>MapEpochs\<close>, in the order of the
  map ids. The epoch of a map without one is Go's zero value.
\<close>

definition fence_args :: "Topology \<Rightarrow> Fence list" where
  "fence_args t = map (\<lambda>mapID. \<lparr>fn_MapID = mapID, fn_Owner = get_or [] (tp_Owners t) mapID,
                                fn_Epoch = get_or 0 (tp_MapEpochs t) mapID\<rparr>) (sort (remdups (keys (tp_Owners t))))"

definition write_fences :: "('s, 'd) redis \<Rightarrow> 'd json \<Rightarrow> Fence list \<Rightarrow> 's \<Rightarrow> 's" where
  "write_fences R J fences s = fold (\<lambda>f. SET R (MapFenceRedisKey (fn_MapID f)) (enc_fence J f)) fences s"

text \<open>
  The writing part of the script. The last command can fail after the others have run: Lua's
  \<open>unpack\<close> has a limit, and a run-time error does not undo the commands before it. \<open>None\<close> is that
  error.
\<close>

definition commit_script ::
    "('s, 'd) redis \<Rightarrow> 'd json \<Rightarrow> 'd \<Rightarrow> Fence list \<Rightarrow> (string, 'd) alist \<Rightarrow> 's \<Rightarrow> int option \<times> 's" where
  "commit_script R J payload fences updates s =
     (let s = SET R TopologyRedisKey payload s;
          s = write_fences R J fences s
      in if updates = [] then (Some 1, s)
         else if 2 * length updates > unpack_max R then (None, s)
         else (Some 1, fold (\<lambda>(f, v). HSET R ''global_sessions'' f v) updates s))"

definition migrate_then_commit ::
    "('s, 'd) redis \<Rightarrow> 'd json \<Rightarrow> 'd \<Rightarrow> sessionMigration option \<Rightarrow> Fence list \<Rightarrow> 's \<Rightarrow> int option \<times> 's" where
  "migrate_then_commit R J payload migration fences s =
     (case migration of
        None \<Rightarrow> commit_script R J payload fences [] s
      | Some mig \<Rightarrow>
          (case session_updates J mig (HGETALL R ''global_sessions'' s) of
             None \<Rightarrow> (Some (-2), s)
           | Some updates \<Rightarrow> commit_script R J payload fences updates s))"

definition compareAndSetTopology_script ::
    "('s, 'd) redis \<Rightarrow> 'd json \<Rightarrow> u64 \<Rightarrow> 'd \<Rightarrow> sessionMigration option \<Rightarrow> u64 option \<Rightarrow> Fence list
     \<Rightarrow> 's \<Rightarrow> int option \<times> 's" where
  "compareAndSetTopology_script R J expectedVersion payload migration leaderTerm fences s =
     (case dec_topology J payload of
        None \<Rightarrow> (Some (-1), s)
      | Some nextTopology \<Rightarrow>
          if (case leaderTerm of
                None \<Rightarrow> False
              | Some requestedTerm \<Rightarrow>
                  let durableTerm = num_at R J CoordinatorLeaderTermRedisKey s
                  in durableTerm = 0 \<or> durableTerm \<noteq> int (unat requestedTerm) \<or>
                     int (unat (tp_LeaderTerm nextTopology)) \<noteq> durableTerm)
          then (Some (-4), s)
          else case GET R TopologyRedisKey s of
                 None \<Rightarrow>
                   if expectedVersion \<noteq> 0 then (Some 0, s)
                   else migrate_then_commit R J payload migration fences s
               | Some current \<Rightarrow>
                   (case dec_topology J current of
                      None \<Rightarrow> (Some (-1), s)
                    | Some decoded \<Rightarrow>
                        if unat (tp_Version decoded) < 1 then (Some (-1), s)
                        else if tp_Version decoded \<noteq> expectedVersion then (Some 0, s)
                        else if unat (tp_LeaderTerm nextTopology) < unat (tp_LeaderTerm decoded) then (Some (-4), s)
                        else if \<not> epochs_ok decoded nextTopology then (Some (-3), s)
                        else migrate_then_commit R J payload migration fences s))"

definition cas_result :: "int \<Rightarrow> store_error option" where
  "cas_result r =
     (if r = 1 then None
      else if r = -1 then Some ErrTopologyCorrupt
      else if r = -2 then Some ErrGlobalSessionCorrupt
      else if r = -3 then Some ErrMapEpochInvariant
      else if r = -4 then Some ErrLeaderTermInvariant
      else Some ErrTopologyVersionConflict)"

definition compareAndSaveTopology ::
    "('s, 'd) redis \<Rightarrow> 'd json \<Rightarrow> net \<Rightarrow> u64 \<Rightarrow> Topology \<Rightarrow> sessionMigration option \<Rightarrow> u64
     \<Rightarrow> 's \<Rightarrow> store_error option \<times> 's" where
  "compareAndSaveTopology R J n expectedVersion nxt migration leaderTerm s =
     (case prepareTopology nxt of
        Inl e \<Rightarrow> (Some (ErrInvalidTopology e), s)
      | Inr prepared \<Rightarrow>
          if expectedVersion = 0 \<and> tp_Version prepared \<noteq> 1 then (Some ErrVersionStep, s)
          else if expectedVersion \<noteq> 0 \<and> tp_Version prepared \<noteq> expectedVersion + 1 then (Some ErrVersionStep, s)
          else case rpc n (compareAndSetTopology_script R J expectedVersion (enc_topology J prepared) migration
                             (if leaderTerm = 0 then None else Some leaderTerm) (fence_args prepared)) s of
                 (None, s) \<Rightarrow> (Some ErrRedis, s)
               | (Some None, s) \<Rightarrow> (Some ErrScript, s)
               | (Some (Some result), s) \<Rightarrow> (cas_result result, s))"

definition CompareAndSaveTopology ::
    "('s, 'd) redis \<Rightarrow> 'd json \<Rightarrow> net \<Rightarrow> u64 \<Rightarrow> Topology \<Rightarrow> 's \<Rightarrow> store_error option \<times> 's" where
  "CompareAndSaveTopology R J n expectedVersion nxt s = compareAndSaveTopology R J n expectedVersion nxt None 0 s"

definition CompareAndSaveTopologyForLeader ::
    "('s, 'd) redis \<Rightarrow> 'd json \<Rightarrow> net \<Rightarrow> u64 \<Rightarrow> Topology \<Rightarrow> u64 \<Rightarrow> 's \<Rightarrow> store_error option \<times> 's" where
  "CompareAndSaveTopologyForLeader R J n expectedVersion nxt term s =
     (if term = 0 \<or> tp_LeaderTerm nxt \<noteq> term then (Some ErrLeaderTermInvariant, s)
      else compareAndSaveTopology R J n expectedVersion nxt None term s)"

definition CompareAndSaveTopologyAndMigrateSessions ::
    "('s, 'd) redis \<Rightarrow> 'd json \<Rightarrow> net \<Rightarrow> u64 \<Rightarrow> Topology \<Rightarrow> string \<Rightarrow> string \<Rightarrow> string
     \<Rightarrow> 's \<Rightarrow> store_error option \<times> 's" where
  "CompareAndSaveTopologyAndMigrateSessions R J n expectedVersion nxt mapID oldNodeID newNodeID s =
     (if mapID = [] \<or> oldNodeID = [] \<or> newNodeID = [] then (Some ErrArgument, s)
      else compareAndSaveTopology R J n expectedVersion nxt
             (Some \<lparr>sm_MapID = mapID, sm_OldNodeID = oldNodeID, sm_NewNodeID = newNodeID\<rparr>) 0 s)"

definition CompareAndSaveTopologyAndMigrateSessionsForLeader ::
    "('s, 'd) redis \<Rightarrow> 'd json \<Rightarrow> net \<Rightarrow> u64 \<Rightarrow> Topology \<Rightarrow> u64 \<Rightarrow> string \<Rightarrow> string \<Rightarrow> string
     \<Rightarrow> 's \<Rightarrow> store_error option \<times> 's" where
  "CompareAndSaveTopologyAndMigrateSessionsForLeader R J n expectedVersion nxt term mapID oldNodeID newNodeID s =
     (if term = 0 \<or> tp_LeaderTerm nxt \<noteq> term then (Some ErrLeaderTermInvariant, s)
      else if mapID = [] \<or> oldNodeID = [] \<or> newNodeID = [] then (Some ErrArgument, s)
      else compareAndSaveTopology R J n expectedVersion nxt
             (Some \<lparr>sm_MapID = mapID, sm_OldNodeID = oldNodeID, sm_NewNodeID = newNodeID\<rparr>) term s)"

definition SaveTopology ::
    "('s, 'd) redis \<Rightarrow> 'd json \<Rightarrow> net \<Rightarrow> net \<Rightarrow> Topology \<Rightarrow> 's \<Rightarrow> store_error option \<times> 's" where
  "SaveTopology R J n1 n2 topology s =
     (case LoadTopology R J n1 s of
        Inl e \<Rightarrow> (Some e, s)
      | Inr None \<Rightarrow> CompareAndSaveTopology R J n2 0 topology s
      | Inr (Some current) \<Rightarrow> CompareAndSaveTopology R J n2 (tp_Version current) topology s)"

definition PublishTopologyChanged ::
    "('s, 'd) redis \<Rightarrow> net \<Rightarrow> u64 \<Rightarrow> 's \<Rightarrow> store_error option \<times> 's" where
  "PublishTopologyChanged R n version s =
     (if version = 0 then (Some ErrArgument, s)
      else case rpc n (\<lambda>s. ((), PUBLISH R TopologyEventChannel (itoa (unat version)) s)) s of
             (None, s) \<Rightarrow> (Some ErrRedis, s) | (Some _, s) \<Rightarrow> (None, s))"

section \<open>The registry\<close>

definition RegisterNode ::
    "('s, 'd) redis \<Rightarrow> 'd json \<Rightarrow> net \<Rightarrow> time \<Rightarrow> NodeRegistryInfo \<Rightarrow> int \<Rightarrow> 's \<Rightarrow> store_error option \<times> 's" where
  "RegisterNode R J n now info ttl s =
     (case rpc n (\<lambda>s. ((), TSET R now (registry_prefix @ nr_ID info) (enc_node J info) ttl s)) s of
        (None, s) \<Rightarrow> (Some ErrRedis, s) | (Some _, s) \<Rightarrow> (None, s))"

text \<open>
  The keys of a scan, in the order and with the repetitions of the scan; \<open>lost k\<close> says that the
  read of key \<open>k\<close> fails, which skips it like a key that has expired in between.
\<close>

definition GetActiveNodes ::
    "('s, 'd) redis \<Rightarrow> 'd json \<Rightarrow> net \<Rightarrow> (string \<Rightarrow> bool) \<Rightarrow> time \<Rightarrow> 's
     \<Rightarrow> NodeRegistryInfo list \<times> store_error option" where
  "GetActiveNodes R J n lost now s =
     (case fst (rpc n (\<lambda>s. (SCAN R now registry_prefix s, s)) s) of
        None \<Rightarrow> ([], Some ErrRedis)
      | Some ks \<Rightarrow>
          (List.map_filter (\<lambda>k. if lost k then None
                                else case TGET R now k s of None \<Rightarrow> None | Some d \<Rightarrow> dec_node J d) ks, None))"

section \<open>Global sessions\<close>

definition SaveGlobalSession ::
    "('s, 'd) redis \<Rightarrow> 'd json \<Rightarrow> net \<Rightarrow> GlobalSession \<Rightarrow> 's \<Rightarrow> store_error option \<times> 's" where
  "SaveGlobalSession R J n session s =
     (case rpc n (\<lambda>s. ((), HSET R ''global_sessions'' (gl_Username session) (enc_session J session) s)) s of
        (None, s) \<Rightarrow> (Some ErrRedis, s) | (Some _, s) \<Rightarrow> (None, s))"

definition LoadGlobalSession ::
    "('s, 'd) redis \<Rightarrow> 'd json \<Rightarrow> net \<Rightarrow> string \<Rightarrow> 's \<Rightarrow> GlobalSession option" where
  "LoadGlobalSession R J n username s =
     (case fst (rpc n (\<lambda>s. (HGET R ''global_sessions'' username s, s)) s) of
        Some (Some data) \<Rightarrow> dec_session J data
      | _ \<Rightarrow> None)"

definition DeleteGlobalSession :: "('s, 'd) redis \<Rightarrow> net \<Rightarrow> string \<Rightarrow> 's \<Rightarrow> store_error option \<times> 's" where
  "DeleteGlobalSession R n username s =
     (case rpc n (\<lambda>s. ((), HDEL R ''global_sessions'' username s)) s of
        (None, s) \<Rightarrow> (Some ErrRedis, s) | (Some _, s) \<Rightarrow> (None, s))"

definition GetAllGlobalSessions ::
    "('s, 'd) redis \<Rightarrow> 'd json \<Rightarrow> net \<Rightarrow> 's \<Rightarrow> store_error + GlobalSession list" where
  "GetAllGlobalSessions R J n s =
     (case fst (rpc n (\<lambda>s. (HGETALL R ''global_sessions'' s, s)) s) of
        None \<Rightarrow> Inl ErrRedis
      | Some result \<Rightarrow> Inr (List.map_filter (\<lambda>(_, raw). dec_session J raw) result))"

definition PublishEvent :: "('s, 'd) redis \<Rightarrow> net \<Rightarrow> string \<Rightarrow> string \<Rightarrow> 's \<Rightarrow> store_error option \<times> 's" where
  "PublishEvent R n channel event s =
     (case rpc n (\<lambda>s. ((), PUBLISH R channel event s)) s of
        (None, s) \<Rightarrow> (Some ErrRedis, s) | (Some _, s) \<Rightarrow> (None, s))"

section \<open>The global boss\<close>

definition to_int32 :: "int \<Rightarrow> int" where
  "to_int32 x = sint (word_of_int x :: i32)"

definition LoadGlobalBoss ::
    "('s, 'd) redis \<Rightarrow> 'd json \<Rightarrow> net \<Rightarrow> net \<Rightarrow> 's \<Rightarrow> store_error + BossState \<times> int" where
  "LoadGlobalBoss R J n1 n2 s =
     (case fst (rpc n1 (\<lambda>s. (GET R boss_hp_key s, s)) s) of
        None \<Rightarrow> Inl ErrRedis
      | Some None \<Rightarrow> Inl ErrBossNotInitialized
      | Some (Some hpStr) \<Rightarrow>
          (case dec_int J hpStr of
             None \<Rightarrow> Inl ErrDecode
           | Some hp \<Rightarrow>
               if hp < - (2 ^ 31) \<or> hp \<ge> 2 ^ 31 then Inl ErrDecode
               else case fst (rpc n2 (\<lambda>s. (GET R boss_state_key s, s)) s) of
                      Some (Some stateJson) \<Rightarrow>
                        (case dec_boss J stateJson of None \<Rightarrow> Inl ErrDecode | Some state \<Rightarrow> Inr (state, hp))
                    | _ \<Rightarrow> Inl ErrRedis))"

definition InitGlobalBoss ::
    "('s, 'd) redis \<Rightarrow> 'd json \<Rightarrow> net \<Rightarrow> int \<Rightarrow> BossState \<Rightarrow> 's \<Rightarrow> store_error option \<times> 's" where
  "InitGlobalBoss R J n hp state s =
     (case rpc n (\<lambda>s. ((), SET R boss_state_key (enc_boss J state) (SET R boss_hp_key (enc_int J hp) s))) s of
        (None, s) \<Rightarrow> (Some ErrRedis, s) | (Some _, s) \<Rightarrow> (None, s))"

definition SaveGlobalBoss ::
    "('s, 'd) redis \<Rightarrow> 'd json \<Rightarrow> net \<Rightarrow> BossState \<Rightarrow> 's \<Rightarrow> store_error option \<times> 's" where
  "SaveGlobalBoss R J n state s =
     (case rpc n (\<lambda>s. ((), SET R boss_state_key (enc_boss J state) s)) s of
        (None, s) \<Rightarrow> (Some ErrRedis, s) | (Some _, s) \<Rightarrow> (None, s))"

text \<open>
  The reply of the script: \<open>BossDown\<close> carries the stored state, which is nil when there is none;
  \<open>BossScriptError\<close> is Lua comparing nil with a number when the stored points are not a number.
\<close>

datatype 'd boss_reply = BossDown "'d option" | BossHurt int bool | BossScriptError

definition attackBoss_script ::
    "('s, 'd) redis \<Rightarrow> 'd json \<Rightarrow> int \<Rightarrow> 's \<Rightarrow> 'd boss_reply \<times> 's" where
  "attackBoss_script R J damage s =
     (case (case GET R boss_hp_key s of None \<Rightarrow> Some 0 | Some v \<Rightarrow> dec_int J v) of
        None \<Rightarrow> (BossScriptError, s)
      | Some hp \<Rightarrow>
          if hp \<le> 0 then (BossDown (GET R boss_state_key s), s)
          else
            let (newHp, s) = INCRBY R boss_hp_key (- damage) s
            in if newHp \<le> 0 \<and> newHp + damage > 0
               then (BossHurt 0 True, SET R boss_hp_key (enc_int J 0) s)
               else (BossHurt newHp False, s))"

definition AtomicAttackBoss ::
    "('s, 'd) redis \<Rightarrow> 'd json \<Rightarrow> net \<Rightarrow> string \<Rightarrow> int \<Rightarrow> 's \<Rightarrow> (store_error + int \<times> bool \<times> BossState) \<times> 's" where
  "AtomicAttackBoss R J n username damage s =
     (case rpc n (attackBoss_script R J damage) s of
        (None, s) \<Rightarrow> (Inl ErrRedis, s)
      | (Some BossScriptError, s) \<Rightarrow> (Inl ErrScript, s)
      | (Some (BossDown None), s) \<Rightarrow> (Inl ErrPanic, s)
      | (Some (BossDown (Some stateJson)), s) \<Rightarrow>
          (Inr (-1, False, case dec_boss J stateJson of None \<Rightarrow> zero_BossState | Some st \<Rightarrow> st), s)
      | (Some (BossHurt newHp isKiller), s) \<Rightarrow> (Inr (to_int32 newHp, isKiller, zero_BossState), s))"

definition TryLockBossRespawn :: "('s, 'd) redis \<Rightarrow> 'd json \<Rightarrow> net \<Rightarrow> time \<Rightarrow> 's \<Rightarrow> bool \<times> 's" where
  "TryLockBossRespawn R J n now s =
     (case rpc n (\<lambda>s. if TGET R now boss_lock_key s = None
                      then (True, TSET R now boss_lock_key (enc_text J ''1'') (10 * second) s)
                      else (False, s)) s of
        (None, s) \<Rightarrow> (False, s) | (Some ok, s) \<Rightarrow> (ok, s))"

end
