(* ===== verification/Fencing.thy ===== *)
theory Fencing
  imports Store
begin

text \<open>
  Ownership fencing. The compare-and-set of the topology is the only operation that writes the
  topology and the fences; \<open>store_step\<close> is any write the \<open>Store\<close> and the elector can issue, with any
  arguments and any fate on the network. \<open>store_inv\<close> ties the fences to the topology, every step
  keeps it, and along steps the fence of a map only moves forward: the locale \<open>epoch_clock\<close> draws
  the consequence that a token which has been replaced is never valid again.
\<close>

section \<open>Tokens that only move forward\<close>

locale epoch_clock =
  fixes token :: "'s \<Rightarrow> 'm \<Rightarrow> ('o \<times> nat) option"
    and inv :: "'s \<Rightarrow> bool"
    and step :: "'s \<Rightarrow> 's \<Rightarrow> bool"
  assumes step_inv: "inv s \<Longrightarrow> step s s' \<Longrightarrow> inv s'"
    and step_token: "inv s \<Longrightarrow> step s s' \<Longrightarrow> token s m = Some (a, e) \<Longrightarrow>
      \<exists>a' e'. token s' m = Some (a', e') \<and> e \<le> e' \<and> (e' = e \<longrightarrow> a' = a)"
begin

lemma steps_inv: "step\<^sup>*\<^sup>* s s' \<Longrightarrow> inv s \<Longrightarrow> inv s'"
  by (induction rule: rtranclp_induct) (auto intro: step_inv)

lemma steps_token:
  assumes "step\<^sup>*\<^sup>* s s'" "inv s" "token s m = Some (a, e)"
  shows "\<exists>a' e'. token s' m = Some (a', e') \<and> e \<le> e' \<and> (e' = e \<longrightarrow> a' = a)"
  using assms(1)
proof (induction rule: rtranclp_induct)
  case base
  then show ?case using assms(3) by auto
next
  case (step y z)
  then obtain a1 e1 where t1: "token y m = Some (a1, e1)" "e \<le> e1" "e1 = e \<longrightarrow> a1 = a" by blast
  have "inv y" using steps_inv [OF step.hyps(1) assms(2)] .
  from step_token [OF this step.hyps(2) t1(1)] t1 show ?case by fastforce
qed

text \<open>A token that is no longer current stays out for ever.\<close>

lemma replaced_never_back:
  assumes "step\<^sup>*\<^sup>* s s'" and "step\<^sup>*\<^sup>* s' s''" and "inv s"
    and "token s m = Some (a, e)" "token s' m \<noteq> Some (a, e)"
  shows "token s'' m \<noteq> Some (a, e)"
proof
  assume again: "token s'' m = Some (a, e)"
  obtain a' e' where t': "token s' m = Some (a', e')" "e \<le> e'" "e' = e \<longrightarrow> a' = a"
    using steps_token [OF assms(1,3,4)] by blast
  have "inv s'" using steps_inv [OF assms(1,3)] .
  from steps_token [OF assms(2) this t'(1)] again have "e' \<le> e" by auto
  with t' assms(5) show False by auto
qed

text \<open>One epoch has one owner.\<close>

lemma one_owner_per_epoch:
  assumes "step\<^sup>*\<^sup>* s s'" "inv s" "token s m = Some (a, e)" "token s' m = Some (a', e)"
  shows "a' = a"
  using steps_token [OF assms(1-3)] assms(4) by auto

end

section \<open>The writes of the store\<close>

text \<open>
  Every write a client can send. The elector's commands are the lease (\<open>TSET\<close>, \<open>TDEL\<close>) and the
  counter of terms.
\<close>

inductive store_step :: "('s, 'd) redis \<Rightarrow> 'd json \<Rightarrow> 's \<Rightarrow> 's \<Rightarrow> bool" for R J where
  cas: "store_step R J s (snd (compareAndSaveTopology R J n v t mig term s))"
| checkpoint: "store_step R J s (snd (SaveCheckpoint R J n cp s))"
| fenced: "store_step R J s (snd (SaveCheckpointIfOwner R J n cp nid ep s))"
| hot: "store_step R J s (snd (SaveHotSession R J n hs s))"
| unhot: "store_step R J s (snd (DeleteHotSession R n u s))"
| session: "store_step R J s (snd (SaveGlobalSession R J n g s))"
| unsession: "store_step R J s (snd (DeleteGlobalSession R n u s))"
| register: "store_step R J s (snd (RegisterNode R J n now info ttl s))"
| publish: "store_step R J s (snd (PublishEvent R n ch e s))"
| boss_init: "store_step R J s (snd (InitGlobalBoss R J n hp st s))"
| boss_save: "store_step R J s (snd (SaveGlobalBoss R J n st s))"
| boss_attack: "store_step R J s (snd (AtomicAttackBoss R J n u dmg s))"
| boss_lock: "store_step R J s (snd (TryLockBossRespawn R J n now s))"
| next_term: "store_step R J s (snd (INCRBY R CoordinatorLeaderTermRedisKey 1 s))"
| lease: "store_step R J s (TSET R now k v ttl s)"
| unlease: "store_step R J s (TDEL R k s)"

section \<open>The invariant\<close>

definition stored_topology :: "('s, 'd) redis \<Rightarrow> 'd json \<Rightarrow> 's \<Rightarrow> Topology option" where
  "stored_topology R J s = (case GET R TopologyRedisKey s of None \<Rightarrow> None | Some d \<Rightarrow> dec_topology J d)"

definition stored_fence :: "('s, 'd) redis \<Rightarrow> 'd json \<Rightarrow> 's \<Rightarrow> string \<Rightarrow> Fence option" where
  "stored_fence R J s m = (case GET R (MapFenceRedisKey m) s of None \<Rightarrow> None | Some d \<Rightarrow> dec_fence J d)"

definition fence_token :: "('s, 'd) redis \<Rightarrow> 'd json \<Rightarrow> 's \<Rightarrow> string \<Rightarrow> (string \<times> nat) option" where
  "fence_token R J s m = map_option (\<lambda>f. (fn_Owner f, unat (fn_Epoch f))) (stored_fence R J s m)"

text \<open>
  With a topology \<open>t\<close> in place: a map of \<open>Owners\<close> has exactly its owner and epoch as fence; any
  fence at all belongs to a map that still has an epoch, is not ahead of it, and names the owner
  of the topology if it is not behind it. Without a topology there is no fence.
\<close>

definition fences_match :: "('s, 'd) redis \<Rightarrow> 'd json \<Rightarrow> Topology \<Rightarrow> 's \<Rightarrow> bool" where
  "fences_match R J t s \<longleftrightarrow>
     (\<forall>m f. stored_fence R J s m = Some f \<longrightarrow>
        (\<exists>e. map_of (tp_MapEpochs t) m = Some e \<and> unat (fn_Epoch f) \<le> unat e \<and>
             (unat (fn_Epoch f) = unat e \<longrightarrow> fn_Owner f = get_or [] (tp_Owners t) m))) \<and>
     (\<forall>m a. map_of (tp_Owners t) m = Some a \<longrightarrow>
        stored_fence R J s m = Some \<lparr>fn_MapID = m, fn_Owner = a, fn_Epoch = get_or 0 (tp_MapEpochs t) m\<rparr>)"

definition store_inv :: "('s, 'd) redis \<Rightarrow> 'd json \<Rightarrow> 's \<Rightarrow> bool" where
  "store_inv R J s \<longleftrightarrow>
     (case GET R TopologyRedisKey s of
        None \<Rightarrow> \<forall>m. stored_fence R J s m = None
      | Some d \<Rightarrow> \<exists>t. dec_topology J d = Some t \<and> Validate None t = None \<and> fences_match R J t s)"

lemma fences_matchD:
  "fences_match R J t s \<Longrightarrow> stored_fence R J s m = Some f \<Longrightarrow>
   \<exists>e. map_of (tp_MapEpochs t) m = Some e \<and> unat (fn_Epoch f) \<le> unat e \<and>
       (unat (fn_Epoch f) = unat e \<longrightarrow> fn_Owner f = get_or [] (tp_Owners t) m)"
  by (simp add: fences_match_def)

lemma fences_match_cong:
  assumes "\<And>m. stored_fence R J s' m = stored_fence R J s m"
  shows "fences_match R J t s' = fences_match R J t s"
  using assms by (simp add: fences_match_def)

text \<open>A write that leaves the topology and the fences alone.\<close>

definition fence_quiet :: "('s, 'd) redis \<Rightarrow> 's \<Rightarrow> 's \<Rightarrow> bool" where
  "fence_quiet R s s' \<longleftrightarrow>
     GET R TopologyRedisKey s' = GET R TopologyRedisKey s \<and>
     (\<forall>m. GET R (MapFenceRedisKey m) s' = GET R (MapFenceRedisKey m) s)"

lemma fence_quiet_refl [simp]: "fence_quiet R s s"
  by (simp add: fence_quiet_def)

lemma fence_quiet_fence: "fence_quiet R s s' \<Longrightarrow> stored_fence R J s' m = stored_fence R J s m"
  by (simp add: fence_quiet_def stored_fence_def)

lemma fence_quiet_inv: "fence_quiet R s s' \<Longrightarrow> store_inv R J s' = store_inv R J s"
proof -
  assume q: "fence_quiet R s s'"
  have "fences_match R J t s' = fences_match R J t s" for t
    by (rule fences_match_cong) (rule fence_quiet_fence [OF q])
  moreover have "GET R TopologyRedisKey s' = GET R TopologyRedisKey s" using q by (simp add: fence_quiet_def)
  ultimately show ?thesis by (simp add: store_inv_def fence_quiet_fence [OF q] split: option.split)
qed

section \<open>What a commit writes\<close>

lemma fence_args_keys: "map fn_MapID (fence_args t) = sort (remdups (keys (tp_Owners t)))"
  by (simp add: fence_args_def comp_def)

lemma in_fence_args:
  "f \<in> set (fence_args t) \<longleftrightarrow>
   (\<exists>a. map_of (tp_Owners t) (fn_MapID f) = Some a \<and> fn_Owner f = a \<and>
        fn_Epoch f = get_or 0 (tp_MapEpochs t) (fn_MapID f))"
proof
  assume "f \<in> set (fence_args t)"
  then obtain m where m: "m \<in> set (keys (tp_Owners t))"
    "f = \<lparr>fn_MapID = m, fn_Owner = get_or [] (tp_Owners t) m, fn_Epoch = get_or 0 (tp_MapEpochs t) m\<rparr>"
    by (auto simp: fence_args_def)
  obtain a where "map_of (tp_Owners t) m = Some a"
    using m(1) by (metis map_of_eq_None_iff not_Some_eq set_map)
  then show "\<exists>a. map_of (tp_Owners t) (fn_MapID f) = Some a \<and> fn_Owner f = a \<and>
        fn_Epoch f = get_or 0 (tp_MapEpochs t) (fn_MapID f)"
    by (simp add: m(2) get_or_def)
next
  assume "\<exists>a. map_of (tp_Owners t) (fn_MapID f) = Some a \<and> fn_Owner f = a \<and>
        fn_Epoch f = get_or 0 (tp_MapEpochs t) (fn_MapID f)"
  then obtain a where a: "map_of (tp_Owners t) (fn_MapID f) = Some a" "fn_Owner f = a"
    "fn_Epoch f = get_or 0 (tp_MapEpochs t) (fn_MapID f)" by blast
  then have "fn_MapID f \<in> set (keys (tp_Owners t))" by (force dest: map_of_SomeD)
  moreover have "f = \<lparr>fn_MapID = fn_MapID f, fn_Owner = get_or [] (tp_Owners t) (fn_MapID f),
      fn_Epoch = get_or 0 (tp_MapEpochs t) (fn_MapID f)\<rparr>"
    using a by (simp add: get_or_def)
  ultimately show "f \<in> set (fence_args t)" unfolding fence_args_def set_map set_sort set_remdups
    by (intro image_eqI [of _ _ "fn_MapID f"]) auto
qed

context redis_server
begin

lemma write_fences_GET:
  assumes "distinct (map fn_MapID fs)"
  shows "GET R k (write_fences R J fs s) =
    (case map_of (map (\<lambda>f. (MapFenceRedisKey (fn_MapID f), enc_fence J f)) fs) k of
       None \<Rightarrow> GET R k s | Some v \<Rightarrow> Some v)"
proof -
  have "distinct (map (\<lambda>f. MapFenceRedisKey (fn_MapID f)) fs)"
    using assms by (simp add: distinct_map inj_on_def)
  then show ?thesis unfolding write_fences_def by (rule GET_fold_SET)
qed

lemma write_fences_topology:
  assumes "distinct (map fn_MapID fs)"
  shows "GET R TopologyRedisKey (write_fences R J fs s) = GET R TopologyRedisKey s"
proof -
  have "map_of (map (\<lambda>f. (MapFenceRedisKey (fn_MapID f), enc_fence J f)) fs) TopologyRedisKey = None"
    by (auto simp: map_of_eq_None_iff)
  then show ?thesis by (simp add: write_fences_GET [OF assms])
qed

lemma write_fences_fence:
  "stored_fence R J (write_fences R J (fence_args t) s) m =
     (case map_of (tp_Owners t) m of
        None \<Rightarrow> stored_fence R J s m
      | Some a \<Rightarrow> Some \<lparr>fn_MapID = m, fn_Owner = a, fn_Epoch = get_or 0 (tp_MapEpochs t) m\<rparr>)"
proof -
  let ?al = "map (\<lambda>f. (MapFenceRedisKey (fn_MapID f), enc_fence J f)) (fence_args t)"
  have d: "distinct (map fn_MapID (fence_args t))" by (simp add: fence_args_keys)
  show ?thesis
  proof (cases "map_of (tp_Owners t) m")
    case None
    have "map_of ?al (MapFenceRedisKey m) = None"
      using None by (force simp: map_of_eq_None_iff [of ?al] in_fence_args)
    then show ?thesis using None by (simp add: stored_fence_def write_fences_GET [OF d])
  next
    case (Some a)
    let ?f = "\<lparr>fn_MapID = m, fn_Owner = a, fn_Epoch = get_or 0 (tp_MapEpochs t) m\<rparr>"
    have "?f \<in> set (fence_args t)" using Some by (simp add: in_fence_args)
    then have "(MapFenceRedisKey m, enc_fence J ?f) \<in> set ?al" by force
    moreover have "distinct (map fst ?al)" using d by (simp add: comp_def distinct_map inj_on_def)
    ultimately have "map_of ?al (MapFenceRedisKey m) = Some (enc_fence J ?f)" by (intro map_of_is_SomeI)
    then show ?thesis using Some by (simp add: stored_fence_def write_fences_GET [OF d] dec_enc_fence)
  qed
qed

text \<open>The state after a commit, whether its last command ran or not.\<close>

lemma commit_topology:
  "GET R TopologyRedisKey (snd (commit_script R J payload (fence_args t) us s)) = Some payload"
  by (simp add: commit_script_def Let_def GET_fold_HSET write_fences_topology fence_args_keys GET_SET)

lemma commit_fence:
  "stored_fence R J (snd (commit_script R J payload (fence_args t) us s)) m =
     (case map_of (tp_Owners t) m of
        None \<Rightarrow> stored_fence R J s m
      | Some a \<Rightarrow> Some \<lparr>fn_MapID = m, fn_Owner = a, fn_Epoch = get_or 0 (tp_MapEpochs t) m\<rparr>)"
proof -
  have h: "stored_fence R J (fold (\<lambda>(f, v). HSET R h f v) us s') m = stored_fence R J s' m" for h s'
    by (simp add: stored_fence_def GET_fold_HSET)
  have "stored_fence R J (SET R TopologyRedisKey payload s) m = stored_fence R J s m"
    by (simp add: stored_fence_def GET_SET)
  then show ?thesis by (simp add: commit_script_def Let_def h write_fences_fence split: option.split)
qed

text \<open>A call of the compare-and-set either leaves the state alone or commits.\<close>

lemma cas_script_split:
  "snd (compareAndSetTopology_script R J v (enc_topology J t) mig lt fs s) = s \<or>
   compareAndSetTopology_script R J v (enc_topology J t) mig lt fs s =
     migrate_then_commit R J (enc_topology J t) mig fs s \<and>
   (\<forall>c. stored_topology R J s = Some c \<longrightarrow>
      epochs_ok c t \<and> tp_Version c = v \<and> unat (tp_LeaderTerm c) \<le> unat (tp_LeaderTerm t)) \<and>
   (GET R TopologyRedisKey s = None \<longrightarrow> v = 0)"
  unfolding compareAndSetTopology_script_def stored_topology_def dec_enc_topology option.case
  by (cases "GET R TopologyRedisKey s") (auto simp: not_less split: option.split)

lemma cas_script_cases:
  obtains (kept) "snd (compareAndSetTopology_script R J v (enc_topology J t) mig lt (fence_args t) s) = s"
  | (committed) us where
      "snd (compareAndSetTopology_script R J v (enc_topology J t) mig lt (fence_args t) s) =
       snd (commit_script R J (enc_topology J t) (fence_args t) us s)"
      "\<And>c. stored_topology R J s = Some c \<Longrightarrow> epochs_ok c t \<and> tp_Version c = v \<and> unat (tp_LeaderTerm c) \<le> unat (tp_LeaderTerm t)"
      "GET R TopologyRedisKey s = None \<longrightarrow> v = 0"
proof -
  have mtc: "\<exists>us. snd (migrate_then_commit R J p mig fs s) = s \<or>
      snd (migrate_then_commit R J p mig fs s) = snd (commit_script R J p fs us s)" for p fs
    by (auto simp: migrate_then_commit_def split: option.split)
  from cas_script_split [of v t mig lt "fence_args t" s] show thesis
    using mtc [of "enc_topology J t" "fence_args t"] kept committed by metis
qed

lemma cas_cases:
  obtains (kept) "snd (compareAndSaveTopology R J n v t mig lt s) = s"
  | (committed) us where "Validate None t = None" "tp_Version t = v + 1"
      "snd (compareAndSaveTopology R J n v t mig lt s) = snd (commit_script R J (enc_topology J t) (fence_args t) us s)"
      "\<And>c. stored_topology R J s = Some c \<Longrightarrow> epochs_ok c t \<and> tp_Version c = v \<and> unat (tp_LeaderTerm c) \<le> unat (tp_LeaderTerm t)"
      "GET R TopologyRedisKey s = None \<longrightarrow> v = 0"
proof (cases "prepareTopology t")
  case (Inl e)
  then show thesis using kept by (simp add: compareAndSaveTopology_def)
next
  case (Inr p)
  then have p: "p = t" "Validate None t = None" by (simp_all add: prepareTopology_Inr)
  let ?scr = "compareAndSetTopology_script R J v (enc_topology J t) mig (if lt = 0 then None else Some lt) (fence_args t)"
  have eq: "snd (compareAndSaveTopology R J n v t mig lt s) = s \<or>
      snd (compareAndSaveTopology R J n v t mig lt s) = snd (rpc n ?scr s) \<and> tp_Version t = v + 1"
    using Inr p by (auto simp: compareAndSaveTopology_def split: prod.split option.split)
  show thesis
  proof (cases rule: cas_script_cases [of v t mig "if lt = 0 then None else Some lt" s])
    case kept
    then show thesis using eq rpc_cases [of n ?scr s] that(1) by auto
  next
    case (committed us)
    then show thesis using eq rpc_cases [of n ?scr s] that p by metis
  qed
qed

text \<open>A commit moves every token forward and re-establishes the invariant.\<close>

lemma epochs_ok_step:
  assumes "epochs_ok c t" "map_of (tp_MapEpochs c) m = Some e"
  shows "\<exists>e'. map_of (tp_MapEpochs t) m = Some e' \<and> unat e \<le> unat e' \<and>
    (unat e' = unat e \<longrightarrow> get_or [] (tp_Owners c) m = get_or [] (tp_Owners t) m)"
  using assms map_of_SomeD [OF assms(2)]
  by (fastforce simp: epochs_ok_def list_all_iff epoch_step_ok_def split: option.splits if_splits)

lemma commit_fences_match:
  assumes v: "Validate None t = None" and i: "store_inv R J s"
    and ok: "\<And>c. stored_topology R J s = Some c \<Longrightarrow> epochs_ok c t"
  shows "fences_match R J t (snd (commit_script R J (enc_topology J t) (fence_args t) us s))"
proof -
  let ?s = "snd (commit_script R J (enc_topology J t) (fence_args t) us s)"
  have new: "\<exists>e. map_of (tp_MapEpochs t) m = Some e \<and> unat (fn_Epoch f) \<le> unat e \<and>
      (unat (fn_Epoch f) = unat e \<longrightarrow> fn_Owner f = get_or [] (tp_Owners t) m)"
    if f: "stored_fence R J ?s m = Some f" for m f
  proof (cases "map_of (tp_Owners t) m")
    case (Some a)
    then have "m \<in> set (keys (tp_Owners t))" by (force dest: map_of_SomeD)
    then obtain e where "map_of (tp_MapEpochs t) m = Some e" using Validate_epoch [OF v, of m] by blast
    with f Some show ?thesis by (auto simp: commit_fence get_or_def)
  next
    case None
    then have old: "stored_fence R J s m = Some f" using f by (simp add: commit_fence)
    then obtain d c where c: "GET R TopologyRedisKey s = Some d" "dec_topology J d = Some c" "fences_match R J c s"
      using i by (auto simp: store_inv_def split: option.splits)
    obtain e where e: "map_of (tp_MapEpochs c) m = Some e" "unat (fn_Epoch f) \<le> unat e"
        "unat (fn_Epoch f) = unat e \<longrightarrow> fn_Owner f = get_or [] (tp_Owners c) m"
      using fences_matchD [OF c(3) old] by blast
    have "epochs_ok c t" using ok c by (simp add: stored_topology_def)
    from epochs_ok_step [OF this e(1)] e(2,3) show ?thesis by fastforce
  qed
  show ?thesis unfolding fences_match_def using new by (auto simp: commit_fence)
qed

lemma commit_inv:
  assumes "Validate None t = None" "store_inv R J s" "\<And>c. stored_topology R J s = Some c \<Longrightarrow> epochs_ok c t"
  shows "store_inv R J (snd (commit_script R J (enc_topology J t) (fence_args t) us s))"
  using commit_fences_match [OF assms] assms(1) by (simp add: store_inv_def commit_topology dec_enc_topology)

lemma commit_token:
  assumes v: "Validate None t = None" and i: "store_inv R J s"
    and ok: "\<And>c. stored_topology R J s = Some c \<Longrightarrow> epochs_ok c t"
    and tk: "fence_token R J s m = Some (a, e)"
  shows "\<exists>a' e'. fence_token R J (snd (commit_script R J (enc_topology J t) (fence_args t) us s)) m = Some (a', e') \<and>
    e \<le> e' \<and> (e' = e \<longrightarrow> a' = a)"
proof -
  obtain f where f: "stored_fence R J s m = Some f" "a = fn_Owner f" "e = unat (fn_Epoch f)"
    using tk by (auto simp: fence_token_def)
  obtain d c where c: "GET R TopologyRedisKey s = Some d" "dec_topology J d = Some c" "fences_match R J c s"
    using i f(1) by (auto simp: store_inv_def split: option.splits)
  obtain e1 where e1: "map_of (tp_MapEpochs c) m = Some e1" "e \<le> unat e1"
      "e = unat e1 \<longrightarrow> a = get_or [] (tp_Owners c) m"
    using fences_matchD [OF c(3) f(1)] f(2,3) by blast
  have "epochs_ok c t" using ok c by (simp add: stored_topology_def)
  from epochs_ok_step [OF this e1(1)] obtain e2 where e2: "map_of (tp_MapEpochs t) m = Some e2" "unat e1 \<le> unat e2"
    "unat e2 = unat e1 \<longrightarrow> get_or [] (tp_Owners c) m = get_or [] (tp_Owners t) m" by blast
  show ?thesis
  proof (cases "map_of (tp_Owners t) m")
    case None
    then show ?thesis using f by (simp add: fence_token_def commit_fence)
  next
    case (Some a')
    then show ?thesis using e1 e2 by (auto simp: fence_token_def commit_fence get_or_def)
  qed
qed

text \<open>All other writes are quiet.\<close>

lemma rpc_quiet: "fence_quiet R s (snd (cmd s)) \<Longrightarrow> fence_quiet R s (snd (rpc n cmd s))"
  using rpc_cases [of n cmd s] by auto

lemma quiet_writes:
  "fence_quiet R s (snd (SaveCheckpoint R J n cp s))" "fence_quiet R s (snd (SaveHotSession R J n hs s))"
  "fence_quiet R s (snd (DeleteHotSession R n u s))" "fence_quiet R s (snd (SaveGlobalSession R J n g s))"
  "fence_quiet R s (snd (DeleteGlobalSession R n u s))" "fence_quiet R s (snd (RegisterNode R J n now info ttl s))"
  "fence_quiet R s (snd (PublishEvent R n ch e s))" "fence_quiet R s (snd (InitGlobalBoss R J n hp st s))"
  "fence_quiet R s (snd (SaveGlobalBoss R J n st s))" "fence_quiet R s (TSET R now k v ttl s)"
  "fence_quiet R s (TDEL R k s)" "fence_quiet R s (snd (INCRBY R CoordinatorLeaderTermRedisKey 1 s))"
  by (cases n; simp add: SaveCheckpoint_def SaveHotSession_def DeleteHotSession_def SaveGlobalSession_def
      DeleteGlobalSession_def RegisterNode_def PublishEvent_def InitGlobalBoss_def SaveGlobalBoss_def
      rpc_def fence_quiet_def get_rules)+

lemma quiet_fenced: "fence_quiet R s (snd (SaveCheckpointIfOwner R J n cp nid ep s))"
proof -
  have "fence_quiet R s (snd (saveCheckpointIfOwner_script R J k nid ep m data s))" for k m data
    by (auto simp: saveCheckpointIfOwner_script_def fence_quiet_def get_rules split: option.split)
  then have "fence_quiet R s (snd (rpc n (saveCheckpointIfOwner_script R J k nid ep m data) s))" for k m data
    by (rule rpc_quiet)
  then show ?thesis by (simp add: SaveCheckpointIfOwner_def case_prod_beta split: option.split)
qed

lemma quiet_boss:
  "fence_quiet R s (snd (AtomicAttackBoss R J n u dmg s))" "fence_quiet R s (snd (TryLockBossRespawn R J n now s))"
proof -
  have "fence_quiet R s (snd (attackBoss_script R J dmg s))"
    by (auto simp: attackBoss_script_def fence_quiet_def get_rules Let_def case_prod_beta split: option.split)
  then have "fence_quiet R s (snd (rpc n (attackBoss_script R J dmg) s))" by (rule rpc_quiet)
  then show "fence_quiet R s (snd (AtomicAttackBoss R J n u dmg s))"
    by (simp add: AtomicAttackBoss_def case_prod_beta split: option.split boss_reply.split)
  show "fence_quiet R s (snd (TryLockBossRespawn R J n now s))"
    by (cases n) (simp_all add: TryLockBossRespawn_def rpc_def fence_quiet_def get_rules)
qed

lemma store_step_cases:
  assumes "store_step R J s s'"
  obtains (quiet) "fence_quiet R s s'"
  | (commit) t us where "Validate None t = None"
      "s' = snd (commit_script R J (enc_topology J t) (fence_args t) us s)"
      "\<And>c. stored_topology R J s = Some c \<Longrightarrow> epochs_ok c t"
      "\<And>c. stored_topology R J s = Some c \<Longrightarrow>
         tp_Version t = tp_Version c + 1 \<and> unat (tp_LeaderTerm c) \<le> unat (tp_LeaderTerm t)"
  using assms
proof (cases rule: store_step.cases)
  case (cas n v t mig lt)
  then show thesis
    by (cases rule: cas_cases [of n v t mig lt s]) (use that in auto)
qed (use that(1) quiet_writes quiet_fenced quiet_boss in auto)

end

sublocale redis_server \<subseteq> fence_clock: epoch_clock "fence_token R J" "store_inv R J" "store_step R J"
proof
  fix s s'
  assume i: "store_inv R J s" and st: "store_step R J s s'"
  show "store_inv R J s'"
    using st
  proof (cases rule: store_step_cases)
    case quiet
    from fence_quiet_inv [OF this] i show ?thesis by simp
  next
    case (commit t us)
    from commit_inv [OF commit(1) i commit(3)] show ?thesis by (simp add: commit(2))
  qed
  fix m a e
  assume tk: "fence_token R J s m = Some (a, e)"
  show "\<exists>a' e'. fence_token R J s' m = Some (a', e') \<and> e \<le> e' \<and> (e' = e \<longrightarrow> a' = a)"
    using st
  proof (cases rule: store_step_cases)
    case quiet
    have "fence_token R J s' m = fence_token R J s m" by (simp add: fence_token_def fence_quiet_fence [OF quiet])
    then show ?thesis using tk by auto
  next
    case (commit t us)
    then show ?thesis using commit_token [OF commit(1) i _ tk] by blast
  qed
qed

text \<open>
  The version of the topology is a clock as well: the token is the whole topology, so a version
  number never comes back with another content.
\<close>

definition version_token :: "('s, 'd) redis \<Rightarrow> 'd json \<Rightarrow> 's \<Rightarrow> unit \<Rightarrow> (Topology \<times> nat) option" where
  "version_token R J s m = map_option (\<lambda>t. (t, unat (tp_Version t))) (stored_topology R J s)"

lemma unat_Suc_version: "(v :: u64) + 1 \<noteq> 0 \<Longrightarrow> unat (v + 1) = Suc (unat v)"
  by (metis unatSuc add.commute)

sublocale redis_server \<subseteq> version_clock: epoch_clock "version_token R J" "store_inv R J" "store_step R J"
proof
  fix s s' m a e
  assume i: "store_inv R J s" and st: "store_step R J s s'"
  then show "store_inv R J s'" by (rule fence_clock.step_inv)
  assume tk: "version_token R J s m = Some (a, e)"
  show "\<exists>a' e'. version_token R J s' m = Some (a', e') \<and> e \<le> e' \<and> (e' = e \<longrightarrow> a' = a)"
    using st
  proof (cases rule: store_step_cases)
    case quiet
    then have "version_token R J s' m = version_token R J s m"
      by (simp add: version_token_def stored_topology_def fence_quiet_def)
    then show ?thesis using tk by auto
  next
    case (commit t us)
    have s': "stored_topology R J s' = Some t"
      by (simp add: commit(2) stored_topology_def commit_topology dec_enc_topology)
    obtain c where c: "stored_topology R J s = Some c" "a = c" "e = unat (tp_Version c)"
      using tk by (auto simp: version_token_def)
    have "tp_Version t \<noteq> 0" using commit(1) by (simp add: Validate_None_iff)
    then have "unat (tp_Version t) = Suc e" using commit(4) [OF c(1)] c(3) unat_Suc_version by metis
    then show ?thesis by (simp add: version_token_def s')
  qed
qed

end
