(* ===== verification/Fence_Props.thy ===== *)
theory Fence_Props
  imports Fencing
begin

text \<open>
  The guarantees of the shared store, stated over its methods: who can still write after a
  takeover, what a commit of the topology does and does not do, and which of two concurrent
  commits wins. Each holds for every Redis server that meets \<open>redis_server\<close>; the witnesses run on
  the server in memory.
\<close>

section \<open>Two topologies for the witnesses\<close>

definition topo1 :: Topology where
  "topo1 = \<lparr>tp_Version = 1, tp_LeaderTerm = 0, tp_Owners = [(''m'', ''n1'')], tp_MapEpochs = [(''m'', 1)], tp_UpdatedAt = 5\<rparr>"

definition topo2 :: Topology where
  "topo2 = \<lparr>tp_Version = 2, tp_LeaderTerm = 0, tp_Owners = [(''m'', ''n2'')], tp_MapEpochs = [(''m'', 2)], tp_UpdatedAt = 6\<rparr>"

abbreviation "mr \<equiv> mem_redis 8000"

definition run1 :: mem where
  "run1 = snd (compareAndSaveTopology mr mem_json Delivered 0 topo1 None 0 mem_empty)"

definition run2 :: mem where
  "run2 = snd (compareAndSaveTopology mr mem_json Delivered 1 topo2 None 0 run1)"

lemma topo_valid: "Validate None topo1 = None" "Validate None topo2 = None"
  by code_simp+

lemma run1_eq: "run1 = \<lparr>m_keys = [(TopologyRedisKey, DTopology topo1),
    (MapFenceRedisKey ''m'', DFence \<lparr>fn_MapID = ''m'', fn_Owner = ''n1'', fn_Epoch = 1\<rparr>)], m_hashes = [], m_timed = [], m_sent = []\<rparr>"
  by code_simp

lemma run2_eq: "run2 = \<lparr>m_keys = [(TopologyRedisKey, DTopology topo2),
    (MapFenceRedisKey ''m'', DFence \<lparr>fn_MapID = ''m'', fn_Owner = ''n2'', fn_Epoch = 2\<rparr>)], m_hashes = [], m_timed = [], m_sent = []\<rparr>"
  unfolding run2_def run1_eq by code_simp

lemma inv_empty: "store_inv (mem_redis l) mem_json mem_empty"
  by (simp add: store_inv_def mem_redis_def mem_empty_def stored_fence_def)

lemma step_run1: "store_step mr mem_json mem_empty run1"
  unfolding run1_def by (rule store_step.cas)

lemma step_run2: "store_step mr mem_json run1 run2"
  unfolding run2_def by (rule store_step.cas)

lemma steps_run2: "(store_step mr mem_json)\<^sup>*\<^sup>* run1 run2"
  by (rule r_into_rtranclp) (rule step_run2)

lemma inv_run1: "store_inv mr mem_json run1"
  using mem.fence_clock.step_inv [OF inv_empty step_run1] .

section \<open>Fencing out\<close>

lemma RequireMapFence_None:
  "RequireMapFence R J Delivered m a e s = None \<longleftrightarrow>
   m \<noteq> [] \<and> a \<noteq> [] \<and> e \<noteq> 0 \<and> fence_token R J s m = Some (a, unat e)"
  by (auto simp: RequireMapFence_def rpc_def fence_token_def stored_fence_def word_unat_eq_iff split: option.splits)

lemma RequireMapFence_value:
  "RequireMapFence R J n m a e s = None \<or> RequireMapFence R J n m a e s = Some ErrMapFenceRejected"
  by (auto simp: RequireMapFence_def split: option.split)

lemma RequireMapFence_delivered:
  "RequireMapFence R J n m a e s = None \<Longrightarrow> n = Delivered"
  by (cases n) (auto simp: RequireMapFence_def rpc_def split: if_splits)

lemma save_needs_token:
  assumes "fence_token R J s (c_MapID cp) \<noteq> Some (a, unat e)"
  shows "fst (SaveCheckpointIfOwner R J n cp a e s) \<noteq> None \<and> snd (SaveCheckpointIfOwner R J n cp a e s) = s"
proof -
  let ?scr = "saveCheckpointIfOwner_script R J (MapFenceRedisKey (c_MapID cp)) a e (c_MapID cp) (enc_checkpoint J cp) s"
  have "snd ?scr = s" "fst ?scr \<noteq> 1"
    using assms by (auto simp: saveCheckpointIfOwner_script_def fence_token_def stored_fence_def split: option.splits)
  then show ?thesis
    by (cases n) (simp_all add: SaveCheckpointIfOwner_def rpc_def)
qed

context redis_server
begin

lemma deposed_out:
  assumes inv: "store_inv R J s" and own: "RequireMapFence R J Delivered m a e s = None"
    and st: "(store_step R J)\<^sup>*\<^sup>* s s'" and lost: "RequireMapFence R J Delivered m a e s' \<noteq> None"
    and st': "(store_step R J)\<^sup>*\<^sup>* s' s''"
  shows "fence_token R J s'' m \<noteq> Some (a, unat e)"
  using fence_clock.replaced_never_back [OF st st' inv, of m a "unat e"] own lost
  by (simp add: RequireMapFence_None)

lemmas token_forward = fence_clock.steps_token

lemma store_step_inv: "store_inv R J s \<Longrightarrow> store_step R J s s' \<Longrightarrow> store_inv R J s'"
  by (rule fence_clock.step_inv)

lemma same_epoch_same_owner:
  assumes "store_inv R J s" "(store_step R J)\<^sup>*\<^sup>* s s'"
    and "RequireMapFence R J Delivered m a e s = None" "RequireMapFence R J Delivered m b e s' = None"
  shows "a = b"
  using fence_clock.one_owner_per_epoch [OF assms(2,1), of m a "unat e" b] assms(3,4)
  by (simp add: RequireMapFence_None)

end

text \<open>C26: once a node has lost the fence of a map, it never passes the fence check with its old epoch
  again and can never overwrite the checkpoint of the map again, whatever anybody writes to the store
  in between, in any order and with any losses on the network.\<close>

theorem deposed_owner_stays_out:
  assumes R: "redis_server R J" and inv: "store_inv R J s"
    and own: "RequireMapFence R J Delivered m a e s = None"
    and st: "(store_step R J)\<^sup>*\<^sup>* s s'" and lost: "RequireMapFence R J Delivered m a e s' \<noteq> None"
    and st': "(store_step R J)\<^sup>*\<^sup>* s' s''" and cp: "c_MapID cp = m"
  shows "RequireMapFence R J n m a e s'' = Some ErrMapFenceRejected \<and>
    fst (SaveCheckpointIfOwner R J n cp a e s'') \<noteq> None \<and> snd (SaveCheckpointIfOwner R J n cp a e s'') = s''"
proof -
  have "fence_token R J s'' m \<noteq> Some (a, unat e)" by (rule redis_server.deposed_out [OF R inv own st lost st'])
  then show ?thesis
    using save_needs_token [of R J s'' cp a e n] cp RequireMapFence_value [of R J n m a e s'']
      RequireMapFence_delivered [of R J n m a e s''] RequireMapFence_None [of R J m a e s''] by auto
qed

theorem deposed_owner_stays_out_witness:
  "RequireMapFence mr mem_json Delivered ''m'' ''n1'' 1 run1 = None \<and>
   RequireMapFence mr mem_json Delivered ''m'' ''n1'' 1 run2 = Some ErrMapFenceRejected"
proof
  show own: "RequireMapFence mr mem_json Delivered ''m'' ''n1'' 1 run1 = None"
    unfolding run1_eq by code_simp
  have lost: "RequireMapFence mr mem_json Delivered ''m'' ''n1'' 1 run2 \<noteq> None"
    unfolding run2_eq by code_simp
  show "RequireMapFence mr mem_json Delivered ''m'' ''n1'' 1 run2 = Some ErrMapFenceRejected"
    using deposed_owner_stays_out [OF mem.redis_server_axioms inv_run1 own steps_run2 lost
        rtranclp.rtrancl_refl, of "zero_MapCheckpoint\<lparr>c_MapID := ''m''\<rparr>" Delivered] by simp
qed

text \<open>Under one epoch a map has one owner, over the whole life of the store: two nodes that pass the
  fence check for the same map and epoch, at whatever times, are the same node.\<close>

theorem one_owner_per_epoch_ever:
  assumes "redis_server R J" "store_inv R J s" "(store_step R J)\<^sup>*\<^sup>* s s'"
    and "RequireMapFence R J n m a e s = None" "RequireMapFence R J n' m b e s' = None"
  shows "a = b"
proof -
  have "n = Delivered" "n' = Delivered" using assms(4,5) by (auto dest: RequireMapFence_delivered)
  then show ?thesis using redis_server.same_epoch_same_owner [OF assms(1-3)] assms(4,5) by blast
qed

theorem one_owner_per_epoch_ever_witness: "''n1'' = ''n1'' \<and> RequireMapFence mr mem_json Delivered ''m'' ''n1'' 1 run1 = None"
proof -
  have own: "RequireMapFence mr mem_json Delivered ''m'' ''n1'' 1 run1 = None"
    unfolding run1_eq by code_simp
  from one_owner_per_epoch_ever [OF mem.redis_server_axioms inv_run1 rtranclp.rtrancl_refl own own] own
  show ?thesis by simp
qed

section \<open>Commits\<close>

lemma session_updates_Some:
  assumes "session_updates J mig al = Some us" "distinct (keys al)"
  shows "distinct (keys us) \<and> (\<forall>u. map_of us u =
    (case map_of al u of
       None \<Rightarrow> None
     | Some d \<Rightarrow> (case dec_session J d of
                    None \<Rightarrow> None
                  | Some g \<Rightarrow> if moves_session mig g then Some (enc_session J (moved_session mig g)) else None)))"
  using assms
proof (induction al arbitrary: us)
  case Nil
  then show ?case by simp
next
  case (Cons e al)
  obtain u d where e: "e = (u, d)" by fastforce
  obtain g us1 where g: "dec_session J d = Some g" "session_updates J mig al = Some us1"
    "us = (if moves_session mig g then (u, enc_session J (moved_session mig g)) # us1 else us1)"
    using Cons.prems(1) e by (auto split: option.splits)
  have ih: "distinct (keys us1)" "\<forall>v. map_of us1 v = (case map_of al v of None \<Rightarrow> None
     | Some d \<Rightarrow> (case dec_session J d of None \<Rightarrow> None
         | Some g \<Rightarrow> if moves_session mig g then Some (enc_session J (moved_session mig g)) else None))"
    using Cons.IH [OF g(2)] Cons.prems(2) by auto
  have nu: "map_of al u = None" using Cons.prems(2) e by (simp add: map_of_eq_None_iff)
  then have "map_of us1 u = None" using ih(2) by simp
  then have "u \<notin> set (keys us1)" by (simp add: map_of_eq_None_iff)
  with ih nu g e show ?case by auto
qed

definition session_at :: "('s, 'd) redis \<Rightarrow> 'd json \<Rightarrow> 's \<Rightarrow> string \<Rightarrow> GlobalSession option" where
  "session_at R J s u = (case HGET R ''global_sessions'' u s of None \<Rightarrow> None | Some d \<Rightarrow> dec_session J d)"

definition migrate :: "sessionMigration option \<Rightarrow> GlobalSession \<Rightarrow> GlobalSession" where
  "migrate mig g = (case mig of None \<Rightarrow> g | Some x \<Rightarrow> if moves_session x g then moved_session x g else g)"

context redis_server
begin

lemma commit_sessions:
  assumes "session_updates J mig (HGETALL R ''global_sessions'' s) = Some us"
    "commit_script R J p fs us s = (Some 1, s')"
  shows "session_at R J s' u = map_option (migrate (Some mig)) (session_at R J s u)"
proof -
  note us = session_updates_Some [OF assms(1) HGETALL_distinct]
  have h: "HGET R ''global_sessions'' u s' =
      (case map_of us u of None \<Rightarrow> HGET R ''global_sessions'' u s | Some v \<Rightarrow> Some v)"
    using assms(2) us
    by (auto simp: commit_script_def Let_def write_fences_def HGET_fold_SET HGET_SET HGET_fold_HSET
        split: if_splits option.split)
  have "map_of us u = (case HGET R ''global_sessions'' u s of
       None \<Rightarrow> None
     | Some d \<Rightarrow> (case dec_session J d of
                    None \<Rightarrow> None
                  | Some g \<Rightarrow> if moves_session mig g then Some (enc_session J (moved_session mig g)) else None))"
    using us by (simp add: HGET_def)
  then show ?thesis
    by (cases "HGET R ''global_sessions'' u s")
      (auto simp: session_at_def h migrate_def dec_enc_session split: option.split)
qed

lemma commit_no_sessions:
  "commit_script R J p fs [] s = (r, s') \<Longrightarrow> HGET R h u s' = HGET R h u s"
  by (auto simp: commit_script_def Let_def write_fences_def HGET_fold_SET HGET_SET)

lemma commit_other_hash:
  assumes "commit_script R J p fs us s = (r, s')" "h \<noteq> ''global_sessions''" "distinct (keys us)"
  shows "HGET R h f s' = HGET R h f s"
  using assms by (auto simp: commit_script_def Let_def write_fences_def HGET_fold_SET HGET_SET HGET_fold_HSET
      split: if_splits)

lemma cas_success:
  assumes "compareAndSaveTopology R J n v t mig lt s = (None, s')"
  shows "\<exists>us. Validate None t = None \<and> tp_Version t = v + 1 \<and>
    (case mig of None \<Rightarrow> us = [] | Some x \<Rightarrow> session_updates J x (HGETALL R ''global_sessions'' s) = Some us) \<and>
    commit_script R J (enc_topology J t) (fence_args t) us s = (Some 1, s') \<and>
    (\<forall>c. stored_topology R J s = Some c \<longrightarrow> tp_Version c = v \<and> epochs_ok c t) \<and>
    (lt \<noteq> 0 \<longrightarrow> num_at R J CoordinatorLeaderTermRedisKey s = int (unat lt) \<and> tp_LeaderTerm t = lt)"
proof -
  let ?lt = "if lt = 0 then None else Some lt"
  from assms have v: "Validate None t = None" "tp_Version t = v + 1"
    and r: "rpc n (compareAndSetTopology_script R J v (enc_topology J t) mig ?lt (fence_args t)) s = (Some (Some 1), s')"
    by (auto simp: compareAndSaveTopology_def prepareTopology_def Let_def cas_result_def
        split: option.splits prod.splits if_splits)
  then have scr: "compareAndSetTopology_script R J v (enc_topology J t) mig ?lt (fence_args t) s = (Some 1, s')"
    by (simp add: rpc_Some)
  have lt: "lt \<noteq> 0 \<longrightarrow> num_at R J CoordinatorLeaderTermRedisKey s = int (unat lt) \<and> tp_LeaderTerm t = lt"
  proof
    assume "lt \<noteq> 0"
    then have "num_at R J CoordinatorLeaderTermRedisKey s = int (unat lt)"
      "int (unat (tp_LeaderTerm t)) = num_at R J CoordinatorLeaderTermRedisKey s"
      using scr by (auto simp: compareAndSetTopology_script_def dec_enc_topology Let_def split: if_splits)
    then show "num_at R J CoordinatorLeaderTermRedisKey s = int (unat lt) \<and> tp_LeaderTerm t = lt"
      by (metis of_nat_eq_iff word_unat_eq_iff)
  qed
  have "migrate_then_commit R J (enc_topology J t) mig (fence_args t) s = (Some 1, s') \<and>
    (\<forall>c. stored_topology R J s = Some c \<longrightarrow> tp_Version c = v \<and> epochs_ok c t)"
    using scr unfolding compareAndSetTopology_script_def dec_enc_topology option.case stored_topology_def
    by (auto split: if_splits option.splits)
  then show ?thesis using v lt
    by (auto simp: migrate_then_commit_def split: option.splits)
qed

end

lemma commit_facts:
  assumes R: "redis_server R J" and ok: "compareAndSaveTopology R J n v t mig lt s = (None, s')"
  shows "stored_topology R J s' = Some t \<and>
    (\<forall>m a. map_of (tp_Owners t) m = Some a \<longrightarrow>
       fence_token R J s' m = Some (a, unat (get_or 0 (tp_MapEpochs t) m))) \<and>
    (\<forall>u. session_at R J s' u = map_option (migrate mig) (session_at R J s u)) \<and>
    (\<forall>m. HGET R ''checkpoints'' m s' = HGET R ''checkpoints'' m s) \<and>
    (\<forall>c. stored_topology R J s = Some c \<longrightarrow> tp_Version c = v) \<and> tp_Version t = v + 1 \<and>
    (lt \<noteq> 0 \<longrightarrow> num_at R J CoordinatorLeaderTermRedisKey s = int (unat lt) \<and> tp_LeaderTerm t = lt)"
proof -
  obtain us where us: "tp_Version t = v + 1"
    "case mig of None \<Rightarrow> us = [] | Some x \<Rightarrow> session_updates J x (HGETALL R ''global_sessions'' s) = Some us"
    "commit_script R J (enc_topology J t) (fence_args t) us s = (Some 1, s')"
    "\<forall>c. stored_topology R J s = Some c \<longrightarrow> tp_Version c = v \<and> epochs_ok c t"
    "lt \<noteq> 0 \<longrightarrow> num_at R J CoordinatorLeaderTermRedisKey s = int (unat lt) \<and> tp_LeaderTerm t = lt"
    using redis_server.cas_success [OF R ok] by blast
  have s': "s' = snd (commit_script R J (enc_topology J t) (fence_args t) us s)" using us(3) by simp
  have d: "distinct (keys us)"
    using us(2) session_updates_Some redis_server.HGETALL_distinct [OF R] by (fastforce split: option.splits)
  have "stored_topology R J s' = Some t"
    by (simp add: s' stored_topology_def redis_server.commit_topology [OF R] redis_server.dec_enc_topology [OF R])
  moreover have "fence_token R J s' m = Some (a, unat (get_or 0 (tp_MapEpochs t) m))" if "map_of (tp_Owners t) m = Some a" for m a
    using that by (simp add: s' fence_token_def redis_server.commit_fence [OF R])
  moreover have "session_at R J s' u = map_option (migrate mig) (session_at R J s u)" for u
  proof (cases mig)
    case None
    then have "HGET R ''global_sessions'' u s' = HGET R ''global_sessions'' u s"
      using us redis_server.commit_no_sessions [OF R] by auto
    moreover have "migrate None = (\<lambda>g. g)" by (rule ext) (simp add: migrate_def)
    ultimately show ?thesis using None by (simp add: session_at_def option.map_ident)
  next
    case (Some x)
    then show ?thesis using us redis_server.commit_sessions [OF R] by auto
  qed
  moreover have "HGET R ''checkpoints'' m s' = HGET R ''checkpoints'' m s" for m
    by (rule redis_server.commit_other_hash [OF R us(3) _ d]) simp
  ultimately show ?thesis using us by auto
qed

text \<open>C27: a commit of the topology that reports success has done all of it at once: the topology is
  stored, every map of \<open>Owners\<close> has its owner and epoch as fence, exactly the sessions on the old
  node of the migrated map point to the new node with the next version, and the checkpoints are
  untouched; it was made on the expected version, and for a leader under the current term.\<close>

theorem commit_is_complete:
  assumes R: "redis_server R J" and ok: "compareAndSaveTopology R J n v t mig lt s = (None, s')"
  shows "stored_topology R J s' = Some t \<and>
    (\<forall>m a. map_of (tp_Owners t) m = Some a \<longrightarrow>
       fence_token R J s' m = Some (a, unat (get_or 0 (tp_MapEpochs t) m))) \<and>
    (\<forall>u. session_at R J s' u = map_option (migrate mig) (session_at R J s u)) \<and>
    (\<forall>m. HGET R ''checkpoints'' m s' = HGET R ''checkpoints'' m s) \<and>
    (\<forall>c. stored_topology R J s = Some c \<longrightarrow> tp_Version c = v) \<and> tp_Version t = v + 1 \<and>
    (lt \<noteq> 0 \<longrightarrow> num_at R J CoordinatorLeaderTermRedisKey s = int (unat lt) \<and> tp_LeaderTerm t = lt)"
  using commit_facts [OF R ok] .

theorem commit_is_complete_witness:
  "compareAndSaveTopology mr mem_json Delivered 1 topo2 None 0 run1 = (None, run2) \<and>
   stored_topology mr mem_json run2 = Some topo2"
proof
  show ok: "compareAndSaveTopology mr mem_json Delivered 1 topo2 None 0 run1 = (None, run2)"
    unfolding run1_eq run2_eq by code_simp
  show "stored_topology mr mem_json run2 = Some topo2"
    using commit_is_complete [OF mem.redis_server_axioms ok] by blast
qed



context redis_server
begin

lemma cas_stored:
  assumes "compareAndSaveTopology R J n v t mig lt s = (None, s')"
  shows "stored_topology R J s' = Some t"
proof -
  obtain us where "commit_script R J (enc_topology J t) (fence_args t) us s = (Some 1, s')"
    using cas_success [OF assms] by blast
  then have "s' = snd (commit_script R J (enc_topology J t) (fence_args t) us s)" by simp
  then show ?thesis by (simp add: stored_topology_def commit_topology dec_enc_topology)
qed

lemma later_version_conflicts:
  assumes "store_inv R J s" "stored_topology R J s = Some t0" "(store_step R J)\<^sup>*\<^sup>* s s'"
    and "unat v < unat (tp_Version t0)"
  shows "fst (compareAndSaveTopology R J n v t mig lt s') \<noteq> None"
proof
  assume "fst (compareAndSaveTopology R J n v t mig lt s') = None"
  then obtain s2 where ok: "compareAndSaveTopology R J n v t mig lt s' = (None, s2)" by (metis prod.collapse)
  have "version_token R J s () = Some (t0, unat (tp_Version t0))" using assms(2) by (simp add: version_token_def)
  from version_clock.steps_token [OF assms(3,1) this] obtain c where
    "stored_topology R J s' = Some c" "unat (tp_Version t0) \<le> unat (tp_Version c)"
    by (auto simp: version_token_def)
  moreover have "tp_Version c = v" using cas_success [OF ok] calculation(1) by blast
  ultimately show False using assms(4) by simp
qed

end

text \<open>Of any number of commits made on the same version of the topology at most one succeeds: after
  one has been applied, no other on that version is accepted, however late it arrives.\<close>

theorem one_commit_per_version:
  assumes R: "redis_server R J" and inv: "store_inv R J s"
    and first: "compareAndSaveTopology R J n v t mig lt s = (None, s1)"
    and st: "(store_step R J)\<^sup>*\<^sup>* s1 s2"
  shows "fst (compareAndSaveTopology R J n' v t' mig' lt' s2) \<noteq> None"
proof -
  have t: "stored_topology R J s1 = Some t" "tp_Version t = v + 1" "Validate None t = None"
    using redis_server.cas_stored [OF R first] redis_server.cas_success [OF R first] by blast+
  have "v + 1 \<noteq> 0" using t(2,3) by (simp add: Validate_None_iff)
  have "unat v < unat (tp_Version t)" unfolding t(2) unat_Suc_version [OF \<open>v + 1 \<noteq> 0\<close>] by (rule lessI)
  moreover have "store_inv R J s1"
  proof -
    have "store_step R J s s1" using store_step.cas [of R J s n v t mig lt] first by simp
    from redis_server.store_step_inv [OF R inv this] show ?thesis .
  qed
  ultimately show ?thesis using redis_server.later_version_conflicts [OF R _ t(1) st] by blast
qed

theorem one_commit_per_version_witness:
  "fst (compareAndSaveTopology mr mem_json Delivered 1 (topo2\<lparr>tp_UpdatedAt := 9\<rparr>) None 0 run2) \<noteq> None"
proof -
  have "compareAndSaveTopology mr mem_json Delivered 1 topo2 None 0 run1 = (None, run2)"
    unfolding run1_eq run2_eq by code_simp
  from one_commit_per_version [OF mem.redis_server_axioms inv_run1 this rtranclp.rtrancl_refl] show ?thesis .
qed

section \<open>Two gaps\<close>

text \<open>When more sessions have to move than Lua can unpack, the script stops with a run-time error
  after it has written the topology and the fences: the caller sees an error, the takeover is
  visible to everybody, and not one session has moved.\<close>

theorem too_many_sessions_half_commit:
  assumes R: "redis_server R J"
    and v: "Validate None t = None" "tp_Version t = v + 1"
    and cur: "stored_topology R J s = Some c" "tp_Version c = v" "v \<noteq> 0" "epochs_ok c t"
      "unat (tp_LeaderTerm c) \<le> unat (tp_LeaderTerm t)"
    and us: "session_updates J x (HGETALL R ''global_sessions'' s) = Some us" "us \<noteq> []" "unpack_max R < 2 * length us"
  shows "\<exists>s'. compareAndSaveTopology R J Delivered v t (Some x) 0 s = (Some ErrScript, s') \<and>
    stored_topology R J s' = Some t \<and>
    (\<forall>m a. map_of (tp_Owners t) m = Some a \<longrightarrow>
       fence_token R J s' m = Some (a, unat (get_or 0 (tp_MapEpochs t) m))) \<and>
    (\<forall>u. session_at R J s' u = session_at R J s u)"
proof -
  define s' where "s' = snd (commit_script R J (enc_topology J t) (fence_args t) us s)"
  obtain d where d: "GET R TopologyRedisKey s = Some d" "dec_topology J d = Some c"
    using cur(1) by (auto simp: stored_topology_def split: option.splits)
  have com: "commit_script R J (enc_topology J t) (fence_args t) us s = (None, s')"
    using us(2,3) by (simp add: commit_script_def Let_def s'_def)
  have "0 < unat v" using cur(3) by (simp add: unat_gt_0)
  then have "compareAndSetTopology_script R J v (enc_topology J t) (Some x) None (fence_args t) s = (None, s')"
    using d cur us(1) com
    by (simp add: compareAndSetTopology_script_def redis_server.dec_enc_topology [OF R] migrate_then_commit_def)
  then have "compareAndSaveTopology R J Delivered v t (Some x) 0 s = (Some ErrScript, s')"
    using v cur(3) by (simp add: compareAndSaveTopology_def prepareTopology_def rpc_def)
  moreover have "stored_topology R J s' = Some t"
    by (simp add: s'_def stored_topology_def redis_server.commit_topology [OF R] redis_server.dec_enc_topology [OF R])
  moreover have "fence_token R J s' m = Some (a, unat (get_or 0 (tp_MapEpochs t) m))"
    if "map_of (tp_Owners t) m = Some a" for m a
    using that by (simp add: s'_def fence_token_def redis_server.commit_fence [OF R])
  moreover have "session_at R J s' u = session_at R J s u" for u
    using us(2,3)
    by (simp add: s'_def session_at_def commit_script_def Let_def write_fences_def redis_server.HGET_fold_SET [OF R]
        redis_server.HGET_SET [OF R])
  ultimately show ?thesis by blast
qed

definition seat :: "string \<Rightarrow> GlobalSession" where
  "seat u = \<lparr>gl_Username = u, gl_MapID = ''m'', gl_NodeID = ''n1'', gl_Version = 1\<rparr>"

definition crowd :: mem where
  "crowd = run1\<lparr>m_hashes := [(''global_sessions'', [(''ann'', DSession (seat ''ann'')), (''bob'', DSession (seat ''bob''))])]\<rparr>"

theorem too_many_sessions_half_commit_witness:
  "\<exists>s'. compareAndSaveTopology (mem_redis 3) mem_json Delivered 1 topo2
       (Some \<lparr>sm_MapID = ''m'', sm_OldNodeID = ''n1'', sm_NewNodeID = ''n2''\<rparr>) 0 crowd = (Some ErrScript, s') \<and>
     stored_topology (mem_redis 3) mem_json s' = Some topo2 \<and>
     session_at (mem_redis 3) mem_json s' ''ann'' = Some (seat ''ann'')"
proof -
  let ?x = "\<lparr>sm_MapID = ''m'', sm_OldNodeID = ''n1'', sm_NewNodeID = ''n2''\<rparr>"
  define us where "us = the (session_updates mem_json ?x (HGETALL (mem_redis 3) ''global_sessions'' crowd))"
  have us: "session_updates mem_json ?x (HGETALL (mem_redis 3) ''global_sessions'' crowd) = Some us" "length us = 2"
    unfolding us_def crowd_def run1_eq by code_simp+
  have pre: "tp_Version topo2 = 1 + 1" "stored_topology (mem_redis 3) mem_json crowd = Some topo1" "tp_Version topo1 = 1"
    "(1 :: u64) \<noteq> 0" "epochs_ok topo1 topo2" "unat (tp_LeaderTerm topo1) \<le> unat (tp_LeaderTerm topo2)"
    unfolding crowd_def run1_eq by code_simp+
  have "us \<noteq> []" "unpack_max (mem_redis 3) < 2 * length us"
    using us(2) by (auto simp: mem_redis_def)
  from too_many_sessions_half_commit [OF mem.redis_server_axioms topo_valid(2) pre us(1) this] obtain s' where
    "compareAndSaveTopology (mem_redis 3) mem_json Delivered 1 topo2 (Some ?x) 0 crowd = (Some ErrScript, s')"
    "stored_topology (mem_redis 3) mem_json s' = Some topo2"
    "session_at (mem_redis 3) mem_json s' ''ann'' = session_at (mem_redis 3) mem_json crowd ''ann''"
    by blast
  moreover have "session_at (mem_redis 3) mem_json crowd ''ann'' = Some (seat ''ann'')"
    unfolding crowd_def run1_eq by code_simp
  ultimately show ?thesis by auto
qed

text \<open>The fences of a commit are those of \<open>Owners\<close>. A map that is taken out of \<open>Owners\<close> and keeps
  its epoch, one further, as the epoch rule demands, keeps its old fence: the store has no owner
  for it, and the old owner still passes the fence check.\<close>

theorem removed_owner_keeps_fence:
  assumes R: "redis_server R J" and ok: "compareAndSaveTopology R J n v t mig lt s = (None, s')"
    and gone: "map_of (tp_Owners t) m = None" and own: "RequireMapFence R J Delivered m a e s = None"
  shows "RequireMapFence R J Delivered m a e s' = None"
proof -
  obtain us where "commit_script R J (enc_topology J t) (fence_args t) us s = (Some 1, s')"
    using redis_server.cas_success [OF R ok] by blast
  then have "s' = snd (commit_script R J (enc_topology J t) (fence_args t) us s)" by simp
  then have "fence_token R J s' m = fence_token R J s m"
    using gone by (simp add: fence_token_def redis_server.commit_fence [OF R])
  with own show ?thesis by (simp add: RequireMapFence_None)
qed

theorem removed_owner_keeps_fence_witness:
  "RequireMapFence mr mem_json Delivered ''m'' ''n1'' 1
     (snd (compareAndSaveTopology mr mem_json Delivered 1 (topo2\<lparr>tp_Owners := []\<rparr>) None 0 run1)) = None"
proof -
  have "fst (compareAndSaveTopology mr mem_json Delivered 1 (topo2\<lparr>tp_Owners := []\<rparr>) None 0 run1) = None"
    "RequireMapFence mr mem_json Delivered ''m'' ''n1'' 1 run1 = None" "map_of (tp_Owners (topo2\<lparr>tp_Owners := []\<rparr>)) ''m'' = None"
    unfolding run1_eq by code_simp+
  with removed_owner_keeps_fence [OF mem.redis_server_axioms] show ?thesis by (metis prod.collapse)
qed

end
