(* ===== verification/Boss_Props.thy ===== *)
theory Boss_Props
  imports Fence_Props
begin

text \<open>
  The global boss: its points live in Redis, every node attacks it through one script. Whatever the
  order in which the attacks of all nodes arrive, one of them is the killing blow.
\<close>

fun attack_all :: "('s, 'd) redis \<Rightarrow> 'd json \<Rightarrow> (string \<times> int) list \<Rightarrow> 's \<Rightarrow> bool list \<times> 's" where
  "attack_all R J [] s = ([], s)"
| "attack_all R J ((user, damage) # as) s =
     (let (r, s) = AtomicAttackBoss R J Delivered user damage s;
          (ks, s) = attack_all R J as s
      in ((case r of Inl _ \<Rightarrow> False | Inr (_, isKiller, _) \<Rightarrow> isKiller) # ks, s))"

definition boss_at :: "('s, 'd) redis \<Rightarrow> 'd json \<Rightarrow> int \<Rightarrow> 's \<Rightarrow> bool" where
  "boss_at R J hp s \<longleftrightarrow> GET R boss_hp_key s = Some (enc_int J hp) \<and> GET R boss_state_key s \<noteq> None"

definition total_damage :: "(string \<times> int) list \<Rightarrow> int" where
  "total_damage as = sum_list (map snd as)"

context redis_server
begin

lemma attack_once:
  assumes "boss_at R J hp s" "0 < d"
  shows "hp \<le> 0 \<Longrightarrow> \<exists>st. AtomicAttackBoss R J Delivered u d s = (Inr (-1, False, st), s)"
    "0 < hp \<Longrightarrow> hp \<le> d \<Longrightarrow> \<exists>s' v. AtomicAttackBoss R J Delivered u d s = (Inr (v, True, zero_BossState), s') \<and> boss_at R J 0 s'"
    "d < hp \<Longrightarrow> \<exists>s' v. AtomicAttackBoss R J Delivered u d s = (Inr (v, False, zero_BossState), s') \<and> boss_at R J (hp - d) s'"
proof -
  have g: "GET R boss_hp_key s = Some (enc_int J hp)" and n: "num_at R J boss_hp_key s = hp"
    using assms(1) by (simp_all add: boss_at_def num_at_def dec_enc_int)
  obtain st where st: "GET R boss_state_key s = Some st" using assms(1) by (auto simp: boss_at_def)
  show "hp \<le> 0 \<Longrightarrow> \<exists>st. AtomicAttackBoss R J Delivered u d s = (Inr (-1, False, st), s)"
    by (simp add: AtomicAttackBoss_def rpc_def attackBoss_script_def g dec_enc_int st)
  show "0 < hp \<Longrightarrow> hp \<le> d \<Longrightarrow> \<exists>s' v. AtomicAttackBoss R J Delivered u d s = (Inr (v, True, zero_BossState), s') \<and> boss_at R J 0 s'"
    using assms(2) by (simp add: AtomicAttackBoss_def rpc_def attackBoss_script_def g dec_enc_int Let_def case_prod_beta INCRBY_value n
        boss_at_def GET_SET GET_INCRBY st)
  show "d < hp \<Longrightarrow> \<exists>s' v. AtomicAttackBoss R J Delivered u d s = (Inr (v, False, zero_BossState), s') \<and> boss_at R J (hp - d) s'"
    using assms(2) by (simp add: AtomicAttackBoss_def rpc_def attackBoss_script_def g dec_enc_int Let_def case_prod_beta INCRBY_value n
        boss_at_def GET_SET GET_INCRBY st)
qed

lemma attack_dead: "boss_at R J 0 s \<Longrightarrow> list_all (\<lambda>a. 0 < snd a) as \<Longrightarrow>
    filter (\<lambda>k. k) (fst (attack_all R J as s)) = [] \<and> snd (attack_all R J as s) = s"
proof (induction as)
  case (Cons a as)
  obtain u d where a: "a = (u, d)" by fastforce
  obtain st where "AtomicAttackBoss R J Delivered u d s = (Inr (-1, False, st), s)" using attack_once(1) [OF Cons.prems(1), of d u] Cons.prems a by auto
  with Cons a show ?case by (simp add: case_prod_beta Let_def)
qed simp

lemma attack_all_once:
  assumes "boss_at R J hp s" "0 < hp" "list_all (\<lambda>a. 0 < snd a) as"
  shows "length (filter (\<lambda>k. k) (fst (attack_all R J as s))) = (if hp \<le> total_damage as then 1 else 0) \<and>
    boss_at R J (max 0 (hp - total_damage as)) (snd (attack_all R J as s))"
  using assms
proof (induction as arbitrary: hp s)
  case (Cons a as)
  obtain u d where a: "a = (u, d)" by fastforce
  have d: "0 < d" and as: "list_all (\<lambda>a. 0 < snd a) as" using Cons.prems a by auto
  have tot: "0 \<le> total_damage as" using as by (fastforce simp: total_damage_def list_all_iff intro: sum_list_nonneg)
  show ?case
  proof (cases "hp \<le> d")
    case True
    obtain s' v where r: "AtomicAttackBoss R J Delivered u d s = (Inr (v, True, zero_BossState), s')" "boss_at R J 0 s'"
      using attack_once(2) [OF Cons.prems(1) d Cons.prems(2) True, of u] by blast
    with attack_dead [OF r(2) as] tot True a show ?thesis by (simp add: case_prod_beta Let_def total_damage_def)
  next
    case False
    obtain s' v where r: "AtomicAttackBoss R J Delivered u d s = (Inr (v, False, zero_BossState), s')" "boss_at R J (hp - d) s'"
      using attack_once(3) [OF Cons.prems(1) d, of u] False by auto
    from Cons.IH [OF r(2) _ as] False r(1) a show ?thesis
      by (simp add: case_prod_beta Let_def total_damage_def algebra_simps)
  qed
qed (simp add: total_damage_def)

end



end
