(* ===== verification/Authority.thy ===== *)
theory Authority
  imports Store
begin

text \<open>
  The authority of a node over its maps (\<open>node/authority.go\<close>): the last committed topology the node
  has seen, trusted for a limited time. \<open>now\<close> is the result of the \<open>c.now()\<close> the method calls;
  \<open>loaded\<close> is what \<open>LoadTopology\<close> returned.
\<close>

datatype node_error =
    ErrTopologyAuthorityUnavailable | ErrMapAuthorityDenied | ErrMapPromotionDenied
  | ErrNodeDraining | ErrDrainTopologyUnavailable | ErrDrainOwnershipPending "string list" | ErrDrainContextNil
  | ErrLoadTopology store_error | ErrTopologyInvalid topology_error | ErrStaleTopology u64 u64
  | ErrUnknownMap string | ErrMapNotReady | ErrMapNotHosted string | ErrNoProfile | ErrBadCheckpoint string
  | ErrStore store_error

record MapAuthority =
  au_MapID :: string
  au_Owner :: string
  au_Epoch :: u64

record authorityCache =
  ac_nodeID :: string
  ac_grace :: int
  ac_topology :: Topology
  ac_loadedAt :: time
  ac_topologyOK :: bool

definition zero_Topology :: Topology where
  "zero_Topology = \<lparr>tp_Version = 0, tp_LeaderTerm = 0, tp_Owners = [], tp_MapEpochs = [], tp_UpdatedAt = zero_time\<rparr>"

definition newAuthorityCache :: "string \<Rightarrow> int \<Rightarrow> authorityCache" where
  "newAuthorityCache nodeID grace =
     \<lparr>ac_nodeID = nodeID, ac_grace = grace, ac_topology = zero_Topology, ac_loadedAt = zero_time, ac_topologyOK = False\<rparr>"

definition refresh_cache ::
    "time \<Rightarrow> store_error + Topology option \<Rightarrow> authorityCache \<Rightarrow> node_error option \<times> authorityCache" where
  "refresh_cache now loaded c =
     (case loaded of
        Inl e \<Rightarrow> (Some (ErrLoadTopology e), c)
      | Inr None \<Rightarrow> (Some ErrTopologyAuthorityUnavailable, c)
      | Inr (Some topology) \<Rightarrow>
          (case Validate None topology of
             Some e \<Rightarrow> (Some (ErrTopologyInvalid e), c)
           | None \<Rightarrow>
               if ac_topologyOK c \<and> tp_Version topology < tp_Version (ac_topology c)
               then (Some (ErrStaleTopology (tp_Version topology) (tp_Version (ac_topology c))), c)
               else (None, c\<lparr>ac_topology := Clone topology, ac_loadedAt := now, ac_topologyOK := True\<rparr>)))"

definition freshLocked :: "time \<Rightarrow> authorityCache \<Rightarrow> bool" where
  "freshLocked now c \<longleftrightarrow>
     (if \<not> ac_topologyOK c \<or> IsZero (ac_loadedAt c) then False else now - ac_loadedAt c \<le> ac_grace c)"

definition Require :: "time \<Rightarrow> string \<Rightarrow> u64 \<Rightarrow> authorityCache \<Rightarrow> node_error option" where
  "Require now mapID epoch c =
     (if \<not> freshLocked now c then Some ErrTopologyAuthorityUnavailable
      else
        let owner = get_or [] (tp_Owners (ac_topology c)) mapID;
            currentEpoch = get_or 0 (tp_MapEpochs (ac_topology c)) mapID
        in if owner \<noteq> ac_nodeID c \<or> currentEpoch = 0 \<or> currentEpoch \<noteq> epoch then Some ErrMapAuthorityDenied
           else None)"

definition Current :: "time \<Rightarrow> string \<Rightarrow> authorityCache \<Rightarrow> MapAuthority option" where
  "Current now mapID c =
     (if \<not> freshLocked now c then None
      else
        let authority = \<lparr>au_MapID = mapID, au_Owner = get_or [] (tp_Owners (ac_topology c)) mapID,
                         au_Epoch = get_or 0 (tp_MapEpochs (ac_topology c)) mapID\<rparr>
        in if au_Owner authority \<noteq> ac_nodeID c \<or> au_Epoch authority = 0 then None else Some authority)"

definition OwnedMapIDs :: "time \<Rightarrow> authorityCache \<Rightarrow> string list option" where
  "OwnedMapIDs now c =
     (if \<not> freshLocked now c then None
      else Some (sort (map fst (filter (\<lambda>(mapID, owner). owner = ac_nodeID c \<and> get_or 0 (tp_MapEpochs (ac_topology c)) mapID > 0)
                                  (tp_Owners (ac_topology c))))))"

definition RequirePromotionCandidate_cache :: "time \<Rightarrow> string \<Rightarrow> u64 \<Rightarrow> authorityCache \<Rightarrow> node_error option" where
  "RequirePromotionCandidate_cache now mapID targetEpoch c =
     (if \<not> freshLocked now c then Some ErrTopologyAuthorityUnavailable
      else
        let owner = get_or [] (tp_Owners (ac_topology c)) mapID;
            currentEpoch = get_or 0 (tp_MapEpochs (ac_topology c)) mapID
        in if owner = [] \<or> owner = ac_nodeID c \<or> currentEpoch = 0 \<or> targetEpoch \<noteq> currentEpoch + 1
           then Some ErrMapPromotionDenied
           else None)"

section \<open>Lemmas\<close>

lemma Require_None:
  "Require now m e c = None \<longleftrightarrow>
     freshLocked now c \<and> get_or [] (tp_Owners (ac_topology c)) m = ac_nodeID c \<and>
     get_or 0 (tp_MapEpochs (ac_topology c)) m = e \<and> e \<noteq> 0"
  by (auto simp: Require_def Let_def)

lemma Current_Some:
  "Current now m c = Some a \<longleftrightarrow>
     a = \<lparr>au_MapID = m, au_Owner = ac_nodeID c, au_Epoch = get_or 0 (tp_MapEpochs (ac_topology c)) m\<rparr> \<and>
     Require now m (au_Epoch a) c = None"
  by (auto simp: Current_def Require_None Let_def)

lemma OwnedMapIDs_Some:
  "OwnedMapIDs now c = Some ms \<Longrightarrow> freshLocked now c \<and>
     set ms = {m. \<exists>o'. (m, o') \<in> set (tp_Owners (ac_topology c)) \<and> o' = ac_nodeID c \<and> get_or 0 (tp_MapEpochs (ac_topology c)) m \<noteq> 0}"
  by (force simp: OwnedMapIDs_def word_gt_0 split: if_splits)

lemma fresh_until: "freshLocked now c \<Longrightarrow> now \<le> ac_loadedAt c + ac_grace c"
  by (simp add: freshLocked_def split: if_splits)

lemma refresh_cache_frame [simp]:
  "ac_nodeID (snd (refresh_cache now l c)) = ac_nodeID c" "ac_grace (snd (refresh_cache now l c)) = ac_grace c"
  by (auto simp: refresh_cache_def split: sum.split option.split)

text \<open>A refresh never goes back to an older version, and one that fails changes nothing.\<close>

lemma refresh_cache_version:
  "ac_topologyOK c \<Longrightarrow> ac_topologyOK (snd (refresh_cache now l c)) \<and>
     tp_Version (ac_topology c) \<le> tp_Version (ac_topology (snd (refresh_cache now l c)))"
  by (auto simp: refresh_cache_def not_less split: sum.split option.split)

lemma refresh_cache_error: "fst (refresh_cache now l c) \<noteq> None \<Longrightarrow> snd (refresh_cache now l c) = c"
  by (auto simp: refresh_cache_def split: sum.splits option.splits if_splits)

end
