(* ===== verification/Config.thy ===== *)
theory Config
  imports Prelude
begin

text \<open>
  Process configuration: \<open>config/config.go\<close> (environment variables) and \<open>config/runtime.go\<close> (the
  timings of \<open>runtime.yaml\<close>). Durations are Go's \<open>time.Duration\<close>, nanoseconds. The environment is an
  association list; reading the file and decoding YAML are not part of the repository, so
  \<open>LoadRuntimeFile\<close> takes what the file system returns and the decoder as arguments.
\<close>

section \<open>Environment variables\<close>

type_synonym env = "(string, string) alist"

definition Getenv :: "env \<Rightarrow> string \<Rightarrow> string" where
  "Getenv env key = get_or [] env key"

definition EnvOr :: "env \<Rightarrow> string \<Rightarrow> string \<Rightarrow> string" where
  "EnvOr env key def = (let v = TrimSpace (Getenv env key) in if v \<noteq> [] then v else def)"

fun EnvOrAny :: "env \<Rightarrow> string \<Rightarrow> string list \<Rightarrow> string" where
  "EnvOrAny env def [] = def"
| "EnvOrAny env def (key # ks) =
     (let value = TrimSpace (Getenv env key) in if value \<noteq> [] then value else EnvOrAny env def ks)"

definition DBHost :: "env \<Rightarrow> string" where
  "DBHost env = EnvOrAny env ''127.0.0.1'' [''BATTLEWORLD_STORE_ADDR'', ''BW_DB_HOST'']"

definition DBUser :: "env \<Rightarrow> string" where
  "DBUser env = EnvOrAny env ''wu_han_wen'' [''BATTLEWORLD_PGUSER'', ''BW_DB_USER'', ''PGUSER'']"

definition DBName :: "env \<Rightarrow> string" where
  "DBName env = EnvOrAny env ''battleworld'' [''BATTLEWORLD_PGDB'', ''BW_DB_NAME'']"

definition DBPort :: "env \<Rightarrow> string" where
  "DBPort env = EnvOrAny env ''5432'' [''BATTLEWORLD_PGPORT'', ''BW_DB_PORT'']"

definition RedisAddr :: "env \<Rightarrow> string" where
  "RedisAddr env =
     (let addr = EnvOrAny env [] [''BW_REDIS_ADDR'']
      in if addr \<noteq> [] then addr
         else ''127.0.0.1'' @ '':'' @ EnvOrAny env ''6379'' [''BATTLEWORLD_REDIS_PORT''])"

definition RedisPassword :: "env \<Rightarrow> string" where
  "RedisPassword env = EnvOrAny env [] [''BATTLEWORLD_REDIS_PASSWORD'', ''BW_REDIS_PASSWORD'']"

text \<open>\<open>strconv.Atoi\<close>: an optional sign and decimal digits, in the range of a 64-bit integer.\<close>

definition is_digit :: "char \<Rightarrow> bool" where
  "is_digit c \<longleftrightarrow> 48 \<le> (of_char c :: nat) \<and> (of_char c :: nat) \<le> 57"

definition digits_value :: "string \<Rightarrow> int option" where
  "digits_value s = (if s \<noteq> [] \<and> list_all is_digit s then Some (int (atoi s)) else None)"

definition Atoi :: "string \<Rightarrow> int option" where
  "Atoi s =
     (case (case s of
              [] \<Rightarrow> None
            | c # cs \<Rightarrow> if c = CHR ''-'' then map_option uminus (digits_value cs)
                        else if c = CHR ''+'' then digits_value cs
                        else digits_value s) of
        None \<Rightarrow> None
      | Some v \<Rightarrow> if - (2 ^ 63) \<le> v \<and> v < 2 ^ 63 then Some v else None)"

definition RedisDB :: "env \<Rightarrow> int" where
  "RedisDB env =
     (case Atoi (EnvOrAny env ''0'' [''BATTLEWORLD_REDIS_DB'', ''BW_REDIS_DB'']) of
        None \<Rightarrow> 0
      | Some db \<Rightarrow> if db < 0 then 0 else db)"

definition CoordinatorID :: "env \<Rightarrow> string" where
  "CoordinatorID env = EnvOrAny env [] [''BATTLEWORLD_COORDINATOR_ID'', ''BW_COORDINATOR_ID'']"

section \<open>Timings\<close>

definition millisecond :: int where
  "millisecond = 1000000"

record LeaderElectionConfig =
  le_LeaseTTL :: int
  le_RenewInterval :: int
  le_CampaignRetryInterval :: int

record NodeRegistryConfig =
  ng_HeartbeatInterval :: int
  ng_LeaseTTL :: int

record CoordinatorConfig =
  cc_DiscoveryInterval :: int
  cc_HealthCheckInterval :: int
  cc_NodePingTimeout :: int
  cc_LeaderRetryInterval :: int
  cc_BossReconcileInterval :: int

record NodeConfig =
  nc_TopologyRefreshInterval :: int
  nc_TopologyAuthorityGrace :: int
  nc_WorldTickInterval :: int
  nc_HotSessionFlushInterval :: int
  nc_DrainPollInterval :: int
  nc_DrainTimeout :: int

record GatewayConfig =
  gc_TopologyRefreshInterval :: int
  gc_MapSnapshotRefreshInterval :: int
  gc_StreamStateInterval :: int
  gc_NodeRPCTimeout :: int

record HTTPConfig =
  hc_LifecycleReadHeaderTimeout :: int
  hc_PprofEnabled :: bool
  hc_PprofAddr :: string

record RuntimeConfig =
  rc_Version :: int
  rc_LeaderElection :: LeaderElectionConfig
  rc_NodeRegistry :: NodeRegistryConfig
  rc_Coordinator :: CoordinatorConfig
  rc_Node :: NodeConfig
  rc_Gateway :: GatewayConfig
  rc_HTTP :: HTTPConfig

definition DefaultRuntime :: RuntimeConfig where
  "DefaultRuntime =
     \<lparr>rc_Version = 1,
      rc_LeaderElection = \<lparr>le_LeaseTTL = 3 * second, le_RenewInterval = second,
                           le_CampaignRetryInterval = 200 * millisecond\<rparr>,
      rc_NodeRegistry = \<lparr>ng_HeartbeatInterval = 3 * second, ng_LeaseTTL = 5 * second\<rparr>,
      rc_Coordinator = \<lparr>cc_DiscoveryInterval = second, cc_HealthCheckInterval = second,
                        cc_NodePingTimeout = 500 * millisecond, cc_LeaderRetryInterval = 250 * millisecond,
                        cc_BossReconcileInterval = second\<rparr>,
      rc_Node = \<lparr>nc_TopologyRefreshInterval = 500 * millisecond, nc_TopologyAuthorityGrace = 2 * second,
                 nc_WorldTickInterval = 700 * millisecond, nc_HotSessionFlushInterval = 10 * second,
                 nc_DrainPollInterval = 100 * millisecond, nc_DrainTimeout = 30 * second\<rparr>,
      rc_Gateway = \<lparr>gc_TopologyRefreshInterval = 500 * millisecond,
                    gc_MapSnapshotRefreshInterval = 150 * millisecond,
                    gc_StreamStateInterval = 100 * millisecond, gc_NodeRPCTimeout = 500 * millisecond\<rparr>,
      rc_HTTP = \<lparr>hc_LifecycleReadHeaderTimeout = 5 * second, hc_PprofEnabled = True,
                 hc_PprofAddr = ''localhost:6060''\<rparr>\<rparr>"

datatype config_error =
    UnsupportedVersion int | NotPositive string int | RenewNotBelowLease | HeartbeatNotBelowLease
  | PingNotBelowCheck | GraceBelowTwoRefreshes | PprofAddrMissing | UnreadableFile | BadYAML

text \<open>
  The durations by name. The source ranges over a Go map of them, so which one of several
  offenders is reported is not determined; the model reports the first of this list. Whether
  there is an error does not depend on the order.
\<close>

definition durations :: "RuntimeConfig \<Rightarrow> (string \<times> int) list" where
  "durations c =
     [(''leader_election.lease_ttl'', le_LeaseTTL (rc_LeaderElection c)),
      (''leader_election.renew_interval'', le_RenewInterval (rc_LeaderElection c)),
      (''leader_election.campaign_retry_interval'', le_CampaignRetryInterval (rc_LeaderElection c)),
      (''node_registry.heartbeat_interval'', ng_HeartbeatInterval (rc_NodeRegistry c)),
      (''node_registry.lease_ttl'', ng_LeaseTTL (rc_NodeRegistry c)),
      (''coordinator.discovery_interval'', cc_DiscoveryInterval (rc_Coordinator c)),
      (''coordinator.health_check_interval'', cc_HealthCheckInterval (rc_Coordinator c)),
      (''coordinator.node_ping_timeout'', cc_NodePingTimeout (rc_Coordinator c)),
      (''coordinator.leader_retry_interval'', cc_LeaderRetryInterval (rc_Coordinator c)),
      (''coordinator.boss_reconcile_interval'', cc_BossReconcileInterval (rc_Coordinator c)),
      (''node.topology_refresh_interval'', nc_TopologyRefreshInterval (rc_Node c)),
      (''node.topology_authority_grace'', nc_TopologyAuthorityGrace (rc_Node c)),
      (''node.world_tick_interval'', nc_WorldTickInterval (rc_Node c)),
      (''node.hot_session_flush_interval'', nc_HotSessionFlushInterval (rc_Node c)),
      (''node.drain_poll_interval'', nc_DrainPollInterval (rc_Node c)),
      (''node.drain_timeout'', nc_DrainTimeout (rc_Node c)),
      (''gateway.topology_refresh_interval'', gc_TopologyRefreshInterval (rc_Gateway c)),
      (''gateway.map_snapshot_refresh_interval'', gc_MapSnapshotRefreshInterval (rc_Gateway c)),
      (''gateway.stream_state_interval'', gc_StreamStateInterval (rc_Gateway c)),
      (''gateway.node_rpc_timeout'', gc_NodeRPCTimeout (rc_Gateway c)),
      (''http.lifecycle_read_header_timeout'', hc_LifecycleReadHeaderTimeout (rc_HTTP c))]"

definition ValidateRuntime :: "RuntimeConfig \<Rightarrow> config_error option" where
  "ValidateRuntime c =
     (if rc_Version c \<noteq> 1 then Some (UnsupportedVersion (rc_Version c))
      else case filter (\<lambda>(name, value). value \<le> 0) (durations c) of
             (name, value) # _ \<Rightarrow> Some (NotPositive name value)
           | [] \<Rightarrow>
               if le_RenewInterval (rc_LeaderElection c) \<ge> le_LeaseTTL (rc_LeaderElection c)
               then Some RenewNotBelowLease
               else if ng_HeartbeatInterval (rc_NodeRegistry c) \<ge> ng_LeaseTTL (rc_NodeRegistry c)
               then Some HeartbeatNotBelowLease
               else if cc_NodePingTimeout (rc_Coordinator c) \<ge> cc_HealthCheckInterval (rc_Coordinator c)
               then Some PingNotBelowCheck
               else if nc_TopologyAuthorityGrace (rc_Node c) < 2 * nc_TopologyRefreshInterval (rc_Node c)
               then Some GraceBelowTwoRefreshes
               else if hc_PprofEnabled (rc_HTTP c) \<and> hc_PprofAddr (rc_HTTP c) = []
               then Some PprofAddrMissing
               else None)"

datatype config_file = NoFile | Unreadable | Contents string

text \<open>\<open>decode base text\<close> is the YAML decoder with known fields only, filling in \<open>base\<close>.\<close>

definition LoadRuntimeFile ::
    "(RuntimeConfig \<Rightarrow> string \<Rightarrow> RuntimeConfig option) \<Rightarrow> config_file \<Rightarrow> config_error + RuntimeConfig" where
  "LoadRuntimeFile decode f =
     (case f of
        NoFile \<Rightarrow> Inr DefaultRuntime
      | Unreadable \<Rightarrow> Inl UnreadableFile
      | Contents data \<Rightarrow>
          (case decode DefaultRuntime data of
             None \<Rightarrow> Inl BadYAML
           | Some cfg \<Rightarrow> (case ValidateRuntime cfg of Some e \<Rightarrow> Inl e | None \<Rightarrow> Inr cfg)))"

section \<open>Lemmas\<close>

lemma DefaultRuntime_valid: "ValidateRuntime DefaultRuntime = None"
  by (simp add: ValidateRuntime_def durations_def DefaultRuntime_def second_def millisecond_def)

lemma loaded_valid: "LoadRuntimeFile decode f = Inr c \<Longrightarrow> ValidateRuntime c = None"
  using DefaultRuntime_valid by (auto simp: LoadRuntimeFile_def split: config_file.splits option.splits)

lemma valid_durations:
  assumes "ValidateRuntime c = None" "(name, v) \<in> set (durations c)"
  shows "0 < v"
proof (rule ccontr)
  assume "\<not> 0 < v"
  then have "filter (\<lambda>(name, value). value \<le> 0) (durations c) \<noteq> []"
    using assms(2) by (force simp: filter_empty_conv)
  then show False using assms(1) by (auto simp: ValidateRuntime_def neq_Nil_conv split: if_splits)
qed

lemma valid_order:
  assumes "ValidateRuntime c = None"
  shows "le_RenewInterval (rc_LeaderElection c) < le_LeaseTTL (rc_LeaderElection c)"
    "ng_HeartbeatInterval (rc_NodeRegistry c) < ng_LeaseTTL (rc_NodeRegistry c)"
    "2 * nc_TopologyRefreshInterval (rc_Node c) \<le> nc_TopologyAuthorityGrace (rc_Node c)"
  using assms by (auto simp: ValidateRuntime_def split: if_splits list.splits prod.splits)

end
