(* ===== verification/Node.thy ===== *)
theory Node
  imports Authority Config Checkpoint
begin

text \<open>
  A node (\<open>node/node.go\<close>, \<open>node/drain.go\<close>): the worlds it hosts, its authority over them, and every
  write guarded by the fence in Redis. The node's locks make each method atomic on the node; the
  store is shared, so between two accesses to it others may write. A call therefore takes an
  \<open>io\<close>: for its \<open>k\<close>-th access to the store, what the others did before (\<open>ev_others\<close>), what the network
  does to it (\<open>ev_net\<close>) and the time (\<open>ev_now\<close>).

  \<^item> \<open>process\<close> is what a process is given: the rendering of times, the random stream of a new world
    (seeded from the map id), and the order in which Go visits the players of a world.
  \<^item> A call that creates a world may not return (\<open>NewWorld\<close> draws until it finds room), so its result is
    an \<open>option\<close>.
  \<^item> The loops are modelled by what one iteration does (\<open>refreshTopology\<close>, \<open>flush_iteration\<close>, \<open>tick_map\<close>);
    timers, logging and the \<open>stopCh\<close> channel only say when the next iteration comes.
  \<^item> \<open>ns_store\<close> is whether the node has a store at all.
\<close>

record 's io =
  ev_net :: "nat \<Rightarrow> net"
  ev_others :: "nat \<Rightarrow> 's \<Rightarrow> 's"
  ev_now :: "nat \<Rightarrow> time"

record process =
  se_rfc3339 :: "time \<Rightarrow> string"
  se_dice :: "string \<Rightarrow> nat \<Rightarrow> nat"
  se_order :: "World \<Rightarrow> string list"

record NodeService =
  ns_ID :: string
  ns_Addr :: string
  ns_store :: bool
  ns_candidateMapID :: string
  ns_runtime :: NodeConfig
  ns_authority :: authorityCache
  ns_healthy :: bool
  ns_draining :: bool
  ns_lastHeartbeat :: time
  ns_maps :: "(string, World) alist"
  ns_ln :: bool
  ns_stopped :: bool

definition NewNodeService :: "time \<Rightarrow> string \<Rightarrow> string \<Rightarrow> bool \<Rightarrow> NodeConfig \<Rightarrow> string \<Rightarrow> NodeService" where
  "NewNodeService now id' addr store runtime candidateMapID =
     \<lparr>ns_ID = id', ns_Addr = addr, ns_store = store, ns_candidateMapID = candidateMapID, ns_runtime = runtime,
      ns_authority = newAuthorityCache id' (nc_TopologyAuthorityGrace runtime), ns_healthy = True, ns_draining = False,
      ns_lastHeartbeat = now, ns_maps = [], ns_ln = False, ns_stopped = False\<rparr>"

text \<open>The boolean says whether the loops are started.\<close>

definition Start :: "time \<Rightarrow> NodeService \<Rightarrow> bool \<times> NodeService" where
  "Start now n =
     (if ns_ln n then (False, n)
      else (True, n\<lparr>ns_lastHeartbeat := now, ns_healthy := True, ns_stopped := False\<rparr>))"

definition Stop :: "NodeService \<Rightarrow> NodeService" where
  "Stop n = n\<lparr>ns_ln := False, ns_healthy := False, ns_stopped := True\<rparr>"

definition put_map :: "string \<Rightarrow> World \<Rightarrow> NodeService \<Rightarrow> NodeService" where
  "put_map mapID w n = n\<lparr>ns_maps := AList.update mapID w (ns_maps n)\<rparr>"

section \<open>Authority\<close>

definition requireAuthority ::
    "('s, 'd) redis \<Rightarrow> 'd json \<Rightarrow> 's io \<Rightarrow> nat \<Rightarrow> string \<Rightarrow> u64 \<Rightarrow> NodeService \<Rightarrow> 's \<Rightarrow> node_error option \<times> 's" where
  "requireAuthority R J ev k mapID epoch n s =
     (case Require (ev_now ev k) mapID epoch (ns_authority n) of
        Some e \<Rightarrow> (Some e, s)
      | None \<Rightarrow>
          if \<not> ns_store n then (Some ErrTopologyAuthorityUnavailable, s)
          else let s = ev_others ev k s
               in (case RequireMapFence R J (ev_net ev k) mapID (ns_ID n) epoch s of
                     Some _ \<Rightarrow> Some ErrMapAuthorityDenied
                   | None \<Rightarrow> None, s))"

definition RequireAuthority ::
    "('s, 'd) redis \<Rightarrow> 'd json \<Rightarrow> 's io \<Rightarrow> string \<Rightarrow> u64 \<Rightarrow> NodeService \<Rightarrow> 's \<Rightarrow> node_error option \<times> 's" where
  "RequireAuthority R J ev mapID epoch n s =
     (if ns_draining n then (Some ErrNodeDraining, s) else requireAuthority R J ev 0 mapID epoch n s)"

definition beginWrite ::
    "('s, 'd) redis \<Rightarrow> 'd json \<Rightarrow> 's io \<Rightarrow> nat \<Rightarrow> string \<Rightarrow> u64 \<Rightarrow> NodeService \<Rightarrow> 's \<Rightarrow> node_error option \<times> 's" where
  "beginWrite R J ev k mapID epoch n s =
     (if ns_draining n then (Some ErrNodeDraining, s) else requireAuthority R J ev k mapID epoch n s)"

definition RequirePromotionCandidate :: "time \<Rightarrow> string \<Rightarrow> u64 \<Rightarrow> NodeService \<Rightarrow> node_error option" where
  "RequirePromotionCandidate now mapID targetEpoch n =
     (if ns_draining n then Some ErrNodeDraining
      else if ns_candidateMapID n \<noteq> [] \<and> mapID \<noteq> ns_candidateMapID n then Some ErrMapPromotionDenied
      else RequirePromotionCandidate_cache now mapID targetEpoch (ns_authority n))"

section \<open>Hosting maps\<close>

definition ensureHostedMap ::
    "('s, 'd) redis \<Rightarrow> 'd json \<Rightarrow> process \<Rightarrow> 's io \<Rightarrow> nat \<Rightarrow> string \<Rightarrow> NodeService \<Rightarrow> 's
     \<Rightarrow> (node_error option \<times> NodeService \<times> 's) option" where
  "ensureHostedMap R J E ev k mapID n s =
     (if has_key (ns_maps n) mapID then Some (None, n, s)
      else case find (\<lambda>c. cfg_ID c = mapID) AvailableMaps of
             None \<Rightarrow> Some (Some (ErrUnknownMap mapID), n, s)
           | Some config \<Rightarrow>
               (case NewWorld config (se_dice E (cfg_ID config)) of
                  None \<Rightarrow> None
                | Some instance \<Rightarrow>
                    if ns_store n
                    then let s = ev_others ev k s
                         in Some (None,
                              put_map mapID
                                (case LoadCheckpoint R J (ev_net ev k) mapID s of
                                   None \<Rightarrow> instance
                                 | Some cp \<Rightarrow> if c_MapID cp = mapID \<and> c_Version cp > 0
                                            then RestoreCheckpoint (ev_now ev k) cp instance else instance) n, s)
                    else Some (None, put_map mapID instance n, s)))"

fun ensure_maps ::
    "('s, 'd) redis \<Rightarrow> 'd json \<Rightarrow> process \<Rightarrow> 's io \<Rightarrow> nat \<Rightarrow> string list \<Rightarrow> NodeService \<Rightarrow> 's
     \<Rightarrow> (node_error option \<times> NodeService \<times> 's) option" where
  "ensure_maps R J E ev k [] n s = Some (None, n, s)"
| "ensure_maps R J E ev k (mapID # ms) n s =
     (case ensureHostedMap R J E ev k mapID n s of
        None \<Rightarrow> None
      | Some (Some e, n, s) \<Rightarrow> Some (Some e, n, s)
      | Some (None, n, s) \<Rightarrow> ensure_maps R J E ev (Suc k) ms n s)"

definition ensureOwnedMaps ::
    "('s, 'd) redis \<Rightarrow> 'd json \<Rightarrow> process \<Rightarrow> 's io \<Rightarrow> nat \<Rightarrow> NodeService \<Rightarrow> 's
     \<Rightarrow> (node_error option \<times> NodeService \<times> 's) option" where
  "ensureOwnedMaps R J E ev k n s =
     (case OwnedMapIDs (ev_now ev k) (ns_authority n) of
        None \<Rightarrow> Some (Some ErrTopologyAuthorityUnavailable, n, s)
      | Some mapIDs \<Rightarrow> ensure_maps R J E ev k mapIDs n s)"

definition refreshTopology ::
    "('s, 'd) redis \<Rightarrow> 'd json \<Rightarrow> process \<Rightarrow> 's io \<Rightarrow> NodeService \<Rightarrow> 's
     \<Rightarrow> (node_error option \<times> NodeService \<times> 's) option" where
  "refreshTopology R J E ev n s =
     (if \<not> ns_store n then Some (Some ErrTopologyAuthorityUnavailable, n, s)
      else
        let s = ev_others ev 0 s
        in case refresh_cache (ev_now ev 0) (LoadTopology R J (ev_net ev 0) s) (ns_authority n) of
             (Some e, c) \<Rightarrow> Some (Some e, n\<lparr>ns_authority := c\<rparr>, s)
           | (None, c) \<Rightarrow> ensureOwnedMaps R J E ev 1 (n\<lparr>ns_authority := c\<rparr>) s)"

definition RemoveHostedMap :: "string \<Rightarrow> NodeService \<Rightarrow> NodeService" where
  "RemoveHostedMap mapID n = n\<lparr>ns_maps := AList.delete mapID (ns_maps n)\<rparr>"

definition InstallPrimaryMap :: "process \<Rightarrow> MapConfig \<Rightarrow> NodeService \<Rightarrow> NodeService option" where
  "InstallPrimaryMap E cfg n =
     (if has_key (ns_maps n) (cfg_ID cfg) then Some n
      else map_option (\<lambda>w. put_map (cfg_ID cfg) w n) (NewWorld cfg (se_dice E (cfg_ID cfg))))"

definition RestorePrimaryMap :: "process \<Rightarrow> time \<Rightarrow> MapConfig \<Rightarrow> MapCheckpoint \<Rightarrow> NodeService \<Rightarrow> NodeService option" where
  "RestorePrimaryMap E now cfg cp n =
     (case map_of (ns_maps n) (cfg_ID cfg) of
        Some w \<Rightarrow> Some (put_map (cfg_ID cfg) (RestoreCheckpoint now cp w) n)
      | None \<Rightarrow> map_option (\<lambda>w. put_map (cfg_ID cfg) (RestoreCheckpoint now cp w) n) (NewWorld cfg (se_dice E (cfg_ID cfg))))"

definition Promote ::
    "process \<Rightarrow> time \<Rightarrow> string \<Rightarrow> MapConfig \<Rightarrow> MapCheckpoint \<Rightarrow> u64 \<Rightarrow> NodeService
     \<Rightarrow> (node_error option \<times> NodeService) option" where
  "Promote E now mapID cfg cp targetEpoch n =
     (case RequirePromotionCandidate now mapID targetEpoch n of
        Some e \<Rightarrow> Some (Some e, n)
      | None \<Rightarrow>
          if c_MapID cp \<noteq> mapID \<or> c_NodeID cp = [] \<or> c_Version cp \<le> 0 \<or> c_MapEpoch cp \<noteq> targetEpoch - 1
          then Some (Some (ErrBadCheckpoint mapID), n)
          else map_option (\<lambda>w. (None, put_map mapID (RestoreCheckpoint now cp w) n))
                 (NewWorld cfg (se_dice E (cfg_ID cfg))))"

section \<open>The data plane\<close>

text \<open>
  The skeleton of every command: the fence first, then the world of the map. \<open>absent\<close> is what the
  command returns when the node does not host the map.
\<close>

definition on_map ::
    "('s, 'd) redis \<Rightarrow> 'd json \<Rightarrow> 's io \<Rightarrow> string \<Rightarrow> u64 \<Rightarrow> 'r \<Rightarrow> (World \<Rightarrow> 'r \<times> World) \<Rightarrow> NodeService \<Rightarrow> 's
     \<Rightarrow> (node_error + 'r) \<times> NodeService \<times> 's" where
  "on_map R J ev mapID epoch absent act n s =
     (case beginWrite R J ev 0 mapID epoch n s of
        (Some e, s) \<Rightarrow> (Inl e, n, s)
      | (None, s) \<Rightarrow>
          (case map_of (ns_maps n) mapID of
             None \<Rightarrow> (Inr absent, n, s)
           | Some w \<Rightarrow> let (r, w') = act w in (Inr r, put_map mapID w' n, s)))"

definition AddPlayer ::
    "('s, 'd) redis \<Rightarrow> 'd json \<Rightarrow> process \<Rightarrow> 's io \<Rightarrow> string \<Rightarrow> u64 \<Rightarrow> UserProfile \<Rightarrow> NodeService \<Rightarrow> 's
     \<Rightarrow> (node_error option \<times> NodeService \<times> 's) option" where
  "AddPlayer R J E ev mapID epoch profile n s =
     (case beginWrite R J ev 0 mapID epoch n s of
        (Some e, s) \<Rightarrow> Some (Some e, n, s)
      | (None, s) \<Rightarrow>
          (case ensureHostedMap R J E ev 1 mapID n s of
             None \<Rightarrow> None
           | Some (Some e, n, s) \<Rightarrow> Some (Some e, n, s)
           | Some (None, n, s) \<Rightarrow>
               (case map_of (ns_maps n) mapID of
                  None \<Rightarrow> Some (Some ErrMapNotReady, n, s)
                | Some w \<Rightarrow>
                    Some (None, put_map mapID (snd (AddOrRestorePlayer (se_rfc3339 E) (ev_now ev 1) profile w)) n, s))))"

definition RemovePlayer_node ::
    "('s, 'd) redis \<Rightarrow> 'd json \<Rightarrow> 's io \<Rightarrow> string \<Rightarrow> string \<Rightarrow> u64 \<Rightarrow> NodeService \<Rightarrow> 's
     \<Rightarrow> (node_error + UserProfile \<times> bool) \<times> NodeService \<times> 's" where
  "RemovePlayer_node R J ev mapID username epoch =
     on_map R J ev mapID epoch (zero_UserProfile, False) (RemovePlayer username)"

definition MovePlayer_node ::
    "('s, 'd) redis \<Rightarrow> 'd json \<Rightarrow> 's io \<Rightarrow> string \<Rightarrow> string \<Rightarrow> string \<Rightarrow> u64 \<Rightarrow> NodeService \<Rightarrow> 's
     \<Rightarrow> (node_error + event \<times> UserProfile \<times> bool) \<times> NodeService \<times> 's" where
  "MovePlayer_node R J ev mapID username dir epoch =
     on_map R J ev mapID epoch (NoText, zero_UserProfile, False) (MovePlayer (ev_now ev 0) username dir)"

definition Attack_node ::
    "('s, 'd) redis \<Rightarrow> 'd json \<Rightarrow> 's io \<Rightarrow> string \<Rightarrow> string \<Rightarrow> u64 \<Rightarrow> NodeService \<Rightarrow> 's
     \<Rightarrow> (node_error + event \<times> string \<times> event \<times> UserProfile \<times> bool) \<times> NodeService \<times> 's" where
  "Attack_node R J ev mapID username epoch =
     on_map R J ev mapID epoch (NoText, [], NoText, zero_UserProfile, False) (Attack (ev_now ev 0) username)"

definition Heal ::
    "('s, 'd) redis \<Rightarrow> 'd json \<Rightarrow> 's io \<Rightarrow> string \<Rightarrow> string \<Rightarrow> u64 \<Rightarrow> NodeService \<Rightarrow> 's
     \<Rightarrow> (node_error + event \<times> UserProfile \<times> bool) \<times> NodeService \<times> 's" where
  "Heal R J ev mapID username epoch =
     on_map R J ev mapID epoch (NoText, zero_UserProfile, False) (HealPlayer (ev_now ev 0) username)"

definition BuyItem_node ::
    "('s, 'd) redis \<Rightarrow> 'd json \<Rightarrow> 's io \<Rightarrow> string \<Rightarrow> string \<Rightarrow> string \<Rightarrow> u64 \<Rightarrow> NodeService \<Rightarrow> 's
     \<Rightarrow> (node_error + event \<times> UserProfile \<times> bool) \<times> NodeService \<times> 's" where
  "BuyItem_node R J ev mapID username item epoch =
     on_map R J ev mapID epoch (NoText, zero_UserProfile, False) (BuyItem (ev_now ev 0) username item)"

definition RewardPlayer_node ::
    "('s, 'd) redis \<Rightarrow> 'd json \<Rightarrow> 's io \<Rightarrow> string \<Rightarrow> string \<Rightarrow> int \<Rightarrow> int \<Rightarrow> u64 \<Rightarrow> NodeService \<Rightarrow> 's
     \<Rightarrow> (node_error + UserProfile \<times> bool) \<times> NodeService \<times> 's" where
  "RewardPlayer_node R J ev mapID username treasureDelta victoryDelta epoch =
     on_map R J ev mapID epoch (zero_UserProfile, False) (RewardPlayer (ev_now ev 0) username treasureDelta victoryDelta)"

definition Profile :: "time \<Rightarrow> string \<Rightarrow> string \<Rightarrow> NodeService \<Rightarrow> (UserProfile \<times> bool) \<times> NodeService" where
  "Profile now mapID username n =
     (case map_of (ns_maps n) mapID of
        None \<Rightarrow> ((zero_UserProfile, False), n)
      | Some w \<Rightarrow> let (r, w') = ProfileOf now username w in (r, put_map mapID w' n))"

definition manhattan :: "int \<Rightarrow> int \<Rightarrow> int \<Rightarrow> int \<Rightarrow> int" where
  "manhattan ax ay bx by' =
     (let dx = ax - bx; dx = (if dx < 0 then - dx else dx);
          dy = ay - by'; dy = (if dy < 0 then - dy else dy)
      in dx + dy)"

text \<open>
  The state of the boss a killer writes. The load before it ignores its error, which leaves the zero
  state; the event still names the boss as it was loaded then.
\<close>

definition record_kill ::
    "('s, 'd) redis \<Rightarrow> 'd json \<Rightarrow> 's io \<Rightarrow> string \<Rightarrow> 's \<Rightarrow> BossState \<times> 's" where
  "record_kill R J ev username s =
     (let s = ev_others ev 4 s;
          state = (case LoadGlobalBoss R J (ev_net ev 4) (ev_net ev 5) s of Inl _ \<Rightarrow> zero_BossState | Inr (st, _) \<Rightarrow> st)
      in if b_Alive state
         then let state = state\<lparr>b_Alive := False, b_LastHit := username, b_RespawnAt := ev_now ev 6 + 15 * second\<rparr>
              in (state, snd (SaveGlobalBoss R J (ev_net ev 6) state (ev_others ev 6 s)))
         else (state, s))"

definition AttackBoss ::
    "('s, 'd) redis \<Rightarrow> 'd json \<Rightarrow> 's io \<Rightarrow> string \<Rightarrow> string \<Rightarrow> u64 \<Rightarrow> NodeService \<Rightarrow> 's
     \<Rightarrow> (node_error + event \<times> UserProfile \<times> bool) \<times> NodeService \<times> 's" where
  "AttackBoss R J ev mapID username epoch n s =
     (case beginWrite R J ev 0 mapID epoch n s of
        (Some e, s) \<Rightarrow> (Inl e, n, s)
      | (None, s) \<Rightarrow>
          (case map_of (ns_maps n) mapID of
             None \<Rightarrow> (Inl (ErrMapNotHosted mapID), n, s)
           | Some w \<Rightarrow>
               let ((profile, ok), w) = ProfileOf (ev_now ev 0) username w;
                   n = put_map mapID w n
               in if \<not> ok then (Inl ErrNoProfile, n, s)
                  else if \<not> u_Alive profile then (Inr (BossDownAttack, profile, True), n, s)
                  else
                    let s = ev_others ev 1 s
                    in case LoadGlobalBoss R J (ev_net ev 1) (ev_net ev 2) s of
                         Inl _ \<Rightarrow> (Inr (BossRespawning, profile, True), n, s)
                       | Inr (state, hp) \<Rightarrow>
                           if \<not> b_Alive state then (Inr (BossRespawning, profile, True), n, s)
                           else case find (\<lambda>site. bs_MapID site = mapID) (b_Sites state) of
                                  None \<Rightarrow> (Inr (BossNoSite, profile, True), n, s)
                                | Some bossSite \<Rightarrow>
                                    if manhattan (bs_X bossSite) (bs_Y bossSite) (u_X profile) (u_Y profile) > BossAtkRange
                                    then (Inr (BossOutOfRange hp, profile, True), n, s)
                                    else
                                      let damage = u_Attack profile
                                      in case AtomicAttackBoss R J (ev_net ev 3) username damage (ev_others ev 3 s) of
                                           (Inl e, s) \<Rightarrow> (Inl (ErrStore e), n, s)
                                         | (Inr (newHp, isKiller, _), s) \<Rightarrow>
                                             if newHp = -1 then (Inr (BossRespawning, profile, True), n, s)
                                             else if isKiller
                                             then let (after, s) = record_kill R J ev username s
                                                  in (Inr (BossKilled username (b_Name state) damage newHp (b_Name after), profile, True), n, s)
                                             else (Inr (BossHit username (b_Name state) damage newHp, profile, True), n, s)))"

section \<open>Reading\<close>

definition Snapshot_node :: "process \<Rightarrow> time \<Rightarrow> string \<Rightarrow> NodeService \<Rightarrow> (node_error + MapView) \<times> NodeService" where
  "Snapshot_node E now mapID n =
     (case map_of (ns_maps n) mapID of
        None \<Rightarrow> (Inl (ErrMapNotHosted mapID), n)
      | Some w \<Rightarrow> let (v, w') = Snapshot (se_rfc3339 E) now (se_order E w) (ns_ID n) w in (Inr v, put_map mapID w' n))"

definition Counts_node :: "string \<Rightarrow> NodeService \<Rightarrow> node_error + int \<times> int \<times> int \<times> int" where
  "Counts_node mapID n =
     (case map_of (ns_maps n) mapID of
        None \<Rightarrow> Inl (ErrMapNotHosted mapID)
      | Some w \<Rightarrow> Inr (Counts w))"

definition Checkpoint_node ::
    "process \<Rightarrow> time \<Rightarrow> string \<Rightarrow> NodeService \<Rightarrow> (node_error + MapCheckpoint) \<times> NodeService" where
  "Checkpoint_node E now mapID n =
     (case map_of (ns_maps n) mapID of
        None \<Rightarrow> (Inl (ErrMapNotHosted mapID), n)
      | Some w \<Rightarrow>
          let (cp, w') = CaptureCheckpoint (se_rfc3339 E) now (se_order E w) (ns_ID n) w;
              cp = (case Current now mapID (ns_authority n) of None \<Rightarrow> cp | Some a \<Rightarrow> cp\<lparr>c_MapEpoch := au_Epoch a\<rparr>)
          in (Inr cp, put_map mapID w' n))"

definition View :: "process \<Rightarrow> NodeService \<Rightarrow> NodeView" where
  "View E n =
     \<lparr>no_ID = ns_ID n, no_Addr = ns_Addr n, no_Healthy = ns_healthy n, no_PrimaryMaps = sort (keys (ns_maps n)),
      no_LastHeartbeat = se_rfc3339 E (ns_lastHeartbeat n)\<rparr>"

definition SetHealthy :: "time \<Rightarrow> bool \<Rightarrow> NodeService \<Rightarrow> bool \<times> NodeService" where
  "SetHealthy now healthy n =
     (ns_healthy n, if healthy then n\<lparr>ns_healthy := healthy, ns_lastHeartbeat := now\<rparr> else n\<lparr>ns_healthy := healthy\<rparr>)"

section \<open>One iteration of the loops\<close>

definition hot_session :: "string \<Rightarrow> string \<Rightarrow> time \<Rightarrow> UserProfile \<Rightarrow> HotSession" where
  "hot_session mapID nodeID now profile =
     \<lparr>h_Username = u_Username profile, h_MapID = mapID, h_NodeID = nodeID, h_X = u_X profile, h_Y = u_Y profile,
      h_HP = u_HP profile, h_Treasures = u_Treasures profile, h_SessionVersion = 0, h_UpdatedAt = now\<rparr>"

fun save_hot ::
    "('s, 'd) redis \<Rightarrow> 'd json \<Rightarrow> 's io \<Rightarrow> nat \<Rightarrow> HotSession list \<Rightarrow> 's \<Rightarrow> nat \<times> 's" where
  "save_hot R J ev k [] s = (k, s)"
| "save_hot R J ev k (h # hs) s = save_hot R J ev (Suc k) hs (snd (SaveHotSession R J (ev_net ev k) h (ev_others ev k s)))"

fun flush_maps ::
    "('s, 'd) redis \<Rightarrow> 'd json \<Rightarrow> process \<Rightarrow> 's io \<Rightarrow> nat \<Rightarrow> time \<Rightarrow> time \<Rightarrow> string list \<Rightarrow> NodeService \<Rightarrow> 's \<Rightarrow> NodeService \<times> 's" where
  "flush_maps R J E ev k now since [] n s = (n, s)"
| "flush_maps R J E ev k now since (mapID # ms) n s =
     (case (Current (ev_now ev k) mapID (ns_authority n), map_of (ns_maps n) mapID) of
        (Some _, Some w) \<Rightarrow>
          let (profiles, w') = FlushProfiles now since (se_order E w) w;
              (k, s) = save_hot R J ev k (map (hot_session mapID (ns_ID n) now) profiles) s
          in flush_maps R J E ev k now since ms (put_map mapID w' n) s
      | _ \<Rightarrow> flush_maps R J E ev k now since ms n s)"

definition flush_iteration ::
    "('s, 'd) redis \<Rightarrow> 'd json \<Rightarrow> process \<Rightarrow> 's io \<Rightarrow> time \<Rightarrow> time \<Rightarrow> NodeService \<Rightarrow> 's \<Rightarrow> NodeService \<times> 's" where
  "flush_iteration R J E ev now since n s =
     (if ns_draining n then (n, s) else flush_maps R J E ev 0 now since (keys (ns_maps n)) n s)"

text \<open>
  The tick of one map: first the step of the world behind the fence, then, behind the fence again,
  its events and its checkpoint. Between the two, commands of players may run. \<open>text_of\<close> renders an event.
\<close>

definition tick_step ::
    "('s, 'd) redis \<Rightarrow> 'd json \<Rightarrow> process \<Rightarrow> 's io \<Rightarrow> string \<Rightarrow> NodeService \<Rightarrow> 's
     \<Rightarrow> (u64 \<times> event list) option \<times> NodeService \<times> 's" where
  "tick_step R J E ev mapID n s =
     (case (Current (ev_now ev 0) mapID (ns_authority n), map_of (ns_maps n) mapID) of
        (Some authority, Some w) \<Rightarrow>
          (case beginWrite R J ev 0 mapID (au_Epoch authority) n s of
             (Some e, s) \<Rightarrow> (None, n, s)
           | (None, s) \<Rightarrow>
               let (events, w') = BackgroundStep (ev_now ev 0) (se_order E w) w
               in (Some (au_Epoch authority, events), put_map mapID w' n, s))
      | _ \<Rightarrow> (None, n, s))"

fun publish_all ::
    "('s, 'd) redis \<Rightarrow> 's io \<Rightarrow> nat \<Rightarrow> string \<Rightarrow> string list \<Rightarrow> 's \<Rightarrow> nat \<times> 's" where
  "publish_all R ev k channel [] s = (k, s)"
| "publish_all R ev k channel (e # es) s =
     publish_all R ev (Suc k) channel es (snd (PublishEvent R (ev_net ev k) channel e (ev_others ev k s)))"

definition tick_save ::
    "('s, 'd) redis \<Rightarrow> 'd json \<Rightarrow> process \<Rightarrow> (event \<Rightarrow> string) \<Rightarrow> 's io \<Rightarrow> string \<Rightarrow> u64 \<Rightarrow> event list \<Rightarrow> NodeService \<Rightarrow> 's
     \<Rightarrow> NodeService \<times> 's" where
  "tick_save R J E text_of ev mapID epoch events n s =
     (case requireAuthority R J ev 1 mapID epoch n s of
        (Some _, s) \<Rightarrow> (n, s)
      | (None, s) \<Rightarrow>
          (case map_of (ns_maps n) mapID of
             None \<Rightarrow> (n, s)
           | Some w \<Rightarrow>
               let (k, s) = publish_all R ev 2 (''events:map:'' @ mapID) (map text_of events) s;
                   (cp, w') = CaptureCheckpoint (se_rfc3339 E) (ev_now ev k) (se_order E w) (ns_ID n) w;
                   cp = cp\<lparr>c_MapEpoch := epoch\<rparr>
               in (put_map mapID w' n, snd (SaveCheckpointIfOwner R J (ev_net ev k) cp (ns_ID n) epoch (ev_others ev k s)))))"

definition tick_map ::
    "('s, 'd) redis \<Rightarrow> 'd json \<Rightarrow> process \<Rightarrow> (event \<Rightarrow> string) \<Rightarrow> 's io \<Rightarrow> string \<Rightarrow> NodeService \<Rightarrow> 's \<Rightarrow> NodeService \<times> 's" where
  "tick_map R J E text_of ev mapID n s =
     (if \<not> ns_store n then (n, s)
      else case tick_step R J E ev mapID n s of
             (None, n, s) \<Rightarrow> (n, s)
           | (Some (epoch, events), n, s) \<Rightarrow> tick_save R J E text_of ev mapID epoch events n s)"

text \<open>One iteration of \<open>tickLoop\<close>: the maps hosted when it starts, each with its own accesses to the store.\<close>

fun tick_maps ::
    "('s, 'd) redis \<Rightarrow> 'd json \<Rightarrow> process \<Rightarrow> (event \<Rightarrow> string) \<Rightarrow> (string \<Rightarrow> 's io) \<Rightarrow> string list \<Rightarrow> NodeService \<Rightarrow> 's
     \<Rightarrow> NodeService \<times> 's" where
  "tick_maps R J E text_of evs [] n s = (n, s)"
| "tick_maps R J E text_of evs (mapID # ms) n s =
     (let (n, s) = tick_map R J E text_of (evs mapID) mapID n s in tick_maps R J E text_of evs ms n s)"

definition tick_iteration ::
    "('s, 'd) redis \<Rightarrow> 'd json \<Rightarrow> process \<Rightarrow> (event \<Rightarrow> string) \<Rightarrow> (string \<Rightarrow> 's io) \<Rightarrow> NodeService \<Rightarrow> 's \<Rightarrow> NodeService \<times> 's" where
  "tick_iteration R J E text_of evs n s = tick_maps R J E text_of evs (keys (ns_maps n)) n s"

section \<open>Draining\<close>

fun save_final ::
    "('s, 'd) redis \<Rightarrow> 'd json \<Rightarrow> process \<Rightarrow> 's io \<Rightarrow> nat \<Rightarrow> string list \<Rightarrow> NodeService \<Rightarrow> 's
     \<Rightarrow> node_error option \<times> NodeService \<times> 's" where
  "save_final R J E ev k [] n s = (None, n, s)"
| "save_final R J E ev k (mapID # ms) n s =
     (case Current (ev_now ev k) mapID (ns_authority n) of
        None \<Rightarrow> save_final R J E ev k ms n s
      | Some authority \<Rightarrow>
          (case requireAuthority R J ev k mapID (au_Epoch authority) n s of
             (Some e, s) \<Rightarrow> (Some e, n, s)
           | (None, s) \<Rightarrow>
               (case map_of (ns_maps n) mapID of
                  None \<Rightarrow> save_final R J E ev (Suc k) ms n s
                | Some w \<Rightarrow>
                    let (cp, w') = CaptureCheckpoint (se_rfc3339 E) (ev_now ev (Suc k)) (se_order E w) (ns_ID n) w;
                        cp = cp\<lparr>c_MapEpoch := au_Epoch authority\<rparr>;
                        n = put_map mapID w' n
                    in (case SaveCheckpointIfOwner R J (ev_net ev (Suc k)) cp (ns_ID n) (au_Epoch authority)
                               (ev_others ev (Suc k) s) of
                          (Some e, s) \<Rightarrow> (Some (ErrStore e), n, s)
                        | (None, s) \<Rightarrow> save_final R J E ev (Suc (Suc k)) ms n s))))"

definition saveFinalCheckpoints ::
    "('s, 'd) redis \<Rightarrow> 'd json \<Rightarrow> process \<Rightarrow> 's io \<Rightarrow> NodeService \<Rightarrow> 's \<Rightarrow> node_error option \<times> NodeService \<times> 's" where
  "saveFinalCheckpoints R J E ev n s =
     (if \<not> ns_store n then (Some ErrDrainTopologyUnavailable, n, s)
      else case OwnedMapIDs (ev_now ev 0) (ns_authority n) of
             None \<Rightarrow> (Some ErrDrainTopologyUnavailable, n, s)
           | Some ownedMapIDs \<Rightarrow> save_final R J E ev 0 ownedMapIDs n s)"

definition drain_start ::
    "('s, 'd) redis \<Rightarrow> 'd json \<Rightarrow> process \<Rightarrow> 's io \<Rightarrow> NodeService \<Rightarrow> 's \<Rightarrow> node_error option \<times> NodeService \<times> 's" where
  "drain_start R J E ev n s =
     (let alreadyDraining = ns_draining n; n = n\<lparr>ns_draining := True\<rparr>
      in if \<not> alreadyDraining then saveFinalCheckpoints R J E ev n s else (None, n, s))"

text \<open>
  One poll: what the other loops did to the node before it, the time, and whether the caller's
  context ends in the wait after it. \<open>None\<close> is still waiting.
\<close>

fun drain_wait ::
    "((NodeService \<Rightarrow> NodeService) \<times> time \<times> bool) list \<Rightarrow> NodeService \<Rightarrow> node_error option option \<times> NodeService" where
  "drain_wait [] n = (None, n)"
| "drain_wait ((others, now, stop) # ps) n =
     (let n = others n
      in case OwnedMapIDs now (ns_authority n) of
           None \<Rightarrow> (Some (Some ErrDrainTopologyUnavailable), n)
         | Some ownedMapIDs \<Rightarrow>
             if ownedMapIDs = [] then (Some None, n)
             else if stop then (Some (Some (ErrDrainOwnershipPending ownedMapIDs)), n)
             else drain_wait ps n)"

definition BeginDrain ::
    "('s, 'd) redis \<Rightarrow> 'd json \<Rightarrow> process \<Rightarrow> 's io \<Rightarrow> bool \<Rightarrow> ((NodeService \<Rightarrow> NodeService) \<times> time \<times> bool) list
     \<Rightarrow> NodeService \<Rightarrow> 's \<Rightarrow> node_error option option \<times> NodeService \<times> 's" where
  "BeginDrain R J E ev ctxNil ps n s =
     (if ctxNil then (Some (Some ErrDrainContextNil), n, s)
      else case drain_start R J E ev n s of
             (Some e, n, s) \<Rightarrow> (Some (Some e), n, s)
           | (None, n, s) \<Rightarrow> let (r, n) = drain_wait ps n in (r, n, s))"

definition StopAfterDrain ::
    "('s, 'd) redis \<Rightarrow> 'd json \<Rightarrow> process \<Rightarrow> 's io \<Rightarrow> bool \<Rightarrow> ((NodeService \<Rightarrow> NodeService) \<times> time \<times> bool) list
     \<Rightarrow> NodeService \<Rightarrow> 's \<Rightarrow> node_error option option \<times> NodeService \<times> 's" where
  "StopAfterDrain R J E ev ctxNil ps n s =
     (case BeginDrain R J E ev ctxNil ps n s of
        (Some None, n, s) \<Rightarrow> (Some None, Stop n, s)
      | r \<Rightarrow> r)"

record DrainStatus =
  ds_Draining :: bool
  ds_ActiveConnections :: int

definition DrainState :: "NodeService \<Rightarrow> DrainStatus" where
  "DrainState n = \<lparr>ds_Draining = ns_draining n, ds_ActiveConnections = 0\<rparr>"

end
