(* ===== verification/Wire.thy ===== *)
theory Wire
  imports Protocol
begin

text \<open>
  The protobuf mappers of the node boundary (\<open>transport/node/mapper.go\<close>). A message of
  \<open>pb/battle.pb.go\<close> is a record whose \<open>int32\<close> fields are 32-bit words; a pointer to a message is an
  \<open>option\<close>, and the generated getters read a nil message as zero, which is what the \<open>From*\<close> functions
  test for. Go's \<open>int32(x)\<close> keeps the low 32 bits (\<open>word_of_int\<close>) and \<open>int(y)\<close> reads them as a signed
  number (\<open>sint\<close>).

  The contract of a pair of mappers is the locale \<open>wire_codec\<close>: decoding after encoding is the
  identity on the values that fit. Its client, the loop over a repeated field, is proved once.
\<close>

section \<open>Messages\<close>

record pb_MapAuthority =
  pa_MapId :: string
  pa_OwnerNodeId :: string
  pa_MapEpoch :: u64

record pb_PlayerState =
  ps_Username :: string
  ps_LastMap :: string
  ps_LastNode :: string
  ps_X :: i32
  ps_Y :: i32
  ps_Hp :: i32
  ps_MaxHp :: i32
  ps_Attack :: i32
  ps_Potions :: i32
  ps_Treasures :: i32
  ps_Kills :: i32
  ps_Deaths :: i32
  ps_Victories :: i32
  ps_Alive :: bool

record pb_PlayerView =
  pp_Username :: string
  pp_MapId :: string
  pp_X :: i32
  pp_Y :: i32
  pp_Hp :: i32
  pp_MaxHp :: i32
  pp_Attack :: i32
  pp_Potions :: i32
  pp_Treasures :: i32
  pp_Kills :: i32
  pp_Deaths :: i32
  pp_Victories :: i32
  pp_Alive :: bool
  pp_RespawnIn :: i32
  pp_LastUpdate :: string

record pb_NPCView =
  pn_Id :: string
  pn_Name :: string
  pn_X :: i32
  pn_Y :: i32
  pn_Hp :: i32
  pn_MaxHp :: i32
  pn_Attack :: i32
  pn_Alive :: bool

record pb_TreasureView =
  pt_Id :: string
  pt_Kind :: string
  pt_X :: i32
  pt_Y :: i32
  pt_Value :: i32

record pb_MapView =
  pm_Id :: string
  pm_Name :: string
  pm_NodeId :: string
  pm_Width :: i32
  pm_Height :: i32
  pm_Terrain :: "string list"
  pm_Players :: "pb_PlayerView option list"
  pm_Npcs :: "pb_NPCView option list"
  pm_Treasures :: "pb_TreasureView option list"
  pm_Version :: int

record 'ts pb_NodeCheckpoint =
  pc_MapId :: string
  pc_NodeId :: string
  pc_MapEpoch :: u64
  pc_Version :: int
  pc_Terrain :: "string list"
  pc_Players :: "pb_PlayerView option list"
  pc_Npcs :: "pb_NPCView option list"
  pc_Treasures :: "pb_TreasureView option list"
  pc_CapturedAt :: "'ts option"

record pb_NodeView =
  pw_Id :: string
  pw_Addr :: string
  pw_Healthy :: bool
  pw_PrimaryMaps :: "string list"
  pw_LastHeartbeat :: string

datatype pb_Direction = DIRECTION_UNSPECIFIED | DIRECTION_UP | DIRECTION_DOWN | DIRECTION_LEFT | DIRECTION_RIGHT

text \<open>The well-known timestamp type belongs to the protobuf library and is an argument.\<close>

record 'ts timestamppb =
  ts_New :: "time \<Rightarrow> 'ts"
  ts_CheckValid :: "'ts \<Rightarrow> bool"
  ts_AsTime :: "'ts \<Rightarrow> time"

abbreviation to32 :: "int \<Rightarrow> i32" where
  "to32 x \<equiv> word_of_int x"

section \<open>Mappers\<close>

definition NewMapAuthority :: "string \<Rightarrow> string \<Rightarrow> u64 \<Rightarrow> pb_MapAuthority" where
  "NewMapAuthority mapID ownerNodeID epoch = \<lparr>pa_MapId = mapID, pa_OwnerNodeId = ownerNodeID, pa_MapEpoch = epoch\<rparr>"

definition ToPlayerState :: "UserProfile \<Rightarrow> pb_PlayerState" where
  "ToPlayerState p =
     \<lparr>ps_Username = u_Username p, ps_LastMap = u_LastMap p, ps_LastNode = u_LastNode p,
      ps_X = to32 (u_X p), ps_Y = to32 (u_Y p), ps_Hp = to32 (u_HP p), ps_MaxHp = to32 (u_MaxHP p),
      ps_Attack = to32 (u_Attack p), ps_Potions = to32 (u_Potions p),
      ps_Treasures = to32 (u_Treasures p), ps_Kills = to32 (u_Kills p), ps_Deaths = to32 (u_Deaths p),
      ps_Victories = to32 (u_Victories p), ps_Alive = u_Alive p\<rparr>"

definition FromPlayerState :: "pb_PlayerState option \<Rightarrow> UserProfile" where
  "FromPlayerState q =
     (case q of
        None \<Rightarrow> zero_UserProfile
      | Some m \<Rightarrow>
          \<lparr>u_Username = ps_Username m, u_PasswordHash = [], u_LastMap = ps_LastMap m,
           u_LastNode = ps_LastNode m, u_X = sint (ps_X m), u_Y = sint (ps_Y m), u_HP = sint (ps_Hp m),
           u_MaxHP = sint (ps_MaxHp m), u_Attack = sint (ps_Attack m), u_Potions = sint (ps_Potions m),
           u_Treasures = sint (ps_Treasures m), u_Kills = sint (ps_Kills m), u_Deaths = sint (ps_Deaths m),
           u_Victories = sint (ps_Victories m), u_Alive = ps_Alive m\<rparr>)"

definition ToPlayerView :: "PlayerView \<Rightarrow> pb_PlayerView" where
  "ToPlayerView p =
     \<lparr>pp_Username = pv_Username p, pp_MapId = pv_MapID p, pp_X = to32 (pv_X p),
      pp_Y = to32 (pv_Y p), pp_Hp = to32 (pv_HP p), pp_MaxHp = to32 (pv_MaxHP p),
      pp_Attack = to32 (pv_Attack p), pp_Potions = to32 (pv_Potions p),
      pp_Treasures = to32 (pv_Treasures p), pp_Kills = to32 (pv_Kills p),
      pp_Deaths = to32 (pv_Deaths p), pp_Victories = to32 (pv_Victories p), pp_Alive = pv_Alive p,
      pp_RespawnIn = to32 (pv_RespawnIn p), pp_LastUpdate = pv_LastUpdate p\<rparr>"

definition FromPlayerView :: "pb_PlayerView option \<Rightarrow> PlayerView" where
  "FromPlayerView q =
     (case q of
        None \<Rightarrow> zero_PlayerView
      | Some m \<Rightarrow>
          \<lparr>pv_Username = pp_Username m, pv_MapID = pp_MapId m, pv_X = sint (pp_X m),
           pv_Y = sint (pp_Y m), pv_HP = sint (pp_Hp m), pv_MaxHP = sint (pp_MaxHp m),
           pv_Attack = sint (pp_Attack m), pv_Potions = sint (pp_Potions m),
           pv_Treasures = sint (pp_Treasures m), pv_Kills = sint (pp_Kills m),
           pv_Deaths = sint (pp_Deaths m), pv_Victories = sint (pp_Victories m), pv_Alive = pp_Alive m,
           pv_RespawnIn = sint (pp_RespawnIn m), pv_LastUpdate = pp_LastUpdate m\<rparr>)"

definition ToNPCView :: "NPCView \<Rightarrow> pb_NPCView" where
  "ToNPCView n =
     \<lparr>pn_Id = nv_ID n, pn_Name = nv_Name n, pn_X = to32 (nv_X n), pn_Y = to32 (nv_Y n),
      pn_Hp = to32 (nv_HP n), pn_MaxHp = to32 (nv_MaxHP n), pn_Attack = to32 (nv_Attack n),
      pn_Alive = nv_Alive n\<rparr>"

definition FromNPCView :: "pb_NPCView option \<Rightarrow> NPCView" where
  "FromNPCView q =
     (case q of
        None \<Rightarrow> zero_NPCView
      | Some m \<Rightarrow>
          \<lparr>nv_ID = pn_Id m, nv_Name = pn_Name m, nv_X = sint (pn_X m), nv_Y = sint (pn_Y m),
           nv_HP = sint (pn_Hp m), nv_MaxHP = sint (pn_MaxHp m), nv_Attack = sint (pn_Attack m),
           nv_Alive = pn_Alive m\<rparr>)"

definition ToTreasureView :: "TreasureView \<Rightarrow> pb_TreasureView" where
  "ToTreasureView t =
     \<lparr>pt_Id = tv_ID t, pt_Kind = tv_Kind t, pt_X = to32 (tv_X t), pt_Y = to32 (tv_Y t),
      pt_Value = to32 (tv_Value t)\<rparr>"

definition FromTreasureView :: "pb_TreasureView option \<Rightarrow> TreasureView" where
  "FromTreasureView q =
     (case q of
        None \<Rightarrow> zero_TreasureView
      | Some m \<Rightarrow>
          \<lparr>tv_ID = pt_Id m, tv_Kind = pt_Kind m, tv_X = sint (pt_X m), tv_Y = sint (pt_Y m),
           tv_Value = sint (pt_Value m)\<rparr>)"

definition ToMapView :: "MapView \<Rightarrow> pb_MapView" where
  "ToMapView v =
     \<lparr>pm_Id = mv_ID v, pm_Name = mv_Name v, pm_NodeId = mv_NodeID v, pm_Width = to32 (mv_Width v),
      pm_Height = to32 (mv_Height v), pm_Terrain = mv_Terrain v,
      pm_Players = map (\<lambda>p. Some (ToPlayerView p)) (mv_Players v),
      pm_Npcs = map (\<lambda>n. Some (ToNPCView n)) (mv_NPCs v),
      pm_Treasures = map (\<lambda>t. Some (ToTreasureView t)) (mv_Treasures v), pm_Version = mv_Version v\<rparr>"

definition FromMapView :: "pb_MapView option \<Rightarrow> MapView" where
  "FromMapView q =
     (case q of
        None \<Rightarrow> zero_MapView
      | Some m \<Rightarrow>
          \<lparr>mv_ID = pm_Id m, mv_Name = pm_Name m, mv_NodeID = pm_NodeId m, mv_Width = sint (pm_Width m),
           mv_Height = sint (pm_Height m), mv_Terrain = pm_Terrain m,
           mv_Players = map FromPlayerView (pm_Players m), mv_NPCs = map FromNPCView (pm_Npcs m),
           mv_Treasures = map FromTreasureView (pm_Treasures m), mv_Version = pm_Version m\<rparr>)"

definition ToCheckpoint :: "'ts timestamppb \<Rightarrow> MapCheckpoint \<Rightarrow> 'ts pb_NodeCheckpoint option" where
  "ToCheckpoint T c =
     (if c_MapID c = [] then None
      else Some \<lparr>pc_MapId = c_MapID c, pc_NodeId = c_NodeID c, pc_MapEpoch = c_MapEpoch c,
                 pc_Version = c_Version c, pc_Terrain = c_Terrain c,
                 pc_Players = map (\<lambda>p. Some (ToPlayerView p)) (c_Players c),
                 pc_Npcs = map (\<lambda>n. Some (ToNPCView n)) (c_NPCs c),
                 pc_Treasures = map (\<lambda>t. Some (ToTreasureView t)) (c_Treasures c),
                 pc_CapturedAt = Some (ts_New T (c_Checkpoint c))\<rparr>)"

datatype wire_error = CheckpointNil | CapturedAtNil | CapturedAtInvalid | BadDirection

definition FromCheckpoint :: "'ts timestamppb \<Rightarrow> 'ts pb_NodeCheckpoint option \<Rightarrow> wire_error + MapCheckpoint" where
  "FromCheckpoint T q =
     (case q of
        None \<Rightarrow> Inl CheckpointNil
      | Some m \<Rightarrow>
          (case pc_CapturedAt m of
             None \<Rightarrow> Inl CapturedAtNil
           | Some capturedAt \<Rightarrow>
               if \<not> ts_CheckValid T capturedAt then Inl CapturedAtInvalid
               else Inr \<lparr>c_MapID = pc_MapId m, c_NodeID = pc_NodeId m, c_MapEpoch = pc_MapEpoch m,
                          c_Version = pc_Version m, c_Terrain = pc_Terrain m,
                          c_Players = map FromPlayerView (pc_Players m), c_NPCs = map FromNPCView (pc_Npcs m),
                          c_Treasures = map FromTreasureView (pc_Treasures m),
                          c_Checkpoint = ts_AsTime T capturedAt\<rparr>))"

definition ToNodeView :: "NodeView \<Rightarrow> pb_NodeView" where
  "ToNodeView v = \<lparr>pw_Id = no_ID v, pw_Addr = no_Addr v, pw_Healthy = no_Healthy v, pw_PrimaryMaps = no_PrimaryMaps v,
                   pw_LastHeartbeat = no_LastHeartbeat v\<rparr>"

definition FromNodeView :: "pb_NodeView option \<Rightarrow> NodeView" where
  "FromNodeView q =
     (case q of
        None \<Rightarrow> zero_NodeView
      | Some m \<Rightarrow> \<lparr>no_ID = pw_Id m, no_Addr = pw_Addr m, no_Healthy = pw_Healthy m, no_PrimaryMaps = pw_PrimaryMaps m,
                   no_LastHeartbeat = pw_LastHeartbeat m\<rparr>)"

definition DirectionFromString :: "string \<Rightarrow> wire_error + pb_Direction" where
  "DirectionFromString d =
     (if d = DirUp then Inr DIRECTION_UP
      else if d = DirDown then Inr DIRECTION_DOWN
      else if d = DirLeft then Inr DIRECTION_LEFT
      else if d = DirRight then Inr DIRECTION_RIGHT
      else Inl BadDirection)"

definition DirectionToString :: "pb_Direction \<Rightarrow> wire_error + string" where
  "DirectionToString d =
     (case d of
        DIRECTION_UP \<Rightarrow> Inr DirUp
      | DIRECTION_DOWN \<Rightarrow> Inr DirDown
      | DIRECTION_LEFT \<Rightarrow> Inr DirLeft
      | DIRECTION_RIGHT \<Rightarrow> Inr DirRight
      | DIRECTION_UNSPECIFIED \<Rightarrow> Inl BadDirection)"

section \<open>The contract of a codec\<close>

locale wire_codec =
  fixes enc :: "'a \<Rightarrow> 'm" and dec :: "'m option \<Rightarrow> 'a" and fits :: "'a \<Rightarrow> bool"
  assumes dec_enc: "fits x \<Longrightarrow> dec (Some (enc x)) = x"
begin

text \<open>The loop over a repeated field.\<close>

lemma dec_enc_list: "list_all fits xs \<Longrightarrow> map dec (map (\<lambda>x. Some (enc x)) xs) = xs"
  by (induction xs) (simp_all add: dec_enc)

end

definition in32 :: "int \<Rightarrow> bool" where
  "in32 x \<longleftrightarrow> - (2 ^ 31) \<le> x \<and> x < 2 ^ 31"

lemma sint_to32 [wire_simps]: "in32 x \<Longrightarrow> sint (to32 x) = x"
  by (simp add: in32_def sint_of_int_i32)

definition fits_profile :: "UserProfile \<Rightarrow> bool" where
  "fits_profile x \<longleftrightarrow> list_all in32 [u_X x, u_Y x, u_HP x, u_MaxHP x, u_Attack x, u_Potions x, u_Treasures x, u_Kills x, u_Deaths x, u_Victories x]"

definition fits_player :: "PlayerView \<Rightarrow> bool" where
  "fits_player x \<longleftrightarrow> list_all in32 [pv_X x, pv_Y x, pv_HP x, pv_MaxHP x, pv_Attack x, pv_Potions x, pv_Treasures x, pv_Kills x, pv_Deaths x, pv_Victories x, pv_RespawnIn x]"

definition fits_npc :: "NPCView \<Rightarrow> bool" where
  "fits_npc x \<longleftrightarrow> list_all in32 [nv_X x, nv_Y x, nv_HP x, nv_MaxHP x, nv_Attack x]"

definition fits_treasure :: "TreasureView \<Rightarrow> bool" where
  "fits_treasure x \<longleftrightarrow> list_all in32 [tv_X x, tv_Y x, tv_Value x]"

definition fits_map :: "MapView \<Rightarrow> bool" where
  "fits_map v \<longleftrightarrow> in32 (mv_Width v) \<and> in32 (mv_Height v) \<and> list_all fits_player (mv_Players v) \<and>
     list_all fits_npc (mv_NPCs v) \<and> list_all fits_treasure (mv_Treasures v)"

definition fits_checkpoint :: "MapCheckpoint \<Rightarrow> bool" where
  "fits_checkpoint c \<longleftrightarrow> list_all fits_player (c_Players c) \<and> list_all fits_npc (c_NPCs c) \<and>
     list_all fits_treasure (c_Treasures c)"

interpretation player_codec: wire_codec ToPlayerView FromPlayerView fits_player
  by unfold_locales (simp add: ToPlayerView_def FromPlayerView_def fits_player_def wire_simps)

interpretation npc_codec: wire_codec ToNPCView FromNPCView fits_npc
  by unfold_locales (simp add: ToNPCView_def FromNPCView_def fits_npc_def wire_simps)

interpretation treasure_codec: wire_codec ToTreasureView FromTreasureView fits_treasure
  by unfold_locales (simp add: ToTreasureView_def FromTreasureView_def fits_treasure_def wire_simps)

interpretation node_codec: wire_codec ToNodeView FromNodeView "\<lambda>_. True"
  by unfold_locales (simp add: ToNodeView_def FromNodeView_def)

lemmas [wire_simps] = player_codec.dec_enc_list npc_codec.dec_enc_list treasure_codec.dec_enc_list

interpretation map_codec: wire_codec ToMapView FromMapView fits_map
  by unfold_locales (simp add: ToMapView_def FromMapView_def fits_map_def wire_simps del: map_map)

text \<open>A profile goes over the wire without its password hash.\<close>

interpretation profile_codec: wire_codec ToPlayerState FromPlayerState "\<lambda>p. fits_profile p \<and> u_PasswordHash p = []"
  by unfold_locales (simp add: ToPlayerState_def FromPlayerState_def fits_profile_def wire_simps)

lemma FromPlayerState_no_password: "u_PasswordHash (FromPlayerState q) = []"
  by (simp add: FromPlayerState_def zero_UserProfile_def split: option.split)

text \<open>What the code relies on of timestamps, for times the protobuf type can express.\<close>

locale timestamps =
  fixes T :: "'ts timestamppb" and valid_time :: "time \<Rightarrow> bool"
  assumes New_valid: "valid_time t \<Longrightarrow> ts_CheckValid T (ts_New T t)"
    and AsTime_New: "valid_time t \<Longrightarrow> ts_AsTime T (ts_New T t) = t"
begin

lemma checkpoint_dec_enc:
  assumes "c_MapID c \<noteq> []" "valid_time (c_Checkpoint c)" "fits_checkpoint c"
  shows "FromCheckpoint T (ToCheckpoint T c) = Inr c"
  using assms New_valid [OF assms(2)] AsTime_New [OF assms(2)]
  by (simp add: FromCheckpoint_def ToCheckpoint_def fits_checkpoint_def wire_simps del: map_map)

end

text \<open>Seconds since 1970 and nanoseconds, from the year 1 to the end of the year 9999.\<close>

definition unix_epoch :: int where
  "unix_epoch = 62135596800"

definition std_stamps :: "(int \<times> int) timestamppb" where
  "std_stamps =
     \<lparr>ts_New = (\<lambda>t. (t div second - unix_epoch, t mod second)),
      ts_CheckValid = (\<lambda>(s, n). - unix_epoch \<le> s \<and> s \<le> 253402300799 \<and> 0 \<le> n \<and> n < second),
      ts_AsTime = (\<lambda>(s, n). (s + unix_epoch) * second + n)\<rparr>"

interpretation std: timestamps std_stamps "\<lambda>t. 0 \<le> t \<and> t < (253402300800 + unix_epoch) * second"
proof
  fix t :: time
  assume t: "0 \<le> t \<and> t < (253402300800 + unix_epoch) * second"
  have "t div second < 253402300800 + unix_epoch"
    using t by (simp add: second_def unix_epoch_def; linarith)
  then show "ts_CheckValid std_stamps (ts_New std_stamps t)"
    using t by (simp add: std_stamps_def second_def pos_imp_zdiv_nonneg_iff)
  show "ts_AsTime std_stamps (ts_New std_stamps t) = t"
    by (simp add: std_stamps_def)
qed

section \<open>Properties\<close>

text \<open>C32: a checkpoint with a map id, a time that a protobuf timestamp can express and numbers within 32 bits
  arrives at the other node exactly as it was sent.\<close>

theorem checkpoint_crosses_wire:
  assumes "timestamps T valid_time" "c_MapID c \<noteq> []" "valid_time (c_Checkpoint c)" "fits_checkpoint c"
  shows "FromCheckpoint T (ToCheckpoint T c) = Inr c"
  using timestamps.checkpoint_dec_enc [OF assms] .

definition demo_checkpoint :: MapCheckpoint where
  "demo_checkpoint = zero_MapCheckpoint\<lparr>c_MapID := ''green'', c_NodeID := ''n1'', c_MapEpoch := 3, c_Version := 9,
     c_Players := [zero_PlayerView\<lparr>pv_Username := ''ann'', pv_HP := -5\<rparr>], c_Checkpoint := 7\<rparr>"

theorem checkpoint_crosses_wire_witness:
  "FromCheckpoint std_stamps (ToCheckpoint std_stamps demo_checkpoint) = Inr demo_checkpoint"
  by (rule checkpoint_crosses_wire [OF std.timestamps_axioms])
    (simp_all add: demo_checkpoint_def zero_MapCheckpoint_def zero_PlayerView_def fits_checkpoint_def fits_player_def
      in32_def second_def unix_epoch_def)

lemma sint_to32_iff: "sint (to32 x) = x \<longleftrightarrow> in32 x"
proof
  assume "sint (to32 x) = x"
  then show "in32 x" using sint_ge [of "to32 x"] sint_lt [of "to32 x"] by (simp add: in32_def)
qed (simp add: wire_simps)

lemma in32_sint: "in32 (sint (w :: i32))"
  using sint_ge [of w] sint_lt [of w] by (simp add: in32_def)

lemma sint_to32_mod: "(sint (to32 x) - x) mod 2 ^ 32 = 0"
  by (simp add: sint_sbintrunc' mod_eq_dvd_iff [symmetric] signed_take_bit_eq_take_bit_shift take_bit_eq_mod mod_simps)


text \<open>The direction of a move is read back as it was written, and nothing but the four directions is
  ever put on the wire.\<close>

theorem direction_on_wire:
  "DirectionFromString d = Inr w \<longleftrightarrow> DirectionToString w = Inr d"
  by (cases w) (auto simp: DirectionFromString_def DirectionToString_def dir_defs)

end
