(* ===== verification/Node_RPC.thy ===== *)
theory Node_RPC
  imports Node Wire
begin

text \<open>
  The node service over gRPC: the handlers of the node (\<open>node/grpc_server.go\<close>) and the client that
  gateways and coordinators use (\<open>cluster/grpc_client.go\<close>), with the wire mappers in between.

  \<^item> A handler works on the node and the store, \<open>NodeService \<times> 's\<close>. \<open>None\<close> is a handler that does not
    return, which only the creation of a world can cause.
  \<^item> \<open>rpc_call\<close> is one call: delivered, lost on the way, or executed with the reply lost. The last two
    look the same to the client, \<open>Unavailable\<close>.
  \<^item> Of an error the status code crosses the wire; its text is not modelled. An error without a status
    arrives as \<open>Unknown\<close>.
  \<^item> A message text is the \<open>event\<close> it renders, as in the world.
\<close>

datatype grpc_error = InvalidArgument | FailedPrecondition | Unknown | Unavailable

type_synonym ('s, 'r) reply = "((grpc_error + 'r) \<times> NodeService \<times> 's) option"

section \<open>Messages\<close>

record pb_NodeAddPlayerRequest =
  ra_Authority :: "pb_MapAuthority option"
  ra_Player :: "pb_PlayerState option"

record pb_NodePlayerRequest =
  rp_Authority :: "pb_MapAuthority option"
  rp_Username :: string

record pb_NodeMovePlayerRequest = pb_NodePlayerRequest +
  rp_Direction :: pb_Direction

record pb_NodeBuyItemRequest = pb_NodePlayerRequest +
  rp_Item :: string

record pb_NodeRewardPlayerRequest = pb_NodePlayerRequest +
  rp_TreasureDelta :: i32
  rp_VictoryDelta :: i32

record 'ts pb_NodePromoteRequest =
  rq_Authority :: "pb_MapAuthority option"
  rq_Checkpoint :: "'ts pb_NodeCheckpoint option"

record pb_NodePlayerActionResponse =
  sp_Message :: event
  sp_Player :: "pb_PlayerState option"
  sp_Accepted :: bool

record pb_NodeAttackResponse =
  sk_Message :: event
  sk_TargetMessage :: string
  sk_GlobalMessage :: event
  sk_Player :: "pb_PlayerState option"
  sk_Accepted :: bool

record pb_NodeProfileResponse =
  sf_Player :: "pb_PlayerState option"
  sf_Found :: bool

record pb_NodeCountsResponse =
  sc_Players :: i32
  sc_Npcs :: i32
  sc_Treasures :: i32
  sc_Version :: int

section \<open>The handlers\<close>

definition invalidNodeRequest :: grpc_error where
  "invalidNodeRequest = InvalidArgument"

fun grpcAuthorityError :: "node_error \<Rightarrow> grpc_error" where
  "grpcAuthorityError ErrTopologyAuthorityUnavailable = FailedPrecondition"
| "grpcAuthorityError ErrMapAuthorityDenied = FailedPrecondition"
| "grpcAuthorityError ErrMapPromotionDenied = FailedPrecondition"
| "grpcAuthorityError ErrNodeDraining = FailedPrecondition"
| "grpcAuthorityError _ = Unknown"

definition authority :: "NodeService \<Rightarrow> pb_MapAuthority option \<Rightarrow> grpc_error + string \<times> u64" where
  "authority n a =
     (case a of
        None \<Rightarrow> Inl invalidNodeRequest
      | Some x \<Rightarrow>
          if pa_MapId x = [] then Inl invalidNodeRequest
          else if pa_OwnerNodeId x \<noteq> ns_ID n then Inl FailedPrecondition
          else if pa_MapEpoch x = 0 then Inl invalidNodeRequest
          else Inr (pa_MapId x, pa_MapEpoch x))"

definition nodeMapConfig :: "string \<Rightarrow> MapConfig option" where
  "nodeMapConfig mapID = find (\<lambda>config. cfg_ID config = mapID) AvailableMaps"

text \<open>The authority first, then the work; and how a result of the service becomes a response.\<close>

definition with_authority ::
    "pb_MapAuthority option \<Rightarrow> (string \<Rightarrow> u64 \<Rightarrow> NodeService \<times> 's \<Rightarrow> ('s, 'r) reply) \<Rightarrow> NodeService \<times> 's \<Rightarrow> ('s, 'r) reply" where
  "with_authority a work st =
     (case authority (fst st) a of
        Inl e \<Rightarrow> Some (Inl e, st)
      | Inr (mapID, epoch) \<Rightarrow> work mapID epoch st)"

definition respond :: "('a \<Rightarrow> 'r) \<Rightarrow> (node_error + 'a) \<times> NodeService \<times> 's \<Rightarrow> ('s, 'r) reply" where
  "respond f r = Some (case fst r of Inl e \<Rightarrow> Inl (grpcAuthorityError e) | Inr x \<Rightarrow> Inr (f x), snd r)"

definition action_response :: "event \<times> UserProfile \<times> bool \<Rightarrow> pb_NodePlayerActionResponse" where
  "action_response = (\<lambda>(message, profile, accepted).
     \<lparr>sp_Message = message, sp_Player = Some (ToPlayerState profile), sp_Accepted = accepted\<rparr>)"

definition profile_response :: "UserProfile \<times> bool \<Rightarrow> pb_NodeProfileResponse" where
  "profile_response = (\<lambda>(profile, found). \<lparr>sf_Player = Some (ToPlayerState profile), sf_Found = found\<rparr>)"

definition AddPlayer_server ::
    "('s, 'd) redis \<Rightarrow> 'd json \<Rightarrow> process \<Rightarrow> 's io \<Rightarrow> pb_NodeAddPlayerRequest \<Rightarrow> NodeService \<times> 's \<Rightarrow> ('s, unit) reply" where
  "AddPlayer_server R J E ev req =
     with_authority (ra_Authority req) (\<lambda>mapID epoch st.
       case ra_Player req of
         None \<Rightarrow> Some (Inl invalidNodeRequest, st)
       | Some player \<Rightarrow>
           if TrimSpace (ps_Username player) = [] then Some (Inl invalidNodeRequest, st)
           else case AddPlayer R J E ev mapID epoch (FromPlayerState (Some player)) (fst st) (snd st) of
                  None \<Rightarrow> None
                | Some (Some e, st) \<Rightarrow> Some (Inl (grpcAuthorityError e), st)
                | Some (None, st) \<Rightarrow> Some (Inr (), st))"

definition RemovePlayer_server ::
    "('s, 'd) redis \<Rightarrow> 'd json \<Rightarrow> 's io \<Rightarrow> pb_NodePlayerRequest \<Rightarrow> NodeService \<times> 's \<Rightarrow> ('s, pb_NodeProfileResponse) reply" where
  "RemovePlayer_server R J ev req =
     with_authority (rp_Authority req) (\<lambda>mapID epoch (n, s).
       respond profile_response (RemovePlayer_node R J ev mapID (rp_Username req) epoch n s))"

definition MovePlayer_server ::
    "('s, 'd) redis \<Rightarrow> 'd json \<Rightarrow> 's io \<Rightarrow> pb_NodeMovePlayerRequest \<Rightarrow> NodeService \<times> 's
     \<Rightarrow> ('s, pb_NodePlayerActionResponse) reply" where
  "MovePlayer_server R J ev req =
     with_authority (rp_Authority req) (\<lambda>mapID epoch (n, s).
       case DirectionToString (rp_Direction req) of
         Inl _ \<Rightarrow> Some (Inl invalidNodeRequest, n, s)
       | Inr direction \<Rightarrow> respond action_response (MovePlayer_node R J ev mapID (rp_Username req) direction epoch n s))"

definition Attack_server ::
    "('s, 'd) redis \<Rightarrow> 'd json \<Rightarrow> 's io \<Rightarrow> pb_NodePlayerRequest \<Rightarrow> NodeService \<times> 's \<Rightarrow> ('s, pb_NodeAttackResponse) reply" where
  "Attack_server R J ev req =
     with_authority (rp_Authority req) (\<lambda>mapID epoch (n, s).
       respond (\<lambda>(message, target, global, profile, accepted).
                  \<lparr>sk_Message = message, sk_TargetMessage = target, sk_GlobalMessage = global,
                   sk_Player = Some (ToPlayerState profile), sk_Accepted = accepted\<rparr>)
         (Attack_node R J ev mapID (rp_Username req) epoch n s))"

definition Heal_server ::
    "('s, 'd) redis \<Rightarrow> 'd json \<Rightarrow> 's io \<Rightarrow> pb_NodePlayerRequest \<Rightarrow> NodeService \<times> 's \<Rightarrow> ('s, pb_NodePlayerActionResponse) reply" where
  "Heal_server R J ev req =
     with_authority (rp_Authority req) (\<lambda>mapID epoch (n, s).
       respond action_response (Heal R J ev mapID (rp_Username req) epoch n s))"

definition BuyItem_server ::
    "('s, 'd) redis \<Rightarrow> 'd json \<Rightarrow> 's io \<Rightarrow> pb_NodeBuyItemRequest \<Rightarrow> NodeService \<times> 's \<Rightarrow> ('s, pb_NodePlayerActionResponse) reply" where
  "BuyItem_server R J ev req =
     with_authority (rp_Authority req) (\<lambda>mapID epoch (n, s).
       respond action_response (BuyItem_node R J ev mapID (rp_Username req) (rp_Item req) epoch n s))"

definition AttackBoss_server ::
    "('s, 'd) redis \<Rightarrow> 'd json \<Rightarrow> 's io \<Rightarrow> pb_NodePlayerRequest \<Rightarrow> NodeService \<times> 's \<Rightarrow> ('s, pb_NodePlayerActionResponse) reply" where
  "AttackBoss_server R J ev req =
     with_authority (rp_Authority req) (\<lambda>mapID epoch (n, s).
       respond action_response (AttackBoss R J ev mapID (rp_Username req) epoch n s))"

definition RewardPlayer_server ::
    "('s, 'd) redis \<Rightarrow> 'd json \<Rightarrow> 's io \<Rightarrow> pb_NodeRewardPlayerRequest \<Rightarrow> NodeService \<times> 's \<Rightarrow> ('s, pb_NodeProfileResponse) reply" where
  "RewardPlayer_server R J ev req =
     with_authority (rp_Authority req) (\<lambda>mapID epoch (n, s).
       respond profile_response
         (RewardPlayer_node R J ev mapID (rp_Username req) (sint (rp_TreasureDelta req)) (sint (rp_VictoryDelta req)) epoch n s))"

definition Profile_server :: "time \<Rightarrow> string \<Rightarrow> string \<Rightarrow> NodeService \<times> 's \<Rightarrow> ('s, pb_NodeProfileResponse) reply" where
  "Profile_server now mapID username st =
     (let (r, n) = Profile now mapID username (fst st) in Some (Inr (profile_response r), n, snd st))"

text \<open>The reading calls pass an error on as it is.\<close>

definition Snapshot_server :: "process \<Rightarrow> time \<Rightarrow> string \<Rightarrow> NodeService \<times> 's \<Rightarrow> ('s, pb_MapView option) reply" where
  "Snapshot_server E now mapID st =
     (case Snapshot_node E now mapID (fst st) of
        (Inl _, n) \<Rightarrow> Some (Inl Unknown, n, snd st)
      | (Inr view, n) \<Rightarrow> Some (Inr (Some (ToMapView view)), n, snd st))"

definition Counts_server :: "string \<Rightarrow> NodeService \<times> 's \<Rightarrow> ('s, pb_NodeCountsResponse) reply" where
  "Counts_server mapID st =
     (case Counts_node mapID (fst st) of
        Inl _ \<Rightarrow> Some (Inl Unknown, st)
      | Inr (players, npcs, treasures, version) \<Rightarrow>
          Some (Inr \<lparr>sc_Players = to32 players, sc_Npcs = to32 npcs, sc_Treasures = to32 treasures, sc_Version = version\<rparr>, st))"

definition Checkpoint_server ::
    "'ts timestamppb \<Rightarrow> process \<Rightarrow> time \<Rightarrow> string \<Rightarrow> NodeService \<times> 's \<Rightarrow> ('s, 'ts pb_NodeCheckpoint option) reply" where
  "Checkpoint_server T E now mapID st =
     (case Checkpoint_node E now mapID (fst st) of
        (Inl _, n) \<Rightarrow> Some (Inl Unknown, n, snd st)
      | (Inr checkpoint, n) \<Rightarrow> Some (Inr (ToCheckpoint T checkpoint), n, snd st))"

definition Promote_server ::
    "'ts timestamppb \<Rightarrow> process \<Rightarrow> time \<Rightarrow> 'ts pb_NodePromoteRequest \<Rightarrow> NodeService \<times> 's \<Rightarrow> ('s, unit) reply" where
  "Promote_server T E now req =
     with_authority (rq_Authority req) (\<lambda>mapID epoch (n, s).
       case FromCheckpoint T (rq_Checkpoint req) of
         Inl _ \<Rightarrow> Some (Inl invalidNodeRequest, n, s)
       | Inr checkpoint \<Rightarrow>
           (case nodeMapConfig mapID of
              None \<Rightarrow> Some (Inl invalidNodeRequest, n, s)
            | Some config \<Rightarrow>
                (case Promote E now mapID config checkpoint epoch n of
                   None \<Rightarrow> None
                 | Some (Some e, n) \<Rightarrow> Some (Inl (grpcAuthorityError e), n, s)
                 | Some (None, n) \<Rightarrow> Some (Inr (), n, s))))"

definition View_server :: "process \<Rightarrow> NodeService \<times> 's \<Rightarrow> ('s, pb_NodeView option) reply" where
  "View_server E st = Some (Inr (Some (ToNodeView (View E (fst st)))), st)"

definition Ping_server :: "time \<Rightarrow> NodeService \<times> 's \<Rightarrow> ('s, time) reply" where
  "Ping_server now st = Some (Inr now, st)"

section \<open>The client\<close>

definition rpc_call :: "net \<Rightarrow> ('r \<Rightarrow> 'a) \<Rightarrow> (NodeService \<times> 's \<Rightarrow> ('s, 'r) reply) \<Rightarrow> NodeService \<times> 's \<Rightarrow> ('s, 'a) reply" where
  "rpc_call net f handler st =
     (case net of
        ReqLost \<Rightarrow> Some (Inl Unavailable, st)
      | Delivered \<Rightarrow> map_option (\<lambda>(r, st). (case r of Inl e \<Rightarrow> Inl e | Inr x \<Rightarrow> Inr (f x), st)) (handler st)
      | ReplyLost \<Rightarrow> map_option (\<lambda>(r, st). (Inl Unavailable, st)) (handler st))"

definition action_result :: "pb_NodePlayerActionResponse \<Rightarrow> event \<times> UserProfile \<times> bool" where
  "action_result response = (sp_Message response, FromPlayerState (sp_Player response), sp_Accepted response)"

definition profile_result :: "pb_NodeProfileResponse \<Rightarrow> UserProfile \<times> bool" where
  "profile_result response = (FromPlayerState (sf_Player response), sf_Found response)"

definition player_request :: "string \<Rightarrow> string \<Rightarrow> u64 \<Rightarrow> string \<Rightarrow> pb_NodePlayerRequest" where
  "player_request id' mapID epoch username =
     \<lparr>rp_Authority = Some (NewMapAuthority mapID id' epoch), rp_Username = username\<rparr>"

definition AddPlayer_client ::
    "('s, 'd) redis \<Rightarrow> 'd json \<Rightarrow> process \<Rightarrow> 's io \<Rightarrow> net \<Rightarrow> string \<Rightarrow> string \<Rightarrow> u64 \<Rightarrow> UserProfile \<Rightarrow> NodeService \<times> 's \<Rightarrow> ('s, unit) reply" where
  "AddPlayer_client R J E ev net id' mapID epoch profile =
     rpc_call net (\<lambda>x. x)
       (AddPlayer_server R J E ev \<lparr>ra_Authority = Some (NewMapAuthority mapID id' epoch), ra_Player = Some (ToPlayerState profile)\<rparr>)"

definition RemovePlayer_client ::
    "('s, 'd) redis \<Rightarrow> 'd json \<Rightarrow> 's io \<Rightarrow> net \<Rightarrow> string \<Rightarrow> string \<Rightarrow> string \<Rightarrow> u64 \<Rightarrow> NodeService \<times> 's \<Rightarrow> ('s, UserProfile \<times> bool) reply" where
  "RemovePlayer_client R J ev net id' mapID username epoch =
     rpc_call net profile_result (RemovePlayer_server R J ev (player_request id' mapID epoch username))"

definition MovePlayer_client ::
    "('s, 'd) redis \<Rightarrow> 'd json \<Rightarrow> 's io \<Rightarrow> net \<Rightarrow> string \<Rightarrow> string \<Rightarrow> string \<Rightarrow> string \<Rightarrow> u64 \<Rightarrow> NodeService \<times> 's
     \<Rightarrow> ('s, event \<times> UserProfile \<times> bool) reply" where
  "MovePlayer_client R J ev net id' mapID username direction epoch st =
     (case DirectionFromString direction of
        Inl _ \<Rightarrow> Some (Inl Unknown, st)
      | Inr wireDirection \<Rightarrow>
          rpc_call net action_result
            (MovePlayer_server R J ev \<lparr>rp_Authority = Some (NewMapAuthority mapID id' epoch), rp_Username = username,
                                       rp_Direction = wireDirection\<rparr>) st)"

definition Attack_client ::
    "('s, 'd) redis \<Rightarrow> 'd json \<Rightarrow> 's io \<Rightarrow> net \<Rightarrow> string \<Rightarrow> string \<Rightarrow> string \<Rightarrow> u64 \<Rightarrow> NodeService \<times> 's
     \<Rightarrow> ('s, event \<times> string \<times> event \<times> UserProfile \<times> bool) reply" where
  "Attack_client R J ev net id' mapID username epoch =
     rpc_call net (\<lambda>response. (sk_Message response, sk_TargetMessage response, sk_GlobalMessage response,
                                FromPlayerState (sk_Player response), sk_Accepted response))
       (Attack_server R J ev (player_request id' mapID epoch username))"

definition Heal_client ::
    "('s, 'd) redis \<Rightarrow> 'd json \<Rightarrow> 's io \<Rightarrow> net \<Rightarrow> string \<Rightarrow> string \<Rightarrow> string \<Rightarrow> u64 \<Rightarrow> NodeService \<times> 's
     \<Rightarrow> ('s, event \<times> UserProfile \<times> bool) reply" where
  "Heal_client R J ev net id' mapID username epoch =
     rpc_call net action_result (Heal_server R J ev (player_request id' mapID epoch username))"

definition BuyItem_client ::
    "('s, 'd) redis \<Rightarrow> 'd json \<Rightarrow> 's io \<Rightarrow> net \<Rightarrow> string \<Rightarrow> string \<Rightarrow> string \<Rightarrow> string \<Rightarrow> u64 \<Rightarrow> NodeService \<times> 's
     \<Rightarrow> ('s, event \<times> UserProfile \<times> bool) reply" where
  "BuyItem_client R J ev net id' mapID username item epoch =
     rpc_call net action_result
       (BuyItem_server R J ev \<lparr>rp_Authority = Some (NewMapAuthority mapID id' epoch), rp_Username = username, rp_Item = item\<rparr>)"

definition AttackBoss_client ::
    "('s, 'd) redis \<Rightarrow> 'd json \<Rightarrow> 's io \<Rightarrow> net \<Rightarrow> string \<Rightarrow> string \<Rightarrow> string \<Rightarrow> u64 \<Rightarrow> NodeService \<times> 's
     \<Rightarrow> ('s, event \<times> UserProfile \<times> bool) reply" where
  "AttackBoss_client R J ev net id' mapID username epoch =
     rpc_call net action_result (AttackBoss_server R J ev (player_request id' mapID epoch username))"

definition Profile_client ::
    "time \<Rightarrow> net \<Rightarrow> string \<Rightarrow> string \<Rightarrow> NodeService \<times> 's \<Rightarrow> ('s, UserProfile \<times> bool) reply" where
  "Profile_client now net mapID username = rpc_call net profile_result (Profile_server now mapID username)"

definition RewardPlayer_client ::
    "('s, 'd) redis \<Rightarrow> 'd json \<Rightarrow> 's io \<Rightarrow> net \<Rightarrow> string \<Rightarrow> string \<Rightarrow> string \<Rightarrow> int \<Rightarrow> int \<Rightarrow> u64 \<Rightarrow> NodeService \<times> 's
     \<Rightarrow> ('s, UserProfile \<times> bool) reply" where
  "RewardPlayer_client R J ev net id' mapID username treasureDelta victoryDelta epoch =
     rpc_call net profile_result
       (RewardPlayer_server R J ev \<lparr>rp_Authority = Some (NewMapAuthority mapID id' epoch), rp_Username = username,
          rp_TreasureDelta = to32 treasureDelta, rp_VictoryDelta = to32 victoryDelta\<rparr>)"

definition Snapshot_client :: "process \<Rightarrow> time \<Rightarrow> net \<Rightarrow> string \<Rightarrow> NodeService \<times> 's \<Rightarrow> ('s, MapView) reply" where
  "Snapshot_client E now net mapID = rpc_call net FromMapView (Snapshot_server E now mapID)"

definition Counts_client :: "net \<Rightarrow> string \<Rightarrow> NodeService \<times> 's \<Rightarrow> ('s, int \<times> int \<times> int \<times> int) reply" where
  "Counts_client net mapID =
     rpc_call net (\<lambda>r. (sint (sc_Players r), sint (sc_Npcs r), sint (sc_Treasures r), sc_Version r)) (Counts_server mapID)"

definition Ping_client :: "time \<Rightarrow> net \<Rightarrow> NodeService \<times> 's \<Rightarrow> ('s, unit) reply" where
  "Ping_client now net = rpc_call net (\<lambda>_. ()) (Ping_server now)"

text \<open>A checkpoint that cannot be decoded is an error of the client, after a successful call.\<close>

definition Checkpoint_client ::
    "'ts timestamppb \<Rightarrow> process \<Rightarrow> time \<Rightarrow> net \<Rightarrow> string \<Rightarrow> NodeService \<times> 's \<Rightarrow> ('s, MapCheckpoint) reply" where
  "Checkpoint_client T E now net mapID st =
     map_option (\<lambda>(r, st). (case r of
         Inl e \<Rightarrow> Inl e
       | Inr q \<Rightarrow> (case FromCheckpoint T q of Inl _ \<Rightarrow> Inl Unknown | Inr cp \<Rightarrow> Inr cp), st))
       (rpc_call net (\<lambda>q. q) (Checkpoint_server T E now mapID) st)"

definition Promote_client ::
    "'ts timestamppb \<Rightarrow> process \<Rightarrow> time \<Rightarrow> net \<Rightarrow> string \<Rightarrow> string \<Rightarrow> MapConfig \<Rightarrow> MapCheckpoint \<Rightarrow> u64 \<Rightarrow> NodeService \<times> 's
     \<Rightarrow> ('s, unit) reply" where
  "Promote_client T E now net id' mapID config checkpoint epoch =
     rpc_call net (\<lambda>x. x)
       (Promote_server T E now \<lparr>rq_Authority = Some (NewMapAuthority mapID id' epoch), rq_Checkpoint = ToCheckpoint T checkpoint\<rparr>)"

definition View_client :: "process \<Rightarrow> net \<Rightarrow> string \<Rightarrow> NodeService \<times> 's \<Rightarrow> NodeView" where
  "View_client E net id' st =
     (case rpc_call net (\<lambda>q. q) (View_server E) st of
        Some (Inr (Some view), _) \<Rightarrow> FromNodeView (Some view)
      | _ \<Rightarrow> zero_NodeView\<lparr>no_ID := id'\<rparr>)"

section \<open>Calls over the network\<close>

text \<open>What a client has around it: the store, and the node process behind every address.\<close>

record NodeGRPCClient =
  gc_id :: string
  gc_addr :: string

record 's outside =
  out_store :: 's
  out_nodes :: "(string, NodeService) alist"

text \<open>A call to the node behind a client's address, and its effect on the outside.\<close>

definition call_node ::
    "(NodeService \<times> 's \<Rightarrow> ('s, 'r) reply) \<Rightarrow> NodeGRPCClient \<Rightarrow> ('s, 'x) outside_scheme
     \<Rightarrow> ((grpc_error + 'r) \<times> ('s, 'x) outside_scheme) option" where
  "call_node call client en =
     (case map_of (out_nodes en) (gc_addr client) of
        None \<Rightarrow> Some (Inl Unavailable, en)
      | Some n \<Rightarrow>
          map_option (\<lambda>(r, n, s). (r, en\<lparr>out_store := s, out_nodes := AList.update (gc_addr client) n (out_nodes en)\<rparr>))
            (call (n, out_store en)))"

end
