(* ===== verification/Elector.thy ===== *)
theory Elector
  imports Fencing Config
begin

text \<open>
  Leader election (\<open>elector/redis.go\<close>, \<open>elector/always_leader.go\<close>). A \<open>RedisElector\<close> is one
  coordinator instance; the lease is a key with a time to live whose value is the token of the
  holder, the term a counter that every successful acquisition increments. \<open>now\<close> is the time of
  the Redis server for the lease and of the instance for \<open>expiresAt\<close>.

  \<^item> A context is modelled by what the code asks of it: \<open>None\<close> is nil, \<open>Some True\<close> a live context,
    \<open>Some False\<close> a cancelled one.
  \<^item> \<open>Campaign\<close> is split where it gives up the lock: \<open>Campaign_begin\<close>, one \<open>Campaign_try\<close> per round of
    its loop, \<open>Campaign_cancelled\<close>; \<open>Campaign\<close> runs them along a schedule, which says for every round
    what the other clients did to the server before it, what the network does, and whether the
    caller's context ends in the wait after it.
  \<^item> \<open>renewLoop\<close> runs over what its \<open>select\<close> receives; the branches are \<open>renewLoop_tick\<close>, \<open>renewLoop_done\<close>,
    and returning.
  \<^item> Redis refuses \<open>SET \<dots> PX 0\<close> and an \<open>INCR\<close> beyond a signed 64-bit number with an error; \<open>PEXPIRE\<close> with
    a time that is not positive deletes the key.
\<close>

datatype elector_error =
    DurationNotPositive | RenewTooLong | ClientNil | InstanceIDRequired | TokenFailed
  | ErrContext | ErrCampaignInProgress | ErrAcquire | ErrRelease

record RedisOptions =
  ro_LeaseKey :: string
  ro_TermKey :: string
  ro_TTL :: int
  ro_RenewInterval :: int
  ro_RetryInterval :: int

definition DefaultLeaseKey :: string where
  "DefaultLeaseKey = ''battle:coordinator:leader:lease''"

definition DefaultTermKey :: string where
  "DefaultTermKey = CoordinatorLeaderTermRedisKey"

definition normalized :: "RedisOptions \<Rightarrow> elector_error + RedisOptions" where
  "normalized o1 =
     (let o1 = (if ro_LeaseKey o1 = [] then o1\<lparr>ro_LeaseKey := DefaultLeaseKey\<rparr> else o1);
          o1 = (if ro_TermKey o1 = [] then o1\<lparr>ro_TermKey := DefaultTermKey\<rparr> else o1);
          defaults = rc_LeaderElection DefaultRuntime;
          o1 = (if ro_TTL o1 = 0 then o1\<lparr>ro_TTL := le_LeaseTTL defaults\<rparr> else o1);
          o1 = (if ro_RenewInterval o1 = 0 then o1\<lparr>ro_RenewInterval := le_RenewInterval defaults\<rparr> else o1);
          o1 = (if ro_RetryInterval o1 = 0 then o1\<lparr>ro_RetryInterval := le_CampaignRetryInterval defaults\<rparr> else o1)
      in if ro_TTL o1 \<le> 0 \<or> ro_RenewInterval o1 \<le> 0 \<or> ro_RetryInterval o1 \<le> 0 then Inl DurationNotPositive
         else if ro_RenewInterval o1 \<ge> ro_TTL o1 then Inl RenewTooLong
         else Inr o1)"

record RedisElector =
  el_instanceID :: string
  el_token :: string
  el_options :: RedisOptions
  el_leader :: bool
  el_term :: u64
  el_expiresAt :: time
  el_leaderCtx :: "bool option"
  el_leaderCancel :: bool
  el_campaigning :: bool

text \<open>\<open>raw\<close> is the random part of the token in hexadecimal, \<open>None\<close> when the source of randomness fails.\<close>

definition NewRedis :: "bool \<Rightarrow> string \<Rightarrow> RedisOptions \<Rightarrow> string option \<Rightarrow> elector_error + RedisElector" where
  "NewRedis clientNil instanceID options raw =
     (if clientNil then Inl ClientNil
      else let instanceID = TrimSpace instanceID
           in if instanceID = [] then Inl InstanceIDRequired
              else case normalized options of
                     Inl e \<Rightarrow> Inl e
                   | Inr options \<Rightarrow>
                       (case raw of
                          None \<Rightarrow> Inl TokenFailed
                        | Some r \<Rightarrow> Inr \<lparr>el_instanceID = instanceID, el_token = instanceID @ '':'' @ r,
                                        el_options = options, el_leader = False, el_term = 0,
                                        el_expiresAt = zero_time, el_leaderCtx = None, el_leaderCancel = False,
                                        el_campaigning = False\<rparr>))"

section \<open>The lease\<close>

definition ttl_ms :: "RedisElector \<Rightarrow> int" where
  "ttl_ms e = ro_TTL (el_options e) div millisecond"

definition acquire_script ::
    "('s, 'd) redis \<Rightarrow> 'd json \<Rightarrow> time \<Rightarrow> string \<Rightarrow> string \<Rightarrow> string \<Rightarrow> int \<Rightarrow> 's \<Rightarrow> int option \<times> 's" where
  "acquire_script R J now leaseKey termKey token ms s =
     (if ms \<le> 0 then (None, s)
      else if TGET R now leaseKey s = None
      then let s = TSET R now leaseKey (enc_text J token) (ms * millisecond) s
           in if num_at R J termKey s \<ge> 2 ^ 63 - 1 then (None, s)
              else let (v, s) = INCRBY R termKey 1 s in (Some v, s)
      else (Some 0, s))"

definition acquire ::
    "('s, 'd) redis \<Rightarrow> 'd json \<Rightarrow> net \<Rightarrow> time \<Rightarrow> RedisElector \<Rightarrow> 's \<Rightarrow> (elector_error + u64 \<times> bool) \<times> 's" where
  "acquire R J n now e s =
     (case rpc n (acquire_script R J now (ro_LeaseKey (el_options e)) (ro_TermKey (el_options e)) (el_token e)
                    (ttl_ms e)) s of
        (Some (Some term), s) \<Rightarrow> (Inr (word_of_int term, (word_of_int term :: u64) > 0), s)
      | (_, s) \<Rightarrow> (Inl ErrAcquire, s))"

definition holds :: "('s, 'd) redis \<Rightarrow> 'd json \<Rightarrow> time \<Rightarrow> string \<Rightarrow> string \<Rightarrow> 's \<Rightarrow> bool" where
  "holds R J now leaseKey token s \<longleftrightarrow>
     (case TGET R now leaseKey s of None \<Rightarrow> False | Some v \<Rightarrow> dec_text J v = Some token)"

definition renew_script ::
    "('s, 'd) redis \<Rightarrow> 'd json \<Rightarrow> time \<Rightarrow> string \<Rightarrow> string \<Rightarrow> int \<Rightarrow> 's \<Rightarrow> int \<times> 's" where
  "renew_script R J now leaseKey token ms s =
     (if holds R J now leaseKey token s
      then (1, if ms \<le> 0 then TDEL R leaseKey s
               else TSET R now leaseKey (enc_text J token) (ms * millisecond) s)
      else (0, s))"

definition renew ::
    "('s, 'd) redis \<Rightarrow> 'd json \<Rightarrow> net \<Rightarrow> time \<Rightarrow> RedisElector \<Rightarrow> 's \<Rightarrow> bool option \<times> RedisElector \<times> 's" where
  "renew R J n now e s =
     (case rpc n (renew_script R J now (ro_LeaseKey (el_options e)) (el_token e) (ttl_ms e)) s of
        (None, s) \<Rightarrow> (None, e, s)
      | (Some result, s) \<Rightarrow>
          (Some (result = 1),
           if result = 1 \<and> el_leader e then e\<lparr>el_expiresAt := now + ro_TTL (el_options e)\<rparr> else e, s))"

definition release_script ::
    "('s, 'd) redis \<Rightarrow> 'd json \<Rightarrow> time \<Rightarrow> string \<Rightarrow> string \<Rightarrow> 's \<Rightarrow> int \<times> 's" where
  "release_script R J now leaseKey token s =
     (if holds R J now leaseKey token s then (1, TDEL R leaseKey s) else (0, s))"

definition releaseToken ::
    "('s, 'd) redis \<Rightarrow> 'd json \<Rightarrow> net \<Rightarrow> time \<Rightarrow> RedisElector \<Rightarrow> 's \<Rightarrow> elector_error option \<times> 's" where
  "releaseToken R J n now e s =
     (case rpc n (release_script R J now (ro_LeaseKey (el_options e)) (el_token e)) s of
        (None, s) \<Rightarrow> (Some ErrRelease, s) | (Some _, s) \<Rightarrow> (None, s))"

section \<open>The instance\<close>

definition loseLeadership :: "RedisElector \<Rightarrow> RedisElector" where
  "loseLeadership e =
     e\<lparr>el_leader := False, el_term := 0, el_expiresAt := zero_time, el_leaderCancel := False,
       el_leaderCtx := (if el_leaderCancel e then map_option (\<lambda>_. False) (el_leaderCtx e) else el_leaderCtx e)\<rparr>"

definition IsLeader :: "RedisElector \<Rightarrow> bool" where
  "IsLeader e \<longleftrightarrow> el_leader e \<and> el_leaderCtx e = Some True"

definition Term :: "RedisElector \<Rightarrow> u64" where
  "Term e = (if \<not> el_leader e \<or> el_leaderCtx e \<noteq> Some True then 0 else el_term e)"

definition Resign ::
    "('s, 'd) redis \<Rightarrow> 'd json \<Rightarrow> net \<Rightarrow> time \<Rightarrow> RedisElector \<Rightarrow> 's \<Rightarrow> elector_error option \<times> RedisElector \<times> 's" where
  "Resign R J n now e s =
     (let e = loseLeadership e; (r, s) = releaseToken R J n now e s in (r, e, s))"

record Status =
  sa_Leader :: bool
  sa_LeaderID :: string
  sa_Term :: u64
  sa_LeaseRemaining :: int

definition Status_of :: "time \<Rightarrow> RedisElector \<Rightarrow> Status" where
  "Status_of now e =
     (if IsLeader e
      then \<lparr>sa_Leader = True, sa_LeaderID = el_instanceID e, sa_Term = el_term e,
            sa_LeaseRemaining = (if el_expiresAt e - now < 0 then 0 else el_expiresAt e - now)\<rparr>
      else \<lparr>sa_Leader = False, sa_LeaderID = el_instanceID e, sa_Term = 0, sa_LeaseRemaining = 0\<rparr>)"

text \<open>The caller's context ends: the leader context derived from it ends with it.\<close>

definition parent_cancelled :: "RedisElector \<Rightarrow> RedisElector" where
  "parent_cancelled e = e\<lparr>el_leaderCtx := map_option (\<lambda>_. False) (el_leaderCtx e)\<rparr>"

definition Campaign_begin :: "bool \<Rightarrow> RedisElector \<Rightarrow> (elector_error + unit) option \<times> RedisElector" where
  "Campaign_begin done e =
     (if done then (Some (Inl ErrContext), e)
      else if el_leader e \<and> el_leaderCtx e = Some True then (Some (Inr ()), e)
      else if el_campaigning e then (Some (Inl ErrCampaignInProgress), e)
      else (None, e\<lparr>el_campaigning := True\<rparr>))"

definition Campaign_try ::
    "('s, 'd) redis \<Rightarrow> 'd json \<Rightarrow> net \<Rightarrow> time \<Rightarrow> RedisElector \<Rightarrow> 's
     \<Rightarrow> (elector_error + unit) option \<times> RedisElector \<times> 's" where
  "Campaign_try R J n now e s =
     (case acquire R J n now e s of
        (Inl err, s) \<Rightarrow> (Some (Inl err), (loseLeadership e)\<lparr>el_campaigning := False\<rparr>, s)
      | (Inr (term, acquired), s) \<Rightarrow>
          if acquired
          then (Some (Inr ()),
                e\<lparr>el_leader := True, el_term := term, el_expiresAt := now + ro_TTL (el_options e),
                  el_leaderCtx := Some True, el_leaderCancel := True, el_campaigning := False\<rparr>, s)
          else (None, e, s))"

definition Campaign_cancelled :: "RedisElector \<Rightarrow> (elector_error + unit) option \<times> RedisElector" where
  "Campaign_cancelled e = (Some (Inl ErrContext), e\<lparr>el_campaigning := False\<rparr>)"

record 's round =
  rd_others :: "'s \<Rightarrow> 's"
  rd_net :: net
  rd_now :: time
  rd_done :: bool

fun campaign_loop ::
    "('s, 'd) redis \<Rightarrow> 'd json \<Rightarrow> 's round list \<Rightarrow> RedisElector \<Rightarrow> 's
     \<Rightarrow> (elector_error + unit) option \<times> RedisElector \<times> 's" where
  "campaign_loop R J [] e s = (None, e, s)"
| "campaign_loop R J (r # rs) e s =
     (case Campaign_try R J (rd_net r) (rd_now r) e (rd_others r s) of
        (Some res, e, s) \<Rightarrow> (Some res, e, s)
      | (None, e, s) \<Rightarrow>
          if rd_done r then (let (res, e) = Campaign_cancelled e in (res, e, s))
          else campaign_loop R J rs e s)"

definition Campaign ::
    "('s, 'd) redis \<Rightarrow> 'd json \<Rightarrow> bool \<Rightarrow> 's round list \<Rightarrow> RedisElector \<Rightarrow> 's
     \<Rightarrow> (elector_error + unit) option \<times> RedisElector \<times> 's" where
  "Campaign R J done rs e s =
     (case Campaign_begin done e of
        (Some res, e) \<Rightarrow> (Some res, e, s)
      | (None, e) \<Rightarrow> campaign_loop R J rs e s)"

definition renewLoop_tick ::
    "('s, 'd) redis \<Rightarrow> 'd json \<Rightarrow> net \<Rightarrow> time \<Rightarrow> RedisElector \<Rightarrow> 's \<Rightarrow> RedisElector \<times> 's" where
  "renewLoop_tick R J n now e s =
     (case renew R J n now e s of
        (None, e, s) \<Rightarrow> (loseLeadership e, s)
      | (Some renewed, e, s) \<Rightarrow> (if \<not> renewed then loseLeadership e else e, s))"

definition renewLoop_done ::
    "('s, 'd) redis \<Rightarrow> 'd json \<Rightarrow> net \<Rightarrow> time \<Rightarrow> RedisElector \<Rightarrow> 's \<Rightarrow> RedisElector \<times> 's" where
  "renewLoop_done R J n now e s =
     (loseLeadership e, snd (releaseToken R J n now e s))"

text \<open>The loop over what its \<open>select\<close> receives, until it returns.\<close>

datatype 's renew_event =
    CampaignDone "'s \<Rightarrow> 's" net time
  | LeaderDone
  | RenewTick "'s \<Rightarrow> 's" net time

fun renewLoop ::
    "('s, 'd) redis \<Rightarrow> 'd json \<Rightarrow> 's renew_event list \<Rightarrow> RedisElector \<Rightarrow> 's \<Rightarrow> RedisElector \<times> 's" where
  "renewLoop R J [] e s = (e, s)"
| "renewLoop R J (CampaignDone others n now # evs) e s = renewLoop_done R J n now (parent_cancelled e) (others s)"
| "renewLoop R J (LeaderDone # evs) e s = (e, s)"
| "renewLoop R J (RenewTick others n now # evs) e s =
     (let (e', s') = renewLoop_tick R J n now e (others s)
      in if fst (renew R J n now e (others s)) = Some True then renewLoop R J evs e' s' else (e', s'))"

section \<open>The elector of a single instance\<close>

record AlwaysLeader =
  al_leader :: bool
  al_leaderCtx :: "bool option"
  al_cancel :: bool

definition NewAlwaysLeader :: AlwaysLeader where
  "NewAlwaysLeader = \<lparr>al_leader = True, al_leaderCtx = None, al_cancel = False\<rparr>"

definition Campaign_always :: "bool \<Rightarrow> AlwaysLeader \<Rightarrow> (elector_error + unit) \<times> AlwaysLeader" where
  "Campaign_always done e =
     (if done then (Inl ErrContext, e)
      else let e = (if \<not> al_leader e then e\<lparr>al_leader := True\<rparr> else e);
               e = (if al_leaderCtx e \<noteq> Some True then e\<lparr>al_leaderCtx := Some True, al_cancel := True\<rparr> else e)
           in (Inr (), e))"

definition IsLeader_always :: "AlwaysLeader \<Rightarrow> bool" where
  "IsLeader_always e = al_leader e"

definition Term_always :: "AlwaysLeader \<Rightarrow> u64" where
  "Term_always e = (if \<not> IsLeader_always e then 0 else 1)"

definition Resign_always :: "AlwaysLeader \<Rightarrow> AlwaysLeader" where
  "Resign_always e =
     (let e = e\<lparr>al_leader := False\<rparr>
      in if al_cancel e then e\<lparr>al_leaderCtx := map_option (\<lambda>_. False) (al_leaderCtx e)\<rparr> else e)"

definition Status_always :: "AlwaysLeader \<Rightarrow> Status" where
  "Status_always e =
     \<lparr>sa_Leader = IsLeader_always e, sa_LeaderID = ''single-instance'', sa_Term = Term_always e, sa_LeaseRemaining = 0\<rparr>"

end
