(* ===== verification/Coordinator.thy ===== *)
theory Coordinator
  imports Node_RPC Elector
begin

text \<open>
  The control plane (\<open>coordinator/\<close>). A coordinator looks at its elector, at the store and at the nodes, and
  decides which node owns which map. What is outside of it is the record \<open>outside\<close>: the store, and the
  node process behind every address. Both are shared, and so is the coordinator itself between its own
  goroutines; a call therefore takes a \<open>cio\<close>, which extends the \<open>io\<close> of the node: \<open>ev_others k\<close> is what
  others did to the outside before the \<open>k\<close>-th access to it, \<open>ev_self k\<close> what the other goroutines of
  this process (heartbeats, discovery, the renewal of the lease) did to the coordinator before its
  \<open>k\<close>-th look at it, \<open>ev_lost k\<close> the registry keys that cannot be read in that access.

  \<^item> A result \<open>None\<close> is a call that has not returned, which only \<open>Promote\<close> can cause.
  \<^item> \<open>go c.failoverNode(id)\<close> starts a goroutine: the model returns the list of the ids started.
  \<^item> A loop is here one round of it; the theory \<open>Leader\<close> has the loops themselves. Their timers only say when the
    next round comes.
  \<^item> \<open>StandbyNil\<close> is the panic on a nil client. Log lines are left out.
\<close>

record nodeConnection =
  cn_client :: NodeGRPCClient
  cn_healthy :: bool

datatype elector = ERedis RedisElector | EAlways AlwaysLeader

fun elector_Term :: "elector \<Rightarrow> u64" where
  "elector_Term (ERedis e) = Term e"
| "elector_Term (EAlways e) = Term_always e"

fun elector_IsLeader :: "elector \<Rightarrow> bool" where
  "elector_IsLeader (ERedis e) = IsLeader e"
| "elector_IsLeader (EAlways e) = IsLeader_always e"

record Coordinator =
  co_elector :: elector
  co_configs :: "(string, MapConfig) alist"
  co_nodes :: "(string, nodeConnection) alist"
  co_connectingNodes :: "string list"
  co_failureGenerations :: "(string, u64) alist"
  co_failoverInFlight :: "(string, bool) alist"
  co_started :: bool
  co_closed :: bool
  co_runtime :: CoordinatorConfig

record 's cio = "'s outside io" +
  ev_self :: "nat \<Rightarrow> Coordinator \<Rightarrow> Coordinator"
  ev_lost :: "nat \<Rightarrow> string \<Rightarrow> bool"

datatype coord_error =
    CoordNotLeader | CoordLoad store_error | CoordNoTopology | CoordNoEpoch string | CoordNoStandby string
  | CoordCheckpointUnusable string | CoordMapNotConfigured string | CoordPromote grpc_error | CoordLostLease
  | CoordCommit store_error | CoordPublish store_error | CoordBoot boot_error | StandbyNil
  | CoordClosed | CoordElector elector_error | CoordHostname | CoordConfig config_error | CoordStoreNil | CoordElectorNil | CoordFactoryNil

section \<open>Construction\<close>

text \<open>
  \<open>redis\<close> says whether the store hands out a Redis client; \<open>hostname\<close> is the host name with the
  process id, \<open>None\<close> when the system does not give it.
\<close>

definition productionElector ::
    "bool \<Rightarrow> env \<Rightarrow> string option \<Rightarrow> string option \<Rightarrow> LeaderElectionConfig \<Rightarrow> coord_error + elector" where
  "productionElector redis env hostname raw runtime =
     (if \<not> redis then Inr (EAlways NewAlwaysLeader)
      else
        case (if CoordinatorID env = [] then hostname else Some (CoordinatorID env)) of
          None \<Rightarrow> Inl CoordHostname
        | Some instanceID \<Rightarrow>
            (case NewRedis False instanceID
                    \<lparr>ro_LeaseKey = [], ro_TermKey = [], ro_TTL = le_LeaseTTL runtime,
                     ro_RenewInterval = le_RenewInterval runtime, ro_RetryInterval = le_CampaignRetryInterval runtime\<rparr> raw of
               Inl e \<Rightarrow> Inl (CoordElector e)
             | Inr e \<Rightarrow> Inr (ERedis e)))"

definition newCoordinatorWithRuntimeConfig ::
    "bool \<Rightarrow> elector option \<Rightarrow> bool \<Rightarrow> MapConfig list \<Rightarrow> CoordinatorConfig \<Rightarrow> coord_error + Coordinator" where
  "newCoordinatorWithRuntimeConfig store selectedElector newNodeClient configs runtime =
     (if \<not> store then Inl CoordStoreNil
      else case selectedElector of
             None \<Rightarrow> Inl CoordElectorNil
           | Some e \<Rightarrow>
               if \<not> newNodeClient then Inl CoordFactoryNil
               else Inr \<lparr>co_elector = e, co_configs = fold (\<lambda>cfg. AList.update (cfg_ID cfg) cfg) configs [],
                         co_nodes = [], co_connectingNodes = [], co_failureGenerations = [], co_failoverInFlight = [],
                         co_started = False, co_closed = False, co_runtime = runtime\<rparr>)"

definition NewWithRuntimeConfig ::
    "bool \<Rightarrow> env \<Rightarrow> string option \<Rightarrow> string option \<Rightarrow> RuntimeConfig \<Rightarrow> coord_error + Coordinator" where
  "NewWithRuntimeConfig redis env hostname raw runtime =
     (case ValidateRuntime runtime of
        Some e \<Rightarrow> Inl (CoordConfig e)
      | None \<Rightarrow>
          (case productionElector redis env hostname raw (rc_LeaderElection runtime) of
             Inl e \<Rightarrow> Inl e
           | Inr selectedElector \<Rightarrow>
               newCoordinatorWithRuntimeConfig True (Some selectedElector) True AvailableMaps (rc_Coordinator runtime)))"

text \<open>The boolean says whether the leader loop is started.\<close>

definition Start_coordinator :: "Coordinator \<Rightarrow> (coord_error + bool) \<times> Coordinator" where
  "Start_coordinator c =
     (if co_closed c then (Inl CoordClosed, c)
      else if co_started c then (Inr False, c)
      else (Inr True, c\<lparr>co_started := True\<rparr>))"

section \<open>Leadership\<close>

text \<open>The term and the leadership are read one after the other.\<close>

definition currentLeaderTerm :: "'s cio \<Rightarrow> nat \<Rightarrow> Coordinator \<Rightarrow> (u64 \<times> bool) \<times> Coordinator" where
  "currentLeaderTerm ev k c =
     (let c = ev_self ev k c; term = elector_Term (co_elector c); c = ev_self ev (Suc k) c
      in ((term, term > 0 \<and> elector_IsLeader (co_elector c)), c))"

definition hasLeaderTerm :: "'s cio \<Rightarrow> nat \<Rightarrow> u64 \<Rightarrow> Coordinator \<Rightarrow> bool \<times> Coordinator" where
  "hasLeaderTerm ev k term c =
     (if \<not> term > 0 then (False, c)
      else let c = ev_self ev k c
           in if \<not> elector_IsLeader (co_elector c) then (False, c)
              else let c = ev_self ev (Suc k) c in (elector_Term (co_elector c) = term, c))"

definition LeaderStatus :: "time \<Rightarrow> Coordinator \<Rightarrow> Status" where
  "LeaderStatus now c = (case co_elector c of ERedis e \<Rightarrow> Status_of now e | EAlways e \<Rightarrow> Status_always e)"

text \<open>Closing: the clients that are closed are returned with the error of the resignation.\<close>

definition Close ::
    "('s, 'd) redis \<Rightarrow> 'd json \<Rightarrow> net \<Rightarrow> time \<Rightarrow> Coordinator \<Rightarrow> 's outside
     \<Rightarrow> (elector_error option \<times> NodeGRPCClient list) \<times> Coordinator \<times> 's outside" where
  "Close R J n now c en =
     (if co_closed c then ((None, []), c, en)
      else
        let clients = map (cn_client \<circ> snd) (co_nodes c);
            c = c\<lparr>co_closed := True, co_nodes := [], co_connectingNodes := [], co_failureGenerations := [], co_failoverInFlight := []\<rparr>
        in case co_elector c of
             ERedis e \<Rightarrow>
               let (r, e, s) = Resign R J n now e (out_store en)
               in ((r, clients), c\<lparr>co_elector := ERedis e\<rparr>, en\<lparr>out_store := s\<rparr>)
           | EAlways e \<Rightarrow> ((None, clients), c\<lparr>co_elector := EAlways (Resign_always e)\<rparr>, en))"

definition knownMapIDs :: "Coordinator \<Rightarrow> string list" where
  "knownMapIDs c = keys (co_configs c)"

section \<open>Failover\<close>

definition healthyNode :: "string \<Rightarrow> Coordinator \<Rightarrow> NodeGRPCClient option" where
  "healthyNode nodeID c =
     (case map_of (co_nodes c) nodeID of
        None \<Rightarrow> None
      | Some connection \<Rightarrow> if \<not> cn_healthy connection then None else Some (cn_client connection))"

definition mapConfig :: "string \<Rightarrow> Coordinator \<Rightarrow> MapConfig option" where
  "mapConfig mapID c = map_of (co_configs c) mapID"

fun standby_candidates ::
    "'s cio \<Rightarrow> nat \<Rightarrow> string \<Rightarrow> string \<Rightarrow> NodeRegistryInfo list \<Rightarrow> string list \<Rightarrow> Coordinator \<Rightarrow> string list \<times> Coordinator" where
  "standby_candidates ev k mapID excludedNodeID [] ids c = (ids, c)"
| "standby_candidates ev k mapID excludedNodeID (registration # rs) ids c =
     (if nr_ID registration = excludedNodeID \<or> nr_Draining registration \<or> nr_MapID registration \<noteq> mapID
      then standby_candidates ev (Suc k) mapID excludedNodeID rs ids c
      else if nr_ID registration \<in> set ids then standby_candidates ev (Suc k) mapID excludedNodeID rs ids c
      else let c = ev_self ev k c
           in if healthyNode (nr_ID registration) c = None then standby_candidates ev (Suc k) mapID excludedNodeID rs ids c
              else standby_candidates ev (Suc k) mapID excludedNodeID rs (ids @ [nr_ID registration]) c)"

text \<open>The looks of the loop at the coordinator are numbered from 10, the last one is number 9.\<close>

definition selectStandby ::
    "('s, 'd) redis \<Rightarrow> 'd json \<Rightarrow> 's cio \<Rightarrow> string \<Rightarrow> string \<Rightarrow> Coordinator \<Rightarrow> 's outside
     \<Rightarrow> (coord_error + string \<times> NodeGRPCClient option) \<times> Coordinator \<times> 's outside" where
  "selectStandby R J ev mapID excludedNodeID c en =
     (let en = ev_others ev 1 en
      in case GetActiveNodes R J (ev_net ev 1) (ev_lost ev 1) (ev_now ev 1) (out_store en) of
           (_, Some e) \<Rightarrow> (Inl (CoordLoad e), c, en)
         | (registrations, None) \<Rightarrow>
             let (ids, c) = standby_candidates ev 10 mapID excludedNodeID registrations [] c
             in case sort ids of
                  [] \<Rightarrow> (Inl (CoordNoStandby mapID), c, en)
                | standbyID # _ \<Rightarrow>
                    let c = ev_self ev 9 c in (Inr (standbyID, healthyNode standbyID c), c, en))"

definition next_topology :: "Topology \<Rightarrow> string \<Rightarrow> string \<Rightarrow> u64 \<Rightarrow> u64 \<Rightarrow> time \<Rightarrow> Topology" where
  "next_topology topology mapID standbyID nextEpoch term now =
     (Clone topology)\<lparr>tp_Version := tp_Version topology + 1,
                      tp_Owners := AList.update mapID standbyID (tp_Owners topology),
                      tp_MapEpochs := AList.update mapID nextEpoch (tp_MapEpochs topology),
                      tp_LeaderTerm := term, tp_UpdatedAt := now\<rparr>"

definition failover_commit ::
    "('s, 'd) redis \<Rightarrow> 'd json \<Rightarrow> 's cio \<Rightarrow> u64 \<Rightarrow> Topology \<Rightarrow> string \<Rightarrow> string \<Rightarrow> string \<Rightarrow> u64 \<Rightarrow> Coordinator \<Rightarrow> 's outside
     \<Rightarrow> coord_error option \<times> Coordinator \<times> 's outside" where
  "failover_commit R J ev term topology mapID failedNodeID standbyID nextEpoch c en =
     (let nxt = next_topology topology mapID standbyID nextEpoch term (ev_now ev 4);
          (still, c) = hasLeaderTerm ev 2 term c
      in if \<not> still then (Some CoordLostLease, c, en)
         else
           let en = ev_others ev 4 en
           in case CompareAndSaveTopologyAndMigrateSessionsForLeader R J (ev_net ev 4) (tp_Version topology) nxt term
                     mapID failedNodeID standbyID (out_store en) of
                (Some e, s) \<Rightarrow> (Some (CoordCommit e), c, en\<lparr>out_store := s\<rparr>)
              | (None, s) \<Rightarrow>
                  let en = ev_others ev 5 (en\<lparr>out_store := s\<rparr>)
                  in case PublishTopologyChanged R (ev_net ev 5) (tp_Version nxt) (out_store en) of
                       (Some e, s) \<Rightarrow> (Some (CoordPublish e), c, en\<lparr>out_store := s\<rparr>)
                     | (None, s) \<Rightarrow> (None, c, en\<lparr>out_store := s\<rparr>))"

definition failover_promote ::
    "('s, 'd) redis \<Rightarrow> 'd json \<Rightarrow> 'ts timestamppb \<Rightarrow> (string \<Rightarrow> process) \<Rightarrow> 's cio \<Rightarrow> u64 \<Rightarrow> Topology \<Rightarrow> string \<Rightarrow> string
     \<Rightarrow> string \<times> NodeGRPCClient option \<Rightarrow> Coordinator \<Rightarrow> 's outside \<Rightarrow> (coord_error option \<times> Coordinator \<times> 's outside) option" where
  "failover_promote R J T E ev term topology mapID failedNodeID standby c en =
     (let oldEpoch = get_or 0 (tp_MapEpochs topology) mapID; en = ev_others ev 2 en
      in case LoadCheckpoint R J (ev_net ev 2) mapID (out_store en) of
           None \<Rightarrow> Some (Some (CoordCheckpointUnusable (fst standby)), c, en)
         | Some cp \<Rightarrow>
             if c_MapID cp \<noteq> mapID \<or> c_NodeID cp \<noteq> failedNodeID \<or> c_MapEpoch cp \<noteq> oldEpoch \<or> c_Version cp \<le> 0
             then Some (Some (CoordCheckpointUnusable (fst standby)), c, en)
             else case (mapConfig mapID c, snd standby) of
                    (None, _) \<Rightarrow> Some (Some (CoordMapNotConfigured mapID), c, en)
                  | (Some _, None) \<Rightarrow> Some (Some StandbyNil, c, en)
                  | (Some cfg, Some client) \<Rightarrow>
                      (case call_node (Promote_client T (E (gc_addr client)) (ev_now ev 3) (ev_net ev 3) (gc_id client)
                              mapID cfg cp (oldEpoch + 1)) client (ev_others ev 3 en) of
                         None \<Rightarrow> None
                       | Some (Inl e, en) \<Rightarrow> Some (Some (CoordPromote e), c, en)
                       | Some (Inr _, en) \<Rightarrow>
                           Some (failover_commit R J ev term topology mapID failedNodeID (fst standby) (oldEpoch + 1) c en)))"

definition failoverMap ::
    "('s, 'd) redis \<Rightarrow> 'd json \<Rightarrow> 'ts timestamppb \<Rightarrow> (string \<Rightarrow> process) \<Rightarrow> 's cio \<Rightarrow> string \<Rightarrow> string \<Rightarrow> Coordinator \<Rightarrow> 's outside
     \<Rightarrow> (coord_error option \<times> Coordinator \<times> 's outside) option" where
  "failoverMap R J T E ev mapID failedNodeID c en =
     (let ((term, leader), c) = currentLeaderTerm ev 0 c
      in if \<not> leader then Some (Some CoordNotLeader, c, en)
         else
           let en = ev_others ev 0 en
           in case LoadTopology R J (ev_net ev 0) (out_store en) of
                Inl e \<Rightarrow> Some (Some (CoordLoad e), c, en)
              | Inr None \<Rightarrow> Some (Some CoordNoTopology, c, en)
              | Inr (Some topology) \<Rightarrow>
                  if get_or [] (tp_Owners topology) mapID \<noteq> failedNodeID then Some (None, c, en)
                  else if get_or 0 (tp_MapEpochs topology) mapID = 0 then Some (Some (CoordNoEpoch mapID), c, en)
                  else case selectStandby R J ev mapID failedNodeID c en of
                         (Inl e, c, en) \<Rightarrow> Some (Some e, c, en)
                       | (Inr standby, c, en) \<Rightarrow> failover_promote R J T E ev term topology mapID failedNodeID standby c en)"

fun failover_maps ::
    "('s, 'd) redis \<Rightarrow> 'd json \<Rightarrow> 'ts timestamppb \<Rightarrow> (string \<Rightarrow> process) \<Rightarrow> (string \<Rightarrow> 's cio) \<Rightarrow> string list \<Rightarrow> string \<Rightarrow> Coordinator
     \<Rightarrow> 's outside \<Rightarrow> (Coordinator \<times> 's outside) option" where
  "failover_maps R J T E evs [] failedNodeID c en = Some (c, en)"
| "failover_maps R J T E evs (mapID # ms) failedNodeID c en =
     (case failoverMap R J T E (evs mapID) mapID failedNodeID c en of
        None \<Rightarrow> None
      | Some (_, c, en) \<Rightarrow> failover_maps R J T E evs ms failedNodeID c en)"

definition owned_by :: "string \<Rightarrow> Topology \<Rightarrow> string list" where
  "owned_by nodeID topology = sort (map fst (filter (\<lambda>(mapID, ownerID). ownerID = nodeID) (tp_Owners topology)))"

definition failoverNode ::
    "('s, 'd) redis \<Rightarrow> 'd json \<Rightarrow> 'ts timestamppb \<Rightarrow> (string \<Rightarrow> process) \<Rightarrow> 's cio \<Rightarrow> (string \<Rightarrow> 's cio) \<Rightarrow> string \<Rightarrow> Coordinator \<Rightarrow> 's outside
     \<Rightarrow> (Coordinator \<times> 's outside) option" where
  "failoverNode R J T E ev evs failedNodeID c en =
     (let ((_, leader), c) = currentLeaderTerm ev 0 c
      in if \<not> leader then Some (c, en)
         else
           let en = ev_others ev 0 en
           in case LoadTopology R J (ev_net ev 0) (out_store en) of
                Inr (Some topology) \<Rightarrow> failover_maps R J T E evs (owned_by failedNodeID topology) failedNodeID c en
              | _ \<Rightarrow> Some (c, en))"

section \<open>Draining nodes and the first topology\<close>

definition reconcileDrainingNodes ::
    "('s, 'd) redis \<Rightarrow> 'd json \<Rightarrow> 's cio \<Rightarrow> NodeRegistryInfo list \<Rightarrow> Coordinator \<Rightarrow> 's outside
     \<Rightarrow> string list \<times> Coordinator \<times> 's outside" where
  "reconcileDrainingNodes R J ev activeNodes c en =
     (let ((_, leader), c) = currentLeaderTerm ev 2 c
      in if \<not> leader then ([], c, en)
         else
           let en = ev_others ev 2 en
           in case LoadTopology R J (ev_net ev 2) (out_store en) of
                Inr (Some topology) \<Rightarrow>
                  let drainingOwners = map nr_ID (filter nr_Draining activeNodes)
                  in (filter (\<lambda>ownerID. ownerID \<in> set drainingOwners) (map snd (tp_Owners topology)), c, en)
              | _ \<Rightarrow> ([], c, en))"

definition bootstrapTopologyIfAbsent ::
    "('s, 'd) redis \<Rightarrow> 'd json \<Rightarrow> 's cio \<Rightarrow> NodeRegistryInfo list \<Rightarrow> Coordinator \<Rightarrow> 's outside
     \<Rightarrow> coord_error option \<times> Coordinator \<times> 's outside" where
  "bootstrapTopologyIfAbsent R J ev nodes c en =
     (let ((term, leader), c) = currentLeaderTerm ev 4 c
      in if \<not> leader then (None, c, en)
         else
           let en = ev_others ev 3 en
           in case LoadTopology R J (ev_net ev 3) (out_store en) of
                Inl e \<Rightarrow> (Some (CoordLoad e), c, en)
              | Inr (Some _) \<Rightarrow> (None, c, en)
              | Inr None \<Rightarrow>
                  (case BuildInitialTopology (knownMapIDs c) nodes (ev_now ev 3) of
                     Inl e \<Rightarrow> (Some (CoordBoot e), c, en)
                   | Inr None \<Rightarrow> (None, c, en)
                   | Inr (Some initial) \<Rightarrow>
                       let (still, c) = hasLeaderTerm ev 6 term c
                       in if \<not> still then (None, c, en)
                          else
                            let initial = initial\<lparr>tp_LeaderTerm := term\<rparr>; en = ev_others ev 4 en
                            in case CompareAndSaveTopologyForLeader R J (ev_net ev 4) 0 initial term (out_store en) of
                                 (Some e, s) \<Rightarrow>
                                   (if e = ErrTopologyVersionConflict then None else Some (CoordCommit e), c, en\<lparr>out_store := s\<rparr>)
                               | (None, s) \<Rightarrow>
                                   let en = ev_others ev 5 (en\<lparr>out_store := s\<rparr>)
                                   in case PublishTopologyChanged R (ev_net ev 5) (tp_Version initial) (out_store en) of
                                        (Some e, s) \<Rightarrow> (Some (CoordPublish e), c, en\<lparr>out_store := s\<rparr>)
                                      | (None, s) \<Rightarrow> (None, c, en\<lparr>out_store := s\<rparr>)))"

section \<open>Discovery\<close>

fun discover_pending ::
    "NodeRegistryInfo list \<Rightarrow> Coordinator \<Rightarrow> NodeRegistryInfo list \<times> Coordinator" where
  "discover_pending [] c = ([], c)"
| "discover_pending (info # infos) c =
     (if nr_Draining info \<or> has_key (co_nodes c) (nr_ID info) \<or> nr_ID info \<in> set (co_connectingNodes c)
      then discover_pending infos c
      else let (pending, c) = discover_pending infos (c\<lparr>co_connectingNodes := nr_ID info # co_connectingNodes c\<rparr>)
           in (info # pending, c))"

definition discoverNodes :: "NodeRegistryInfo list \<Rightarrow> Coordinator \<Rightarrow> NodeRegistryInfo list \<times> Coordinator" where
  "discoverNodes activeNodes c = (if co_closed c then ([], c) else discover_pending activeNodes c)"

definition finishNodeConnection :: "string \<Rightarrow> Coordinator \<Rightarrow> Coordinator" where
  "finishNodeConnection nodeID c = c\<lparr>co_connectingNodes := removeAll nodeID (co_connectingNodes c)\<rparr>"

text \<open>\<open>dial\<close> says whether a client can be created for the address.\<close>

definition connectDiscoveredNode ::
    "(string \<Rightarrow> string \<Rightarrow> bool) \<Rightarrow> 's cio \<Rightarrow> NodeRegistryInfo \<Rightarrow> Coordinator \<Rightarrow> 's outside \<Rightarrow> Coordinator \<times> 's outside" where
  "connectDiscoveredNode dial ev info c en =
     (if \<not> dial (nr_ID info) (nr_Addr info) then (finishNodeConnection (nr_ID info) (ev_self ev 0 c), en)
      else
        let client = \<lparr>gc_id = nr_ID info, gc_addr = nr_Addr info\<rparr>
        in case call_node (Ping_client (ev_now ev 0) (ev_net ev 0)) client (ev_others ev 0 en) of
             Some (Inr _, en) \<Rightarrow>
               let c = finishNodeConnection (nr_ID info) (ev_self ev 0 c)
               in (if co_closed c \<or> has_key (co_nodes c) (nr_ID info) then c
                   else c\<lparr>co_nodes := AList.update (nr_ID info) \<lparr>cn_client = client, cn_healthy = True\<rparr> (co_nodes c)\<rparr>, en)
           | _ \<Rightarrow> (finishNodeConnection (nr_ID info) (ev_self ev 0 c), ev_others ev 0 en))"

definition connectedNodeRegistrations :: "NodeRegistryInfo list \<Rightarrow> Coordinator \<Rightarrow> NodeRegistryInfo list" where
  "connectedNodeRegistrations activeNodes c =
     filter (\<lambda>info. \<not> nr_Draining info \<and> healthyNode (nr_ID info) c \<noteq> None) activeNodes"

text \<open>The nodes to connect to, the nodes to move maps away from, and the error of the bootstrap.\<close>

definition discoverOnce ::
    "('s, 'd) redis \<Rightarrow> 'd json \<Rightarrow> 's cio \<Rightarrow> Coordinator \<Rightarrow> 's outside
     \<Rightarrow> (NodeRegistryInfo list \<times> string list \<times> coord_error option) \<times> Coordinator \<times> 's outside" where
  "discoverOnce R J ev c en =
     (let ((_, leader), c) = currentLeaderTerm ev 0 c
      in if \<not> leader then (([], [], None), c, en)
         else
           let en = ev_others ev 1 en
           in case GetActiveNodes R J (ev_net ev 1) (ev_lost ev 1) (ev_now ev 1) (out_store en) of
                (_, Some e) \<Rightarrow> (([], [], Some (CoordLoad e)), c, en)
              | (activeNodes, None) \<Rightarrow>
                  let (pending, c) = discoverNodes activeNodes (ev_self ev 8 c);
                      (moving, c, en) = reconcileDrainingNodes R J ev activeNodes c en;
                      c = ev_self ev 9 c;
                      (err, c, en) = bootstrapTopologyIfAbsent R J ev (connectedNodeRegistrations activeNodes c) c en
                  in ((pending, moving, err), c, en))"

section \<open>Heartbeats\<close>

text \<open>The boolean says whether a failover of the node is started.\<close>

definition setNodeHealth :: "'s cio \<Rightarrow> nat \<Rightarrow> string \<Rightarrow> bool \<Rightarrow> Coordinator \<Rightarrow> bool \<times> Coordinator" where
  "setNodeHealth ev k nodeID healthy c =
     (let ((_, leader), c) = currentLeaderTerm ev k c
      in if \<not> leader then (False, c)
         else
           let c = ev_self ev (k + 2) c
           in case map_of (co_nodes c) nodeID of
                None \<Rightarrow> (False, c)
              | Some connection \<Rightarrow>
                  if cn_healthy connection = healthy then (False, c)
                  else (\<not> healthy, c\<lparr>co_nodes := AList.update nodeID (connection\<lparr>cn_healthy := healthy\<rparr>) (co_nodes c)\<rparr>))"

fun heartbeat_nodes ::
    "'s cio \<Rightarrow> nat \<Rightarrow> nodeConnection list \<Rightarrow> Coordinator \<Rightarrow> 's outside \<Rightarrow> string list \<times> Coordinator \<times> 's outside" where
  "heartbeat_nodes ev k [] c en = ([], c, en)"
| "heartbeat_nodes ev k (connection # cs) c en =
     (let en = ev_others ev k en;
          (alive, en) = (case call_node (Ping_client (ev_now ev k) (ev_net ev k)) (cn_client connection) en of
                           Some (Inr _, en) \<Rightarrow> (True, en) | Some (Inl _, en) \<Rightarrow> (False, en) | None \<Rightarrow> (False, en));
          (start, c) = setNodeHealth ev (3 * k) (gc_id (cn_client connection)) alive c;
          (started, c, en) = heartbeat_nodes ev (Suc k) cs c en
      in (if start then gc_id (cn_client connection) # started else started, c, en))"

definition heartbeatOnce :: "'s cio \<Rightarrow> Coordinator \<Rightarrow> 's outside \<Rightarrow> string list \<times> Coordinator \<times> 's outside" where
  "heartbeatOnce ev c en =
     (let ((_, leader), c) = currentLeaderTerm ev 0 c
      in if \<not> leader then ([], c, en)
         else let c = ev_self ev 2 c in heartbeat_nodes ev 1 (map snd (co_nodes c)) c en)"

section \<open>The boss\<close>

definition defaultBossHP :: int where "defaultBossHP = 1600"

definition boss_name :: string where
  "boss_name = utf8 [0xE7, 0x8E, 0x8B, 0xE5, 0xAD, 0x90, 0xE6, 0x96, 0x87]"

definition bossSites :: "Coordinator \<Rightarrow> BossSite list" where
  "bossSites c =
     map (\<lambda>mapID. case map_of (co_configs c) mapID of
            None \<Rightarrow> \<lparr>bs_MapID = mapID, bs_X = 0, bs_Y = 0\<rparr>
          | Some cfg \<Rightarrow> \<lparr>bs_MapID = mapID, bs_X = BossX cfg, bs_Y = BossY cfg\<rparr>)
       (sort (keys (co_configs c)))"

definition ensureBoss ::
    "('s, 'd) redis \<Rightarrow> 'd json \<Rightarrow> 's cio \<Rightarrow> Coordinator \<Rightarrow> 's outside \<Rightarrow> coord_error option \<times> Coordinator \<times> 's outside" where
  "ensureBoss R J ev c en =
     (let ((_, leader), c) = currentLeaderTerm ev 0 c
      in if \<not> leader then (None, c, en)
         else
           let en = ev_others ev 0 en
           in case LoadGlobalBoss R J (ev_net ev 0) (ev_net ev 1) (out_store en) of
                Inr _ \<Rightarrow> (None, c, en)
              | Inl e \<Rightarrow>
                  if e \<noteq> ErrBossNotInitialized then (Some (CoordLoad e), c, en)
                  else
                    let state = \<lparr>b_Name = boss_name, b_Alive = True, b_LastHit = [], b_RespawnAt = zero_time, b_AttackGap = 2000,
                                 b_Sites = bossSites c, b_Version = 1\<rparr>;
                        en = ev_others ev 2 en
                    in case InitGlobalBoss R J (ev_net ev 2) defaultBossHP state (out_store en) of
                         (Some e, s) \<Rightarrow> (Some (CoordCommit e), c, en\<lparr>out_store := s\<rparr>)
                       | (None, s) \<Rightarrow> (None, c, en\<lparr>out_store := s\<rparr>))"

text \<open>\<open>text_of\<close> renders the announcement with the name of the boss.\<close>

definition boss_due :: "time \<Rightarrow> BossState \<Rightarrow> bool" where
  "boss_due now state \<longleftrightarrow> \<not> (b_Alive state \<or> b_RespawnAt state > now)"

definition restoreBossIfDue ::
    "('s, 'd) redis \<Rightarrow> 'd json \<Rightarrow> (string \<Rightarrow> string) \<Rightarrow> 's cio \<Rightarrow> Coordinator \<Rightarrow> 's outside \<Rightarrow> Coordinator \<times> 's outside" where
  "restoreBossIfDue R J text_of ev c en =
     (let ((_, leader), c) = currentLeaderTerm ev 0 c
      in if \<not> leader then (c, en)
         else
           let en = ev_others ev 0 en
           in case LoadGlobalBoss R J (ev_net ev 0) (ev_net ev 1) (out_store en) of
                Inl _ \<Rightarrow> (c, en)
              | Inr (state, _) \<Rightarrow>
                  if \<not> boss_due (ev_now ev 1) state then (c, en)
                  else
                    let (locked, s) = TryLockBossRespawn R J (ev_net ev 2) (ev_now ev 2) (out_store (ev_others ev 2 en));
                        en = (ev_others ev 2 en)\<lparr>out_store := s\<rparr>
                    in if \<not> locked then (c, en)
                       else
                         let en = ev_others ev 3 en
                         in case LoadGlobalBoss R J (ev_net ev 3) (ev_net ev 4) (out_store en) of
                              Inl _ \<Rightarrow> (c, en)
                            | Inr (state, hp) \<Rightarrow>
                                if \<not> boss_due (ev_now ev 4) state then (c, en)
                                else
                                  let state = state\<lparr>b_Alive := True, b_LastHit := [], b_RespawnAt := zero_time, b_Version := b_Version state + 1\<rparr>;
                                      hp = (if hp \<le> 0 then defaultBossHP else hp);
                                      en = ev_others ev 5 en
                                  in case InitGlobalBoss R J (ev_net ev 5) hp state (out_store en) of
                                       (Some _, s) \<Rightarrow> (c, en\<lparr>out_store := s\<rparr>)
                                     | (None, s) \<Rightarrow>
                                         let en = ev_others ev 6 (en\<lparr>out_store := s\<rparr>)
                                         in (c, en\<lparr>out_store := snd (PublishEvent R (ev_net ev 6) ''events:global'' (text_of (b_Name state)) (out_store en))\<rparr>))"

end
