(* ===== verification/Node_Props.thy ===== *)
theory Node_Props
  imports Node Fence_Props Checkpoint_Props
begin

text \<open>
  What a node guarantees, with the shared store around it: a write is only ever done behind the
  current fence, a node that has lost its map, its view of the topology or its readiness refuses
  every command, and what it saves is what the next owner loads.
\<close>

section \<open>Commands\<close>

datatype command =
    CmdAdd UserProfile | CmdRemove string | CmdMove string string | CmdAttack string | CmdHeal string
  | CmdBuy string string | CmdReward string int int | CmdBoss string

definition outcome :: "(node_error + 'r) \<times> NodeService \<times> 's \<Rightarrow> (node_error option \<times> NodeService \<times> 's) option" where
  "outcome r = Some (case fst r of Inl e \<Rightarrow> Some e | Inr _ \<Rightarrow> None, snd r)"

fun node_exec ::
    "('s, 'd) redis \<Rightarrow> 'd json \<Rightarrow> process \<Rightarrow> 's io \<Rightarrow> string \<Rightarrow> u64 \<Rightarrow> command \<Rightarrow> NodeService \<Rightarrow> 's
     \<Rightarrow> (node_error option \<times> NodeService \<times> 's) option" where
  "node_exec R J E ev m e (CmdAdd p) n s = AddPlayer R J E ev m e p n s"
| "node_exec R J E ev m e (CmdRemove u) n s = outcome (RemovePlayer_node R J ev m u e n s)"
| "node_exec R J E ev m e (CmdMove u d) n s = outcome (MovePlayer_node R J ev m u d e n s)"
| "node_exec R J E ev m e (CmdAttack u) n s = outcome (Attack_node R J ev m u e n s)"
| "node_exec R J E ev m e (CmdHeal u) n s = outcome (Heal R J ev m u e n s)"
| "node_exec R J E ev m e (CmdBuy u i) n s = outcome (BuyItem_node R J ev m u i e n s)"
| "node_exec R J E ev m e (CmdReward u t v) n s = outcome (RewardPlayer_node R J ev m u t v e n s)"
| "node_exec R J E ev m e (CmdBoss u) n s = outcome (AttackBoss R J ev m u e n s)"

lemmas command_defs = AddPlayer_def RemovePlayer_node_def MovePlayer_node_def Attack_node_def Heal_def
  BuyItem_node_def RewardPlayer_node_def AttackBoss_def on_map_def outcome_def

lemma put_map_simps [simp]:
  "ns_ID (put_map m w n) = ns_ID n" "ns_authority (put_map m w n) = ns_authority n" "ns_store (put_map m w n) = ns_store n"
  "ns_draining (put_map m w n) = ns_draining n" "map_of (ns_maps (put_map m w n)) = (map_of (ns_maps n))(m \<mapsto> w)"
  by (simp_all add: put_map_def)

text \<open>A command is refused when its write is, and then nothing has changed on the node.\<close>

lemma exec_refused:
  "beginWrite R J ev 0 m e n s = (Some err, s') \<Longrightarrow> node_exec R J E ev m e c n s = Some (Some err, n, s')"
  by (cases c) (simp_all add: command_defs)

lemma exec_accepted:
  assumes "node_exec R J E ev m e c n s = Some (None, n', s')"
  shows "\<exists>s1. beginWrite R J ev 0 m e n s = (None, s1)"
proof (cases "beginWrite R J ev 0 m e n s")
  case (Pair r s1)
  then show ?thesis using exec_refused [of R J ev m e n s _ s1 E c] assms by (cases r) auto
qed

lemma beginWrite_None:
  "beginWrite R J ev k m e n s = (None, s') \<longleftrightarrow>
     \<not> ns_draining n \<and> Require (ev_now ev k) m e (ns_authority n) = None \<and> ns_store n \<and> s' = ev_others ev k s \<and>
     RequireMapFence R J (ev_net ev k) m (ns_ID n) e (ev_others ev k s) = None"
  by (auto simp: beginWrite_def requireAuthority_def Let_def split: option.splits)

lemma requireAuthority_None:
  "requireAuthority R J ev k m e n s = (None, s') \<longleftrightarrow>
     Require (ev_now ev k) m e (ns_authority n) = None \<and> ns_store n \<and> s' = ev_others ev k s \<and>
     RequireMapFence R J (ev_net ev k) m (ns_ID n) e (ev_others ev k s) = None"
  by (auto simp: requireAuthority_def Let_def split: option.splits)

text \<open>What every accepted command has seen in the store.\<close>

lemma accepted_token:
  assumes "node_exec R J E ev m e c n s = Some (None, n', s')"
  shows "fence_token R J (ev_others ev 0 s) m = Some (ns_ID n, unat e)"
    "RequireMapFence R J Delivered m (ns_ID n) e (ev_others ev 0 s) = None"
proof -
  have f: "RequireMapFence R J (ev_net ev 0) m (ns_ID n) e (ev_others ev 0 s) = None"
    using exec_accepted [OF assms] by (auto simp: beginWrite_None)
  then have d: "ev_net ev 0 = Delivered" by (rule RequireMapFence_delivered)
  with f show "RequireMapFence R J Delivered m (ns_ID n) e (ev_others ev 0 s) = None" by simp
  then show "fence_token R J (ev_others ev 0 s) m = Some (ns_ID n, unat e)" by (simp add: RequireMapFence_None)
qed

lemma refused_without_token:
  assumes "fence_token R J (ev_others ev 0 s) m \<noteq> Some (ns_ID n, unat e)"
  shows "\<exists>err s'. beginWrite R J ev 0 m e n s = (Some err, s')"
proof (cases "beginWrite R J ev 0 m e n s")
  case (Pair r s')
  have "r \<noteq> None"
  proof
    assume "r = None"
    with Pair have f: "RequireMapFence R J (ev_net ev 0) m (ns_ID n) e (ev_others ev 0 s) = None"
      by (simp add: beginWrite_None)
    then have "ev_net ev 0 = Delivered" by (rule RequireMapFence_delivered)
    with f assms show False by (simp add: RequireMapFence_None)
  qed
  with Pair show ?thesis by auto
qed

lemma tick_refused:
  assumes "beginWrite R J ev 0 m (get_or 0 (tp_MapEpochs (ac_topology (ns_authority n))) m) n s = (Some err, s')"
  shows "fst (tick_map R J E fmt ev m n s) = n"
  using assms by (auto simp: tick_map_def tick_step_def Current_Some split: option.splits)

section \<open>Fenced out\<close>

text \<open>C21: a node that has lost the fence of a map refuses every later command that players send for it under
  the old epoch, and its background tick does nothing any more, whatever its own view of the topology says:
  the worlds on the node stay as they are.\<close>

theorem deposed_node_refuses:
  assumes R: "redis_server R J" and inv: "store_inv R J s"
    and own: "RequireMapFence R J Delivered m (ns_ID n) e s = None"
    and st: "(store_step R J)\<^sup>*\<^sup>* s s'" and lost: "RequireMapFence R J Delivered m (ns_ID n) e s' \<noteq> None"
    and later: "(store_step R J)\<^sup>*\<^sup>* s' (ev_others ev 0 s0)"
  shows "(\<exists>err s2. node_exec R J E ev m e c n s0 = Some (Some err, n, s2)) \<and>
    (get_or 0 (tp_MapEpochs (ac_topology (ns_authority n))) m = e \<longrightarrow> fst (tick_map R J E fmt ev m n s0) = n)"
proof -
  obtain err s2 where b: "beginWrite R J ev 0 m e n s0 = (Some err, s2)"
    using refused_without_token [where s = s0 and ev = ev, OF redis_server.deposed_out [OF R inv own st lost later]] by blast
  have "\<exists>err s2. node_exec R J E ev m e c n s0 = Some (Some err, n, s2)" using exec_refused [OF b, of E c] by blast
  moreover have "get_or 0 (tp_MapEpochs (ac_topology (ns_authority n))) m = e \<longrightarrow> fst (tick_map R J E fmt ev m n s0) = n"
    using tick_refused [of R J ev m n s0 err s2 E fmt] b by blast
  ultimately show ?thesis ..
qed

definition demo_process :: process where
  "demo_process = \<lparr>se_rfc3339 = (\<lambda>_. []), se_dice = (\<lambda>_ n. n), se_order = (\<lambda>w. keys (w_players w))\<rparr>"

definition calm :: "time \<Rightarrow> 's io" where
  "calm now = \<lparr>ev_net = (\<lambda>_. Delivered), ev_others = (\<lambda>_ s. s), ev_now = (\<lambda>_. now)\<rparr>"

definition demo_node :: "string \<Rightarrow> Topology \<Rightarrow> NodeService" where
  "demo_node i t =
     (NewNodeService 5 i ''addr'' True (rc_Node DefaultRuntime) ''m'')
       \<lparr>ns_authority := \<lparr>ac_nodeID = i, ac_grace = 2 * second, ac_topology = t, ac_loadedAt = 5, ac_topologyOK = True\<rparr>,
        ns_maps := [(''m'', small_world)]\<rparr>"

lemma calm_simps [simp]: "ev_net (calm t) k = Delivered" "ev_others (calm t) k = (\<lambda>s. s)" "ev_now (calm t) k = t"
  by (simp_all add: calm_def)

lemma demo_node_simps [simp]: "ns_ID (demo_node i t) = i" "ns_store (demo_node i t)" "\<not> ns_draining (demo_node i t)"
  by (simp_all add: demo_node_def NewNodeService_def)

lemma fence1: "RequireMapFence mr mem_json Delivered ''m'' ''n1'' 1 run1 = None"
  unfolding run1_eq by code_simp

lemma fence2: "RequireMapFence mr mem_json Delivered ''m'' ''n1'' 1 run2 = Some ErrMapFenceRejected"
  "RequireMapFence mr mem_json Delivered ''m'' ''n2'' 2 run2 = None"
  unfolding run2_eq by code_simp+

theorem deposed_node_refuses_witness:
  "\<exists>err s2. node_exec mr mem_json demo_process (calm 6) ''m'' 1 (CmdHeal ''ann'') (demo_node ''n1'' topo1) run2
     = Some (Some err, demo_node ''n1'' topo1, s2)"
  using deposed_node_refuses [OF mem.redis_server_axioms inv_run1, of "''m''" "demo_node ''n1'' topo1" 1 run2 "calm 6" run2 demo_process "CmdHeal ''ann''"]
    fence1 fence2 steps_run2 by (simp del: node_exec.simps)

text \<open>C4: two nodes never both have commands of one map accepted under the same epoch, and once a node has been
  accepted under an epoch no command under a smaller one is: if a command is accepted by node \<open>a\<close> and later one
  by node \<open>b\<close>, the second epoch is at least the first, and equal only if the nodes are the same.\<close>

theorem no_split_brain:
  assumes R: "redis_server R J" and inv: "store_inv R J (ev_others ev 0 s)"
    and acc: "node_exec R J E ev m e c a s = Some (None, a', s1)"
    and between: "(store_step R J)\<^sup>*\<^sup>* (ev_others ev 0 s) (ev_others ev' 0 s2)"
    and acc': "node_exec R J E' ev' m e' c' b s2 = Some (None, b', s3)"
  shows "unat e \<le> unat e' \<and> (e = e' \<longrightarrow> ns_ID a = ns_ID b)"
proof -
  have "\<exists>x y. fence_token R J (ev_others ev' 0 s2) m = Some (x, y) \<and> unat e \<le> y \<and> (y = unat e \<longrightarrow> x = ns_ID a)"
    using redis_server.token_forward [OF R between inv accepted_token(1) [OF acc]] .
  then show ?thesis using accepted_token(1) [OF acc'] by (auto simp: word_unat_eq_iff)
qed

lemma demo_accepts:
  "\<exists>n' s'. node_exec mr mem_json demo_process (calm 6) ''m'' 1 (CmdHeal ''ann'') (demo_node ''n1'' topo1) run1 = Some (None, n', s')"
  "\<exists>n' s'. node_exec mr mem_json demo_process (calm 6) ''m'' 2 (CmdHeal ''ann'') (demo_node ''n2'' topo2) run2 = Some (None, n', s')"
proof -
  have b: "beginWrite mr mem_json (calm 6) 0 ''m'' 1 (demo_node ''n1'' topo1) run1 = (None, run1)"
    "beginWrite mr mem_json (calm 6) 0 ''m'' 2 (demo_node ''n2'' topo2) run2 = (None, run2)"
    using fence1 fence2
    by (simp_all add: beginWrite_None Require_None freshLocked_def demo_node_def NewNodeService_def topo1_def topo2_def get_or_def IsZero_def zero_time_def second_def)
  have m: "map_of (ns_maps (demo_node i t)) ''m'' = Some small_world" for i t by (simp add: demo_node_def)
  show "\<exists>n' s'. node_exec mr mem_json demo_process (calm 6) ''m'' 1 (CmdHeal ''ann'') (demo_node ''n1'' topo1) run1 = Some (None, n', s')"
    "\<exists>n' s'. node_exec mr mem_json demo_process (calm 6) ''m'' 2 (CmdHeal ''ann'') (demo_node ''n2'' topo2) run2 = Some (None, n', s')"
    by (simp_all add: Heal_def on_map_def outcome_def b m case_prod_beta Let_def)
qed

theorem no_split_brain_witness:
  "\<exists>a' s1 b' s3.
     node_exec mr mem_json demo_process (calm 6) ''m'' 1 (CmdHeal ''ann'') (demo_node ''n1'' topo1) run1 = Some (None, a', s1) \<and>
     node_exec mr mem_json demo_process (calm 6) ''m'' 2 (CmdHeal ''ann'') (demo_node ''n2'' topo2) run2 = Some (None, b', s3) \<and>
     unat (1 :: u64) \<le> unat (2 :: u64)"
proof -
  obtain a' s1 b' s3 where
    acc: "node_exec mr mem_json demo_process (calm 6) ''m'' 1 (CmdHeal ''ann'') (demo_node ''n1'' topo1) run1 = Some (None, a', s1)"
    "node_exec mr mem_json demo_process (calm 6) ''m'' 2 (CmdHeal ''ann'') (demo_node ''n2'' topo2) run2 = Some (None, b', s3)"
    using demo_accepts by blast
  have "unat (1 :: u64) \<le> unat (2 :: u64)"
    using no_split_brain [OF mem.redis_server_axioms _ acc(1) _ acc(2)] inv_run1 steps_run2 by simp
  with acc show ?thesis by blast
qed

section \<open>Failing closed\<close>

lemma stale_refused:
  "ac_loadedAt (ns_authority n) + ac_grace (ns_authority n) < ev_now ev k \<Longrightarrow>
   \<exists>err. beginWrite R J ev k m e n s = (Some err, s)"
  using fresh_until [of "ev_now ev k" "ns_authority n"]
  by (auto simp: beginWrite_def requireAuthority_def Require_def)

text \<open>C22: a node whose last successful refresh of the topology is longer ago than the grace period, or that has begun
  to drain, refuses every command and skips its tick without even asking the store: neither its worlds nor the
  store change.\<close>

theorem node_fails_closed:
  assumes "ac_loadedAt (ns_authority n) + ac_grace (ns_authority n) < ev_now ev 0 \<or> ns_draining n"
  shows "(\<exists>err. node_exec R J E ev m e c n s = Some (Some err, n, s)) \<and> tick_map R J E fmt ev m n s = (n, s)"
proof -
  have b: "\<exists>err. beginWrite R J ev 0 m e n s = (Some err, s)" for e
    using assms stale_refused [of n ev 0 R J m e s] by (auto simp: beginWrite_def)
  obtain err where "beginWrite R J ev 0 m e n s = (Some err, s)" using b by blast
  then have "\<exists>err. node_exec R J E ev m e c n s = Some (Some err, n, s)" using exec_refused [of R J ev m e n s err s E c] by blast
  moreover have "tick_step R J E ev m n s = (None, n, s)"
  proof (cases "Current (ev_now ev 0) m (ns_authority n)")
    case (Some a)
    obtain err where "beginWrite R J ev 0 m (au_Epoch a) n s = (Some err, s)" using b by blast
    with Some show ?thesis by (simp add: tick_step_def split: option.split)
  qed (simp add: tick_step_def)
  then have "tick_map R J E fmt ev m n s = (n, s)" by (simp add: tick_map_def)
  ultimately show ?thesis ..
qed

theorem node_fails_closed_witness:
  "tick_map mr mem_json demo_process (\<lambda>_. []) (calm (3 * second)) ''m'' (demo_node ''n1'' topo1) run1 = (demo_node ''n1'' topo1, run1)"
  by (rule conjunct2 [OF node_fails_closed]) (simp add: demo_node_def second_def)

section \<open>What draining saves\<close>

lemma saved_checkpoint:
  assumes "SaveCheckpointIfOwner R J n cp a e s = (None, s')"
  shows "s' = HSET R ''checkpoints'' (c_MapID cp) (enc_checkpoint J cp) s"
  using assms
  by (cases n) (auto simp: SaveCheckpointIfOwner_def rpc_def saveCheckpointIfOwner_script_def split: if_splits option.splits)

context redis_server
begin

lemma Load_saved:
  "LoadCheckpoint R J Delivered m (HSET R ''checkpoints'' m' (enc_checkpoint J cp) s) =
     (if m = m' then Some cp else LoadCheckpoint R J Delivered m s)"
  by (simp add: LoadCheckpoint_def rpc_def HGET_HSET dec_enc_checkpoint)

end

definition captured :: "process \<Rightarrow> time \<Rightarrow> NodeService \<Rightarrow> u64 \<Rightarrow> World \<Rightarrow> MapCheckpoint" where
  "captured E now n e w = (fst (CaptureCheckpoint (se_rfc3339 E) now (se_order E w) (ns_ID n) w))\<lparr>c_MapEpoch := e\<rparr>"

lemma c_MapID_captured [simp]: "c_MapID (captured E now n e w) = cfg_ID (w_cfg w)"
  by (simp add: captured_def CaptureCheckpoint_def Snapshot_def Let_def case_prod_beta)

lemma w_cfg_Capture [simp]: "w_cfg (snd (CaptureCheckpoint f now ord i w)) = w_cfg w"
  by (simp add: CaptureCheckpoint_def Snapshot_def Let_def case_prod_beta)

definition maps_named :: "NodeService \<Rightarrow> bool" where
  "maps_named n \<longleftrightarrow> (\<forall>(m, w) \<in> set (ns_maps n). cfg_ID (w_cfg w) = m)"

lemma maps_namedD: "maps_named n \<Longrightarrow> map_of (ns_maps n) m = Some w \<Longrightarrow> cfg_ID (w_cfg w) = m"
  by (auto simp: maps_named_def dest: map_of_SomeD)

text \<open>One round of the loop, when nobody else writes.\<close>

lemma save_final_Cons:
  assumes "save_final R J E (calm now) k (m # ms) n s = (None, n', s')"
  obtains (skip) k' where "Current now m (ns_authority n) = None \<or> map_of (ns_maps n) m = None"
      "save_final R J E (calm now) k' ms n s = (None, n', s')"
  | (save) k' w1 a w where "Current now m (ns_authority n) = Some a" "map_of (ns_maps n) m = Some w"
      "w1 = snd (CaptureCheckpoint (se_rfc3339 E) now (se_order E w) (ns_ID n) w)"
      "save_final R J E (calm now) k' ms (put_map m w1 n)
         (HSET R ''checkpoints'' (c_MapID (captured E now n (au_Epoch a) w)) (enc_checkpoint J (captured E now n (au_Epoch a) w)) s) = (None, n', s')"
proof (cases "Current now m (ns_authority n)")
  case None
  then show thesis using assms by (intro skip) auto
next
  case (Some a)
  have q: "requireAuthority R J (calm now) k m (au_Epoch a) n s = (None, s)"
    using assms Some
    by (cases "requireAuthority R J (calm now) k m (au_Epoch a) n s") (auto simp: requireAuthority_None split: option.splits)
  show thesis
  proof (cases "map_of (ns_maps n) m")
    case None
    then show thesis using assms Some q by (intro skip) auto
  next
    case (Some w)
    let ?c = "captured E now n (au_Epoch a) w"
    obtain r s1 where sv: "SaveCheckpointIfOwner R J Delivered ?c (ns_ID n) (au_Epoch a) s = (r, s1)" by fastforce
    have "r = None"
      using assms \<open>Current now m (ns_authority n) = Some a\<close> q Some sv
      by (auto simp: captured_def case_prod_beta Let_def split: option.splits)
    then have "SaveCheckpointIfOwner R J Delivered ?c (ns_ID n) (au_Epoch a) s = (None, s1)" using sv by simp
    from saved_checkpoint [OF this] have "s1 = HSET R ''checkpoints'' (c_MapID ?c) (enc_checkpoint J ?c) s" .
    with assms \<open>Current now m (ns_authority n) = Some a\<close> q Some sv \<open>r = None\<close> show thesis
      by (intro save [OF \<open>Current now m (ns_authority n) = Some a\<close> Some refl]) (auto simp: captured_def case_prod_beta Let_def)
  qed
qed

lemma maps_named_put: "maps_named n \<Longrightarrow> distinct (keys (ns_maps n)) \<Longrightarrow> cfg_ID (w_cfg w) = m \<Longrightarrow> maps_named (put_map m w n)"
  by (auto simp: maps_named_def put_map_def set_update)

lemma distinct_put [simp]: "distinct (keys (ns_maps n)) \<Longrightarrow> distinct (keys (ns_maps (put_map m w n)))"
  by (simp add: put_map_def)

lemma captured_put [simp]: "captured E now (put_map m w n) = captured E now n"
  by (simp add: captured_def fun_eq_iff)

context redis_server
begin

lemma save_final_keeps:
  "save_final R J E (calm now) k ms n s = (None, n', s') \<Longrightarrow> maps_named n \<Longrightarrow> distinct (keys (ns_maps n)) \<Longrightarrow> m \<notin> set ms \<Longrightarrow>
   LoadCheckpoint R J Delivered m s' = LoadCheckpoint R J Delivered m s"
proof (induction ms arbitrary: k n s)
  case (Cons m1 ms)
  from Cons.prems(1) show ?case
  proof (cases rule: save_final_Cons)
    case (skip k')
    then show ?thesis using Cons by auto
  next
    case (save k' w1 a w)
    have "cfg_ID (w_cfg w) = m1" using maps_namedD [OF Cons.prems(2) save(2)] .
    then show ?thesis using Cons.IH [OF save(4)] Cons.prems save(3) by (simp add: Load_saved maps_named_put)
  qed
qed simp

lemma save_final_saves:
  assumes "save_final R J E (calm now) k ms n s = (None, n', s')" "maps_named n" "distinct (keys (ns_maps n))" "distinct ms"
    and "m \<in> set ms" "Current now m (ns_authority n) = Some a" "map_of (ns_maps n) m = Some w"
  shows "LoadCheckpoint R J Delivered m s' = Some (captured E now n (au_Epoch a) w)"
  using assms
proof (induction ms arbitrary: k n s)
  case (Cons m1 ms)
  from Cons.prems(1) show ?case
  proof (cases rule: save_final_Cons)
    case (skip k')
    then show ?thesis using Cons by auto
  next
    case (save k' w1 a1 w0)
    have c: "cfg_ID (w_cfg w0) = m1" using maps_namedD [OF Cons.prems(2) save(2)] .
    then have nm: "maps_named (put_map m1 w1 n)" "distinct (keys (ns_maps (put_map m1 w1 n)))"
      using Cons.prems save(3) by (simp_all add: maps_named_put)
    show ?thesis
    proof (cases "m = m1")
      case True
      then have "LoadCheckpoint R J Delivered m s' = Some (captured E now n (au_Epoch a1) w0)"
        using save_final_keeps [OF save(4) nm, of m] Cons.prems(4) c by (simp add: Load_saved)
      then show ?thesis using True save Cons.prems by simp
    next
      case False
      then show ?thesis using Cons.IH [OF save(4) nm] Cons.prems by simp
    qed
  qed
qed simp

lemma drain_saves:
  assumes "drain_start R J E (calm now) n s = (None, n', s')" "\<not> ns_draining n" "maps_named n" "distinct (keys (ns_maps n))"
    and "distinct (keys (tp_Owners (ac_topology (ns_authority n))))"
    and "Current now m (ns_authority n) = Some a" "map_of (tp_Owners (ac_topology (ns_authority n))) m \<noteq> None"
    and "map_of (ns_maps n) m = Some w"
  shows "LoadCheckpoint R J Delivered m s' = Some (captured E now n (au_Epoch a) w)"
proof -
  let ?n = "n\<lparr>ns_draining := True\<rparr>"
  obtain ms where ms: "OwnedMapIDs now (ns_authority n) = Some ms" "save_final R J E (calm now) 0 ms ?n s = (None, n', s')"
    using assms(1,2) by (auto simp: drain_start_def saveFinalCheckpoints_def Let_def split: if_splits option.splits)
  have "distinct ms" using ms(1) assms(5) by (auto simp: OwnedMapIDs_def distinct_map_filter split: if_splits)
  moreover have "m \<in> set ms"
  proof -
    obtain o' where o': "map_of (tp_Owners (ac_topology (ns_authority n))) m = Some o'" using assms(7) by blast
    have "o' = ac_nodeID (ns_authority n)" "get_or 0 (tp_MapEpochs (ac_topology (ns_authority n))) m \<noteq> 0"
      using assms(6) [unfolded Current_Some, THEN conjunct2] o' by (auto simp: Require_None get_or_def)
    then show ?thesis using OwnedMapIDs_Some [OF ms(1)] map_of_SomeD [OF o'] by blast
  qed
  moreover have "maps_named ?n" "captured E now ?n = captured E now n"
    using assms(3) by (simp_all add: maps_named_def captured_def fun_eq_iff)
  ultimately show ?thesis using save_final_saves [OF ms(2)] assms(4,6,8) by simp
qed

end

section \<open>Handing a map over\<close>

lemma boot_npcs_keeps:
  assumes "boot_npcs w = Some w'"
  shows "wf_world w \<longrightarrow> wf_world w' \<and> w_cfg w' = w_cfg w"
proof (rule boot_npcs.raw_induct [OF _ assms, of "\<lambda>w w'. wf_world w \<longrightarrow> wf_world w' \<and> w_cfg w' = w_cfg w"])
  fix boot w w'
  assume ih: "\<And>w w'. boot w = Some w' \<Longrightarrow> wf_world w \<longrightarrow> wf_world w' \<and> w_cfg w' = w_cfg w"
    and body: "(if length (w_npcs w) < MinNPCs then boot (snd (spawnNPCLocked w)) else Some w) = Some w'"
  show "wf_world w \<longrightarrow> wf_world w' \<and> w_cfg w' = w_cfg w"
  proof (cases "length (w_npcs w) < MinNPCs")
    case True
    then have "boot (snd (spawnNPCLocked w)) = Some w'" using body by simp
    from ih [OF this] show ?thesis using spawnNPC_keeps [of w] by (simp add: advances_def)
  qed (use body in simp)
qed

lemma boot_treasures_keeps:
  assumes "boot_treasures w = Some w'"
  shows "wf_world w \<longrightarrow> wf_world w' \<and> w_cfg w' = w_cfg w"
proof (rule boot_treasures.raw_induct [OF _ assms, of "\<lambda>w w'. wf_world w \<longrightarrow> wf_world w' \<and> w_cfg w' = w_cfg w"])
  fix boot w w'
  assume ih: "\<And>w w'. boot w = Some w' \<Longrightarrow> wf_world w \<longrightarrow> wf_world w' \<and> w_cfg w' = w_cfg w"
    and body: "(if length (w_treasures w) < MaxTreasures div 2 then boot (snd (spawnTreasureLocked loot_kind_relic w)) else Some w) = Some w'"
  show "wf_world w \<longrightarrow> wf_world w' \<and> w_cfg w' = w_cfg w"
  proof (cases "length (w_treasures w) < MaxTreasures div 2")
    case True
    then have "boot (snd (spawnTreasureLocked loot_kind_relic w)) = Some w'" using body by simp
    from ih [OF this] show ?thesis using spawnTreasure_keeps [of w loot_kind_relic] by (simp add: advances_def)
  qed (use body in simp)
qed

lemma NewWorld_keeps:
  assumes "NewWorld cfg d = Some w" "cfg \<in> set AvailableMaps"
  shows "wf_world w \<and> w_cfg w = cfg"
proof -
  have "wf_world (empty_world cfg d)" using sane_empty_world [OF assms(2), of d] by (rule sane_wf)
  then show ?thesis
    using assms(1) boot_npcs_keeps boot_treasures_keeps
    by (fastforce simp: NewWorld_def bootstrap_def empty_world_def bind_eq_Some_conv)
qed

lemma config_unique:
  "c \<in> set AvailableMaps \<Longrightarrow> c' \<in> set AvailableMaps \<Longrightarrow> cfg_ID c = cfg_ID c' \<Longrightarrow> c = c'"
  unfolding AvailableMaps_def using map_ids by fastforce

lemma Capture_advances:
  assumes "wf_world w"
  shows "w_version w \<le> w_version (snd (CaptureCheckpoint f now ord i w))"
  using snapshot_players_keeps [OF assms, of f now ord]
  by (auto simp: CaptureCheckpoint_def Snapshot_def Let_def case_prod_beta advances_def)

lemma restore_epoch [simp]: "RestoreCheckpoint now (cp\<lparr>c_MapEpoch := e\<rparr>) w = RestoreCheckpoint now cp w"
  by (simp add: RestoreCheckpoint_def)


definition green_topo :: Topology where
  "green_topo = \<lparr>tp_Version = 1, tp_LeaderTerm = 0, tp_Owners = [(''green'', ''n1'')], tp_MapEpochs = [(''green'', 1)], tp_UpdatedAt = 5\<rparr>"

definition green_store :: mem where
  "green_store = mem_empty\<lparr>m_keys := [(MapFenceRedisKey ''green'', DFence \<lparr>fn_MapID = ''green'', fn_Owner = ''n1'', fn_Epoch = 1\<rparr>)]\<rparr>"

definition green_world :: World where
  "green_world = (empty_world buildGreenMap (\<lambda>n. n))\<lparr>w_version := 1\<rparr>"

definition green_node :: NodeService where
  "green_node = (demo_node ''n1'' green_topo)\<lparr>ns_maps := [(''green'', green_world)]\<rparr>"

definition fair_process :: process where
  "fair_process = demo_process\<lparr>se_dice := (\<lambda>_ n. n div 2)\<rparr>"

lemma wf_green_world: "wf_world green_world"
proof -
  have "wf_world (empty_world buildGreenMap (\<lambda>n. n))" by (rule sane_wf [OF sane_empty_world]) (simp add: AvailableMaps_def)
  then show ?thesis by (simp add: green_world_def wf_world_def treasure_cells_def)
qed

lemma green_current: "Current 6 ''green'' (ns_authority green_node) = Some \<lparr>au_MapID = ''green'', au_Owner = ''n1'', au_Epoch = 1\<rparr>"
  by (simp add: Current_Some Require_None green_node_def demo_node_def freshLocked_def green_topo_def get_or_def IsZero_def zero_time_def second_def)

lemma green_drains: "\<exists>a' s1. drain_start mr mem_json demo_process (calm 6) green_node green_store = (None, a', s1)"
proof -
  let ?n = "green_node\<lparr>ns_draining := True\<rparr>"
  have f: "RequireMapFence mr mem_json Delivered ''green'' ''n1'' 1 green_store = None" by code_simp
  have id: "ns_ID ?n = ''n1''" "ns_maps ?n = [(''green'', green_world)]" "ns_store ?n" "ns_authority ?n = ns_authority green_node"
    "\<not> ns_draining green_node" "ns_store green_node"
    by (simp_all add: green_node_def)
  have own: "OwnedMapIDs 6 (ns_authority green_node) = Some [''green'']"
    by (simp add: OwnedMapIDs_def green_node_def demo_node_def freshLocked_def green_topo_def get_or_def IsZero_def zero_time_def second_def)
  have req: "requireAuthority mr mem_json (calm 6) 0 ''green'' 1 ?n green_store = (None, green_store)"
    using green_current f by (simp add: requireAuthority_None id Current_Some)
  let ?c = "captured demo_process 6 ?n 1 green_world"
  have c: "c_MapID ?c = ''green''" "c_NodeID ?c = ''n1''" "c_MapEpoch ?c = 1"
    by (simp_all add: captured_def CaptureCheckpoint_def Snapshot_def Let_def case_prod_beta id green_world_def empty_world_def map_ids)
  have "fst (SaveCheckpointIfOwner mr mem_json Delivered ?c ''n1'' 1 green_store) = None"
    using c by (simp add: SaveCheckpointIfOwner_def rpc_def saveCheckpointIfOwner_script_def green_store_def mem_defs)
  then have "\<exists>s1. SaveCheckpointIfOwner mr mem_json Delivered ?c ''n1'' 1 green_store = (None, s1)" by (metis prod.collapse)
  then show ?thesis
    using green_current own req
    by (auto simp: drain_start_def saveFinalCheckpoints_def id captured_def Let_def case_prod_beta)
qed


section \<open>Draining again\<close>

lemma save_final_draining: "ns_draining (fst (snd (save_final R J E ev k ms n s))) = ns_draining n"
  by (induction ms arbitrary: k n s) (simp_all add: case_prod_beta Let_def split: option.split)

lemma drain_start_draining: "ns_draining (fst (snd (drain_start R J E ev n s)))"
  by (simp add: drain_start_def saveFinalCheckpoints_def save_final_draining Let_def split: option.split)

text \<open>A drain whose final checkpoints could not be saved leaves the node draining, so the next call of \<open>BeginDrain\<close>
  does not save them either: once the topology has moved the maps away it reports success without having written
  anything to the store.\<close>

theorem drain_retry_saves_nothing:
  assumes "drain_start R J E ev n s = (Some err, n1, s1)" "OwnedMapIDs now c = Some []"
  shows "BeginDrain R J E ev' False [(\<lambda>x. x\<lparr>ns_authority := c\<rparr>, now, stop)] n1 s2 = (Some None, n1\<lparr>ns_authority := c\<rparr>, s2)"
proof -
  have d: "ns_draining n1" using drain_start_draining [of R J E ev n s] assms(1) by simp
  then have "drain_start R J E ev' n1 s2 = (None, n1, s2)" by (simp add: drain_start_def)
  then show ?thesis using assms(2) by (simp add: BeginDrain_def)
qed

theorem drain_retry_saves_nothing_witness:
  "\<exists>n1. BeginDrain mr mem_json demo_process (calm 6) False
     [(\<lambda>x. x\<lparr>ns_authority := ns_authority (demo_node ''n1'' topo2)\<rparr>, 6, False)] n1 green_store
     = (Some None, n1\<lparr>ns_authority := ns_authority (demo_node ''n1'' topo2)\<rparr>, green_store)"
proof -
  let ?lost = "(calm 6)\<lparr>ev_net := \<lambda>_. ReqLost\<rparr> :: mem io"
  have "fst (drain_start mr mem_json demo_process ?lost (demo_node ''n1'' topo1) run1) \<noteq> None"
    by (simp add: drain_start_def saveFinalCheckpoints_def Let_def requireAuthority_def RequireMapFence_def rpc_def calm_def
        OwnedMapIDs_def Current_def Require_def freshLocked_def demo_node_def NewNodeService_def topo1_def get_or_def IsZero_def
        zero_time_def second_def)
  then obtain err n1 s1 where "drain_start mr mem_json demo_process ?lost (demo_node ''n1'' topo1) run1 = (Some err, n1, s1)"
    by (metis option.collapse prod.collapse)
  moreover have "OwnedMapIDs 6 (ns_authority (demo_node ''n1'' topo2)) = Some []"
    by (simp add: OwnedMapIDs_def freshLocked_def demo_node_def topo2_def IsZero_def zero_time_def second_def)
  ultimately have "BeginDrain mr mem_json demo_process (calm 6) False
     [(\<lambda>x. x\<lparr>ns_authority := ns_authority (demo_node ''n1'' topo2)\<rparr>, 6, False)] n1 green_store
     = (Some None, n1\<lparr>ns_authority := ns_authority (demo_node ''n1'' topo2)\<rparr>, green_store)"
    by (rule drain_retry_saves_nothing)
  then show ?thesis ..
qed

section \<open>Worlds stay well-formed\<close>

text \<open>The world operation behind each command.\<close>

fun call_of :: "time \<Rightarrow> command \<Rightarrow> world_call" where
  "call_of now (CmdAdd p) = CallEnter now p"
| "call_of now (CmdRemove u) = CallLeave u"
| "call_of now (CmdMove u d) = CallMove now u d"
| "call_of now (CmdAttack u) = CallAttack now u"
| "call_of now (CmdHeal u) = CallHeal now u"
| "call_of now (CmdBuy u i) = CallBuy now u i"
| "call_of now (CmdReward u t v) = CallReward now u t v"
| "call_of now (CmdBoss u) = CallProfile now u"

text \<open>An accepted command on a hosted map is exactly one operation of its world, at some time, and touches no other world.\<close>

lemma exec_is_world_op:
  assumes "node_exec R J E ev m e c n s = Some (r, n', s')" "map_of (ns_maps n) m = Some w"
  shows "n' = n \<or> (\<exists>now. n' = put_map m (world_exec (se_rfc3339 E) (call_of now c) w) n)"
proof (cases "beginWrite R J ev 0 m e n s")
  case (Pair q s1)
  show ?thesis
  proof (cases q)
    case (Some err)
    then show ?thesis using exec_refused Pair assms(1) by fastforce
  next
    case None
    have h: "ensureHostedMap R J E ev k m n s1 = Some (None, n, s1)" for k using assms(2) by (simp add: ensureHostedMap_def has_key_def)
    show ?thesis
      using assms Pair None
      by (cases c) (auto simp: command_defs h case_prod_beta Let_def split: if_splits option.splits sum.splits)
  qed
qed

lemma set_update_subset: "set (AList.update k v al) \<subseteq> insert (k, v) (set al)"
  by (induction al) auto

lemma call_ok_time: "call_ok (call_of now c) = call_ok (call_of now' c)"
  by (cases c) simp_all

text \<open>C13: a command on a hosted map refines the operation of the world it stands for: the node either does nothing or
  performs exactly that operation on exactly that world, and if all its worlds were well-formed they all still are.\<close>

theorem node_commands_refine_world:
  assumes "node_exec R J E ev m e c n s = Some (r, n', s')" "map_of (ns_maps n) m = Some w"
  shows "(n' = n \<or> (\<exists>now. n' = put_map m (world_exec (se_rfc3339 E) (call_of now c) w) n)) \<and>
    (call_ok (call_of now0 c) \<and> (\<forall>(k, v) \<in> set (ns_maps n). wf_world v) \<longrightarrow> (\<forall>(k, v) \<in> set (ns_maps n'). wf_world v))"
proof -
  note op = exec_is_world_op [OF assms]
  have "wf_world v"
    if "call_ok (call_of now0 c)" "\<forall>(k, v) \<in> set (ns_maps n). wf_world v" "(k, v) \<in> set (ns_maps n')" for k v
  proof -
    have "wf_world (world_exec (se_rfc3339 E) (call_of now c) w)" for now
      using wop.exec_wf [of "call_of now c" w "se_rfc3339 E"] that(1,2) call_ok_time [of now c now0] map_of_SomeD [OF assms(2)] by auto
    then show ?thesis using op that(2,3) set_update_subset by (fastforce simp: put_map_def)
  qed
  with op show ?thesis by auto
qed

theorem node_commands_refine_world_witness:
  "\<exists>n' s'. node_exec mr mem_json demo_process (calm 6) ''m'' 1 (CmdHeal ''ann'') (demo_node ''n1'' topo1) run1 = Some (None, n', s') \<and>
     (\<forall>(k, v) \<in> set (ns_maps n'). wf_world v)"
proof -
  obtain n' s' where x: "node_exec mr mem_json demo_process (calm 6) ''m'' 1 (CmdHeal ''ann'') (demo_node ''n1'' topo1) run1 = Some (None, n', s')"
    using demo_accepts(1) by blast
  moreover have "\<forall>(k, v) \<in> set (ns_maps (demo_node ''n1'' topo1)). wf_world v" by (simp add: demo_node_def small_wf)
  moreover have "map_of (ns_maps (demo_node ''n1'' topo1)) ''m'' = Some small_world" by (simp add: demo_node_def)
  ultimately show ?thesis using node_commands_refine_world [OF x] by fastforce
qed

end
