(* ===== verification/Node_RPC_Props.thy ===== *)
theory Node_RPC_Props
  imports Node_RPC Node_Props
begin

text \<open>
  What calling a node over gRPC means: with the right node at the other end a delivered command is
  the local one, with a wrong one it is nothing, and a lost call is one of the two.
\<close>

section \<open>Remote commands\<close>

definition remote :: "('s, 'r) reply \<Rightarrow> (grpc_error option \<times> NodeService \<times> 's) option" where
  "remote r = map_option (\<lambda>(x, st). (case x of Inl e \<Rightarrow> Some e | Inr _ \<Rightarrow> None, st)) r"

fun remote_exec ::
    "('s, 'd) redis \<Rightarrow> 'd json \<Rightarrow> process \<Rightarrow> 's io \<Rightarrow> net \<Rightarrow> string \<Rightarrow> string \<Rightarrow> u64 \<Rightarrow> command \<Rightarrow> NodeService \<times> 's
     \<Rightarrow> (grpc_error option \<times> NodeService \<times> 's) option" where
  "remote_exec R J E ev net i m e (CmdAdd p) st = remote (AddPlayer_client R J E ev net i m e p st)"
| "remote_exec R J E ev net i m e (CmdRemove u) st = remote (RemovePlayer_client R J ev net i m u e st)"
| "remote_exec R J E ev net i m e (CmdMove u d) st = remote (MovePlayer_client R J ev net i m u d e st)"
| "remote_exec R J E ev net i m e (CmdAttack u) st = remote (Attack_client R J ev net i m u e st)"
| "remote_exec R J E ev net i m e (CmdHeal u) st = remote (Heal_client R J ev net i m u e st)"
| "remote_exec R J E ev net i m e (CmdBuy u x) st = remote (BuyItem_client R J ev net i m u x e st)"
| "remote_exec R J E ev net i m e (CmdReward u t v) st = remote (RewardPlayer_client R J ev net i m u t v e st)"
| "remote_exec R J E ev net i m e (CmdBoss u) st = remote (AttackBoss_client R J ev net i m u e st)"

text \<open>What the wire can carry.\<close>

fun carried :: "command \<Rightarrow> bool" where
  "carried (CmdAdd p) \<longleftrightarrow> fits_profile p \<and> TrimSpace (u_Username p) \<noteq> []"
| "carried (CmdMove u d) \<longleftrightarrow> d \<in> {DirUp, DirDown, DirLeft, DirRight}"
| "carried (CmdReward u t v) \<longleftrightarrow> in32 t \<and> in32 v"
| "carried _ \<longleftrightarrow> True"

lemmas client_defs = AddPlayer_client_def RemovePlayer_client_def MovePlayer_client_def Attack_client_def Heal_client_def
  BuyItem_client_def RewardPlayer_client_def AttackBoss_client_def player_request_def
lemmas server_defs = AddPlayer_server_def RemovePlayer_server_def MovePlayer_server_def Attack_server_def Heal_server_def
  BuyItem_server_def RewardPlayer_server_def AttackBoss_server_def with_authority_def

lemma authority_new:
  "authority n (Some (NewMapAuthority m i e)) =
     (if m = [] then Inl InvalidArgument else if i \<noteq> ns_ID n then Inl FailedPrecondition
      else if e = 0 then Inl InvalidArgument else Inr (m, e))"
  by (simp add: authority_def NewMapAuthority_def invalidNodeRequest_def)

text \<open>The password hash does not reach the world.\<close>

lemma restore_without_password:
  "AddOrRestorePlayer f now (p\<lparr>u_PasswordHash := x\<rparr>) = AddOrRestorePlayer f now p"
  by (rule ext) (simp add: AddOrRestorePlayer_def restored_player_def)

lemma add_without_password:
  "AddPlayer R J E ev m e (p\<lparr>u_PasswordHash := x\<rparr>) n s = AddPlayer R J E ev m e p n s"
  unfolding AddPlayer_def restore_without_password ..

lemma wire_profile: "fits_profile p \<Longrightarrow> FromPlayerState (Some (ToPlayerState p)) = p\<lparr>u_PasswordHash := []\<rparr>"
  by (simp add: ToPlayerState_def FromPlayerState_def fits_profile_def wire_simps)

lemma wire_direction:
  "d \<in> {DirUp, DirDown, DirLeft, DirRight} \<Longrightarrow>
   \<exists>w. DirectionFromString d = Inr w \<and> DirectionToString w = Inr d"
  by (auto simp: DirectionFromString_def DirectionToString_def DirUp_def DirDown_def DirLeft_def DirRight_def)

lemma ToPlayerState_name [simp]: "ps_Username (ToPlayerState p) = u_Username p"
  by (simp add: ToPlayerState_def)

lemma remote_is_node_exec:
  assumes "i = ns_ID n" "m \<noteq> []" "e \<noteq> 0" "carried c"
  shows "remote_exec R J E ev Delivered i m e c (n, s) =
    map_option (\<lambda>(x, st). (map_option grpcAuthorityError x, st)) (node_exec R J E ev m e c n s)"
proof (cases c)
  case (CmdAdd p)
  then show ?thesis using assms
    by (auto simp: client_defs server_defs rpc_call_def authority_new remote_def wire_profile add_without_password
        split: option.split)
next
  case (CmdMove u d)
  then obtain w where "DirectionFromString d = Inr w" "DirectionToString w = Inr d"
    using assms(4) wire_direction [of d] by auto
  then show ?thesis using CmdMove assms(1-3) by (simp add: client_defs server_defs authority_new rpc_call_def remote_def respond_def outcome_def split: sum.split)
next
  case (CmdReward u t v)
  then show ?thesis using assms
    by (simp add: client_defs server_defs authority_new rpc_call_def remote_def respond_def outcome_def wire_simps split: sum.split)
qed (use assms in \<open>simp_all add: client_defs server_defs authority_new rpc_call_def remote_def respond_def outcome_def split: sum.split\<close>)

lemma remote_wrong_node:
  assumes "i \<noteq> ns_ID n" "m \<noteq> []" "carried c"
  shows "remote_exec R J E ev Delivered i m e c (n, s) = Some (Some FailedPrecondition, n, s)"
proof (cases c)
  case (CmdMove u d)
  then obtain w where "DirectionFromString d = Inr w" "DirectionToString w = Inr d"
    using assms(3) wire_direction [of d] by auto
  then show ?thesis using CmdMove assms by (simp add: client_defs server_defs authority_new rpc_call_def remote_def)
qed (use assms in \<open>simp_all add: client_defs server_defs authority_new rpc_call_def remote_def\<close>)

lemma remote_lost:
  assumes "carried c"
  shows "remote_exec R J E ev ReqLost i m e c st = Some (Some Unavailable, st)"
    "remote_exec R J E ev ReplyLost i m e c st =
       map_option (\<lambda>(_, st). (Some Unavailable, st)) (remote_exec R J E ev Delivered i m e c st)"
proof -
  have "remote_exec R J E ev ReqLost i m e c st = Some (Some Unavailable, st) \<and>
    remote_exec R J E ev ReplyLost i m e c st =
       map_option (\<lambda>(_, st). (Some Unavailable, st)) (remote_exec R J E ev Delivered i m e c st)"
  proof (cases c)
    case (CmdMove u d)
    then obtain w where "DirectionFromString d = Inr w" "DirectionToString w = Inr d"
      using assms wire_direction [of d] by auto
    then show ?thesis using CmdMove by (simp add: client_defs rpc_call_def remote_def option.map_comp comp_def case_prod_beta)
  qed (simp_all add: client_defs rpc_call_def remote_def option.map_comp comp_def case_prod_beta)
  then show "remote_exec R J E ev ReqLost i m e c st = Some (Some Unavailable, st)"
    "remote_exec R J E ev ReplyLost i m e c st =
       map_option (\<lambda>(_, st). (Some Unavailable, st)) (remote_exec R J E ev Delivered i m e c st)" by simp_all
qed



end
