(* ===== verification/Election.thy ===== *)
theory Election
  imports Elector
begin

text \<open>
  Many coordinator instances over one Redis. \<open>elect_step\<close> lets any instance do any part of its work
  in any order, with any loss on the network and any clock, interleaved with any write of the
  store that leaves the counter of terms alone (acquisitions are the only code that touches it).
  Nothing is assumed about leases not expiring early: what protects the topology is the term.
\<close>

section \<open>All instances\<close>

type_synonym 's electors = "'s \<times> (nat \<Rightarrow> RedisElector)"

definition durable_term :: "('s, 'd) redis \<Rightarrow> 'd json \<Rightarrow> 's \<Rightarrow> int" where
  "durable_term R J s = num_at R J CoordinatorLeaderTermRedisKey s"

inductive elect_step :: "('s, 'd) redis \<Rightarrow> 'd json \<Rightarrow> 's electors \<Rightarrow> 's electors \<Rightarrow> bool" for R J where
  enter: "elect_step R J (s, es) (s, es(i := snd (Campaign_begin stop (es i))))"
| attempt: "el_campaigning (es i) \<Longrightarrow> Campaign_try R J n now (es i) s = (r, e', s') \<Longrightarrow>
    elect_step R J (s, es) (s', es(i := e'))"
| give_up: "el_campaigning (es i) \<Longrightarrow> elect_step R J (s, es) (s, es(i := snd (Campaign_cancelled (es i))))"
| tick: "el_leaderCtx (es i) \<noteq> None \<Longrightarrow> renewLoop_tick R J n now (es i) s = (e', s') \<Longrightarrow>
    elect_step R J (s, es) (s', es(i := e'))"
| shutdown: "el_leaderCtx (es i) \<noteq> None \<Longrightarrow> renewLoop_done R J n now (es i) s = (e', s') \<Longrightarrow>
    elect_step R J (s, es) (s', es(i := e'))"
| cancel: "elect_step R J (s, es) (s, es(i := parent_cancelled (es i)))"
| resign: "Resign R J n now (es i) s = (r, e', s') \<Longrightarrow> elect_step R J (s, es) (s', es(i := e'))"
| store: "store_step R J s s' \<Longrightarrow> durable_term R J s' = durable_term R J s \<Longrightarrow> elect_step R J (s, es) (s', es)"

definition elect_inv :: "('s, 'd) redis \<Rightarrow> 'd json \<Rightarrow> 's electors \<Rightarrow> bool" where
  "elect_inv R J c \<longleftrightarrow>
     0 \<le> durable_term R J (fst c) \<and> durable_term R J (fst c) < 2 ^ 63 \<and>
     (\<forall>i. ro_TermKey (el_options (snd c i)) = CoordinatorLeaderTermRedisKey \<and>
          int (unat (el_term (snd c i))) \<le> durable_term R J (fst c)) \<and>
     (\<forall>i j. el_term (snd c i) = el_term (snd c j) \<longrightarrow> el_term (snd c i) = 0 \<or> i = j)"

text \<open>What one event does to an instance's term.\<close>

definition term_moves :: "int \<Rightarrow> int \<Rightarrow> u64 \<Rightarrow> u64 \<Rightarrow> bool" where
  "term_moves d d' t t' \<longleftrightarrow> d' = d \<and> (t' = 0 \<or> t' = t) \<or> d' = d + 1 \<and> (t' = 0 \<or> int (unat t') = d')"

lemma Term_cases: "Term e = 0 \<or> Term e = el_term e"
  by (simp add: Term_def)

lemma loseLeadership_simps [simp]:
  "el_term (loseLeadership e) = 0" "el_options (loseLeadership e) = el_options e" "el_token (loseLeadership e) = el_token e"
  "el_leader (loseLeadership e) = False" "el_campaigning (loseLeadership e) = el_campaigning e"
  by (simp_all add: loseLeadership_def)

lemma small_term: "0 \<le> v \<Longrightarrow> v < 2 ^ 63 \<Longrightarrow> int (unat (word_of_int v :: u64)) = v"
  by (simp add: unsigned_of_int take_bit_int_eq_self)

lemma positive_term: "0 < v \<Longrightarrow> v < 2 ^ 63 \<Longrightarrow> (word_of_int v :: u64) \<noteq> 0"
  using small_term [of v] by auto

lemma next_term:
  assumes "0 \<le> d" "d < 9223372036854775807"
  shows "uint (word_of_int d + 1 :: u64) = d + 1" "(word_of_int d + 1 :: u64) \<noteq> 0"
proof -
  show "uint (word_of_int d + 1 :: u64) = d + 1"
    using small_term [of "d + 1"] assms by simp
  then show "(word_of_int d + 1 :: u64) \<noteq> 0" using assms by auto
qed

lemma cas_needs_term:
  assumes "durable_term R J s \<noteq> int (unat t)" "t \<noteq> 0"
  shows "fst (compareAndSaveTopology R J n v topo mig t s) \<noteq> None \<and> snd (compareAndSaveTopology R J n v topo mig t s) = s"
proof -
  have scr: "compareAndSetTopology_script R J v pl mig (Some t) fs s = (Some (-1), s) \<or>
      compareAndSetTopology_script R J v pl mig (Some t) fs s = (Some (-4), s)" for pl fs
    using assms(1) by (auto simp: compareAndSetTopology_script_def durable_term_def Let_def split: option.splits)
  have net: "rpc n (compareAndSetTopology_script R J v pl mig (Some t) fs) s
      \<in> {(None, s), (Some (Some (-1)), s), (Some (Some (-4)), s)}" for pl fs
    using scr [of pl fs] by (cases n) (auto simp: rpc_def)
  show ?thesis
  proof (cases "prepareTopology topo")
    case (Inr p)
    then show ?thesis using net [of "enc_topology J p" "fence_args p"] assms(2)
      by (elim insertE emptyE) (simp_all add: compareAndSaveTopology_def cas_result_def)
  qed (simp add: compareAndSaveTopology_def)
qed

lemma commit_needs_term:
  assumes "durable_term R J s \<noteq> int (unat t)"
  shows "fst (CompareAndSaveTopologyForLeader R J n v topo t s) \<noteq> None"
    "snd (CompareAndSaveTopologyForLeader R J n v topo t s) = s"
    "fst (CompareAndSaveTopologyAndMigrateSessionsForLeader R J n v topo t m a b s) \<noteq> None"
    "snd (CompareAndSaveTopologyAndMigrateSessionsForLeader R J n v topo t m a b s) = s"
  using cas_needs_term [OF assms]
  by (auto simp: CompareAndSaveTopologyForLeader_def CompareAndSaveTopologyAndMigrateSessionsForLeader_def)

context redis_server
begin

lemma durable_quiet:
  "durable_term R J (TSET R now k v ttl s) = durable_term R J s" "durable_term R J (TDEL R k s) = durable_term R J s"
  by (simp_all add: durable_term_def num_at_def get_rules)

lemma acquire_script_durable:
  assumes "acquire_script R J now lk CoordinatorLeaderTermRedisKey token ms s = (r, s')" "0 \<le> durable_term R J s" "durable_term R J s < 2 ^ 63"
  shows "durable_term R J s' = durable_term R J s \<and> (r = None \<or> r = Some 0) \<or>
         durable_term R J s' = durable_term R J s + 1 \<and> r = Some (durable_term R J s') \<and> durable_term R J s' < 2 ^ 63"
  using assms durable_quiet(1)
  by (auto simp: acquire_script_def Let_def case_prod_beta durable_term_def INCRBY_value num_at_INCRBY split: if_splits)

lemma release_durable: "durable_term R J (snd (releaseToken R J n now e s)) = durable_term R J s"
  by (cases n) (simp_all add: releaseToken_def rpc_def release_script_def durable_quiet)

lemma renew_durable:
  assumes "renewLoop_tick R J n now e s = (e', s')"
  shows "durable_term R J s' = durable_term R J s" "el_term e' = 0 \<or> el_term e' = el_term e" "el_options e' = el_options e"
  using assms
  by (cases n; auto simp: renewLoop_tick_def renew_def rpc_def renew_script_def durable_quiet split: if_splits)+

lemma try_durable:
  assumes "Campaign_try R J n now e s = (r, e', s')" "0 \<le> durable_term R J s" "durable_term R J s < 2 ^ 63"
    "ro_TermKey (el_options e) = CoordinatorLeaderTermRedisKey"
  shows "term_moves (durable_term R J s) (durable_term R J s') (el_term e) (el_term e') \<and>
         durable_term R J s' < 2 ^ 63 \<and> el_options e' = el_options e"
proof -
  obtain q s1 where q: "acquire_script R J now (ro_LeaseKey (el_options e)) CoordinatorLeaderTermRedisKey (el_token e) (ttl_ms e) s = (q, s1)"
    by fastforce
  note d = acquire_script_durable [OF q assms(2,3)] next_term [OF assms(2)]
  show ?thesis
    using assms q d
    by (cases n) (auto simp: Campaign_try_def acquire_def rpc_def term_moves_def small_term word_gt_0 positive_term
        split: if_splits option.splits)
qed

lemma elect_step_moves:
  assumes "elect_step R J c c'" "elect_inv R J c"
  shows "durable_term R J (fst c') < 2 ^ 63 \<and> (\<exists>i. (\<forall>j. j \<noteq> i \<longrightarrow> snd c' j = snd c j) \<and>
    term_moves (durable_term R J (fst c)) (durable_term R J (fst c')) (el_term (snd c i)) (el_term (snd c' i)) \<and>
    el_options (snd c' i) = el_options (snd c i))"
  using assms
proof (cases rule: elect_step.cases)
  case (attempt es i n now s r e' s')
  then show ?thesis using try_durable [OF attempt(4)] assms(2)
    by (intro conjI exI [of _ i]) (auto simp: elect_inv_def)
next
  case (tick es i n now s e' s')
  then show ?thesis using renew_durable [OF tick(4)] assms(2)
    by (intro conjI exI [of _ i]) (auto simp: elect_inv_def term_moves_def)
next
  case (shutdown es i n now s e' s')
  then show ?thesis using release_durable assms(2)
    by (intro conjI exI [of _ i]) (auto simp: elect_inv_def term_moves_def renewLoop_done_def)
next
  case (resign n now es i s r e' s')
  then show ?thesis using release_durable assms(2)
    by (intro conjI exI [of _ i]) (auto simp: elect_inv_def term_moves_def Resign_def Let_def case_prod_beta)
qed (auto simp: elect_inv_def term_moves_def Campaign_begin_def Campaign_cancelled_def parent_cancelled_def)

lemma elect_step_inv:
  assumes "elect_step R J c c'" "elect_inv R J c"
  shows "elect_inv R J c'"
proof -
  obtain i where i: "durable_term R J (fst c') < 2 ^ 63" "\<forall>j. j \<noteq> i \<longrightarrow> snd c' j = snd c j"
    "term_moves (durable_term R J (fst c)) (durable_term R J (fst c')) (el_term (snd c i)) (el_term (snd c' i))"
    "el_options (snd c' i) = el_options (snd c i)"
    using elect_step_moves [OF assms] by blast
  have old: "0 \<le> durable_term R J (fst c)"
    "\<And>j. ro_TermKey (el_options (snd c j)) = CoordinatorLeaderTermRedisKey"
    "\<And>j. int (unat (el_term (snd c j))) \<le> durable_term R J (fst c)"
    "\<And>j k. el_term (snd c j) = el_term (snd c k) \<Longrightarrow> el_term (snd c j) = 0 \<or> j = k"
    using assms(2) unfolding elect_inv_def by blast+
  have bound: "int (unat (el_term (snd c' j))) \<le> durable_term R J (fst c')" for j
  proof -
    have up: "durable_term R J (fst c) \<le> durable_term R J (fst c')" using i(3) by (auto simp: term_moves_def)
    have "int (unat (el_term (snd c' i))) = 0 \<or> int (unat (el_term (snd c' i))) = int (unat (el_term (snd c i))) \<or>
        int (unat (el_term (snd c' i))) = durable_term R J (fst c')"
      using i(3) by (auto simp: term_moves_def)
    then have "int (unat (el_term (snd c' i))) \<le> durable_term R J (fst c')" using up old(1) old(3) [of i] by linarith
    then show ?thesis using i(2) up old(3) [of j] by (cases "j = i") auto
  qed
  have fresh: "el_term (snd c' i) = 0 \<or> el_term (snd c' i) = el_term (snd c i) \<or> el_term (snd c' i) \<noteq> el_term (snd c j)" for j
    using i(3) old(3) [of j] by (auto simp: term_moves_def)
  have "el_term (snd c' j) = 0 \<or> j = k" if "el_term (snd c' j) = el_term (snd c' k)" for j k
    using i(2) that old(4) [of j k] fresh [of j] fresh [of k] by (cases "j = i"; cases "k = i") (auto dest: old(4))
  moreover have "0 \<le> durable_term R J (fst c')" using i(3) old(1) by (auto simp: term_moves_def)
  moreover have "ro_TermKey (el_options (snd c' j)) = CoordinatorLeaderTermRedisKey" for j
    using i(2,4) old(2) [of j] by (cases "j = i") auto
  ultimately show ?thesis using i(1) bound by (auto simp: elect_inv_def case_prod_beta)
qed

lemma elect_step_term:
  assumes "elect_step R J c c'" "elect_inv R J c"
  shows "durable_term R J (fst c) \<le> durable_term R J (fst c') \<and>
    (el_term (snd c' j) = 0 \<or> el_term (snd c' j) = el_term (snd c j) \<or>
     durable_term R J (fst c) < int (unat (el_term (snd c' j))))"
proof -
  obtain i where "\<forall>j. j \<noteq> i \<longrightarrow> snd c' j = snd c j"
    "term_moves (durable_term R J (fst c)) (durable_term R J (fst c')) (el_term (snd c i)) (el_term (snd c' i))"
    using elect_step_moves [OF assms] by blast
  then show ?thesis by (cases "j = i") (auto simp: term_moves_def)
qed

lemma elect_steps:
  assumes "(elect_step R J)\<^sup>*\<^sup>* c c'" "elect_inv R J c"
  shows "elect_inv R J c' \<and> durable_term R J (fst c) \<le> durable_term R J (fst c') \<and>
    (\<forall>j. el_term (snd c' j) = 0 \<or> el_term (snd c' j) = el_term (snd c j) \<or>
     durable_term R J (fst c) < int (unat (el_term (snd c' j))))"
  using assms(1)
proof (induction rule: rtranclp_induct)
  case (step y z)
  then have i: "elect_inv R J y" by blast
  note m = elect_step_term [OF step.hyps(2) i]
  show ?case
  proof (intro conjI allI)
    show "elect_inv R J z" by (rule elect_step_inv [OF step.hyps(2) i])
    show "durable_term R J (fst c) \<le> durable_term R J (fst z)" using step.IH m by fastforce
    fix j
    show "el_term (snd z j) = 0 \<or> el_term (snd z j) = el_term (snd c j) \<or>
        durable_term R J (fst c) < int (unat (el_term (snd z j)))"
      using step.IH m [of j] by fastforce
  qed
qed (simp add: assms(2))

lemma term_below_durable:
  "elect_inv R J c \<Longrightarrow> int (unat (Term (snd c i))) \<le> durable_term R J (fst c)"
  using Term_cases [of "snd c i"] by (auto simp: elect_inv_def case_prod_beta)

lemma free_lease_elects:
  assumes "TGET R now (ro_LeaseKey (el_options e)) s = None" "0 < ttl_ms e"
    "0 \<le> durable_term R J s" "durable_term R J s < 2 ^ 63 - 1" "ro_TermKey (el_options e) = CoordinatorLeaderTermRedisKey"
  shows "\<exists>e' s'. Campaign_try R J Delivered now e s = (Some (Inr ()), e', s') \<and> IsLeader e' \<and>
     int (unat (Term e')) = durable_term R J s + 1 \<and> holds R J now (ro_LeaseKey (el_options e)) (el_token e) s'"
  using assms next_term [OF assms(3)] durable_quiet(1)
  by (simp add: Campaign_try_def acquire_def rpc_def acquire_script_def Let_def case_prod_beta INCRBY_value
      durable_term_def IsLeader_def Term_def word_gt_0 holds_def TGET_INCRBY TGET_TSET millisecond_def dec_enc_text)

lemma release_frees:
  "holds R J now lk tok s \<Longrightarrow> TGET R now' lk (snd (release_script R J now lk tok s)) = None"
  by (simp add: release_script_def TGET_TDEL)

end

section \<open>Properties\<close>

lemma not_own_lease:
  assumes "holds R J now (ro_LeaseKey (el_options e)) tok s" "el_token e \<noteq> tok"
  shows "\<not> holds R J now (ro_LeaseKey (el_options e)) (el_token e) s"
    "TGET R now (ro_LeaseKey (el_options e)) s \<noteq> None"
  using assms by (auto simp: holds_def split: option.splits)

text \<open>C30: once any instance has been elected with a higher term, a former leader that still carries its old
  term cannot commit a topology any more, with or without moving sessions, at any later time and
  whatever it sends: it gets an error and the store is unchanged. This does not rest on clocks or on
  leases being kept.\<close>

theorem stale_leader_cannot_commit:
  assumes R: "redis_server R J" and inv: "elect_inv R J c0"
    and s1: "(elect_step R J)\<^sup>*\<^sup>* c0 c1" and s2: "(elect_step R J)\<^sup>*\<^sup>* c1 c2"
    and older: "unat (Term (snd c0 i)) < unat (Term (snd c1 j))"
  shows "fst (CompareAndSaveTopologyForLeader R J n v topo (Term (snd c0 i)) (fst c2)) \<noteq> None \<and>
     snd (CompareAndSaveTopologyForLeader R J n v topo (Term (snd c0 i)) (fst c2)) = fst c2 \<and>
     fst (CompareAndSaveTopologyAndMigrateSessionsForLeader R J n v topo (Term (snd c0 i)) m a b (fst c2)) \<noteq> None \<and>
     snd (CompareAndSaveTopologyAndMigrateSessionsForLeader R J n v topo (Term (snd c0 i)) m a b (fst c2)) = fst c2"
proof -
  note i1 = redis_server.elect_steps [OF R s1 inv]
  then have i2: "durable_term R J (fst c1) \<le> durable_term R J (fst c2)"
    using redis_server.elect_steps [OF R s2] by blast
  have "int (unat (Term (snd c1 j))) \<le> durable_term R J (fst c1)"
    using redis_server.term_below_durable [OF R] i1 by blast
  with older i2 have "durable_term R J (fst c2) \<noteq> int (unat (Term (snd c0 i)))" by linarith
  from commit_needs_term [OF this] show ?thesis by blast
qed

definition opts :: RedisOptions where
  "opts = \<lparr>ro_LeaseKey = DefaultLeaseKey, ro_TermKey = DefaultTermKey, ro_TTL = 3 * second, ro_RenewInterval = second,
           ro_RetryInterval = 200 * millisecond\<rparr>"

definition inst :: "string \<Rightarrow> RedisElector" where
  "inst name = \<lparr>el_instanceID = name, el_token = name @ '':ff'', el_options = opts, el_leader = False, el_term = 0,
                el_expiresAt = zero_time, el_leaderCtx = None, el_leaderCancel = False, el_campaigning = True\<rparr>"

definition won :: "RedisElector \<Rightarrow> u64 \<Rightarrow> time \<Rightarrow> RedisElector" where
  "won e t now = e\<lparr>el_leader := True, el_term := t, el_expiresAt := now + 3 * second, el_leaderCtx := Some True,
                  el_leaderCancel := True, el_campaigning := False\<rparr>"

definition elected :: "int \<Rightarrow> string \<Rightarrow> time \<Rightarrow> mem" where
  "elected t tok now = mem_empty\<lparr>m_keys := [(CoordinatorLeaderTermRedisKey, DInt t)],
                                m_timed := [(DefaultLeaseKey, DText tok, now + 3 * second)]\<rparr>"

text \<open>Instance 0 is elected; its lease runs out; instance 1 is elected.\<close>

definition pair :: "RedisElector \<Rightarrow> RedisElector \<Rightarrow> nat \<Rightarrow> RedisElector" where
  "pair e0 e1 = (\<lambda>i. if i = 0 then e0 else if i = 1 then e1 else inst ''spare'')"

lemma first_election:
  "Campaign_try (mem_redis 8000) mem_json Delivered 5 (inst ''a'') mem_empty
   = (Some (Inr ()), won (inst ''a'') 1 5, elected 1 ''a:ff'' 5)"
  by code_simp

lemma second_election:
  "Campaign_try (mem_redis 8000) mem_json Delivered (9 * second) (inst ''b'') (elected 1 ''a:ff'' 5)
   = (Some (Inr ()), won (inst ''b'') 2 (9 * second), elected 2 ''b:ff'' (9 * second))"
  by code_simp

lemma pair_inv: "elect_inv (mem_redis 8000) mem_json (elected 1 ''a:ff'' 5, pair (won (inst ''a'') 1 5) (inst ''b''))"
  by (simp add: elect_inv_def pair_def elected_def inst_def won_def opts_def DefaultTermKey_def durable_term_def num_at_def mem_defs)

lemma pair_steps:
  "(elect_step (mem_redis 8000) mem_json)\<^sup>*\<^sup>* (elected 1 ''a:ff'' 5, pair (won (inst ''a'') 1 5) (inst ''b''))
     (elected 2 ''b:ff'' (9 * second), pair (won (inst ''a'') 1 5) (won (inst ''b'') 2 (9 * second)))"
proof (rule r_into_rtranclp)
  have b: "pair (won (inst ''a'') 1 5) (inst ''b'') 1 = inst ''b''" by (simp add: pair_def)
  have "(pair (won (inst ''a'') 1 5) (inst ''b''))(1 := won (inst ''b'') 2 (9 * second))
      = pair (won (inst ''a'') 1 5) (won (inst ''b'') 2 (9 * second))"
    by (simp add: pair_def fun_eq_iff)
  with elect_step.attempt [of "pair (won (inst ''a'') 1 5) (inst ''b'')" 1, unfolded b, OF _ second_election]
  show "elect_step (mem_redis 8000) mem_json (elected 1 ''a:ff'' 5, pair (won (inst ''a'') 1 5) (inst ''b''))
     (elected 2 ''b:ff'' (9 * second), pair (won (inst ''a'') 1 5) (won (inst ''b'') 2 (9 * second)))"
    by (simp add: inst_def)
qed

theorem stale_leader_cannot_commit_witness:
  "fst (CompareAndSaveTopologyForLeader (mem_redis 8000) mem_json Delivered 0
     \<lparr>tp_Version = 1, tp_LeaderTerm = 1, tp_Owners = [], tp_MapEpochs = [], tp_UpdatedAt = 7\<rparr> 1 (elected 2 ''b:ff'' (9 * second))) \<noteq> None"
  using stale_leader_cannot_commit [OF mem.redis_server_axioms pair_inv pair_steps rtranclp.rtrancl_refl, of 0 1]
  by (simp add: pair_def won_def Term_def)

text \<open>C31: a term belongs to one instance for ever: two instances that report the same non-zero term, at
  whatever times, are the same instance.\<close>

theorem one_leader_per_term_ever:
  assumes R: "redis_server R J" and inv: "elect_inv R J c" and st: "(elect_step R J)\<^sup>*\<^sup>* c c'"
    and same: "Term (snd c i) = Term (snd c' j)" "Term (snd c i) \<noteq> 0"
  shows "i = j"
proof -
  have t: "Term (snd c i) = el_term (snd c i)" "Term (snd c' j) = el_term (snd c' j)"
    using same Term_cases by metis+
  have "int (unat (el_term (snd c i))) \<le> durable_term R J (fst c)" using inv by (simp add: elect_inv_def)
  then have "el_term (snd c' j) = el_term (snd c j)"
    using redis_server.elect_steps [OF R st inv] t same by (metis not_le)
  then show ?thesis using inv t same by (auto simp: elect_inv_def)
qed

theorem one_leader_per_term_ever_witness:
  "\<forall>j. Term (pair (won (inst ''a'') 1 5) (won (inst ''b'') 2 (9 * second)) j) = 1 \<longleftrightarrow> j = 0"
proof (intro allI iffI)
  fix j
  assume "Term (pair (won (inst ''a'') 1 5) (won (inst ''b'') 2 (9 * second)) j) = 1"
  then show "j = 0"
    using one_leader_per_term_ever [OF mem.redis_server_axioms pair_inv pair_steps, of 0 j]
    by (simp add: pair_def won_def Term_def)
qed (simp add: pair_def won_def Term_def)

text \<open>While the lease carries the token of one instance, no other instance is elected, and none of what
  another instance does, campaigning, renewing or releasing, changes the store; an instance that finds
  a foreign token when it renews gives up its leadership.\<close>

theorem held_lease_excludes:
  assumes "holds R J now (ro_LeaseKey (el_options e)) tok s" "el_token e \<noteq> tok"
  shows "fst (Campaign_try R J n now e s) \<noteq> Some (Inr ()) \<and> snd (snd (Campaign_try R J n now e s)) = s \<and>
    snd (releaseToken R J n now e s) = s \<and> snd (renewLoop_tick R J n now e s) = s \<and>
    \<not> IsLeader (fst (renewLoop_tick R J n now e s))"
proof -
  obtain v where v: "TGET R now (ro_LeaseKey (el_options e)) s = Some v" using not_own_lease(2) [OF assms] by blast
  have q: "acquire_script R J now (ro_LeaseKey (el_options e)) k (el_token e) ms s \<in> {(None, s), (Some 0, s)}" for k ms
    by (simp add: acquire_script_def v)
  have a: "acquire R J n now e s \<in> {(Inl ErrAcquire, s), (Inr (0, False), s)}"
    using q [of "ro_TermKey (el_options e)" "ttl_ms e"] by (cases n) (auto simp: acquire_def rpc_def)
  then have "fst (Campaign_try R J n now e s) \<noteq> Some (Inr ()) \<and> snd (snd (Campaign_try R J n now e s)) = s"
    by (auto simp: Campaign_try_def)
  then show ?thesis
    using not_own_lease(1) [OF assms]
    by (cases n) (simp_all add: rpc_def releaseToken_def release_script_def
      renewLoop_tick_def renew_def renew_script_def IsLeader_def)
qed

theorem held_lease_excludes_witness:
  "snd (releaseToken (mem_redis 8000) mem_json Delivered 6 (inst ''b'') (elected 1 ''a:ff'' 5)) = elected 1 ''a:ff'' 5"
proof -
  have "holds (mem_redis 8000) mem_json 6 (ro_LeaseKey (el_options (inst ''b''))) ''a:ff'' (elected 1 ''a:ff'' 5)"
    by code_simp
  from held_lease_excludes [OF this] show ?thesis by (simp add: inst_def)
qed

text \<open>A leader that resigns hands over at once: it stops being leader, its lease is gone, and the next
  instance that campaigns is elected in its first round, with the next term.\<close>

theorem resign_hands_over:
  assumes R: "redis_server R J" and held: "holds R J now (ro_LeaseKey (el_options e1)) (el_token e1) s"
    and same: "ro_LeaseKey (el_options e2) = ro_LeaseKey (el_options e1)"
    and cnt: "ro_TermKey (el_options e2) = CoordinatorLeaderTermRedisKey" "0 \<le> durable_term R J s" "durable_term R J s < 2 ^ 63 - 1"
    and ready: "0 < ttl_ms e2" "\<not> IsLeader e2" "\<not> el_campaigning e2"
    and res: "Resign R J Delivered now e1 s = (r, e1', s1)"
  shows "r = None \<and> \<not> IsLeader e1' \<and>
    (\<exists>e2' s2. Campaign R J False (\<lparr>rd_others = id, rd_net = Delivered, rd_now = now', rd_done = d\<rparr> # rs) e2 s1 = (Some (Inr ()), e2', s2) \<and>
       IsLeader e2' \<and> int (unat (Term e2')) = durable_term R J s + 1 \<and> holds R J now' (ro_LeaseKey (el_options e2)) (el_token e2) s2)"
proof -
  have rel: "releaseToken R J Delivered now (loseLeadership e1) s
      = (None, snd (release_script R J now (ro_LeaseKey (el_options e1)) (el_token e1) s))"
    by (simp add: releaseToken_def rpc_def)
  have s1: "r = None" "e1' = loseLeadership e1"
    "s1 = snd (release_script R J now (ro_LeaseKey (el_options e1)) (el_token e1) s)"
    using res by (simp_all add: Resign_def rel)
  have free: "TGET R now' (ro_LeaseKey (el_options e2)) s1 = None"
    using redis_server.release_frees [OF R held] s1 same by simp
  have dur: "durable_term R J s1 = durable_term R J s"
    using redis_server.durable_quiet [OF R] s1 by (simp add: release_script_def)
  have "Campaign R J False (\<lparr>rd_others = id, rd_net = Delivered, rd_now = now', rd_done = d\<rparr> # rs) e2 s1 =
      campaign_loop R J (\<lparr>rd_others = id, rd_net = Delivered, rd_now = now', rd_done = d\<rparr> # rs) (e2\<lparr>el_campaigning := True\<rparr>) s1"
    using ready by (auto simp: Campaign_def Campaign_begin_def IsLeader_def)
  with redis_server.free_lease_elects [OF R, of now' "e2\<lparr>el_campaigning := True\<rparr>" s1] free dur cnt ready
  show ?thesis by (auto simp: s1 IsLeader_def ttl_ms_def)
qed

theorem resign_hands_over_witness:
  "\<exists>e2' s2. Campaign (mem_redis 8000) mem_json False [\<lparr>rd_others = id, rd_net = Delivered, rd_now = 7, rd_done = False\<rparr>]
      (inst ''b''\<lparr>el_campaigning := False\<rparr>) (elected 1 ''a:ff'' 5\<lparr>m_timed := []\<rparr>) = (Some (Inr ()), e2', s2) \<and> Term e2' = 2"
proof -
  let ?R = "mem_redis 8000" and ?J = mem_json and ?e = "inst ''b''\<lparr>el_campaigning := False\<rparr>"
  have held: "holds ?R ?J 6 (ro_LeaseKey (el_options (won (inst ''a'') 1 5))) (el_token (won (inst ''a'') 1 5)) (elected 1 ''a:ff'' 5)"
    by code_simp
  have res: "Resign ?R ?J Delivered 6 (won (inst ''a'') 1 5) (elected 1 ''a:ff'' 5)
      = (None, loseLeadership (won (inst ''a'') 1 5), elected 1 ''a:ff'' 5\<lparr>m_timed := []\<rparr>)"
    by code_simp
  have dur: "durable_term ?R ?J (elected 1 ''a:ff'' 5) = 1" by code_simp
  have misc: "ro_LeaseKey (el_options ?e) = ro_LeaseKey (el_options (won (inst ''a'') 1 5))"
    "ro_TermKey (el_options ?e) = CoordinatorLeaderTermRedisKey" "0 < ttl_ms ?e" "\<not> IsLeader ?e" "\<not> el_campaigning ?e"
    by (simp_all add: inst_def won_def opts_def DefaultTermKey_def ttl_ms_def second_def millisecond_def IsLeader_def)
  have two: "int (unat (t :: u64)) = 2 \<Longrightarrow> t = 2" for t by (simp add: uint_word_ariths word_uint_eq_iff)
  from resign_hands_over [OF mem.redis_server_axioms held misc(1,2) _ _ misc(3-5) res, of 7 False "[]"] dur
  show ?thesis using two by fastforce
qed

end
