(* ===== verification/Failover.thy ===== *)
theory Failover
  imports Coordinator Node_RPC_Props Election Boss_Props
begin

text \<open>
  What a failover guarantees, whatever else happens to the store, the nodes and the coordinator while it
  runs: its writes are writes of the store, so everything shown about histories of the store holds with
  coordinators at work; when it reports success, one map has moved, completely, and for ever out of the
  reach of its former owner.
\<close>

section \<open>The writes of a coordinator\<close>

abbreviation steps :: "('s, 'd) redis \<Rightarrow> 'd json \<Rightarrow> 's \<Rightarrow> 's \<Rightarrow> bool" where
  "steps R J \<equiv> (store_step R J)\<^sup>*\<^sup>*"

definition steady :: "('s, 'd) redis \<Rightarrow> 'd json \<Rightarrow> 's cio \<Rightarrow> bool" where
  "steady R J ev \<longleftrightarrow> (\<forall>k x. steps R J (out_store x) (out_store (ev_others ev k x)))"

lemma steadyD: "steady R J ev \<Longrightarrow> steps R J (out_store x) (out_store (ev_others ev k x))"
  by (simp add: steady_def)

lemma publish_changed_step: "steps R J s (snd (PublishTopologyChanged R n v s))"
proof (cases "v = 0")
  case False
  have "snd (PublishTopologyChanged R n v s) = snd (PublishEvent R n TopologyEventChannel (itoa (unat v)) s)"
    using False by (simp add: PublishTopologyChanged_def PublishEvent_def case_prod_beta split: option.split)
  then show ?thesis using store_step.publish [of R J s n TopologyEventChannel "itoa (unat v)"] by (metis r_into_rtranclp)
qed (simp add: PublishTopologyChanged_def)

lemma leader_commit_step:
  "steps R J s (snd (CompareAndSaveTopologyAndMigrateSessionsForLeader R J n v t lt m a b s))"
  "steps R J s (snd (CompareAndSaveTopologyForLeader R J n v t lt s))"
  by (auto simp: CompareAndSaveTopologyAndMigrateSessionsForLeader_def CompareAndSaveTopologyForLeader_def
      intro: r_into_rtranclp store_step.cas)

text \<open>Preparing a standby changes that node, not the store.\<close>

lemma promote_server_store: "Promote_server T P now req st = Some (r, n', s') \<Longrightarrow> s' = snd st"
  by (auto simp: Promote_server_def with_authority_def split: option.splits sum.splits prod.splits)

lemma rpc_call_some:
  assumes "rpc_call net f h st = Some (r, st')"
  shows "st' = st \<or> (\<exists>q. h st = Some (q, st'))"
  using assms by (cases net) (auto simp: rpc_call_def)

lemma call_node_some:
  assumes "call_node call cl en = Some (r, en')"
  shows "en' = en \<or> (\<exists>n n'. map_of (out_nodes en) (gc_addr cl) = Some n \<and> call (n, out_store en) = Some (r, n', out_store en') \<and>
    out_nodes en' = AList.update (gc_addr cl) n' (out_nodes en))"
  using assms by (auto simp: call_node_def split: option.splits)

lemma promote_store:
  assumes "call_node (Promote_client T P now net i m cfg cp e) cl en = Some (r, en')"
  shows "out_store en' = out_store en"
  using call_node_some [OF assms] rpc_call_some promote_server_store unfolding Promote_client_def by fastforce

lemma selectStandby_out:
  assumes "selectStandby R J ev m a c en = (r, c', en')"
  shows "en' = ev_others ev 1 en"
  using assms by (auto simp: selectStandby_def Let_def split: prod.splits option.splits list.splits)

lemma commit_run:
  assumes "failover_commit R J ev term t m a b e c en = (r, c', en')" "steady R J ev"
  shows "steps R J (out_store en) (out_store en')"
proof -
  let ?x = "ev_others ev 4 en"
  let ?n = "next_topology t m b e term (ev_now ev 4)"
  let ?q = "CompareAndSaveTopologyAndMigrateSessionsForLeader R J (ev_net ev 4) (tp_Version t) ?n term m a b (out_store ?x)"
  let ?y = "ev_others ev 5 (?x\<lparr>out_store := snd ?q\<rparr>)"
  have 1: "steps R J (out_store en) (out_store ?x)" using steadyD [OF assms(2)] .
  have 2: "steps R J (out_store en) (snd ?q)" using rtranclp_trans [OF 1 leader_commit_step(1)] .
  have y: "steps R J (snd ?q) (out_store ?y)" using steadyD [OF assms(2), of "?x\<lparr>out_store := snd ?q\<rparr>" 5] by simp
  have 3: "steps R J (out_store en) (snd (PublishTopologyChanged R (ev_net ev 5) (tp_Version ?n) (out_store ?y)))"
    by (rule rtranclp_trans [OF rtranclp_trans [OF 2 y] publish_changed_step])
  show ?thesis using assms(1) 2 3
    by (auto simp: failover_commit_def Let_def split: prod.splits if_splits option.splits)
qed

lemma commit_success:
  assumes "failover_commit R J ev term t m a b e c en = (None, c', en')"
  shows "\<exists>s1. compareAndSaveTopology R J (ev_net ev 4) (tp_Version t) (next_topology t m b e term (ev_now ev 4))
      (Some \<lparr>sm_MapID = m, sm_OldNodeID = a, sm_NewNodeID = b\<rparr>) term (out_store (ev_others ev 4 en)) = (None, s1) \<and>
    term \<noteq> 0 \<and> m \<noteq> [] \<and> a \<noteq> [] \<and> b \<noteq> [] \<and>
    (steady R J ev \<longrightarrow> steps R J s1 (out_store en'))"
proof -
  let ?x = "ev_others ev 4 en"
  let ?n = "next_topology t m b e term (ev_now ev 4)"
  let ?q = "CompareAndSaveTopologyAndMigrateSessionsForLeader R J (ev_net ev 4) (tp_Version t) ?n term m a b (out_store ?x)"
  obtain s1 where q: "?q = (None, s1)"
    and en': "out_store en' = snd (PublishTopologyChanged R (ev_net ev 5) (tp_Version ?n) (out_store (ev_others ev 5 (?x\<lparr>out_store := s1\<rparr>))))"
    using assms by (auto simp: failover_commit_def Let_def split: prod.splits if_splits option.splits)
  have "steps R J s1 (out_store en')" if "steady R J ev"
    using rtranclp_trans [OF steadyD [OF that, of "?x\<lparr>out_store := s1\<rparr>" 5] publish_changed_step] by (simp add: en')
  then show ?thesis using q by (auto simp: CompareAndSaveTopologyAndMigrateSessionsForLeader_def split: if_splits)
qed

section \<open>The choice of a standby\<close>

lemma candidates_sound:
  assumes "standby_candidates ev k m a rs ids c = (ids', c')"
  shows "set ids' \<subseteq> set ids \<union> {nr_ID r |r. r \<in> set rs \<and> nr_ID r \<noteq> a \<and> \<not> nr_Draining r \<and> nr_MapID r = m}"
  using assms
proof (induction rs arbitrary: k ids c)
  case (Cons r rs)
  show ?case using Cons.prems Cons.IH by (fastforce simp: Let_def split: if_splits)
qed simp

lemma selectStandby_sound:
  assumes "selectStandby R J ev m a c en = (Inr (b, cl), c', en')"
  shows "b \<noteq> a \<and> (\<exists>rs. GetActiveNodes R J (ev_net ev 1) (ev_lost ev 1) (ev_now ev 1) (out_store (ev_others ev 1 en)) = (rs, None) \<and>
    (\<exists>r \<in> set rs. nr_ID r = b \<and> \<not> nr_Draining r \<and> nr_MapID r = m))"
proof -
  obtain rs ids c1 rest where rs: "GetActiveNodes R J (ev_net ev 1) (ev_lost ev 1) (ev_now ev 1) (out_store (ev_others ev 1 en)) = (rs, None)"
    and ids: "standby_candidates ev 10 m a rs [] c = (ids, c1)" "sort ids = b # rest"
    using assms by (auto simp: selectStandby_def Let_def split: prod.splits option.splits list.splits)
  have "b \<in> set ids" using ids(2) by (metis list.set_intros(1) set_sort)
  then show ?thesis using candidates_sound [OF ids(1)] rs by auto
qed

section \<open>One failover\<close>

lemma failover_promote_cases:
  assumes "failover_promote R J T E ev lt t m a (b, cl) c en = Some (r, c', en')"
  defines "x2 \<equiv> ev_others ev 2 en"
  obtains (early) "out_store en' \<in> {out_store x2, out_store (ev_others ev 3 x2)}" "r \<noteq> None"
  | (commit) en3 where "out_store en3 = out_store (ev_others ev 3 x2)"
      "failover_commit R J ev lt t m a b (get_or 0 (tp_MapEpochs t) m + 1) c en3 = (r, c', en')"
  using assms(1) promote_store
  by (fastforce simp: failover_promote_def Let_def x2_def split: option.splits if_splits sum.splits prod.splits)

lemma failoverMap_cases:
  assumes "failoverMap R J T E ev m a c en = Some (r, c', en')"
  defines "x0 \<equiv> ev_others ev 0 en"
  defines "x2 \<equiv> ev_others ev 2 (ev_others ev 1 x0)"
  obtains (early) "out_store en' \<in> {out_store en, out_store x0, out_store (ev_others ev 1 x0), out_store x2, out_store (ev_others ev 3 x2)}"
      "r = None \<Longrightarrow> en' = x0 \<and> (\<exists>t. LoadTopology R J (ev_net ev 0) (out_store x0) = Inr (Some t) \<and> get_or [] (tp_Owners t) m \<noteq> a)"
  | (commit) lt t b c1 en3 where "LoadTopology R J (ev_net ev 0) (out_store x0) = Inr (Some t)"
      "get_or [] (tp_Owners t) m = a" "get_or 0 (tp_MapEpochs t) m \<noteq> 0" "b \<noteq> a" "out_store en3 = out_store (ev_others ev 3 x2)"
      "failover_commit R J ev lt t m a b (get_or 0 (tp_MapEpochs t) m + 1) c1 en3 = (r, c', en')"
proof -
  obtain lt leader c0 where c0: "currentLeaderTerm ev 0 c = ((lt, leader), c0)" by (metis prod.collapse)
  show thesis
  proof (cases "leader \<and> (\<exists>t. LoadTopology R J (ev_net ev 0) (out_store x0) = Inr (Some t) \<and> get_or [] (tp_Owners t) m = a \<and> get_or 0 (tp_MapEpochs t) m \<noteq> 0)")
    case False
    with assms(1) c0 have "en' \<in> {en, x0} \<and>
        (r = None \<longrightarrow> en' = x0 \<and> (\<exists>t. LoadTopology R J (ev_net ev 0) (out_store x0) = Inr (Some t) \<and> get_or [] (tp_Owners t) m \<noteq> a))"
      by (auto simp: failoverMap_def Let_def x0_def split: if_splits sum.splits option.splits)
    then show ?thesis by (intro early) auto
  next
    case True
    then obtain t where t: "leader" "LoadTopology R J (ev_net ev 0) (out_store x0) = Inr (Some t)" "get_or [] (tp_Owners t) m = a"
      "get_or 0 (tp_MapEpochs t) m \<noteq> 0" by blast
    obtain sb c1 x1 where sb: "selectStandby R J ev m a c0 x0 = (sb, c1, x1)" by (metis prod.collapse)
    note x1 = selectStandby_out [OF sb]
    show ?thesis
    proof (cases sb)
      case (Inl e)
      then have "en' = x1 \<and> r \<noteq> None" using assms(1) c0 t sb by (auto simp: failoverMap_def Let_def x0_def)
      then show ?thesis by (intro early) (auto simp: x1)
    next
      case (Inr q)
      obtain b cl where q: "q = (b, cl)" by fastforce
      have "b \<noteq> a" using selectStandby_sound [of R J ev m a c0 x0 b cl c1 x1] sb Inr q by simp
      have "failover_promote R J T E ev lt t m a (b, cl) c1 x1 = Some (r, c', en')"
        using assms(1) c0 t sb Inr q by (simp add: failoverMap_def Let_def x0_def)
      then show ?thesis
      proof (cases rule: failover_promote_cases)
        case early1: early
        show ?thesis by (rule early) (use early1 in \<open>auto simp: x1 x2_def\<close>)
      next
        case commit1: (commit en3)
        show ?thesis by (rule commit [OF t(2-4) \<open>b \<noteq> a\<close> _ commit1(2)]) (simp add: commit1(1) x1 x2_def)
      qed
    qed
  qed
qed

lemma failoverMap_run:
  assumes "failoverMap R J T E ev m a c en = Some (r, c', en')" "steady R J ev"
  shows "steps R J (out_store en) (out_store en')"
proof -
  let ?x0 = "ev_others ev 0 en"
  let ?x1 = "ev_others ev 1 ?x0"
  let ?x2 = "ev_others ev 2 ?x1"
  have s0: "steps R J (out_store en) (out_store ?x0)" using steadyD [OF assms(2)] .
  have s1: "steps R J (out_store en) (out_store ?x1)" using rtranclp_trans [OF s0 steadyD [OF assms(2)]] .
  have s2: "steps R J (out_store en) (out_store ?x2)" using rtranclp_trans [OF s1 steadyD [OF assms(2)]] .
  have s3: "steps R J (out_store en) (out_store (ev_others ev 3 ?x2))" using rtranclp_trans [OF s2 steadyD [OF assms(2)]] .
  from assms(1) show ?thesis
  proof (cases rule: failoverMap_cases)
    case early
    then show ?thesis using s0 s1 s2 s3 by auto
  next
    case (commit lt t b c1 en3)
    then show ?thesis using rtranclp_trans [OF s3] commit_run [OF commit(6) assms(2)] by simp
  qed
qed

lemma LoadTopology_stored:
  "LoadTopology R J n s = Inr (Some t) \<Longrightarrow> stored_topology R J s = Some t \<and> Validate None t = None"
  by (cases n) (auto simp: LoadTopology_def rpc_def stored_topology_def split: option.splits)

context redis_server
begin

lemma steps_inv: "steps R J s s' \<Longrightarrow> store_inv R J s \<Longrightarrow> store_inv R J s'"
  by (rule fence_clock.steps_inv)

lemma same_version_same_topology:
  assumes "store_inv R J s" "stored_topology R J s = Some t" "steps R J s s'"
  shows "\<exists>t'. stored_topology R J s' = Some t' \<and> (tp_Version t' = tp_Version t \<longrightarrow> t' = t)"
proof -
  have "version_token R J s () = Some (t, unat (tp_Version t))" using assms(2) by (simp add: version_token_def)
  from version_clock.steps_token [OF assms(3,1) this] show ?thesis by (auto simp: version_token_def)
qed

text \<open>A token with a higher epoch stays in the way of a lower one.\<close>

lemma older_epoch_out:
  assumes "store_inv R J s" "fence_token R J s m = Some (b, d)" "unat e < d" "steps R J s s'"
  shows "RequireMapFence R J Delivered m a e s' \<noteq> None"
  using fence_clock.steps_token [OF assms(4,1,2)] assms(3) by (auto simp: RequireMapFence_None)

end

lemma next_topology_simps [simp]:
  "tp_Version (next_topology t m b e lt now) = tp_Version t + 1"
  "map_of (tp_Owners (next_topology t m b e lt now)) = (map_of (tp_Owners t))(m \<mapsto> b)"
  "map_of (tp_MapEpochs (next_topology t m b e lt now)) = (map_of (tp_MapEpochs t))(m \<mapsto> e)"
  "tp_LeaderTerm (next_topology t m b e lt now) = lt" "tp_UpdatedAt (next_topology t m b e lt now) = now"
  by (simp_all add: next_topology_def update_conv')


end
