(* ===== verification/Failover_Live.thy ===== *)
theory Failover_Live
  imports Failover World_Boot
begin

text \<open>
  That a failover gets done: in a quiet cluster with a leader, a stored checkpoint of the failed owner and
  a healthy standby, the guards of the coordinator, of the standby and of the compare-and-set all open, and
  the standby ends up hosting the checkpointed world with the fence in its name.
\<close>

definition quiet_cio :: "time \<Rightarrow> 's cio" where
  "quiet_cio now = \<lparr>ev_net = \<lambda>_. Delivered, ev_others = \<lambda>_ x. x, ev_now = \<lambda>_. now, ev_self = \<lambda>_ c. c, ev_lost = \<lambda>_ _. False\<rparr>"

lemma quiet_simps [simp]:
  "ev_net (quiet_cio now) k = Delivered" "ev_others (quiet_cio now) k x = x" "ev_now (quiet_cio now) k = now"
  "ev_self (quiet_cio now) k c = c" "ev_lost (quiet_cio now) k = (\<lambda>_. False)"
  by (simp_all add: quiet_cio_def)

section \<open>The commit is accepted\<close>

lemma next_topology_valid:
  assumes "Validate None t = None" "tp_Version t + 1 \<noteq> 0" "\<not> IsZero now" "e \<noteq> 0" "\<not> bad_id b" "\<not> bad_id m"
  shows "Validate None (next_topology t m b e lt now) = None"
proof -
  have "validate_map None (next_topology t m b e lt now) k = None" if "k \<in> set (map_ids_of (next_topology t m b e lt now))" for k
  proof (cases "k = m")
    case False
    then have "k \<in> set (map_ids_of t)" using that by (auto simp: set_map_ids_of next_topology_def dom_update)
    then have "validate_map None t k = None" using assms(1) by (simp add: Validate_None_iff)
    then show ?thesis using False by (simp add: validate_map_def get_or_def split: if_splits)
  qed (simp add: validate_map_def assms(4-6))
  then show ?thesis using assms(2,3) by (simp add: Validate_None_iff)
qed

lemma next_topology_epochs:
  assumes "map_of (tp_Owners t) m = Some a" "map_of (tp_MapEpochs t) m = Some e" "b \<noteq> a" "e + 1 \<noteq> 0"
    and "distinct (keys (tp_MapEpochs t))"
  shows "epochs_ok t (next_topology t m b (e + 1) lt now)"
proof -
  let ?n = "next_topology t m b (e + 1) lt now"
  have "epoch_step_ok t ?n (k, d)" if "(k, d) \<in> set (tp_MapEpochs t)" for k d
    using map_of_is_SomeI [OF assms(5) that] assms(1-3) unat_Suc_version [OF assms(4)]
    by (cases "k = m") (simp_all add: epoch_step_ok_def get_or_def)
  moreover have "has_key (tp_MapEpochs t) k" if "k \<in> set (keys (tp_MapEpochs ?n))" for k
    using that assms(2) by (auto simp: next_topology_def dom_update has_key_iff dest!: map_of_SomeD) force
  ultimately show ?thesis by (auto simp: epochs_ok_def list_all_iff) (metis fst_conv image_eqI set_map)
qed

context redis_server
begin

lemma cas_accepts:
  assumes "stored_topology R J s = Some t" "tp_Version t \<noteq> 0" "Validate None n = None" "tp_Version n = tp_Version t + 1"
    and "durable_term R J s = int (unat lt)" "lt \<noteq> 0" "tp_LeaderTerm n = lt" "unat (tp_LeaderTerm t) \<le> unat lt" "epochs_ok t n"
    and "session_updates J mig (HGETALL R ''global_sessions'' s) = Some us" "2 * length us \<le> unpack_max R"
  shows "\<exists>s1. compareAndSaveTopology R J Delivered (tp_Version t) n (Some mig) lt s = (None, s1)"
proof -
  obtain d where d: "GET R TopologyRedisKey s = Some d" "dec_topology J d = Some t"
    using assms(1) by (auto simp: stored_topology_def split: option.splits)
  have "1 \<le> unat (tp_Version t)" using assms(2) by (metis One_nat_def Suc_leI unat_0_iff not_gr_zero)
  moreover have "uint lt \<noteq> 0" using assms(6) by (simp add: uint_0_iff)
  ultimately show ?thesis using assms d
    by (simp add: compareAndSaveTopology_def prepareTopology_Inr [THEN iffD2] rpc_def compareAndSetTopology_script_def
        dec_enc_topology durable_term_def migrate_then_commit_def commit_script_def Let_def cas_result_def)
qed

lemma publish_stored:
  "stored_topology R J (snd (PublishTopologyChanged R n v s)) = stored_topology R J s"
  "fence_token R J (snd (PublishTopologyChanged R n v s)) m = fence_token R J s m"
  "session_at R J (snd (PublishTopologyChanged R n v s)) u = session_at R J s u"
  by (cases n; simp add: PublishTopologyChanged_def rpc_def stored_topology_def fence_token_def stored_fence_def session_at_def
      get_rules hget_rules)+

end

section \<open>The standby is chosen and prepared\<close>

definition eligible :: "string \<Rightarrow> string \<Rightarrow> Coordinator \<Rightarrow> NodeRegistryInfo list \<Rightarrow> string set" where
  "eligible m a c rs =
     {nr_ID r |r. r \<in> set rs \<and> nr_ID r \<noteq> a \<and> \<not> nr_Draining r \<and> nr_MapID r = m \<and> healthyNode (nr_ID r) c \<noteq> None}"

lemma eligible_Cons:
  "eligible m a c (r # rs) =
     (if nr_ID r \<noteq> a \<and> \<not> nr_Draining r \<and> nr_MapID r = m \<and> healthyNode (nr_ID r) c \<noteq> None
      then insert (nr_ID r) (eligible m a c rs) else eligible m a c rs)"
  by (auto simp: eligible_def)

lemma quiet_candidates:
  "\<exists>ids'. standby_candidates (quiet_cio now) k m a rs ids c = (ids', c) \<and> set ids' = set ids \<union> eligible m a c rs"
proof (induction rs arbitrary: k ids)
  case (Cons r rs)
  from Cons.IH [of "Suc k" ids] Cons.IH [of "Suc k" "ids @ [nr_ID r]"] show ?case by (auto simp: eligible_Cons)
qed (simp add: eligible_def)

lemma quiet_standby:
  fixes en :: "'s outside"
  assumes "GetActiveNodes R J Delivered (\<lambda>_. False) now (out_store en) = (rs, None)" "b \<in> eligible m a c rs" "\<And>x. x \<in> eligible m a c rs \<Longrightarrow> b \<le> x"
  shows "selectStandby R J (quiet_cio now) m a c en = (Inr (b, healthyNode b c), c, en)"
proof -
  obtain ids where ids: "standby_candidates (quiet_cio now :: 's cio) 10 m a rs [] c = (ids, c)" "set ids = eligible m a c rs"
    using quiet_candidates [of now 10 m a rs "[]" c] by auto
  obtain x xs where x: "sort ids = x # xs" using ids(2) assms(2) by (cases "sort ids") (auto dest: arg_cong [of _ _ set])
  have "x \<in> set ids" using x by (metis list.set_intros(1) set_sort)
  moreover have "x \<le> b" using x assms(2) ids(2) sorted_sort [of ids] by (metis set_sort set_ConsD sorted_simps(2) order_refl)
  ultimately have "x = b" using assms(3) ids(2) by force
  then show ?thesis using assms(1) ids x by (simp add: selectStandby_def)
qed

lemma nodeMapConfig_known:
  assumes "cfg \<in> set AvailableMaps" "cfg_ID cfg = m"
  shows "nodeMapConfig m = Some cfg"
proof (cases "nodeMapConfig m")
  case None
  then show ?thesis using assms by (auto simp: nodeMapConfig_def find_None_iff)
next
  case (Some x)
  then have "x \<in> set AvailableMaps" "cfg_ID x = m" by (auto simp: nodeMapConfig_def find_Some_iff)
  with Some assms config_unique show ?thesis by blast
qed

lemma promote_delivered:
  assumes T: "timestamps T valid_time" and cp: "c_MapID cp = m" "valid_time (c_Checkpoint cp)" "fits_checkpoint cp"
      "c_NodeID cp \<noteq> []" "0 < c_Version cp" "c_MapEpoch cp = e" "m \<noteq> []" "e + 1 \<noteq> 0"
    and n: "ns_ID n = i" "RequirePromotionCandidate now m (e + 1) n = None"
    and w: "nodeMapConfig m = Some cfg" "NewWorld cfg (se_dice P (cfg_ID cfg)) = Some w"
  shows "Promote_client T P now Delivered i m cfg' cp (e + 1) (n, s) = Some (Inr (), put_map m (RestoreCheckpoint now cp w) n, s)"
proof -
  have "FromCheckpoint T (ToCheckpoint T cp) = Inr cp" using timestamps.checkpoint_dec_enc [OF T] cp(1-3,7) by simp
  moreover have "Promote P now m cfg cp (e + 1) n = Some (None, put_map m (RestoreCheckpoint now cp w) n)"
    using n(2) cp w(2) by (simp add: Promote_def)
  ultimately show ?thesis using n(1) cp w(1)
    by (simp add: Promote_client_def rpc_call_def Promote_server_def with_authority_def authority_new)
qed

section \<open>The failover gets done\<close>

lemma quiet_leader:
  assumes "elector_IsLeader (co_elector c)" "elector_Term (co_elector c) = lt" "lt \<noteq> 0"
  shows "currentLeaderTerm (quiet_cio now) k c = ((lt, True), c)" "hasLeaderTerm (quiet_cio now) k lt c = (True, c)"
  using assms by (simp_all add: currentLeaderTerm_def hasLeaderTerm_def word_gt_0)

lemma failover_completes:
  assumes R: "redis_server R J" and T: "timestamps T valid_time"
    and leader: "elector_IsLeader (co_elector c)" "elector_Term (co_elector c) = lt" "lt \<noteq> 0" "durable_term R J s = int (unat lt)"
    and topo: "LoadTopology R J Delivered s = Inr (Some t)" "map_of (tp_Owners t) m = Some a" "map_of (tp_MapEpochs t) m = Some e"
      "a \<noteq> []" "distinct (keys (tp_MapEpochs t))" "tp_Version t + 1 \<noteq> 0" "e + 1 \<noteq> 0" "unat (tp_LeaderTerm t) \<le> unat lt" "\<not> IsZero now"
    and standby: "GetActiveNodes R J Delivered (\<lambda>_. False) now s = (rs, None)" "b \<in> eligible m a c rs" "\<forall>x \<in> eligible m a c rs. b \<le> x"
      "\<not> bad_id b" "healthyNode b c = Some \<lparr>gc_id = b, gc_addr = addr\<rparr>" "map_of ns addr = Some n" "ns_ID n = b"
      "RequirePromotionCandidate now m (e + 1) n = None"
    and cp: "LoadCheckpoint R J Delivered m s = Some cp" "c_MapID cp = m" "c_NodeID cp = a" "c_MapEpoch cp = e" "0 < c_Version cp"
      "valid_time (c_Checkpoint cp)" "fits_checkpoint cp"
    and cfg: "cfg \<in> set AvailableMaps" "cfg_ID cfg = m" "mapConfig m c = Some cfg" "fair_dice (se_dice (E addr) m)"
    and sess: "session_updates J \<lparr>sm_MapID = m, sm_OldNodeID = a, sm_NewNodeID = b\<rparr> (HGETALL R ''global_sessions'' s) = Some us"
      "2 * length us \<le> unpack_max R"
  shows "\<exists>s' w. failoverMap R J T E (quiet_cio now) m a c \<lparr>out_store = s, out_nodes = ns\<rparr> =
      Some (None, c, \<lparr>out_store = s', out_nodes = AList.update addr (put_map m (RestoreCheckpoint now cp w) n) ns\<rparr>) \<and>
    NewWorld cfg (se_dice (E addr) m) = Some w \<and>
    stored_topology R J s' = Some (next_topology t m b (e + 1) lt now) \<and>
    RequireMapFence R J Delivered m b (e + 1) s' = None \<and>
    (\<forall>u. session_at R J s' u = map_option (migrate (Some \<lparr>sm_MapID = m, sm_OldNodeID = a, sm_NewNodeID = b\<rparr>)) (session_at R J s u))"
proof -
  let ?ev = "quiet_cio now :: 'a cio"
  let ?en = "\<lparr>out_store = s, out_nodes = ns\<rparr>"
  let ?n = "next_topology t m b (e + 1) lt now"
  note st = LoadTopology_stored [OF topo(1)]
  have "m \<in> set (map_ids_of t)" using topo(3) by (force simp: set_map_ids_of dest: map_of_SomeD)
  then have "validate_map None t m = None" using st by (simp add: Validate_None_iff)
  then have m: "\<not> bad_id m" "e \<noteq> 0" "m \<noteq> []" using topo(3) by (auto simp: validate_map_def split: if_splits)
  have b: "b \<noteq> a" "b \<noteq> []" using standby(2,4) by (auto simp: eligible_def)
  obtain w where w: "NewWorld cfg (se_dice (E addr) m) = Some w" using NewWorld_boots [OF cfg(1,4)] by blast
  have call: "call_node (Promote_client T (E addr) now Delivered b m cfg cp (e + 1)) \<lparr>gc_id = b, gc_addr = addr\<rparr> ?en
      = Some (Inr (), \<lparr>out_store = s, out_nodes = AList.update addr (put_map m (RestoreCheckpoint now cp w) n) ns\<rparr>)"
    using promote_delivered [OF T cp(2,6,7) _ cp(5,4) m(3) topo(7) standby(7,8) nodeMapConfig_known [OF cfg(1,2)], of "E addr" w cfg s] cp(3) topo(4) w cfg(2) standby(6)
    by (simp add: call_node_def)
  have sb: "selectStandby R J ?ev m a c ?en = (Inr (b, Some \<lparr>gc_id = b, gc_addr = addr\<rparr>), c, ?en)"
    using quiet_standby [of R J now ?en rs b m a c] standby by simp
  have n: "Validate None ?n = None" using next_topology_valid st topo(6,7,9) standby(4) m(1) by simp
  have "tp_Version t \<noteq> 0" using st by (simp add: Validate_None_iff)
  then obtain s1 where cas: "compareAndSaveTopology R J Delivered (tp_Version t) ?n
      (Some \<lparr>sm_MapID = m, sm_OldNodeID = a, sm_NewNodeID = b\<rparr>) lt s = (None, s1)"
    using redis_server.cas_accepts [OF R _ _ n _ leader(4,3) _ _ next_topology_epochs [OF topo(2,3) b(1) topo(7,5)] sess] st topo(8) by auto
  note f = commit_facts [OF R cas]
  obtain s' where pub: "PublishTopologyChanged R Delivered (tp_Version t + 1) s1 = (None, s')"
    using topo(6) by (simp add: PublishTopologyChanged_def rpc_def)
  note keeps = redis_server.publish_stored [OF R, of Delivered "tp_Version t + 1" s1, unfolded pub snd_conv]
  have commit: "failover_commit R J ?ev lt t m a b (e + 1) c \<lparr>out_store = s, out_nodes = AList.update addr (put_map m (RestoreCheckpoint now cp w) n) ns\<rparr>
      = (None, c, \<lparr>out_store = s', out_nodes = AList.update addr (put_map m (RestoreCheckpoint now cp w) n) ns\<rparr>)"
    using cas pub leader(3) m(3) topo(4) b(2)
    by (simp add: quiet_leader(2) [OF leader(1-3)] failover_commit_def CompareAndSaveTopologyAndMigrateSessionsForLeader_def Let_def)
  have "failoverMap R J T E ?ev m a c ?en =
      Some (None, c, \<lparr>out_store = s', out_nodes = AList.update addr (put_map m (RestoreCheckpoint now cp w) n) ns\<rparr>)"
    using topo(1-3) m(2) sb cp(1-5) cfg(3) call commit
    by (simp add: quiet_leader(1) [OF leader(1-3)] failoverMap_def failover_promote_def get_or_def Let_def)
  moreover have "RequireMapFence R J Delivered m b (e + 1) s' = None"
    using f m b topo(7) by (simp add: RequireMapFence_None keeps get_or_def)
  ultimately show ?thesis using w f by (auto simp: keeps)
qed

text \<open>C7: in a quiet cluster a failover gets done: the leader under the current term, a stored topology that gives the map
  to the failed node, a stored checkpoint of that node under the map's epoch, and a healthy standby with a fresh
  view are enough. The smallest eligible node is chosen; it ends up with the world rebuilt from the checkpoint,
  which has crossed the wire; the store has the next topology, the fence admits the new owner under the next
  epoch, and the sessions of the map have moved.\<close>

theorem failover_succeeds:
  assumes R: "redis_server R J" and T: "timestamps T valid_time"
    and leader: "elector_IsLeader (co_elector c)" "elector_Term (co_elector c) = lt" "lt \<noteq> 0" "durable_term R J s = int (unat lt)"
    and topo: "LoadTopology R J Delivered s = Inr (Some t)" "map_of (tp_Owners t) m = Some a" "map_of (tp_MapEpochs t) m = Some e"
      "a \<noteq> []" "distinct (keys (tp_MapEpochs t))" "tp_Version t + 1 \<noteq> 0" "e + 1 \<noteq> 0" "unat (tp_LeaderTerm t) \<le> unat lt" "\<not> IsZero now"
    and standby: "GetActiveNodes R J Delivered (\<lambda>_. False) now s = (rs, None)" "b \<in> eligible m a c rs" "\<forall>x \<in> eligible m a c rs. b \<le> x"
      "\<not> bad_id b" "healthyNode b c = Some \<lparr>gc_id = b, gc_addr = addr\<rparr>" "map_of ns addr = Some n" "ns_ID n = b"
      "RequirePromotionCandidate now m (e + 1) n = None"
    and cp: "LoadCheckpoint R J Delivered m s = Some cp" "c_MapID cp = m" "c_NodeID cp = a" "c_MapEpoch cp = e" "0 < c_Version cp"
      "valid_time (c_Checkpoint cp)" "fits_checkpoint cp"
    and cfg: "cfg \<in> set AvailableMaps" "cfg_ID cfg = m" "mapConfig m c = Some cfg" "fair_dice (se_dice (E addr) m)"
    and sess: "session_updates J \<lparr>sm_MapID = m, sm_OldNodeID = a, sm_NewNodeID = b\<rparr> (HGETALL R ''global_sessions'' s) = Some us"
      "2 * length us \<le> unpack_max R"
  shows "\<exists>s' w. failoverMap R J T E (quiet_cio now) m a c \<lparr>out_store = s, out_nodes = ns\<rparr> =
      Some (None, c, \<lparr>out_store = s', out_nodes = AList.update addr (put_map m (RestoreCheckpoint now cp w) n) ns\<rparr>) \<and>
    NewWorld cfg (se_dice (E addr) m) = Some w \<and>
    stored_topology R J s' = Some (next_topology t m b (e + 1) lt now) \<and>
    RequireMapFence R J Delivered m b (e + 1) s' = None \<and>
    (\<forall>u. session_at R J s' u = map_option (migrate (Some \<lparr>sm_MapID = m, sm_OldNodeID = a, sm_NewNodeID = b\<rparr>)) (session_at R J s u))"
  by (rule failover_completes [where valid_time = valid_time and E = E, OF assms])

section \<open>A failover that runs\<close>

definition lost_checkpoint :: MapCheckpoint where
  "lost_checkpoint = demo_checkpoint\<lparr>c_MapEpoch := 1\<rparr>"

definition lost_store :: mem where
  "lost_store =
     \<lparr>m_keys = [(TopologyRedisKey, DTopology green_topo),
                (MapFenceRedisKey ''green'', DFence \<lparr>fn_MapID = ''green'', fn_Owner = ''n1'', fn_Epoch = 1\<rparr>),
                (CoordinatorLeaderTermRedisKey, DInt 1)],
      m_hashes = [(''checkpoints'', [(''green'', DCheckpoint lost_checkpoint)]),
                  (''global_sessions'', [(''ann'', DSession \<lparr>gl_Username = ''ann'', gl_MapID = ''green'', gl_NodeID = ''n1'', gl_Version = 1\<rparr>)])],
      m_timed = [(registry_prefix @ ''n2'', (DNode \<lparr>nr_ID = ''n2'', nr_Addr = ''h2:1'', nr_MapID = ''green'', nr_Draining = False\<rparr>, 100))],
      m_sent = []\<rparr>"

definition lead :: Coordinator where
  "lead = \<lparr>co_elector = EAlways NewAlwaysLeader, co_configs = [(''green'', buildGreenMap)],
           co_nodes = [(''n2'', \<lparr>cn_client = \<lparr>gc_id = ''n2'', gc_addr = ''h2:1''\<rparr>, cn_healthy = True\<rparr>)],
           co_connectingNodes = [], co_failureGenerations = [], co_failoverInFlight = [], co_started = True, co_closed = False,
           co_runtime = rc_Coordinator DefaultRuntime\<rparr>"

definition standby_node :: NodeService where
  "standby_node = (demo_node ''n2'' green_topo)\<lparr>ns_maps := [], ns_candidateMapID := ''green''\<rparr>"

abbreviation "lost_cluster \<equiv> \<lparr>out_store = lost_store, out_nodes = [(''h2:1'', standby_node)]\<rparr>"

abbreviation "lost_run \<equiv> failoverMap mr mem_json std_stamps (\<lambda>_. fair_process) (quiet_cio 6) ''green'' ''n1'' lead lost_cluster"

lemma lost_leader:
  "elector_IsLeader (co_elector lead)" "elector_Term (co_elector lead) = 1" "(1 :: u64) \<noteq> 0"
  "durable_term mr mem_json lost_store = int (unat (1 :: u64))"
  by (simp_all add: lead_def NewAlwaysLeader_def IsLeader_always_def Term_always_def)
    (simp add: durable_term_def num_at_def lost_store_def mem_defs key_defs MapFenceRedisKey_def)

lemma lost_topology:
  "LoadTopology mr mem_json Delivered lost_store = Inr (Some green_topo)"
  "map_of (tp_Owners green_topo) ''green'' = Some ''n1''" "map_of (tp_MapEpochs green_topo) ''green'' = Some 1"
  "''n1'' \<noteq> []" "distinct (keys (tp_MapEpochs green_topo))" "tp_Version green_topo + 1 \<noteq> 0" "(1 :: u64) + 1 \<noteq> 0"
  "unat (tp_LeaderTerm green_topo) \<le> unat (1 :: u64)" "\<not> IsZero 6"
proof -
  have "Validate None green_topo = None" by code_simp
  then show "LoadTopology mr mem_json Delivered lost_store = Inr (Some green_topo)"
    by (simp add: LoadTopology_def rpc_def lost_store_def mem_defs)
qed (simp_all add: green_topo_def IsZero_def zero_time_def)

abbreviation "lost_registry \<equiv> [\<lparr>nr_ID = ''n2'', nr_Addr = ''h2:1'', nr_MapID = ''green'', nr_Draining = False\<rparr>]"

lemma lost_standby:
  "GetActiveNodes mr mem_json Delivered (\<lambda>_. False) 6 lost_store = (lost_registry, None)"
  "eligible ''green'' ''n1'' lead lost_registry = {''n2''}" "\<not> bad_id ''n2''"
  "healthyNode ''n2'' lead = Some \<lparr>gc_id = ''n2'', gc_addr = ''h2:1''\<rparr>" "ns_ID standby_node = ''n2''"
  "RequirePromotionCandidate 6 ''green'' (1 + 1) standby_node = None"
proof -
  show "GetActiveNodes mr mem_json Delivered (\<lambda>_. False) 6 lost_store = (lost_registry, None)"
    by (simp add: GetActiveNodes_def rpc_def lost_store_def mem_defs mem_tget_def List.map_filter_def)
  show "eligible ''green'' ''n1'' lead lost_registry = {''n2''}" by (auto simp: eligible_def healthyNode_def lead_def)
  show "\<not> bad_id ''n2''" by code_simp
  show "healthyNode ''n2'' lead = Some \<lparr>gc_id = ''n2'', gc_addr = ''h2:1''\<rparr>" by (simp add: healthyNode_def lead_def)
  show "ns_ID standby_node = ''n2''" by (simp add: standby_node_def)
  show "RequirePromotionCandidate 6 ''green'' (1 + 1) standby_node = None"
    by (simp add: RequirePromotionCandidate_def RequirePromotionCandidate_cache_def standby_node_def demo_node_def NewNodeService_def
        freshLocked_def green_topo_def get_or_def IsZero_def zero_time_def second_def)
qed

lemma lost_saved:
  "LoadCheckpoint mr mem_json Delivered ''green'' lost_store = Some lost_checkpoint"
  "c_MapID lost_checkpoint = ''green''" "c_NodeID lost_checkpoint = ''n1''" "c_MapEpoch lost_checkpoint = 1" "0 < c_Version lost_checkpoint"
  "0 \<le> c_Checkpoint lost_checkpoint \<and> c_Checkpoint lost_checkpoint < (253402300800 + unix_epoch) * second" "fits_checkpoint lost_checkpoint"
  by (simp_all add: LoadCheckpoint_def rpc_def lost_store_def mem_defs HGET_def mem_hash_def get_or_def)
    (simp_all add: lost_checkpoint_def demo_checkpoint_def zero_MapCheckpoint_def zero_PlayerView_def fits_checkpoint_def fits_player_def
      in32_def second_def unix_epoch_def)

lemma lost_config:
  "buildGreenMap \<in> set AvailableMaps" "cfg_ID buildGreenMap = ''green''" "mapConfig ''green'' lead = Some buildGreenMap"
  "fair_dice (se_dice fair_process ''green'')"
  using fair_half by (simp_all add: AvailableMaps_def map_ids mapConfig_def lead_def fair_process_def)

lemma lost_sessions:
  "\<exists>us. session_updates mem_json \<lparr>sm_MapID = ''green'', sm_OldNodeID = ''n1'', sm_NewNodeID = ''n2''\<rparr>
     (HGETALL mr ''global_sessions'' lost_store) = Some us \<and> 2 * length us \<le> unpack_max mr"
  by (simp add: lost_store_def mem_defs mem_hash_def get_or_def moves_session_def)

lemma run_result:
  "\<exists>s' w. X = Some (None, c, \<lparr>out_store = s', out_nodes = g w\<rparr>) \<and> N w \<and> P s' \<and> F s' \<and> Q s' \<Longrightarrow>
   \<exists>en'. X = Some (None, c, en') \<and> F (out_store en')"
  by force

theorem failover_succeeds_witness:
  "\<exists>en'. lost_run = Some (None, lead, en') \<and> RequireMapFence mr mem_json Delivered ''green'' ''n2'' (1 + 1) (out_store en') = None"
proof -
  obtain us where us: "session_updates mem_json \<lparr>sm_MapID = ''green'', sm_OldNodeID = ''n1'', sm_NewNodeID = ''n2''\<rparr>
     (HGETALL mr ''global_sessions'' lost_store) = Some us" "2 * length us \<le> unpack_max mr" using lost_sessions by blast
  have st: "''n2'' \<in> eligible ''green'' ''n1'' lead lost_registry" "\<forall>x \<in> eligible ''green'' ''n1'' lead lost_registry. ''n2'' \<le> x"
    "map_of [(''h2:1'', standby_node)] ''h2:1'' = Some standby_node" by (simp_all add: lost_standby(2))
  show ?thesis
    by (rule run_result [OF failover_succeeds [where E = "\<lambda>_. fair_process", OF mem.redis_server_axioms std.timestamps_axioms lost_leader lost_topology
        lost_standby(1) st(1,2) lost_standby(3,4) st(3) lost_standby(5,6) lost_saved lost_config us]])
qed

lemma lost_completes: "\<exists>en'. lost_run = Some (None, lead, en')"
proof -
  obtain us where us: "session_updates mem_json \<lparr>sm_MapID = ''green'', sm_OldNodeID = ''n1'', sm_NewNodeID = ''n2''\<rparr>
     (HGETALL mr ''global_sessions'' lost_store) = Some us" "2 * length us \<le> unpack_max mr" using lost_sessions by blast
  have st: "''n2'' \<in> eligible ''green'' ''n1'' lead lost_registry" "\<forall>x \<in> eligible ''green'' ''n1'' lead lost_registry. ''n2'' \<le> x"
    "map_of [(''h2:1'', standby_node)] ''h2:1'' = Some standby_node" by (simp_all add: lost_standby(2))
  show ?thesis
    using run_result [OF failover_completes [where E = "\<lambda>_. fair_process", OF mem.redis_server_axioms std.timestamps_axioms lost_leader lost_topology
        lost_standby(1) st(1,2) lost_standby(3,4) st(3) lost_standby(5,6) lost_saved lost_config us]]
    by blast
qed

lemma lost_inv: "store_inv mr mem_json lost_store"
proof -
  have "Validate None green_topo = None" by code_simp
  moreover have "fences_match mr mem_json green_topo lost_store"
    by (auto simp: fences_match_def stored_fence_def lost_store_def mem_defs green_topo_def get_or_def key_defs MapFenceRedisKey_def
        split: if_splits)
  ultimately show ?thesis by (simp add: store_inv_def lost_store_def mem_defs)
qed


end
