(* ===== verification/Control_Props.thy ===== *)
theory Control_Props
  imports Failover_Live
begin

text \<open>
  The other duties of the control plane: the life of the boss, the first topology, and what heartbeats and
  discovery do and do not notice.
\<close>

section \<open>The boss\<close>

definition boss_state :: "('s, 'd) redis \<Rightarrow> 'd json \<Rightarrow> 's \<Rightarrow> (int \<times> BossState) option" where
  "boss_state R J s =
     (case (GET R boss_hp_key s, GET R boss_state_key s) of
        (Some h, Some d) \<Rightarrow> (case (dec_int J h, dec_boss J d) of (Some hp, Some st) \<Rightarrow> Some (hp, st) | _ \<Rightarrow> None)
      | _ \<Rightarrow> None)"

lemma boss_stateD:
  "boss_state R J s = Some (hp, st) \<Longrightarrow>
   \<exists>h d. GET R boss_hp_key s = Some h \<and> dec_int J h = Some hp \<and> GET R boss_state_key s = Some d \<and> dec_boss J d = Some st"
  by (auto simp: boss_state_def split: option.splits)

lemma load_boss:
  assumes "boss_state R J s = Some (hp, st)"
  shows "LoadGlobalBoss R J n1 n2 s = Inr x \<Longrightarrow> x = (st, hp)" "LoadGlobalBoss R J n1 n2 s \<noteq> Inl ErrBossNotInitialized"
    "- (2 ^ 31) \<le> hp \<Longrightarrow> hp < 2 ^ 31 \<Longrightarrow> LoadGlobalBoss R J Delivered Delivered s = Inr (st, hp)"
proof -
  obtain h d where g: "GET R boss_hp_key s = Some h" "dec_int J h = Some hp" "GET R boss_state_key s = Some d" "dec_boss J d = Some st"
    using boss_stateD [OF assms] by blast
  show "LoadGlobalBoss R J n1 n2 s = Inr x \<Longrightarrow> x = (st, hp)" "LoadGlobalBoss R J n1 n2 s \<noteq> Inl ErrBossNotInitialized"
    using g by (auto simp: LoadGlobalBoss_def rpc_def split: net.splits if_splits)
  show "- (2 ^ 31) \<le> hp \<Longrightarrow> hp < 2 ^ 31 \<Longrightarrow> LoadGlobalBoss R J Delivered Delivered s = Inr (st, hp)"
    using g by (simp add: LoadGlobalBoss_def rpc_def)
qed

text \<open>
  What nodes and coordinators do to the boss after the killing blow has been dealt, as long as the node that
  dealt it does not record it: attacks, and the rounds of coordinators.
\<close>

definition undisturbed :: "'s cio \<Rightarrow> bool" where
  "undisturbed ev \<longleftrightarrow> (\<forall>k x. ev_others ev k x = x)"

inductive boss_round :: "('s, 'd) redis \<Rightarrow> 'd json \<Rightarrow> 's \<Rightarrow> 's \<Rightarrow> bool" for R J where
  attack: "boss_round R J s (snd (AtomicAttackBoss R J n u d s))"
| restore: "undisturbed ev \<Longrightarrow>
    boss_round R J s (out_store (snd (restoreBossIfDue R J fmt ev c \<lparr>out_store = s, out_nodes = ns\<rparr>)))"
| ensure: "undisturbed ev \<Longrightarrow>
    boss_round R J s (out_store (snd (snd (ensureBoss R J ev c \<lparr>out_store = s, out_nodes = ns\<rparr>))))"

lemma stuck_restore:
  assumes "boss_state R J s = Some (hp, st)" "b_Alive st" "undisturbed ev"
  shows "snd (restoreBossIfDue R J fmt ev c \<lparr>out_store = s, out_nodes = ns\<rparr>) = \<lparr>out_store = s, out_nodes = ns\<rparr>"
proof -
  have nd: "\<not> boss_due t st" for t using assms(2) by (simp add: boss_due_def)
  show ?thesis
  proof (cases "LoadGlobalBoss R J (ev_net ev 0) (ev_net ev 1) s")
    case (Inr x)
    then show ?thesis using load_boss(1) [OF assms(1) Inr] nd assms(3)
      by (simp add: restoreBossIfDue_def undisturbed_def case_prod_beta)
  qed (use assms(3) in \<open>simp add: restoreBossIfDue_def undisturbed_def case_prod_beta\<close>)
qed

lemma stuck_ensure:
  assumes "boss_state R J s = Some (hp, st)" "undisturbed ev"
  shows "snd (snd (ensureBoss R J ev c \<lparr>out_store = s, out_nodes = ns\<rparr>)) = \<lparr>out_store = s, out_nodes = ns\<rparr>"
  using load_boss(2) [OF assms(1), of "ev_net ev 0" "ev_net ev 1"] assms(2)
  by (auto simp: ensureBoss_def undisturbed_def case_prod_beta Let_def split: sum.split)

lemma spent_attack:
  assumes "boss_state R J s = Some (hp, st)" "hp \<le> 0"
  shows "snd (AtomicAttackBoss R J n u d s) = s" "\<forall>v k x. fst (AtomicAttackBoss R J n u d s) = Inr (v, k, x) \<longrightarrow> \<not> k"
proof -
  obtain h b where g: "GET R boss_hp_key s = Some h" "dec_int J h = Some hp" "GET R boss_state_key s = Some b"
    using boss_stateD [OF assms(1)] by blast
  then have scr: "attackBoss_script R J d s = (BossDown (Some b), s)" using assms(2) by (simp add: attackBoss_script_def)
  show "snd (AtomicAttackBoss R J n u d s) = s" "\<forall>v k x. fst (AtomicAttackBoss R J n u d s) = Inr (v, k, x) \<longrightarrow> \<not> k"
    using scr by (cases n; simp add: AtomicAttackBoss_def rpc_def)+
qed

lemma stuck_forever:
  assumes "(boss_round R J)\<^sup>*\<^sup>* s s'" "boss_state R J s = Some (hp, st)" "hp \<le> 0" "b_Alive st"
  shows "s' = s"
  using assms(1)
proof (induction rule: rtranclp_induct)
  case (step y z)
  from step(2) show ?case unfolding step(3)
    by (cases rule: boss_round.cases) (simp_all add: spent_attack(1) [OF assms(2,3)] stuck_restore [OF assms(2,4)] stuck_ensure [OF assms(2)])
qed simp

context redis_server
begin

lemma killing_blow:
  assumes "boss_state R J s = Some (hp, st)" "0 < hp" "hp \<le> d" "n \<noteq> ReqLost"
  shows "boss_state R J (snd (AtomicAttackBoss R J n u d s)) = Some (0, st)"
proof -
  obtain h b where g: "GET R boss_hp_key s = Some h" "dec_int J h = Some hp" "GET R boss_state_key s = Some b" "dec_boss J b = Some st"
    using boss_stateD [OF assms(1)] by blast
  then have n: "num_at R J boss_hp_key s = hp" by (simp add: num_at_def)
  have k: "boss_state_key \<noteq> boss_hp_key" by (simp add: boss_state_key_def boss_hp_key_def)
  have scr: "snd (attackBoss_script R J d s) = SET R boss_hp_key (enc_int J 0) (snd (INCRBY R boss_hp_key (- d) s))"
    "fst (attackBoss_script R J d s) = BossHurt 0 True"
    using g assms(2,3) by (simp_all add: attackBoss_script_def case_prod_beta INCRBY_value n Let_def)
  then have "snd (AtomicAttackBoss R J n u d s) = SET R boss_hp_key (enc_int J 0) (snd (INCRBY R boss_hp_key (- d) s))"
    using assms(4) by (cases n) (simp_all add: AtomicAttackBoss_def rpc_def)
  then show ?thesis using g k by (simp add: boss_state_def GET_SET GET_INCRBY dec_enc_int)
qed

end

text \<open>C39: the killing blow and its record are two writes. If the node that dealt the blow does not get the second one
  through, whether it crashes, the write is lost, or already the reply to the blow is lost, the boss stays at
  zero points and marked alive for ever: no attack by anybody and no round of any coordinator changes that.\<close>

theorem unrecorded_kill_is_final:
  assumes "redis_server R J" "boss_state R J s = Some (hp, st)" "b_Alive st" "0 < hp" "hp \<le> d" "n \<noteq> ReqLost"
    and "(boss_round R J)\<^sup>*\<^sup>* (snd (AtomicAttackBoss R J n u d s)) s'"
  shows "boss_state R J s' = Some (0, st) \<and> (\<forall>n u d v k x. fst (AtomicAttackBoss R J n u d s') = Inr (v, k, x) \<longrightarrow> \<not> k)"
proof -
  have k: "boss_state R J (snd (AtomicAttackBoss R J n u d s)) = Some (0, st)"
    using redis_server.killing_blow [OF assms(1,2,4,5,6)] .
  then have "s' = snd (AtomicAttackBoss R J n u d s)" using stuck_forever [OF assms(7)] assms(3) by simp
  with k spent_attack(2) [OF k] show ?thesis by blast
qed

definition boss_store :: mem where
  "boss_store = mem_empty\<lparr>m_keys := [(boss_hp_key, DInt 100), (boss_state_key, DBoss (zero_BossState\<lparr>b_Alive := True\<rparr>))]\<rparr>"

theorem unrecorded_kill_is_final_witness:
  "boss_state mr mem_json (out_store (snd (restoreBossIfDue mr mem_json (\<lambda>x. x) (quiet_cio 99) lead
      \<lparr>out_store = snd (AtomicAttackBoss mr mem_json ReplyLost ''ann'' 120 boss_store), out_nodes = []\<rparr>)))
   = Some (0, zero_BossState\<lparr>b_Alive := True\<rparr>)"
proof -
  have "undisturbed (quiet_cio 99)" by (simp add: undisturbed_def)
  then have round: "(boss_round mr mem_json)\<^sup>*\<^sup>* (snd (AtomicAttackBoss mr mem_json ReplyLost ''ann'' 120 boss_store))
      (out_store (snd (restoreBossIfDue mr mem_json (\<lambda>x. x) (quiet_cio 99) lead
         \<lparr>out_store = snd (AtomicAttackBoss mr mem_json ReplyLost ''ann'' 120 boss_store), out_nodes = []\<rparr>)))"
    by (intro r_into_rtranclp boss_round.restore)
  have "boss_state mr mem_json boss_store = Some (100, zero_BossState\<lparr>b_Alive := True\<rparr>)"
    by (simp add: boss_state_def boss_store_def mem_defs boss_hp_key_def boss_state_key_def)
  from unrecorded_kill_is_final [OF mem.redis_server_axioms this _ _ _ _ round] show ?thesis by simp
qed

text \<open>
  A kill that is recorded is undone in time: the leader that finds the boss dead, its time come and the lock free
  brings it back with full points and the next version.
\<close>

theorem recorded_kill_is_undone:
  assumes R: "redis_server R J" and leader: "elector_IsLeader (co_elector c)" "elector_Term (co_elector c) \<noteq> 0"
    and boss: "boss_state R J s = Some (hp, st)" "\<not> b_Alive st" "b_RespawnAt st \<le> now" "hp \<le> 0" "- (2 ^ 31) \<le> hp"
    and free: "TGET R now boss_lock_key s = None"
  shows "boss_state R J (out_store (snd (restoreBossIfDue R J fmt (quiet_cio now) c \<lparr>out_store = s, out_nodes = ns\<rparr>))) =
    Some (defaultBossHP, st\<lparr>b_Alive := True, b_LastHit := [], b_RespawnAt := zero_time, b_Version := b_Version st + 1\<rparr>)"
proof -
  have t: "elector_Term (co_elector c) > 0" using leader(2) by (simp add: word_gt_0)
  have due: "boss_due now st" using boss(2,3) by (simp add: boss_due_def)
  obtain s1 where lock: "TryLockBossRespawn R J Delivered now s = (True, s1)" "s1 = TSET R now boss_lock_key (enc_text J ''1'') (10 * second) s"
    using free by (simp add: TryLockBossRespawn_def rpc_def)
  have "boss_state R J s1 = boss_state R J s"
    by (simp add: lock(2) boss_state_def redis_server.GET_TSET [OF R])
  then have load: "LoadGlobalBoss R J Delivered Delivered s = Inr (st, hp)" "LoadGlobalBoss R J Delivered Delivered s1 = Inr (st, hp)"
    using load_boss(3) [of R J _ hp st] boss by simp_all
  have k: "boss_state_key \<noteq> boss_hp_key" by (simp add: boss_state_key_def boss_hp_key_def)
  show ?thesis using boss(4) t leader(1) due lock(1) load k
    by (simp add: restoreBossIfDue_def currentLeaderTerm_def Let_def InitGlobalBoss_def PublishEvent_def rpc_def boss_state_def
        redis_server.get_rules [OF R] redis_server.dec_enc [OF R])
qed

section \<open>What heartbeats miss\<close>

text \<open>A node the coordinator is not connected to, or has already found dead.\<close>

definition written_off :: "string \<Rightarrow> Coordinator \<Rightarrow> bool" where
  "written_off a c \<longleftrightarrow> (case map_of (co_nodes c) a of None \<Rightarrow> True | Some connection \<Rightarrow> \<not> cn_healthy connection)"

definition gone :: "'s cio \<Rightarrow> string \<Rightarrow> bool" where
  "gone ev addr \<longleftrightarrow> (\<forall>k x. map_of (out_nodes (ev_others ev k x)) addr = None)"

lemma health_of_written_off:
  assumes "written_off a c" "\<And>k c. written_off a c \<Longrightarrow> written_off a (ev_self ev k c)" "setNodeHealth ev k b h c = (start, c')"
    and "b = a \<Longrightarrow> \<not> h"
  shows "written_off a c' \<and> (b = a \<longrightarrow> \<not> start)"
proof -
  obtain r c1 where c1: "currentLeaderTerm ev k c = (r, c1)" by fastforce
  have "written_off a c1" using c1 assms(1,2) by (auto simp: currentLeaderTerm_def Let_def)
  then have "written_off a c1" "written_off a (ev_self ev (k + 2) c1)" using assms(2) by blast+
  then show ?thesis using assms(3,4) c1
    by (auto simp: setNodeHealth_def written_off_def case_prod_beta Let_def split: if_splits option.splits)
qed

lemma heartbeats_of_written_off:
  assumes "written_off a c" "\<And>k c. written_off a c \<Longrightarrow> written_off a (ev_self ev k c)"
    and "\<forall>x \<in> set cs. gc_id (cn_client x) = a \<longrightarrow> gone ev (gc_addr (cn_client x))"
    and "heartbeat_nodes ev k cs c en = (started, c', en')"
  shows "a \<notin> set started \<and> written_off a c'"
  using assms(1,3,4)
proof (induction cs arbitrary: k c en started c' en')
  case (Cons x cs)
  let ?en = "ev_others ev k en"
  obtain alive en1 where al: "(case call_node (Ping_client (ev_now ev k) (ev_net ev k)) (cn_client x) ?en of
      Some (Inr _, en) \<Rightarrow> (True, en) | Some (Inl _, en) \<Rightarrow> (False, en) | None \<Rightarrow> (False, ?en)) = (alive, en1)" by fastforce
  obtain start c1 where st: "setNodeHealth ev (3 * k) (gc_id (cn_client x)) alive c = (start, c1)" by fastforce
  obtain more c2 en2 where rest: "heartbeat_nodes ev (Suc k) cs c1 en1 = (more, c2, en2)" by (metis prod.collapse)
  have dead: "\<not> alive" if "gc_id (cn_client x) = a"
  proof -
    have "map_of (out_nodes ?en) (gc_addr (cn_client x)) = None" using Cons.prems(2) that by (simp add: gone_def)
    then show ?thesis using al by (simp add: call_node_def)
  qed
  note h = health_of_written_off [OF Cons.prems(1) assms(2) st dead]
  have "a \<notin> set more \<and> written_off a c2" using Cons.IH [OF _ _ rest] h Cons.prems(2) by simp
  then show ?case using Cons.prems(3) al st rest h by (auto simp: Let_def split: if_splits)
qed simp

text \<open>
  A failover is started on the change from healthy to unhealthy only. If it fails, or if a new leader takes over
  that has never been connected to the dead owner, no later heartbeat starts it again, and discovery starts it only
  for a node that is registered as draining: the maps of the dead node stay without an owner.
\<close>

theorem dead_owner_is_forgotten:
  assumes "written_off a c" "\<forall>k c. written_off a c \<longrightarrow> written_off a (ev_self ev k c)"
    and "\<forall>x \<in> set (map snd (co_nodes (ev_self ev 2 (snd (currentLeaderTerm ev 0 c))))). gc_id (cn_client x) = a \<longrightarrow> gone ev (gc_addr (cn_client x))"
  shows "a \<notin> set (fst (heartbeatOnce ev c en)) \<and> written_off a (fst (snd (heartbeatOnce ev c en))) \<and>
    (\<forall>infos. a \<notin> nr_ID ` {i \<in> set infos. nr_Draining i} \<longrightarrow> a \<notin> set (fst (reconcileDrainingNodes R J ev infos c en)))"
proof -
  obtain lt leader c1 where c1: "currentLeaderTerm ev 0 c = ((lt, leader), c1)" by (metis prod.collapse)
  have w: "written_off a c1" using c1 assms(1,2) by (auto simp: currentLeaderTerm_def Let_def)
  obtain started c2 en2 where hb: "heartbeat_nodes ev 1 (map snd (co_nodes (ev_self ev 2 c1))) (ev_self ev 2 c1) en = (started, c2, en2)" by (metis prod.collapse)
  have "a \<notin> set started \<and> written_off a c2"
    using heartbeats_of_written_off [OF _ _ _ hb] w assms(2,3) c1 by simp
  then have "a \<notin> set (fst (heartbeatOnce ev c en)) \<and> written_off a (fst (snd (heartbeatOnce ev c en)))"
    using c1 w hb by (simp add: heartbeatOnce_def)
  moreover have "a \<notin> set (fst (reconcileDrainingNodes R J ev infos c en))" if "a \<notin> nr_ID ` {i \<in> set infos. nr_Draining i}" for infos
    using that by (auto simp: reconcileDrainingNodes_def Let_def case_prod_beta split: sum.splits option.splits)
  ultimately show ?thesis by blast
qed

end
