(* ===== verification/Accounts.thy ===== *)
theory Accounts
  imports Protocol
begin

text \<open>
  The SQL half of \<open>storage/store.go\<close>: registration, login and the saved profiles. The database
  behind \<open>gorm\<close> is the record \<open>sql\<close> of the three operations the code uses on the table of users, and
  \<open>bcrypt\<close> and SHA-256 are the functions of \<open>hasher\<close>; both are arguments, and the locales
  \<open>users_table\<close> and \<open>password_hash\<close> say what the code relies on. A store without a database is \<open>None\<close>.
\<close>

record UserRecord =
  ur_Username :: string
  ur_PasswordHash :: string
  ur_LastMap :: string
  ur_LastNode :: string
  ur_X :: int
  ur_Y :: int
  ur_HP :: int
  ur_MaxHP :: int
  ur_Attack :: int
  ur_Potions :: int
  ur_Treasures :: int
  ur_Kills :: int
  ur_Deaths :: int
  ur_Victories :: int
  ur_Alive :: bool

definition toDBUser :: "UserProfile \<Rightarrow> UserRecord" where
  "toDBUser p = \<lparr>ur_Username = u_Username p, ur_PasswordHash = u_PasswordHash p, ur_LastMap = u_LastMap p,
     ur_LastNode = u_LastNode p, ur_X = u_X p, ur_Y = u_Y p, ur_HP = u_HP p, ur_MaxHP = u_MaxHP p,
     ur_Attack = u_Attack p, ur_Potions = u_Potions p, ur_Treasures = u_Treasures p, ur_Kills = u_Kills p,
     ur_Deaths = u_Deaths p, ur_Victories = u_Victories p, ur_Alive = u_Alive p\<rparr>"

definition fromDBUser :: "UserRecord \<Rightarrow> UserProfile" where
  "fromDBUser u = \<lparr>u_Username = ur_Username u, u_PasswordHash = ur_PasswordHash u, u_LastMap = ur_LastMap u,
     u_LastNode = ur_LastNode u, u_X = ur_X u, u_Y = ur_Y u, u_HP = ur_HP u, u_MaxHP = ur_MaxHP u,
     u_Attack = ur_Attack u, u_Potions = ur_Potions u, u_Treasures = ur_Treasures u, u_Kills = ur_Kills u,
     u_Deaths = ur_Deaths u, u_Victories = ur_Victories u, u_Alive = ur_Alive u\<rparr>"

text \<open>
  \<open>SELECT\<close> is \<open>Where(username).First\<close>, \<open>INSERT\<close> is \<open>Create\<close> (\<open>None\<close> on a duplicate primary key), and
  \<open>SAVE\<close> is \<open>Save\<close>, whose first argument says that \<open>PasswordHash\<close> is omitted.
\<close>

record 't sql =
  SELECT :: "string \<Rightarrow> 't \<Rightarrow> UserRecord option"
  INSERT :: "UserRecord \<Rightarrow> 't \<Rightarrow> 't option"
  SAVE :: "bool \<Rightarrow> UserRecord \<Rightarrow> 't \<Rightarrow> 't"

record hasher =
  GenerateFromPassword :: "string \<Rightarrow> string option"
  CompareHashAndPassword :: "string \<Rightarrow> string \<Rightarrow> bool"
  sha256_hex :: "string \<Rightarrow> string"

datatype account_error =
    EmptyCredentials | ErrDatabaseUnavailable | UserExists string | HashFailed | ErrSQL
  | UserNotFound string | WrongPassword

definition hashPassword :: "hasher \<Rightarrow> string \<Rightarrow> string option" where
  "hashPassword H password = GenerateFromPassword H password"

definition verifyPassword :: "hasher \<Rightarrow> string \<Rightarrow> string \<Rightarrow> bool" where
  "verifyPassword H hash password =
     (if take 2 hash = ''$2'' then CompareHashAndPassword H hash password
      else hash = sha256_hex H password)"

definition new_profile :: "string \<Rightarrow> string \<Rightarrow> UserProfile" where
  "new_profile username hashed =
     zero_UserProfile\<lparr>u_Username := username, u_PasswordHash := hashed, u_LastMap := ''green'', u_X := 4, u_Y := 4,
       u_HP := InitHP, u_MaxHP := InitHP, u_Attack := InitAttack, u_Potions := MaxPotions, u_Alive := True\<rparr>"

text \<open>
  \<open>down1\<close> and \<open>down2\<close> say that the database does not answer the count and the insert; the error of
  the count is not looked at, the count stays zero.
\<close>

definition Register ::
    "'t sql \<Rightarrow> hasher \<Rightarrow> bool \<Rightarrow> bool \<Rightarrow> string \<Rightarrow> string \<Rightarrow> 't option \<Rightarrow> account_error option \<times> 't option" where
  "Register Q H down1 down2 username password db =
     (if username = [] \<or> password = [] then (Some EmptyCredentials, db)
      else case db of
             None \<Rightarrow> (Some ErrDatabaseUnavailable, db)
           | Some t \<Rightarrow>
               if \<not> down1 \<and> SELECT Q username t \<noteq> None then (Some (UserExists username), db)
               else case hashPassword H password of
                      None \<Rightarrow> (Some HashFailed, db)
                    | Some hashed \<Rightarrow>
                        if down2 then (Some ErrSQL, db)
                        else case INSERT Q (toDBUser (new_profile username hashed)) t of
                               None \<Rightarrow> (Some ErrSQL, db)
                             | Some t' \<Rightarrow> (None, Some t'))"

definition Authenticate ::
    "'t sql \<Rightarrow> hasher \<Rightarrow> bool \<Rightarrow> string \<Rightarrow> string \<Rightarrow> 't option \<Rightarrow> account_error + UserProfile" where
  "Authenticate Q H down username password db =
     (if username = [] \<or> password = [] then Inl EmptyCredentials
      else case db of
             None \<Rightarrow> Inl ErrDatabaseUnavailable
           | Some t \<Rightarrow>
               if down then Inl ErrSQL
               else case SELECT Q username t of
                      None \<Rightarrow> Inl (UserNotFound username)
                    | Some user \<Rightarrow>
                        if \<not> verifyPassword H (ur_PasswordHash user) password then Inl WrongPassword
                        else Inr (fromDBUser user))"

definition LoadProfile :: "'t sql \<Rightarrow> bool \<Rightarrow> string \<Rightarrow> 't option \<Rightarrow> account_error + UserProfile" where
  "LoadProfile Q down username db =
     (case db of
        None \<Rightarrow> Inl ErrDatabaseUnavailable
      | Some t \<Rightarrow>
          if down then Inl ErrSQL
          else case SELECT Q username t of
                 None \<Rightarrow> Inl (UserNotFound username)
               | Some user \<Rightarrow> Inr (fromDBUser user))"

definition SaveProfile ::
    "'t sql \<Rightarrow> bool \<Rightarrow> UserProfile \<Rightarrow> 't option \<Rightarrow> account_error option \<times> 't option" where
  "SaveProfile Q down profile db =
     (case db of
        None \<Rightarrow> (Some ErrDatabaseUnavailable, db)
      | Some t \<Rightarrow>
          if down then (Some ErrSQL, db)
          else (None, Some (SAVE Q (u_PasswordHash profile = []) (toDBUser profile) t)))"

section \<open>What the code relies on\<close>

locale users_table =
  fixes Q :: "'t sql"
  assumes insert_new: "SELECT Q (ur_Username u) t = None \<longleftrightarrow> INSERT Q u t \<noteq> None"
    and select_insert: "INSERT Q u t = Some t' \<Longrightarrow>
      SELECT Q k t' = (if k = ur_Username u then Some u else SELECT Q k t)"
    and select_save: "ur_Username u \<noteq> [] \<Longrightarrow> SELECT Q k (SAVE Q omit u t) =
      (if k = ur_Username u
       then Some (if omit then u\<lparr>ur_PasswordHash := (case SELECT Q k t of None \<Rightarrow> [] | Some old \<Rightarrow> ur_PasswordHash old)\<rparr> else u)
       else SELECT Q k t)"
    and save_nameless: "ur_Username u = [] \<Longrightarrow> k \<noteq> [] \<Longrightarrow> SELECT Q k (SAVE Q omit u t) = SELECT Q k t"

locale password_hash =
  fixes H :: hasher
  assumes bcrypt_prefix: "GenerateFromPassword H pw = Some h \<Longrightarrow> take 2 h = ''$2''"
    and bcrypt_match: "GenerateFromPassword H pw = Some h \<Longrightarrow> CompareHashAndPassword H h pw"

text \<open>Every account is still there with the hash of its password; rows without a name are nobody's account.\<close>

definition hashes_kept :: "'t sql \<Rightarrow> 't option \<Rightarrow> 't option \<Rightarrow> bool" where
  "hashes_kept Q db db' \<longleftrightarrow>
     (\<forall>t k u. db = Some t \<and> k \<noteq> [] \<and> SELECT Q k t = Some u \<longrightarrow>
        (\<exists>t' u'. db' = Some t' \<and> SELECT Q k t' = Some u' \<and> ur_PasswordHash u' = ur_PasswordHash u))"

lemma hashes_kept_refl [simp]: "hashes_kept Q db db"
  by (simp add: hashes_kept_def)

lemma hashes_kept_trans: "hashes_kept Q db db' \<Longrightarrow> hashes_kept Q db' db'' \<Longrightarrow> hashes_kept Q db db''"
  unfolding hashes_kept_def by metis

lemma hashes_kept_login:
  assumes "hashes_kept Q db db'" "Authenticate Q H False u pw db = Inr p"
  shows "\<exists>p'. Authenticate Q H False u pw db' = Inr p' \<and> u_PasswordHash p' = u_PasswordHash p"
proof -
  obtain t user where t: "u \<noteq> []" "pw \<noteq> []" "db = Some t" "SELECT Q u t = Some user" "verifyPassword H (ur_PasswordHash user) pw"
      "p = fromDBUser user"
    using assms(2) by (auto simp: Authenticate_def split: if_splits option.splits)
  then obtain t' user' where "db' = Some t'" "SELECT Q u t' = Some user'" "ur_PasswordHash user' = ur_PasswordHash user"
    using assms(1) unfolding hashes_kept_def by blast
  with t show ?thesis by (simp add: Authenticate_def fromDBUser_def)
qed

locale accounts = users_table Q + password_hash H for Q :: "'t sql" and H
begin

lemma register_then_login:
  assumes "Register Q H d1 d2 u pw (Some t) = (None, db')"
  shows "Authenticate Q H False u pw db' = Inr (new_profile u (the (GenerateFromPassword H pw)))"
proof -
  obtain h t' where h: "u \<noteq> []" "pw \<noteq> []" "GenerateFromPassword H pw = Some h"
    "INSERT Q (toDBUser (new_profile u h)) t = Some t'" "db' = Some t'"
    using assms by (force simp: Register_def hashPassword_def split: if_splits option.splits)
  have "SELECT Q u t' = Some (toDBUser (new_profile u h))"
    using select_insert [OF h(4)] by (simp add: toDBUser_def new_profile_def)
  then show ?thesis
    using h bcrypt_prefix [OF h(3)] bcrypt_match [OF h(3)]
    by (simp add: Authenticate_def verifyPassword_def toDBUser_def fromDBUser_def new_profile_def)
qed

lemma save_keeps_password:
  assumes "Authenticate Q H False u pw (Some t) = Inr p0" "u_Username p = u" "u_PasswordHash p = []"
    "SaveProfile Q False p (Some t) = (None, db')"
  shows "Authenticate Q H False u pw db' = Inr (p\<lparr>u_PasswordHash := u_PasswordHash p0\<rparr>)"
proof -
  obtain old where old: "u \<noteq> []" "pw \<noteq> []" "SELECT Q u t = Some old" "verifyPassword H (ur_PasswordHash old) pw"
    "p0 = fromDBUser old"
    using assms(1) by (auto simp: Authenticate_def split: if_splits option.splits)
  have db: "db' = Some (SAVE Q True (toDBUser p) t)" using assms(3,4) by (simp add: SaveProfile_def)
  have "SELECT Q u (SAVE Q True (toDBUser p) t) = Some ((toDBUser p)\<lparr>ur_PasswordHash := ur_PasswordHash old\<rparr>)"
    using select_save [of "toDBUser p" u True t] assms(2) old by (simp add: toDBUser_def)
  then show ?thesis
    using old db by (simp add: Authenticate_def toDBUser_def fromDBUser_def)
qed

lemma save_keeps_hashes: "u_PasswordHash p = [] \<Longrightarrow> hashes_kept Q db (snd (SaveProfile Q down p db))"
  by (cases "u_Username p = []")
    (auto simp: hashes_kept_def SaveProfile_def toDBUser_def select_save save_nameless split: option.split)

lemma register_keeps_hashes: "hashes_kept Q db (snd (Register Q H d1 d2 u pw db))"
proof -
  have "hashes_kept Q (Some t) (Some t')" if "INSERT Q (toDBUser (new_profile u h)) t = Some t'" for t t' h
    using that select_insert [OF that] insert_new [of "toDBUser (new_profile u h)" t] by (auto simp: hashes_kept_def)
  then show ?thesis by (auto simp: Register_def split: option.split)
qed

end

section \<open>A table in memory\<close>

definition mem_sql :: "(string, UserRecord) alist sql" where
  "mem_sql =
     \<lparr>SELECT = (\<lambda>k t. map_of t k),
      INSERT = (\<lambda>u t. if map_of t (ur_Username u) = None then Some (AList.update (ur_Username u) u t) else None),
      SAVE = (\<lambda>omit u t. AList.update (ur_Username u)
                 (if omit then u\<lparr>ur_PasswordHash := (case map_of t (ur_Username u) of None \<Rightarrow> [] | Some old \<Rightarrow> ur_PasswordHash old)\<rparr>
                  else u) t)\<rparr>"

definition plain_hash :: hasher where
  "plain_hash = \<lparr>GenerateFromPassword = (\<lambda>pw. Some (''$2'' @ pw)), CompareHashAndPassword = (\<lambda>h pw. h = ''$2'' @ pw),
                 sha256_hex = (\<lambda>pw. pw)\<rparr>"

interpretation mem_accounts: accounts mem_sql plain_hash
  by unfold_locales (auto simp: mem_sql_def plain_hash_def split: if_splits)

text \<open>After a successful registration the login with the same credentials succeeds and returns the
  profile of a new player.\<close>

theorem register_then_authenticate:
  assumes "accounts Q H" "Register Q H d1 d2 u pw (Some t) = (None, db')"
  shows "\<exists>h. Authenticate Q H False u pw db' = Inr (new_profile u h)"
  using accounts.register_then_login [OF assms] by blast

theorem register_then_authenticate_witness:
  "\<exists>h. Authenticate mem_sql plain_hash False ''ann'' ''pw''
       (snd (Register mem_sql plain_hash False False ''ann'' ''pw'' (Some []))) = Inr (new_profile ''ann'' h)"
proof -
  have "fst (Register mem_sql plain_hash False False ''ann'' ''pw'' (Some [])) = None" by code_simp
  then show ?thesis using register_then_authenticate [OF mem_accounts.accounts_axioms] by (metis prod.collapse)
qed

text \<open>Saving a profile without a password hash, which is how every running world saves its players,
  keeps the password: who could log in before can log in afterwards and gets the saved values.\<close>

theorem save_profile_keeps_password:
  assumes "accounts Q H" "Authenticate Q H False u pw (Some t) = Inr p0" "u_Username p = u" "u_PasswordHash p = []"
  shows "Authenticate Q H False u pw (snd (SaveProfile Q False p (Some t))) = Inr (p\<lparr>u_PasswordHash := u_PasswordHash p0\<rparr>)"
  using accounts.save_keeps_password [OF assms] by (simp add: SaveProfile_def)

theorem save_profile_keeps_password_witness:
  "\<exists>p. Authenticate mem_sql plain_hash False ''ann'' ''pw''
      (snd (SaveProfile mem_sql False (zero_UserProfile\<lparr>u_Username := ''ann'', u_HP := 7\<rparr>)
         (Some [(''ann'', toDBUser (new_profile ''ann'' ''$2pw''))]))) = Inr p \<and> u_HP p = 7"
proof -
  have "Authenticate mem_sql plain_hash False ''ann'' ''pw'' (Some [(''ann'', toDBUser (new_profile ''ann'' ''$2pw''))])
      = Inr (new_profile ''ann'' ''$2pw'')"
    by code_simp
  from save_profile_keeps_password [OF mem_accounts.accounts_axioms this, of "zero_UserProfile\<lparr>u_Username := ''ann'', u_HP := 7\<rparr>"]
  show ?thesis by (simp add: zero_UserProfile_def)
qed

end
