(* ===== verification/Gateway_Routing.thy ===== *)
theory Gateway_Routing
  imports Node_RPC Accounts
begin

text \<open>
  The routing half of a gateway (\<open>cluster/topology_cache.go\<close>, \<open>cluster/routing.go\<close>): the cached topology and the pool of
  clients, one per owner of a map. The gateway is the record \<open>Cluster\<close>, shared between its goroutines;
  behind it is a \<open>backend\<close>: the store, the node processes and the database of accounts.

  \<^item> An operation takes a \<open>gio\<close>: before its \<open>k\<close>-th access to the backend others act (\<open>ev_others k\<close>), before its
    \<open>k\<close>-th section under a lock the other goroutines of the gateway do (\<open>gv_self k\<close>); \<open>ev_net k\<close> is what the
    network does, \<open>gv_down k\<close> says that the database does not answer, \<open>gv_node k\<close> is the \<open>io\<close> of the node
    that is called.
  \<^item> \<open>say\<close> renders the texts of the gateway, one value of \<open>gateway_text\<close> per format string.
  \<^item> \<open>dial\<close> says which clients can be created.
\<close>

record MapCacheData =
  mc_View :: "MapView option"
  mc_Brief :: MapBrief

record Cluster =
  cl_nodes :: "(string, NodeGRPCClient) alist"
  cl_nodeAddrs :: "(string, string) alist"
  cl_nodeTargets :: "(string, string) alist"
  cl_closed :: bool
  cl_owners :: "(string, string) alist"
  cl_topology :: Topology
  cl_topologyLoaded :: bool
  cl_configs :: "(string, MapConfig) alist"
  cl_mapCache :: "(string, MapCacheData) alist"
  cl_runtime :: GatewayConfig
  cl_bossCache :: BossState
  cl_bossHpCache :: int
  cl_globalEvents :: "string list"
  cl_mapEvents :: "(string, string list) alist"
  cl_userEvents :: "(string, string list) alist"
  cl_localSessions :: "(string, GlobalSession) alist"

record ('s, 't) backend = "'s outside" +
  out_db :: "'t option"

record ('s, 't) gio = "('s, 't) backend io" +
  gv_self :: "nat \<Rightarrow> Cluster \<Rightarrow> Cluster"
  gv_lost :: "nat \<Rightarrow> string \<Rightarrow> bool"
  gv_down :: "nat \<Rightarrow> bool"
  gv_node :: "nat \<Rightarrow> 's io"

datatype gateway_text =
    TManaged | TNotReady | TStatus u64 | TNodeLine string bool "string list"
  | TWelcome string | THosted string string | TSwitched string | TEvent event

datatype gateway_error =
    GStoreNil | GFactoryNil | GConfirmMissing | GConfirmDiffers | GAccount account_error
  | GOnline string | GNotOnline string | GNotReady string | GRejected | GNode grpc_error | GRolledBack grpc_error
  | GNotFound | GDown | GNotConfirmed | GStore store_error | GTopology topology_error | GSyncing

section \<open>Construction\<close>

definition newCluster :: "bool \<Rightarrow> bool \<Rightarrow> GatewayConfig \<Rightarrow> gateway_error + Cluster" where
  "newCluster store nodeFactory runtime =
     (if \<not> store then Inl GStoreNil
      else if \<not> nodeFactory then Inl GFactoryNil
      else Inr \<lparr>cl_nodes = [], cl_nodeAddrs = [], cl_nodeTargets = [], cl_closed = False, cl_owners = [],
                cl_topology = zero_Topology, cl_topologyLoaded = False,
                cl_configs = fold (\<lambda>cfg. AList.update (cfg_ID cfg) cfg) AvailableMaps [],
                cl_mapCache = [], cl_runtime = runtime, cl_bossCache = zero_BossState, cl_bossHpCache = 0,
                cl_globalEvents = [], cl_mapEvents = [], cl_userEvents = [], cl_localSessions = []\<rparr>)"

text \<open>Closing returns the clients that are closed.\<close>

definition Close_cluster :: "Cluster \<Rightarrow> NodeGRPCClient list \<times> Cluster" where
  "Close_cluster c =
     (if cl_closed c then ([], c)
      else (map snd (cl_nodes c), c\<lparr>cl_closed := True, cl_nodes := [], cl_nodeAddrs := [], cl_nodeTargets := []\<rparr>))"

section \<open>The cached topology\<close>

definition applyTopologyLocked :: "Topology \<Rightarrow> Cluster \<Rightarrow> (topology_error + bool) \<times> Cluster" where
  "applyTopologyLocked topology c =
     (case Validate (Some (keys (cl_configs c))) topology of
        Some e \<Rightarrow> (Inl e, c)
      | None \<Rightarrow>
          if cl_topologyLoaded c \<and> tp_Version topology \<le> tp_Version (cl_topology c) then (Inr False, c)
          else (Inr True, c\<lparr>cl_topology := Clone topology, cl_topologyLoaded := True, cl_owners := tp_Owners topology, cl_mapCache := []\<rparr>))"

section \<open>The pool of clients\<close>

definition gatewayOwnerTargets :: "Topology \<Rightarrow> NodeRegistryInfo list \<Rightarrow> (string, string) alist" where
  "gatewayOwnerTargets topology registrations =
     fold (\<lambda>registration targets.
         if \<not> (nr_ID registration \<noteq> [] \<and> nr_ID registration \<in> set (map snd (tp_Owners topology))) then targets
         else if nr_Draining registration then targets
         else if bad_id (nr_Addr registration) then targets
         else if has_key targets (nr_ID registration) then targets
         else AList.update (nr_ID registration) (nr_Addr registration) targets)
       registrations []"

definition gatewayNodeStillWantedLocked :: "string \<Rightarrow> string \<Rightarrow> Cluster \<Rightarrow> bool" where
  "gatewayNodeStillWantedLocked nodeID addr c \<longleftrightarrow> cl_topologyLoaded c \<and> get_or [] (cl_nodeTargets c) nodeID = addr"

text \<open>The first locked section: what is obsolete goes, what is missing is returned.\<close>

definition drop_unwanted :: "(string, string) alist \<Rightarrow> string \<Rightarrow> Cluster \<Rightarrow> Cluster" where
  "drop_unwanted targets nodeID c =
     (if map_of targets nodeID = None \<or> get_or [] (cl_nodeAddrs c) nodeID \<noteq> get_or [] targets nodeID
      then c\<lparr>cl_nodes := AList.delete nodeID (cl_nodes c), cl_nodeAddrs := AList.delete nodeID (cl_nodeAddrs c)\<rparr>
      else c)"

definition keep_wanted :: "(string, string) alist \<Rightarrow> Cluster \<Rightarrow> Cluster" where
  "keep_wanted targets c = fold (drop_unwanted targets) (keys (cl_nodes c)) c"

definition reconcile_targets :: "Topology \<Rightarrow> (string, string) alist \<Rightarrow> Cluster \<Rightarrow> (string, string) alist \<times> Cluster" where
  "reconcile_targets topology targets c =
     (if cl_closed c \<or> \<not> cl_topologyLoaded c \<or> tp_Version (cl_topology c) \<noteq> tp_Version topology then ([], c)
      else let c = keep_wanted targets (c\<lparr>cl_nodeTargets := targets\<rparr>)
           in (filter (\<lambda>(nodeID, _). \<not> has_key (cl_nodes c) nodeID) targets, c))"

text \<open>The second one, for each client that has been created.\<close>

definition add_client :: "string \<Rightarrow> string \<Rightarrow> Cluster \<Rightarrow> Cluster" where
  "add_client nodeID addr c =
     (if cl_closed c \<or> \<not> gatewayNodeStillWantedLocked nodeID addr c then c
      else if has_key (cl_nodes c) nodeID then c
      else c\<lparr>cl_nodes := AList.update nodeID \<lparr>gc_id = nodeID, gc_addr = addr\<rparr> (cl_nodes c),
             cl_nodeAddrs := AList.update nodeID addr (cl_nodeAddrs c)\<rparr>)"

fun connect_pending ::
    "(string \<Rightarrow> string \<Rightarrow> bool) \<Rightarrow> (nat \<Rightarrow> Cluster \<Rightarrow> Cluster) \<Rightarrow> nat \<Rightarrow> (string, string) alist \<Rightarrow> Cluster \<Rightarrow> Cluster" where
  "connect_pending dial self k [] c = c"
| "connect_pending dial self k ((nodeID, addr) # pending) c =
     (if \<not> dial nodeID addr then connect_pending dial self (Suc k) pending c
      else connect_pending dial self (Suc k) pending (add_client nodeID addr (self k c)))"

definition reconcileGatewayNodes ::
    "('s, 'd) redis \<Rightarrow> 'd json \<Rightarrow> (string \<Rightarrow> string \<Rightarrow> bool) \<Rightarrow> ('s, 't) gio \<Rightarrow> Topology \<Rightarrow> Cluster \<Rightarrow> ('s, 't) backend
     \<Rightarrow> store_error option \<times> Cluster \<times> ('s, 't) backend" where
  "reconcileGatewayNodes R J dial ev topology c en =
     (let en = ev_others ev 1 en
      in case GetActiveNodes R J (ev_net ev 1) (gv_lost ev 1) (ev_now ev 1) (out_store en) of
           (_, Some e) \<Rightarrow> (Some e, c, en)
         | (activeNodes, None) \<Rightarrow>
             let (pending, c) = reconcile_targets topology (gatewayOwnerTargets topology activeNodes) (gv_self ev 1 c)
             in (None, connect_pending dial (gv_self ev) 2 pending c, en))"

definition loadTopology ::
    "('s, 'd) redis \<Rightarrow> 'd json \<Rightarrow> (string \<Rightarrow> string \<Rightarrow> bool) \<Rightarrow> ('s, 't) gio \<Rightarrow> Cluster \<Rightarrow> ('s, 't) backend
     \<Rightarrow> (gateway_error + bool) \<times> Cluster \<times> ('s, 't) backend" where
  "loadTopology R J dial ev c en =
     (let en = ev_others ev 0 en
      in case LoadTopology R J (ev_net ev 0) (out_store en) of
           Inl e \<Rightarrow> (Inl (GStore e), c, en)
         | Inr None \<Rightarrow> (Inr False, c, en)
         | Inr (Some topology) \<Rightarrow>
             (case applyTopologyLocked topology (gv_self ev 0 c) of
                (Inl e, c) \<Rightarrow> (Inl (GTopology e), c, en)
              | (Inr updated, c) \<Rightarrow>
                  let (_, c, en) = reconcileGatewayNodes R J dial ev (Clone (cl_topology c)) c en
                  in (Inr updated, c, en)))"

section \<open>What the gateway shows of its routes\<close>

definition add_owner_view :: "(gateway_text \<Rightarrow> string) \<Rightarrow> Cluster \<Rightarrow> string \<times> string \<Rightarrow> (string, NodeView) alist \<Rightarrow> (string, NodeView) alist" where
  "add_owner_view say c owner viewsByID =
     (let (mapID, nodeID) = owner; view = get_or zero_NodeView viewsByID nodeID
      in if nodeID = [] then viewsByID
         else AList.update nodeID
                (view\<lparr>no_ID := nodeID, no_Addr := get_or [] (cl_nodeAddrs c) nodeID, no_Healthy := has_key (cl_nodes c) nodeID,
                      no_LastHeartbeat := say TManaged, no_PrimaryMaps := no_PrimaryMaps view @ [mapID]\<rparr>) viewsByID)"

definition gatewayNodeViewsLocked :: "(gateway_text \<Rightarrow> string) \<Rightarrow> Cluster \<Rightarrow> NodeView list" where
  "gatewayNodeViewsLocked say c =
     (let viewsByID = fold (add_owner_view say c) (tp_Owners (cl_topology c)) []
      in map (\<lambda>nodeID. let view = get_or zero_NodeView viewsByID nodeID in view\<lparr>no_PrimaryMaps := sort (no_PrimaryMaps view)\<rparr>)
           (sort (keys viewsByID)))"

fun join_lines :: "string list \<Rightarrow> string" where
  "join_lines [] = []"
| "join_lines [l] = l"
| "join_lines (l # ls) = l @ [CHR 0x0A] @ join_lines ls"

definition GatewayStatus_of :: "(gateway_text \<Rightarrow> string) \<Rightarrow> Cluster \<Rightarrow> GatewayStatus" where
  "GatewayStatus_of say c =
     (if \<not> cl_topologyLoaded c
      then \<lparr>gs_Summary = say TNotReady, gs_RoutingReady = False, gs_TopologyVersion = tp_Version (cl_topology c), gs_Nodes = []\<rparr>
      else
        let nodes = gatewayNodeViewsLocked say c
        in \<lparr>gs_Summary = join_lines (say (TStatus (tp_Version (cl_topology c))) #
               map (\<lambda>view. say (TNodeLine (no_ID view) (no_Healthy view) (no_PrimaryMaps view))) nodes),
            gs_RoutingReady = True, gs_TopologyVersion = tp_Version (cl_topology c), gs_Nodes = nodes\<rparr>)"

end
