(* ===== verification/Wire_Gateway.thy ===== *)
theory Wire_Gateway
  imports Wire
begin

text \<open>
  The protobuf mappers of the gateway boundary (\<open>transport/gateway/mapper.go\<close>): what a client sees
  of the world. The package repeats the mappers of the node boundary for the views both send; the
  definitions here are translated from the gateway's own copy (prefix \<open>gw_\<close>), and the two are shown
  to agree.
\<close>

section \<open>Messages\<close>

record pb_MapBrief =
  pb_mb_Id :: string
  pb_mb_Name :: string
  pb_mb_NodeId :: string
  pb_mb_Players :: i32
  pb_mb_Npcs :: i32
  pb_mb_Treasures :: i32
  pb_mb_Version :: int
  pb_mb_Primary :: bool
  pb_mb_IsCurrent :: bool
  pb_mb_Checkpoint :: int

record pb_BossSite =
  pb_bs_MapId :: string
  pb_bs_X :: i32
  pb_bs_Y :: i32

record pb_BossView =
  pb_bv_Name :: string
  pb_bv_Hp :: i32
  pb_bv_MaxHp :: i32
  pb_bv_Alive :: bool
  pb_bv_LastHit :: string
  pb_bv_RespawnIn :: i32
  pb_bv_AttackGap :: i32
  pb_bv_Sites :: "pb_BossSite option list"
  pb_bv_Version :: int

record pb_WorldState =
  pb_ws_Self :: "pb_PlayerView option"
  pb_ws_Map :: "pb_MapView option"
  pb_ws_Maps :: "pb_MapBrief option list"
  pb_ws_Nodes :: "pb_NodeView option list"
  pb_ws_Boss :: "pb_BossView option"
  pb_ws_Events :: "string list"
  pb_ws_SessionVersion :: int
  pb_ws_TopologyVersion :: u64
  pb_ws_MapEpoch :: u64

definition zero_MapBrief :: MapBrief where
  "zero_MapBrief = \<lparr>mb_ID = [], mb_Name = [], mb_NodeID = [], mb_Players = 0, mb_NPCs = 0, mb_Treasures = 0,
     mb_Version = 0, mb_Primary = False, mb_IsCurrent = False, mb_Checkpoint = 0\<rparr>"

definition zero_BossSite :: BossSite where
  "zero_BossSite = \<lparr>bs_MapID = [], bs_X = 0, bs_Y = 0\<rparr>"

section \<open>Mappers\<close>

definition gw_ToPlayerView :: "PlayerView \<Rightarrow> pb_PlayerView" where
  "gw_ToPlayerView p =
     \<lparr>pp_Username = pv_Username p, pp_MapId = pv_MapID p, pp_X = to32 (pv_X p),
      pp_Y = to32 (pv_Y p), pp_Hp = to32 (pv_HP p), pp_MaxHp = to32 (pv_MaxHP p),
      pp_Attack = to32 (pv_Attack p), pp_Potions = to32 (pv_Potions p),
      pp_Treasures = to32 (pv_Treasures p), pp_Kills = to32 (pv_Kills p),
      pp_Deaths = to32 (pv_Deaths p), pp_Victories = to32 (pv_Victories p), pp_Alive = pv_Alive p,
      pp_RespawnIn = to32 (pv_RespawnIn p), pp_LastUpdate = pv_LastUpdate p\<rparr>"

definition gw_FromPlayerView :: "pb_PlayerView option \<Rightarrow> PlayerView" where
  "gw_FromPlayerView q =
     (case q of
        None \<Rightarrow> zero_PlayerView
      | Some m \<Rightarrow>
          \<lparr>pv_Username = pp_Username m, pv_MapID = pp_MapId m, pv_X = sint (pp_X m),
           pv_Y = sint (pp_Y m), pv_HP = sint (pp_Hp m), pv_MaxHP = sint (pp_MaxHp m),
           pv_Attack = sint (pp_Attack m), pv_Potions = sint (pp_Potions m),
           pv_Treasures = sint (pp_Treasures m), pv_Kills = sint (pp_Kills m),
           pv_Deaths = sint (pp_Deaths m), pv_Victories = sint (pp_Victories m), pv_Alive = pp_Alive m,
           pv_RespawnIn = sint (pp_RespawnIn m), pv_LastUpdate = pp_LastUpdate m\<rparr>)"

definition gw_ToNPCView :: "NPCView \<Rightarrow> pb_NPCView" where
  "gw_ToNPCView n =
     \<lparr>pn_Id = nv_ID n, pn_Name = nv_Name n, pn_X = to32 (nv_X n), pn_Y = to32 (nv_Y n),
      pn_Hp = to32 (nv_HP n), pn_MaxHp = to32 (nv_MaxHP n), pn_Attack = to32 (nv_Attack n),
      pn_Alive = nv_Alive n\<rparr>"

definition gw_FromNPCView :: "pb_NPCView option \<Rightarrow> NPCView" where
  "gw_FromNPCView q =
     (case q of
        None \<Rightarrow> zero_NPCView
      | Some m \<Rightarrow>
          \<lparr>nv_ID = pn_Id m, nv_Name = pn_Name m, nv_X = sint (pn_X m), nv_Y = sint (pn_Y m),
           nv_HP = sint (pn_Hp m), nv_MaxHP = sint (pn_MaxHp m), nv_Attack = sint (pn_Attack m),
           nv_Alive = pn_Alive m\<rparr>)"

definition gw_ToTreasureView :: "TreasureView \<Rightarrow> pb_TreasureView" where
  "gw_ToTreasureView t =
     \<lparr>pt_Id = tv_ID t, pt_Kind = tv_Kind t, pt_X = to32 (tv_X t), pt_Y = to32 (tv_Y t),
      pt_Value = to32 (tv_Value t)\<rparr>"

definition gw_FromTreasureView :: "pb_TreasureView option \<Rightarrow> TreasureView" where
  "gw_FromTreasureView q =
     (case q of
        None \<Rightarrow> zero_TreasureView
      | Some m \<Rightarrow>
          \<lparr>tv_ID = pt_Id m, tv_Kind = pt_Kind m, tv_X = sint (pt_X m), tv_Y = sint (pt_Y m),
           tv_Value = sint (pt_Value m)\<rparr>)"

definition gw_ToMapBrief :: "MapBrief \<Rightarrow> pb_MapBrief" where
  "gw_ToMapBrief b =
     \<lparr>pb_mb_Id = mb_ID b, pb_mb_Name = mb_Name b, pb_mb_NodeId = mb_NodeID b,
      pb_mb_Players = to32 (mb_Players b), pb_mb_Npcs = to32 (mb_NPCs b),
      pb_mb_Treasures = to32 (mb_Treasures b), pb_mb_Version = mb_Version b,
      pb_mb_Primary = mb_Primary b, pb_mb_IsCurrent = mb_IsCurrent b,
      pb_mb_Checkpoint = mb_Checkpoint b\<rparr>"

definition gw_FromMapBrief :: "pb_MapBrief option \<Rightarrow> MapBrief" where
  "gw_FromMapBrief q =
     (case q of
        None \<Rightarrow> zero_MapBrief
      | Some m \<Rightarrow>
          \<lparr>mb_ID = pb_mb_Id m, mb_Name = pb_mb_Name m, mb_NodeID = pb_mb_NodeId m,
           mb_Players = sint (pb_mb_Players m), mb_NPCs = sint (pb_mb_Npcs m),
           mb_Treasures = sint (pb_mb_Treasures m), mb_Version = pb_mb_Version m,
           mb_Primary = pb_mb_Primary m, mb_IsCurrent = pb_mb_IsCurrent m,
           mb_Checkpoint = pb_mb_Checkpoint m\<rparr>)"

definition gw_ToNodeView :: "NodeView \<Rightarrow> pb_NodeView" where
  "gw_ToNodeView v =
     \<lparr>pw_Id = no_ID v, pw_Addr = no_Addr v, pw_Healthy = no_Healthy v,
      pw_PrimaryMaps = no_PrimaryMaps v, pw_LastHeartbeat = no_LastHeartbeat v\<rparr>"

definition gw_FromNodeView :: "pb_NodeView option \<Rightarrow> NodeView" where
  "gw_FromNodeView q =
     (case q of
        None \<Rightarrow> zero_NodeView
      | Some m \<Rightarrow>
          \<lparr>no_ID = pw_Id m, no_Addr = pw_Addr m, no_Healthy = pw_Healthy m,
           no_PrimaryMaps = pw_PrimaryMaps m, no_LastHeartbeat = pw_LastHeartbeat m\<rparr>)"

definition gw_ToMapView :: "MapView \<Rightarrow> pb_MapView" where
  "gw_ToMapView v =
     \<lparr>pm_Id = mv_ID v, pm_Name = mv_Name v, pm_NodeId = mv_NodeID v, pm_Width = to32 (mv_Width v),
      pm_Height = to32 (mv_Height v), pm_Terrain = mv_Terrain v,
      pm_Players = map (\<lambda>p. Some (gw_ToPlayerView p)) (mv_Players v),
      pm_Npcs = map (\<lambda>n. Some (gw_ToNPCView n)) (mv_NPCs v),
      pm_Treasures = map (\<lambda>t. Some (gw_ToTreasureView t)) (mv_Treasures v), pm_Version = mv_Version v\<rparr>"

definition gw_FromMapView :: "pb_MapView option \<Rightarrow> MapView" where
  "gw_FromMapView q =
     (case q of
        None \<Rightarrow> zero_MapView
      | Some m \<Rightarrow>
          \<lparr>mv_ID = pm_Id m, mv_Name = pm_Name m, mv_NodeID = pm_NodeId m, mv_Width = sint (pm_Width m),
           mv_Height = sint (pm_Height m), mv_Terrain = pm_Terrain m,
           mv_Players = map gw_FromPlayerView (pm_Players m), mv_NPCs = map gw_FromNPCView (pm_Npcs m),
           mv_Treasures = map gw_FromTreasureView (pm_Treasures m), mv_Version = pm_Version m\<rparr>)"

definition ToBossSite :: "BossSite \<Rightarrow> pb_BossSite" where
  "ToBossSite s =
     \<lparr>pb_bs_MapId = bs_MapID s, pb_bs_X = to32 (bs_X s), pb_bs_Y = to32 (bs_Y s)\<rparr>"

definition FromBossSite :: "pb_BossSite option \<Rightarrow> BossSite" where
  "FromBossSite q =
     (case q of
        None \<Rightarrow> zero_BossSite
      | Some m \<Rightarrow>
          \<lparr>bs_MapID = pb_bs_MapId m, bs_X = sint (pb_bs_X m), bs_Y = sint (pb_bs_Y m)\<rparr>)"

definition ToBossView :: "BossView \<Rightarrow> pb_BossView" where
  "ToBossView v =
     \<lparr>pb_bv_Name = bv_Name v, pb_bv_Hp = to32 (bv_HP v), pb_bv_MaxHp = to32 (bv_MaxHP v), pb_bv_Alive = bv_Alive v,
      pb_bv_LastHit = bv_LastHit v, pb_bv_RespawnIn = to32 (bv_RespawnIn v), pb_bv_AttackGap = to32 (bv_AttackGap v),
      pb_bv_Sites = map (\<lambda>s. Some (ToBossSite s)) (bv_Sites v), pb_bv_Version = bv_Version v\<rparr>"

definition FromBossView :: "pb_BossView option \<Rightarrow> BossView" where
  "FromBossView q =
     (case q of
        None \<Rightarrow> zero_BossView
      | Some m \<Rightarrow>
          \<lparr>bv_Name = pb_bv_Name m, bv_HP = sint (pb_bv_Hp m), bv_MaxHP = sint (pb_bv_MaxHp m), bv_Alive = pb_bv_Alive m,
           bv_LastHit = pb_bv_LastHit m, bv_RespawnIn = sint (pb_bv_RespawnIn m), bv_AttackGap = sint (pb_bv_AttackGap m),
           bv_Sites = map FromBossSite (pb_bv_Sites m), bv_Version = pb_bv_Version m\<rparr>)"

definition ToWorldState :: "WorldState option \<Rightarrow> pb_WorldState option" where
  "ToWorldState st =
     (case st of
        None \<Rightarrow> None
      | Some w \<Rightarrow>
          Some \<lparr>pb_ws_Self = Some (gw_ToPlayerView (ws_Self w)), pb_ws_Map = Some (gw_ToMapView (ws_Map w)),
                pb_ws_Maps = map (\<lambda>b. Some (gw_ToMapBrief b)) (ws_Maps w),
                pb_ws_Nodes = map (\<lambda>v. Some (gw_ToNodeView v)) (ws_Nodes w),
                pb_ws_Boss = Some (ToBossView (ws_Boss w)), pb_ws_Events = ws_Events w,
                pb_ws_SessionVersion = ws_SessionVersion w, pb_ws_TopologyVersion = ws_TopologyVersion w,
                pb_ws_MapEpoch = ws_MapEpoch w\<rparr>)"

definition FromWorldState :: "pb_WorldState option \<Rightarrow> WorldState option" where
  "FromWorldState st =
     (case st of
        None \<Rightarrow> None
      | Some m \<Rightarrow>
          Some \<lparr>ws_Self = gw_FromPlayerView (pb_ws_Self m), ws_Map = gw_FromMapView (pb_ws_Map m),
                ws_Maps = map gw_FromMapBrief (pb_ws_Maps m), ws_Nodes = map gw_FromNodeView (pb_ws_Nodes m),
                ws_Boss = FromBossView (pb_ws_Boss m), ws_Events = pb_ws_Events m,
                ws_SessionVersion = pb_ws_SessionVersion m, ws_TopologyVersion = pb_ws_TopologyVersion m,
                ws_MapEpoch = pb_ws_MapEpoch m\<rparr>)"

section \<open>The two copies agree\<close>

lemma mappers_agree:
  "gw_ToPlayerView = ToPlayerView" "gw_FromPlayerView = FromPlayerView" "gw_ToNPCView = ToNPCView"
  "gw_FromNPCView = FromNPCView" "gw_ToTreasureView = ToTreasureView" "gw_FromTreasureView = FromTreasureView"
  "gw_ToNodeView = ToNodeView" "gw_FromNodeView = FromNodeView"
  by (simp_all add: fun_eq_iff gw_ToPlayerView_def ToPlayerView_def gw_FromPlayerView_def FromPlayerView_def
      gw_ToNPCView_def ToNPCView_def gw_FromNPCView_def FromNPCView_def gw_ToTreasureView_def ToTreasureView_def
      gw_FromTreasureView_def FromTreasureView_def gw_ToNodeView_def ToNodeView_def gw_FromNodeView_def FromNodeView_def)

lemma map_mappers_agree: "gw_ToMapView = ToMapView" "gw_FromMapView = FromMapView"
  by (rule ext, simp add: gw_ToMapView_def ToMapView_def gw_FromMapView_def FromMapView_def mappers_agree split: option.split)+

definition fits_brief :: "MapBrief \<Rightarrow> bool" where
  "fits_brief x \<longleftrightarrow> list_all in32 [mb_Players x, mb_NPCs x, mb_Treasures x]"

definition fits_site :: "BossSite \<Rightarrow> bool" where
  "fits_site x \<longleftrightarrow> list_all in32 [bs_X x, bs_Y x]"

definition fits_boss :: "BossView \<Rightarrow> bool" where
  "fits_boss b \<longleftrightarrow> list_all in32 [bv_HP b, bv_MaxHP b, bv_RespawnIn b, bv_AttackGap b] \<and> list_all fits_site (bv_Sites b)"

definition fits_state :: "WorldState \<Rightarrow> bool" where
  "fits_state w \<longleftrightarrow> fits_player (ws_Self w) \<and> fits_map (ws_Map w) \<and> list_all fits_brief (ws_Maps w) \<and> fits_boss (ws_Boss w)"

interpretation brief_codec: wire_codec gw_ToMapBrief gw_FromMapBrief fits_brief
  by unfold_locales (simp add: gw_ToMapBrief_def gw_FromMapBrief_def fits_brief_def wire_simps)

interpretation site_codec: wire_codec ToBossSite FromBossSite fits_site
  by unfold_locales (simp add: ToBossSite_def FromBossSite_def fits_site_def wire_simps)

interpretation boss_codec: wire_codec ToBossView FromBossView fits_boss
  by unfold_locales (simp add: ToBossView_def FromBossView_def fits_boss_def wire_simps site_codec.dec_enc_list del: map_map)

section \<open>Properties\<close>

text \<open>C34: the state a gateway sends is the state the client reads, as long as its numbers fit 32 bits: the
  player, the map with everything on it, the other maps, the nodes, the boss, the events and all versions.\<close>

theorem world_state_crosses_wire:
  assumes "fits_state w"
  shows "FromWorldState (ToWorldState (Some w)) = Some w"
  using assms node_codec.dec_enc_list [of "ws_Nodes w"]
  by (simp add: ToWorldState_def FromWorldState_def fits_state_def mappers_agree map_mappers_agree list_all_iff [of "\<lambda>_. True"]
      player_codec.dec_enc map_codec.dec_enc boss_codec.dec_enc brief_codec.dec_enc_list del: map_map)

theorem world_state_crosses_wire_witness:
  "FromWorldState (ToWorldState (Some (zero_WorldState\<lparr>ws_Events := [''hi''], ws_MapEpoch := 4\<rparr>)))
   = Some (zero_WorldState\<lparr>ws_Events := [''hi''], ws_MapEpoch := 4\<rparr>)"
  by (rule world_state_crosses_wire)
    (simp add: fits_state_def zero_WorldState_def zero_PlayerView_def zero_MapView_def zero_BossView_def fits_player_def
      fits_map_def fits_boss_def in32_def)

end
