(* ===== verification/Gateway.thy ===== *)
theory Gateway
  imports Gateway_Routing Wire_Gateway
begin

text \<open>
  The data plane of a gateway (\<open>cluster/cluster.go\<close>): sessions, the commands of players, the map switch with its
  compensation, the caches and the snapshot for a player. A result \<open>None\<close> is a call that has not
  returned, as in the node.

  \<^item> The \<open>k\<close> of an access is written where it happens; a section that holds the lock has one \<open>gv_self\<close>.
  \<^item> Time limits of calls are part of what the network does; log lines are left out.
\<close>

definition at_store :: "('s, 't) gio \<Rightarrow> nat \<Rightarrow> ('s \<Rightarrow> 's) \<Rightarrow> ('s, 't) backend \<Rightarrow> ('s, 't) backend" where
  "at_store ev k f en = (let en = ev_others ev k en in en\<lparr>out_store := f (out_store en)\<rparr>)"

definition event_text :: "(gateway_text \<Rightarrow> string) \<Rightarrow> event \<Rightarrow> string" where
  "event_text say e = (if e = NoText then [] else say (TEvent e))"

definition pushEvent :: "('s, 'd) redis \<Rightarrow> ('s, 't) gio \<Rightarrow> nat \<Rightarrow> string \<Rightarrow> string \<Rightarrow> ('s, 't) backend \<Rightarrow> ('s, 't) backend" where
  "pushEvent R ev k username event en =
     (if event = [] then en
      else at_store ev k (\<lambda>s. snd (PublishEvent R (ev_net ev k) (''events:user:'' @ username) event s)) en)"

definition broadcastGlobalEvent :: "('s, 'd) redis \<Rightarrow> ('s, 't) gio \<Rightarrow> nat \<Rightarrow> string \<Rightarrow> ('s, 't) backend \<Rightarrow> ('s, 't) backend" where
  "broadcastGlobalEvent R ev k event en =
     (if event = [] then en
      else at_store ev k (\<lambda>s. snd (PublishEvent R (ev_net ev k) ''events:global'' event s)) en)"

definition broadcastMapEvent :: "('s, 'd) redis \<Rightarrow> ('s, 't) gio \<Rightarrow> nat \<Rightarrow> string \<Rightarrow> string \<Rightarrow> ('s, 't) backend \<Rightarrow> ('s, 't) backend" where
  "broadcastMapEvent R ev k mapID event en =
     (if event = [] then en
      else at_store ev k (\<lambda>s. snd (PublishEvent R (ev_net ev k) (''events:map:'' @ mapID) event s)) en)"

section \<open>Routing of a session\<close>

definition route :: "string \<Rightarrow> Cluster \<Rightarrow> (string \<times> NodeGRPCClient \<times> u64) option" where
  "route mapID c =
     (let ownerID = get_or [] (cl_owners c) mapID; epoch = get_or 0 (tp_MapEpochs (cl_topology c)) mapID
      in case map_of (cl_nodes c) ownerID of
           None \<Rightarrow> None
         | Some node \<Rightarrow> if \<not> cl_topologyLoaded c \<or> ownerID = [] \<or> epoch = 0 then None else Some (ownerID, node, epoch))"

definition sessionNode ::
    "('s, 'd) redis \<Rightarrow> 'd json \<Rightarrow> ('s, 't) gio \<Rightarrow> nat \<Rightarrow> string \<Rightarrow> Cluster \<Rightarrow> ('s, 't) backend
     \<Rightarrow> (gateway_error + GlobalSession \<times> NodeGRPCClient \<times> u64) \<times> Cluster \<times> ('s, 't) backend" where
  "sessionNode R J ev k username c en =
     (let c = gv_self ev k c;
          (found, c, en) =
            (case map_of (cl_localSessions c) username of
               Some cached \<Rightarrow> (Some cached, c, en)
             | None \<Rightarrow>
                 let en = ev_others ev k en
                 in case LoadGlobalSession R J (ev_net ev k) username (out_store en) of
                      None \<Rightarrow> (None, c, en)
                    | Some loaded \<Rightarrow> (Some loaded, c\<lparr>cl_localSessions := AList.update username loaded (cl_localSessions c)\<rparr>, en))
      in case found of
           None \<Rightarrow> (Inl (GNotOnline username), c, en)
         | Some session \<Rightarrow>
             let c = gv_self ev (Suc k) c
             in case route (gl_MapID session) c of
                  None \<Rightarrow> (Inl (GNotReady (gl_MapID session)), c, en)
                | Some (ownerID, node, epoch) \<Rightarrow> (Inr (session\<lparr>gl_NodeID := ownerID\<rparr>, node, epoch), c, en))"

section \<open>The snapshot for a player\<close>

definition last_of :: "nat \<Rightarrow> 'a list \<Rightarrow> 'a list" where
  "last_of n xs = drop (length xs - n) xs"

definition player_events :: "string \<Rightarrow> string \<Rightarrow> Cluster \<Rightarrow> string list" where
  "player_events mapID username c =
     (let events = cl_globalEvents c @ get_or [] (cl_mapEvents c) mapID @ get_or [] (cl_userEvents c) username
      in if length events > 8 then last_of 8 events else events)"

definition boss_view :: "time \<Rightarrow> Cluster \<Rightarrow> BossView" where
  "boss_view now c =
     (let bState = cl_bossCache c; left = (b_RespawnAt bState - now) div second
      in \<lparr>bv_Name = b_Name bState, bv_HP = cl_bossHpCache c, bv_MaxHP = 1600, bv_Alive = b_Alive bState, bv_LastHit = b_LastHit bState,
          bv_RespawnIn = (if b_Alive bState then 0 else if left < 1 then 1 else left),
          bv_AttackGap = b_AttackGap bState, bv_Sites = b_Sites bState, bv_Version = b_Version bState\<rparr>)"

definition map_briefs :: "string \<Rightarrow> (string, MapConfig) alist \<Rightarrow> (string, MapCacheData) alist \<Rightarrow> MapBrief list" where
  "map_briefs current configs cache =
     (let briefs = fold (\<lambda>(_, k). AList.update (mb_ID (mc_Brief k)) (mc_Brief k)) cache []
      in List.map_filter (\<lambda>mapID. map_option (\<lambda>brief. brief\<lparr>mb_IsCurrent := mapID = current\<rparr>) (map_of briefs mapID)) (sort (keys configs)))"

definition self_view :: "string \<Rightarrow> PlayerView list \<Rightarrow> PlayerView" where
  "self_view username players = (case find (\<lambda>p. pv_Username p = username) players of None \<Rightarrow> zero_PlayerView | Some p \<Rightarrow> p)"

definition SnapshotFor ::
    "('s, 'd) redis \<Rightarrow> 'd json \<Rightarrow> (gateway_text \<Rightarrow> string) \<Rightarrow> ('s, 't) gio \<Rightarrow> nat \<Rightarrow> string \<Rightarrow> Cluster \<Rightarrow> ('s, 't) backend
     \<Rightarrow> (gateway_error + WorldState option) \<times> Cluster \<times> ('s, 't) backend" where
  "SnapshotFor R J say ev k username c en =
     (case sessionNode R J ev k username c en of
        (Inl e, c, en) \<Rightarrow> (Inl e, c, en)
      | (Inr (session, _, _), c, en) \<Rightarrow>
          let c = gv_self ev (k + 2) c; topologyVersion = tp_Version (cl_topology c);
              mapEpoch = get_or 0 (tp_MapEpochs (cl_topology c)) (gl_MapID session);
              c = gv_self ev (k + 3) c; events = player_events (gl_MapID session) username c;
              c = gv_self ev (k + 4) c; configs = cl_configs c; nodeViews = gatewayNodeViewsLocked say c;
              c = gv_self ev (k + 5) c; bossView = boss_view (ev_now ev k) c;
              c = gv_self ev (k + 6) c
          in (case Option.bind (map_of (cl_mapCache c) (gl_MapID session)) mc_View of
                Some mapView \<Rightarrow>
                  Inr (Some \<lparr>ws_Self = self_view username (mv_Players mapView), ws_Map = mapView,
                             ws_Maps = map_briefs (gl_MapID session) configs (cl_mapCache c), ws_Nodes = nodeViews, ws_Boss = bossView,
                             ws_Events = events, ws_SessionVersion = gl_Version session, ws_TopologyVersion = topologyVersion,
                             ws_MapEpoch = mapEpoch\<rparr>)
              | None \<Rightarrow> Inl GSyncing, c, en))"

section \<open>Accounts and sessions\<close>

definition Register_cluster ::
    "'t sql \<Rightarrow> hasher \<Rightarrow> ('s, 't) gio \<Rightarrow> string \<Rightarrow> string \<Rightarrow> string \<Rightarrow> ('s, 't) backend \<Rightarrow> gateway_error option \<times> ('s, 't) backend" where
  "Register_cluster Q H ev username password confirm en =
     (if confirm = [] then (Some GConfirmMissing, en)
      else if password \<noteq> confirm then (Some GConfirmDiffers, en)
      else let en = ev_others ev 0 en; (r, db) = Register Q H (gv_down ev 0) (gv_down ev 1) username password (out_db en)
           in (map_option GAccount r, en\<lparr>out_db := db\<rparr>))"

definition Login ::
    "('s, 'd) redis \<Rightarrow> 'd json \<Rightarrow> 't sql \<Rightarrow> hasher \<Rightarrow> (string \<Rightarrow> process) \<Rightarrow> (gateway_text \<Rightarrow> string) \<Rightarrow> ('s, 't) gio \<Rightarrow> string \<Rightarrow> string
     \<Rightarrow> Cluster \<Rightarrow> ('s, 't) backend \<Rightarrow> ((gateway_error + WorldState option) \<times> Cluster \<times> ('s, 't) backend) option" where
  "Login R J Q H E say ev username password c en =
     (let en = ev_others ev 2 en
      in case Authenticate Q H (gv_down ev 2) username password (out_db en) of
           Inl e \<Rightarrow> Some (Inl (GAccount e), c, en)
         | Inr profile \<Rightarrow>
             let c = gv_self ev 3 c; en = ev_others ev 3 en
             in if LoadGlobalSession R J (ev_net ev 3) username (out_store en) \<noteq> None then Some (Inl (GOnline username), c, en)
                else
                  let mapID = (if has_key (cl_configs c) (u_LastMap profile) then u_LastMap profile else DefaultMapID)
                  in case route mapID c of
                       None \<Rightarrow> Some (Inl (GNotReady mapID), c, en)
                     | Some (ownerID, owner, epoch) \<Rightarrow>
                         (case call_node (AddPlayer_client R J (E (gc_addr owner)) (gv_node ev 4) (ev_net ev 4) (gc_id owner) mapID epoch profile)
                                 owner (ev_others ev 4 en) of
                            None \<Rightarrow> None
                          | Some (Inl e, en) \<Rightarrow> Some (Inl (GNode e), c, en)
                          | Some (Inr _, en) \<Rightarrow>
                              let session = \<lparr>gl_Username = username, gl_MapID = mapID, gl_NodeID = ownerID, gl_Version = 1\<rparr>;
                                  c = gv_self ev 5 c;
                                  en = at_store ev 5 (\<lambda>s. snd (SaveGlobalSession R J (ev_net ev 5) session s)) en;
                                  c = c\<lparr>cl_localSessions := AList.update username session (cl_localSessions c)\<rparr>;
                                  en = at_store ev 6 (\<lambda>s. snd (PublishEvent R (ev_net ev 6) (''events:user:'' @ username) (say (TWelcome username)) s)) en;
                                  en = at_store ev 7 (\<lambda>s. snd (PublishEvent R (ev_net ev 7) (''events:user:'' @ username) (say (THosted mapID ownerID)) s)) en
                              in Some (SnapshotFor R J say ev 8 username c en)))"

definition QuickEnter ::
    "('s, 'd) redis \<Rightarrow> 'd json \<Rightarrow> 't sql \<Rightarrow> hasher \<Rightarrow> (string \<Rightarrow> process) \<Rightarrow> (gateway_text \<Rightarrow> string) \<Rightarrow> ('s, 't) gio \<Rightarrow> string \<Rightarrow> string
     \<Rightarrow> Cluster \<Rightarrow> ('s, 't) backend \<Rightarrow> ((gateway_error + WorldState option) \<times> Cluster \<times> ('s, 't) backend) option" where
  "QuickEnter R J Q H E say ev username password c en =
     (case Register_cluster Q H ev username password password en of
        (None, en) \<Rightarrow> Login R J Q H E say ev username password c en
      | (Some (GAccount (UserExists _)), en) \<Rightarrow> Login R J Q H E say ev username password c en
      | (Some e, en) \<Rightarrow> Some (Inl e, c, en))"

text \<open>Leaving: the node gives the profile back, which is saved; then the sessions go.\<close>

definition save_left ::
    "'t sql \<Rightarrow> ('s, 't) gio \<Rightarrow> nat \<Rightarrow> string \<Rightarrow> string \<Rightarrow> UserProfile \<Rightarrow> ('s, 't) backend \<Rightarrow> ('s, 't) backend" where
  "save_left Q ev k nodeID mapID profile en =
     (let en = ev_others ev k en
      in en\<lparr>out_db := snd (SaveProfile Q (gv_down ev k) (profile\<lparr>u_LastNode := nodeID, u_LastMap := mapID\<rparr>) (out_db en))\<rparr>)"

definition drop_session ::
    "('s, 'd) redis \<Rightarrow> ('s, 't) gio \<Rightarrow> string \<Rightarrow> Cluster \<Rightarrow> ('s, 't) backend \<Rightarrow> store_error option \<times> Cluster \<times> ('s, 't) backend" where
  "drop_session R ev username c en =
     (let en = at_store ev 3 (\<lambda>s. snd (DeleteGlobalSession R (ev_net ev 3) username s)) en;
          c = gv_self ev 3 c; c = c\<lparr>cl_localSessions := AList.delete username (cl_localSessions c)\<rparr>;
          en = ev_others ev 4 en; (r, s) = DeleteHotSession R (ev_net ev 4) username (out_store en)
      in (r, c, en\<lparr>out_store := s\<rparr>))"

definition Logout ::
    "('s, 'd) redis \<Rightarrow> 'd json \<Rightarrow> 't sql \<Rightarrow> ('s, 't) gio \<Rightarrow> string \<Rightarrow> Cluster \<Rightarrow> ('s, 't) backend
     \<Rightarrow> (store_error option \<times> Cluster \<times> ('s, 't) backend) option" where
  "Logout R J Q ev username c en =
     (let en = ev_others ev 0 en
      in case LoadGlobalSession R J (ev_net ev 0) username (out_store en) of
           None \<Rightarrow> Some (None, c, en)
         | Some session \<Rightarrow>
             let c = gv_self ev 0 c
             in case route (gl_MapID session) c of
                  None \<Rightarrow> Some (drop_session R ev username c en)
                | Some (ownerID, node, epoch) \<Rightarrow>
                    (case call_node (RemovePlayer_client R J (gv_node ev 1) (ev_net ev 1) (gc_id node) (gl_MapID session) username epoch)
                            node (ev_others ev 1 en) of
                       None \<Rightarrow> None
                     | Some (Inr (profile, True), en) \<Rightarrow>
                         Some (drop_session R ev username c (save_left Q ev 2 ownerID (gl_MapID session) profile en))
                     | Some (_, en) \<Rightarrow> Some (drop_session R ev username c en)))"

section \<open>Commands\<close>

text \<open>The part the commands share: the session is routed, the node is called, an error is passed on.\<close>

definition run_command ::
    "('s, 'd) redis \<Rightarrow> 'd json \<Rightarrow> ('s, 't) gio \<Rightarrow> string
     \<Rightarrow> (string \<Rightarrow> string \<Rightarrow> u64 \<Rightarrow> NodeService \<times> 's \<Rightarrow> ('s, 'r) reply)
     \<Rightarrow> (GlobalSession \<Rightarrow> 'r \<Rightarrow> Cluster \<Rightarrow> ('s, 't) backend \<Rightarrow> (gateway_error + WorldState option) \<times> Cluster \<times> ('s, 't) backend)
     \<Rightarrow> Cluster \<Rightarrow> ('s, 't) backend \<Rightarrow> ((gateway_error + WorldState option) \<times> Cluster \<times> ('s, 't) backend) option" where
  "run_command R J ev username call finish c en =
     (case sessionNode R J ev 0 username c en of
        (Inl e, c, en) \<Rightarrow> Some (Inl e, c, en)
      | (Inr (session, node, epoch), c, en) \<Rightarrow>
          (case call_node (call (gc_id node) (gl_MapID session) epoch) node (ev_others ev 2 en) of
             None \<Rightarrow> None
           | Some (Inl e, en) \<Rightarrow> Some (Inl (GNode e), c, en)
           | Some (Inr r, en) \<Rightarrow> Some (finish session r c en)))"

definition Move ::
    "('s, 'd) redis \<Rightarrow> 'd json \<Rightarrow> ('s, 't) gio \<Rightarrow> string \<Rightarrow> string \<Rightarrow> Cluster \<Rightarrow> ('s, 't) backend
     \<Rightarrow> ((gateway_error + WorldState option) \<times> Cluster \<times> ('s, 't) backend) option" where
  "Move R J ev username dir =
     run_command R J ev username
       (\<lambda>id' mapID epoch. MovePlayer_client R J (gv_node ev 2) (ev_net ev 2) id' mapID username dir epoch)
       (\<lambda>session (_, _, ok) c en. (if ok then Inr None else Inl GRejected, c, en))"

definition Attack_cluster ::
    "('s, 'd) redis \<Rightarrow> 'd json \<Rightarrow> (gateway_text \<Rightarrow> string) \<Rightarrow> ('s, 't) gio \<Rightarrow> string \<Rightarrow> Cluster \<Rightarrow> ('s, 't) backend
     \<Rightarrow> ((gateway_error + WorldState option) \<times> Cluster \<times> ('s, 't) backend) option" where
  "Attack_cluster R J say ev username =
     run_command R J ev username
       (\<lambda>id' mapID epoch. Attack_client R J (gv_node ev 2) (ev_net ev 2) id' mapID username epoch)
       (\<lambda>session (event, targetUsername, targetEvent, _, ok) c en.
          if \<not> ok then (Inl GRejected, c, en)
          else
            let en = pushEvent R ev 3 username (event_text say event) en;
                en = (if targetUsername \<noteq> [] \<and> event_text say targetEvent \<noteq> []
                      then pushEvent R ev 4 targetUsername (event_text say targetEvent) en else en)
            in SnapshotFor R J say ev 5 username c en)"

definition Heal_cluster ::
    "('s, 'd) redis \<Rightarrow> 'd json \<Rightarrow> (gateway_text \<Rightarrow> string) \<Rightarrow> ('s, 't) gio \<Rightarrow> string \<Rightarrow> Cluster \<Rightarrow> ('s, 't) backend
     \<Rightarrow> ((gateway_error + WorldState option) \<times> Cluster \<times> ('s, 't) backend) option" where
  "Heal_cluster R J say ev username =
     run_command R J ev username
       (\<lambda>id' mapID epoch. Heal_client R J (gv_node ev 2) (ev_net ev 2) id' mapID username epoch)
       (\<lambda>session (event, _, ok) c en.
          if \<not> ok then (Inl GRejected, c, en)
          else SnapshotFor R J say ev 5 username c (pushEvent R ev 3 username (event_text say event) en))"

definition BuyItem_cluster ::
    "('s, 'd) redis \<Rightarrow> 'd json \<Rightarrow> 't sql \<Rightarrow> (gateway_text \<Rightarrow> string) \<Rightarrow> ('s, 't) gio \<Rightarrow> string \<Rightarrow> string \<Rightarrow> Cluster \<Rightarrow> ('s, 't) backend
     \<Rightarrow> ((gateway_error + WorldState option) \<times> Cluster \<times> ('s, 't) backend) option" where
  "BuyItem_cluster R J Q say ev username item =
     run_command R J ev username
       (\<lambda>id' mapID epoch. BuyItem_client R J (gv_node ev 2) (ev_net ev 2) id' mapID username item epoch)
       (\<lambda>session (event, profile, ok) c en.
          if \<not> ok then (Inl GRejected, c, en)
          else
            let en = pushEvent R ev 3 username (event_text say event) en;
                en = save_left Q ev 4 (gl_NodeID session) (gl_MapID session) profile en
            in SnapshotFor R J say ev 5 username c en)"

definition AttackBoss_cluster ::
    "('s, 'd) redis \<Rightarrow> 'd json \<Rightarrow> (gateway_text \<Rightarrow> string) \<Rightarrow> ('s, 't) gio \<Rightarrow> string \<Rightarrow> Cluster \<Rightarrow> ('s, 't) backend
     \<Rightarrow> ((gateway_error + WorldState option) \<times> Cluster \<times> ('s, 't) backend) option" where
  "AttackBoss_cluster R J say ev username =
     run_command R J ev username
       (\<lambda>id' mapID epoch. AttackBoss_client R J (gv_node ev 2) (ev_net ev 2) id' mapID username epoch)
       (\<lambda>session (event, _, ok) c en.
          if \<not> ok then (Inr None, c, en)
          else SnapshotFor R J say ev 5 username c (broadcastGlobalEvent R ev 3 (event_text say event) en))"

section \<open>Switching maps\<close>

text \<open>What happens once the player has arrived: the session is moved, the profile saved.\<close>

definition settle_session ::
    "('s, 'd) redis \<Rightarrow> 'd json \<Rightarrow> (gateway_text \<Rightarrow> string) \<Rightarrow> ('s, 't) gio \<Rightarrow> string \<Rightarrow> string \<Rightarrow> string \<Rightarrow> Cluster \<Rightarrow> ('s, 't) backend
     \<Rightarrow> Cluster \<times> ('s, 't) backend" where
  "settle_session R J say ev username targetMap nodeID c en =
     (let c = gv_self ev 7 c; en = ev_others ev 7 en
      in case LoadGlobalSession R J (ev_net ev 7) username (out_store en) of
           None \<Rightarrow> (c, en)
         | Some session \<Rightarrow>
             let session = session\<lparr>gl_MapID := targetMap, gl_NodeID := nodeID, gl_Version := gl_Version session + 1\<rparr>;
                 en = at_store ev 8 (\<lambda>s. snd (SaveGlobalSession R J (ev_net ev 8) session s)) en;
                 c = c\<lparr>cl_localSessions := AList.update username session (cl_localSessions c)\<rparr>
             in (c, pushEvent R ev 9 (gl_Username session) (say (TSwitched targetMap)) en))"

definition switch_confirm ::
    "('s, 'd) redis \<Rightarrow> 'd json \<Rightarrow> 't sql \<Rightarrow> (gateway_text \<Rightarrow> string) \<Rightarrow> ('s, 't) gio \<Rightarrow> string \<Rightarrow> string \<Rightarrow> string \<times> NodeGRPCClient
     \<Rightarrow> Cluster \<Rightarrow> ('s, 't) backend \<Rightarrow> ((gateway_error + WorldState option) \<times> Cluster \<times> ('s, 't) backend) option" where
  "switch_confirm R J Q say ev username targetMap dst c en =
     (case call_node (Profile_client (ev_now ev 6) (ev_net ev 6) targetMap username) (snd dst) (ev_others ev 6 en) of
        None \<Rightarrow> None
      | Some (Inr (profile, True), en) \<Rightarrow>
          let (c, en) = settle_session R J say ev username targetMap (gc_id (snd dst)) c en;
              en = save_left Q ev 10 (fst dst) targetMap profile en
          in Some (SnapshotFor R J say ev 11 username c en)
      | Some (_, en) \<Rightarrow> Some (Inl GNotConfirmed, c, en))"

text \<open>The second half of the transfer, with the profile in hand, and its compensation; then the whole transfer.\<close>

definition switch_arrive ::
    "('s, 'd) redis \<Rightarrow> 'd json \<Rightarrow> 't sql \<Rightarrow> (string \<Rightarrow> process) \<Rightarrow> (gateway_text \<Rightarrow> string) \<Rightarrow> ('s, 't) gio \<Rightarrow> string \<Rightarrow> string
     \<Rightarrow> string \<times> NodeGRPCClient \<times> u64 \<Rightarrow> string \<times> NodeGRPCClient \<times> u64 \<Rightarrow> UserProfile
     \<Rightarrow> Cluster \<Rightarrow> ('s, 't) backend \<Rightarrow> ((gateway_error + WorldState option) \<times> Cluster \<times> ('s, 't) backend) option" where
  "switch_arrive R J Q E say ev username targetMap src dst profile c en =
     (let (srcMap, srcNode, srcEpoch) = src; (dstNodeID, dstNode, dstEpoch) = dst
      in case call_node (AddPlayer_client R J (E (gc_addr dstNode)) (gv_node ev 4) (ev_net ev 4) (gc_id dstNode) targetMap dstEpoch profile)
                dstNode (ev_others ev 4 en) of
           None \<Rightarrow> None
         | Some (Inl e, en) \<Rightarrow>
             (case call_node (AddPlayer_client R J (E (gc_addr srcNode)) (gv_node ev 5) (ev_net ev 5) (gc_id srcNode) srcMap srcEpoch profile)
                     srcNode (ev_others ev 5 en) of
                None \<Rightarrow> None
              | Some (_, en) \<Rightarrow> Some (Inl (GRolledBack e), c, en))
         | Some (Inr _, en) \<Rightarrow> switch_confirm R J Q say ev username targetMap (dstNodeID, dstNode) c en)"

definition switch_transfer ::
    "('s, 'd) redis \<Rightarrow> 'd json \<Rightarrow> 't sql \<Rightarrow> (string \<Rightarrow> process) \<Rightarrow> (gateway_text \<Rightarrow> string) \<Rightarrow> ('s, 't) gio \<Rightarrow> string \<Rightarrow> string
     \<Rightarrow> string \<times> NodeGRPCClient \<times> u64 \<Rightarrow> string \<times> NodeGRPCClient \<times> u64
     \<Rightarrow> Cluster \<Rightarrow> ('s, 't) backend \<Rightarrow> ((gateway_error + WorldState option) \<times> Cluster \<times> ('s, 't) backend) option" where
  "switch_transfer R J Q E say ev username targetMap src dst c en =
     (let (srcMap, srcNode, srcEpoch) = src
      in case call_node (RemovePlayer_client R J (gv_node ev 3) (ev_net ev 3) (gc_id srcNode) srcMap username srcEpoch)
                srcNode (ev_others ev 3 en) of
           None \<Rightarrow> None
         | Some (Inl e, en) \<Rightarrow> Some (Inl (GNode e), c, en)
         | Some (Inr (_, False), en) \<Rightarrow> Some (Inl GRejected, c, en)
         | Some (Inr (profile, True), en) \<Rightarrow> switch_arrive R J Q E say ev username targetMap src dst profile c en)"

definition SwitchMap ::
    "('s, 'd) redis \<Rightarrow> 'd json \<Rightarrow> 't sql \<Rightarrow> (string \<Rightarrow> process) \<Rightarrow> (gateway_text \<Rightarrow> string) \<Rightarrow> ('s, 't) gio \<Rightarrow> string \<Rightarrow> string
     \<Rightarrow> Cluster \<Rightarrow> ('s, 't) backend \<Rightarrow> ((gateway_error + WorldState option) \<times> Cluster \<times> ('s, 't) backend) option" where
  "SwitchMap R J Q E say ev username targetMap c en =
     (case sessionNode R J ev 0 username c en of
        (Inl e, c, en) \<Rightarrow> Some (Inl e, c, en)
      | (Inr (session, srcNode, srcEpoch), c, en) \<Rightarrow>
          let c = gv_self ev 2 c
          in (case call_node (Profile_client (ev_now ev 2) (ev_net ev 2) (gl_MapID session) username) srcNode (ev_others ev 2 en) of
                None \<Rightarrow> None
              | Some (Inl e, en) \<Rightarrow> Some (Inl (GNode e), c, en)
              | Some (Inr (_, False), en) \<Rightarrow> Some (Inl GNotFound, c, en)
              | Some (Inr (profile, True), en) \<Rightarrow>
                  if \<not> u_Alive profile then Some (Inl GDown, c, en)
                  else case route targetMap c of
                         None \<Rightarrow> Some (Inl (GNotReady targetMap), c, en)
                       | Some dst \<Rightarrow>
                           switch_transfer R J Q E say ev username targetMap (gl_MapID session, srcNode, srcEpoch) dst c en))"

section \<open>The caches\<close>

text \<open>One round of \<open>mapCacheLoop\<close>: the views are fetched from the owners of a snapshot of the topology, and kept if
  the topology still has that version. The check and the filling are two sections.\<close>

definition map_brief :: "string \<Rightarrow> string \<Rightarrow> string \<Rightarrow> MapView \<Rightarrow> MapBrief" where
  "map_brief mapID name nodeID mapView =
     \<lparr>mb_ID = mapID, mb_Name = name, mb_NodeID = nodeID, mb_Players = int (length (mv_Players mapView)),
      mb_NPCs = int (length (mv_NPCs mapView)), mb_Treasures = int (length (mv_Treasures mapView)), mb_Version = mv_Version mapView,
      mb_Primary = True, mb_IsCurrent = False, mb_Checkpoint = 0\<rparr>"

fun fetch_maps ::
    "(string \<Rightarrow> process) \<Rightarrow> ('s, 't) gio \<Rightarrow> nat \<Rightarrow> (string, NodeGRPCClient) alist \<Rightarrow> (string, MapConfig) alist
     \<Rightarrow> (string, string) alist \<Rightarrow> ('s, 't) backend \<Rightarrow> (string, MapCacheData) alist \<times> ('s, 't) backend" where
  "fetch_maps E ev k nodes configs [] en = ([], en)"
| "fetch_maps E ev k nodes configs ((mapID, ownerID) # owners) en =
     (case map_of nodes ownerID of
        None \<Rightarrow> fetch_maps E ev (Suc k) nodes configs owners en
      | Some host \<Rightarrow>
          (case call_node (Snapshot_client (E (gc_addr host)) (ev_now ev k) (ev_net ev k) mapID) host (ev_others ev k en) of
             Some (Inr mapView, en) \<Rightarrow>
               let (cache, en) = fetch_maps E ev (Suc k) nodes configs owners en;
                   name = (case map_of configs mapID of None \<Rightarrow> [] | Some cfg \<Rightarrow> cfg_Name cfg)
               in ((mapID, \<lparr>mc_View = Some mapView, mc_Brief = map_brief mapID name (gc_id host) mapView\<rparr>) # cache, en)
           | Some (Inl _, en) \<Rightarrow> fetch_maps E ev (Suc k) nodes configs owners en
           | None \<Rightarrow> fetch_maps E ev (Suc k) nodes configs owners (ev_others ev k en)))"

definition fill_cache :: "(string, MapCacheData) alist \<Rightarrow> Cluster \<Rightarrow> Cluster" where
  "fill_cache newCache c = c\<lparr>cl_mapCache := fold (\<lambda>(k, v). AList.update k v) newCache (cl_mapCache c)\<rparr>"

definition cache_round ::
    "('s, 'd) redis \<Rightarrow> 'd json \<Rightarrow> (string \<Rightarrow> process) \<Rightarrow> ('s, 't) gio \<Rightarrow> Cluster \<Rightarrow> ('s, 't) backend \<Rightarrow> Cluster \<times> ('s, 't) backend" where
  "cache_round R J E ev c en =
     (let c = gv_self ev 0 c; owners = cl_owners c; topologyVersion = tp_Version (cl_topology c); nodes = cl_nodes c; configs = cl_configs c;
          en = ev_others ev 0 en; boss = LoadGlobalBoss R J (ev_net ev 0) (ev_net ev 1) (out_store en);
          c = gv_self ev 1 c;
          c = (case boss of Inl _ \<Rightarrow> c | Inr (bState, hp) \<Rightarrow> c\<lparr>cl_bossCache := bState, cl_bossHpCache := hp\<rparr>);
          (newCache, en) = fetch_maps E ev 10 nodes configs owners en;
          c = gv_self ev 2 c
      in if \<not> (cl_topologyLoaded c \<and> tp_Version (cl_topology c) = topologyVersion) then (c, en)
         else (fill_cache newCache (gv_self ev 3 c), en))"

definition append_event :: "nat \<Rightarrow> string \<Rightarrow> string list \<Rightarrow> string list" where
  "append_event n payload buf = (let buf = buf @ [payload] in if length buf > n then last_of n buf else buf)"

definition has_prefix :: "string \<Rightarrow> string \<Rightarrow> bool" where
  "has_prefix p s \<longleftrightarrow> take (length p) s = p"

definition receive_event :: "string \<Rightarrow> string \<Rightarrow> Cluster \<Rightarrow> Cluster" where
  "receive_event channel payload c =
     (if channel = ''events:global'' then c\<lparr>cl_globalEvents := append_event 3 payload (cl_globalEvents c)\<rparr>
      else if has_prefix ''events:map:'' channel
      then let mapID = drop 11 channel
           in c\<lparr>cl_mapEvents := AList.update mapID (append_event 3 payload (get_or [] (cl_mapEvents c) mapID)) (cl_mapEvents c)\<rparr>
      else if has_prefix ''events:user:'' channel
      then let username = drop 12 channel
           in c\<lparr>cl_userEvents := AList.update username (append_event 2 payload (get_or [] (cl_userEvents c) username)) (cl_userEvents c)\<rparr>
      else c)"

definition eventLoop_message ::
    "('s, 'd) redis \<Rightarrow> 'd json \<Rightarrow> (string \<Rightarrow> string \<Rightarrow> bool) \<Rightarrow> ('s, 't) gio \<Rightarrow> string \<Rightarrow> string \<Rightarrow> Cluster \<Rightarrow> ('s, 't) backend
     \<Rightarrow> Cluster \<times> ('s, 't) backend" where
  "eventLoop_message R J dial ev channel payload c en =
     (if channel = TopologyEventChannel then snd (loadTopology R J dial ev c en)
      else (receive_event channel payload (gv_self ev 0 c), en))"

end
