(* ===== verification/Stream_Sender.thy ===== *)
theory Stream_Sender
  imports Wire_Gateway
begin

text \<open>
  The sender of a game stream (\<open>cmd/gateway/stream_sender.go\<close>): producers put control messages into a
  bounded queue and states into a one-place buffer, one writer sends both. The goroutines are a step
  relation, \<open>sender_step\<close>: every step is one atomic action of the source, a channel operation or a section
  under a lock, and a \<open>select\<close> with several ready cases may take any of them.

  \<^item> A channel that is closed but never sent on (\<open>finished\<close>, \<open>done\<close>, \<open>writerDone\<close>) is a boolean;
    \<open>stateReady\<close>, of capacity one, is a boolean as well.
  \<^item> \<open>sn_writer\<close> is where the writer stands, \<open>sn_finishing\<close> how far \<open>Finish\<close> has come, \<open>sn_signals\<close> the
    number of calls of \<open>SubmitState\<close> that have stored a state and not yet signalled it.
  \<^item> \<open>sn_sent\<close> is what the stream has taken; \<open>sn_accepted\<close> and \<open>sn_submitted\<close> record the control
    messages for which \<open>EnqueueControl\<close> has returned true and the states \<open>SubmitState\<close> has kept. They
    are only written.
\<close>

section \<open>Messages\<close>

datatype pb_ErrorCode =
    ERROR_CODE_UNSPECIFIED | ERROR_CODE_INVALID_REQUEST | ERROR_CODE_AUTH_FAILED | ERROR_CODE_ROUTE_NOT_READY
  | ERROR_CODE_STALE_ROUTE | ERROR_CODE_COMMAND_REJECTED | ERROR_CODE_INTERNAL

datatype pb_server_payload =
    PAuthenticated "pb_WorldState option" | PCommandResult string | PState pb_WorldState | PError pb_ErrorCode string bool
  | PNotice string | PNothing

record pb_ServerEnvelope =
  sv_RequestId :: u64
  sv_Payload :: pb_server_payload

definition state_envelope :: "pb_WorldState \<Rightarrow> pb_ServerEnvelope" where
  "state_envelope state = \<lparr>sv_RequestId = 0, sv_Payload = PState state\<rparr>"

section \<open>Versions\<close>

record stateVersion =
  vn_mapID :: string
  vn_sessionVersion :: int
  vn_mapEpoch :: u64
  vn_mapVersion :: int

definition version_of :: "pb_WorldState \<Rightarrow> stateVersion" where
  "version_of state =
     \<lparr>vn_mapID = (case pb_ws_Map state of None \<Rightarrow> [] | Some m \<Rightarrow> pm_Id m),
      vn_sessionVersion = pb_ws_SessionVersion state, vn_mapEpoch = pb_ws_MapEpoch state,
      vn_mapVersion = (case pb_ws_Map state of None \<Rightarrow> 0 | Some m \<Rightarrow> pm_Version m)\<rparr>"

definition stateRegresses :: "stateVersion \<Rightarrow> stateVersion \<Rightarrow> bool" where
  "stateRegresses nxt previous =
     (if vn_sessionVersion nxt < vn_sessionVersion previous then True
      else if vn_sessionVersion nxt > vn_sessionVersion previous then False
      else if vn_mapEpoch nxt < vn_mapEpoch previous then True
      else if vn_mapEpoch nxt > vn_mapEpoch previous \<or> vn_mapID nxt \<noteq> vn_mapID previous then False
      else vn_mapVersion nxt < vn_mapVersion previous)"

section \<open>The sender\<close>

definition controlQueueCapacity :: nat where
  "controlQueueCapacity = 32"

datatype writer = AtTop | AtCheck | AtSelect | AtDrain | AtEnd

record streamSender =
  sn_controls :: "pb_ServerEnvelope list"
  sn_stateReady :: bool
  sn_finished :: bool
  sn_done :: bool
  sn_writerDone :: bool
  sn_finishing :: nat
  sn_acceptingControls :: bool
  sn_pendingState :: "pb_WorldState option"
  sn_latestState :: stateVersion
  sn_hasLatestState :: bool
  sn_signals :: nat
  sn_writer :: writer
  sn_sent :: "pb_ServerEnvelope list"
  sn_accepted :: "pb_ServerEnvelope list"
  sn_submitted :: "pb_WorldState list"

definition newStreamSender :: streamSender where
  "newStreamSender =
     \<lparr>sn_controls = [], sn_stateReady = False, sn_finished = False, sn_done = False, sn_writerDone = False, sn_finishing = 0,
      sn_acceptingControls = True, sn_pendingState = None,
      sn_latestState = \<lparr>vn_mapID = [], vn_sessionVersion = 0, vn_mapEpoch = 0, vn_mapVersion = 0\<rparr>, sn_hasLatestState = False,
      sn_signals = 0, sn_writer = AtTop, sn_sent = [], sn_accepted = [], sn_submitted = []\<rparr>"

text \<open>
  Enqueueing: \<open>None\<close> is a producer that has to wait, with the lock in its hand. \<open>pick\<close> decides when both
  cases of the \<open>select\<close> are ready.
\<close>

definition EnqueueControl :: "bool \<Rightarrow> pb_ServerEnvelope option \<Rightarrow> streamSender \<Rightarrow> bool option \<times> streamSender" where
  "EnqueueControl pick envelope s =
     (case envelope of
        None \<Rightarrow> (Some True, s)
      | Some e \<Rightarrow>
          if \<not> sn_acceptingControls s then (Some False, s)
          else
            let room = length (sn_controls s) < controlQueueCapacity
            in if room \<and> (pick \<or> \<not> sn_done s)
               then (Some True, s\<lparr>sn_controls := sn_controls s @ [e], sn_accepted := sn_accepted s @ [e]\<rparr>)
               else if sn_done s then (Some False, s)
               else (None, s))"

definition store_state :: "pb_WorldState \<Rightarrow> streamSender \<Rightarrow> streamSender" where
  "store_state protobufState s =
     (let version = version_of protobufState
      in if sn_hasLatestState s \<and> stateRegresses version (sn_latestState s) then s
         else s\<lparr>sn_pendingState := Some protobufState, sn_latestState := version, sn_hasLatestState := True,
                sn_signals := Suc (sn_signals s), sn_submitted := sn_submitted s @ [protobufState]\<rparr>)"

definition SubmitState :: "WorldState option \<Rightarrow> streamSender \<Rightarrow> streamSender" where
  "SubmitState state s =
     (case ToWorldState state of
        None \<Rightarrow> s
      | Some protobufState \<Rightarrow> if sn_done s \<or> sn_finished s then s else store_state protobufState s)"

definition signal_state :: "streamSender \<Rightarrow> streamSender" where
  "signal_state s = s\<lparr>sn_stateReady := True, sn_signals := sn_signals s - 1\<rparr>"

definition takeState :: "streamSender \<Rightarrow> pb_WorldState option \<times> streamSender" where
  "takeState s = (sn_pendingState s, s\<lparr>sn_pendingState := None\<rparr>)"

text \<open>The four actions of \<open>Finish\<close>, one lock or channel operation each.\<close>

fun Finish_action :: "nat \<Rightarrow> streamSender \<Rightarrow> streamSender" where
  "Finish_action 0 s = s\<lparr>sn_acceptingControls := False\<rparr>"
| "Finish_action (Suc 0) s = s\<lparr>sn_pendingState := None\<rparr>"
| "Finish_action (Suc (Suc 0)) s = s\<lparr>sn_stateReady := False\<rparr>"
| "Finish_action _ s = s\<lparr>sn_finished := True\<rparr>"

definition Finish_next :: "streamSender \<Rightarrow> streamSender" where
  "Finish_next s = (if sn_finishing s < 4 then (Finish_action (sn_finishing s) s)\<lparr>sn_finishing := Suc (sn_finishing s)\<rparr> else s)"

definition Abort :: "streamSender \<Rightarrow> streamSender" where
  "Abort s = s\<lparr>sn_done := True\<rparr>"

definition send :: "bool \<Rightarrow> pb_ServerEnvelope \<Rightarrow> streamSender \<Rightarrow> bool \<times> streamSender" where
  "send ok envelope s = (if \<not> ok then (False, Abort s) else (True, s\<lparr>sn_sent := sn_sent s @ [envelope]\<rparr>))"

section \<open>The writer\<close>

definition exit_writer :: "streamSender \<Rightarrow> streamSender" where
  "exit_writer s = s\<lparr>sn_writer := AtEnd, sn_writerDone := True\<rparr>"

definition after_send :: "writer \<Rightarrow> bool \<times> streamSender \<Rightarrow> streamSender" where
  "after_send w r = (if fst r then (snd r)\<lparr>sn_writer := w\<rparr> else exit_writer (snd r))"

definition send_control :: "bool \<Rightarrow> writer \<Rightarrow> streamSender \<Rightarrow> streamSender" where
  "send_control ok w s = after_send w (send ok (hd (sn_controls s)) (s\<lparr>sn_controls := tl (sn_controls s)\<rparr>))"

definition send_state :: "bool \<Rightarrow> streamSender \<Rightarrow> streamSender" where
  "send_state ok s =
     (let (state, s) = takeState (s\<lparr>sn_stateReady := False\<rparr>)
      in case state of
           None \<Rightarrow> s\<lparr>sn_writer := AtTop\<rparr>
         | Some state \<Rightarrow> after_send AtTop (send ok (state_envelope state) s))"

inductive writeLoop :: "streamSender \<Rightarrow> streamSender \<Rightarrow> bool" where
  first_control: "sn_writer s = AtTop \<Longrightarrow> sn_controls s \<noteq> [] \<Longrightarrow> writeLoop s (send_control ok AtTop s)"
| no_control: "sn_writer s = AtTop \<Longrightarrow> sn_controls s = [] \<Longrightarrow> writeLoop s (s\<lparr>sn_writer := AtCheck\<rparr>)"
| check_done: "sn_writer s = AtCheck \<Longrightarrow> sn_done s \<Longrightarrow> writeLoop s (exit_writer s)"
| check_finished: "sn_writer s = AtCheck \<Longrightarrow> sn_finished s \<Longrightarrow> writeLoop s (s\<lparr>sn_writer := AtDrain\<rparr>)"
| check_none: "sn_writer s = AtCheck \<Longrightarrow> \<not> sn_done s \<Longrightarrow> \<not> sn_finished s \<Longrightarrow> writeLoop s (s\<lparr>sn_writer := AtSelect\<rparr>)"
| select_done: "sn_writer s = AtSelect \<Longrightarrow> sn_done s \<Longrightarrow> writeLoop s (exit_writer s)"
| select_finished: "sn_writer s = AtSelect \<Longrightarrow> sn_finished s \<Longrightarrow> writeLoop s (s\<lparr>sn_writer := AtDrain\<rparr>)"
| select_control: "sn_writer s = AtSelect \<Longrightarrow> sn_controls s \<noteq> [] \<Longrightarrow> writeLoop s (send_control ok AtTop s)"
| select_state: "sn_writer s = AtSelect \<Longrightarrow> sn_stateReady s \<Longrightarrow> writeLoop s (send_state ok s)"
| drain_done: "sn_writer s = AtDrain \<Longrightarrow> sn_done s \<Longrightarrow> writeLoop s (exit_writer s)"
| drain_control: "sn_writer s = AtDrain \<Longrightarrow> sn_controls s \<noteq> [] \<Longrightarrow> writeLoop s (send_control ok AtDrain s)"
| drain_empty: "sn_writer s = AtDrain \<Longrightarrow> sn_controls s = [] \<Longrightarrow> \<not> sn_done s \<Longrightarrow> writeLoop s (exit_writer s)"

text \<open>
  All goroutines together. \<open>submit_late\<close> is a call of \<open>SubmitState\<close> that has looked at \<open>done\<close> and \<open>finished\<close> before
  others closed them. What is enqueued is never a state: the callers enqueue results and errors.
\<close>

definition is_control :: "pb_ServerEnvelope \<Rightarrow> bool" where
  "is_control e \<longleftrightarrow> (case sv_Payload e of PState _ \<Rightarrow> False | _ \<Rightarrow> True)"

inductive sender_step :: "streamSender \<Rightarrow> streamSender \<Rightarrow> bool" where
  enqueue: "\<forall>e. envelope = Some e \<longrightarrow> is_control e \<Longrightarrow> sender_step s (snd (EnqueueControl pick envelope s))"
| submit: "sender_step s (SubmitState state s)"
| submit_late: "sender_step s (store_state protobufState s)"
| signal: "0 < sn_signals s \<Longrightarrow> sender_step s (signal_state s)"
| finish: "sender_step s (Finish_next s)"
| abort: "sender_step s (Abort s)"
| writer: "writeLoop s s' \<Longrightarrow> sender_step s s'"

end
