(* ===== verification/Gateway_Stream.thy ===== *)
theory Gateway_Stream
  imports Gateway Stream_Sender
begin

text \<open>
  The game stream of a gateway (\<open>cmd/gateway/gateway_handlers.go\<close>, \<open>gateway_errors.go\<close>, \<open>gateway.go\<close>): the first message
  authenticates, every further one is a command that is run on the cluster and answered through the
  sender, until the client leaves or the transport fails.

  \<^item> The sender is shared with the state pump and the writer; \<open>self\<close> is what they did to it before each
    access, \<open>pick\<close> the choice of \<open>EnqueueControl\<close>.
  \<^item> An error of the cluster becomes a status code and a text by \<open>rd\<close>; the texts of the handlers
    themselves are written out.
  \<^item> \<open>gone\<close> says that the \<open>logoutOnce\<close> of the stream has run.
\<close>

section \<open>Texts\<close>

text \<open>The texts of the handlers and the fragments errors are recognised by, as UTF-8.\<close>

definition frag_must_not_be_empty :: string where
  "frag_must_not_be_empty = utf8 [0xE4, 0xB8, 0x8D, 0xE8, 0x83, 0xBD, 0xE4, 0xB8, 0xBA, 0xE7, 0xA9, 0xBA]"

definition frag_differs :: string where
  "frag_differs = utf8 [0xE4, 0xB8, 0x8D, 0xE4, 0xB8, 0x80, 0xE8, 0x87, 0xB4]"

definition frag_request_empty :: string where
  "frag_request_empty = utf8 [0xE8, 0xAF, 0xB7, 0xE6, 0xB1, 0x82, 0xE4, 0xB8, 0x8D, 0xE8, 0x83, 0xBD, 0xE4, 0xB8, 0xBA, 0xE7, 0xA9, 0xBA]"

definition frag_first_message :: string where
  "frag_first_message = utf8 [0xE9, 0xA6, 0x96, 0xE6, 0x9D, 0xA1, 0xE6, 0xB6, 0x88, 0xE6, 0x81, 0xAF]"

definition frag_no_such :: string where
  "frag_no_such = utf8 [0xE4, 0xB8, 0x8D, 0xE5, 0xAD, 0x98, 0xE5, 0x9C, 0xA8]"

definition frag_password :: string where
  "frag_password = utf8 [0xE5, 0xAF, 0x86, 0xE7, 0xA0, 0x81]"

definition frag_online :: string where
  "frag_online = utf8 [0xE5, 0xB7, 0xB2, 0xE7, 0xBB, 0x8F, 0xE5, 0x9C, 0xA8, 0xE7, 0xBA, 0xBF]"

definition frag_route :: string where
  "frag_route = utf8 [0xE8, 0xB7, 0xAF, 0xE7, 0x94, 0xB1]"

definition frag_syncing :: string where
  "frag_syncing = utf8 [0xE5, 0x90, 0x8C, 0xE6, 0xAD, 0xA5, 0xE4, 0xB8, 0xAD]"

definition frag_carrying_node :: string where
  "frag_carrying_node = utf8 [0xE6, 0x89, 0xBF, 0xE8, 0xBD, 0xBD, 0xE8, 0x8A, 0x82, 0xE7, 0x82, 0xB9]"

definition frag_current_epoch :: string where
  "frag_current_epoch = utf8 [0xE5, 0xBD, 0x93, 0xE5, 0x89, 0x8D, 0x20, 0x65, 0x70, 0x6F, 0x63, 0x68]"

definition frag_not_allowed :: string where
  "frag_not_allowed = utf8 [0xE4, 0xB8, 0x8D, 0xE5, 0x85, 0x81, 0xE8, 0xAE, 0xB8]"

definition frag_unrecognised :: string where
  "frag_unrecognised = utf8 [0xE7, 0xBC, 0xBA, 0xE5, 0xB0, 0x91, 0xE5, 0x8F, 0xAF, 0xE8, 0xAF, 0x86, 0xE5, 0x88, 0xAB]"

definition frag_invalid :: string where
  "frag_invalid = utf8 [0xE6, 0x97, 0xA0, 0xE6, 0x95, 0x88]"

definition text_bad_direction :: string where
  "text_bad_direction = utf8 [0xE6, 0x97, 0xA0, 0xE6, 0x95, 0x88, 0xE7, 0xA7, 0xBB, 0xE5, 0x8A, 0xA8, 0xE6, 0x96, 0xB9, 0xE5, 0x90, 0x91, 0xEF, 0xBC, 0x9A]"

definition text_no_login :: string where
  "text_no_login = utf8 [0xE7, 0x99, 0xBB, 0xE5, 0xBD, 0x95, 0xE8, 0xAF, 0xB7, 0xE6, 0xB1, 0x82, 0xE4, 0xB8, 0x8D, 0xE8, 0x83, 0xBD, 0xE4, 0xB8, 0xBA, 0xE7, 0xA9, 0xBA]"

definition text_no_register :: string where
  "text_no_register = utf8 [0xE6, 0xB3, 0xA8, 0xE5, 0x86, 0x8C, 0xE8, 0xAF, 0xB7, 0xE6, 0xB1, 0x82, 0xE4, 0xB8, 0x8D, 0xE8, 0x83, 0xBD, 0xE4, 0xB8, 0xBA, 0xE7, 0xA9, 0xBA]"

definition text_no_quick_enter :: string where
  "text_no_quick_enter = utf8 [0xE5, 0xBF, 0xAB, 0xE9, 0x80, 0x9F, 0xE8, 0xBF, 0x9B, 0xE5, 0x85, 0xA5, 0xE8, 0xAF, 0xB7, 0xE6, 0xB1, 0x82, 0xE4, 0xB8, 0x8D, 0xE8, 0x83, 0xBD, 0xE4, 0xB8, 0xBA, 0xE7, 0xA9, 0xBA]"

definition text_first_must_authenticate :: string where
  "text_first_must_authenticate = utf8 [0xE9, 0xA6, 0x96, 0xE6, 0x9D, 0xA1, 0xE6, 0xB6, 0x88, 0xE6, 0x81, 0xAF, 0xE5, 0xBF, 0x85, 0xE9, 0xA1, 0xBB, 0xE6, 0x98, 0xAF, 0xE7, 0x99, 0xBB, 0xE5, 0xBD, 0x95, 0xE3, 0x80, 0x81, 0xE6, 0xB3, 0xA8, 0xE5, 0x86, 0x8C, 0xE6, 0x88, 0x96, 0xE5, 0xBF, 0xAB, 0xE9, 0x80, 0x9F, 0xE8, 0xBF, 0x9B, 0xE5, 0x85, 0xA5, 0xE8, 0xAF, 0xB7, 0xE6, 0xB1, 0x82]"

definition text_no_move :: string where
  "text_no_move = utf8 [0xE7, 0xA7, 0xBB, 0xE5, 0x8A, 0xA8, 0xE8, 0xAF, 0xB7, 0xE6, 0xB1, 0x82, 0xE4, 0xB8, 0x8D, 0xE8, 0x83, 0xBD, 0xE4, 0xB8, 0xBA, 0xE7, 0xA9, 0xBA]"

definition text_moved :: string where
  "text_moved = utf8 [0xE7, 0xA7, 0xBB, 0xE5, 0x8A, 0xA8, 0xE6, 0x8C, 0x87, 0xE4, 0xBB, 0xA4, 0xE5, 0xB7, 0xB2, 0xE6, 0x8E, 0xA5, 0xE5, 0x8F, 0x97]"

definition text_no_attack :: string where
  "text_no_attack = utf8 [0xE6, 0x94, 0xBB, 0xE5, 0x87, 0xBB, 0xE8, 0xAF, 0xB7, 0xE6, 0xB1, 0x82, 0xE4, 0xB8, 0x8D, 0xE8, 0x83, 0xBD, 0xE4, 0xB8, 0xBA, 0xE7, 0xA9, 0xBA]"

definition text_attacked :: string where
  "text_attacked = utf8 [0xE6, 0x94, 0xBB, 0xE5, 0x87, 0xBB, 0xE6, 0x8C, 0x87, 0xE4, 0xBB, 0xA4, 0xE5, 0xB7, 0xB2, 0xE6, 0x8E, 0xA5, 0xE5, 0x8F, 0x97]"

definition text_no_boss_attack :: string where
  "text_no_boss_attack = utf8 [0xE9, 0xA6, 0x96, 0xE9, 0xA2, 0x86, 0xE6, 0x94, 0xBB, 0xE5, 0x87, 0xBB, 0xE8, 0xAF, 0xB7, 0xE6, 0xB1, 0x82, 0xE4, 0xB8, 0x8D, 0xE8, 0x83, 0xBD, 0xE4, 0xB8, 0xBA, 0xE7, 0xA9, 0xBA]"

definition text_boss_attacked :: string where
  "text_boss_attacked = utf8 [0xE9, 0xA6, 0x96, 0xE9, 0xA2, 0x86, 0xE6, 0x94, 0xBB, 0xE5, 0x87, 0xBB, 0xE6, 0x8C, 0x87, 0xE4, 0xBB, 0xA4, 0xE5, 0xB7, 0xB2, 0xE6, 0x8E, 0xA5, 0xE5, 0x8F, 0x97]"

definition text_no_heal :: string where
  "text_no_heal = utf8 [0xE6, 0xB2, 0xBB, 0xE7, 0x96, 0x97, 0xE8, 0xAF, 0xB7, 0xE6, 0xB1, 0x82, 0xE4, 0xB8, 0x8D, 0xE8, 0x83, 0xBD, 0xE4, 0xB8, 0xBA, 0xE7, 0xA9, 0xBA]"

definition text_healed :: string where
  "text_healed = utf8 [0xE6, 0xB2, 0xBB, 0xE7, 0x96, 0x97, 0xE6, 0x8C, 0x87, 0xE4, 0xBB, 0xA4, 0xE5, 0xB7, 0xB2, 0xE6, 0x8E, 0xA5, 0xE5, 0x8F, 0x97]"

definition text_no_item :: string where
  "text_no_item = utf8 [0xE5, 0x95, 0x86, 0xE5, 0x93, 0x81, 0xE4, 0xB8, 0x8D, 0xE8, 0x83, 0xBD, 0xE4, 0xB8, 0xBA, 0xE7, 0xA9, 0xBA]"

definition text_bought :: string where
  "text_bought = utf8 [0xE8, 0xB4, 0xAD, 0xE4, 0xB9, 0xB0, 0xE6, 0x8C, 0x87, 0xE4, 0xBB, 0xA4, 0xE5, 0xB7, 0xB2, 0xE6, 0x8E, 0xA5, 0xE5, 0x8F, 0x97]"

definition text_no_map :: string where
  "text_no_map = utf8 [0xE7, 0x9B, 0xAE, 0xE6, 0xA0, 0x87, 0xE5, 0x9C, 0xB0, 0xE5, 0x9B, 0xBE, 0xE4, 0xB8, 0x8D, 0xE8, 0x83, 0xBD, 0xE4, 0xB8, 0xBA, 0xE7, 0xA9, 0xBA]"

definition text_switched :: string where
  "text_switched = utf8 [0xE5, 0x88, 0x87, 0xE6, 0x8D, 0xA2, 0xE5, 0x9C, 0xB0, 0xE5, 0x9B, 0xBE, 0xE6, 0x8C, 0x87, 0xE4, 0xBB, 0xA4, 0xE5, 0xB7, 0xB2, 0xE6, 0x8E, 0xA5, 0xE5, 0x8F, 0x97]"

definition text_no_logout :: string where
  "text_no_logout = utf8 [0xE9, 0x80, 0x80, 0xE5, 0x87, 0xBA, 0xE8, 0xAF, 0xB7, 0xE6, 0xB1, 0x82, 0xE4, 0xB8, 0x8D, 0xE8, 0x83, 0xBD, 0xE4, 0xB8, 0xBA, 0xE7, 0xA9, 0xBA]"

definition text_left :: string where
  "text_left = utf8 [0xE5, 0xB7, 0xB2, 0xE9, 0x80, 0x80, 0xE5, 0x87, 0xBA, 0xE6, 0xB8, 0xB8, 0xE6, 0x88, 0x8F]"

definition text_no_command :: string where
  "text_no_command = utf8 [0xE8, 0xAF, 0xB7, 0xE6, 0xB1, 0x82, 0xE7, 0xBC, 0xBA, 0xE5, 0xB0, 0x91, 0xE5, 0x8F, 0xAF, 0xE8, 0xAF, 0x86, 0xE5, 0x88, 0xAB, 0xE7, 0x9A, 0x84, 0xE5, 0x91, 0xBD, 0xE4, 0xBB, 0xA4, 0x20, 0x70, 0x61, 0x79, 0x6C, 0x6F, 0x61, 0x64]"

definition text_already_authenticated :: string where
  "text_already_authenticated = utf8 [0xE8, 0xAE, 0xA4, 0xE8, 0xAF, 0x81, 0xE5, 0xAE, 0x8C, 0xE6, 0x88, 0x90, 0xE5, 0x90, 0x8E, 0xE4, 0xB8, 0x8D, 0xE5, 0x85, 0x81, 0xE8, 0xAE, 0xB8, 0xE5, 0x86, 0x8D, 0xE6, 0xAC, 0xA1, 0xE5, 0x8F, 0x91, 0xE9, 0x80, 0x81, 0xE8, 0xAE, 0xA4, 0xE8, 0xAF, 0x81, 0xE8, 0xAF, 0xB7, 0xE6, 0xB1, 0x82]"

definition text_request_id_zero :: string where
  "text_request_id_zero = utf8 [0x72, 0x65, 0x71, 0x75, 0x65, 0x73, 0x74, 0x5F, 0x69, 0x64, 0x20, 0xE5, 0xBF, 0x85, 0xE9, 0xA1, 0xBB, 0xE4, 0xB8, 0xBA, 0xE9, 0x9D, 0x9E, 0xE9, 0x9B, 0xB6, 0xE5, 0x80, 0xBC]"

definition text_no_state :: string where
  "text_no_state = utf8 [0xE8, 0xAE, 0xA4, 0xE8, 0xAF, 0x81, 0xE6, 0x88, 0x90, 0xE5, 0x8A, 0x9F, 0xE4, 0xBD, 0x86, 0xE6, 0x9C, 0xAA, 0xE8, 0xBF, 0x94, 0xE5, 0x9B, 0x9E, 0xE4, 0xB8, 0x96, 0xE7, 0x95, 0x8C, 0xE7, 0x8A, 0xB6, 0xE6, 0x80, 0x81]"

section \<open>Errors\<close>

datatype grpc_code = CodeUnknown | CodeFailedPrecondition | CodeUnavailable | CodeDeadlineExceeded | CodeInvalidArgument

datatype errorKind = AuthError | CommandError | StateError

datatype stream_error = HBackend gateway_error | HStore store_error | HText string

fun contains :: "string \<Rightarrow> string \<Rightarrow> bool" where
  "contains [] fragment \<longleftrightarrow> fragment = []"
| "contains (c # cs) fragment \<longleftrightarrow> has_prefix fragment (c # cs) \<or> contains cs fragment"

definition containsAny :: "string \<Rightarrow> string list \<Rightarrow> bool" where
  "containsAny message fragments \<longleftrightarrow> list_ex (contains message) fragments"

definition mapError :: "(grpc_code \<times> string) option \<Rightarrow> errorKind \<Rightarrow> pb_ErrorCode \<times> bool" where
  "mapError err kind =
     (case err of
        None \<Rightarrow> (ERROR_CODE_INTERNAL, True)
      | Some (code, message) \<Rightarrow>
          if code = CodeFailedPrecondition then (ERROR_CODE_STALE_ROUTE, True)
          else if code = CodeUnavailable \<or> code = CodeDeadlineExceeded then (ERROR_CODE_ROUTE_NOT_READY, True)
          else if code = CodeInvalidArgument then (ERROR_CODE_INVALID_REQUEST, False)
          else if containsAny message [''code = FailedPrecondition'', ''code = FAILED_PRECONDITION''] then (ERROR_CODE_STALE_ROUTE, True)
          else if containsAny message [''code = Unavailable'', ''code = DeadlineExceeded''] then (ERROR_CODE_ROUTE_NOT_READY, True)
          else if containsAny message [''code = InvalidArgument''] then (ERROR_CODE_INVALID_REQUEST, False)
          else if kind = AuthError \<and> containsAny message [frag_must_not_be_empty, frag_differs, frag_request_empty, frag_first_message]
          then (ERROR_CODE_INVALID_REQUEST, False)
          else if kind = AuthError \<and> containsAny message [frag_no_such, frag_password, frag_online]
          then (ERROR_CODE_AUTH_FAILED, contains message frag_online)
          else if containsAny message [frag_route, frag_syncing, frag_carrying_node, ''topology authority unavailable'']
          then (ERROR_CODE_ROUTE_NOT_READY, True)
          else if containsAny message [''authority denied'', ''stale topology'', frag_current_epoch, ''epoch'']
          then (ERROR_CODE_STALE_ROUTE, True)
          else if kind = StateError then (ERROR_CODE_ROUTE_NOT_READY, True)
          else if kind = CommandError
          then if containsAny message [frag_must_not_be_empty, frag_not_allowed, frag_unrecognised, frag_invalid]
               then (ERROR_CODE_INVALID_REQUEST, False) else (ERROR_CODE_COMMAND_REJECTED, False)
          else (ERROR_CODE_INTERNAL, True))"

definition errorEnvelope :: "u64 \<Rightarrow> pb_ErrorCode \<Rightarrow> string \<Rightarrow> bool \<Rightarrow> pb_ServerEnvelope" where
  "errorEnvelope requestID code message retryable = \<lparr>sv_RequestId = requestID, sv_Payload = PError code message retryable\<rparr>"

definition gatewayError :: "u64 \<Rightarrow> grpc_code \<times> string \<Rightarrow> errorKind \<Rightarrow> pb_ServerEnvelope" where
  "gatewayError requestID err kind =
     (let (code, retryable) = mapError (Some err) kind in errorEnvelope requestID code (snd err) retryable)"

definition render_error :: "(stream_error \<Rightarrow> grpc_code \<times> string) \<Rightarrow> stream_error \<Rightarrow> grpc_code \<times> string" where
  "render_error rd e = (case e of HText t \<Rightarrow> (CodeUnknown, t) | _ \<Rightarrow> rd e)"

section \<open>Requests\<close>

text \<open>A payload whose message is missing is \<open>None\<close> or \<open>False\<close>.\<close>

datatype pb_client_payload =
    CLogin "(string \<times> string) option" | CRegister "(string \<times> string \<times> string) option" | CQuickEnter "(string \<times> string) option"
  | CMove "pb_Direction option" | CAttack bool | CAttackBoss bool | CHeal bool | CBuyItem "string option" | CSwitchMap "string option"
  | CLogout bool | CNothing

record pb_ClientEnvelope =
  cq_RequestId :: u64
  cq_Payload :: pb_client_payload

definition parseDirection :: "pb_Direction \<Rightarrow> string + string" where
  "parseDirection direction =
     (case direction of
        DIRECTION_UP \<Rightarrow> Inr DirUp
      | DIRECTION_DOWN \<Rightarrow> Inr DirDown
      | DIRECTION_LEFT \<Rightarrow> Inr DirLeft
      | DIRECTION_RIGHT \<Rightarrow> Inr DirRight
      | DIRECTION_UNSPECIFIED \<Rightarrow> Inl (text_bad_direction @ ''DIRECTION_UNSPECIFIED''))"

definition authenticateStream ::
    "('s, 'd) redis \<Rightarrow> 'd json \<Rightarrow> 't sql \<Rightarrow> hasher \<Rightarrow> (string \<Rightarrow> process) \<Rightarrow> (gateway_text \<Rightarrow> string) \<Rightarrow> ('s, 't) gio \<Rightarrow> pb_client_payload
     \<Rightarrow> Cluster \<Rightarrow> ('s, 't) backend \<Rightarrow> ((string \<times> (stream_error + WorldState option)) \<times> Cluster \<times> ('s, 't) backend) option" where
  "authenticateStream R J Q H E say ev payload c en =
     (let enter = \<lambda>username r. map_option (\<lambda>(x, st). ((username, case x of Inl e \<Rightarrow> Inl (HBackend e) | Inr state \<Rightarrow> Inr state), st)) r
      in case payload of
           CLogin None \<Rightarrow> Some (([], Inl (HText text_no_login)), c, en)
         | CLogin (Some (username, password)) \<Rightarrow> enter username (Login R J Q H E say ev username password c en)
         | CRegister None \<Rightarrow> Some (([], Inl (HText text_no_register)), c, en)
         | CRegister (Some (username, password, confirm)) \<Rightarrow>
             (case Register_cluster Q H ev username password confirm en of
                (Some e, en) \<Rightarrow> Some ((username, Inl (HBackend e)), c, en)
              | (None, en) \<Rightarrow> enter username (Login R J Q H E say ev username password c en))
         | CQuickEnter None \<Rightarrow> Some (([], Inl (HText text_no_quick_enter)), c, en)
         | CQuickEnter (Some (username, password)) \<Rightarrow> enter username (QuickEnter R J Q H E say ev username password c en)
         | _ \<Rightarrow> Some (([], Inl (HText text_first_must_authenticate)), c, en))"

section \<open>Commands\<close>

definition run_logout ::
    "('s, 'd) redis \<Rightarrow> 'd json \<Rightarrow> 't sql \<Rightarrow> ('s, 't) gio \<Rightarrow> string \<Rightarrow> bool \<Rightarrow> Cluster \<Rightarrow> ('s, 't) backend
     \<Rightarrow> (store_error option \<times> bool \<times> Cluster \<times> ('s, 't) backend) option" where
  "run_logout R J Q ev username gone c en =
     (if gone then Some (None, True, c, en)
      else map_option (\<lambda>(r, st). (r, True, st)) (Logout R J Q ev username c en))"

definition accepted_as ::
    "string \<Rightarrow> bool \<Rightarrow> ((gateway_error + WorldState option) \<times> Cluster \<times> ('s, 't) backend) option
     \<Rightarrow> ((stream_error + string \<times> WorldState option \<times> bool) \<times> bool \<times> Cluster \<times> ('s, 't) backend) option" where
  "accepted_as message gone r =
     map_option (\<lambda>(x, st). (case x of Inl e \<Rightarrow> Inl (HBackend e) | Inr nxt \<Rightarrow> Inr (message, nxt, False), gone, st)) r"

text \<open>The command itself: the message of success, the state to show and whether the stream closes, or an error.\<close>

definition run_payload ::
    "('s, 'd) redis \<Rightarrow> 'd json \<Rightarrow> 't sql \<Rightarrow> (string \<Rightarrow> process) \<Rightarrow> (gateway_text \<Rightarrow> string) \<Rightarrow> ('s, 't) gio \<Rightarrow> string \<Rightarrow> pb_client_payload \<Rightarrow> bool
     \<Rightarrow> Cluster \<Rightarrow> ('s, 't) backend
     \<Rightarrow> ((stream_error + string \<times> WorldState option \<times> bool) \<times> bool \<times> Cluster \<times> ('s, 't) backend) option" where
  "run_payload R J Q E say ev username payload gone c en =
     (let refuse = \<lambda>text. Some (Inl (HText text), gone, c, en)
      in case payload of
           CMove None \<Rightarrow> refuse text_no_move
         | CMove (Some direction) \<Rightarrow>
             (case parseDirection direction of
                Inl text \<Rightarrow> refuse text
              | Inr dir \<Rightarrow> accepted_as text_moved gone (Move R J ev username dir c en))
         | CAttack present \<Rightarrow>
             if \<not> present then refuse text_no_attack
             else accepted_as text_attacked gone (Attack_cluster R J say ev username c en)
         | CAttackBoss present \<Rightarrow>
             if \<not> present then refuse text_no_boss_attack
             else accepted_as text_boss_attacked gone (AttackBoss_cluster R J say ev username c en)
         | CHeal present \<Rightarrow>
             if \<not> present then refuse text_no_heal
             else accepted_as text_healed gone (Heal_cluster R J say ev username c en)
         | CBuyItem item \<Rightarrow>
             if item = None \<or> TrimSpace (the item) = [] then refuse text_no_item
             else accepted_as text_bought gone (BuyItem_cluster R J Q say ev username (the item) c en)
         | CSwitchMap mapID \<Rightarrow>
             if mapID = None \<or> TrimSpace (the mapID) = [] then refuse text_no_map
             else accepted_as text_switched gone (SwitchMap R J Q E say ev username (the mapID) c en)
         | CLogout present \<Rightarrow>
             if \<not> present then refuse text_no_logout
             else map_option (\<lambda>(r, st). (case r of Some e \<Rightarrow> Inl (HStore e) | None \<Rightarrow> Inr (text_left, None, True), st))
                    (run_logout R J Q ev username gone c en)
         | CNothing \<Rightarrow> refuse text_no_command
         | _ \<Rightarrow> refuse text_already_authenticated)"

definition handleCommand ::
    "('s, 'd) redis \<Rightarrow> 'd json \<Rightarrow> 't sql \<Rightarrow> (string \<Rightarrow> process) \<Rightarrow> (gateway_text \<Rightarrow> string) \<Rightarrow> (stream_error \<Rightarrow> grpc_code \<times> string)
     \<Rightarrow> ('s, 't) gio \<Rightarrow> (nat \<Rightarrow> streamSender \<Rightarrow> streamSender) \<Rightarrow> bool \<Rightarrow> string \<Rightarrow> pb_ClientEnvelope option \<Rightarrow> bool
     \<Rightarrow> streamSender \<Rightarrow> Cluster \<Rightarrow> ('s, 't) backend \<Rightarrow> ((bool \<times> bool) \<times> bool \<times> streamSender \<times> Cluster \<times> ('s, 't) backend) option" where
  "handleCommand R J Q E say rd ev self pick username request gone s c en =
     (let requestID = (case request of None \<Rightarrow> 0 | Some q \<Rightarrow> cq_RequestId q)
      in if request = None \<or> requestID = 0
         then (case EnqueueControl pick (Some (errorEnvelope requestID ERROR_CODE_INVALID_REQUEST text_request_id_zero False)) (self 0 s) of
                 (None, _) \<Rightarrow> None
               | (Some enqueued, s) \<Rightarrow> Some ((False, enqueued), gone, s, c, en))
         else
           case run_payload R J Q E say ev username (cq_Payload (the request)) gone c en of
             None \<Rightarrow> None
           | Some (Inl err, gone, c, en) \<Rightarrow>
               (case EnqueueControl pick (Some (gatewayError requestID (render_error rd err) CommandError)) (self 0 s) of
                  (None, _) \<Rightarrow> None
                | (Some enqueued, s) \<Rightarrow> Some ((False, enqueued), gone, s, c, en))
           | Some (Inr (message, nxt, shouldClose), gone, c, en) \<Rightarrow>
               (case EnqueueControl pick (Some \<lparr>sv_RequestId = requestID, sv_Payload = PCommandResult message\<rparr>) (self 0 s) of
                  (None, _) \<Rightarrow> None
                | (Some False, s) \<Rightarrow> Some ((False, False), gone, s, c, en)
                | (Some True, s) \<Rightarrow>
                    Some ((shouldClose, True), gone, (if nxt = None then s else SubmitState nxt (self 1 s)), c, en)))"

section \<open>The state pump\<close>

text \<open>One tick: whether the pump goes on, and the last error it has reported.\<close>

definition pump_tick ::
    "('s, 'd) redis \<Rightarrow> 'd json \<Rightarrow> (gateway_text \<Rightarrow> string) \<Rightarrow> (stream_error \<Rightarrow> grpc_code \<times> string) \<Rightarrow> ('s, 't) gio
     \<Rightarrow> (nat \<Rightarrow> streamSender \<Rightarrow> streamSender) \<Rightarrow> bool \<Rightarrow> string \<Rightarrow> string \<Rightarrow> streamSender \<Rightarrow> Cluster \<Rightarrow> ('s, 't) backend
     \<Rightarrow> (bool \<times> string \<times> streamSender \<times> Cluster \<times> ('s, 't) backend) option" where
  "pump_tick R J say rd ev self pick username lastError s c en =
     (case SnapshotFor R J say ev 0 username c en of
        (Inr state, c, en) \<Rightarrow> Some (True, [], SubmitState state (self 0 s), c, en)
      | (Inl e, c, en) \<Rightarrow>
          let err = render_error rd (HBackend e)
          in if snd err = lastError then Some (True, lastError, s, c, en)
             else (case EnqueueControl pick (Some (gatewayError 0 err StateError)) (self 0 s) of
                     (None, _) \<Rightarrow> None
                   | (Some enqueued, s) \<Rightarrow> Some (enqueued, snd err, s, c, en)))"

section \<open>The stream\<close>

text \<open>
  What the main loop of a stream meets: the end of the sender, the end of the receiver, a message of the client,
  its orderly end, or a failure. A schedule that is used up is a loop that has not returned.
\<close>

datatype inbound = SenderDone | ReceiverDone | ClientEof | ClientFailed | ClientRequest "pb_ClientEnvelope option"

definition Finish :: "streamSender \<Rightarrow> streamSender" where
  "Finish s = Finish_next (Finish_next (Finish_next (Finish_next s)))"

fun stream_loop ::
    "('s, 'd) redis \<Rightarrow> 'd json \<Rightarrow> 't sql \<Rightarrow> (string \<Rightarrow> process) \<Rightarrow> (gateway_text \<Rightarrow> string) \<Rightarrow> (stream_error \<Rightarrow> grpc_code \<times> string)
     \<Rightarrow> (nat \<Rightarrow> ('s, 't) gio) \<Rightarrow> (nat \<Rightarrow> nat \<Rightarrow> streamSender \<Rightarrow> streamSender) \<Rightarrow> (nat \<Rightarrow> bool) \<Rightarrow> nat \<Rightarrow> string \<Rightarrow> inbound list \<Rightarrow> bool
     \<Rightarrow> streamSender \<Rightarrow> Cluster \<Rightarrow> ('s, 't) backend \<Rightarrow> (bool \<times> streamSender \<times> Cluster \<times> ('s, 't) backend) option" where
  "stream_loop R J Q E say rd evs self pick k username [] gone s c en = None"
| "stream_loop R J Q E say rd evs self pick k username (i # is) gone s c en =
     (case i of
        SenderDone \<Rightarrow>
          let s = self k 0 s
          in if sn_done s then Some (gone, s, c, en) else stream_loop R J Q E say rd evs self pick (Suc k) username is gone s c en
      | ReceiverDone \<Rightarrow> Some (gone, s, c, en)
      | ClientEof \<Rightarrow> Some (gone, Finish s, c, en)
      | ClientFailed \<Rightarrow> Some (gone, s, c, en)
      | ClientRequest request \<Rightarrow>
          (case handleCommand R J Q E say rd (evs k) (self k) (pick k) username request gone s c en of
             None \<Rightarrow> None
           | Some ((shouldClose, enqueued), gone, s, c, en) \<Rightarrow>
               if \<not> enqueued then Some (gone, s, c, en)
               else if shouldClose then Some (gone, Finish s, c, en)
               else stream_loop R J Q E say rd evs self pick (Suc k) username is gone s c en))"

text \<open>
  The whole handler. \<open>sent\<close> says whether the first answer reaches the client. The result is what has been sent before
  the sender was started, and the sender; the deferred logout runs last, with the \<open>io\<close> of number 1.
\<close>

definition GameStream ::
    "('s, 'd) redis \<Rightarrow> 'd json \<Rightarrow> 't sql \<Rightarrow> hasher \<Rightarrow> (string \<Rightarrow> process) \<Rightarrow> (gateway_text \<Rightarrow> string) \<Rightarrow> (stream_error \<Rightarrow> grpc_code \<times> string)
     \<Rightarrow> (nat \<Rightarrow> ('s, 't) gio) \<Rightarrow> (nat \<Rightarrow> nat \<Rightarrow> streamSender \<Rightarrow> streamSender) \<Rightarrow> (nat \<Rightarrow> bool) \<Rightarrow> bool \<Rightarrow> pb_ClientEnvelope \<Rightarrow> inbound list
     \<Rightarrow> Cluster \<Rightarrow> ('s, 't) backend \<Rightarrow> (pb_ServerEnvelope list \<times> streamSender option \<times> Cluster \<times> ('s, 't) backend) option" where
  "GameStream R J Q H E say rd evs self pick sent first schedule c en =
     (if cq_RequestId first = 0
      then Some ([errorEnvelope 0 ERROR_CODE_INVALID_REQUEST text_request_id_zero False], None, c, en)
      else case authenticateStream R J Q H E say (evs 0) (cq_Payload first) c en of
             None \<Rightarrow> None
           | Some ((_, Inl err), c, en) \<Rightarrow>
               Some ([gatewayError (cq_RequestId first) (render_error rd err) AuthError], None, c, en)
           | Some ((_, Inr None), c, en) \<Rightarrow>
               Some ([errorEnvelope (cq_RequestId first) ERROR_CODE_INTERNAL text_no_state True], None, c, en)
           | Some ((username, Inr (Some initialState)), c, en) \<Rightarrow>
               if \<not> sent
               then map_option (\<lambda>(_, c, en). ([], None, c, en)) (Logout R J Q (evs 1) username c en)
               else
                 let hello = \<lparr>sv_RequestId = cq_RequestId first, sv_Payload = PAuthenticated (ToWorldState (Some initialState))\<rparr>
                 in case stream_loop R J Q E say rd evs self pick 2 username schedule False newStreamSender c en of
                      None \<Rightarrow> None
                    | Some (gone, s, c, en) \<Rightarrow>
                        map_option (\<lambda>(_, _, c, en). ([hello], Some (Abort s), c, en)) (run_logout R J Q (evs 1) username gone c en))"

section \<open>The status for operators\<close>

record pb_GatewayStatusResponse =
  sr_RoutingReady :: bool
  sr_TopologyVersion :: u64
  sr_Summary :: string
  sr_Nodes :: "pb_NodeView list"

definition GetGatewayStatus :: "(gateway_text \<Rightarrow> string) \<Rightarrow> Cluster \<Rightarrow> pb_GatewayStatusResponse" where
  "GetGatewayStatus say c =
     (let gatewayStatus = GatewayStatus_of say c
      in \<lparr>sr_RoutingReady = gs_RoutingReady gatewayStatus, sr_TopologyVersion = gs_TopologyVersion gatewayStatus,
          sr_Summary = gs_Summary gatewayStatus, sr_Nodes = map gw_ToNodeView (gs_Nodes gatewayStatus)\<rparr>)"

end
