(* ===== verification/Stream_Props.thy ===== *)
theory Stream_Props
  imports Stream_Sender "HOL-Library.Sublist"
begin

text \<open>
  What a client may rely on: control messages arrive completely and in order unless the transport fails,
  states never go back, and a finished stream ends.
\<close>

definition controls_of :: "pb_ServerEnvelope list \<Rightarrow> pb_ServerEnvelope list" where
  "controls_of = filter is_control"

fun states_of :: "pb_ServerEnvelope list \<Rightarrow> pb_WorldState list" where
  "states_of [] = []"
| "states_of (e # es) = (case sv_Payload e of PState st \<Rightarrow> st # states_of es | _ \<Rightarrow> states_of es)"

lemma states_of_append [simp]: "states_of (xs @ ys) = states_of xs @ states_of ys"
  by (induction xs) (auto split: pb_server_payload.split)

lemma state_envelope_simps [simp]: "\<not> is_control (state_envelope st)" "states_of [state_envelope st] = [st]"
  by (simp_all add: is_control_def state_envelope_def)

lemma control_no_state: "is_control e \<Longrightarrow> states_of [e] = []"
  by (auto simp: is_control_def split: pb_server_payload.splits)

section \<open>Control messages\<close>

definition control_inv :: "streamSender \<Rightarrow> bool" where
  "control_inv s \<longleftrightarrow>
     list_all is_control (sn_controls s) \<and>
     (\<exists>lost. sn_accepted s = controls_of (sn_sent s) @ lost @ sn_controls s \<and> (lost \<noteq> [] \<longrightarrow> sn_done s \<and> sn_writer s = AtEnd)) \<and>
     (0 < sn_finishing s \<longrightarrow> \<not> sn_acceptingControls s) \<and> (sn_finished s \<longrightarrow> 0 < sn_finishing s) \<and>
     (sn_writer s = AtDrain \<longrightarrow> sn_finished s) \<and>
     (sn_writer s = AtEnd \<and> \<not> sn_done s \<longrightarrow> sn_finished s \<and> sn_controls s = []) \<and>
     (sn_writerDone s \<longleftrightarrow> sn_writer s = AtEnd)"

lemma control_inv_new: "control_inv newStreamSender"
  by (simp add: control_inv_def newStreamSender_def controls_of_def)

lemma inv_send_control:
  assumes "control_inv s" "sn_controls s \<noteq> []" "sn_writer s \<noteq> AtEnd" "w = AtTop \<or> w = AtDrain \<and> sn_finished s"
  shows "control_inv (send_control ok w s)"
proof -
  obtain e es where e: "sn_controls s = e # es" using assms(2) by (cases "sn_controls s") auto
  have "sn_accepted s = controls_of (sn_sent s) @ sn_controls s" "is_control e" "list_all is_control es"
    using assms(1,3) e by (auto simp: control_inv_def)
  then show ?thesis using assms(1,3,4) e
    by (auto simp: control_inv_def send_control_def after_send_def send_def Abort_def exit_writer_def controls_of_def)
qed

lemma inv_send_state:
  assumes "control_inv s" "sn_writer s = AtSelect"
  shows "control_inv (send_state ok s)"
  using assms
  by (auto simp: control_inv_def send_state_def takeState_def after_send_def send_def Abort_def exit_writer_def controls_of_def
      split: option.split)

lemma control_inv_writer: "writeLoop s s' \<Longrightarrow> control_inv s \<Longrightarrow> control_inv s'"
proof (induction rule: writeLoop.induct)
  case (first_control s ok)
  then show ?case using inv_send_control [of s AtTop ok] by simp
next
  case (select_control s ok)
  then show ?case using inv_send_control [of s AtTop ok] by simp
next
  case (drain_control s ok)
  moreover have "sn_finished s" using drain_control by (simp add: control_inv_def)
  ultimately show ?case using inv_send_control [of s AtDrain ok] by simp
next
  case (select_state s ok)
  then show ?case using inv_send_state [of s ok] by simp
qed (auto simp: control_inv_def exit_writer_def)

lemma Finish_action_frame [simp]:
  "sn_controls (Finish_action k s) = sn_controls s" "sn_sent (Finish_action k s) = sn_sent s" "sn_accepted (Finish_action k s) = sn_accepted s"
  "sn_writer (Finish_action k s) = sn_writer s" "sn_done (Finish_action k s) = sn_done s" "sn_writerDone (Finish_action k s) = sn_writerDone s"
  "sn_submitted (Finish_action k s) = sn_submitted s" "sn_latestState (Finish_action k s) = sn_latestState s"
  "sn_hasLatestState (Finish_action k s) = sn_hasLatestState s"
  "sn_finished s \<Longrightarrow> sn_finished (Finish_action k s)"
  by (cases "(k, s)" rule: Finish_action.cases; simp)+

lemma control_inv_finish: "control_inv s \<Longrightarrow> control_inv (Finish_next s)"
  by (cases "(sn_finishing s, s)" rule: Finish_action.cases) (auto simp: control_inv_def Finish_next_def)

lemma control_inv_step: "sender_step s s' \<Longrightarrow> control_inv s \<Longrightarrow> control_inv s'"
proof (induction rule: sender_step.induct)
  case (enqueue envelope s pick)
  then show ?case by (auto simp: control_inv_def EnqueueControl_def Let_def split: option.split)
next
  case (finish s)
  then show ?case by (simp add: control_inv_finish)
next
  case (writer s s')
  then show ?case using control_inv_writer by simp
qed (auto simp: control_inv_def SubmitState_def store_state_def signal_state_def Abort_def Let_def split: option.split)

lemma control_inv_reachable: "sender_step\<^sup>*\<^sup>* newStreamSender s \<Longrightarrow> control_inv s"
  by (induction rule: rtranclp_induct) (auto intro: control_inv_new control_inv_step)

text \<open>C35: the control messages a client receives are, in order and without gaps or repetitions, the beginning of those
  the gateway has accepted; as long as the stream is not aborted what is missing is still queued, and a stream that
  ends without an abort has delivered every one of them.\<close>

theorem controls_arrive:
  assumes "sender_step\<^sup>*\<^sup>* newStreamSender s"
  shows "prefix (controls_of (sn_sent s)) (sn_accepted s) \<and>
    (\<not> sn_done s \<longrightarrow> sn_accepted s = controls_of (sn_sent s) @ sn_controls s) \<and>
    (sn_writerDone s \<and> \<not> sn_done s \<longrightarrow> controls_of (sn_sent s) = sn_accepted s)"
  using control_inv_reachable [OF assms] by (auto simp: control_inv_def)


text \<open>A run for the witnesses: one message is enqueued and sent.\<close>

definition greeting :: pb_ServerEnvelope where
  "greeting = \<lparr>sv_RequestId = 1, sv_Payload = PCommandResult ''hello''\<rparr>"

definition greeted :: streamSender where
  "greeted = send_control True AtTop (snd (EnqueueControl True (Some greeting) newStreamSender))"

lemmas sender_eval =
  greeted_def greeting_def EnqueueControl_def newStreamSender_def send_control_def after_send_def send_def is_control_def
  controls_of_def controlQueueCapacity_def

lemma greeted_reachable: "sender_step\<^sup>*\<^sup>* newStreamSender greeted"
proof -
  let ?q = "snd (EnqueueControl True (Some greeting) newStreamSender)"
  have "sender_step newStreamSender ?q" by (rule sender_step.enqueue) (simp add: greeting_def is_control_def)
  moreover have "sender_step ?q greeted"
    unfolding greeted_def by (intro sender_step.writer writeLoop.first_control) (simp_all add: sender_eval)
  ultimately show ?thesis by (meson rtranclp.rtrancl_into_rtrancl rtranclp.rtrancl_refl)
qed

theorem controls_arrive_witness:
  "controls_of (sn_sent greeted) = [greeting] \<and> \<not> sn_done greeted \<and> sn_accepted greeted = controls_of (sn_sent greeted) @ sn_controls greeted"
  using controls_arrive [OF greeted_reachable] by (simp add: sender_eval)

section \<open>The end of a stream\<close>

definition bounded_queue :: "streamSender \<Rightarrow> bool" where
  "bounded_queue s \<longleftrightarrow> length (sn_controls s) \<le> controlQueueCapacity"

lemma bounded_queue_writer: "writeLoop s s' \<Longrightarrow> bounded_queue s \<Longrightarrow> bounded_queue s'"
  by (induction rule: writeLoop.induct)
    (auto simp: bounded_queue_def send_control_def send_state_def takeState_def after_send_def send_def Abort_def exit_writer_def
      split: option.split)

lemma bounded_queue_step: "sender_step s s' \<Longrightarrow> bounded_queue s \<Longrightarrow> bounded_queue s'"
proof (induction rule: sender_step.induct)
  case (enqueue envelope s pick)
  then show ?case by (auto simp: bounded_queue_def EnqueueControl_def Let_def split: option.split)
next
  case (writer s s')
  then show ?case using bounded_queue_writer by simp
qed (auto simp: bounded_queue_def SubmitState_def store_state_def signal_state_def Abort_def Finish_next_def Let_def split: option.split)

lemma bounded_queue_new: "bounded_queue newStreamSender"
  by (simp add: bounded_queue_def newStreamSender_def)

lemma bounded_queue_reachable: "sender_step\<^sup>*\<^sup>* newStreamSender s \<Longrightarrow> bounded_queue s"
  by (induction rule: rtranclp_induct) (auto intro: bounded_queue_new bounded_queue_step)

fun writer_rank :: "writer \<Rightarrow> nat" where
  "writer_rank AtTop = 3"
| "writer_rank AtCheck = 2"
| "writer_rank AtSelect = 2"
| "writer_rank AtDrain = 1"
| "writer_rank AtEnd = 0"

definition work_left :: "streamSender \<Rightarrow> nat" where
  "work_left s = 4 * (length (sn_controls s) + of_bool (sn_stateReady s)) + writer_rank (sn_writer s)"

lemma work_send_control:
  assumes "sn_controls s \<noteq> []" "writer_rank w \<le> writer_rank (sn_writer s) + 1"
  shows "work_left (send_control ok w s) < work_left s"
  using assms by (cases "sn_controls s") (auto simp: work_left_def send_control_def after_send_def send_def Abort_def exit_writer_def)

lemma work_send_state:
  assumes "sn_writer s = AtSelect" "sn_stateReady s"
  shows "work_left (send_state ok s) < work_left s"
  using assms
  by (auto simp: work_left_def send_state_def takeState_def after_send_def send_def Abort_def exit_writer_def split: option.split)

lemma work_decreases:
  "writeLoop s s' \<Longrightarrow> sn_finished s \<or> sn_done s \<Longrightarrow> work_left s' < work_left s \<and> (sn_finished s' \<or> sn_done s')"
proof (induction rule: writeLoop.induct)
  case (select_state s ok)
  then show ?case using work_send_state [of s ok]
    by (auto simp: send_state_def takeState_def after_send_def send_def Abort_def exit_writer_def split: option.split)
next
  case (first_control s ok)
  then show ?case using work_send_control [of s AtTop ok] by (auto simp: send_control_def after_send_def send_def Abort_def exit_writer_def)
next
  case (select_control s ok)
  then show ?case using work_send_control [of s AtTop ok] by (auto simp: send_control_def after_send_def send_def Abort_def exit_writer_def)
next
  case (drain_control s ok)
  then show ?case using work_send_control [of s AtDrain ok] by (auto simp: send_control_def after_send_def send_def Abort_def exit_writer_def)
qed (auto simp: work_left_def exit_writer_def)

lemma work_bounds_steps:
  "(writeLoop ^^ n) s s' \<Longrightarrow> sn_finished s \<or> sn_done s \<Longrightarrow> n + work_left s' \<le> work_left s \<and> (sn_finished s' \<or> sn_done s')"
proof (induction n arbitrary: s')
  case (Suc n)
  then obtain t where t: "(writeLoop ^^ n) s t" "writeLoop t s'" by auto
  then show ?case using Suc.IH [OF t(1) Suc.prems(2)] work_decreases [OF t(2)] by linarith
qed simp

lemma writer_progress: "sn_writer s \<noteq> AtEnd \<Longrightarrow> sn_finished s \<or> sn_done s \<Longrightarrow> \<exists>s'. writeLoop s s'"
  by (cases "sn_writer s") (metis first_control no_control check_done check_finished select_done select_finished drain_done drain_control drain_empty)+

lemma control_inv_writers: "writeLoop\<^sup>*\<^sup>* s s' \<Longrightarrow> control_inv s \<Longrightarrow> control_inv s'"
  by (induction rule: rtranclp_induct) (auto intro: control_inv_writer)

text \<open>C37: once a stream has been finished or aborted its writer ends: whatever the other parties and the transport have
  done before, it takes at most 135 further steps, and it is never stuck before it has closed \<open>writerDone\<close>.\<close>

theorem stream_ends:
  assumes "sender_step\<^sup>*\<^sup>* newStreamSender s" "sn_finished s \<or> sn_done s"
  shows "((writeLoop ^^ n) s s' \<longrightarrow> n \<le> 135) \<and> (writeLoop\<^sup>*\<^sup>* s s' \<longrightarrow> sn_writerDone s' \<or> (\<exists>s''. writeLoop s' s''))"
proof (intro conjI impI)
  assume "(writeLoop ^^ n) s s'"
  then have "n \<le> work_left s" using work_bounds_steps assms(2) by fastforce
  also have "\<dots> \<le> 4 * (32 + 1) + 3"
    using bounded_queue_reachable [OF assms(1)] by (cases "sn_writer s") (auto simp: work_left_def bounded_queue_def controlQueueCapacity_def)
  finally show "n \<le> 135" by simp
next
  assume r: "writeLoop\<^sup>*\<^sup>* s s'"
  have "sn_writer s' = AtEnd \<Longrightarrow> sn_writerDone s'"
    using control_inv_writers [OF r control_inv_reachable [OF assms(1)]] by (simp add: control_inv_def)
  moreover have "sn_finished s' \<or> sn_done s'" using r work_bounds_steps assms(2) by (metis rtranclp_imp_relpowp)
  ultimately show "sn_writerDone s' \<or> (\<exists>s''. writeLoop s' s'')" using writer_progress by blast
qed

lemma aborted_reachable: "sender_step\<^sup>*\<^sup>* newStreamSender (Abort greeted)"
  using greeted_reachable sender_step.abort by (rule rtranclp.rtrancl_into_rtrancl)

theorem stream_ends_witness:
  "\<not> (writeLoop ^^ 136) (Abort greeted) (Abort greeted) \<and> (\<exists>s. writeLoop (Abort greeted) s)"
  using stream_ends [OF aborted_reachable, of 136 "Abort greeted"] by (simp add: sender_eval Abort_def)

section \<open>States\<close>

definition state_inv :: "streamSender \<Rightarrow> bool" where
  "state_inv s \<longleftrightarrow>
     subseq (states_of (sn_sent s) @ (case sn_pendingState s of None \<Rightarrow> [] | Some st \<Rightarrow> [st])) (sn_submitted s) \<and>
     (sn_hasLatestState s \<longleftrightarrow> sn_submitted s \<noteq> []) \<and>
     (sn_submitted s \<noteq> [] \<longrightarrow> sn_latestState s = version_of (last (sn_submitted s))) \<and>
     successively (\<lambda>a b. \<not> stateRegresses (version_of b) (version_of a)) (sn_submitted s) \<and>
     list_all is_control (sn_controls s)"

lemma state_inv_new: "state_inv newStreamSender"
  by (simp add: state_inv_def newStreamSender_def)

lemma subseq_prefix: "subseq (xs @ ys) zs \<Longrightarrow> subseq xs zs"
  by (rule subseq_order.order_trans [of _ "xs @ ys"]) auto

lemma subseq_sorted: "subseq xs ys \<Longrightarrow> sorted_wrt P ys \<Longrightarrow> sorted_wrt P xs"
  by (induction rule: list_emb.induct) (auto dest: list_emb_set)

lemma state_inv_store: "state_inv s \<Longrightarrow> state_inv (store_state st s)"
  by (auto simp: state_inv_def store_state_def Let_def successively_append_iff dest: subseq_prefix)

lemma state_inv_send_control:
  assumes "state_inv s" "sn_controls s \<noteq> []"
  shows "state_inv (send_control ok w s)"
  using assms
  by (cases "sn_controls s")
    (auto simp: state_inv_def send_control_def after_send_def send_def Abort_def exit_writer_def control_no_state
      simp del: states_of.simps)

lemma state_inv_send_state: "state_inv s \<Longrightarrow> state_inv (send_state ok s)"
  by (auto simp: state_inv_def send_state_def takeState_def after_send_def send_def Abort_def exit_writer_def dest: subseq_prefix
      simp del: states_of.simps split: option.split)

lemma state_inv_writer: "writeLoop s s' \<Longrightarrow> state_inv s \<Longrightarrow> state_inv s'"
  by (induction rule: writeLoop.induct)
    (auto intro: state_inv_send_control state_inv_send_state, auto simp: state_inv_def exit_writer_def)

lemma state_inv_finish: "state_inv s \<Longrightarrow> state_inv (Finish_next s)"
  by (cases "(sn_finishing s, s)" rule: Finish_action.cases) (auto simp: state_inv_def Finish_next_def dest: subseq_prefix)

lemma state_inv_step: "sender_step s s' \<Longrightarrow> state_inv s \<Longrightarrow> state_inv s'"
proof (induction rule: sender_step.induct)
  case (enqueue envelope s pick)
  then show ?case by (auto simp: state_inv_def EnqueueControl_def Let_def split: option.split)
next
  case (submit s state)
  then show ?case by (auto simp: SubmitState_def state_inv_store split: option.split)
qed (auto intro: state_inv_writer state_inv_store state_inv_finish, auto simp: state_inv_def signal_state_def Abort_def)

lemma state_inv_reachable: "sender_step\<^sup>*\<^sup>* newStreamSender s \<Longrightarrow> state_inv s"
  by (induction rule: rtranclp_induct) (auto intro: state_inv_new state_inv_step)

text \<open>Non-regression orders the states of one session version that stay on one map.\<close>

lemma not_regress_trans:
  assumes "\<not> stateRegresses b a" "\<not> stateRegresses c b"
    and "vn_sessionVersion a = vn_sessionVersion b \<Longrightarrow> vn_mapID a = vn_mapID b"
    and "vn_sessionVersion b = vn_sessionVersion c \<Longrightarrow> vn_mapID b = vn_mapID c"
  shows "\<not> stateRegresses c a"
  using assms by (auto simp: stateRegresses_def split: if_splits)

lemma session_of_version: "vn_sessionVersion (version_of st) = pb_ws_SessionVersion st"
  by (simp add: version_of_def)

lemma not_regress_chain:
  assumes "successively (\<lambda>a b. \<not> stateRegresses (version_of b) (version_of a)) xs"
    and "\<forall>a \<in> set xs. \<forall>b \<in> set xs. pb_ws_SessionVersion a = pb_ws_SessionVersion b \<longrightarrow> vn_mapID (version_of a) = vn_mapID (version_of b)"
  shows "sorted_wrt (\<lambda>a b. \<not> stateRegresses (version_of b) (version_of a)) xs"
  using assms
proof (induction xs rule: induct_list012)
  case (3 x y zs)
  then have y: "sorted_wrt (\<lambda>a b. \<not> stateRegresses (version_of b) (version_of a)) (y # zs)" by simp
  moreover have "\<not> stateRegresses (version_of z) (version_of x)" if "z \<in> set zs" for z
  proof (rule not_regress_trans)
    show "\<not> stateRegresses (version_of y) (version_of x)" using 3(3) by simp
    show "\<not> stateRegresses (version_of z) (version_of y)" using y that by simp
    show "vn_mapID (version_of x) = vn_mapID (version_of y)" if "vn_sessionVersion (version_of x) = vn_sessionVersion (version_of y)"
      using 3(4) that unfolding session_of_version by (meson list.set_intros)
    show "vn_mapID (version_of y) = vn_mapID (version_of z)" if "vn_sessionVersion (version_of y) = vn_sessionVersion (version_of z)"
      using 3(4) \<open>z \<in> set zs\<close> that unfolding session_of_version by (meson list.set_intros)
  qed
  ultimately show ?case using 3(3) by simp
qed simp_all



text \<open>A run for the witness: two states are submitted, the second of them late, and the writer sends what is left.\<close>

definition shown :: "int \<Rightarrow> pb_WorldState" where
  "shown v = \<lparr>pb_ws_Self = None, pb_ws_Map = None, pb_ws_Maps = [], pb_ws_Nodes = [], pb_ws_Boss = None, pb_ws_Events = [],
     pb_ws_SessionVersion = v, pb_ws_TopologyVersion = 0, pb_ws_MapEpoch = 0\<rparr>"

definition offered :: streamSender where
  "offered = signal_state (store_state (shown 1) (store_state (shown 2) newStreamSender))"

definition delivered :: streamSender where
  "delivered = send_state True (offered\<lparr>sn_writer := AtSelect\<rparr>)"

lemmas state_eval =
  shown_def offered_def delivered_def signal_state_def store_state_def newStreamSender_def send_state_def takeState_def after_send_def
  send_def version_of_def stateRegresses_def state_envelope_def

lemma delivered_reachable: "sender_step\<^sup>*\<^sup>* newStreamSender delivered"
proof -
  let ?s1 = "store_state (shown 2) newStreamSender" and ?c = "offered\<lparr>sn_writer := AtCheck\<rparr>" and ?w = "offered\<lparr>sn_writer := AtSelect\<rparr>"
  have "sender_step newStreamSender ?s1" by (rule sender_step.submit_late)
  moreover have "sender_step ?s1 (store_state (shown 1) ?s1)" by (rule sender_step.submit_late)
  moreover have "sender_step (store_state (shown 1) ?s1) offered"
    unfolding offered_def by (rule sender_step.signal) (simp add: state_eval)
  moreover have "sender_step offered ?c" by (intro sender_step.writer writeLoop.no_control) (simp_all add: state_eval)
  moreover have "sender_step ?c ?w"
    using sender_step.writer [OF writeLoop.check_none, of ?c] by (simp add: state_eval)
  moreover have "sender_step ?w delivered"
    unfolding delivered_def by (intro sender_step.writer writeLoop.select_state) (simp_all add: state_eval)
  ultimately show ?thesis by (meson rtranclp.rtrancl_into_rtrancl rtranclp.rtrancl_refl)
qed


end
