(* ===== verification/Gateway_Inv.thy ===== *)
theory Gateway_Inv
  imports Gateway
begin

text \<open>
  The gateway as a system of goroutines. \<open>gateway_step\<close> lists its sections under a lock; an operation whose
  surroundings only take such steps takes such steps itself (\<open>gateway_call_steps\<close>), so that an invariant
  of the sections is an invariant of every interleaving of operations.
\<close>

section \<open>The locked sections\<close>

inductive gateway_step :: "Cluster \<Rightarrow> Cluster \<Rightarrow> bool" where
  apply_topology: "gateway_step c (snd (applyTopologyLocked topology c))"
| retarget: "gateway_step c (snd (reconcile_targets topology (gatewayOwnerTargets topology activeNodes) c))"
| connect: "\<not> bad_id addr \<Longrightarrow> gateway_step c (add_client nodeID addr c)"
| close: "gateway_step c (snd (Close_cluster c))"
| sessions: "gateway_step c (c\<lparr>cl_localSessions := ls\<rparr>)"
| boss: "gateway_step c (c\<lparr>cl_bossCache := bState, cl_bossHpCache := hp\<rparr>)"
| fill: "gateway_step c (fill_cache newCache c)"
| event: "gateway_step c (receive_event channel payload c)"

definition short_buffers :: "nat \<Rightarrow> (string, string list) alist \<Rightarrow> bool" where
  "short_buffers n bufs \<longleftrightarrow> (\<forall>k es. map_of bufs k = Some es \<longrightarrow> length es \<le> n)"

definition routed_inv :: "Cluster \<Rightarrow> bool" where
  "routed_inv c \<longleftrightarrow>
     (if cl_topologyLoaded c
      then Validate (Some (keys (cl_configs c))) (cl_topology c) = None \<and> cl_owners c = tp_Owners (cl_topology c)
      else cl_nodes c = [])"

definition pool_inv :: "Cluster \<Rightarrow> bool" where
  "pool_inv c \<longleftrightarrow>
     (\<forall>nodeID client. map_of (cl_nodes c) nodeID = Some client \<longrightarrow>
        gc_id client = nodeID \<and> map_of (cl_nodeAddrs c) nodeID = Some (gc_addr client) \<and>
        map_of (cl_nodeTargets c) nodeID = Some (gc_addr client) \<and> \<not> bad_id (gc_addr client))"

definition events_inv :: "Cluster \<Rightarrow> bool" where
  "events_inv c \<longleftrightarrow> length (cl_globalEvents c) \<le> 3 \<and> short_buffers 3 (cl_mapEvents c) \<and> short_buffers 2 (cl_userEvents c)"

lemma new_cluster_inv: "newCluster True True runtime = Inr c \<Longrightarrow> routed_inv c \<and> pool_inv c \<and> events_inv c"
  by (auto simp: newCluster_def routed_inv_def pool_inv_def events_inv_def short_buffers_def)

text \<open>What a retargeting leaves in the pool is wanted.\<close>

lemma keep_wanted_loop:
  assumes "map_of (cl_nodes (fold (drop_unwanted targets) xs c)) i = Some client"
  shows "map_of (cl_nodes c) i = Some client"
    "i \<in> set xs \<Longrightarrow> map_of targets i \<noteq> None \<and> get_or [] (cl_nodeAddrs c) i = get_or [] targets i"
    "map_of (cl_nodeAddrs (fold (drop_unwanted targets) xs c)) i = map_of (cl_nodeAddrs c) i"
proof -
  have "map_of (cl_nodes c) i = Some client \<and>
    (i \<in> set xs \<longrightarrow> map_of targets i \<noteq> None \<and> get_or [] (cl_nodeAddrs c) i = get_or [] targets i) \<and>
    map_of (cl_nodeAddrs (fold (drop_unwanted targets) xs c)) i = map_of (cl_nodeAddrs c) i"
    using assms
  proof (induction xs arbitrary: c)
    case (Cons x xs)
    let ?gone = "map_of targets x = None \<or> get_or [] (cl_nodeAddrs c) x \<noteq> get_or [] targets x"
    have IH: "map_of (cl_nodes (drop_unwanted targets x c)) i = Some client"
      "i \<in> set xs \<Longrightarrow> map_of targets i \<noteq> None \<and> get_or [] (cl_nodeAddrs (drop_unwanted targets x c)) i = get_or [] targets i"
      "map_of (cl_nodeAddrs (fold (drop_unwanted targets) (x # xs) c)) i = map_of (cl_nodeAddrs (drop_unwanted targets x c)) i"
      using Cons.IH [of "drop_unwanted targets x c"] Cons.prems by auto
    show ?case
    proof (cases ?gone)
      case True
      then have d: "drop_unwanted targets x c = c\<lparr>cl_nodes := AList.delete x (cl_nodes c), cl_nodeAddrs := AList.delete x (cl_nodeAddrs c)\<rparr>"
        by (simp add: drop_unwanted_def)
      have "i \<noteq> x" using IH(1) by (auto simp: d)
      with IH show ?thesis unfolding d by (simp add: get_or_def)
    next
      case False
      then have "drop_unwanted targets x c = c" by (auto simp: drop_unwanted_def)
      with IH False show ?thesis by auto
    qed
  qed simp
  then show "map_of (cl_nodes c) i = Some client"
    "i \<in> set xs \<Longrightarrow> map_of targets i \<noteq> None \<and> get_or [] (cl_nodeAddrs c) i = get_or [] targets i"
    "map_of (cl_nodeAddrs (fold (drop_unwanted targets) xs c)) i = map_of (cl_nodeAddrs c) i" by blast+
qed

lemma keep_wanted_pool:
  assumes "map_of (cl_nodes (keep_wanted targets c)) i = Some client"
  shows "map_of (cl_nodes c) i = Some client" "map_of (cl_nodeAddrs (keep_wanted targets c)) i = map_of (cl_nodeAddrs c) i"
    "map_of targets i = Some (get_or [] (cl_nodeAddrs c) i)"
proof -
  note loop = keep_wanted_loop [OF assms [unfolded keep_wanted_def]]
  show n: "map_of (cl_nodes c) i = Some client" by (rule loop(1))
  show "map_of (cl_nodeAddrs (keep_wanted targets c)) i = map_of (cl_nodeAddrs c) i" unfolding keep_wanted_def by (rule loop(3))
  have "i \<in> set (keys (cl_nodes c))" using n by (metis has_key_def has_key_iff option.distinct(1))
  then show "map_of targets i = Some (get_or [] (cl_nodeAddrs c) i)" using loop(2) by (auto simp: get_or_def split: option.splits)
qed

lemma keep_wanted_frame: "\<exists>ns as. keep_wanted targets c = c\<lparr>cl_nodes := ns, cl_nodeAddrs := as\<rparr>"
proof -
  have "\<exists>ns as. fold (drop_unwanted targets) xs c = c\<lparr>cl_nodes := ns, cl_nodeAddrs := as\<rparr>" for xs
  proof (induction xs arbitrary: c)
    case Nil
    then show ?case by (intro exI [of _ "cl_nodes c"] exI [of _ "cl_nodeAddrs c"]) simp
  next
    case (Cons x xs)
    have "c = c\<lparr>cl_nodes := cl_nodes c, cl_nodeAddrs := cl_nodeAddrs c\<rparr>" by simp
    then obtain ns as where "drop_unwanted targets x c = c\<lparr>cl_nodes := ns, cl_nodeAddrs := as\<rparr>"
      unfolding drop_unwanted_def by metis
    then show ?case using Cons.IH [of "drop_unwanted targets x c"] by auto
  qed
  then show ?thesis by (simp add: keep_wanted_def)
qed

section \<open>The invariants\<close>

lemma routed_step: "gateway_step c c' \<Longrightarrow> routed_inv c \<Longrightarrow> routed_inv c'"
proof (induction rule: gateway_step.induct)
  case (retarget c topology activeNodes)
  obtain ns as where k: "keep_wanted (gatewayOwnerTargets topology activeNodes) (c\<lparr>cl_nodeTargets := gatewayOwnerTargets topology activeNodes\<rparr>)
      = c\<lparr>cl_nodeTargets := gatewayOwnerTargets topology activeNodes, cl_nodes := ns, cl_nodeAddrs := as\<rparr>"
    using keep_wanted_frame by blast
  then show ?case using retarget by (auto simp: reconcile_targets_def routed_inv_def Let_def split: if_splits)
qed (auto simp: routed_inv_def applyTopologyLocked_def add_client_def gatewayNodeStillWantedLocked_def Close_cluster_def fill_cache_def
    receive_event_def Clone_id Let_def split: option.split if_splits)

lemma pool_step: "gateway_step c c' \<Longrightarrow> pool_inv c \<Longrightarrow> pool_inv c'"
proof (induction rule: gateway_step.induct)
  case (retarget c topology activeNodes)
  let ?ts = "gatewayOwnerTargets topology activeNodes"
  obtain ns as where k: "keep_wanted ?ts (c\<lparr>cl_nodeTargets := ?ts\<rparr>) = c\<lparr>cl_nodeTargets := ?ts, cl_nodes := ns, cl_nodeAddrs := as\<rparr>"
    using keep_wanted_frame by blast
  have "pool_inv (keep_wanted ?ts (c\<lparr>cl_nodeTargets := ?ts\<rparr>))"
    unfolding pool_inv_def
  proof (intro allI impI)
    fix i client
    assume a: "map_of (cl_nodes (keep_wanted ?ts (c\<lparr>cl_nodeTargets := ?ts\<rparr>))) i = Some client"
    note p = keep_wanted_pool [OF a, simplified]
    have i: "gc_id client = i" "map_of (cl_nodeAddrs c) i = Some (gc_addr client)" "\<not> bad_id (gc_addr client)"
      using retarget p(1) by (simp_all add: pool_inv_def)
    with p(3) have "map_of ?ts i = Some (gc_addr client)" by (simp add: get_or_def)
    with i p(2) k show "gc_id client = i \<and> map_of (cl_nodeAddrs (keep_wanted ?ts (c\<lparr>cl_nodeTargets := ?ts\<rparr>))) i = Some (gc_addr client) \<and>
        map_of (cl_nodeTargets (keep_wanted ?ts (c\<lparr>cl_nodeTargets := ?ts\<rparr>))) i = Some (gc_addr client) \<and> \<not> bad_id (gc_addr client)"
      by simp
  qed
  then show ?case using retarget by (simp add: reconcile_targets_def Let_def)
next
  case (connect addr c nodeID)
  then have "addr \<noteq> []" by auto
  with connect show ?case
    by (auto simp: pool_inv_def add_client_def gatewayNodeStillWantedLocked_def get_or_def has_key_def split: option.splits)
qed (auto simp: pool_inv_def applyTopologyLocked_def Close_cluster_def fill_cache_def receive_event_def Let_def split: option.split if_splits)

lemma last_of_short: "length (last_of n xs) \<le> n"
  by (simp add: last_of_def)

lemma append_event_short: "length es \<le> n \<Longrightarrow> length (append_event n p es) \<le> n"
  unfolding append_event_def Let_def using last_of_short by auto

lemma short_buffers_append:
  "short_buffers n bufs \<Longrightarrow> short_buffers n (AList.update k (append_event n p (get_or [] bufs k)) bufs)"
  unfolding short_buffers_def by (auto simp: get_or_def append_event_short split: option.split)

lemma events_step: "gateway_step c c' \<Longrightarrow> events_inv c \<Longrightarrow> events_inv c'"
proof (induction rule: gateway_step.induct)
  case (retarget c topology activeNodes)
  obtain ns as where k: "keep_wanted (gatewayOwnerTargets topology activeNodes) (c\<lparr>cl_nodeTargets := gatewayOwnerTargets topology activeNodes\<rparr>)
      = c\<lparr>cl_nodeTargets := gatewayOwnerTargets topology activeNodes, cl_nodes := ns, cl_nodeAddrs := as\<rparr>"
    using keep_wanted_frame by blast
  then show ?case using retarget by (simp add: reconcile_targets_def events_inv_def Let_def)
qed (auto simp: events_inv_def applyTopologyLocked_def add_client_def Close_cluster_def fill_cache_def receive_event_def
    append_event_short short_buffers_append Let_def split: option.split)

section \<open>Operations are sequences of sections\<close>

definition stepping :: "('s, 't) gio \<Rightarrow> bool" where
  "stepping ev \<longleftrightarrow> (\<forall>k c. gateway_step\<^sup>*\<^sup>* c (gv_self ev k c))"

lemma steps_self: "stepping ev \<Longrightarrow> gateway_step\<^sup>*\<^sup>* c d \<Longrightarrow> gateway_step\<^sup>*\<^sup>* c (gv_self ev k d)"
  by (auto simp: stepping_def intro: rtranclp_trans)

lemma steps_then: "gateway_step\<^sup>*\<^sup>* c d \<Longrightarrow> gateway_step d d' \<Longrightarrow> gateway_step\<^sup>*\<^sup>* c d'"
  by (rule rtranclp.rtrancl_into_rtrancl)

lemmas steps_section =
  steps_then [OF _ gateway_step.sessions] steps_then [OF _ gateway_step.boss] steps_then [OF _ gateway_step.fill]
  steps_then [OF _ gateway_step.event] steps_then [OF _ gateway_step.connect] steps_then [OF _ gateway_step.close]

lemmas steps_intros = steps_self steps_section

lemma connect_pending_steps:
  assumes "stepping ev" "\<forall>(i, addr) \<in> set pending. \<not> bad_id addr" "gateway_step\<^sup>*\<^sup>* c d"
  shows "gateway_step\<^sup>*\<^sup>* c (connect_pending dial (gv_self ev) k pending d)"
  using assms(2,3)
proof (induction pending arbitrary: k d)
  case (Cons p pending)
  then show ?case using assms(1) by (cases p) (auto intro!: Cons.IH steps_intros)
qed simp

lemma update_mem: "(i, a) \<in> set (AList.update k v al) \<Longrightarrow> (i, a) = (k, v) \<or> (i, a) \<in> set al"
  by (induction al) (auto split: if_splits)

lemma targets_set: "(i, addr) \<in> set (gatewayOwnerTargets topology ns) \<Longrightarrow> \<not> bad_id addr"
proof -
  have "\<forall>(i, addr) \<in> set (fold (\<lambda>registration targets.
         if \<not> (nr_ID registration \<noteq> [] \<and> nr_ID registration \<in> set (map snd (tp_Owners topology))) then targets
         else if nr_Draining registration then targets
         else if bad_id (nr_Addr registration) then targets
         else if has_key targets (nr_ID registration) then targets
         else AList.update (nr_ID registration) (nr_Addr registration) targets) ns ts). \<not> bad_id addr"
    if "\<forall>(i, addr) \<in> set ts. \<not> bad_id addr" for ts
    using that
  proof (induction ns arbitrary: ts)
    case (Cons n ns)
    show ?case unfolding fold.simps o_apply
    proof (rule Cons.IH)
      show "\<forall>(i, addr) \<in> set (if \<not> (nr_ID n \<noteq> [] \<and> nr_ID n \<in> set (map snd (tp_Owners topology))) then ts
         else if nr_Draining n then ts else if bad_id (nr_Addr n) then ts else if has_key ts (nr_ID n) then ts
         else AList.update (nr_ID n) (nr_Addr n) ts). \<not> bad_id addr"
        using Cons.prems by (auto dest: update_mem)
    qed
  qed simp
  from this [of "[]"] show "(i, addr) \<in> set (gatewayOwnerTargets topology ns) \<Longrightarrow> \<not> bad_id addr"
    by (auto simp: gatewayOwnerTargets_def)
qed

lemma reconcile_steps:
  assumes "reconcileGatewayNodes R J dial ev topology d en = (r, c', en')" "stepping ev" "gateway_step\<^sup>*\<^sup>* c d"
  shows "gateway_step\<^sup>*\<^sup>* c c'"
proof (cases "GetActiveNodes R J (ev_net ev 1) (gv_lost ev 1) (ev_now ev 1) (out_store (ev_others ev 1 en))")
  case (Pair nodes e)
  show ?thesis
  proof (cases e)
    case (Some x)
    then show ?thesis using assms Pair by (simp add: reconcileGatewayNodes_def)
  next
    case None
    obtain pending c1 where t: "reconcile_targets topology (gatewayOwnerTargets topology nodes) (gv_self ev 1 d) = (pending, c1)" by fastforce
    have "gateway_step (gv_self ev 1 d) c1" using gateway_step.retarget [of "gv_self ev 1 d" topology nodes] t by simp
    then have "gateway_step\<^sup>*\<^sup>* c c1" using steps_self [OF assms(2,3)] by (rule steps_then [rotated])
    moreover have "\<forall>(i, addr) \<in> set pending. \<not> bad_id addr"
      using t targets_set by (fastforce simp: reconcile_targets_def Let_def split: if_splits)
    ultimately show ?thesis using assms(1,2) Pair None t connect_pending_steps by (auto simp: reconcileGatewayNodes_def)
  qed
qed

lemma loadTopology_steps:
  assumes "loadTopology R J dial ev d en = (r, c', en')" "stepping ev" "gateway_step\<^sup>*\<^sup>* c d"
  shows "gateway_step\<^sup>*\<^sup>* c c'"
proof (cases "LoadTopology R J (ev_net ev 0) (out_store (ev_others ev 0 en))")
  case (Inr found)
  show ?thesis
  proof (cases found)
    case (Some t)
    obtain x c1 where a: "applyTopologyLocked t (gv_self ev 0 d) = (x, c1)" by fastforce
    have "gateway_step (gv_self ev 0 d) c1" using gateway_step.apply_topology [of "gv_self ev 0 d" t] a by simp
    then have s: "gateway_step\<^sup>*\<^sup>* c c1" using steps_self [OF assms(2,3)] by (rule steps_then [rotated])
    obtain e c2 en2 where "reconcileGatewayNodes R J dial ev (Clone (cl_topology c1)) c1 (ev_others ev 0 en) = (e, c2, en2)"
      by (metis prod.exhaust)
    with reconcile_steps [OF this assms(2) s] s show ?thesis using assms(1) Inr Some a
      by (auto simp: loadTopology_def Let_def split: sum.splits)
  qed (use assms Inr in \<open>auto simp: loadTopology_def\<close>)
qed (use assms in \<open>auto simp: loadTopology_def\<close>)

lemma sessionNode_steps:
  "sessionNode R J ev k u d en = (r, c', en') \<Longrightarrow> stepping ev \<Longrightarrow> gateway_step\<^sup>*\<^sup>* c d \<Longrightarrow> gateway_step\<^sup>*\<^sup>* c c'"
  by (auto simp: sessionNode_def Let_def intro!: steps_intros split: option.splits)

lemma SnapshotFor_steps:
  assumes "SnapshotFor R J say ev k u d en = (r, c', en')" "stepping ev" "gateway_step\<^sup>*\<^sup>* c d"
  shows "gateway_step\<^sup>*\<^sup>* c c'"
proof -
  obtain x c1 en1 where s: "sessionNode R J ev k u d en = (x, c1, en1)" by (metis prod.exhaust)
  then have "gateway_step\<^sup>*\<^sup>* c c1" using sessionNode_steps assms(2,3) by blast
  with s assms(1,2) show ?thesis
    by (auto simp: SnapshotFor_def Let_def intro!: steps_intros split: sum.splits)
qed

lemma run_command_steps:
  assumes "run_command R J ev u call finish d en = Some (r, c', en')" "stepping ev" "gateway_step\<^sup>*\<^sup>* c d"
    and "\<And>session x c1 en1 r' c'' en''. finish session x c1 en1 = (r', c'', en'') \<Longrightarrow> gateway_step\<^sup>*\<^sup>* c c1 \<Longrightarrow> gateway_step\<^sup>*\<^sup>* c c''"
  shows "gateway_step\<^sup>*\<^sup>* c c'"
proof -
  obtain x c1 en1 where s: "sessionNode R J ev 0 u d en = (x, c1, en1)" by (metis prod.exhaust)
  then have "gateway_step\<^sup>*\<^sup>* c c1" using sessionNode_steps assms(2,3) by blast
  with s assms(1) assms(4) show ?thesis
    by (auto simp: run_command_def split: sum.splits option.splits)
qed

lemma Move_steps: "Move R J ev u dir d en = Some (r, c', en') \<Longrightarrow> stepping ev \<Longrightarrow> gateway_step\<^sup>*\<^sup>* c d \<Longrightarrow> gateway_step\<^sup>*\<^sup>* c c'"
  unfolding Move_def by (erule run_command_steps) auto

lemma Attack_steps:
  "Attack_cluster R J say ev u d en = Some (r, c', en') \<Longrightarrow> stepping ev \<Longrightarrow> gateway_step\<^sup>*\<^sup>* c d \<Longrightarrow> gateway_step\<^sup>*\<^sup>* c c'"
  unfolding Attack_cluster_def by (erule run_command_steps) (auto simp: Let_def intro: SnapshotFor_steps split: prod.splits if_splits)

lemma Heal_steps:
  "Heal_cluster R J say ev u d en = Some (r, c', en') \<Longrightarrow> stepping ev \<Longrightarrow> gateway_step\<^sup>*\<^sup>* c d \<Longrightarrow> gateway_step\<^sup>*\<^sup>* c c'"
  unfolding Heal_cluster_def by (erule run_command_steps) (auto intro: SnapshotFor_steps split: prod.splits if_splits)

lemma BuyItem_steps:
  "BuyItem_cluster R J Q say ev u item d en = Some (r, c', en') \<Longrightarrow> stepping ev \<Longrightarrow> gateway_step\<^sup>*\<^sup>* c d \<Longrightarrow> gateway_step\<^sup>*\<^sup>* c c'"
  unfolding BuyItem_cluster_def by (erule run_command_steps) (auto simp: Let_def intro: SnapshotFor_steps split: prod.splits if_splits)

lemma AttackBoss_steps:
  "AttackBoss_cluster R J say ev u d en = Some (r, c', en') \<Longrightarrow> stepping ev \<Longrightarrow> gateway_step\<^sup>*\<^sup>* c d \<Longrightarrow> gateway_step\<^sup>*\<^sup>* c c'"
  unfolding AttackBoss_cluster_def by (erule run_command_steps) (auto intro: SnapshotFor_steps split: prod.splits if_splits)

lemma Login_steps:
  assumes "Login R J Q H E say ev u pw d en = Some (r, c', en')" "stepping ev" "gateway_step\<^sup>*\<^sup>* c d"
  shows "gateway_step\<^sup>*\<^sup>* c c'"
  using assms
  by (auto simp: Login_def Let_def intro!: steps_intros dest!: SnapshotFor_steps split: sum.splits if_splits option.splits)

lemma drop_session_steps:
  "drop_session R ev u d en = (r, c', en') \<Longrightarrow> stepping ev \<Longrightarrow> gateway_step\<^sup>*\<^sup>* c d \<Longrightarrow> gateway_step\<^sup>*\<^sup>* c c'"
  by (auto simp: drop_session_def Let_def intro!: steps_intros split: prod.splits)

lemma Logout_steps:
  assumes "Logout R J Q ev u d en = Some (r, c', en')" "stepping ev" "gateway_step\<^sup>*\<^sup>* c d"
  shows "gateway_step\<^sup>*\<^sup>* c c'"
proof -
  have "gateway_step\<^sup>*\<^sup>* c (gv_self ev 0 d)" using assms by (intro steps_intros)
  with assms show ?thesis
    by (auto simp: Logout_def Let_def dest!: drop_session_steps split: option.splits sum.splits bool.splits)
qed

lemma settle_steps:
  "settle_session R J say ev u m i d en = (c', en') \<Longrightarrow> stepping ev \<Longrightarrow> gateway_step\<^sup>*\<^sup>* c d \<Longrightarrow> gateway_step\<^sup>*\<^sup>* c c'"
  by (auto simp: settle_session_def Let_def intro!: steps_intros split: option.splits)

lemma confirm_steps:
  assumes "switch_confirm R J Q say ev u m dst d en = Some (r, c', en')" "stepping ev" "gateway_step\<^sup>*\<^sup>* c d"
  shows "gateway_step\<^sup>*\<^sup>* c c'"
proof -
  have "gateway_step\<^sup>*\<^sup>* c (fst (settle_session R J say ev u m i d en1))" for i en1
    using settle_steps [of R J say ev u m i d en1] assms(2,3) by (metis prod.collapse)
  with assms show ?thesis
    by (auto simp: switch_confirm_def Let_def case_prod_beta intro: rtranclp_trans dest!: SnapshotFor_steps
        split: option.splits sum.splits bool.splits)
qed

lemma SwitchMap_steps:
  assumes "SwitchMap R J Q E say ev u m d en = Some (r, c', en')" "stepping ev" "gateway_step\<^sup>*\<^sup>* c d"
  shows "gateway_step\<^sup>*\<^sup>* c c'"
proof -
  obtain x c1 en1 where s: "sessionNode R J ev 0 u d en = (x, c1, en1)" by (metis prod.exhaust)
  then have "gateway_step\<^sup>*\<^sup>* c c1" using sessionNode_steps assms(2,3) by blast
  then have "gateway_step\<^sup>*\<^sup>* c c1" "gateway_step\<^sup>*\<^sup>* c (gv_self ev 2 c1)" using assms(2) by (auto intro: steps_self)
  with s assms(1,2) show ?thesis
    by (auto simp: SwitchMap_def switch_transfer_def switch_arrive_def Let_def dest!: confirm_steps split: option.splits sum.splits bool.splits if_splits)
qed

lemma cache_round_steps:
  "cache_round R J E ev d en = (c', en') \<Longrightarrow> stepping ev \<Longrightarrow> gateway_step\<^sup>*\<^sup>* c d \<Longrightarrow> gateway_step\<^sup>*\<^sup>* c c'"
  by (auto simp: cache_round_def Let_def intro!: steps_intros split: sum.splits prod.splits if_splits)

lemma message_steps:
  assumes "eventLoop_message R J dial ev ch p d en = (c', en')" "stepping ev" "gateway_step\<^sup>*\<^sup>* c d"
  shows "gateway_step\<^sup>*\<^sup>* c c'"
proof (cases "ch = TopologyEventChannel")
  case True
  then obtain r where "loadTopology R J dial ev d en = (r, c', en')" using assms(1) by (metis eventLoop_message_def prod.collapse)
  then show ?thesis using loadTopology_steps assms(2,3) by blast
next
  case False
  then show ?thesis using assms by (auto simp: eventLoop_message_def intro!: steps_intros)
qed

lemma QuickEnter_steps:
  assumes "QuickEnter R J Q H E say ev u pw d en = Some (r, c', en')" "stepping ev" "gateway_step\<^sup>*\<^sup>* c d"
  shows "gateway_step\<^sup>*\<^sup>* c c'"
  using assms
  by (auto simp: QuickEnter_def dest!: Login_steps split: prod.splits option.splits gateway_error.splits account_error.splits)

section \<open>Runs of a gateway\<close>

text \<open>\<open>P\<close> is what is assumed of the surroundings of a call.\<close>

inductive gateway_call ::
    "(('s, 't) gio \<Rightarrow> bool) \<Rightarrow> ('s, 'd) redis \<Rightarrow> 'd json \<Rightarrow> 't sql \<Rightarrow> hasher \<Rightarrow> (string \<Rightarrow> process) \<Rightarrow> (gateway_text \<Rightarrow> string)
     \<Rightarrow> (string \<Rightarrow> string \<Rightarrow> bool) \<Rightarrow> Cluster \<times> ('s, 't) backend \<Rightarrow> Cluster \<times> ('s, 't) backend \<Rightarrow> bool"
  for P R J Q H E say dial where
  register: "P ev \<Longrightarrow> Register_cluster Q H ev u pw confirm en = (e, en') \<Longrightarrow> gateway_call P R J Q H E say dial (c, en) (c, en')"
| enter: "P ev \<Longrightarrow> QuickEnter R J Q H E say ev u pw c en = Some (r, st) \<Longrightarrow> gateway_call P R J Q H E say dial (c, en) st"
| login: "P ev \<Longrightarrow> Login R J Q H E say ev u pw c en = Some (r, st) \<Longrightarrow> gateway_call P R J Q H E say dial (c, en) st"
| logout: "P ev \<Longrightarrow> Logout R J Q ev u c en = Some (r1, st) \<Longrightarrow> gateway_call P R J Q H E say dial (c, en) st"
| move: "P ev \<Longrightarrow> Move R J ev u dir c en = Some (r, st) \<Longrightarrow> gateway_call P R J Q H E say dial (c, en) st"
| attack: "P ev \<Longrightarrow> Attack_cluster R J say ev u c en = Some (r, st) \<Longrightarrow> gateway_call P R J Q H E say dial (c, en) st"
| heal: "P ev \<Longrightarrow> Heal_cluster R J say ev u c en = Some (r, st) \<Longrightarrow> gateway_call P R J Q H E say dial (c, en) st"
| buy: "P ev \<Longrightarrow> BuyItem_cluster R J Q say ev u item c en = Some (r, st) \<Longrightarrow> gateway_call P R J Q H E say dial (c, en) st"
| attack_boss: "P ev \<Longrightarrow> AttackBoss_cluster R J say ev u c en = Some (r, st) \<Longrightarrow> gateway_call P R J Q H E say dial (c, en) st"
| switch: "P ev \<Longrightarrow> SwitchMap R J Q E say ev u m c en = Some (r, st) \<Longrightarrow> gateway_call P R J Q H E say dial (c, en) st"
| snapshot: "P ev \<Longrightarrow> SnapshotFor R J say ev 0 u c en = (r, st) \<Longrightarrow> gateway_call P R J Q H E say dial (c, en) st"
| load: "P ev \<Longrightarrow> loadTopology R J dial ev c en = (r2, st) \<Longrightarrow> gateway_call P R J Q H E say dial (c, en) st"
| refresh: "P ev \<Longrightarrow> cache_round R J E ev c en = st \<Longrightarrow> gateway_call P R J Q H E say dial (c, en) st"
| message: "P ev \<Longrightarrow> eventLoop_message R J dial ev channel payload c en = st \<Longrightarrow> gateway_call P R J Q H E say dial (c, en) st"
| close: "gateway_call P R J Q H E say dial (c, en) (snd (Close_cluster c), en)"

lemmas operation_steps = QuickEnter_steps Login_steps Logout_steps Move_steps Attack_steps Heal_steps BuyItem_steps AttackBoss_steps SwitchMap_steps
  SnapshotFor_steps loadTopology_steps cache_round_steps message_steps

lemma gateway_call_steps: "gateway_call stepping R J Q H E say dial st st' \<Longrightarrow> gateway_step\<^sup>*\<^sup>* (fst st) (fst st')"
proof (induction rule: gateway_call.induct)
  case (close c en)
  then show ?case by (simp add: gateway_step.close r_into_rtranclp)
next
  case (register ev u pw confirm en e en' c)
  then show ?case by simp
qed (metis operation_steps rtranclp.rtrancl_refl prod.collapse fst_conv)+

lemma gateway_run_steps: "(gateway_call stepping R J Q H E say dial)\<^sup>*\<^sup>* st st' \<Longrightarrow> gateway_step\<^sup>*\<^sup>* (fst st) (fst st')"
  by (induction rule: rtranclp_induct) (auto dest: gateway_call_steps intro: rtranclp_trans)

lemma gateway_invs:
  assumes "newCluster True True runtime = Inr c0" "gateway_step\<^sup>*\<^sup>* c0 c"
  shows "routed_inv c \<and> pool_inv c \<and> events_inv c"
  using assms(2)
proof (induction rule: rtranclp_induct)
  case base
  then show ?case by (rule new_cluster_inv [OF assms(1)])
qed (auto intro: routed_step pool_step events_step)

lemma version_step:
  "gateway_step c c' \<Longrightarrow> cl_topologyLoaded c \<Longrightarrow>
   cl_topologyLoaded c' \<and> tp_Version (cl_topology c) \<le> tp_Version (cl_topology c') \<and> cl_configs c' = cl_configs c"
proof (induction rule: gateway_step.induct)
  case (retarget c topology activeNodes)
  obtain ns as where k: "keep_wanted (gatewayOwnerTargets topology activeNodes) (c\<lparr>cl_nodeTargets := gatewayOwnerTargets topology activeNodes\<rparr>)
      = c\<lparr>cl_nodeTargets := gatewayOwnerTargets topology activeNodes, cl_nodes := ns, cl_nodeAddrs := as\<rparr>"
    using keep_wanted_frame by blast
  then show ?case using retarget by (simp add: reconcile_targets_def Let_def)
qed (auto simp: applyTopologyLocked_def add_client_def Close_cluster_def fill_cache_def receive_event_def Clone_id Let_def split: option.split)

lemma version_steps:
  "gateway_step\<^sup>*\<^sup>* c c' \<Longrightarrow> cl_topologyLoaded c \<Longrightarrow> cl_topologyLoaded c' \<and> tp_Version (cl_topology c) \<le> tp_Version (cl_topology c')"
  by (induction rule: rtranclp_induct) (auto dest: version_step intro: order_trans)

end
