(* ===== verification/Gateway_Switch.thy ===== *)
theory Gateway_Switch
  imports Gateway_Inv Node_RPC_Props
begin

text \<open>
  Where a player is after a map switch. The gateway takes the player off one node and puts it on another, with a
  compensation if the second step fails; every call may lose its request or its reply. The worlds of
  the nodes are read and written through \<open>world_at\<close> and \<open>set_world\<close>.
\<close>

definition world_at :: "NodeGRPCClient \<Rightarrow> string \<Rightarrow> ('s, 'x) outside_scheme \<Rightarrow> World option" where
  "world_at client mapID en = Option.bind (map_of (out_nodes en) (gc_addr client)) (\<lambda>n. map_of (ns_maps n) mapID)"

definition set_world :: "NodeGRPCClient \<Rightarrow> string \<Rightarrow> World \<Rightarrow> ('s, 'x) outside_scheme \<Rightarrow> ('s, 'x) outside_scheme" where
  "set_world client mapID w en =
     (case map_of (out_nodes en) (gc_addr client) of
        None \<Rightarrow> en
      | Some n \<Rightarrow> en\<lparr>out_nodes := AList.update (gc_addr client) (put_map mapID w n) (out_nodes en)\<rparr>)"

definition plays :: "string \<Rightarrow> NodeGRPCClient \<Rightarrow> string \<Rightarrow> ('s, 'x) outside_scheme \<Rightarrow> bool" where
  "plays u client mapID en \<longleftrightarrow> (\<exists>w. world_at client mapID en = Some w \<and> has_key (w_players w) u)"

text \<open>The node behind a client hosts the map and accepts writes under the epoch.\<close>

definition serves ::
    "('s, 'd) redis \<Rightarrow> 'd json \<Rightarrow> 's io \<Rightarrow> NodeGRPCClient \<Rightarrow> string \<Rightarrow> u64 \<Rightarrow> ('s, 'x) outside_scheme \<Rightarrow> bool" where
  "serves R J io client mapID epoch en \<longleftrightarrow>
     (\<exists>n. map_of (out_nodes en) (gc_addr client) = Some n \<and> ns_ID n = gc_id client \<and> has_key (ns_maps n) mapID \<and>
          beginWrite R J io 0 mapID epoch n (out_store en) = (None, out_store en))"

lemma update_same: "map_of al k = Some v \<Longrightarrow> AList.update k v al = al"
  by (induction al) auto

lemma beginWrite_put: "beginWrite R J io k m e (put_map m' w n) s = beginWrite R J io k m e n s"
  unfolding beginWrite_def requireAuthority_def put_map_simps ..

lemma world_at_set:
  "world_at client m en \<noteq> None \<Longrightarrow>
   world_at client' m' (set_world client m w en) = (if gc_addr client' = gc_addr client \<and> m' = m then Some w else world_at client' m' en)"
  by (cases "map_of (out_nodes en) (gc_addr client)") (auto simp: world_at_def set_world_def)

lemma set_world_same: "world_at client m en = Some w \<Longrightarrow> set_world client m w en = en"
proof (cases "map_of (out_nodes en) (gc_addr client)")
  case (Some n)
  moreover assume "world_at client m en = Some w"
  ultimately have "put_map m w n = n" by (simp add: world_at_def put_map_def update_same)
  with Some show ?thesis by (simp add: set_world_def update_same)
qed (simp add: set_world_def)

lemma serves_world: "serves R J io client m e en \<Longrightarrow> \<exists>w. world_at client m en = Some w"
  by (auto simp: serves_def world_at_def has_key_def)

lemma serves_set:
  "serves R J io client m e en \<Longrightarrow> serves R J io client m e (set_world client' m' w en)"
  by (auto simp: serves_def set_world_def has_key_def beginWrite_put split: option.split)

lemma plays_set:
  assumes "world_at client m en \<noteq> None"
  shows "plays u client' m' (set_world client m w en) \<longleftrightarrow>
    (if gc_addr client' = gc_addr client \<and> m' = m then has_key (w_players w) u else plays u client' m' en)"
  by (auto simp: plays_def world_at_set [OF assms])

section \<open>The three calls\<close>

definition lossy :: "net \<Rightarrow> 'r \<Rightarrow> 'e \<Rightarrow> 'e \<Rightarrow> (grpc_error + 'r) \<times> 'e" where
  "lossy net r en en' = (case net of ReqLost \<Rightarrow> (Inl Unavailable, en) | Delivered \<Rightarrow> (Inr r, en') | ReplyLost \<Rightarrow> (Inl Unavailable, en'))"

lemma remove_call:
  assumes "serves R J io client m e en" "world_at client m en = Some w" "m \<noteq> []" "e \<noteq> 0" "map_of (w_players w) u = Some p"
  shows "call_node (RemovePlayer_client R J io net (gc_id client) m u e) client en =
    Some (lossy net (FromPlayerState (Some (ToPlayerState (profileLocked w p))), True) en
      (set_world client m (bump_version (w\<lparr>w_players := AList.delete u (w_players w)\<rparr>)) en))"
  using assms
  by (cases net) (auto simp: serves_def world_at_def call_node_def client_defs server_defs rpc_call_def authority_new respond_def
      RemovePlayer_node_def on_map_def RemovePlayer_def profile_response_def profile_result_def set_world_def lossy_def update_same)

lemma add_call:
  assumes "serves R J io client m e en" "world_at client m en = Some w" "m \<noteq> []" "e \<noteq> 0" "TrimSpace (u_Username profile) \<noteq> []"
  shows "call_node (AddPlayer_client R J E io net (gc_id client) m e profile) client en =
    Some (lossy net () en
      (set_world client m (snd (AddOrRestorePlayer (se_rfc3339 E) (ev_now io 1) (FromPlayerState (Some (ToPlayerState profile))) w)) en))"
  using assms
  by (cases net) (auto simp: serves_def world_at_def call_node_def client_defs server_defs rpc_call_def authority_new
      AddPlayer_def ensureHostedMap_def set_world_def lossy_def update_same)

lemma profile_call:
  assumes "world_at client m en = Some w" "map_of (w_players w) u = Some p" "p_Alive p"
  shows "call_node (Profile_client now net m u) client en =
    Some (lossy net (FromPlayerState (Some (ToPlayerState (profileLocked w p))), True) en en)"
proof -
  obtain n where n: "map_of (out_nodes en) (gc_addr client) = Some n" "map_of (ns_maps n) m = Some w"
    using assms(1) by (auto simp: world_at_def bind_eq_Some_conv)
  have "refreshPlayerStateLocked now u w = w" using assms(2,3) by (simp add: refreshPlayerStateLocked_def)
  with assms(2) have "ProfileOf now u w = ((profileLocked w p, True), w)" by (simp add: ProfileOf_def)
  with n have "Profile now m u n = ((profileLocked w p, True), n)" by (simp add: Profile_def put_map_def update_same)
  with n show ?thesis
    by (cases net) (simp_all add: call_node_def Profile_client_def Profile_server_def rpc_call_def profile_response_def
        profile_result_def lossy_def update_same)
qed

section \<open>The switch\<close>

definition undisturbed_gateway :: "('s, 't) gio \<Rightarrow> bool" where
  "undisturbed_gateway ev \<longleftrightarrow> gv_self ev = (\<lambda>_ c. c) \<and> ev_others ev = (\<lambda>_ en. en)"

lemma cached_session:
  assumes "undisturbed_gateway ev" "map_of (cl_localSessions c) u = Some session" "route (gl_MapID session) c = Some (owner, node, epoch)"
  shows "sessionNode R J ev k u c en = (Inr (session\<lparr>gl_NodeID := owner\<rparr>, node, epoch), c, en)"
  using assms by (simp add: sessionNode_def undisturbed_gateway_def Let_def)

lemma route_epoch: "route m c = Some (owner, node, epoch) \<Longrightarrow> epoch \<noteq> 0"
  by (auto simp: route_def Let_def split: option.splits if_splits)

text \<open>After the transfer the gateway only touches sessions, profiles and its own caches.\<close>

lemma sessionNode_nodes: "undisturbed_gateway ev \<Longrightarrow> out_nodes (snd (snd (sessionNode R J ev k u c en))) = out_nodes en"
  by (auto simp: sessionNode_def undisturbed_gateway_def Let_def split: option.split)

lemma SnapshotFor_nodes: "undisturbed_gateway ev \<Longrightarrow> out_nodes (snd (snd (SnapshotFor R J say ev k u c en))) = out_nodes en"
  using sessionNode_nodes [of ev R J k u c en]
  by (auto simp: SnapshotFor_def Let_def split: prod.split sum.split)

lemma settle_nodes: "undisturbed_gateway ev \<Longrightarrow> out_nodes (snd (settle_session R J say ev u m i c en)) = out_nodes en"
  by (auto simp: settle_session_def undisturbed_gateway_def pushEvent_def at_store_def Let_def split: option.split)

lemma plays_nodes: "out_nodes en' = out_nodes en \<Longrightarrow> plays u client m en' = plays u client m en"
  by (simp add: plays_def world_at_def)

lemma confirm_nodes:
  assumes "undisturbed_gateway ev" "world_at (snd dst) m en = Some w" "map_of (w_players w) u = Some p" "p_Alive p"
  shows "\<exists>r c' en'. switch_confirm R J Q say ev u m dst c en = Some (r, c', en') \<and> out_nodes en' = out_nodes en"
proof -
  obtain c1 en1 where s: "settle_session R J say ev u m (gc_id (snd dst)) c en = (c1, en1)" by fastforce
  have n: "out_nodes en1 = out_nodes en" using settle_nodes [OF assms(1)] s by (metis snd_conv)
  have o: "ev_others ev = (\<lambda>_ en. en)" using assms(1) by (simp add: undisturbed_gateway_def)
  let ?en2 = "save_left Q ev 10 (fst dst) m (FromPlayerState (Some (ToPlayerState (profileLocked w p)))) en1"
  have n2: "out_nodes ?en2 = out_nodes en" using n by (simp add: save_left_def o)
  obtain r c2 en3 where f: "SnapshotFor R J say ev 11 u c1 ?en2 = (r, c2, en3)" by (metis prod.exhaust)
  have n3: "out_nodes en3 = out_nodes en" using SnapshotFor_nodes [OF assms(1)] f n2 by (metis snd_conv)
  show ?thesis
    using profile_call [OF assms(2-4), of "ev_now ev 6" "ev_net ev 6"] s f n3
    by (cases "ev_net ev 6") (simp_all add: switch_confirm_def o lossy_def)
qed

lemma wire_keeps_name: "u_Username (FromPlayerState (Some (ToPlayerState q))) = u_Username q"
  "u_Alive (FromPlayerState (Some (ToPlayerState q))) = u_Alive q"
  by (simp_all add: FromPlayerState_def ToPlayerState_def)

lemma added_player:
  assumes "u_Alive profile"
  shows "\<exists>q. map_of (w_players (snd (AddOrRestorePlayer f now profile w))) (u_Username profile) = Some q \<and> p_Alive q"
  using assms
  by (auto simp: AddOrRestorePlayer_def restored_player_def bump_version_def set_player_def Let_def case_prod_beta)

text \<open>The player is in hand: on no map, with the nodes ready on both sides.\<close>

lemma arrive_outcome:
  fixes R :: "('s, 'd) redis" and en :: "('s, 't) backend"
  assumes quiet: "undisturbed_gateway ev"
    and src: "serves R J (gv_node ev 5) src sm e en" "world_at src sm en = Some w" "\<not> has_key (w_players w) u"
    and dst: "serves R J (gv_node ev 4) dst dm e' en" "world_at dst dm en = Some v" "\<not> has_key (w_players v) u"
    and names: "sm \<noteq> []" "dm \<noteq> []" "dm \<noteq> sm" "e \<noteq> 0" "e' \<noteq> 0" "TrimSpace u \<noteq> []" "u_Username profile = u" "u_Alive profile"
  shows "\<exists>r c' en'. switch_arrive R J Q E say ev u dm (sm, src, e) (dstID, dst, e') profile c en = Some (r, c', en') \<and>
    (plays u src sm en' \<longleftrightarrow> ev_net ev 4 \<noteq> Delivered \<and> ev_net ev 5 \<noteq> ReqLost) \<and> (plays u dst dm en' \<longleftrightarrow> ev_net ev 4 \<noteq> ReqLost)"
proof -
  have o: "ev_others ev = (\<lambda>_ en. en)" using quiet by (simp add: undisturbed_gateway_def)
  let ?wire = "FromPlayerState (Some (ToPlayerState profile))"
  let ?v1 = "snd (AddOrRestorePlayer (se_rfc3339 (E (gc_addr dst))) (ev_now (gv_node ev 4) 1) ?wire v)"
  let ?w1 = "snd (AddOrRestorePlayer (se_rfc3339 (E (gc_addr src))) (ev_now (gv_node ev 5) 1) ?wire w)"
  let ?en1 = "set_world dst dm ?v1 en"
  have name: "u_Username ?wire = u" "u_Alive ?wire" using names(7,8) by (simp_all add: wire_keeps_name)
  obtain q where q: "map_of (w_players ?v1) u = Some q" "p_Alive q" using added_player [OF name(2)] name(1) by metis
  have ret: "has_key (w_players ?w1) u" using added_player [OF name(2)] name(1) by (metis has_key_def option.distinct(1))
  have s1: "world_at src sm ?en1 = Some w" "world_at dst dm ?en1 = Some ?v1" using src(2) dst(2) names(3) by (simp_all add: world_at_set)
  have p: "\<not> plays u src sm en" "\<not> plays u dst dm en" "plays u dst dm ?en1" "\<not> plays u src sm ?en1"
    using src(2,3) dst(2,3) s1 q(1) by (simp_all add: plays_def has_key_def)
  have trim: "TrimSpace (u_Username profile) \<noteq> []" using names(6,7) by simp
  note add = add_call [OF dst(1,2) names(2,5) trim, of "E (gc_addr dst)" "ev_net ev 4"]
  note back1 = add_call [OF src(1,2) names(1,4) trim, of "E (gc_addr src)" "ev_net ev 5"]
  note back2 = add_call [OF serves_set [OF src(1)] s1(1) names(1,4) trim, of "E (gc_addr src)" "ev_net ev 5"]
  show ?thesis
  proof (cases "ev_net ev 4")
    case Delivered
    obtain r c' en' where f: "switch_confirm R J Q say ev u dm (dstID, dst) c ?en1 = Some (r, c', en')" "out_nodes en' = out_nodes ?en1"
      using confirm_nodes [OF quiet, of "(dstID, dst)" dm ?en1] s1(2) q by fastforce
    have "plays u dst dm en'" "\<not> plays u src sm en'" using p(3,4) plays_nodes [OF f(2)] by simp_all
    with Delivered add f(1) show ?thesis by (simp add: switch_arrive_def o lossy_def)
  next
    case ReqLost
    then show ?thesis using add back1 p(1,2) names(3) ret src(2)
      by (cases "ev_net ev 5") (simp_all add: switch_arrive_def o lossy_def plays_set)
  next
    case ReplyLost
    then show ?thesis using add back2 p(3,4) names(3) ret s1(1)
      by (cases "ev_net ev 5") (simp_all add: switch_arrive_def o lossy_def plays_set)
  qed
qed

lemma transfer_outcome:
  fixes R :: "('s, 'd) redis" and en :: "('s, 't) backend"
  assumes quiet: "undisturbed_gateway ev"
    and src: "\<forall>k. serves R J (gv_node ev k) src sm e en" "world_at src sm en = Some w" "map_of (w_players w) u = Some p" "p_Alive p" "p_Username p = u"
    and dst: "\<forall>k. serves R J (gv_node ev k) dst dm e' en" "world_at dst dm en = Some v" "\<not> has_key (w_players v) u"
    and names: "sm \<noteq> []" "dm \<noteq> []" "dm \<noteq> sm" "e \<noteq> 0" "e' \<noteq> 0" "TrimSpace u \<noteq> []"
  shows "\<exists>r c' en'. switch_transfer R J Q E say ev u dm (sm, src, e) (dstID, dst, e') c en = Some (r, c', en') \<and>
    (plays u src sm en' \<longleftrightarrow> ev_net ev 3 = ReqLost \<or> ev_net ev 3 = Delivered \<and> ev_net ev 4 \<noteq> Delivered \<and> ev_net ev 5 \<noteq> ReqLost) \<and>
    (plays u dst dm en' \<longleftrightarrow> ev_net ev 3 = Delivered \<and> ev_net ev 4 \<noteq> ReqLost)"
proof -
  have o: "ev_others ev = (\<lambda>_ en. en)" using quiet by (simp add: undisturbed_gateway_def)
  let ?w1 = "bump_version (w\<lparr>w_players := AList.delete u (w_players w)\<rparr>)"
  let ?en1 = "set_world src sm ?w1 en"
  let ?prof = "FromPlayerState (Some (ToPlayerState (profileLocked w p)))"
  have name: "u_Username ?prof = u" "u_Alive ?prof" using src(4,5) by (simp_all add: wire_keeps_name) (simp_all add: profileLocked_def)
  have gone: "\<not> has_key (w_players ?w1) u" by (simp add: has_key_def bump_version_def)
  have at: "world_at src sm ?en1 = Some ?w1" "world_at dst dm ?en1 = Some v" using src(2) dst(2) names(3) by (simp_all add: world_at_set)
  have p: "plays u src sm en" "\<not> plays u dst dm en" "\<not> plays u src sm ?en1" "\<not> plays u dst dm ?en1"
    using src(2,3) dst(2,3) at gone by (simp_all add: plays_def has_key_def)
  note remove = remove_call [OF src(1) [rule_format, of 3] src(2) names(1,4) src(3), of "ev_net ev 3"]
  note arrive = arrive_outcome [OF quiet serves_set [OF src(1) [rule_format, of 5]] at(1) gone
      serves_set [OF dst(1) [rule_format, of 4]] at(2) dst(3) names name]
  show ?thesis
  proof (cases "ev_net ev 3")
    case Delivered
    then show ?thesis using remove arrive [of Q E say dstID c] by (simp add: switch_transfer_def o lossy_def)
  qed (use remove p in \<open>simp_all add: switch_transfer_def o lossy_def\<close>)
qed

text \<open>C11: where a player is after a map switch, for every way the network can treat its calls: still on the old map
  if the removal was lost or undone, on the new one if the removal was confirmed and the entry reached the
  node. So with a lost reply to the entry the player ends up on both maps, and with a lost reply to the
  removal, or a lost entry and a lost compensation, on none.\<close>

theorem switch_map_outcome:
  fixes en :: "('s, 't) backend"
  assumes quiet: "undisturbed_gateway ev" "ev_net ev 2 = Delivered"
    and routes: "map_of (cl_localSessions c) u = Some session" "route (gl_MapID session) c = Some (srcID, src, e)"
      "route m c = Some (dstID, dst, e')" "m \<noteq> gl_MapID session" "gl_MapID session \<noteq> []" "m \<noteq> []" "TrimSpace u \<noteq> []"
    and src: "\<forall>k. serves R J (gv_node ev k) src (gl_MapID session) e en" "world_at src (gl_MapID session) en = Some w" "wf_world w"
      "map_of (w_players w) u = Some p" "p_Alive p"
    and dst: "\<forall>k. serves R J (gv_node ev k) dst m e' en" "\<not> plays u dst m en"
  shows "\<exists>r c' en'. SwitchMap R J Q E say ev u m c en = Some (r, c', en') \<and>
    (plays u src (gl_MapID session) en' \<longleftrightarrow>
       ev_net ev 3 = ReqLost \<or> ev_net ev 3 = Delivered \<and> ev_net ev 4 \<noteq> Delivered \<and> ev_net ev 5 \<noteq> ReqLost) \<and>
    (plays u dst m en' \<longleftrightarrow> ev_net ev 3 = Delivered \<and> ev_net ev 4 \<noteq> ReqLost)"
proof -
  have o: "ev_others ev = (\<lambda>_ en. en)" "gv_self ev = (\<lambda>_ c. c)" using quiet(1) by (simp_all add: undisturbed_gateway_def)
  obtain v where v: "world_at dst m en = Some v" using serves_world dst(1) by blast
  with dst(2) have nv: "\<not> has_key (w_players v) u" by (simp add: plays_def)
  have name: "p_Username p = u" using wf_playerD [OF src(3,4)] by (simp add: wf_player_def)
  have alive: "u_Alive (FromPlayerState (Some (ToPlayerState (profileLocked w p))))"
    using src(5) unfolding wire_keeps_name by (simp add: profileLocked_def)
  note transfer = transfer_outcome [OF quiet(1) src(1,2,4,5) name dst(1) v nv routes(5,6,4) route_epoch [OF routes(2)] route_epoch [OF routes(3)] routes(7)]
  show ?thesis
    using transfer [of Q E say dstID c] cached_session [OF quiet(1) routes(1,2), of R J 0 en] routes(3)
      profile_call [OF src(2,4,5), of "ev_now ev 2" Delivered] alive
    by (simp add: SwitchMap_def o quiet(2) lossy_def)
qed

end
