(* ===== verification/Gateway_Props.thy ===== *)
theory Gateway_Props
  imports Gateway_Switch
begin

text \<open>What a gateway guarantees: routes come from one valid topology, events are shown completely, and a player's password survives.\<close>

section \<open>A small installation\<close>

definition duo_topo :: Topology where
  "duo_topo = \<lparr>tp_Version = 1, tp_LeaderTerm = 1, tp_Owners = [(''green'', ''n1''), (''cave'', ''n2'')],
               tp_MapEpochs = [(''green'', 1), (''cave'', 1)], tp_UpdatedAt = 5\<rparr>"

definition duo_store :: mem where
  "duo_store =
     \<lparr>m_keys = [(TopologyRedisKey, DTopology duo_topo),
                (MapFenceRedisKey ''green'', DFence \<lparr>fn_MapID = ''green'', fn_Owner = ''n1'', fn_Epoch = 1\<rparr>),
                (MapFenceRedisKey ''cave'', DFence \<lparr>fn_MapID = ''cave'', fn_Owner = ''n2'', fn_Epoch = 1\<rparr>)],
      m_hashes = [(''global_sessions'', [(''ann'', DSession \<lparr>gl_Username = ''ann'', gl_MapID = ''green'', gl_NodeID = ''n1'', gl_Version = 1\<rparr>)])],
      m_timed = [(registry_prefix @ ''n1'', (DNode \<lparr>nr_ID = ''n1'', nr_Addr = ''h1:1'', nr_MapID = ''green'', nr_Draining = False\<rparr>, 100)),
                 (registry_prefix @ ''n2'', (DNode \<lparr>nr_ID = ''n2'', nr_Addr = ''h2:1'', nr_MapID = ''cave'', nr_Draining = False\<rparr>, 100))],
      m_sent = []\<rparr>"

definition duo_nodes :: "(string, NodeService) alist" where
  "duo_nodes = [(''h1:1'', (demo_node ''n1'' duo_topo)\<lparr>ns_maps := [(''green'', small_world)]\<rparr>),
                (''h2:1'', (demo_node ''n2'' duo_topo)\<lparr>ns_maps := [(''cave'', small_world\<lparr>w_players := []\<rparr>)]\<rparr>)]"

definition duo :: "(mem, (string, UserRecord) alist) backend" where
  "duo = \<lparr>out_store = duo_store, out_nodes = duo_nodes, out_db = None\<rparr>"

definition quiet_gio :: "(nat \<Rightarrow> net) \<Rightarrow> time \<Rightarrow> ('s, 't) gio" where
  "quiet_gio nets now = \<lparr>ev_net = nets, ev_others = \<lambda>_ x. x, ev_now = \<lambda>_. now, gv_self = \<lambda>_ c. c, gv_lost = \<lambda>_ _. False,
     gv_down = \<lambda>_. False, gv_node = \<lambda>_. calm now\<rparr>"

lemma quiet_gio_simps [simp]:
  "ev_net (quiet_gio nets now) = nets" "ev_others (quiet_gio nets now) = (\<lambda>_ x. x)" "ev_now (quiet_gio nets now) k = now"
  "gv_self (quiet_gio nets now) = (\<lambda>_ c. c)" "gv_lost (quiet_gio nets now) k = (\<lambda>_. False)" "gv_down (quiet_gio nets now) k = False"
  "gv_node (quiet_gio nets now) k = calm now"
  by (simp_all add: quiet_gio_def)

definition fresh_gateway :: Cluster where
  "fresh_gateway =
     \<lparr>cl_nodes = [], cl_nodeAddrs = [], cl_nodeTargets = [], cl_closed = False, cl_owners = [],
      cl_topology = zero_Topology, cl_topologyLoaded = False, cl_configs = fold (\<lambda>cfg. AList.update (cfg_ID cfg) cfg) AvailableMaps [],
      cl_mapCache = [], cl_runtime = rc_Gateway DefaultRuntime, cl_bossCache = zero_BossState, cl_bossHpCache = 0,
      cl_globalEvents = [], cl_mapEvents = [], cl_userEvents = [], cl_localSessions = []\<rparr>"

definition duo_gateway :: Cluster where
  "duo_gateway = fresh_gateway
     \<lparr>cl_topology := duo_topo, cl_topologyLoaded := True, cl_owners := tp_Owners duo_topo,
      cl_nodes := [(''n1'', \<lparr>gc_id = ''n1'', gc_addr = ''h1:1''\<rparr>), (''n2'', \<lparr>gc_id = ''n2'', gc_addr = ''h2:1''\<rparr>)],
      cl_nodeAddrs := [(''n1'', ''h1:1''), (''n2'', ''h2:1'')], cl_nodeTargets := [(''n1'', ''h1:1''), (''n2'', ''h2:1'')]\<rparr>"

lemma fresh_new: "newCluster True True (rc_Gateway DefaultRuntime) = Inr fresh_gateway"
  by (simp add: newCluster_def fresh_gateway_def)

lemma fresh_configs: "keys (cl_configs fresh_gateway) = [''green'', ''cave'', ''ruins'']"
  by (simp add: fresh_gateway_def AvailableMaps_def buildGreenMap_def buildCaveMap_def buildRuinsMap_def Let_def)

lemma duo_valid: "Validate (Some [''green'', ''cave'', ''ruins'']) duo_topo = None"
  by code_simp

lemma duo_stored: "LoadTopology mr mem_json Delivered duo_store = Inr (Some duo_topo)"
proof -
  have "Validate None duo_topo = None" by code_simp
  then show ?thesis by (simp add: LoadTopology_def rpc_def duo_store_def mem_defs)
qed

lemma duo_registered:
  "GetActiveNodes mr mem_json Delivered (\<lambda>_. False) 6 duo_store =
     ([\<lparr>nr_ID = ''n1'', nr_Addr = ''h1:1'', nr_MapID = ''green'', nr_Draining = False\<rparr>,
       \<lparr>nr_ID = ''n2'', nr_Addr = ''h2:1'', nr_MapID = ''cave'', nr_Draining = False\<rparr>], None)"
  by (simp add: GetActiveNodes_def rpc_def duo_store_def mem_defs mem_tget_def List.map_filter_def registry_prefix_def)

lemma duo_loads:
  "loadTopology mr mem_json (\<lambda>_ _. True) (quiet_gio (\<lambda>_. Delivered) 6) fresh_gateway duo = (Inr True, duo_gateway, duo)"
proof -
  have g: "\<not> bad_id ''h1:1''" "\<not> bad_id ''h2:1''" by code_simp+
  have s: "out_store duo = duo_store" by (simp add: duo_def)
  have a: "applyTopologyLocked duo_topo fresh_gateway =
      (Inr True, fresh_gateway\<lparr>cl_topology := duo_topo, cl_topologyLoaded := True, cl_owners := tp_Owners duo_topo\<rparr>)"
    unfolding applyTopologyLocked_def fresh_configs duo_valid by (simp add: fresh_gateway_def Clone_id)
  show ?thesis
    by (simp add: loadTopology_def reconcileGatewayNodes_def s duo_stored duo_registered a)
      (simp add: reconcile_targets_def gatewayOwnerTargets_def keep_wanted_def add_client_def gatewayNodeStillWantedLocked_def
        duo_gateway_def fresh_gateway_def duo_topo_def g has_key_def get_or_def Clone_id)
qed

lemma duo_routes: "route ''green'' duo_gateway = Some (''n1'', \<lparr>gc_id = ''n1'', gc_addr = ''h1:1''\<rparr>, 1)"
  "route ''cave'' duo_gateway = Some (''n2'', \<lparr>gc_id = ''n2'', gc_addr = ''h2:1''\<rparr>, 1)"
  by (simp_all add: route_def duo_gateway_def duo_topo_def get_or_def Let_def)

section \<open>Routes\<close>

lemma route_facts:
  assumes "route mapID c = Some (owner, node, epoch)" "routed_inv c" "pool_inv c"
  shows "Validate (Some (keys (cl_configs c))) (cl_topology c) = None" "map_of (tp_Owners (cl_topology c)) mapID = Some owner"
    "map_of (tp_MapEpochs (cl_topology c)) mapID = Some epoch" "epoch \<noteq> 0" "gc_id node = owner" "\<not> bad_id (gc_addr node)"
proof -
  have r: "cl_topologyLoaded c" "owner = get_or [] (cl_owners c) mapID" "owner \<noteq> []" "epoch = get_or 0 (tp_MapEpochs (cl_topology c)) mapID"
    "epoch \<noteq> 0" "map_of (cl_nodes c) owner = Some node"
    using assms(1) by (auto simp: route_def Let_def split: option.splits if_splits)
  then have "cl_owners c = tp_Owners (cl_topology c)" using assms(2) by (simp add: routed_inv_def)
  with r show "map_of (tp_Owners (cl_topology c)) mapID = Some owner" "map_of (tp_MapEpochs (cl_topology c)) mapID = Some epoch" "epoch \<noteq> 0"
    by (auto simp: get_or_def split: option.splits)
  show "Validate (Some (keys (cl_configs c))) (cl_topology c) = None" using r(1) assms(2) by (simp add: routed_inv_def)
  show "gc_id node = owner" "\<not> bad_id (gc_addr node)" using r(6) assms(3) by (simp_all add: pool_inv_def)
qed

text \<open>C10: whatever operations of a gateway run, and however its goroutines and the other processes interleave with them, the
  gateway routes a map by one valid topology: to the owner and under the epoch of that topology, through a
  client of exactly that node; and the version of the topology never goes back.\<close>

theorem gateway_routes_by_topology:
  assumes "newCluster True True runtime = Inr c0" "(gateway_call stepping R J Q H E say dial)\<^sup>*\<^sup>* (c0, en0) (c1, en1)"
    and "(gateway_call stepping R J Q H E say dial)\<^sup>*\<^sup>* (c1, en1) (c, en)"
  shows "(route mapID c = Some (owner, node, epoch) \<longrightarrow>
      Validate (Some (keys (cl_configs c))) (cl_topology c) = None \<and> map_of (tp_Owners (cl_topology c)) mapID = Some owner \<and>
      map_of (tp_MapEpochs (cl_topology c)) mapID = Some epoch \<and> epoch \<noteq> 0 \<and> gc_id node = owner \<and> \<not> bad_id (gc_addr node)) \<and>
    (cl_topologyLoaded c1 \<longrightarrow> cl_topologyLoaded c \<and> tp_Version (cl_topology c1) \<le> tp_Version (cl_topology c))"
proof -
  have "gateway_step\<^sup>*\<^sup>* c0 c1" "gateway_step\<^sup>*\<^sup>* c1 c" using gateway_run_steps [OF assms(2)] gateway_run_steps [OF assms(3)] by simp_all
  then have "routed_inv c" "pool_inv c" using gateway_invs [OF assms(1)] rtranclp_trans by metis+
  then show ?thesis using route_facts [of mapID c owner node epoch] version_steps [OF \<open>gateway_step\<^sup>*\<^sup>* c1 c\<close>] by auto
qed

lemma duo_run: "(gateway_call stepping mr mem_json mem_sql plain_hash (\<lambda>_. demo_process) (\<lambda>_. []) (\<lambda>_ _. True))\<^sup>*\<^sup>* (fresh_gateway, duo) (duo_gateway, duo)"
proof (rule r_into_rtranclp)
  have "stepping (quiet_gio (\<lambda>_. Delivered) 6)" by (simp add: stepping_def)
  then show "gateway_call stepping mr mem_json mem_sql plain_hash (\<lambda>_. demo_process) (\<lambda>_. []) (\<lambda>_ _. True) (fresh_gateway, duo) (duo_gateway, duo)"
    using gateway_call.load [of stepping "quiet_gio (\<lambda>_. Delivered) 6"] duo_loads by blast
qed

theorem gateway_routes_by_topology_witness:
  "Validate (Some (keys (cl_configs duo_gateway))) (cl_topology duo_gateway) = None \<and>
   map_of (tp_Owners (cl_topology duo_gateway)) ''green'' = Some ''n1'' \<and> map_of (tp_MapEpochs (cl_topology duo_gateway)) ''green'' = Some 1"
  using gateway_routes_by_topology [OF fresh_new duo_run rtranclp.rtrancl_refl, of "''green''"] duo_routes(1) by blast

section \<open>Events\<close>

text \<open>The buffers of a gateway hold at most three global events, three of a map and two of a player, so the limit of
  eight in a snapshot never cuts: a player is shown all that is buffered for it, at most eight events.\<close>

theorem buffered_events_are_shown:
  assumes "newCluster True True runtime = Inr c0" "(gateway_call stepping R J Q H E say dial)\<^sup>*\<^sup>* (c0, en0) (c, en)"
  shows "player_events mapID u c = cl_globalEvents c @ get_or [] (cl_mapEvents c) mapID @ get_or [] (cl_userEvents c) u \<and>
    length (player_events mapID u c) \<le> 8"
proof -
  have "events_inv c" using gateway_invs [OF assms(1)] gateway_run_steps [OF assms(2)] by simp
  then have "length (cl_globalEvents c) \<le> 3" "length (get_or [] (cl_mapEvents c) mapID) \<le> 3" "length (get_or [] (cl_userEvents c) u) \<le> 2"
    by (auto simp: events_inv_def short_buffers_def get_or_def split: option.split)
  then show ?thesis by (simp add: player_events_def Let_def)
qed

lemma duo_hears:
  "(gateway_call stepping mr mem_json mem_sql plain_hash (\<lambda>_. demo_process) (\<lambda>_. []) (\<lambda>_ _. True))\<^sup>*\<^sup>* (fresh_gateway, duo)
     (receive_event ''events:global'' ''hi'' duo_gateway, duo)"
proof (rule rtranclp.rtrancl_into_rtrancl [OF duo_run])
  have "stepping (quiet_gio (\<lambda>_. Delivered) 6)" by (simp add: stepping_def)
  moreover have "eventLoop_message mr mem_json (\<lambda>_ _. True) (quiet_gio (\<lambda>_. Delivered) 6) ''events:global'' ''hi'' duo_gateway duo =
      (receive_event ''events:global'' ''hi'' duo_gateway, duo)"
    by (simp add: eventLoop_message_def TopologyEventChannel_def)
  ultimately show "gateway_call stepping mr mem_json mem_sql plain_hash (\<lambda>_. demo_process) (\<lambda>_. []) (\<lambda>_ _. True) (duo_gateway, duo)
      (receive_event ''events:global'' ''hi'' duo_gateway, duo)"
    using gateway_call.message [of stepping "quiet_gio (\<lambda>_. Delivered) 6"] by blast
qed

theorem buffered_events_are_shown_witness:
  "player_events ''green'' ''ann'' (receive_event ''events:global'' ''hi'' duo_gateway) = [''hi'']"
  using buffered_events_are_shown [OF fresh_new duo_hears, of "''green''" "''ann''"]
  by (simp add: receive_event_def append_event_def duo_gateway_def fresh_gateway_def get_or_def)

section \<open>The map switch, with a lost reply\<close>

definition ann_online :: Cluster where
  "ann_online = duo_gateway\<lparr>cl_localSessions := [(''ann'', \<lparr>gl_Username = ''ann'', gl_MapID = ''green'', gl_NodeID = ''n1'', gl_Version = 1\<rparr>)]\<rparr>"

abbreviation "client1 \<equiv> \<lparr>gc_id = ''n1'', gc_addr = ''h1:1''\<rparr>"
abbreviation "client2 \<equiv> \<lparr>gc_id = ''n2'', gc_addr = ''h2:1''\<rparr>"

lemma duo_fences:
  "RequireMapFence mr mem_json Delivered ''green'' ''n1'' 1 duo_store = None"
  "RequireMapFence mr mem_json Delivered ''cave'' ''n2'' 1 duo_store = None"
  by (simp_all add: RequireMapFence_def rpc_def duo_store_def mem_defs MapFenceRedisKey_def TopologyRedisKey_def MapFenceRedisKeyPrefix_def)

lemma duo_serves: "serves mr mem_json (calm 6) client1 ''green'' 1 duo" "serves mr mem_json (calm 6) client2 ''cave'' 1 duo"
  using duo_fences
  by (simp_all add: serves_def duo_def duo_nodes_def has_key_def beginWrite_None Require_None freshLocked_def demo_node_def NewNodeService_def
      duo_topo_def get_or_def IsZero_def zero_time_def second_def)

lemma route_session: "route m (c\<lparr>cl_localSessions := ls\<rparr>) = route m c"
  by (cases "map_of (cl_nodes c) (get_or [] (cl_owners c) m)") (simp_all add: route_def Let_def)

definition silent_entry :: "nat \<Rightarrow> net" where
  "silent_entry = (\<lambda>_. Delivered)(4 := ReplyLost)"

theorem switch_map_outcome_witness:
  "\<exists>r c' en'. SwitchMap mr mem_json mem_sql (\<lambda>_. demo_process) (\<lambda>_. []) (quiet_gio silent_entry 6) ''ann'' ''cave'' ann_online duo = Some (r, c', en') \<and>
     plays ''ann'' client1 ''green'' en' \<and> plays ''ann'' client2 ''cave'' en'"
proof -
  let ?ev = "quiet_gio silent_entry 6 :: (mem, (string, UserRecord) alist) gio"
  have nets: "silent_entry 2 = Delivered" "silent_entry 3 = Delivered" "silent_entry 4 = ReplyLost" "silent_entry 5 = Delivered"
    by (simp_all add: silent_entry_def)
  have quiet: "undisturbed_gateway ?ev" "ev_net ?ev 2 = Delivered" using nets by (simp_all add: undisturbed_gateway_def)
  have at: "world_at client1 ''green'' duo = Some small_world" "\<not> plays ''ann'' client2 ''cave'' duo"
    by (simp_all add: world_at_def plays_def duo_def duo_nodes_def has_key_def)
  have ann: "map_of (w_players small_world) ''ann'' = Some (hero ''ann'' 1 1)" "p_Alive (hero ''ann'' 1 1)"
    by (simp_all add: small_world_def hero_def)
  have routes: "map_of (cl_localSessions ann_online) ''ann'' = Some \<lparr>gl_Username = ''ann'', gl_MapID = ''green'', gl_NodeID = ''n1'', gl_Version = 1\<rparr>"
    "route ''green'' ann_online = Some (''n1'', client1, 1)" "route ''cave'' ann_online = Some (''n2'', client2, 1)"
    using duo_routes by (simp_all add: ann_online_def route_session)
  have trim: "TrimSpace ''ann'' \<noteq> []" by code_simp
  show ?thesis
    using switch_map_outcome [OF quiet routes(1) _ routes(3) _ _ _ trim _ _ small_wf ann _ at(2), of "''n1''" client1 1 mr mem_json
        mem_sql "\<lambda>_. demo_process" "\<lambda>_. []"] routes(2) duo_serves at(1) nets
    by simp
qed

section \<open>Late views\<close>

text \<open>The views a round of the cache loop has fetched are checked and kept in two sections. A topology that arrives between
  them clears the cache, and the views of the former owners are put back into it.\<close>

theorem late_views_survive:
  fixes net' :: "nat \<Rightarrow> net" and now :: time and t :: Topology
  defines "ev \<equiv> (quiet_gio net' now)\<lparr>gv_self := (\<lambda>k c. if k = 3 then snd (applyTopologyLocked t c) else c)\<rparr>"
  assumes "cl_topologyLoaded c" "Validate (Some (keys (cl_configs c))) t = None" "tp_Version (cl_topology c) < tp_Version t"
    and "fetch_maps E ev 10 (cl_nodes c) (cl_configs c) (cl_owners c) en = (newCache, en')"
  shows "\<exists>c'. cache_round R J E ev c en = (c', en') \<and> cl_topology c' = t \<and>
    cl_mapCache c' = fold (\<lambda>(mapID, cached). AList.update mapID cached) newCache []"
proof -
  have self: "gv_self ev 0 x = x" "gv_self ev (Suc 0) x = x" "gv_self ev 2 x = x" "gv_self ev 3 x = snd (applyTopologyLocked t x)" for x
    by (simp_all add: ev_def)
  have quiet: "ev_others ev k = (\<lambda>en. en)" for k by (simp add: ev_def)
  have new: "snd (applyTopologyLocked t (c\<lparr>cl_bossCache := b, cl_bossHpCache := hp\<rparr>)) =
      c\<lparr>cl_bossCache := b, cl_bossHpCache := hp, cl_topology := t, cl_topologyLoaded := True, cl_owners := tp_Owners t, cl_mapCache := []\<rparr>" for b hp
    using assms(2-4) by (simp add: applyTopologyLocked_def)
  have "snd (applyTopologyLocked t c) = c\<lparr>cl_topology := t, cl_topologyLoaded := True, cl_owners := tp_Owners t, cl_mapCache := []\<rparr>"
    using assms(2-4) by (simp add: applyTopologyLocked_def)
  then show ?thesis using assms(2,5) new
    by (auto simp: cache_round_def self quiet fill_cache_def Let_def split: sum.split)
qed

end
