(* ===== verification/Gateway_Stream_Props.thy ===== *)
theory Gateway_Stream_Props
  imports Gateway_Stream Stream_Props Gateway_Props
begin

text \<open>
  What a client of the game stream may rely on: every request of an authenticated stream is answered exactly once,
  under its own number and in the order of the requests. The state pump and the writer run beside the handler
  (\<open>pump_or_writer\<close>); what they enqueue carries the number 0, and only the handler finishes a stream.
\<close>

section \<open>The parties beside the handler\<close>

inductive pump_or_writer :: "streamSender \<Rightarrow> streamSender \<Rightarrow> bool" where
  pump_error: "sv_RequestId e = 0 \<Longrightarrow> is_control e \<Longrightarrow> pump_or_writer s (snd (EnqueueControl pick (Some e) s))"
| pump_state: "pump_or_writer s (SubmitState state s)"
| pump_late: "pump_or_writer s (store_state protobufState s)"
| pump_signal: "0 < sn_signals s \<Longrightarrow> pump_or_writer s (signal_state s)"
| other_writer: "writeLoop s s' \<Longrightarrow> pump_or_writer s s'"

lemma pump_or_writer_sender: "pump_or_writer s s' \<Longrightarrow> sender_step s s'"
  by (induction rule: pump_or_writer.induct) (auto intro: sender_step.intros)

definition answered :: "pb_ServerEnvelope list \<Rightarrow> u64 list" where
  "answered es = filter (\<lambda>i. i \<noteq> 0) (map sv_RequestId es)"

lemma answered_append [simp]: "answered (xs @ ys) = answered xs @ answered ys"
  by (simp add: answered_def)

lemma answered_prefix: "prefix xs ys \<Longrightarrow> prefix (answered xs) (answered ys)"
  by (auto simp: prefix_def)

text \<open>What the other parties leave alone: the answers, the right to enqueue, and an end once it has come.\<close>

definition undisturbed_answers :: "streamSender \<Rightarrow> streamSender \<Rightarrow> bool" where
  "undisturbed_answers s s' \<longleftrightarrow>
     prefix (sn_accepted s) (sn_accepted s') \<and> answered (sn_accepted s') = answered (sn_accepted s) \<and>
     sn_acceptingControls s' = sn_acceptingControls s \<and> (sn_done s \<longrightarrow> sn_done s')"

lemma undisturbed_refl [simp]: "undisturbed_answers s s"
  by (simp add: undisturbed_answers_def)

lemma undisturbed_trans: "undisturbed_answers s t \<Longrightarrow> undisturbed_answers t u \<Longrightarrow> undisturbed_answers s u"
  by (auto simp: undisturbed_answers_def)

lemma undisturbed_writer: "writeLoop s s' \<Longrightarrow> undisturbed_answers s s'"
  by (induction rule: writeLoop.induct)
    (auto simp: undisturbed_answers_def send_control_def send_state_def takeState_def after_send_def send_def Abort_def exit_writer_def
      split: option.split)

lemma undisturbed_submit: "undisturbed_answers s (SubmitState state s)" "undisturbed_answers s (store_state st s)"
  by (auto simp: undisturbed_answers_def SubmitState_def store_state_def Let_def split: option.split)

lemma undisturbed_step: "pump_or_writer s s' \<Longrightarrow> undisturbed_answers s s'"
  by (induction rule: pump_or_writer.induct)
    (auto simp: undisturbed_writer undisturbed_submit,
     auto simp: undisturbed_answers_def EnqueueControl_def signal_state_def answered_def Let_def)

lemma undisturbed_run: "pump_or_writer\<^sup>*\<^sup>* s s' \<Longrightarrow> undisturbed_answers s s' \<and> sender_step\<^sup>*\<^sup>* s s'"
proof (induction rule: rtranclp_induct)
  case base
  show ?case by (simp add: undisturbed_answers_def)
next
  case (step t u)
  then show ?case using undisturbed_trans undisturbed_step pump_or_writer_sender by (blast intro: rtranclp.rtrancl_into_rtrancl)
qed

section \<open>One request\<close>

lemma EnqueueControl_taken:
  "EnqueueControl pick (Some e) s = (Some True, s') \<Longrightarrow>
   sn_accepted s' = sn_accepted s @ [e] \<and> sn_acceptingControls s' = sn_acceptingControls s \<and> sn_done s' = sn_done s"
  by (auto simp: EnqueueControl_def Let_def split: if_splits)

lemma EnqueueControl_refused:
  "EnqueueControl pick (Some e) s = (Some False, s') \<Longrightarrow> s' = s \<and> (sn_acceptingControls s \<longrightarrow> sn_done s)"
  by (auto simp: EnqueueControl_def Let_def split: if_splits)

lemma EnqueueControl_sender: "is_control e \<Longrightarrow> EnqueueControl pick (Some e) s = (r, s') \<Longrightarrow> sender_step s s'"
  using sender_step.enqueue [of "Some e" s pick] by simp

lemma is_control_answers [simp]:
  "is_control (errorEnvelope i code message retryable)" "is_control (gatewayError i err kind)"
  "sv_RequestId (errorEnvelope i code message retryable) = i" "sv_RequestId (gatewayError i err kind) = i"
  by (simp_all add: is_control_def errorEnvelope_def gatewayError_def split: prod.split)

lemma accepted_as_open: "accepted_as message gone r = Some (Inr (m, nxt, close), rest) \<Longrightarrow> \<not> close"
  by (cases "fst (the r)") (auto simp: accepted_as_def)

lemma run_payload_close:
  assumes "run_payload R J Q E say ev username payload gone c en = Some (Inr (message, nxt, True), rest)"
  shows "message = text_left"
  using assms
  by (auto simp: run_payload_def Let_def dest: accepted_as_open
      split: pb_client_payload.splits option.splits sum.splits if_splits)

definition request_id :: "pb_ClientEnvelope option \<Rightarrow> u64" where
  "request_id request = (case request of None \<Rightarrow> 0 | Some q \<Rightarrow> cq_RequestId q)"

text \<open>The three ways a request is answered, as one: an envelope with its number goes to the sender.\<close>

lemma handleCommand_answer:
  assumes "handleCommand R J Q E say rd ev self pick username request gone s c en = Some ((close, enqueued), gone', s', c', en')"
  obtains e s1 where "sv_RequestId e = request_id request" "is_control e"
    "EnqueueControl pick (Some e) (self 0 s) = (Some enqueued, s1)"
    "s' = s1 \<or> (enqueued \<and> (\<exists>nxt. s' = SubmitState nxt (self 1 s1)))"
    "close \<Longrightarrow> enqueued \<and> sv_Payload e = PCommandResult text_left"
proof (cases "request = None \<or> request_id request = 0")
  case True
  then show ?thesis using assms that [of "errorEnvelope (request_id request) ERROR_CODE_INVALID_REQUEST text_request_id_zero False"]
    by (auto simp: handleCommand_def request_id_def Let_def split: prod.splits option.splits)
next
  case False
  then obtain q where q: "request = Some q" "cq_RequestId q \<noteq> 0" "request_id request = cq_RequestId q"
    by (auto simp: request_id_def split: option.splits)
  obtain x gone1 c1 en1 where run: "run_payload R J Q E say ev username (cq_Payload q) gone c en = Some (x, gone1, c1, en1)"
    using assms q by (auto simp: handleCommand_def Let_def split: option.splits)
  show ?thesis
  proof (cases x)
    case (Inl err)
    then show ?thesis using assms q run that [of "gatewayError (cq_RequestId q) (render_error rd err) CommandError"]
      by (auto simp: handleCommand_def Let_def split: prod.splits option.splits)
  next
    case (Inr y)
    obtain message nxt shouldClose where y: "y = (message, nxt, shouldClose)" by (cases y)
    have "shouldClose \<Longrightarrow> message = text_left" using run_payload_close run Inr y by (metis (full_types))
    then show ?thesis using assms q run Inr y that [of "\<lparr>sv_RequestId = cq_RequestId q, sv_Payload = PCommandResult message\<rparr>"]
      by (auto simp: handleCommand_def is_control_def Let_def split: prod.splits option.splits bool.splits if_splits)
  qed
qed

lemma handleCommand_sender:
  assumes "\<And>j t. pump_or_writer\<^sup>*\<^sup>* t (self j t)"
    and "handleCommand R J Q E say rd ev self pick username request gone s c en = Some ((close, enqueued), gone', s', c', en')"
  shows "sender_step\<^sup>*\<^sup>* s s'"
    and "enqueued \<Longrightarrow> answered (sn_accepted s') = answered (sn_accepted s) @ filter (\<lambda>i. i \<noteq> 0) [request_id request] \<and>
           sn_acceptingControls s' = sn_acceptingControls s \<and> (sn_done s \<longrightarrow> sn_done s') \<and>
           (close \<longrightarrow> (\<exists>e \<in> set (sn_accepted s'). sv_Payload e = PCommandResult text_left))"
    and "\<not> enqueued \<Longrightarrow> undisturbed_answers s s' \<and> \<not> close \<and> (sn_acceptingControls s \<longrightarrow> sn_done s')"
proof -
  obtain e s1 where e: "sv_RequestId e = request_id request" "is_control e"
      "EnqueueControl pick (Some e) (self 0 s) = (Some enqueued, s1)"
      "s' = s1 \<or> (enqueued \<and> (\<exists>nxt. s' = SubmitState nxt (self 1 s1)))"
      "close \<Longrightarrow> enqueued \<and> sv_Payload e = PCommandResult text_left"
    using handleCommand_answer [OF assms(2)] by metis
  have before: "undisturbed_answers s (self 0 s)" "sender_step\<^sup>*\<^sup>* s (self 0 s)" using undisturbed_run assms(1) by blast+
  have after: "undisturbed_answers s1 s'" "sender_step\<^sup>*\<^sup>* s1 s'"
    using e(4) undisturbed_run [OF assms(1) [of s1 1]]
    by (auto intro: undisturbed_trans undisturbed_submit rtranclp.rtrancl_into_rtrancl sender_step.submit)
  show "sender_step\<^sup>*\<^sup>* s s'"
    using before(2) EnqueueControl_sender [OF e(2,3)] after(2) by (meson rtranclp.rtrancl_into_rtrancl rtranclp_trans)
  show "answered (sn_accepted s') = answered (sn_accepted s) @ filter (\<lambda>i. i \<noteq> 0) [request_id request] \<and>
           sn_acceptingControls s' = sn_acceptingControls s \<and> (sn_done s \<longrightarrow> sn_done s') \<and>
           (close \<longrightarrow> (\<exists>e \<in> set (sn_accepted s'). sv_Payload e = PCommandResult text_left))" if "enqueued"
    using that e before(1) after(1) EnqueueControl_taken [of pick e "self 0 s" s1]
    by (auto simp: undisturbed_answers_def answered_def prefix_def)
  show "undisturbed_answers s s' \<and> \<not> close \<and> (sn_acceptingControls s \<longrightarrow> sn_done s')" if "\<not> enqueued"
    using that e before(1) after(1) EnqueueControl_refused [of pick e "self 0 s" s1]
    by (auto simp: undisturbed_answers_def)
qed

section \<open>A whole stream\<close>

definition asked :: "inbound list \<Rightarrow> u64 list" where
  "asked schedule = filter (\<lambda>i. i \<noteq> 0) (concat (map (\<lambda>i. case i of ClientRequest q \<Rightarrow> [request_id q] | _ \<Rightarrow> []) schedule))"

lemma asked_simps [simp]:
  "asked [] = []" "asked (ClientRequest q # is) = filter (\<lambda>i. i \<noteq> 0) [request_id q] @ asked is"
  "asked (SenderDone # is) = asked is" "asked (ReceiverDone # is) = asked is" "asked (ClientEof # is) = asked is"
  "asked (ClientFailed # is) = asked is" "asked (xs @ ys) = asked xs @ asked ys"
  by (simp_all add: asked_def)

lemma Finish_sender: "sender_step\<^sup>*\<^sup>* s (Finish s)" "sn_accepted (Finish s) = sn_accepted s" "sn_done (Finish s) = sn_done s"
proof -
  have "sender_step\<^sup>*\<^sup>* t (Finish_next t)" for t by (blast intro: sender_step.finish)
  then show "sender_step\<^sup>*\<^sup>* s (Finish s)" unfolding Finish_def by (meson rtranclp_trans)
  show "sn_accepted (Finish s) = sn_accepted s" "sn_done (Finish s) = sn_done s" by (simp_all add: Finish_def Finish_next_def)
qed

definition requests_then_end :: "inbound list \<Rightarrow> bool" where
  "requests_then_end schedule \<longleftrightarrow> (\<exists>qs. schedule = map ClientRequest qs @ [ClientEof])"

lemma requests_then_end_simps [simp]:
  "requests_then_end (ClientRequest q # is) = requests_then_end is" "requests_then_end (ClientEof # is) \<Longrightarrow> is = []"
  "\<not> requests_then_end (SenderDone # is)" "\<not> requests_then_end (ReceiverDone # is)" "\<not> requests_then_end (ClientFailed # is)"
  by (auto simp: requests_then_end_def Cons_eq_append_conv Cons_eq_map_conv)

text \<open>What a run of the main loop has answered when it returns.\<close>

definition loop_answers :: "streamSender \<Rightarrow> inbound list \<Rightarrow> streamSender \<Rightarrow> bool" where
  "loop_answers s schedule s' \<longleftrightarrow>
     sender_step\<^sup>*\<^sup>* s s' \<and> (sn_done s \<longrightarrow> sn_done s') \<and>
     (\<exists>n. answered (sn_accepted s') = answered (sn_accepted s) @ take n (asked schedule) \<and>
          (requests_then_end schedule \<and> sn_acceptingControls s \<and> \<not> sn_done s' \<longrightarrow>
           length (asked schedule) \<le> n \<or> (\<exists>e \<in> set (sn_accepted s'). sv_Payload e = PCommandResult text_left)))"

lemma loop_answers_end:
  assumes "sender_step\<^sup>*\<^sup>* s s'" "answered (sn_accepted s') = answered (sn_accepted s)" "sn_done s \<longrightarrow> sn_done s'"
    and "requests_then_end schedule \<longrightarrow> asked schedule = [] \<or> (sn_acceptingControls s \<longrightarrow> sn_done s') \<or>
      (\<exists>e \<in> set (sn_accepted s'). sv_Payload e = PCommandResult text_left)"
  shows "loop_answers s schedule s'"
  using assms by (auto simp: loop_answers_def intro!: exI [of _ 0])

lemma loop_answers_later:
  assumes "undisturbed_answers s t" "sender_step\<^sup>*\<^sup>* s t" "loop_answers t is s'" "asked (i # is) = asked is" "\<not> requests_then_end (i # is)"
  shows "loop_answers s (i # is) s'"
  using assms by (auto simp: loop_answers_def undisturbed_answers_def intro: rtranclp_trans)

lemma loop_answers_request:
  assumes "sender_step\<^sup>*\<^sup>* s t" "answered (sn_accepted t) = answered (sn_accepted s) @ filter (\<lambda>i. i \<noteq> 0) [request_id q]"
    and "sn_acceptingControls t = sn_acceptingControls s" "sn_done s \<longrightarrow> sn_done t" "loop_answers t is s'"
  shows "loop_answers s (ClientRequest q # is) s'"
proof -
  obtain n where n: "answered (sn_accepted s') = answered (sn_accepted t) @ take n (asked is)"
      "requests_then_end is \<and> sn_acceptingControls t \<and> \<not> sn_done s' \<longrightarrow>
       length (asked is) \<le> n \<or> (\<exists>e \<in> set (sn_accepted s'). sv_Payload e = PCommandResult text_left)"
    using assms(5) by (auto simp: loop_answers_def)
  let ?r = "filter (\<lambda>i. i \<noteq> 0) [request_id q]"
  have "answered (sn_accepted s') = answered (sn_accepted s) @ take (length ?r + n) (asked (ClientRequest q # is))"
    using n(1) assms(2) by simp
  then show ?thesis using assms n(2)
    by (auto simp: loop_answers_def intro: rtranclp_trans intro!: exI [of _ "length ?r + n"])
qed

lemma stream_loop_answers:
  assumes "\<And>k j t. pump_or_writer\<^sup>*\<^sup>* t (self k j t)"
    and "stream_loop R J Q E say rd evs self pick k username schedule gone s c en = Some (gone', s', c', en')"
  shows "loop_answers s schedule s'"
  using assms(2)
proof (induction schedule arbitrary: k gone s c en)
  case (Cons i "is")
  show ?case
  proof (cases i)
    case SenderDone
    have u: "undisturbed_answers s (self k 0 s)" "sender_step\<^sup>*\<^sup>* s (self k 0 s)" using undisturbed_run assms(1) by blast+
    show ?thesis
    proof (cases "sn_done (self k 0 s)")
      case True
      then show ?thesis using Cons.prems SenderDone u by (auto simp: Let_def undisturbed_answers_def intro!: loop_answers_end)
    next
      case False
      then have "loop_answers (self k 0 s) is s'" using Cons.IH Cons.prems SenderDone by (simp add: Let_def)
      then show ?thesis using loop_answers_later u SenderDone by simp
    qed
  next
    case (ClientRequest request)
    obtain close enqueued gone1 t c1 en1 where h:
        "handleCommand R J Q E say rd (evs k) (self k) (pick k) username request gone s c en = Some ((close, enqueued), gone1, t, c1, en1)"
      using Cons.prems ClientRequest by (auto split: option.splits)
    note sent = handleCommand_sender [OF assms(1) h]
    consider "\<not> enqueued" | "enqueued" "close" | "enqueued" "\<not> close" by blast
    then show ?thesis
    proof cases
      case 1
      then show ?thesis using Cons.prems ClientRequest h sent by (auto simp: undisturbed_answers_def intro!: loop_answers_end)
    next
      case 2
      then have "s' = Finish t" using Cons.prems ClientRequest h by simp
      moreover have "loop_answers t is (Finish t)" using 2 sent(2) Finish_sender [of t] by (intro loop_answers_end) auto
      ultimately show ?thesis using 2 sent(1,2) ClientRequest by (auto intro!: loop_answers_request [where t = t])
    next
      case 3
      then show ?thesis using Cons.prems Cons.IH [of "Suc k" gone1 t c1 en1] ClientRequest h sent
        by (auto intro!: loop_answers_request [where t = t])
    qed
  qed (use Cons.prems Finish_sender [of s] in \<open>auto intro!: loop_answers_end dest: requests_then_end_simps(2)\<close>)
qed simp

text \<open>C14: whatever the cluster, the state pump and the transport do, the numbered messages a client receives on an authenticated
  stream answer its requests in their order, one for one and without gaps; and when the client has ended the stream and
  the transport has not failed, every request has been answered, or one was a logout that has been confirmed.\<close>

theorem replies_follow_requests:
  assumes "\<forall>k j t. pump_or_writer\<^sup>*\<^sup>* t (self k j t)"
    and "stream_loop R J Q E say rd evs self pick k username schedule False newStreamSender c en = Some (gone', s', c', en')"
  shows "prefix (answered (controls_of (sn_sent s'))) (asked schedule) \<and>
    (requests_then_end schedule \<and> \<not> sn_done s' \<longrightarrow>
     answered (sn_accepted s') = asked schedule \<or> (\<exists>e \<in> set (sn_accepted s'). sv_Payload e = PCommandResult text_left))"
proof -
  have new: "answered (sn_accepted newStreamSender) = []" "sn_acceptingControls newStreamSender"
    by (simp_all add: newStreamSender_def answered_def)
  have loop: "loop_answers newStreamSender schedule s'" using stream_loop_answers assms by blast
  then obtain n where n: "answered (sn_accepted s') = take n (asked schedule)"
      "requests_then_end schedule \<and> \<not> sn_done s' \<longrightarrow>
       length (asked schedule) \<le> n \<or> (\<exists>e \<in> set (sn_accepted s'). sv_Payload e = PCommandResult text_left)"
    using new by (auto simp: loop_answers_def)
  have "control_inv s'" using control_inv_reachable loop by (simp add: loop_answers_def)
  then have "prefix (controls_of (sn_sent s')) (sn_accepted s')" by (auto simp: control_inv_def)
  then have "prefix (answered (controls_of (sn_sent s'))) (asked schedule)"
    using answered_prefix n(1) take_is_prefix [of n "asked schedule"] prefix_order.trans by metis
  then show ?thesis using n by auto
qed

text \<open>A stream on which the client sends a request without a command, leaves and is told so.\<close>

definition short_visit :: "inbound list" where
  "short_visit = map ClientRequest [Some \<lparr>cq_RequestId = 5, cq_Payload = CNothing\<rparr>, Some \<lparr>cq_RequestId = 6, cq_Payload = CLogout True\<rparr>] @ [ClientEof]"

lemma bob_logs_out: "Logout mr mem_json mem_sql (quiet_gio (\<lambda>_. Delivered) 6) ''bob'' duo_gateway duo = Some (None, duo_gateway, duo)"
proof -
  have "LoadGlobalSession mr mem_json Delivered ''bob'' (out_store duo) = None"
    by (simp add: LoadGlobalSession_def rpc_def duo_def duo_store_def mem_defs HGET_def mem_hash_def get_or_def)
  then show ?thesis by (simp add: Logout_def Let_def)
qed

definition visited :: streamSender where
  "visited =
     Finish (newStreamSender
       \<lparr>sn_controls := [gatewayError 5 (CodeUnknown, text_no_command) CommandError, \<lparr>sv_RequestId = 6, sv_Payload = PCommandResult text_left\<rparr>],
        sn_accepted := [gatewayError 5 (CodeUnknown, text_no_command) CommandError, \<lparr>sv_RequestId = 6, sv_Payload = PCommandResult text_left\<rparr>]\<rparr>)"

lemma visit_runs:
  "stream_loop mr mem_json mem_sql (\<lambda>_. demo_process) (\<lambda>_. []) rd (\<lambda>_. quiet_gio (\<lambda>_. Delivered) 6) (\<lambda>_ _ s. s) (\<lambda>_. True) 2 ''bob''
     short_visit False newStreamSender duo_gateway duo = Some (True, visited, duo_gateway, duo)"
  by (simp add: short_visit_def handleCommand_def run_payload_def run_logout_def bob_logs_out render_error_def EnqueueControl_def
      newStreamSender_def controlQueueCapacity_def visited_def)

theorem replies_follow_requests_witness:
  "prefix (answered (controls_of (sn_sent visited))) [5, 6] \<and> answered (sn_accepted visited) = [5, 6]"
proof -
  have "asked short_visit = [5, 6]" by (simp add: short_visit_def request_id_def)
  then show ?thesis using replies_follow_requests [OF _ visit_runs] by (simp add: visited_def Finish_sender answered_def)
qed

end
