(* ===== verification/Client_UI.thy ===== *)
theory Client_UI
  imports Stream_Sender
begin

text \<open>
  The screen of the terminal client (\<open>cmd/client/ui.go\<close>): which state is kept, and what is drawn of it, to the last
  byte. The getters of a protobuf message give zero values on a missing message; they are read here through the mappers of
  \<open>Wire_Gateway\<close>, which do the same. A negative count makes \<open>strings.Repeat\<close> panic; then there is no drawing, \<open>None\<close>.
\<close>

section \<open>Texts, runes and formats\<close>

definition ui_text_up :: string where
  "ui_text_up = utf8 [0xE5, 0x90, 0x91, 0xE4, 0xB8, 0x8A, 0xE7, 0xA7, 0xBB, 0xE5, 0x8A, 0xA8]"

definition ui_text_down :: string where
  "ui_text_down = utf8 [0xE5, 0x90, 0x91, 0xE4, 0xB8, 0x8B, 0xE7, 0xA7, 0xBB, 0xE5, 0x8A, 0xA8]"

definition ui_text_left :: string where
  "ui_text_left = utf8 [0xE5, 0x90, 0x91, 0xE5, 0xB7, 0xA6, 0xE7, 0xA7, 0xBB, 0xE5, 0x8A, 0xA8]"

definition ui_text_right :: string where
  "ui_text_right = utf8 [0xE5, 0x90, 0x91, 0xE5, 0x8F, 0xB3, 0xE7, 0xA7, 0xBB, 0xE5, 0x8A, 0xA8]"

definition ui_text_attack :: string where
  "ui_text_attack = utf8
     [0xE5, 0x8F, 0x91, 0xE8, 0xB5, 0xB7, 0xE8, 0xBF, 0x91, 0xE6, 0x88, 0x98, 0xE6, 0x94, 0xBB, 0xE5, 0x87,
      0xBB]"

definition ui_text_heal :: string where
  "ui_text_heal = utf8 [0xE4, 0xBD, 0xBF, 0xE7, 0x94, 0xA8, 0xE8, 0x8D, 0xAF, 0xE5, 0x89, 0x82]"

definition ui_text_boss :: string where
  "ui_text_boss = utf8
     [0xE6, 0x8C, 0x91, 0xE6, 0x88, 0x98, 0xE4, 0xB8, 0x96, 0xE7, 0x95, 0x8C, 0xE9, 0xA6, 0x96, 0xE9, 0xA2,
      0x86]"

definition ui_text_to_green :: string where
  "ui_text_to_green = utf8
     [0xE5, 0x88, 0x87, 0xE6, 0x8D, 0xA2, 0xE5, 0x88, 0xB0, 0xE9, 0x9D, 0x92, 0xE5, 0xB2, 0x9A, 0xE8, 0xA6,
      0x81, 0xE5, 0xA1, 0x9E]"

definition ui_text_to_cave :: string where
  "ui_text_to_cave = utf8
     [0xE5, 0x88, 0x87, 0xE6, 0x8D, 0xA2, 0xE5, 0x88, 0xB0, 0xE7, 0x8E, 0x84, 0xE7, 0x9F, 0xBF, 0xE5, 0x9C,
      0xB0, 0xE7, 0xAA, 0x9F]"

definition ui_text_to_ruins :: string where
  "ui_text_to_ruins = utf8
     [0xE5, 0x88, 0x87, 0xE6, 0x8D, 0xA2, 0xE5, 0x88, 0xB0, 0xE6, 0xAE, 0x8B, 0xE6, 0x98, 0x9F, 0xE9, 0x81,
      0x97, 0xE8, 0xBF, 0xB9]"

definition ui_text_buy_potion :: string where
  "ui_text_buy_potion = utf8 [0xE8, 0xB4, 0xAD, 0xE4, 0xB9, 0xB0, 0xE8, 0x8D, 0xAF, 0xE5, 0x89, 0x82]"

definition ui_text_buy_weapon :: string where
  "ui_text_buy_weapon = utf8 [0xE5, 0xBC, 0xBA, 0xE5, 0x8C, 0x96, 0xE6, 0xAD, 0xA6, 0xE5, 0x99, 0xA8]"

definition ui_text_colon :: string where
  "ui_text_colon = utf8 [0xEF, 0xBC, 0x9A]"

definition ui_text_full :: string where
  "ui_text_full = utf8 [0xE2, 0x96, 0x88]"

definition ui_text_empty :: string where
  "ui_text_empty = utf8 [0xE2, 0x96, 0x91]"

definition ui_text_diamond :: string where
  "ui_text_diamond = utf8 [0xE2, 0x97, 0x86]"

definition ui_text_circle :: string where
  "ui_text_circle = utf8 [0xE2, 0x97, 0x8B]"

definition ui_text_players :: string where
  "ui_text_players = utf8 [0xE7, 0x8E, 0xA9, 0xE5, 0xAE, 0xB6, 0x3A]"

definition ui_text_monsters :: string where
  "ui_text_monsters = utf8 [0xE6, 0x80, 0xAA, 0x3A]"

definition ui_text_loot :: string where
  "ui_text_loot = utf8 [0xE5, 0xAE, 0x9D, 0x3A]"

definition ui_text_bullet :: string where
  "ui_text_bullet = utf8 [0xE2, 0x80, 0xA2, 0x20]"

definition ui_text_online :: string where
  "ui_text_online = utf8 [0xE5, 0x9C, 0xA8, 0xE7, 0xBA, 0xBF]"

definition ui_text_offline :: string where
  "ui_text_offline = utf8 [0xE7, 0xA6, 0xBB, 0xE7, 0xBA, 0xBF]"

definition ui_text_warrior :: string where
  "ui_text_warrior = utf8 [0xE5, 0x8B, 0x87, 0xE5, 0xA3, 0xAB, 0xE9, 0x9D, 0xA2, 0xE6, 0x9D, 0xBF]"

definition ui_text_role :: string where
  "ui_text_role = utf8 [0xE8, 0xA7, 0x92, 0xE8, 0x89, 0xB2]"

definition ui_text_place :: string where
  "ui_text_place = utf8 [0xE4, 0xBD, 0x8D, 0xE7, 0xBD, 0xAE]"

definition ui_text_life :: string where
  "ui_text_life = utf8 [0xE7, 0x94, 0x9F, 0xE5, 0x91, 0xBD]"

definition ui_text_strength :: string where
  "ui_text_strength = utf8 [0xE6, 0x94, 0xBB, 0xE5, 0x87, 0xBB]"

definition ui_text_potions :: string where
  "ui_text_potions = utf8 [0xE8, 0x8D, 0xAF, 0xE5, 0x89, 0x82]"

definition ui_text_trophies :: string where
  "ui_text_trophies = utf8 [0xE6, 0x88, 0x98, 0xE5, 0x88, 0xA9, 0xE5, 0x93, 0x81]"

definition ui_text_kills :: string where
  "ui_text_kills = utf8 [0xE5, 0x87, 0xBB, 0xE6, 0x9D, 0x80]"

definition ui_text_deaths :: string where
  "ui_text_deaths = utf8 [0xE9, 0x98, 0xB5, 0xE4, 0xBA, 0xA1]"

definition ui_text_victories :: string where
  "ui_text_victories = utf8 [0xE8, 0x83, 0x9C, 0xE5, 0x9C, 0xBA]"

definition ui_text_revival :: string where
  "ui_text_revival = utf8 [0xE5, 0xA4, 0x8D, 0xE6, 0xB4, 0xBB]"

definition ui_text_seconds :: string where
  "ui_text_seconds = utf8 [0x20, 0xE7, 0xA7, 0x92]"

definition ui_text_store :: string where
  "ui_text_store = utf8 [0xE6, 0x88, 0x98, 0xE5, 0xA4, 0x87, 0xE5, 0x95, 0x86, 0xE5, 0xBA, 0x97]"

definition ui_text_item1 :: string where
  "ui_text_item1 = utf8 [0x31, 0xE5, 0x8F, 0xB7, 0xE5, 0x95, 0x86, 0xE5, 0x93, 0x81]"

definition ui_text_potion_for :: string where
  "ui_text_potion_for = utf8
     [0xE8, 0x8D, 0xAF, 0xE5, 0x89, 0x82, 0x20, 0x2B, 0x31, 0x20, 0x20, 0xE4, 0xBB, 0xB7, 0xE6, 0xA0, 0xBC,
      0x20]"

definition ui_text_item2 :: string where
  "ui_text_item2 = utf8 [0x32, 0xE5, 0x8F, 0xB7, 0xE5, 0x95, 0x86, 0xE5, 0x93, 0x81]"

definition ui_text_weapon_by :: string where
  "ui_text_weapon_by = utf8 [0xE6, 0xAD, 0xA6, 0xE5, 0x99, 0xA8, 0xE5, 0xBC, 0xBA, 0xE5, 0x8C, 0x96, 0x20, 0x2B]"

definition ui_text_price :: string where
  "ui_text_price = utf8 [0x20, 0x20, 0xE4, 0xBB, 0xB7, 0xE6, 0xA0, 0xBC, 0x20]"

definition ui_text_hint :: string where
  "ui_text_hint = utf8 [0xE6, 0x8F, 0x90, 0xE7, 0xA4, 0xBA]"

definition ui_text_press12 :: string where
  "ui_text_press12 = utf8
     [0xE6, 0x8C, 0x89, 0x20, 0x31, 0x2F, 0x32, 0x20, 0xE7, 0xAB, 0x8B, 0xE5, 0x8D, 0xB3, 0xE8, 0xB4, 0xAD,
      0xE4, 0xB9, 0xB0]"

definition ui_text_entry :: string where
  "ui_text_entry = utf8 [0xE5, 0x85, 0xA5, 0xE5, 0x8F, 0xA3]"

definition ui_text_pressP :: string where
  "ui_text_pressP = utf8
     [0xE6, 0x8C, 0x89, 0x20, 0x50, 0x20, 0xE6, 0x89, 0x93, 0xE5, 0xBC, 0x80, 0xE6, 0x88, 0x98, 0xE5, 0xA4,
      0x87, 0xE5, 0x95, 0x86, 0xE5, 0xBA, 0x97]"

definition ui_text_world_boss :: string where
  "ui_text_world_boss = utf8 [0xE4, 0xB8, 0x96, 0xE7, 0x95, 0x8C, 0xE9, 0xA6, 0x96, 0xE9, 0xA2, 0x86]"

definition ui_text_chief :: string where
  "ui_text_chief = utf8 [0xE9, 0xA6, 0x96, 0xE9, 0xA2, 0x86]"

definition ui_text_condition :: string where
  "ui_text_condition = utf8 [0xE7, 0x8A, 0xB6, 0xE6, 0x80, 0x81]"

definition ui_text_fighting :: string where
  "ui_text_fighting = utf8 [0xE5, 0xBE, 0x81, 0xE6, 0x88, 0x98, 0xE4, 0xB8, 0xAD]"

definition ui_text_regrouping :: string where
  "ui_text_regrouping = utf8 [0xE9, 0x87, 0x8D, 0xE7, 0xBB, 0x84, 0xE4, 0xB8, 0xAD, 0x20]"

definition ui_text_projection :: string where
  "ui_text_projection = utf8 [0xE6, 0x8A, 0x95, 0xE5, 0xBD, 0xB1]"

definition ui_text_no_projection :: string where
  "ui_text_no_projection = utf8
     [0xE5, 0xBD, 0x93, 0xE5, 0x89, 0x8D, 0xE5, 0x9C, 0xB0, 0xE5, 0x9B, 0xBE, 0xE6, 0x97, 0xA0, 0xE6, 0x8A,
      0x95, 0xE5, 0xBD, 0xB1]"

definition ui_text_distance :: string where
  "ui_text_distance = utf8 [0xE8, 0xB7, 0x9D, 0xE7, 0xA6, 0xBB]"

definition ui_text_war_line :: string where
  "ui_text_war_line = utf8 [0xE5, 0xBC, 0x80, 0xE6, 0x88, 0x98, 0xE7, 0xBA, 0xBF]"

definition ui_text_cells :: string where
  "ui_text_cells = utf8 [0x20, 0xE6, 0xA0, 0xBC]"

definition ui_text_finish :: string where
  "ui_text_finish = utf8 [0xE7, 0xBB, 0x88, 0xE7, 0xBB, 0x93]"

definition ui_text_nobody :: string where
  "ui_text_nobody = utf8 [0xE6, 0x9A, 0x82, 0xE6, 0x97, 0xA0]"

definition ui_text_maps :: string where
  "ui_text_maps = utf8 [0xE5, 0x9C, 0xB0, 0xE5, 0x9B, 0xBE, 0xE5, 0xB9, 0xB6, 0xE8, 0xA1, 0x8C]"

definition ui_text_heartbeats :: string where
  "ui_text_heartbeats = utf8 [0xE8, 0x8A, 0x82, 0xE7, 0x82, 0xB9, 0xE5, 0xBF, 0x83, 0xE8, 0xB7, 0xB3]"

definition ui_text_news :: string where
  "ui_text_news = utf8 [0xE6, 0x88, 0x98, 0xE5, 0x9C, 0xBA, 0xE6, 0x92, 0xAD, 0xE6, 0x8A, 0xA5]"

definition ui_text_bar :: string where
  "ui_text_bar = utf8 [0xE2, 0x94, 0x82, 0x20]"

definition ui_text_wall :: string where
  "ui_text_wall = utf8 [0xE2, 0x96, 0x93]"

definition ui_text_star :: string where
  "ui_text_star = utf8 [0xE2, 0x9C, 0xA6]"

definition ui_text_horse :: string where
  "ui_text_horse = utf8 [0xE2, 0x99, 0x9E]"

definition ui_text_queen :: string where
  "ui_text_queen = utf8 [0xE2, 0x99, 0x9B]"

definition ui_text_eye :: string where
  "ui_text_eye = utf8 [0xE2, 0x97, 0x89]"

definition ui_text_ring :: string where
  "ui_text_ring = utf8 [0xE2, 0x97, 0x8E]"

definition ui_text_cross :: string where
  "ui_text_cross = utf8 [0xE2, 0x98, 0x93]"

definition ui_text_dot :: string where
  "ui_text_dot = utf8 [0xC2, 0xB7]"

definition ui_text_dash :: string where
  "ui_text_dash = utf8 [0xE2, 0x94, 0x81]"

definition ui_text_ul :: string where
  "ui_text_ul = utf8 [0xE2, 0x94, 0x8F]"

definition ui_text_ur :: string where
  "ui_text_ur = utf8 [0xE2, 0x94, 0x93]"

definition ui_text_map :: string where
  "ui_text_map = utf8 [0xE2, 0x94, 0x83, 0x20, 0xE5, 0x9C, 0xB0, 0xE5, 0x9B, 0xBE, 0xEF, 0xBC, 0x9A]"

definition ui_text_node :: string where
  "ui_text_node = utf8 [0x20, 0xE8, 0x8A, 0x82, 0xE7, 0x82, 0xB9, 0xEF, 0xBC, 0x9A]"

definition ui_text_version :: string where
  "ui_text_version = utf8 [0x20, 0xE7, 0x89, 0x88, 0xE6, 0x9C, 0xAC, 0xEF, 0xBC, 0x9A]"

definition ui_text_close :: string where
  "ui_text_close = utf8 [0x20, 0xE2, 0x94, 0x83]"

definition ui_text_ml :: string where
  "ui_text_ml = utf8 [0xE2, 0x94, 0xA3]"

definition ui_text_mr :: string where
  "ui_text_mr = utf8 [0xE2, 0x94, 0xAB]"

definition ui_text_side :: string where
  "ui_text_side = utf8 [0xE2, 0x94, 0x83]"

definition ui_text_ll :: string where
  "ui_text_ll = utf8 [0xE2, 0x94, 0x97]"

definition ui_text_lr :: string where
  "ui_text_lr = utf8 [0xE2, 0x94, 0x9B]"

definition ui_text_shop_mode :: string where
  "ui_text_shop_mode = utf8 [0xE5, 0x95, 0x86, 0xE5, 0xBA, 0x97, 0xE6, 0xA8, 0xA1, 0xE5, 0xBC, 0x8F, 0xEF, 0xBC, 0x9A]"

definition ui_text_shop_keys :: string where
  "ui_text_shop_keys = utf8
     [0x31, 0x20, 0xE8, 0xB4, 0xAD, 0xE4, 0xB9, 0xB0, 0xE8, 0x8D, 0xAF, 0xE5, 0x89, 0x82, 0x20, 0x20, 0x32,
      0x20, 0xE5, 0xBC, 0xBA, 0xE5, 0x8C, 0x96, 0xE6, 0xAD, 0xA6, 0xE5, 0x99, 0xA8, 0x20, 0x20, 0x50, 0x2F,
      0x45, 0x73, 0x63, 0x20, 0xE5, 0x85, 0xB3, 0xE9, 0x97, 0xAD, 0xE5, 0x95, 0x86, 0xE5, 0xBA, 0x97]"

definition ui_text_key_help :: string where
  "ui_text_key_help = utf8
     [0xE6, 0x8C, 0x89, 0xE9, 0x94, 0xAE, 0xEF, 0xBC, 0x9A, 0x57, 0x2F, 0x41, 0x2F, 0x53, 0x2F, 0x44, 0x20,
      0xE7, 0xA7, 0xBB, 0xE5, 0x8A, 0xA8, 0x20, 0x20, 0x4A, 0x20, 0xE6, 0x94, 0xBB, 0xE5, 0x87, 0xBB, 0x20,
      0x20, 0x4B, 0x20, 0xE6, 0xB2, 0xBB, 0xE7, 0x96, 0x97, 0x20, 0x20, 0x42, 0x20, 0xE4, 0xB8, 0x96, 0xE7,
      0x95, 0x8C, 0xE9, 0xA6, 0x96, 0xE9, 0xA2, 0x86, 0x20, 0x20, 0x50, 0x20, 0xE5, 0x95, 0x86, 0xE5, 0xBA,
      0x97, 0x20, 0x20, 0x31, 0x2F, 0x32, 0x2F, 0x33, 0x20, 0xE5, 0x88, 0x87, 0xE5, 0x9B, 0xBE, 0x20, 0x20,
      0x52, 0x20, 0xE5, 0x88, 0xB7, 0xE6, 0x96, 0xB0, 0x20, 0x20, 0x51, 0x20, 0xE9, 0x80, 0x80, 0xE5, 0x87,
      0xBA]"

text \<open>\<open>[]rune(s)\<close>: an invalid byte becomes the replacement character.\<close>

definition conts :: "nat \<Rightarrow> nat \<Rightarrow> nat \<Rightarrow> nat list \<Rightarrow> bool" where
  "conts n lo hi bs \<longleftrightarrow> n \<le> length bs \<and> lo \<le> hd bs \<and> hd bs \<le> hi \<and> list_all (\<lambda>b. 0x80 \<le> b \<and> b \<le> 0xBF) (take (n - 1) (tl bs))"

fun decode_runes :: "nat list \<Rightarrow> nat list" where
  "decode_runes [] = []"
| "decode_runes (a # bs) =
     (if a < 0x80 then a # decode_runes bs
      else if 0xC2 \<le> a \<and> a \<le> 0xDF \<and> conts 1 0x80 0xBF bs
      then ((a - 0xC0) * 64 + (bs ! 0 - 0x80)) # decode_runes (drop 1 bs)
      else if 0xE0 \<le> a \<and> a \<le> 0xEF \<and> conts 2 (if a = 0xE0 then 0xA0 else 0x80) (if a = 0xED then 0x9F else 0xBF) bs
      then ((a - 0xE0) * 4096 + (bs ! 0 - 0x80) * 64 + (bs ! 1 - 0x80)) # decode_runes (drop 2 bs)
      else if 0xF0 \<le> a \<and> a \<le> 0xF4 \<and> conts 3 (if a = 0xF0 then 0x90 else 0x80) (if a = 0xF4 then 0x8F else 0xBF) bs
      then ((a - 0xF0) * 262144 + (bs ! 0 - 0x80) * 4096 + (bs ! 1 - 0x80) * 64 + (bs ! 2 - 0x80)) # decode_runes (drop 3 bs)
      else 0xFFFD # decode_runes bs)"

definition runes :: "string \<Rightarrow> nat list" where
  "runes s = decode_runes (map of_char s)"

text \<open>The verbs \<open>%d\<close>, \<open>%-ns\<close>, \<open>%nd\<close> and \<open>%-nd\<close> of \<open>fmt.Sprintf\<close>; widths count runes.\<close>

definition fmt_d :: "int \<Rightarrow> string" where
  "fmt_d i = (if i < 0 then CHR ''-'' # itoa (nat (- i)) else itoa (nat i))"

definition pad_right :: "nat \<Rightarrow> string \<Rightarrow> string" where
  "pad_right n s = s @ replicate (n - length (runes s)) CHR '' ''"

definition pad_left :: "nat \<Rightarrow> string \<Rightarrow> string" where
  "pad_left n s = replicate (n - length (runes s)) CHR '' '' @ s"

definition Repeat :: "string \<Rightarrow> int \<Rightarrow> string option" where
  "Repeat s n = (if n < 0 then None else Some (concat (replicate (nat n) s)))"

abbreviation "esc \<equiv> CHR 0x1B"

definition colorReset :: string where "colorReset = esc # ''[0m''"
definition colorBold :: string where "colorBold = esc # ''[1m''"
definition colorDim :: string where "colorDim = esc # ''[2m''"
definition colorCyan :: string where "colorCyan = esc # ''[38;5;51m''"
definition colorGold :: string where "colorGold = esc # ''[38;5;220m''"
definition colorOrange :: string where "colorOrange = esc # ''[38;5;208m''"
definition colorRed :: string where "colorRed = esc # ''[38;5;196m''"
definition colorGreen :: string where "colorGreen = esc # ''[38;5;82m''"
definition colorGray :: string where "colorGray = esc # ''[38;5;245m''"
definition colorBlue :: string where "colorBlue = esc # ''[38;5;39m''"
definition bgPanel :: string where "bgPanel = esc # ''[48;5;235m''"

section \<open>The kept state\<close>

record client_ui =
  ui_current :: "pb_WorldState option"
  ui_clientNotes :: "string list"
  ui_shopOpen :: bool

definition get_Self :: "pb_WorldState \<Rightarrow> PlayerView" where
  "get_Self state = gw_FromPlayerView (pb_ws_Self state)"

definition get_Map :: "pb_WorldState \<Rightarrow> MapView" where
  "get_Map state = gw_FromMapView (pb_ws_Map state)"

definition get_Boss :: "pb_WorldState \<Rightarrow> BossView" where
  "get_Boss state = FromBossView (pb_ws_Boss state)"

definition shouldApplyState :: "pb_WorldState option \<Rightarrow> pb_WorldState option \<Rightarrow> bool" where
  "shouldApplyState current nxt =
     (case nxt of
        None \<Rightarrow> False
      | Some n \<Rightarrow>
          (case current of
             None \<Rightarrow> True
           | Some c \<Rightarrow>
               if pb_ws_SessionVersion n \<noteq> pb_ws_SessionVersion c then pb_ws_SessionVersion n > pb_ws_SessionVersion c
               else if pb_ws_TopologyVersion n \<noteq> pb_ws_TopologyVersion c then pb_ws_TopologyVersion n > pb_ws_TopologyVersion c
               else if pb_ws_MapEpoch n \<noteq> pb_ws_MapEpoch c then pb_ws_MapEpoch n > pb_ws_MapEpoch c
               else if mv_ID (get_Map n) \<noteq> mv_ID (get_Map c) then True
               else mv_Version (get_Map n) \<ge> mv_Version (get_Map c)))"

definition applyState :: "pb_WorldState option \<Rightarrow> client_ui \<Rightarrow> bool \<times> client_ui" where
  "applyState state ui =
     (if \<not> shouldApplyState (ui_current ui) state then (False, ui) else (True, ui\<lparr>ui_current := state\<rparr>))"

definition setState :: "pb_WorldState option \<Rightarrow> client_ui \<Rightarrow> client_ui" where
  "setState state ui = ui\<lparr>ui_current := state\<rparr>"

definition setShopOpen :: "bool \<Rightarrow> client_ui \<Rightarrow> client_ui" where
  "setShopOpen opened ui = ui\<lparr>ui_shopOpen := opened\<rparr>"

definition shouldSuppressClientNote :: "string \<Rightarrow> bool" where
  "shouldSuppressClientNote text \<longleftrightarrow>
     text \<in> {ui_text_up, ui_text_down, ui_text_left, ui_text_right, ui_text_attack, ui_text_heal, ui_text_boss,
             ui_text_to_green, ui_text_to_cave, ui_text_to_ruins, ui_text_buy_potion, ui_text_buy_weapon}"

definition addClientNote :: "string \<Rightarrow> client_ui \<Rightarrow> client_ui" where
  "addClientNote text ui =
     (if shouldSuppressClientNote text then ui
      else let notes = ui_clientNotes ui @ [text]
           in ui\<lparr>ui_clientNotes := (if length notes > 5 then drop (length notes - 5) notes else notes)\<rparr>)"

section \<open>Panels\<close>

definition panelTitle :: "string \<Rightarrow> string" where
  "panelTitle title = bgPanel @ colorBold @ '' '' @ title @ '' '' @ colorReset"

definition panelLine :: "string \<Rightarrow> string \<Rightarrow> string" where
  "panelLine label value = colorDim @ pad_right 6 (label @ ui_text_colon) @ colorReset @ '' '' @ value"

definition hpBar :: "int \<Rightarrow> int \<Rightarrow> int \<Rightarrow> string \<Rightarrow> string option" where
  "hpBar hp maxHP width color =
     (let maxHP = (if maxHP \<le> 0 then 1 else maxHP); hp = (if hp < 0 then 0 else hp); filled = hp * width div maxHP
      in case (Repeat ui_text_full filled, Repeat ui_text_empty (width - filled)) of
           (Some a, Some b) \<Rightarrow>
             Some (''['' @ color @ a @ colorGray @ b @ '']'' @ colorReset @ '' '' @ pad_left 4 (fmt_d hp) @ ''/'' @ pad_right 4 (fmt_d maxHP) @ colorReset)
         | _ \<Rightarrow> None)"

definition manhattan_ui :: "int \<Rightarrow> int \<Rightarrow> int \<Rightarrow> int \<Rightarrow> int" where
  "manhattan_ui ax ay bx by' =
     (let dx = ax - bx; dx = (if dx < 0 then - dx else dx); dy = ay - by'; dy = (if dy < 0 then - dy else dy) in dx + dy)"

definition bossSiteOnMap :: "pb_WorldState \<Rightarrow> BossSite option" where
  "bossSiteOnMap state = find (\<lambda>site. bs_MapID site = mv_ID (get_Map state)) (bv_Sites (get_Boss state))"

definition point_text :: "int \<Rightarrow> int \<Rightarrow> string" where
  "point_text x y = ''('' @ fmt_d x @ '','' @ fmt_d y @ '')''"

definition map_line :: "MapBrief \<Rightarrow> string" where
  "map_line brief =
     (if mb_IsCurrent brief then colorGold @ ui_text_diamond @ colorReset else colorDim @ ui_text_circle @ colorReset) @ '' '' @
     pad_right 5 (mb_Name brief) @ '' '' @ pad_right 8 (mb_NodeID brief) @ '' '' @ ui_text_players @ fmt_d (mb_Players brief) @ '' '' @
     ui_text_monsters @ fmt_d (mb_NPCs brief) @ '' '' @ ui_text_loot @ fmt_d (mb_Treasures brief)"

definition node_line :: "NodeView \<Rightarrow> string" where
  "node_line node =
     ui_text_bullet @ pad_right 8 (no_ID node) @ '' '' @
     (if no_Healthy node then colorGreen @ ui_text_online @ colorReset else colorRed @ ui_text_offline @ colorReset) @
     '' Owner:'' @ fmt_d (int (length (no_PrimaryMaps node)))"

definition buildSideLines :: "bool \<Rightarrow> pb_WorldState \<Rightarrow> string list option" where
  "buildSideLines shopOpen state =
     (let self = get_Self state; boss = get_Boss state; site = bossSiteOnMap state
      in case (hpBar (pv_HP self) (pv_MaxHP self) 18 colorGreen, hpBar (bv_HP boss) (bv_MaxHP boss) 18 colorRed) of
           (Some selfBar, Some bossBar) \<Rightarrow>
             Some ([panelTitle ui_text_warrior,
                    panelLine ui_text_role (colorCyan @ colorBold @ pv_Username self @ colorReset),
                    panelLine ui_text_place (point_text (pv_X self) (pv_Y self)),
                    panelLine ui_text_life selfBar,
                    panelLine ui_text_strength (fmt_d (pv_Attack self)),
                    panelLine ui_text_potions (fmt_d (pv_Potions self)),
                    panelLine ui_text_trophies (fmt_d (pv_Treasures self)),
                    panelLine ui_text_kills (fmt_d (pv_Kills self)),
                    panelLine ui_text_deaths (fmt_d (pv_Deaths self)),
                    panelLine ui_text_victories (fmt_d (pv_Victories self))] @
                   (if pv_Alive self then []
                    else [panelLine ui_text_revival (colorOrange @ fmt_d (pv_RespawnIn self) @ ui_text_seconds @ colorReset)]) @
                   [panelTitle ui_text_store] @
                   (if shopOpen
                    then [panelLine ui_text_item1 (ui_text_potion_for @ fmt_d PotionPrice),
                          panelLine ui_text_item2 (ui_text_weapon_by @ fmt_d WeaponBoost @ ui_text_price @ fmt_d WeaponPrice),
                          panelLine ui_text_hint (colorGold @ ui_text_press12 @ colorReset)]
                    else [panelLine ui_text_entry (colorGold @ ui_text_pressP @ colorReset)]) @
                   [panelTitle ui_text_world_boss,
                    panelLine ui_text_chief (colorOrange @ colorBold @ bv_Name boss @ colorReset),
                    panelLine ui_text_condition
                      (if bv_Alive boss then colorRed @ ui_text_fighting @ colorReset
                       else colorGray @ ui_text_regrouping @ fmt_d (bv_RespawnIn boss) @ ''s'' @ colorReset),
                    panelLine ui_text_life bossBar,
                    panelLine ui_text_projection (case site of None \<Rightarrow> ui_text_no_projection | Some s \<Rightarrow> point_text (bs_X s) (bs_Y s)),
                    panelLine ui_text_distance
                      (case site of None \<Rightarrow> ''-'' | Some s \<Rightarrow> fmt_d (manhattan_ui (pv_X self) (pv_Y self) (bs_X s) (bs_Y s))),
                    panelLine ui_text_war_line (fmt_d (bv_AttackGap boss) @ ui_text_cells),
                    panelLine ui_text_finish (if bv_LastHit boss = [] then ui_text_nobody else bv_LastHit boss),
                    panelTitle ui_text_maps] @
                   map map_line (map gw_FromMapBrief (pb_ws_Maps state)) @
                   [panelTitle ui_text_heartbeats] @
                   map node_line (map gw_FromNodeView (pb_ws_Nodes state)))
         | _ \<Rightarrow> None)"

definition buildEventLines :: "string list \<Rightarrow> pb_WorldState \<Rightarrow> string list" where
  "buildEventLines clientNotes state =
     (let events = pb_ws_Events state @ clientNotes; start = (if length events > 8 then length events - 8 else 0)
      in panelTitle ui_text_news # map (\<lambda>event. colorGray @ ui_text_bar @ colorReset @ event) (drop start events))"

section \<open>The map\<close>

type_synonym rune_grid = "nat list list"

definition inBounds :: "rune_grid \<Rightarrow> int \<Rightarrow> int \<Rightarrow> bool" where
  "inBounds grid x y \<longleftrightarrow> 0 \<le> y \<and> y < int (length grid) \<and> 0 \<le> x \<and> x < int (length (grid ! nat y))"

definition paint_at :: "nat \<Rightarrow> int \<Rightarrow> int \<Rightarrow> rune_grid \<Rightarrow> rune_grid" where
  "paint_at cell x y grid = (if inBounds grid x y then grid[nat y := (grid ! nat y)[nat x := cell]] else grid)"

definition paintCell :: "nat \<Rightarrow> string" where
  "paintCell cell =
     (if cell = of_char CHR ''#'' then colorGray @ ui_text_wall @ colorReset
      else if cell = of_char CHR ''$'' then colorGold @ ui_text_star @ colorReset
      else if cell = of_char CHR ''n'' then colorOrange @ ui_text_horse @ colorReset
      else if cell = of_char CHR ''b'' then colorRed @ colorBold @ ui_text_queen @ colorReset
      else if cell = of_char CHR ''o'' then colorDim @ ui_text_eye @ colorReset
      else if cell = of_char CHR ''@'' then colorCyan @ colorBold @ ui_text_diamond @ colorReset
      else if cell = of_char CHR ''p'' then colorBlue @ ui_text_ring @ colorReset
      else if cell = of_char CHR ''x'' then colorDim @ ui_text_cross @ colorReset
      else colorDim @ ui_text_dot @ colorReset)"

definition player_cell :: "string \<Rightarrow> PlayerView \<Rightarrow> nat" where
  "player_cell self player =
     of_char (if pv_Username player = self then CHR ''@'' else if \<not> pv_Alive player then CHR ''x'' else CHR ''p'')"

definition paint_map :: "pb_WorldState \<Rightarrow> rune_grid" where
  "paint_map state =
     (let mapView = get_Map state;
          grid = map runes (mv_Terrain mapView);
          grid = fold (\<lambda>t. paint_at (of_char CHR ''$'') (tv_X t) (tv_Y t)) (mv_Treasures mapView) grid;
          grid = fold (\<lambda>n. paint_at (of_char CHR ''n'') (nv_X n) (nv_Y n)) (mv_NPCs mapView) grid;
          grid = (case bossSiteOnMap state of
                    None \<Rightarrow> grid
                  | Some site \<Rightarrow> paint_at (of_char (if bv_Alive (get_Boss state) then CHR ''b'' else CHR ''o'')) (bs_X site) (bs_Y site) grid)
      in fold (\<lambda>p. paint_at (player_cell (pv_Username (get_Self state)) p) (pv_X p) (pv_Y p)) (mv_Players mapView) grid)"

definition rule_line :: "string \<Rightarrow> string \<Rightarrow> string" where
  "rule_line left right = colorGold @ left @ concat (replicate 58 ui_text_dash) @ right @ colorReset"

definition buildMapLines :: "pb_WorldState \<Rightarrow> string list" where
  "buildMapLines state =
     (let mapView = get_Map state
      in [rule_line ui_text_ul ui_text_ur,
          colorGold @ ui_text_map @ pad_right 12 (mv_Name mapView) @ ui_text_node @ pad_right 8 (mv_NodeID mapView) @
            ui_text_version @ pad_right 6 (fmt_d (mv_Version mapView)) @ ui_text_close @ colorReset,
          rule_line ui_text_ml ui_text_mr] @
         map (\<lambda>row. colorGold @ ui_text_side @ colorReset @ concat (map paintCell row) @ colorGold @ ui_text_side @ colorReset) (paint_map state) @
         [rule_line ui_text_ll ui_text_lr])"

section \<open>The screen\<close>

definition line_at :: "string list \<Rightarrow> nat \<Rightarrow> string" where
  "line_at lines i = (if i < length lines then lines ! i else [])"

definition newline :: string where
  "newline = [CHR 0x0A]"

definition drawUI :: "client_ui \<Rightarrow> string option" where
  "drawUI ui =
     (case ui_current ui of
        None \<Rightarrow> Some []
      | Some current \<Rightarrow>
          let mapLines = buildMapLines current
          in map_option (\<lambda>sideLines.
               (esc # ''[H'') @
               concat (map (\<lambda>i. line_at mapLines i @ ''  '' @ line_at sideLines i @ (esc # ''[K'') @ newline)
                         [0..<max (length mapLines) (length sideLines)]) @
               newline @
               concat (map (\<lambda>line. line @ (esc # ''[K'') @ newline) (buildEventLines (ui_clientNotes ui) current)) @
               (if ui_shopOpen ui
                then colorGold @ ui_text_shop_mode @ colorReset @ colorDim @ ui_text_shop_keys @ colorReset @ newline
                else colorDim @ ui_text_key_help @ colorReset @ newline) @
               (esc # ''[J''))
             (buildSideLines (ui_shopOpen ui) current))"

end
