(* ===== verification/Client.thy ===== *)
theory Client
  imports Client_UI Gateway_Stream
begin

text \<open>
  The terminal client (\<open>cmd/client/client.go\<close>, \<open>main.go\<close>, \<open>prompt.go\<close>): its commands, its authentication, the loop
  over the keys and the goroutine that receives. A drawing that panics ends the process; such a step has no result.
\<close>

section \<open>Texts\<close>

definition client_text_unknown_error :: string where
  "client_text_unknown_error = utf8
     [0xE7, 0xBD, 0x91, 0xE5, 0x85, 0xB3, 0xE8, 0xBF, 0x94, 0xE5, 0x9B, 0x9E, 0xE6, 0x9C, 0xAA, 0xE7, 0x9F,
      0xA5, 0xE9, 0x94, 0x99, 0xE8, 0xAF, 0xAF]"

definition client_text_command_no :: string where
  "client_text_command_no = utf8 [0xE6, 0x8C, 0x87, 0xE4, 0xBB, 0xA4, 0x20, 0x23]"

definition client_text_gateway_error :: string where
  "client_text_gateway_error = utf8 [0xE7, 0xBD, 0x91, 0xE5, 0x85, 0xB3, 0xE9, 0x94, 0x99, 0xE8, 0xAF, 0xAF]"

definition client_text_retryable :: string where
  "client_text_retryable = utf8 [0xEF, 0xBC, 0x88, 0xE5, 0x8F, 0xAF, 0xE9, 0x87, 0x8D, 0xE8, 0xAF, 0x95, 0xEF, 0xBC, 0x89]"

definition client_text_confirmed :: string where
  "client_text_confirmed = utf8 [0x20, 0xE5, 0xB7, 0xB2, 0xE7, 0xA1, 0xAE, 0xE8, 0xAE, 0xA4, 0xEF, 0xBC, 0x9A]"

definition client_text_no_connection :: string where
  "client_text_no_connection = utf8
     [0xE8, 0xBF, 0x9E, 0xE6, 0x8E, 0xA5, 0xE7, 0xBD, 0x91, 0xE5, 0x85, 0xB3, 0xE5, 0xA4, 0xB1, 0xE8, 0xB4,
      0xA5, 0xEF, 0xBC, 0x9A]"

definition client_text_no_stream :: string where
  "client_text_no_stream = utf8
     [0xE6, 0x89, 0x93, 0xE5, 0xBC, 0x80, 0xE6, 0xB8, 0xB8, 0xE6, 0x88, 0x8F, 0xE6, 0xB5, 0x81, 0xE5, 0xA4,
      0xB1, 0xE8, 0xB4, 0xA5, 0xEF, 0xBC, 0x9A]"

definition client_text_not_sent :: string where
  "client_text_not_sent = utf8
     [0xE5, 0x8F, 0x91, 0xE9, 0x80, 0x81, 0xE8, 0xAE, 0xA4, 0xE8, 0xAF, 0x81, 0xE6, 0xB6, 0x88, 0xE6, 0x81,
      0xAF, 0xE5, 0xA4, 0xB1, 0xE8, 0xB4, 0xA5, 0xEF, 0xBC, 0x9A]"

definition client_text_no_answer :: string where
  "client_text_no_answer = utf8
     [0xE6, 0x8E, 0xA5, 0xE6, 0x94, 0xB6, 0xE8, 0xAE, 0xA4, 0xE8, 0xAF, 0x81, 0xE7, 0xBB, 0x93, 0xE6, 0x9E,
      0x9C, 0xE5, 0xA4, 0xB1, 0xE8, 0xB4, 0xA5, 0xEF, 0xBC, 0x9A]"

definition client_text_bad_answer :: string where
  "client_text_bad_answer = utf8
     [0xE7, 0xBD, 0x91, 0xE5, 0x85, 0xB3, 0xE8, 0xBF, 0x94, 0xE5, 0x9B, 0x9E, 0xE4, 0xBA, 0x86, 0xE6, 0x97,
      0xA0, 0xE6, 0x95, 0x88, 0xE8, 0xAE, 0xA4, 0xE8, 0xAF, 0x81, 0xE5, 0x93, 0x8D, 0xE5, 0xBA, 0x94]"

definition client_text_refreshed :: string where
  "client_text_refreshed = utf8 [0xE5, 0xB7, 0xB2, 0xE5, 0x88, 0xB7, 0xE6, 0x96, 0xB0, 0xE7, 0x95, 0x8C, 0xE9, 0x9D, 0xA2]"

definition client_text_send_failed :: string where
  "client_text_send_failed = utf8
     [0xE6, 0x8C, 0x87, 0xE4, 0xBB, 0xA4, 0xE5, 0x8F, 0x91, 0xE9, 0x80, 0x81, 0xE5, 0xA4, 0xB1, 0xE8, 0xB4,
      0xA5, 0xEF, 0xBC, 0x9A]"

definition client_text_disconnected :: string where
  "client_text_disconnected = utf8
     [0xE4, 0xB8, 0x8E, 0xE7, 0xBD, 0x91, 0xE5, 0x85, 0xB3, 0xE8, 0xBF, 0x9E, 0xE6, 0x8E, 0xA5, 0xE5, 0xB7,
      0xB2, 0xE6, 0x96, 0xAD, 0xE5, 0xBC, 0x80]"

section \<open>Commands\<close>

type_synonym clientCommand = "u64 \<Rightarrow> pb_ClientEnvelope"

definition moveCommand :: "pb_Direction \<Rightarrow> clientCommand" where
  "moveCommand direction requestID = \<lparr>cq_RequestId = requestID, cq_Payload = CMove (Some direction)\<rparr>"

definition attackCommand :: clientCommand where
  "attackCommand requestID = \<lparr>cq_RequestId = requestID, cq_Payload = CAttack True\<rparr>"

definition attackBossCommand :: clientCommand where
  "attackBossCommand requestID = \<lparr>cq_RequestId = requestID, cq_Payload = CAttackBoss True\<rparr>"

definition healCommand :: clientCommand where
  "healCommand requestID = \<lparr>cq_RequestId = requestID, cq_Payload = CHeal True\<rparr>"

definition buyItemCommand :: "string \<Rightarrow> clientCommand" where
  "buyItemCommand item requestID = \<lparr>cq_RequestId = requestID, cq_Payload = CBuyItem (Some item)\<rparr>"

definition switchMapCommand :: "string \<Rightarrow> clientCommand" where
  "switchMapCommand mapID requestID = \<lparr>cq_RequestId = requestID, cq_Payload = CSwitchMap (Some mapID)\<rparr>"

definition logoutCommand :: clientCommand where
  "logoutCommand requestID = \<lparr>cq_RequestId = requestID, cq_Payload = CLogout True\<rparr>"

definition commandForKey :: "char \<Rightarrow> bool \<Rightarrow> (clientCommand option \<times> string) option" where
  "commandForKey key shop =
     (if shop
      then if key \<in> {CHR ''p'', CHR ''P'', CHR 0x1B} then Some (None, [])
           else if key = CHR ''1'' then Some (Some (buyItemCommand ''potion''), ui_text_buy_potion)
           else if key = CHR ''2'' then Some (Some (buyItemCommand ''weapon''), ui_text_buy_weapon)
           else None
      else if key \<in> {CHR ''w'', CHR ''W''} then Some (Some (moveCommand DIRECTION_UP), ui_text_up)
      else if key \<in> {CHR ''s'', CHR ''S''} then Some (Some (moveCommand DIRECTION_DOWN), ui_text_down)
      else if key \<in> {CHR ''a'', CHR ''A''} then Some (Some (moveCommand DIRECTION_LEFT), ui_text_left)
      else if key \<in> {CHR ''d'', CHR ''D''} then Some (Some (moveCommand DIRECTION_RIGHT), ui_text_right)
      else if key \<in> {CHR ''j'', CHR ''J'', CHR ''f'', CHR ''F''} then Some (Some attackCommand, ui_text_attack)
      else if key \<in> {CHR ''k'', CHR ''K'', CHR ''h'', CHR ''H''} then Some (Some healCommand, ui_text_heal)
      else if key \<in> {CHR ''b'', CHR ''B''} then Some (Some attackBossCommand, ui_text_boss)
      else if key = CHR ''1'' then Some (Some (switchMapCommand ''green''), ui_text_to_green)
      else if key = CHR ''2'' then Some (Some (switchMapCommand ''cave''), ui_text_to_cave)
      else if key = CHR ''3'' then Some (Some (switchMapCommand ''ruins''), ui_text_to_ruins)
      else None)"

section \<open>Answers\<close>

definition error_code_name :: "pb_ErrorCode \<Rightarrow> string" where
  "error_code_name code =
     (case code of
        ERROR_CODE_UNSPECIFIED \<Rightarrow> ''ERROR_CODE_UNSPECIFIED''
      | ERROR_CODE_INVALID_REQUEST \<Rightarrow> ''ERROR_CODE_INVALID_REQUEST''
      | ERROR_CODE_AUTH_FAILED \<Rightarrow> ''ERROR_CODE_AUTH_FAILED''
      | ERROR_CODE_ROUTE_NOT_READY \<Rightarrow> ''ERROR_CODE_ROUTE_NOT_READY''
      | ERROR_CODE_STALE_ROUTE \<Rightarrow> ''ERROR_CODE_STALE_ROUTE''
      | ERROR_CODE_COMMAND_REJECTED \<Rightarrow> ''ERROR_CODE_COMMAND_REJECTED''
      | ERROR_CODE_INTERNAL \<Rightarrow> ''ERROR_CODE_INTERNAL'')"

definition formatGatewayError :: "u64 \<Rightarrow> (pb_ErrorCode \<times> string \<times> bool) option \<Rightarrow> string" where
  "formatGatewayError requestID responseError =
     (case responseError of
        None \<Rightarrow> client_text_unknown_error
      | Some (code, text, retryable) \<Rightarrow>
          (if requestID \<noteq> 0 then client_text_command_no @ itoa (unat requestID) else client_text_gateway_error) @ ui_text_colon @
          (if text = [] then error_code_name code else text) @ (if retryable then client_text_retryable else []))"

definition handleServerEnvelope :: "pb_ServerEnvelope option \<Rightarrow> client_ui \<Rightarrow> client_ui" where
  "handleServerEnvelope envelope ui =
     (case envelope of
        None \<Rightarrow> ui
      | Some e \<Rightarrow>
          (case sv_Payload e of
             PAuthenticated state \<Rightarrow> snd (applyState state ui)
           | PState state \<Rightarrow> snd (applyState (Some state) ui)
           | PCommandResult result \<Rightarrow> addClientNote (client_text_command_no @ itoa (unat (sv_RequestId e)) @ client_text_confirmed @ result) ui
           | PError code text retryable \<Rightarrow> addClientNote (formatGatewayError (sv_RequestId e) (Some (code, text, retryable))) ui
           | PNotice notice \<Rightarrow> addClientNote notice ui
           | PNothing \<Rightarrow> ui))"

section \<open>Authentication\<close>

datatype authMode = AuthLogin | AuthRegister

definition authRequest :: "u64 \<Rightarrow> authMode \<Rightarrow> string \<Rightarrow> string \<Rightarrow> string \<Rightarrow> pb_ClientEnvelope" where
  "authRequest requestID mode username password confirm =
     \<lparr>cq_RequestId = requestID,
      cq_Payload = (case mode of AuthRegister \<Rightarrow> CRegister (Some (username, password, confirm)) | AuthLogin \<Rightarrow> CLogin (Some (username, password)))\<rparr>"

text \<open>The errors of the connection, of the stream, of sending and of receiving are arguments; the request is returned if it was sent.\<close>

definition auth ::
    "string option \<Rightarrow> string option \<Rightarrow> (pb_ClientEnvelope \<Rightarrow> string option) \<Rightarrow> (pb_ClientEnvelope \<Rightarrow> string + pb_ServerEnvelope)
     \<Rightarrow> authMode \<Rightarrow> string \<Rightarrow> string \<Rightarrow> string \<Rightarrow> string + pb_WorldState" where
  "auth connErr streamErr sendErr recv mode username password confirm =
     (case connErr of
        Some e \<Rightarrow> Inl (client_text_no_connection @ e)
      | None \<Rightarrow>
          (case streamErr of
             Some e \<Rightarrow> Inl (client_text_no_stream @ e)
           | None \<Rightarrow>
               let request = authRequest 1 mode username password confirm
               in case sendErr request of
                    Some e \<Rightarrow> Inl (client_text_not_sent @ e)
                  | None \<Rightarrow>
                      (case recv request of
                         Inl e \<Rightarrow> Inl (client_text_no_answer @ e)
                       | Inr reply \<Rightarrow>
                           (case sv_Payload reply of
                              PError code text retryable \<Rightarrow> Inl (formatGatewayError (sv_RequestId reply) (Some (code, text, retryable)))
                            | PAuthenticated (Some state) \<Rightarrow> Inr state
                            | _ \<Rightarrow> Inl client_text_bad_answer))))"

section \<open>Prompts\<close>

text \<open>The lines typed, as \<open>readLine\<close> returns them; at the end of the input every line is empty.\<close>

definition next_line :: "string list \<Rightarrow> string \<times> string list" where
  "next_line lines = (case lines of [] \<Rightarrow> ([], []) | l # ls \<Rightarrow> (TrimSpace l, ls))"

definition JoinHostPort :: "string \<Rightarrow> string \<Rightarrow> string" where
  "JoinHostPort host port =
     (if CHR '':'' \<in> set host then ''['' @ host @ '']:'' @ port else host @ '':'' @ port)"

function chooseGateway :: "string list \<Rightarrow> string \<times> string list" where
  "chooseGateway lines =
     (let (choice, rest) = next_line lines
      in if choice = ''1'' \<or> choice = [] then (''127.0.0.1:9310'', rest)
         else if choice = ''2''
         then let (host, rest) = next_line rest; (port, rest) = next_line rest
              in (JoinHostPort (if host = [] then ''127.0.0.1'' else host) (if port = [] then ''9310'' else port), rest)
         else chooseGateway rest)"
  by pat_completeness auto
termination by (relation "measure length") (auto simp: next_line_def split: list.splits)

function chooseAuth :: "string list \<Rightarrow> (authMode \<times> string \<times> string \<times> string) \<times> string list" where
  "chooseAuth lines =
     (let (choice, rest) = next_line lines
      in if choice = ''1'' \<or> choice = []
         then let (username, rest) = next_line rest; (password, rest) = next_line rest
              in ((AuthLogin, username, password, []), rest)
         else if choice = ''2''
         then let (username, rest) = next_line rest; (password, rest) = next_line rest; (confirm, rest) = next_line rest
              in if password \<noteq> confirm then chooseAuth rest else ((AuthRegister, username, password, confirm), rest)
         else chooseAuth rest)"
  by pat_completeness auto
termination by (relation "measure length") (auto simp: next_line_def split: list.splits)

section \<open>The running client\<close>

record client =
  ct_ui :: client_ui
  ct_nextRequestID :: u64
  ct_sent :: "pb_ClientEnvelope list"

text \<open>\<open>fails\<close> is the error of the stream when a request is sent.\<close>

definition sendPlayerCommand :: "(pb_ClientEnvelope \<Rightarrow> string option) \<Rightarrow> clientCommand \<Rightarrow> client \<Rightarrow> string option \<times> client" where
  "sendPlayerCommand fails command c =
     (let requestID = ct_nextRequestID c + 1; request = command requestID
      in (fails request, c\<lparr>ct_nextRequestID := requestID, ct_sent := ct_sent c @ [request]\<rparr>))"

definition redraw :: "bool \<Rightarrow> client \<Rightarrow> (bool \<times> client) option" where
  "redraw running c = map_option (\<lambda>_. (running, c)) (drawUI (ct_ui c))"

definition with_ui :: "(client_ui \<Rightarrow> client_ui) \<Rightarrow> client \<Rightarrow> client" where
  "with_ui f c = c\<lparr>ct_ui := f (ct_ui c)\<rparr>"

text \<open>One key: whether the loop goes on, and the client afterwards.\<close>

definition key_step :: "(pb_ClientEnvelope \<Rightarrow> string option) \<Rightarrow> char \<Rightarrow> client \<Rightarrow> (bool \<times> client) option" where
  "key_step fails key c =
     (if key = CHR 0x03 then Some (False, snd (sendPlayerCommand fails logoutCommand c))
      else case commandForKey key (ui_shopOpen (ct_ui c)) of
             None \<Rightarrow>
               if key \<in> {CHR ''p'', CHR ''P''} then redraw True (with_ui (setShopOpen True) c)
               else if key \<in> {CHR ''r'', CHR ''R''} then redraw True (with_ui (addClientNote client_text_refreshed) c)
               else if key \<in> {CHR ''q'', CHR ''Q''} then Some (False, snd (sendPlayerCommand fails logoutCommand c))
               else Some (True, c)
           | Some (None, _) \<Rightarrow> redraw True (with_ui (setShopOpen False) c)
           | Some (Some command, note) \<Rightarrow>
               (case sendPlayerCommand fails command (with_ui (addClientNote note) c) of
                  (Some err, c) \<Rightarrow> redraw False (with_ui (addClientNote (client_text_send_failed @ err)) c)
                | (None, c) \<Rightarrow> redraw True c))"

text \<open>One message of the gateway, or the end of the stream.\<close>

definition receive_step :: "pb_ServerEnvelope option \<Rightarrow> client \<Rightarrow> (bool \<times> client) option" where
  "receive_step received c =
     (case received of
        None \<Rightarrow> redraw False (with_ui (addClientNote client_text_disconnected) c)
      | Some envelope \<Rightarrow> redraw True (with_ui (handleServerEnvelope (Some envelope)) c))"

definition started :: "pb_WorldState \<Rightarrow> client" where
  "started state =
     \<lparr>ct_ui = setState (Some state) \<lparr>ui_current = None, ui_clientNotes = [], ui_shopOpen = False\<rparr>, ct_nextRequestID = 1, ct_sent = []\<rparr>"

text \<open>The client with the messages it has received: keys and messages in any order.\<close>

inductive client_step :: "client \<times> pb_ServerEnvelope list \<Rightarrow> client \<times> pb_ServerEnvelope list \<Rightarrow> bool" where
  on_key: "key_step fails key c = Some (running, c') \<Longrightarrow> client_step (c, got) (c', got)"
| on_message: "receive_step (Some e) c = Some (running, c') \<Longrightarrow> client_step (c, got) (c', got @ [e])"
| on_end: "receive_step None c = Some (running, c') \<Longrightarrow> client_step (c, got) (c', got)"

end
