(* ===== verification/Client_Props.thy ===== *)
theory Client_Props
  imports Client World_Inv Gateway_Props
begin

text \<open>
  The client and the rest of the system: its requests are numbered and well-formed for the gateway, its screen shows the
  newest state it has received, and drawing the snapshots of well-formed worlds never panics.
\<close>

section \<open>Requests\<close>

definition understood :: "pb_client_payload \<Rightarrow> bool" where
  "understood payload \<longleftrightarrow>
     (case payload of
        CMove (Some d) \<Rightarrow> d \<noteq> DIRECTION_UNSPECIFIED
      | CAttack b \<Rightarrow> b | CAttackBoss b \<Rightarrow> b | CHeal b \<Rightarrow> b | CLogout b \<Rightarrow> b
      | CBuyItem (Some item) \<Rightarrow> TrimSpace item \<noteq> []
      | CSwitchMap (Some m) \<Rightarrow> TrimSpace m \<noteq> []
      | _ \<Rightarrow> False)"

lemma accepted_as_backend: "accepted_as message gone r \<noteq> Some (Inl (HText t), st)"
  by (cases "fst (the r)") (auto simp: accepted_as_def)

lemma understood_runs:
  assumes "understood payload"
  shows "run_payload R J Q E say ev u payload gone c en \<noteq> Some (Inl (HText t), st)"
  using assms
  by (auto simp: understood_def run_payload_def parseDirection_def accepted_as_backend Let_def
      split: pb_client_payload.splits option.splits pb_Direction.splits)

lemma trimmed_items: "TrimSpace ''potion'' \<noteq> []" "TrimSpace ''weapon'' \<noteq> []" "TrimSpace ''green'' \<noteq> []" "TrimSpace ''cave'' \<noteq> []" "TrimSpace ''ruins'' \<noteq> []"
  by code_simp+

lemmas command_defs =
  moveCommand_def attackCommand_def attackBossCommand_def healCommand_def buyItemCommand_def switchMapCommand_def logoutCommand_def

definition good_command :: "clientCommand \<Rightarrow> bool" where
  "good_command command \<longleftrightarrow> (\<forall>i. cq_RequestId (command i) = i \<and> understood (cq_Payload (command i)))"

lemma good_commands:
  "good_command (moveCommand DIRECTION_UP)" "good_command (moveCommand DIRECTION_DOWN)" "good_command (moveCommand DIRECTION_LEFT)"
  "good_command (moveCommand DIRECTION_RIGHT)" "good_command attackCommand" "good_command attackBossCommand" "good_command healCommand"
  "good_command (buyItemCommand ''potion'')" "good_command (buyItemCommand ''weapon'')" "good_command (switchMapCommand ''green'')"
  "good_command (switchMapCommand ''cave'')" "good_command (switchMapCommand ''ruins'')"
  by (simp_all add: good_command_def understood_def command_defs trimmed_items)

lemma if_good:
  "(if b then Some (Some k, n) else r) = Some (Some command, note) \<Longrightarrow> good_command k \<Longrightarrow>
   (r = Some (Some command, note) \<Longrightarrow> good_command command) \<Longrightarrow> good_command command"
  by (auto split: if_splits)

lemma if_none_good:
  "(if b then Some (None, n) else r) = Some (Some command, note) \<Longrightarrow>
   (r = Some (Some command, note) \<Longrightarrow> good_command command) \<Longrightarrow> good_command command"
  by (auto split: if_splits)

lemma commandForKey_good: "commandForKey key shop = Some (Some command, note) \<Longrightarrow> good_command command"
  unfolding commandForKey_def
  by (cases shop, simp_all only: if_True if_False) ((erule if_none_good | erule if_good, rule good_commands)+, simp)+

lemma logout_good: "good_command logoutCommand"
  by (simp add: good_command_def understood_def logoutCommand_def)

definition requests_ok :: "client \<Rightarrow> bool" where
  "requests_ok c \<longleftrightarrow>
     ct_nextRequestID c = of_nat (Suc (length (ct_sent c))) \<and>
     map cq_RequestId (ct_sent c) = map of_nat [2..<length (ct_sent c) + 2] \<and> list_all (understood \<circ> cq_Payload) (ct_sent c)"

lemma requests_ok_send: "requests_ok c \<Longrightarrow> good_command command \<Longrightarrow> requests_ok (snd (sendPlayerCommand fails command c))"
  by (simp add: requests_ok_def sendPlayerCommand_def good_command_def Let_def)

lemma requests_ok_ui: "requests_ok (with_ui f c) = requests_ok c"
  by (simp add: requests_ok_def with_ui_def)

lemma redraw_same: "redraw b c = Some (b', c') \<Longrightarrow> c' = c"
  by (auto simp: redraw_def)

lemma requests_ok_key:
  assumes "key_step fails key c = Some (b, c')" "requests_ok c"
  shows "requests_ok c'"
proof -
  let ?leave = "snd (sendPlayerCommand fails logoutCommand c)"
  have leave: "requests_ok ?leave" using requests_ok_send assms(2) logout_good by blast
  consider (out) "c' = ?leave" | (ui) f where "c' = with_ui f c" | (same) "c' = c"
    | (send) command msg f where "commandForKey key (ui_shopOpen (ct_ui c)) = Some (Some command, msg)"
        "c' = with_ui f (snd (sendPlayerCommand fails command (with_ui (addClientNote msg) c)))"
  proof (cases "commandForKey key (ui_shopOpen (ct_ui c))")
    case None
    then show ?thesis using assms(1) that(1-3) by (auto simp: key_step_def dest!: redraw_same split: if_splits)
  next
    case (Some x)
    obtain cmd msg where x: "x = (cmd, msg)" by fastforce
    show ?thesis
    proof (cases "key = CHR 0x03 \<or> cmd = None")
      case True
      then show ?thesis using assms(1) Some x that(1,2) by (auto simp: key_step_def dest!: redraw_same split: if_splits)
    next
      case False
      then obtain command where command: "cmd = Some command" by auto
      obtain e c1 where s: "sendPlayerCommand fails command (with_ui (addClientNote msg) c) = (e, c1)" by fastforce
      have "c' = with_ui (\<lambda>u. u) c1 \<or> (\<exists>f. c' = with_ui f c1)"
        using assms(1) Some x command False s by (cases e) (auto simp: key_step_def with_ui_def dest!: redraw_same)
      then show ?thesis using that(4) Some x command s by (metis snd_conv)
    qed
  qed
  then show ?thesis
  proof cases
    case (send command msg f)
    then show ?thesis using requests_ok_send commandForKey_good assms(2) requests_ok_ui by metis
  qed (use leave assms(2) requests_ok_ui in auto)
qed

lemma requests_ok_step: "client_step st st' \<Longrightarrow> requests_ok (fst st) \<Longrightarrow> requests_ok (fst st')"
  by (induction rule: client_step.induct)
    (auto simp: receive_step_def requests_ok_ui dest: requests_ok_key dest!: redraw_same)

lemma requests_ok_run: "client_step\<^sup>*\<^sup>* (started state, []) st \<Longrightarrow> requests_ok (fst st)"
proof (induction rule: rtranclp_induct)
  case base
  show ?case by (simp add: requests_ok_def started_def)
qed (use requests_ok_step in blast)

text \<open>C16: whatever keys a player presses and whatever the gateway sends, the requests of the client carry the numbers 2, 3, 4 and
  so on without gaps, none of them zero before 64-bit numbers are used up, and the gateway takes every one of them to the
  cluster: none is refused as malformed.\<close>

theorem client_requests_are_understood:
  assumes "client_step\<^sup>*\<^sup>* (started state, []) (c, got)"
  shows "map cq_RequestId (ct_sent c) = map of_nat [2..<length (ct_sent c) + 2] \<and>
    (length (ct_sent c) + 2 \<le> 2 ^ 64 \<longrightarrow> 0 \<notin> set (map cq_RequestId (ct_sent c))) \<and>
    (\<forall>request \<in> set (ct_sent c). run_payload R J Q E say ev u (cq_Payload request) gone cl en \<noteq> Some (Inl (HText t), st))"
proof -
  have ok: "map cq_RequestId (ct_sent c) = map of_nat [2..<length (ct_sent c) + 2]" "\<forall>request \<in> set (ct_sent c). understood (cq_Payload request)"
    using requests_ok_run [OF assms] unfolding requests_ok_def list_all_iff by simp_all
  have "(of_nat i :: u64) \<noteq> 0" if "2 \<le> i" "i < 2 ^ 64" for i
    using that by (simp add: word_of_nat_eq_0_iff nat_dvd_not_less)
  then have "0 \<notin> set (map of_nat [2..<length (ct_sent c) + 2] :: u64 list)" if "length (ct_sent c) + 2 \<le> 2 ^ 64"
    using that unfolding set_map set_upt by fastforce
  then show ?thesis using ok understood_runs by metis
qed

section \<open>Drawing\<close>

definition bar_fits :: "int \<Rightarrow> int \<Rightarrow> bool" where
  "bar_fits hp maxHP \<longleftrightarrow> max 0 hp * 18 div (if maxHP \<le> 0 then 1 else maxHP) \<le> 18"

lemma hpBar_returns: "hpBar hp maxHP 18 color \<noteq> None \<longleftrightarrow> bar_fits hp maxHP"
proof -
  have "0 \<le> max 0 hp * 18 div (if maxHP \<le> 0 then 1 else maxHP)" by (simp add: pos_imp_zdiv_nonneg_iff)
  then show ?thesis by (auto simp: hpBar_def Repeat_def bar_fits_def max_def Let_def split: if_splits)
qed

lemma bar_fits_le: "hp \<le> maxHP \<Longrightarrow> bar_fits hp maxHP"
proof (cases "maxHP \<le> 0")
  case False
  moreover assume "hp \<le> maxHP"
  ultimately have "max 0 hp * 18 \<le> 18 * maxHP" by auto
  then have "max 0 hp * 18 div maxHP \<le> 18 * maxHP div maxHP" using False by (intro zdiv_mono1) auto
  with False show ?thesis by (simp add: bar_fits_def)
qed (simp add: bar_fits_def)

lemma drawUI_returns:
  "drawUI ui \<noteq> None \<longleftrightarrow>
   (\<forall>st. ui_current ui = Some st \<longrightarrow>
      bar_fits (pv_HP (get_Self st)) (pv_MaxHP (get_Self st)) \<and> bar_fits (bv_HP (get_Boss st)) (bv_MaxHP (get_Boss st)))"
  using hpBar_returns
  by (auto simp: drawUI_def buildSideLines_def Let_def split: option.split) (metis not_None_eq)+

lemma snapshot_bars:
  "wf_world w \<Longrightarrow> v \<in> set (fst (snapshot_players f now ord w)) \<Longrightarrow> pv_HP v \<le> pv_MaxHP v"
proof (induction ord arbitrary: w)
  case (Cons k ord)
  let ?w = "refreshPlayerStateLocked now k w"
  have wf: "wf_world ?w" using Cons.prems(1) by (rule wf_refresh)
  obtain rest w' where r: "snapshot_players f now ord ?w = (rest, w')" by fastforce
  show ?case
  proof (cases "map_of (w_players ?w) k")
    case (Some p)
    have "p_HP p \<le> p_MaxHP p" using wf_playerD [OF wf Some] by (simp add: wf_player_def)
    then show ?thesis using Cons.IH [OF wf] Cons.prems(2) Some r by (auto simp: playerViewLocked_def)
  qed (use Cons.IH [OF wf] Cons.prems(2) r in auto)
qed simp

lemma find_mem: "find P xs = Some x \<Longrightarrow> x \<in> set xs"
  by (induction xs) (auto split: if_splits)

lemma self_view_bar:
  assumes "wf_world w"
  shows "pv_HP (self_view u (mv_Players (fst (Snapshot f now ord i w)))) \<le> pv_MaxHP (self_view u (mv_Players (fst (Snapshot f now ord i w))))"
proof -
  have p: "mv_Players (fst (Snapshot f now ord i w)) = sort_key pv_Username (fst (snapshot_players f now ord w))"
    by (simp add: Snapshot_def case_prod_beta Let_def)
  show ?thesis
  proof (cases "find (\<lambda>p. pv_Username p = u) (mv_Players (fst (Snapshot f now ord i w)))")
    case (Some v)
    then have "v \<in> set (fst (snapshot_players f now ord w))" using find_mem p by fastforce
    then show ?thesis using snapshot_bars [OF assms] Some by (simp add: self_view_def)
  qed (simp add: self_view_def zero_PlayerView_def)
qed

text \<open>C18: the client can draw every state whose own player comes from a snapshot of a well-formed world and whose boss has no
  more points than its maximum; in general drawing panics exactly when one of the two bars would be longer than its
  eighteen places.\<close>

theorem client_draws_snapshots:
  assumes "wf_world w" "ws_Self st = self_view u (mv_Players (fst (Snapshot f now ord i w)))" "fits_player (ws_Self st)"
    and "in32 (bv_HP (ws_Boss st))" "in32 (bv_MaxHP (ws_Boss st))" "bv_HP (ws_Boss st) \<le> bv_MaxHP (ws_Boss st)"
  shows "(\<exists>screen. drawUI (setState (ToWorldState (Some st)) ui) = Some screen) \<and>
    (drawUI ui' = None \<longleftrightarrow>
     (\<exists>shown. ui_current ui' = Some shown \<and>
        \<not> (bar_fits (pv_HP (get_Self shown)) (pv_MaxHP (get_Self shown)) \<and> bar_fits (bv_HP (get_Boss shown)) (bv_MaxHP (get_Boss shown)))))"
proof -
  obtain shown where s: "ToWorldState (Some st) = Some shown" by (simp add: ToWorldState_def)
  have "get_Self shown = ws_Self st" using s assms(3) player_codec.dec_enc
    by (auto simp: ToWorldState_def get_Self_def mappers_agree)
  moreover have "pv_HP (ws_Self st) \<le> pv_MaxHP (ws_Self st)" unfolding assms(2) using assms(1) by (rule self_view_bar)
  moreover have "bv_HP (get_Boss shown) = bv_HP (ws_Boss st)" "bv_MaxHP (get_Boss shown) = bv_MaxHP (ws_Boss st)"
    using s assms(4,5) by (auto simp: ToWorldState_def get_Boss_def ToBossView_def FromBossView_def wire_simps)
  ultimately have "drawUI (setState (ToWorldState (Some st)) ui) \<noteq> None"
    unfolding drawUI_returns s using bar_fits_le assms(6) by (simp add: setState_def)
  then show ?thesis using drawUI_returns [of ui'] by auto
qed

section \<open>The shown state\<close>

definition not_newer :: "pb_WorldState \<Rightarrow> pb_WorldState \<Rightarrow> bool" where
  "not_newer a b \<longleftrightarrow>
     pb_ws_SessionVersion a < pb_ws_SessionVersion b \<or>
     pb_ws_SessionVersion a = pb_ws_SessionVersion b \<and>
       (pb_ws_TopologyVersion a < pb_ws_TopologyVersion b \<or>
        pb_ws_TopologyVersion a = pb_ws_TopologyVersion b \<and> pb_ws_MapEpoch a \<le> pb_ws_MapEpoch b)"

fun received_states :: "pb_ServerEnvelope list \<Rightarrow> pb_WorldState list" where
  "received_states [] = []"
| "received_states (e # es) =
     (case sv_Payload e of PState st \<Rightarrow> st # received_states es | PAuthenticated (Some st) \<Rightarrow> st # received_states es | _ \<Rightarrow> received_states es)"

lemma received_append [simp]: "received_states (xs @ ys) = received_states xs @ received_states ys"
  by (induction xs) (auto split: pb_server_payload.split option.split)

text \<open>\<open>shown\<close> is the newest of \<open>sts\<close>; among states of one map under equal numbers, by the version of the map.\<close>

definition newest :: "pb_WorldState list \<Rightarrow> pb_WorldState \<Rightarrow> bool" where
  "newest sts shown \<longleftrightarrow>
     shown \<in> set sts \<and> (\<forall>st \<in> set sts. not_newer st shown) \<and>
     ((\<forall>st \<in> set sts. not_newer shown st \<longrightarrow> mv_ID (get_Map st) = mv_ID (get_Map shown)) \<longrightarrow>
      (\<forall>st \<in> set sts. not_newer shown st \<longrightarrow> mv_Version (get_Map st) \<le> mv_Version (get_Map shown)))"

lemma not_newer_trans: "not_newer a b \<Longrightarrow> not_newer b c \<Longrightarrow> not_newer a c"
  by (auto simp: not_newer_def)

lemma applied_cases:
  "shouldApplyState (Some c) (Some n) \<longleftrightarrow>
     \<not> not_newer n c \<or>
     not_newer c n \<and> (mv_ID (get_Map n) \<noteq> mv_ID (get_Map c) \<or> mv_Version (get_Map c) \<le> mv_Version (get_Map n))"
  by (auto simp: shouldApplyState_def not_newer_def split: if_splits)

lemma not_newer_total: "not_newer a b \<or> not_newer b a"
  by (auto simp: not_newer_def)

lemma not_newer_refl [simp]: "not_newer a a"
  by (simp add: not_newer_def)

lemma newest_refused:
  assumes "newest sts shown" "\<not> shouldApplyState (Some shown) (Some st)"
  shows "newest (sts @ [st]) shown"
proof -
  have "not_newer st shown" "not_newer shown st \<Longrightarrow> mv_Version (get_Map st) \<le> mv_Version (get_Map shown)"
    using assms(2) unfolding applied_cases by auto
  note st = this
  have s: "set (sts @ [st]) = insert st (set sts)" by simp
  show ?thesis using assms(1) st unfolding newest_def s by blast
qed

lemma newest_applied:
  assumes "newest sts shown" "shouldApplyState (Some shown) (Some st)"
  shows "newest (sts @ [st]) st"
proof -
  have n: "not_newer shown st" using assms(2) not_newer_total unfolding applied_cases by blast
  have old: "shown \<in> set sts" "\<forall>x \<in> set sts. not_newer x shown" using assms(1) by (simp_all add: newest_def)
  have all: "\<forall>x \<in> set sts. not_newer x st" using old(2) n not_newer_trans by blast
  have "mv_Version (get_Map x) \<le> mv_Version (get_Map st)"
    if same: "\<forall>x \<in> set sts. not_newer st x \<longrightarrow> mv_ID (get_Map x) = mv_ID (get_Map st)" and x: "x \<in> set sts" "not_newer st x" for x
  proof -
    have up: "not_newer st shown" using x old(2) not_newer_trans by blast
    then have id: "mv_ID (get_Map shown) = mv_ID (get_Map st)" using same old(1) by blast
    then have v: "mv_Version (get_Map shown) \<le> mv_Version (get_Map st)" using assms(2) up unfolding applied_cases by auto
    have "\<forall>y \<in> set sts. not_newer shown y \<longrightarrow> mv_ID (get_Map y) = mv_ID (get_Map shown)"
      using same id up not_newer_trans by metis
    then have "mv_Version (get_Map x) \<le> mv_Version (get_Map shown)"
      using assms(1) x n not_newer_trans unfolding newest_def by blast
    with v show ?thesis by simp
  qed
  then show ?thesis using all by (simp add: newest_def)
qed

lemma key_keeps_current:
  assumes "key_step fails key c = Some (b, c')"
  shows "ui_current (ct_ui c') = ui_current (ct_ui c)"
proof -
  have ui: "ui_current (addClientNote n u) = ui_current u" "ui_current (setShopOpen o' u) = ui_current u" for n o' u
    by (simp_all add: addClientNote_def setShopOpen_def Let_def)
  show ?thesis using assms
    by (auto simp: key_step_def sendPlayerCommand_def with_ui_def ui Let_def dest!: redraw_same split: if_splits option.splits)
qed

lemma handle_newest:
  assumes "ui_current ui = Some shown" "newest (state # received_states got) shown"
  shows "\<exists>shown'. ui_current (handleServerEnvelope (Some e) ui) = Some shown' \<and> newest (state # received_states (got @ [e])) shown'"
proof (cases "received_states [e]")
  case Nil
  then have "ui_current (handleServerEnvelope (Some e) ui) = ui_current ui"
    by (auto simp: handleServerEnvelope_def applyState_def shouldApplyState_def addClientNote_def Let_def
        split: pb_server_payload.splits option.splits)
  then show ?thesis using assms Nil by simp
next
  case (Cons st rest)
  then have st: "received_states [e] = [st]" "handleServerEnvelope (Some e) ui = snd (applyState (Some st) ui)"
    by (auto simp: handleServerEnvelope_def split: pb_server_payload.splits option.splits)
  then show ?thesis using assms newest_refused [OF assms(2), of st] newest_applied [OF assms(2), of st]
    by (cases "shouldApplyState (Some shown) (Some st)") (simp_all add: applyState_def)
qed

lemma newest_step:
  assumes "client_step (c, got) (c', got')" "ui_current (ct_ui c) = Some shown" "newest (state # received_states got) shown"
  shows "\<exists>shown'. ui_current (ct_ui c') = Some shown' \<and> newest (state # received_states got') shown'"
  using assms(1)
proof cases
  case (on_key fails key running)
  then show ?thesis using key_keeps_current assms(2,3) by auto
next
  case (on_message e running)
  then have "ct_ui c' = handleServerEnvelope (Some e) (ct_ui c)" by (auto simp: receive_step_def with_ui_def dest!: redraw_same)
  then show ?thesis using handle_newest [OF assms(2,3)] on_message by simp
next
  case (on_end running)
  then have "ui_current (ct_ui c') = ui_current (ct_ui c)"
    by (auto simp: receive_step_def with_ui_def addClientNote_def Let_def dest!: redraw_same)
  then show ?thesis using assms(2,3) on_end by simp
qed

text \<open>C17: whatever keys are pressed and whatever arrives in whatever order, the client shows one of the states it has received (or
  the one it started with), and none of them is newer: not by the version of the session, then of the topology, then by the
  epoch of the map, and, as long as equal numbers mean the same map, not by the version of the map.\<close>

theorem client_shows_newest:
  assumes "client_step\<^sup>*\<^sup>* (started state, []) (c, got)"
  shows "\<exists>shown. ui_current (ct_ui c) = Some shown \<and> newest (state # received_states got) shown"
proof -
  have "\<exists>shown. ui_current (ct_ui (fst st)) = Some shown \<and> newest (state # received_states (snd st)) shown"
    if "client_step\<^sup>*\<^sup>* (started state, []) st" for st
    using that
  proof (induction rule: rtranclp_induct)
    case base
    show ?case by (simp add: started_def setState_def newest_def)
  next
    case (step a b)
    then show ?case using newest_step by (metis prod.collapse)
  qed
  from this [OF assms] show ?thesis by simp
qed

section \<open>A short game\<close>

text \<open>A player of the small world sees a first state, presses \<open>w\<close> and receives a state with a newer epoch.\<close>

definition first_state :: WorldState where
  "first_state =
     \<lparr>ws_Self = self_view ''ann'' (mv_Players (fst (Snapshot (\<lambda>_. []) 5 [''ann''] ''n1'' small_world))), ws_Map = zero_MapView, ws_Maps = [],
      ws_Nodes = [], ws_Boss = zero_BossView, ws_Events = [], ws_SessionVersion = 1, ws_TopologyVersion = 1, ws_MapEpoch = 1\<rparr>"

definition second_state :: WorldState where
  "second_state = first_state\<lparr>ws_MapEpoch := 2\<rparr>"

abbreviation "first_pb \<equiv> the (ToWorldState (Some first_state))"
abbreviation "second_pb \<equiv> the (ToWorldState (Some second_state))"

lemma demo_self: "fits_player (ws_Self first_state)" "ws_Self second_state = ws_Self first_state" "ws_Boss first_state = zero_BossView"
  "ws_Boss second_state = zero_BossView"
proof -
  show "fits_player (ws_Self first_state)" by code_simp
qed (simp_all add: second_state_def first_state_def)

definition blank_ui :: client_ui where
  "blank_ui = \<lparr>ui_current = None, ui_clientNotes = [], ui_shopOpen = False\<rparr>"

theorem client_draws_snapshots_witness:
  "\<exists>screen. drawUI (setState (ToWorldState (Some first_state)) blank_ui) = Some screen"
  using client_draws_snapshots [OF small_wf _ demo_self(1), of "''ann''" "\<lambda>_. []" 5 "[''ann'']" "''n1''" blank_ui blank_ui]
  by (simp add: demo_self(3) first_state_def zero_BossView_def in32_def)

lemma demo_draws:
  assumes "ui_current ui = Some first_pb \<or> ui_current ui = Some second_pb"
  shows "drawUI ui \<noteq> None"
proof -
  have "get_Self first_pb = ws_Self first_state" "get_Self second_pb = ws_Self first_state"
    using player_codec.dec_enc [OF demo_self(1)] demo_self(2) by (simp_all add: ToWorldState_def get_Self_def mappers_agree)
  moreover have "get_Boss first_pb = zero_BossView" "get_Boss second_pb = zero_BossView"
    by (simp_all add: ToWorldState_def get_Boss_def demo_self zero_BossView_def ToBossView_def FromBossView_def wire_simps in32_def)
  moreover have "pv_HP (ws_Self first_state) \<le> pv_MaxHP (ws_Self first_state)"
    unfolding first_state_def using self_view_bar [OF small_wf] by simp
  ultimately show ?thesis unfolding drawUI_returns using assms bar_fits_le by (auto simp: zero_BossView_def)
qed

definition after_key :: client where
  "after_key = (started first_pb)\<lparr>ct_nextRequestID := 2, ct_sent := [moveCommand DIRECTION_UP 2]\<rparr>"

definition after_message :: client where
  "after_message = after_key\<lparr>ct_ui := setState (Some second_pb) (ct_ui after_key)\<rparr>"

lemma demo_run: "client_step\<^sup>*\<^sup>* (started first_pb, []) (after_message, [state_envelope second_pb])"
proof -
  have cur: "ui_current (ct_ui after_key) = Some first_pb" "ui_current (ct_ui after_message) = Some second_pb"
    by (simp_all add: after_key_def after_message_def started_def setState_def)
  have "commandForKey CHR ''w'' False = Some (Some (moveCommand DIRECTION_UP), ui_text_up)" by (simp add: commandForKey_def)
  moreover have "addClientNote ui_text_up ui = ui" for ui by (simp add: addClientNote_def shouldSuppressClientNote_def)
  ultimately have "key_step (\<lambda>_. None) CHR ''w'' (started first_pb) = redraw True after_key"
    by (simp add: key_step_def sendPlayerCommand_def with_ui_def started_def setState_def after_key_def Let_def)
  then have "client_step (started first_pb, []) (after_key, [])"
    using demo_draws [of "ct_ui after_key"] cur client_step.on_key [of "\<lambda>_. None" "CHR ''w''" "started first_pb" True after_key "[]"]
    by (auto simp: redraw_def)
  moreover have "shouldApplyState (Some first_pb) (Some second_pb)"
    by (simp add: shouldApplyState_def ToWorldState_def first_state_def second_state_def)
  then have "receive_step (Some (state_envelope second_pb)) after_key = redraw True after_message"
    by (simp add: receive_step_def handleServerEnvelope_def state_envelope_def applyState_def cur with_ui_def after_message_def setState_def)
  then have "client_step (after_key, []) (after_message, [] @ [state_envelope second_pb])"
    using demo_draws [of "ct_ui after_message"] cur by (intro client_step.on_message [of _ _ True]) (auto simp: redraw_def)
  ultimately show ?thesis by (simp add: converse_rtranclp_into_rtranclp)
qed

theorem client_requests_are_understood_witness:
  "map cq_RequestId (ct_sent after_message) = [2] \<and>
   run_payload mr mem_json mem_sql (\<lambda>_. demo_process) (\<lambda>_. []) (quiet_gio (\<lambda>_. Delivered) 6) ''ann''
     (cq_Payload (moveCommand DIRECTION_UP 2)) False duo_gateway duo \<noteq> Some (Inl (HText []), False, duo_gateway, duo)"
proof -
  have "length (ct_sent after_message) = 1" "moveCommand DIRECTION_UP 2 \<in> set (ct_sent after_message)"
    by (simp_all add: after_message_def after_key_def)
  with client_requests_are_understood [OF demo_run, of mr mem_json mem_sql "\<lambda>_. demo_process" "\<lambda>_. []" "quiet_gio (\<lambda>_. Delivered) 6" "''ann''" False
      duo_gateway duo "[]" "(False, duo_gateway, duo)"]
  show ?thesis by simp
qed

theorem client_shows_newest_witness:
  "ui_current (ct_ui after_message) = Some second_pb \<and> newest [first_pb, second_pb] second_pb"
  using client_shows_newest [OF demo_run] by (simp add: state_envelope_def after_message_def setState_def)

end
