(* ===== verification/Lifecycle.thy ===== *)
theory Lifecycle
  imports Coordinator Node_Props
begin

text \<open>
  The endpoints operators use (\<open>lifecycle/http.go\<close>) and the callbacks of the three processes
  (\<open>cmd/node/lifecycle.go\<close>, \<open>cmd/gateway/main.go\<close>, \<open>cmd/coordinator/main.go\<close>). A handler is a function of the
  state of its process; a drain that is still waiting has no answer yet. The path of a request is taken as the
  router sees it; a path without a handler gets the router's 404.
\<close>

section \<open>The handler\<close>

record lc_Status =
  lc_Draining :: bool
  lc_ActiveConnections :: int

record 'p Callbacks =
  cb_Status :: "('p \<Rightarrow> lc_Status) option"
  cb_Ready :: "('p \<Rightarrow> bool) option"
  cb_Drain :: "('p \<Rightarrow> string option option \<times> 'p) option"

datatype lc_payload = StatusPayload lc_Status | ErrorPayload string | PlainText

record lc_response =
  rs_Code :: nat
  rs_Allow :: string
  rs_ContentType :: string
  rs_Body :: lc_payload

definition currentStatus :: "'p Callbacks \<Rightarrow> 'p \<Rightarrow> lc_Status" where
  "currentStatus callbacks p =
     (case cb_Status callbacks of None \<Rightarrow> \<lparr>lc_Draining = False, lc_ActiveConnections = 0\<rparr> | Some status \<Rightarrow> status p)"

definition writeJSON :: "string \<Rightarrow> nat \<Rightarrow> lc_payload \<Rightarrow> lc_response" where
  "writeJSON allow status payload =
     \<lparr>rs_Code = status, rs_Allow = allow, rs_ContentType = ''application/json'', rs_Body = payload\<rparr>"

definition writeError :: "string \<Rightarrow> nat \<Rightarrow> string \<Rightarrow> lc_response" where
  "writeError allow status err = writeJSON allow status (ErrorPayload err)"

definition methodNotAllowed :: lc_response where
  "methodNotAllowed = writeError ''GET, POST'' 405 ''method not allowed''"

definition healthz :: "'p Callbacks \<Rightarrow> string \<Rightarrow> 'p \<Rightarrow> lc_response" where
  "healthz callbacks meth p =
     (if meth \<noteq> ''GET'' then methodNotAllowed else writeJSON [] 200 (StatusPayload (currentStatus callbacks p)))"

definition readyz :: "'p Callbacks \<Rightarrow> string \<Rightarrow> 'p \<Rightarrow> lc_response" where
  "readyz callbacks meth p =
     (if meth \<noteq> ''GET'' then methodNotAllowed
      else let status = currentStatus callbacks p
           in if lc_Draining status \<or> cb_Ready callbacks = None \<or> \<not> the (cb_Ready callbacks) p
              then writeJSON [] 503 (StatusPayload status)
              else writeJSON [] 200 (StatusPayload status))"

definition drain_endpoint :: "'p Callbacks \<Rightarrow> string \<Rightarrow> 'p \<Rightarrow> lc_response option \<times> 'p" where
  "drain_endpoint callbacks meth p =
     (if meth \<noteq> ''POST'' then (Some methodNotAllowed, p)
      else case cb_Drain callbacks of
             None \<Rightarrow> (Some (writeError [] 501 ''drain is not supported''), p)
           | Some drain \<Rightarrow>
               (case drain p of
                  (None, p) \<Rightarrow> (None, p)
                | (Some (Some err), p) \<Rightarrow> (Some (writeError [] 409 err), p)
                | (Some None, p) \<Rightarrow> (Some (writeJSON [] 202 (StatusPayload (currentStatus callbacks p))), p)))"

definition NewHandler :: "'p Callbacks \<Rightarrow> string \<Rightarrow> string \<Rightarrow> 'p \<Rightarrow> lc_response option \<times> 'p" where
  "NewHandler callbacks meth path p =
     (if path = ''/healthz'' then (Some (healthz callbacks meth p), p)
      else if path = ''/readyz'' then (Some (readyz callbacks meth p), p)
      else if path = ''/drain'' then drain_endpoint callbacks meth p
      else (Some \<lparr>rs_Code = 404, rs_Allow = [], rs_ContentType = ''text/plain; charset=utf-8'', rs_Body = PlainText\<rparr>, p))"

section \<open>The three processes\<close>

text \<open>The node: \<open>render\<close> renders its errors; \<open>ps\<close> are the polls of \<open>BeginDrain\<close>.\<close>

definition node_callbacks ::
    "(node_error \<Rightarrow> string) \<Rightarrow> ('s, 'd) redis \<Rightarrow> 'd json \<Rightarrow> process \<Rightarrow> 's io \<Rightarrow> ((NodeService \<Rightarrow> NodeService) \<times> time \<times> bool) list
     \<Rightarrow> (NodeService \<times> 's) Callbacks" where
  "node_callbacks render R J E ev ps =
     \<lparr>cb_Status = Some (\<lambda>(n, s). \<lparr>lc_Draining = ds_Draining (DrainState n), lc_ActiveConnections = ds_ActiveConnections (DrainState n)\<rparr>),
      cb_Ready = Some (\<lambda>(n, s). \<not> ns_draining n),
      cb_Drain = Some (\<lambda>(n, s). let (r, n, s) = BeginDrain R J E ev False ps n s in (map_option (map_option render) r, n, s))\<rparr>"

text \<open>The gateway: \<open>gp_stopping\<close> says that \<open>GracefulStop\<close> has been called.\<close>

record gateway_process =
  gp_draining :: bool
  gp_stopping :: bool

definition gateway_callbacks :: "gateway_process Callbacks" where
  "gateway_callbacks =
     \<lparr>cb_Status = Some (\<lambda>p. \<lparr>lc_Draining = gp_draining p, lc_ActiveConnections = 0\<rparr>),
      cb_Ready = Some (\<lambda>p. \<not> gp_draining p),
      cb_Drain = Some (\<lambda>p. if gp_draining p then (Some None, p) else (Some None, p\<lparr>gp_draining := True, gp_stopping := True\<rparr>))\<rparr>"

definition coordinator_callbacks ::
    "('s, 'd) redis \<Rightarrow> 'd json \<Rightarrow> net \<Rightarrow> time \<Rightarrow> (bool \<times> Coordinator \<times> 's outside) Callbacks" where
  "coordinator_callbacks R J n now =
     \<lparr>cb_Status = Some (\<lambda>(draining, _). \<lparr>lc_Draining = draining, lc_ActiveConnections = 0\<rparr>),
      cb_Ready = Some (\<lambda>(draining, _). \<not> draining),
      cb_Drain = Some (\<lambda>(draining, control, en).
        if draining then (Some None, draining, control, en)
        else (Some None, True, snd (Close R J n now control en)))\<rparr>"

section \<open>The contract of the callbacks\<close>

locale drainable =
  fixes callbacks :: "'p Callbacks" and draining :: "'p \<Rightarrow> bool"
  assumes status: "cb_Status callbacks \<noteq> None" "lc_Draining (the (cb_Status callbacks) p) = draining p"
    and ready: "cb_Ready callbacks \<noteq> None" "the (cb_Ready callbacks) p \<longleftrightarrow> \<not> draining p"
    and drain: "cb_Drain callbacks \<noteq> None"
begin

abbreviation "drain_it \<equiv> the (cb_Drain callbacks)"

lemma health_ok: "rs_Code (healthz callbacks ''GET'' p) = 200"
  by (simp add: healthz_def writeJSON_def)

lemma ready_code: "rs_Code (readyz callbacks ''GET'' p) = (if draining p then 503 else 200)"
  using status ready by (auto simp: readyz_def currentStatus_def writeJSON_def Let_def split: option.splits)

lemma drain_code:
  "drain_endpoint callbacks ''POST'' p = (answer, p') \<longleftrightarrow>
   p' = snd (drain_it p) \<and>
   answer = (case fst (drain_it p) of
      None \<Rightarrow> None
    | Some None \<Rightarrow> Some (writeJSON [] 202 (StatusPayload (currentStatus callbacks p')))
    | Some (Some err) \<Rightarrow> Some (writeError [] 409 err))"
  using drain by (cases "drain_it p") (auto simp: drain_endpoint_def split: option.splits)

lemma accepted_code: "drain_endpoint callbacks ''POST'' p = (Some r, p') \<Longrightarrow> rs_Code r = 202 \<longleftrightarrow> fst (drain_it p) = Some None"
  unfolding drain_code by (auto simp: writeJSON_def writeError_def split: option.splits)

end

interpretation node_lc: drainable "node_callbacks render R J E ev ps" "\<lambda>(n, s). ns_draining n" for render R J E ev ps
  by unfold_locales (auto simp: node_callbacks_def DrainState_def)

interpretation gateway_lc: drainable gateway_callbacks gp_draining
  by unfold_locales (auto simp: gateway_callbacks_def)

interpretation coordinator_lc: drainable "coordinator_callbacks R J n now" fst for R J n now
  by unfold_locales (auto simp: coordinator_callbacks_def)

section \<open>What a drain achieves\<close>

definition keeps_draining :: "((NodeService \<Rightarrow> NodeService) \<times> time \<times> bool) list \<Rightarrow> bool" where
  "keeps_draining ps \<longleftrightarrow> (\<forall>(others, now, stop) \<in> set ps. \<forall>n. ns_draining n \<longrightarrow> ns_draining (others n))"

lemma drain_wait_keeps:
  "keeps_draining ps \<Longrightarrow> ns_draining n \<Longrightarrow> drain_wait ps n = (r, n') \<Longrightarrow>
   ns_draining n' \<and> (r = Some None \<longrightarrow> (\<exists>now. OwnedMapIDs now (ns_authority n') = Some []))"
proof (induction ps arbitrary: n)
  case (Cons x ps)
  obtain others now stop where x: "x = (others, now, stop)" by (cases x)
  then have "ns_draining (others n)" "keeps_draining ps" using Cons.prems by (auto simp: keeps_draining_def)
  then show ?case using Cons.prems(3) Cons.IH [of "others n"] x by (auto simp: Let_def split: option.splits if_splits)
qed simp

lemma BeginDrain_keeps:
  assumes "keeps_draining ps" "BeginDrain R J E ev False ps n s = (r, n', s')"
  shows "ns_draining n' \<and> (r = Some None \<longrightarrow> (\<exists>now. OwnedMapIDs now (ns_authority n') = Some []))"
proof -
  obtain e n1 s1 where d: "drain_start R J E ev n s = (e, n1, s1)" by (metis prod.exhaust)
  then have "ns_draining n1" using drain_start_draining [of R J E ev n s] by simp
  then show ?thesis
  proof (cases e)
    case None
    then obtain r1 n2 where w: "drain_wait ps n1 = (r1, n2)" by fastforce
    then have "r = r1" "n' = n2" using assms(2) d None by (simp_all add: BeginDrain_def)
    then show ?thesis using drain_wait_keeps [OF assms(1) \<open>ns_draining n1\<close> w] by simp
  qed (use assms(2) d in \<open>auto simp: BeginDrain_def\<close>)
qed

lemma NewHandler_drain: "NewHandler callbacks ''POST'' ''/drain'' p = drain_endpoint callbacks ''POST'' p"
  by (simp add: NewHandler_def)

lemma gateway_drain:
  "NewHandler gateway_callbacks ''POST'' ''/drain'' p =
     (Some (writeJSON [] 202 (StatusPayload \<lparr>lc_Draining = True, lc_ActiveConnections = 0\<rparr>)),
      if gp_draining p then p else p\<lparr>gp_draining := True, gp_stopping := True\<rparr>)"
  by (simp add: NewHandler_drain drain_endpoint_def gateway_callbacks_def currentStatus_def)

lemma coordinator_drain:
  "NewHandler (coordinator_callbacks R J net now) ''POST'' ''/drain'' (draining, control, en) =
     (Some (writeJSON [] 202 (StatusPayload \<lparr>lc_Draining = True, lc_ActiveConnections = 0\<rparr>)),
      if draining then (True, control, en) else (True, snd (Close R J net now control en)))"
  by (simp add: NewHandler_drain drain_endpoint_def coordinator_callbacks_def currentStatus_def)

lemma node_drain:
  assumes "keeps_draining ps" "NewHandler (node_callbacks render R J E ev ps) ''POST'' ''/drain'' (n, s) = (answer, n', s')"
  shows "ns_draining n'"
    and "answer = Some r \<Longrightarrow> rs_Code r = 202 \<and> (\<exists>now. OwnedMapIDs now (ns_authority n') = Some []) \<or> rs_Code r = 409"
proof -
  obtain e n1 s1 where b: "BeginDrain R J E ev False ps n s = (e, n1, s1)" by (metis prod.exhaust)
  then have out: "fst (the (cb_Drain (node_callbacks render R J E ev ps)) (n, s)) = map_option (map_option render) e"
    "snd (the (cb_Drain (node_callbacks render R J E ev ps)) (n, s)) = (n1, s1)"
    by (simp_all add: node_callbacks_def)
  note code = node_lc.drain_code [THEN iffD1, OF assms(2) [unfolded NewHandler_drain], unfolded out]
  show "ns_draining n'" using code BeginDrain_keeps [OF assms(1) b] by simp
  show "rs_Code r = 202 \<and> (\<exists>now. OwnedMapIDs now (ns_authority n') = Some []) \<or> rs_Code r = 409" if "answer = Some r"
    using code that BeginDrain_keeps [OF assms(1) b] by (auto simp: writeJSON_def writeError_def split: option.splits)
qed


text \<open>A node that owns no map any more is asked to drain.\<close>

definition idle_polls :: "((NodeService \<Rightarrow> NodeService) \<times> time \<times> bool) list" where
  "idle_polls = [(\<lambda>n. n, 6, False)]"

lemma idle_drains:
  "NewHandler (node_callbacks (\<lambda>_. []) mr mem_json demo_process (calm 6) idle_polls) ''POST'' ''/drain'' (demo_node ''n1'' topo2, green_store) =
     (Some (writeJSON [] 202 (StatusPayload \<lparr>lc_Draining = True, lc_ActiveConnections = 0\<rparr>)), (demo_node ''n1'' topo2)\<lparr>ns_draining := True\<rparr>, green_store)"
proof -
  have "OwnedMapIDs 6 (ns_authority (demo_node ''n1'' topo2)) = Some []"
    by (simp add: OwnedMapIDs_def freshLocked_def demo_node_def topo2_def IsZero_def zero_time_def second_def)
  moreover have "\<not> ns_draining (demo_node ''n1'' topo2)" "ns_store (demo_node ''n1'' topo2)" by (simp_all add: demo_node_def NewNodeService_def)
  ultimately have "BeginDrain mr mem_json demo_process (calm 6) False idle_polls (demo_node ''n1'' topo2) green_store =
      (Some None, (demo_node ''n1'' topo2)\<lparr>ns_draining := True\<rparr>, green_store)"
    by (simp add: BeginDrain_def drain_start_def saveFinalCheckpoints_def idle_polls_def calm_def)
  then show ?thesis
    by (simp add: NewHandler_drain drain_endpoint_def node_callbacks_def currentStatus_def DrainState_def)
qed


end
