(* ===== verification/Startup.thy ===== *)
theory Startup
  imports Gateway_Props Gateway_Stream Lifecycle
begin

text \<open>
  How the processes come up and how operators reach them: the constructors of the store (\<open>storage/store.go\<close>), the main
  functions of coordinator and gateway (\<open>cmd/coordinator/main.go\<close>, \<open>cmd/gateway/main.go\<close>) and the administration command
  (\<open>cmd/admin/main.go\<close>).

  \<^item> \<open>dialer\<close> says what the drivers of PostgreSQL and Redis answer; what they are given is computed from the environment.
  \<^item> The gateway process is a step relation: operations of the cluster, streams that begin and end, signals, requests to drain
    and the exit. \<open>GracefulStop\<close> lets no stream in any more and waits for the open ones.
\<close>

section \<open>The store\<close>

definition DBPassword :: "env \<Rightarrow> string" where
  "DBPassword env = EnvOrAny env ''Wu050601&&'' [''BATTLEWORLD_PGPASSWORD'', ''BW_DB_PASSWORD'']"

record redis_options =
  ro_Addr :: string
  ro_Password :: string
  ro_DB :: int

record dialer =
  dl_sql :: "string \<Rightarrow> bool"
  dl_migrate :: "string \<Rightarrow> bool"
  dl_ping :: "redis_options \<Rightarrow> bool"

text \<open>A store: the data source of the SQL connection, if there is one, and the options of the Redis client.\<close>

record store_handle =
  sh_db :: "string option"
  sh_rdb :: redis_options

datatype open_error = OpenNoPassword | OpenSQL | OpenMigrate | OpenRedisNil | OpenPing

definition dsn :: "env \<Rightarrow> string" where
  "dsn env =
     ''host='' @ DBHost env @ '' user='' @ DBUser env @ '' password='' @ [CHR 39] @ DBPassword env @ [CHR 39] @ '' dbname='' @ DBName env @
     '' port='' @ DBPort env @ '' sslmode=disable TimeZone=Asia/Shanghai''"

definition NewRedisStore :: "dialer \<Rightarrow> redis_options option \<Rightarrow> open_error + store_handle" where
  "NewRedisStore dl client =
     (case client of
        None \<Rightarrow> Inl OpenRedisNil
      | Some options \<Rightarrow> if \<not> dl_ping dl options then Inl OpenPing else Inr \<lparr>sh_db = None, sh_rdb = options\<rparr>)"

definition NewStore :: "dialer \<Rightarrow> env \<Rightarrow> open_error + store_handle" where
  "NewStore dl env =
     (if DBPassword env = [] then Inl OpenNoPassword
      else if \<not> dl_sql dl (dsn env) then Inl OpenSQL
      else if \<not> dl_migrate dl (dsn env) then Inl OpenMigrate
      else let rdb = \<lparr>ro_Addr = RedisAddr env, ro_Password = RedisPassword env, ro_DB = RedisDB env\<rparr>
           in if \<not> dl_ping dl rdb then Inl OpenPing
              else Inr \<lparr>sh_db = Some (dsn env), sh_rdb = rdb\<rparr>)"

text \<open>\<open>None\<close> is a nil store.\<close>

definition RedisClient :: "store_handle option \<Rightarrow> redis_options option" where
  "RedisClient s = map_option sh_rdb s"

definition database :: "store_handle option \<Rightarrow> string option" where
  "database s = (case s of None \<Rightarrow> None | Some s \<Rightarrow> sh_db s)"

text \<open>The channels and the patterns a gateway listens to; the patterns end in a star.\<close>

definition SubscribeEvents :: "string list \<times> string list" where
  "SubscribeEvents = ([''events:global'', TopologyEventChannel], [''events:map:*'', ''events:user:*''])"

definition delivered_by :: "string list \<times> string list \<Rightarrow> string \<Rightarrow> bool" where
  "delivered_by sub channel \<longleftrightarrow> channel \<in> set (fst sub) \<or> (\<exists>pattern \<in> set (snd sub). has_prefix (butlast pattern) channel)"

text \<open>All channels the program publishes on are listened to, and what the event loop ignores is never delivered.\<close>

lemma subscription_complete:
  "delivered_by SubscribeEvents ''events:global''" "delivered_by SubscribeEvents TopologyEventChannel"
  "delivered_by SubscribeEvents (''events:map:'' @ m)" "delivered_by SubscribeEvents (''events:user:'' @ u)"
  by (simp_all add: SubscribeEvents_def delivered_by_def has_prefix_def)

lemma subscription_minimal:
  "\<not> delivered_by SubscribeEvents channel \<Longrightarrow> channel \<noteq> TopologyEventChannel \<and> receive_event channel payload c = c"
  by (auto simp: SubscribeEvents_def delivered_by_def receive_event_def)

lemma DBPassword_set: "DBPassword env \<noteq> []"
  by (simp add: DBPassword_def Let_def)

text \<open>The check for a missing password never fires; a store that opens has both connections, one for Redis only the second.\<close>

lemma NewStore_iff:
  "NewStore dl env = Inr s \<longleftrightarrow>
     dl_sql dl (dsn env) \<and> dl_migrate dl (dsn env) \<and> dl_ping dl (sh_rdb s) \<and>
     s = \<lparr>sh_db = Some (dsn env), sh_rdb = \<lparr>ro_Addr = RedisAddr env, ro_Password = RedisPassword env, ro_DB = RedisDB env\<rparr>\<rparr>"
  "NewStore dl env \<noteq> Inl OpenNoPassword"
  using DBPassword_set [of env] by (auto simp: NewStore_def Let_def)

lemma store_connections:
  "NewStore dl env = Inr s \<Longrightarrow> database (Some s) \<noteq> None \<and> RedisClient (Some s) \<noteq> None"
  "NewRedisStore dl client = Inr s \<Longrightarrow> database (Some s) = None \<and> RedisClient (Some s) = client"
  by (auto simp: NewStore_iff(1) NewRedisStore_def database_def RedisClient_def split: option.splits if_splits)

section \<open>Coordinator\<close>

datatype startup_error = StartStore open_error | StartRuntime config_error | StartCoordinator coord_error | StartCluster gateway_error | StartListen

definition resolveDataRoot :: "env \<Rightarrow> string" where
  "resolveDataRoot env = (let root = TrimSpace (Getenv env ''LAB3_DATA_ROOT'') in if root \<noteq> [] then root else ''.'')"

definition coordinator_main ::
    "dialer \<Rightarrow> env \<Rightarrow> string option \<Rightarrow> string option \<Rightarrow> config_error + RuntimeConfig \<Rightarrow> startup_error + Coordinator" where
  "coordinator_main dl env hostname raw loaded =
     (case NewStore dl env of
        Inl e \<Rightarrow> Inl (StartStore e)
      | Inr store \<Rightarrow>
          (case loaded of
             Inl e \<Rightarrow> Inl (StartRuntime e)
           | Inr runtime \<Rightarrow>
               (case NewWithRuntimeConfig (RedisClient (Some store) \<noteq> None) env hostname raw runtime of
                  Inl e \<Rightarrow> Inl (StartCoordinator e)
                | Inr control \<Rightarrow>
                    (case Start_coordinator control of
                       (Inl e, _) \<Rightarrow> Inl (StartCoordinator e)
                     | (Inr _, control) \<Rightarrow> Inr control))))"

lemma coordinator_main_Inr:
  assumes "coordinator_main dl env hostname raw loaded = Inr control"
  shows "\<exists>runtime c. loaded = Inr runtime \<and> NewWithRuntimeConfig True env hostname raw runtime = Inr c \<and>
    control = c\<lparr>co_started := True\<rparr> \<and> \<not> co_closed control"
proof -
  from assms obtain store where s: "NewStore dl env = Inr store" by (auto simp: coordinator_main_def split: sum.splits)
  from assms s store_connections(1) [OF s] obtain runtime c where c: "loaded = Inr runtime" "NewWithRuntimeConfig True env hostname raw runtime = Inr c"
    by (auto simp: coordinator_main_def split: sum.splits)
  have "\<not> co_started c" "\<not> co_closed c" using c(2)
    by (auto simp: NewWithRuntimeConfig_def newCoordinatorWithRuntimeConfig_def split: option.splits sum.splits if_splits)
  then show ?thesis using assms s c store_connections(1) [OF s] by (auto simp: coordinator_main_def Start_coordinator_def split: sum.splits)
qed

section \<open>Gateway\<close>

record gateway_server =
  gs_cluster :: Cluster
  gs_proc :: gateway_process
  gs_lifecycle :: bool
  gs_waiting :: bool
  gs_streams :: nat
  gs_exited :: bool

text \<open>The first topology is loaded before the port is opened; a failure is only logged.\<close>

definition gateway_main ::
    "('s, 'd) redis \<Rightarrow> 'd json \<Rightarrow> (string \<Rightarrow> string \<Rightarrow> bool) \<Rightarrow> ('s, 't) gio \<Rightarrow> dialer \<Rightarrow> env \<Rightarrow> string \<Rightarrow> config_error + RuntimeConfig
     \<Rightarrow> bool \<Rightarrow> ('s, 't) backend \<Rightarrow> startup_error + gateway_server \<times> ('s, 't) backend" where
  "gateway_main R J dial ev dl env lifecycleAddr loaded listen en =
     (case loaded of
        Inl e \<Rightarrow> Inl (StartRuntime e)
      | Inr runtime \<Rightarrow>
          (case NewStore dl env of
             Inl e \<Rightarrow> Inl (StartStore e)
           | Inr store \<Rightarrow>
               (case newCluster True True (rc_Gateway runtime) of
                  Inl e \<Rightarrow> Inl (StartCluster e)
                | Inr c \<Rightarrow>
                    let (_, c, en) = loadTopology R J dial ev c en
                    in if \<not> listen then Inl StartListen
                       else Inr (\<lparr>gs_cluster = c, gs_proc = \<lparr>gp_draining = False, gp_stopping = False\<rparr>, gs_lifecycle = (lifecycleAddr \<noteq> []),
                                  gs_waiting = True, gs_streams = 0, gs_exited = False\<rparr>, en))))"

inductive gateway_life ::
    "(('s, 't) gio \<Rightarrow> bool) \<Rightarrow> ('s, 'd) redis \<Rightarrow> 'd json \<Rightarrow> 't sql \<Rightarrow> hasher \<Rightarrow> (string \<Rightarrow> process) \<Rightarrow> (gateway_text \<Rightarrow> string)
     \<Rightarrow> (string \<Rightarrow> string \<Rightarrow> bool) \<Rightarrow> gateway_server \<times> ('s, 't) backend \<Rightarrow> gateway_server \<times> ('s, 't) backend \<Rightarrow> bool"
  for P R J Q H E say dial where
  call: "\<not> gs_exited p \<Longrightarrow> gateway_call P R J Q H E say dial (gs_cluster p, en) (c, en') \<Longrightarrow>
    gateway_life P R J Q H E say dial (p, en) (p\<lparr>gs_cluster := c\<rparr>, en')"
| connect: "\<not> gs_exited p \<Longrightarrow> \<not> gp_stopping (gs_proc p) \<Longrightarrow>
    gateway_life P R J Q H E say dial (p, en) (p\<lparr>gs_streams := Suc (gs_streams p)\<rparr>, en)"
| leave: "gs_streams p = Suc n \<Longrightarrow> gateway_life P R J Q H E say dial (p, en) (p\<lparr>gs_streams := n\<rparr>, en)"
| signal: "\<not> gs_exited p \<Longrightarrow> gs_waiting p \<Longrightarrow>
    gateway_life P R J Q H E say dial (p, en) (p\<lparr>gs_waiting := False, gs_proc := (gs_proc p)\<lparr>gp_stopping := True\<rparr>\<rparr>, en)"
| request: "\<not> gs_exited p \<Longrightarrow> gs_lifecycle p \<Longrightarrow>
    gateway_life P R J Q H E say dial (p, en) (p\<lparr>gs_proc := snd (NewHandler gateway_callbacks meth path (gs_proc p))\<rparr>, en)"
| finish: "\<not> gs_exited p \<Longrightarrow> gp_stopping (gs_proc p) \<Longrightarrow> gs_streams p = 0 \<Longrightarrow>
    gateway_life P R J Q H E say dial (p, en) (p\<lparr>gs_exited := True, gs_cluster := snd (Close_cluster (gs_cluster p))\<rparr>, en)"

definition server_ok :: "gateway_server \<Rightarrow> bool" where
  "server_ok p \<longleftrightarrow>
     (gp_draining (gs_proc p) \<longrightarrow> gp_stopping (gs_proc p)) \<and>
     (gs_exited p \<longrightarrow> gp_stopping (gs_proc p) \<and> gs_streams p = 0 \<and> cl_closed (gs_cluster p))"

lemma gateway_handler: "snd (NewHandler gateway_callbacks meth path q) \<in> {q, q\<lparr>gp_draining := True, gp_stopping := True\<rparr>}"
  by (auto simp: NewHandler_def drain_endpoint_def gateway_callbacks_def)

lemma gateway_life_ok:
  assumes "gateway_life P R J Q H E say dial (p, en) (p', en')" "server_ok p"
  shows "server_ok p' \<and> (gp_stopping (gs_proc p) \<longrightarrow> gp_stopping (gs_proc p') \<and> gs_streams p' \<le> gs_streams p)"
  using assms(1)
proof (cases rule: gateway_life.cases)
  case (request meth path)
  then show ?thesis using assms(2) gateway_handler [of meth path "gs_proc p"] by (auto simp: server_ok_def)
qed (use assms(2) in \<open>auto simp: server_ok_def Close_cluster_def\<close>)

lemma gateway_life_steps:
  assumes "gateway_life stepping R J Q H E say dial (p, en) (p', en')"
  shows "gateway_step\<^sup>*\<^sup>* (gs_cluster p) (gs_cluster p')"
  using assms
  by (cases rule: gateway_life.cases) (auto dest: gateway_call_steps intro: gateway_step.close)

lemma gateway_life_run:
  assumes "(gateway_life stepping R J Q H E say dial)\<^sup>*\<^sup>* (p, en) (p', en')" "server_ok p"
  shows "server_ok p' \<and> gateway_step\<^sup>*\<^sup>* (gs_cluster p) (gs_cluster p') \<and>
    (gp_stopping (gs_proc p) \<longrightarrow> gp_stopping (gs_proc p') \<and> gs_streams p' \<le> gs_streams p)"
  using assms
proof (induction rule: rtranclp_induct2)
  case (step q en1 p' en')
  then have q: "server_ok q" by simp
  from step gateway_life_ok [OF step.hyps(2) q] gateway_life_steps [OF step.hyps(2)] show ?case
    by (auto intro: rtranclp_trans order_trans)
qed simp

lemma gateway_main_Inr:
  assumes "gateway_main R J dial ev dl env lifecycleAddr loaded listen en = Inr (p, en')" "stepping ev"
  shows "server_ok p \<and> (\<exists>runtime c. newCluster True True runtime = Inr c \<and> gateway_step\<^sup>*\<^sup>* c (gs_cluster p))"
proof -
  obtain runtime store c where r: "loaded = Inr runtime" "NewStore dl env = Inr store" "newCluster True True (rc_Gateway runtime) = Inr c"
    using assms(1) by (auto simp: gateway_main_def split: sum.splits)
  obtain x c1 en1 where l: "loadTopology R J dial ev c en = (x, c1, en1)" by (metis prod.collapse)
  have "gs_cluster p = c1" "server_ok p"
    using assms(1) r l by (auto simp: gateway_main_def server_ok_def split: if_splits)
  moreover have "gateway_step\<^sup>*\<^sup>* c c1"
    using gateway_call_steps [OF gateway_call.load [of stepping, OF assms(2) l]] by simp
  ultimately show ?thesis using r(3) by blast
qed

text \<open>Over every life of a gateway process the cluster routes by one valid topology; once the process is told to stop no stream
  is let in, and it exits only after the last stream has ended, with its connections closed.\<close>

theorem gateway_process_safe:
  assumes "gateway_main R J dial ev dl env lifecycleAddr loaded listen en0 = Inr (p0, en1)" "stepping ev"
    "(gateway_life stepping R J Q H E say dial)\<^sup>*\<^sup>* (p0, en1) (p, en)" "(gateway_life stepping R J Q H E say dial)\<^sup>*\<^sup>* (p, en) (p', en')"
  shows "routed_inv (gs_cluster p) \<and> pool_inv (gs_cluster p) \<and>
    (gp_stopping (gs_proc p) \<longrightarrow> gp_stopping (gs_proc p') \<and> gs_streams p' \<le> gs_streams p) \<and>
    (gs_exited p \<longrightarrow> gp_stopping (gs_proc p) \<and> gs_streams p = 0 \<and> cl_closed (gs_cluster p))"
proof -
  obtain runtime c where c: "server_ok p0" "newCluster True True runtime = Inr c" "gateway_step\<^sup>*\<^sup>* c (gs_cluster p0)"
    using gateway_main_Inr [OF assms(1,2)] by blast
  note run = gateway_life_run [OF assms(3) c(1)]
  have "gateway_step\<^sup>*\<^sup>* c (gs_cluster p)" using c(3) run by (meson rtranclp_trans)
  then show ?thesis using gateway_invs [OF c(2)] run gateway_life_run [OF assms(4)] by (simp add: server_ok_def)
qed

text \<open>After a signal the gateway lets no stream in, but it goes on to report that it is ready.\<close>

lemma signalled_gateway_ready:
  assumes "\<not> gs_exited p" "gs_waiting p" "\<not> gp_draining (gs_proc p)"
  shows "\<exists>p'. gateway_life P R J Q H E say dial (p, en) (p', en) \<and> gp_stopping (gs_proc p') \<and>
    rs_Code (readyz gateway_callbacks ''GET'' (gs_proc p')) = 200"
  by (intro exI conjI, rule gateway_life.signal [OF assms(1,2)]) (simp_all add: gateway_lc.ready_code assms(3))

section \<open>Administration\<close>

text \<open>\<open>strings.EqualFold\<close> with an ASCII text: letters of either case, and the two other characters that fold to an ASCII letter:
  the long s (bytes 197 191) and the Kelvin sign (bytes 226 132 170).\<close>

definition ascii_lower :: "char \<Rightarrow> nat" where
  "ascii_lower c = (let n = of_char c in if 65 \<le> n \<and> n \<le> 90 then n + 32 else n)"

fun EqualFold :: "string \<Rightarrow> string \<Rightarrow> bool" where
  "EqualFold s [] \<longleftrightarrow> s = []"
| "EqualFold s (t # ts) \<longleftrightarrow>
     (case s of
        [] \<Rightarrow> False
      | c # cs \<Rightarrow>
          if ascii_lower c = ascii_lower t then EqualFold cs ts
          else if ascii_lower t = 115 \<and> take 2 s = map char_of [197 :: nat, 191] then EqualFold (drop 2 s) ts
          else if ascii_lower t = 107 \<and> take 3 s = map char_of [226 :: nat, 132, 170] then EqualFold (drop 3 s) ts
          else False)"

definition isStatusAction :: "string \<Rightarrow> bool" where
  "isStatusAction action \<longleftrightarrow> action = map char_of [231 :: nat, 138, 182, 230, 128, 129] \<or> EqualFold action ''status''"

definition formatGatewayStatus :: "pb_GatewayStatusResponse option \<Rightarrow> string" where
  "formatGatewayStatus response = (case response of None \<Rightarrow> [] | Some response \<Rightarrow> sr_Summary response)"

datatype admin_error = AdminMoved string | AdminDial | AdminStatus

text \<open>\<open>ask addr\<close>: whether a client for the address can be made, and what it answers.\<close>

definition executeAdmin ::
    "(string \<Rightarrow> pb_GatewayStatusResponse option option option) \<Rightarrow> string \<Rightarrow> string \<Rightarrow> admin_error + string" where
  "executeAdmin ask addr action =
     (if \<not> isStatusAction action then Inl (AdminMoved action)
      else case ask addr of
             None \<Rightarrow> Inl AdminDial
           | Some None \<Rightarrow> Inl AdminStatus
           | Some (Some response) \<Rightarrow> Inr (formatGatewayStatus response))"

datatype admin_exit = AdminUsage | AdminFailed admin_error | AdminPrinted string

definition admin_main :: "(string \<Rightarrow> pb_GatewayStatusResponse option option option) \<Rightarrow> string list \<Rightarrow> admin_exit" where
  "admin_main ask args =
     (case args of
        [] \<Rightarrow> AdminUsage
      | action # rest \<Rightarrow>
          let addr = (if isStatusAction action \<and> rest \<noteq> [] then hd rest else ''127.0.0.1:9310'')
          in case executeAdmin ask addr action of Inl e \<Rightarrow> AdminFailed e | Inr text' \<Rightarrow> AdminPrinted text')"

lemma EqualFold_lower: "map ascii_lower s = map ascii_lower t \<Longrightarrow> EqualFold s t"
  by (induction s t rule: EqualFold.induct) (auto split: list.splits)

text \<open>In whatever case it is typed, the status of the gateway at the given address, or at the usual one, is printed as the
  gateway reports it.\<close>

lemma admin_prints_status:
  assumes "map ascii_lower action = map ascii_lower ''status''" "rest = [] \<and> addr = ''127.0.0.1:9310'' \<or> rest = [addr]"
    "ask addr = Some (Some (Some (GetGatewayStatus say c)))"
  shows "admin_main ask (action # rest) = AdminPrinted (gs_Summary (GatewayStatus_of say c))"
proof -
  have "isStatusAction action" using EqualFold_lower [OF assms(1)] by (simp add: isStatusAction_def)
  then show ?thesis using assms(2,3)
    by (auto simp: admin_main_def executeAdmin_def formatGatewayStatus_def GetGatewayStatus_def Let_def)
qed

end
