(* ===== verification/Node_Writes.thy ===== *)
theory Node_Writes
  imports Lifecycle Failover
begin

text \<open>
  Everything a node does, as seen from outside: a command, a call of another process, a round of its loops or a
  drain keeps the identity of the node, never takes back that it drains, and moves the store by writes of the
  store. \<open>steady_io\<close> is the same promise about the processes around it.
\<close>

definition steady_io :: "('s, 'd) redis \<Rightarrow> 'd json \<Rightarrow> 's io \<Rightarrow> bool" where
  "steady_io R J ev \<longleftrightarrow> (\<forall>k s. steps R J s (ev_others ev k s))"

definition same_node :: "NodeService \<Rightarrow> NodeService \<Rightarrow> bool" where
  "same_node n n' \<longleftrightarrow> ns_ID n' = ns_ID n \<and> ns_store n' = ns_store n \<and> ns_candidateMapID n' = ns_candidateMapID n \<and>
     (ns_draining n \<longrightarrow> ns_draining n')"

text \<open>The topology a node goes by is the one it had, or one that was in the store in between.\<close>

definition saw :: "('s, 'd) redis \<Rightarrow> 'd json \<Rightarrow> authorityCache \<times> 's \<Rightarrow> authorityCache \<times> 's \<Rightarrow> bool" where
  "saw R J = (\<lambda>(c, s) (c', s'). ac_nodeID c' = ac_nodeID c \<and>
     (ac_topologyOK c' \<longrightarrow> ac_topologyOK c \<and> ac_topology c' = ac_topology c \<or>
        (\<exists>s1. steps R J s s1 \<and> steps R J s1 s' \<and> stored_topology R J s1 = Some (ac_topology c') \<and> Validate None (ac_topology c') = None)))"

definition node_moves :: "('s, 'd) redis \<Rightarrow> 'd json \<Rightarrow> NodeService \<times> 's \<Rightarrow> NodeService \<times> 's \<Rightarrow> bool" where
  "node_moves R J st st' \<longleftrightarrow> same_node (fst st) (fst st') \<and> steps R J (snd st) (snd st') \<and>
     saw R J (ns_authority (fst st), snd st) (ns_authority (fst st'), snd st') \<and>
     (\<not> ns_store (fst st) \<longrightarrow> ns_authority (fst st') = ns_authority (fst st))"

lemma steady_ioD:
  assumes "steady_io R J ev"
  shows "steps R J s (ev_others ev k s)" "steps R J s0 s \<Longrightarrow> steps R J s0 (ev_others ev k s)"
  using assms by (auto simp: steady_io_def intro: rtranclp_trans)

lemma same_node_refl [simp]: "same_node n n"
  by (simp add: same_node_def)

lemma same_node_trans: "same_node a b \<Longrightarrow> same_node b c \<Longrightarrow> same_node a c"
  by (simp add: same_node_def)

lemma same_node_put [simp]: "same_node n0 (put_map m w n) = same_node n0 n"
  by (simp add: same_node_def put_map_def)

lemma same_node_authority [simp]: "same_node n0 (n\<lparr>ns_authority := c\<rparr>) = same_node n0 n"
  by (simp add: same_node_def)

lemma put_map_authority [simp]: "ns_authority (put_map m w n) = ns_authority n"
  by (simp add: put_map_def)

lemma saw_same [simp]: "saw R J (c, s) (c, s')"
  by (simp add: saw_def)

lemma saw_trans:
  assumes "saw R J a b" "saw R J b c" "steps R J (snd a) (snd b)" "steps R J (snd b) (snd c)"
  shows "saw R J a c"
  using assms by (cases a, cases b, cases c) (auto simp: saw_def dest: rtranclp_trans)

lemma refresh_saw:
  assumes "steps R J s s'"
  shows "saw R J (c, s) (snd (refresh_cache now (LoadTopology R J net s') c), s')"
  using assms
  by (auto simp: refresh_cache_def saw_def Clone_def dest!: LoadTopology_stored split: sum.split option.split)

lemma node_moves_refl [simp]: "node_moves R J st st"
  by (simp add: node_moves_def)

lemma node_moves_trans: "node_moves R J a b \<Longrightarrow> node_moves R J b c \<Longrightarrow> node_moves R J a c"
  by (auto simp: node_moves_def intro: same_node_trans rtranclp_trans saw_trans) (auto simp: same_node_def)

lemma node_moves_store: "steps R J s s' \<Longrightarrow> node_moves R J (n, s) (n, s')"
  by (simp add: node_moves_def)

section \<open>Commands\<close>

lemma requireAuthority_moves:
  assumes "steady_io R J ev" "requireAuthority R J ev k m e n s = (r, s')"
  shows "steps R J s s'"
  using assms(2) steady_ioD [OF assms(1)] by (auto simp: requireAuthority_def Let_def split: option.splits if_splits)

lemma beginWrite_moves:
  assumes "steady_io R J ev" "beginWrite R J ev k m e n s = (r, s')"
  shows "steps R J s s'"
  using assms(2) requireAuthority_moves [OF assms(1)] by (auto simp: beginWrite_def split: if_splits)

lemma ensureHostedMap_moves:
  assumes "steady_io R J ev" "ensureHostedMap R J E ev k m n s = Some (r, n', s')"
  shows "node_moves R J (n, s) (n', s')"
  using assms(2) steady_ioD(1) [OF assms(1)]
  by (auto simp: ensureHostedMap_def node_moves_def Let_def split: if_splits option.splits)

lemma ensure_maps_moves:
  assumes "steady_io R J ev" "ensure_maps R J E ev k ms n s = Some (r, n', s')"
  shows "node_moves R J (n, s) (n', s')"
  using assms(2)
proof (induction ms arbitrary: k n s)
  case (Cons m ms)
  then obtain r1 n1 s1 where h: "ensureHostedMap R J E ev k m n s = Some (r1, n1, s1)" by (auto split: option.splits)
  show ?case using Cons.prems Cons.IH [of "Suc k" n1 s1] ensureHostedMap_moves [OF assms(1) h] h
    by (auto split: option.splits intro: node_moves_trans)
qed simp

lemma refreshTopology_moves:
  assumes "steady_io R J ev" "refreshTopology R J E ev n s = Some (r, n', s')"
  shows "node_moves R J (n, s) (n', s')"
proof (cases "ns_store n")
  case True
  let ?s = "ev_others ev 0 s"
  obtain e c where c: "refresh_cache (ev_now ev 0) (LoadTopology R J (ev_net ev 0) ?s) (ns_authority n) = (e, c)" by fastforce
  have 1: "node_moves R J (n, s) (n\<lparr>ns_authority := c\<rparr>, ?s)" using steady_ioD(1) [OF assms(1)] refresh_saw [of R J s ?s "ns_authority n" "ev_now ev 0" "ev_net ev 0"] c True by (simp add: node_moves_def)
  have "(n', s') = (n\<lparr>ns_authority := c\<rparr>, ?s) \<or> (\<exists>ms. ensure_maps R J E ev 1 ms (n\<lparr>ns_authority := c\<rparr>) ?s = Some (r, n', s'))"
    using assms(2) c True by (auto simp: refreshTopology_def ensureOwnedMaps_def Let_def split: option.splits)
  then show ?thesis using 1 node_moves_trans [OF 1 ensure_maps_moves [OF assms(1)]] by auto
qed (use assms(2) in \<open>simp add: refreshTopology_def\<close>)

lemma on_map_moves:
  assumes "steady_io R J ev" "on_map R J ev m e absent act n s = (r, n', s')"
  shows "node_moves R J (n, s) (n', s')"
  using assms(2) beginWrite_moves [OF assms(1)]
  by (auto simp: on_map_def node_moves_def Let_def split: prod.splits option.splits)

lemma AddPlayer_moves:
  assumes "steady_io R J ev" "AddPlayer R J E ev m e p n s = Some (r, n', s')"
  shows "node_moves R J (n, s) (n', s')"
proof -
  obtain q s1 where b: "beginWrite R J ev 0 m e n s = (q, s1)" by fastforce
  note 1 = node_moves_store [OF beginWrite_moves [OF assms(1) b], of n]
  have put: "node_moves R J (n, s) (put_map m w n1, s2)" if "node_moves R J (n, s) (n1, s2)" for w n1 s2
    using that by (simp add: node_moves_def)
  show ?thesis using assms(2) b 1 ensureHostedMap_moves [OF assms(1), of E 1 m n s1] put
    by (auto simp: AddPlayer_def split: option.splits intro!: put intro: node_moves_trans [OF 1])
qed

lemma attack_writes:
  "steps R J s (snd (AtomicAttackBoss R J n u d s))" "steps R J s (snd (SaveGlobalBoss R J n st s))"
  "steps R J s (snd (SaveHotSession R J n h s))" "steps R J s (snd (PublishEvent R n ch x s))"
  "steps R J s (snd (SaveCheckpointIfOwner R J n cp a e s))" "steps R J s (snd (RegisterNode R J n now info ttl s))"
  by (auto intro: r_into_rtranclp store_step.intros)

lemma record_kill_moves:
  assumes "steady_io R J ev" "record_kill R J ev u s = (st, s')"
  shows "steps R J s s'"
proof -
  note o4 = steady_ioD(1) [OF assms(1), of s 4]
  note o6 = steady_ioD(2) [OF assms(1) o4, of 6]
  have "steps R J s (snd (SaveGlobalBoss R J n st (ev_others ev 6 (ev_others ev 4 s))))" for n st
    by (rule rtranclp_trans [OF o6 attack_writes(2)])
  then show ?thesis using assms(2) o4 by (auto simp: record_kill_def Let_def split: if_splits)
qed

lemma AttackBoss_moves:
  assumes "steady_io R J ev" "AttackBoss R J ev m u e n s = (r, n', s')"
  shows "node_moves R J (n, s) (n', s')"
proof -
  obtain q s0 where b: "beginWrite R J ev 0 m e n s = (q, s0)" by fastforce
  note s0 = beginWrite_moves [OF assms(1) b]
  note o1 = steady_ioD(2) [OF assms(1) s0, of 1]
  note o3 = steady_ioD(2) [OF assms(1) o1, of 3]
  have a: "steps R J s (snd (AtomicAttackBoss R J n u d (ev_others ev 3 (ev_others ev 1 s0))))" for n u d
    by (rule rtranclp_trans [OF o3 attack_writes(1)])
  have k: "steps R J s (snd (record_kill R J ev u s1))" if "steps R J s s1" for u s1
    using rtranclp_trans [OF that record_kill_moves [OF assms(1)]] by (metis prod.collapse)
  have w: "same_node n n' \<and> ns_authority n' = ns_authority n" using assms(2) b
    by (auto simp: AttackBoss_def Let_def case_prod_beta split: option.splits if_splits sum.splits)
  have "steps R J s s'"
    using assms(2) b s0 o1 a k
    by (auto simp: AttackBoss_def Let_def case_prod_beta split: option.splits if_splits sum.splits)
  with w show ?thesis by (simp add: node_moves_def)
qed

lemma call_moves:
  assumes "steady_io R J ev"
  shows "node_moves R J (n, s) (snd (on_map R J ev m e absent act n s))" "node_moves R J (n, s) (snd (AttackBoss R J ev m u e n s))"
  using on_map_moves [OF assms] AttackBoss_moves [OF assms] by (metis prod.collapse)+

lemma node_exec_moves:
  assumes "steady_io R J ev" "node_exec R J E ev m e c n s = Some (r, n', s')"
  shows "node_moves R J (n, s) (n', s')"
  using assms(2) AddPlayer_moves [OF assms(1)]
  by (cases c) (auto simp: call_moves [OF assms(1)] outcome_def RemovePlayer_node_def MovePlayer_node_def Attack_node_def Heal_def BuyItem_node_def
      RewardPlayer_node_def dest!: sym [of _ "(n', s')"])

section \<open>Calls of other processes\<close>

definition handler_ok :: "('s, 'd) redis \<Rightarrow> 'd json \<Rightarrow> (NodeService \<times> 's \<Rightarrow> ('s, 'r) reply) \<Rightarrow> bool" where
  "handler_ok R J h \<longleftrightarrow> (\<forall>st r st'. h st = Some (r, st') \<longrightarrow> node_moves R J st st')"

named_theorems handlers

lemma handler_okD: "handler_ok R J h \<Longrightarrow> h st = Some (r, st') \<Longrightarrow> node_moves R J st st'"
  by (simp add: handler_ok_def split_paired_All [symmetric] del: split_paired_All)

lemma rpc_call_ok [handlers]: "handler_ok R J h \<Longrightarrow> handler_ok R J (rpc_call net f h)"
  unfolding handler_ok_def using rpc_call_some by (metis node_moves_refl)

lemma with_authority_ok [handlers]: "(\<And>m e. handler_ok R J (work m e)) \<Longrightarrow> handler_ok R J (with_authority a work)"
  by (auto simp: handler_ok_def with_authority_def split: sum.splits)

lemma respond_ok [handlers]: "(\<And>n s. node_moves R J (n, s) (snd (act n s))) \<Longrightarrow> handler_ok R J (\<lambda>(n, s). respond f (act n s))"
  by (auto simp: handler_ok_def respond_def split: prod.splits) (metis snd_conv)+

lemma Promote_same: "Promote E now m cfg cp e n = Some (r, n') \<Longrightarrow> same_node n n' \<and> ns_authority n' = ns_authority n"
  by (auto simp: Promote_def split: option.splits if_splits)

lemma put_ok: "node_moves R J (n, s) (put_map m w n, s)"
  by (simp add: node_moves_def)

lemma server_ok [handlers]:
  assumes "steady_io R J ev"
  shows "handler_ok R J (AddPlayer_server R J E ev areq)" "handler_ok R J (RemovePlayer_server R J ev req)"
    "handler_ok R J (MovePlayer_server R J ev mreq)" "handler_ok R J (Attack_server R J ev req)" "handler_ok R J (Heal_server R J ev req)"
    "handler_ok R J (BuyItem_server R J ev breq)" "handler_ok R J (AttackBoss_server R J ev req)" "handler_ok R J (RewardPlayer_server R J ev rreq)"
proof -
  note call = call_moves [OF assms]
  show "handler_ok R J (AddPlayer_server R J E ev areq)"
    using AddPlayer_moves [OF assms]
    by (auto simp: AddPlayer_server_def handler_ok_def with_authority_def split: sum.splits option.splits if_splits)
  have "handler_ok R J (\<lambda>(n, s). case d of Inl _ \<Rightarrow> Some (Inl err, n, s) | Inr dir \<Rightarrow> respond f (MovePlayer_node R J ev m u dir e n s))" for d err f m u e
    using call(1) by (cases d) (auto simp: handler_ok_def respond_def MovePlayer_node_def dest!: sym [of "snd _"])
  then show "handler_ok R J (MovePlayer_server R J ev mreq)"
    unfolding MovePlayer_server_def by (intro with_authority_ok)
  show "handler_ok R J (RemovePlayer_server R J ev req)" "handler_ok R J (Attack_server R J ev req)" "handler_ok R J (Heal_server R J ev req)"
    "handler_ok R J (BuyItem_server R J ev breq)" "handler_ok R J (AttackBoss_server R J ev req)" "handler_ok R J (RewardPlayer_server R J ev rreq)"
    unfolding RemovePlayer_server_def Attack_server_def Heal_server_def BuyItem_server_def AttackBoss_server_def RewardPlayer_server_def
      RemovePlayer_node_def Attack_node_def Heal_def BuyItem_node_def RewardPlayer_node_def
    by (intro with_authority_ok respond_ok call)+
qed

lemma read_server_ok [handlers]:
  "handler_ok R J (Profile_server now m u)" "handler_ok R J (Snapshot_server E now m)" "handler_ok R J (Counts_server m)"
  "handler_ok R J (Checkpoint_server T E now m)" "handler_ok R J (Promote_server T E now preq)" "handler_ok R J (Ping_server now)"
  "handler_ok R J (View_server E)"
proof -
  show "handler_ok R J (Promote_server T E now preq)"
    using Promote_same
    by (auto simp: Promote_server_def handler_ok_def with_authority_def node_moves_def split: sum.splits option.splits)
qed (auto simp: handler_ok_def Profile_server_def Profile_def Snapshot_server_def Snapshot_node_def Counts_server_def Checkpoint_server_def
    Checkpoint_node_def Ping_server_def View_server_def node_moves_def Let_def split: option.splits prod.splits sum.splits)

lemma client_ok:
  assumes "steady_io R J ev"
  shows "handler_ok R J (AddPlayer_client R J E ev net i m e p)" "handler_ok R J (RemovePlayer_client R J ev net i m u e)"
    "handler_ok R J (MovePlayer_client R J ev net i m u d e)" "handler_ok R J (Attack_client R J ev net i m u e)"
    "handler_ok R J (Heal_client R J ev net i m u e)" "handler_ok R J (BuyItem_client R J ev net i m u x e)"
    "handler_ok R J (AttackBoss_client R J ev net i m u e)" "handler_ok R J (RewardPlayer_client R J ev net i m u t v e)"
proof -
  show "handler_ok R J (MovePlayer_client R J ev net i m u d e)"
  proof (cases "DirectionFromString d")
    case (Inr w)
    then show ?thesis unfolding MovePlayer_client_def by (simp add: rpc_call_ok server_ok [OF assms])
  qed (simp add: MovePlayer_client_def handler_ok_def)
qed (auto simp: AddPlayer_client_def RemovePlayer_client_def Attack_client_def Heal_client_def BuyItem_client_def AttackBoss_client_def
    RewardPlayer_client_def intro!: rpc_call_ok server_ok [OF assms])

lemma read_client_ok:
  "handler_ok R J (Profile_client now net m u)" "handler_ok R J (Snapshot_client E now net m)" "handler_ok R J (Counts_client net m)"
  "handler_ok R J (Ping_client now net)" "handler_ok R J (Promote_client T E now net i m cfg cp e)"
  unfolding Profile_client_def Snapshot_client_def Counts_client_def Ping_client_def Promote_client_def
  by (intro rpc_call_ok read_server_ok)+

lemma call_node_writes:
  assumes "handler_ok R J call" "call_node call cl en = Some (r, en')"
  shows "steps R J (out_store en) (out_store en')"
  using assms by (auto simp: call_node_def handler_ok_def node_moves_def split: option.splits)

section \<open>Loops and drains\<close>

lemma save_hot_moves:
  assumes "steady_io R J ev" "save_hot R J ev k hs s = (k', s')"
  shows "steps R J s s'"
  using assms(2)
proof (induction hs arbitrary: k s)
  case (Cons h hs)
  have "steps R J s (snd (SaveHotSession R J (ev_net ev k) h (ev_others ev k s)))"
    by (rule rtranclp_trans [OF steady_ioD(1) [OF assms(1)] attack_writes(3)])
  with Cons show ?case by (auto intro: rtranclp_trans)
qed simp

lemma publish_all_moves:
  assumes "steady_io R J ev" "publish_all R ev k ch xs s = (k', s')"
  shows "steps R J s s'"
  using assms(2)
proof (induction xs arbitrary: k s)
  case (Cons x xs)
  have "steps R J s (snd (PublishEvent R (ev_net ev k) ch x (ev_others ev k s)))"
    by (rule rtranclp_trans [OF steady_ioD(1) [OF assms(1)] attack_writes(4)])
  with Cons show ?case by (auto intro: rtranclp_trans)
qed simp

lemma flush_maps_moves:
  assumes "steady_io R J ev" "flush_maps R J E ev k now since ms n s = (n', s')"
  shows "node_moves R J (n, s) (n', s')"
  using assms(2)
proof (induction ms arbitrary: k n s)
  case (Cons m ms)
  show ?case
  proof (cases "Current (ev_now ev k) m (ns_authority n) \<noteq> None \<and> map_of (ns_maps n) m \<noteq> None")
    case True
    then obtain a w where w: "Current (ev_now ev k) m (ns_authority n) = Some a" "map_of (ns_maps n) m = Some w" by blast
    obtain ps w1 where fl: "FlushProfiles now since (se_order E w) w = (ps, w1)" by fastforce
    obtain k1 s1 where h: "save_hot R J ev k (map (hot_session m (ns_ID n) now) ps) s = (k1, s1)" by fastforce
    have "node_moves R J (n, s) (put_map m w1 n, s1)" using save_hot_moves [OF assms(1) h] by (simp add: node_moves_def)
    moreover have "flush_maps R J E ev k1 now since ms (put_map m w1 n) s1 = (n', s')" using Cons.prems w fl h by simp
    ultimately show ?thesis using Cons.IH node_moves_trans by blast
  next
    case False
    then have "flush_maps R J E ev k now since ms n s = (n', s')" using Cons.prems by (auto split: option.splits)
    then show ?thesis by (rule Cons.IH)
  qed
qed simp

lemma flush_iteration_moves:
  assumes "steady_io R J ev" "flush_iteration R J E ev now since n s = (n', s')"
  shows "node_moves R J (n, s) (n', s')"
  using assms(2) flush_maps_moves [OF assms(1)] by (auto simp: flush_iteration_def split: if_splits)

lemma tick_step_moves:
  assumes "steady_io R J ev" "tick_step R J E ev m n s = (r, n', s')"
  shows "node_moves R J (n, s) (n', s')"
  using assms(2) beginWrite_moves [OF assms(1)]
  by (auto simp: tick_step_def node_moves_def Let_def split: option.splits prod.splits)

lemma tick_save_moves:
  assumes "steady_io R J ev" "tick_save R J E fmt ev m e evs n s = (n', s')"
  shows "node_moves R J (n, s) (n', s')"
proof -
  obtain r s1 where q: "requireAuthority R J ev 1 m e n s = (r, s1)" by fastforce
  obtain k s2 where p: "publish_all R ev 2 (''events:map:'' @ m) (map fmt evs) s1 = (k, s2)" by fastforce
  note 1 = requireAuthority_moves [OF assms(1) q]
  note 2 = rtranclp_trans [OF 1 publish_all_moves [OF assms(1) p]]
  have 3: "steps R J s (snd (SaveCheckpointIfOwner R J n cp i e (ev_others ev k s2)))" for n cp i e
    by (rule rtranclp_trans [OF steady_ioD(2) [OF assms(1) 2] attack_writes(5)])
  show ?thesis using assms(2) q p 1 3
    by (auto simp: tick_save_def node_moves_def Let_def split: option.splits prod.splits)
qed

lemma save_final_moves:
  assumes "steady_io R J ev" "save_final R J E ev k ms n s = (r, n', s')"
  shows "node_moves R J (n, s) (n', s')"
  using assms(2)
proof (induction ms arbitrary: k n s)
  case (Cons m ms)
  show ?case
  proof (cases "Current (ev_now ev k) m (ns_authority n)")
    case None
    then show ?thesis using Cons by auto
  next
    case (Some a)
    obtain q s1 where q: "requireAuthority R J ev k m (au_Epoch a) n s = (q, s1)" by fastforce
    note 1 = requireAuthority_moves [OF assms(1) q]
    note 2 = steady_ioD(2) [OF assms(1) 1, of "Suc k"]
    have save: "node_moves R J (n, s) (put_map m w n, snd (SaveCheckpointIfOwner R J net cp i e (ev_others ev (Suc k) s1)))" for w net cp i e
      using rtranclp_trans [OF 2 attack_writes(5)] by (simp add: node_moves_def)
    show ?thesis
    proof (cases "q = None \<and> map_of (ns_maps n) m \<noteq> None")
      case True
      then obtain w where w: "map_of (ns_maps n) m = Some w" "q = None" by blast
      obtain cp w1 where c: "CaptureCheckpoint (se_rfc3339 E) (ev_now ev (Suc k)) (se_order E w) (ns_ID n) w = (cp, w1)" by fastforce
      obtain x s2 where x: "SaveCheckpointIfOwner R J (ev_net ev (Suc k)) (cp\<lparr>c_MapEpoch := au_Epoch a\<rparr>) (ns_ID n) (au_Epoch a) (ev_others ev (Suc k) s1) = (x, s2)"
        by fastforce
      have m2: "node_moves R J (n, s) (put_map m w1 n, s2)"
        using save [of w1 "ev_net ev (Suc k)" "cp\<lparr>c_MapEpoch := au_Epoch a\<rparr>" "ns_ID n" "au_Epoch a"] x by simp
      have "(n', s') = (put_map m w1 n, s2) \<or> save_final R J E ev (Suc (Suc k)) ms (put_map m w1 n) s2 = (r, n', s')"
        using Cons.prems Some q w c x by (auto simp: Let_def split: option.splits)
      then show ?thesis using m2 Cons.IH node_moves_trans [OF m2] by blast
    next
      case False
      then have "(n', s') = (n, s1) \<or> save_final R J E ev (Suc k) ms n s1 = (r, n', s')"
        using Cons.prems Some q by (auto split: option.splits)
      then show ?thesis using node_moves_store [OF 1, of n] Cons.IH node_moves_trans by blast
    qed
  qed
qed simp

lemma drain_start_moves:
  assumes "steady_io R J ev" "drain_start R J E ev n s = (r, n', s')"
  shows "node_moves R J (n, s) (n', s') \<and> ns_draining n'"
proof -
  let ?n = "n\<lparr>ns_draining := True\<rparr>"
  have 1: "node_moves R J (n, s) (?n, s)" by (simp add: node_moves_def same_node_def)
  have "(n', s') = (?n, s) \<or> (\<exists>ms. save_final R J E ev 0 ms ?n s = (r, n', s'))"
    using assms(2) by (auto simp: drain_start_def saveFinalCheckpoints_def Let_def split: if_splits option.splits)
  then have "node_moves R J (n, s) (n', s')" using 1 node_moves_trans [OF 1 save_final_moves [OF assms(1)]] by blast
  moreover have "ns_draining n'" using drain_start_draining [of R J E ev n s] assms(2) by simp
  ultimately show ?thesis by blast
qed

end
