(* ===== verification/Gateway_Guarantee.thy ===== *)
theory Gateway_Guarantee
  imports Gateway_Inv Node_Writes
begin

text \<open>
  What the operations of a gateway do to the world behind it, once for all: a relation between states of the backend that
  contains the writes of the store, the calls of nodes, registrations and saved profiles without a password is kept by every
  operation and by every run of operations, if the surroundings keep it.
\<close>

section \<open>Profiles from nodes\<close>

lemma rpc_call_reply: "rpc_call net decode f st = Some (Inr x, st') \<Longrightarrow> \<exists>y. x = decode y"
  by (cases "fst (the (f st))") (auto simp: rpc_call_def split: net.splits)

lemma call_node_reply:
  "call_node call client en = Some (Inr x, en') \<Longrightarrow> \<exists>st st'. call st = Some (Inr x, st')"
  by (auto simp: call_node_def split: option.splits)

lemma call_node_db: "call_node call client en = Some (r, en') \<Longrightarrow> out_db en' = out_db en"
  by (auto simp: call_node_def split: option.splits)

lemma RemovePlayer_no_password:
  "call_node (RemovePlayer_client R J io net i m u epoch) client en = Some (Inr (p, b), en') \<Longrightarrow> u_PasswordHash p = []"
  by (auto simp: RemovePlayer_client_def profile_result_def FromPlayerState_no_password dest!: call_node_reply rpc_call_reply)

lemma BuyItem_no_password:
  "call_node (BuyItem_client R J io net i m u item epoch) client en = Some (Inr (e, p, b), en') \<Longrightarrow> u_PasswordHash p = []"
  by (auto simp: BuyItem_client_def action_result_def FromPlayerState_no_password dest!: call_node_reply rpc_call_reply)

lemma Profile_no_password:
  "call_node (Profile_client now net m u) client en = Some (Inr (p, b), en') \<Longrightarrow> u_PasswordHash p = []"
  by (auto simp: Profile_client_def profile_result_def FromPlayerState_no_password dest!: call_node_reply rpc_call_reply)

section \<open>The contract\<close>

definition call_keeps ::
    "(('s, 't) backend \<Rightarrow> ('s, 't) backend \<Rightarrow> bool) \<Rightarrow> (NodeService \<times> 's \<Rightarrow> ('s, 'r) reply) \<Rightarrow> bool" where
  "call_keeps rel call \<longleftrightarrow> (\<forall>client en r en'. call_node call client en = Some (r, en') \<longrightarrow> rel en en')"

locale gateway_guarantee =
  fixes R :: "('s, 'd) redis" and J :: "'d json" and Q :: "'t sql" and H :: hasher
    and good :: "('s, 't) gio \<Rightarrow> bool" and rel :: "('s, 't) backend \<Rightarrow> ('s, 't) backend \<Rightarrow> bool"
  assumes refl: "rel en en"
    and trans: "rel en en1 \<Longrightarrow> rel en1 en2 \<Longrightarrow> rel en en2"
    and others: "good ev \<Longrightarrow> rel en (ev_others ev k en)"
    and writes: "store_step R J (out_store en) s \<Longrightarrow> rel en (en\<lparr>out_store := s\<rparr>)"
    and saves: "u_PasswordHash p = [] \<Longrightarrow> rel en (en\<lparr>out_db := snd (SaveProfile Q down p (out_db en))\<rparr>)"
    and registers: "rel en (en\<lparr>out_db := snd (Register Q H down down' u pw (out_db en))\<rparr>)"
    and calls: "good ev \<Longrightarrow> call_keeps rel (AddPlayer_client R J E (gv_node ev k) net i m e p)"
      "good ev \<Longrightarrow> call_keeps rel (RemovePlayer_client R J (gv_node ev k) net i m u e)"
      "good ev \<Longrightarrow> call_keeps rel (MovePlayer_client R J (gv_node ev k) net i m u dir e)"
      "good ev \<Longrightarrow> call_keeps rel (Attack_client R J (gv_node ev k) net i m u e)"
      "good ev \<Longrightarrow> call_keeps rel (Heal_client R J (gv_node ev k) net i m u e)"
      "good ev \<Longrightarrow> call_keeps rel (BuyItem_client R J (gv_node ev k) net i m u item e)"
      "good ev \<Longrightarrow> call_keeps rel (AttackBoss_client R J (gv_node ev k) net i m u e)"
    and reads: "call_keeps rel (Profile_client now net m u)" "call_keeps rel (Snapshot_client E now net m)"
begin

section \<open>Operations\<close>

lemma kept_others: "good ev \<Longrightarrow> rel st en \<Longrightarrow> rel st (ev_others ev k en)"
  using trans others by blast

lemma kept_at_store: "good ev \<Longrightarrow> (\<And>s. store_step R J s (f s)) \<Longrightarrow> rel st en \<Longrightarrow> rel st (at_store ev k f en)"
  unfolding at_store_def Let_def by (rule trans [OF kept_others writes])

lemma kept_push: "good ev \<Longrightarrow> rel st en \<Longrightarrow> rel st (pushEvent R ev k u text' en)"
  by (simp add: pushEvent_def kept_at_store store_step.publish)

lemma kept_broadcast: "good ev \<Longrightarrow> rel st en \<Longrightarrow> rel st (broadcastGlobalEvent R ev k text' en)"
  by (simp add: broadcastGlobalEvent_def kept_at_store store_step.publish)

lemmas kept_intros = kept_others kept_at_store kept_push kept_broadcast store_step.publish store_step.session store_step.unsession

lemma kept_call: "call_keeps rel call \<Longrightarrow> call_node call client en = Some (r, en') \<Longrightarrow> rel st en \<Longrightarrow> rel st en'"
  unfolding call_keeps_def using trans by blast

lemma kept_session:
  "sessionNode R J ev k u c en = (r, c', en') \<Longrightarrow> good ev \<Longrightarrow> rel st en \<Longrightarrow> rel st en'"
  by (auto simp: sessionNode_def Let_def intro!: kept_intros split: option.splits)

lemma kept_snapshot:
  assumes "SnapshotFor R J say ev k u c en = (r, c', en')" "good ev" "rel st en"
  shows "rel st en'"
proof -
  obtain x c1 en1 where s: "sessionNode R J ev k u c en = (x, c1, en1)" by (metis prod.exhaust)
  then have "rel st en1" using kept_session assms(2,3) by blast
  with s assms(1,2) show ?thesis by (auto simp: SnapshotFor_def Let_def intro!: kept_intros split: sum.splits)
qed

lemma kept_command:
  assumes "run_command R J ev u call finish c en = Some (r, c', en')" "good ev" "rel st en"
    and keeps: "\<And>i m epoch. call_keeps rel (call i m epoch)"
    and "\<And>session node i m epoch x en0 c1 en1 r' c'' en''. finish session x c1 en1 = (r', c'', en'') \<Longrightarrow>
           call_node (call i m epoch) node en0 = Some (Inr x, en1) \<Longrightarrow> rel st en1 \<Longrightarrow> rel st en''"
  shows "rel st en'"
proof -
  obtain x c1 en1 where s: "sessionNode R J ev 0 u c en = (x, c1, en1)" by (metis prod.exhaust)
  then have k: "rel st (ev_others ev 2 en1)" using kept_session assms(2,3) kept_others by blast
  show ?thesis
  proof (cases x)
    case (Inr y)
    obtain session node epoch where y: "y = (session, node, epoch)" by (cases y)
    obtain z en2 where z: "call_node (call (gc_id node) (gl_MapID session) epoch) node (ev_others ev 2 en1) = Some (z, en2)"
      using assms(1) s Inr y by (auto simp: run_command_def split: option.splits)
    then have "rel st en2" using k kept_call [OF keeps] by blast
    then show ?thesis using assms(1,5) s Inr y z by (cases z) (auto simp: run_command_def)
  qed (use assms(1-3) s kept_session in \<open>auto simp: run_command_def\<close>)
qed

lemma kept_move: "Move R J ev u dir c en = Some (r, c', en') \<Longrightarrow> good ev \<Longrightarrow> rel st en \<Longrightarrow> rel st en'"
  unfolding Move_def by (erule kept_command) (auto intro: calls split: prod.splits)

lemma kept_attack:
  "Attack_cluster R J say ev u c en = Some (r, c', en') \<Longrightarrow> good ev \<Longrightarrow> rel st en \<Longrightarrow> rel st en'"
  unfolding Attack_cluster_def
  by (erule kept_command) (auto simp: Let_def intro: calls kept_snapshot kept_intros split: prod.splits if_splits)

lemma kept_heal:
  "Heal_cluster R J say ev u c en = Some (r, c', en') \<Longrightarrow> good ev \<Longrightarrow> rel st en \<Longrightarrow> rel st en'"
  unfolding Heal_cluster_def by (erule kept_command) (auto intro: calls kept_snapshot kept_intros split: prod.splits if_splits)

lemma kept_boss:
  "AttackBoss_cluster R J say ev u c en = Some (r, c', en') \<Longrightarrow> good ev \<Longrightarrow> rel st en \<Longrightarrow> rel st en'"
  unfolding AttackBoss_cluster_def by (erule kept_command) (auto intro: calls kept_snapshot kept_intros split: prod.splits if_splits)

lemma kept_drop:
  assumes "drop_session R ev u c en = (r, c', en')" "good ev" "rel st en"
  shows "rel st en'"
proof -
  let ?en = "ev_others ev 4 (at_store ev 3 (\<lambda>s. snd (DeleteGlobalSession R (ev_net ev 3) u s)) en)"
  have "rel st ?en" using assms(2,3) by (intro kept_intros)
  from trans [OF this writes [OF store_step.unhot [of R J "out_store ?en" "ev_net ev 4" u]]] show ?thesis
    using assms(1) by (auto simp: drop_session_def Let_def split: prod.splits)
qed

lemma kept_settle:
  "settle_session R J say ev u m i c en = (c', en') \<Longrightarrow> good ev \<Longrightarrow> rel st en \<Longrightarrow> rel st en'"
  by (auto simp: settle_session_def Let_def intro!: kept_intros split: option.splits)

lemma kept_login:
  assumes "Login R J Q H E say ev u pw c en = Some (r, c', en')" "good ev" "rel st en"
  shows "rel st en'"
proof -
  have "rel st (ev_others ev 4 (ev_others ev 3 (ev_others ev 2 en)))" using assms(2,3) by (intro kept_intros)
  with assms show ?thesis
    by (auto simp: Login_def Let_def intro: kept_intros dest!: kept_call [OF calls(1) [OF assms(2)]] elim!: kept_snapshot intro!: kept_intros
        split: sum.splits if_splits option.splits)
qed

lemma kept_load:
  assumes "loadTopology R J dial ev c en = (r, c', en')" "good ev" "rel st en"
  shows "rel st en'"
proof -
  have "rel st (snd (snd (reconcileGatewayNodes R J dial ev topology d (ev_others ev 0 en))))" for topology d
    using assms(2,3)
    by (auto simp: reconcileGatewayNodes_def Let_def intro: kept_intros split: prod.split option.split)
  moreover have "rel st (ev_others ev 0 en)" using assms(2,3) by (rule kept_others)
  ultimately show ?thesis using assms(1)
    by (auto simp: loadTopology_def Let_def split: sum.splits option.splits prod.splits) (metis snd_conv)
qed

lemma kept_fetch:
  "good ev \<Longrightarrow> rel st en \<Longrightarrow> rel st (snd (fetch_maps E ev k nodes configs owners en))"
proof (induction owners arbitrary: k en)
  case (Cons o' owners)
  obtain mapID ownerID where o: "o' = (mapID, ownerID)" by (cases o')
  have k: "rel st (ev_others ev k en)" using Cons.prems by (rule kept_others)
  show ?case
  proof (cases "map_of nodes ownerID")
    case (Some host)
    let ?call = "call_node (Snapshot_client (E (gc_addr host)) (ev_now ev k) (ev_net ev k) mapID) host (ev_others ev k en)"
    show ?thesis
    proof (cases ?call)
      case (Some z)
      obtain r en1 where z: "z = (r, en1)" by (cases z)
      have "rel st en1" using kept_call [OF reads(2)] k Some z by blast
      then have "rel st (snd (fetch_maps E ev (Suc k) nodes configs owners en1))"
        by (rule Cons.IH [OF Cons.prems(1)])
      then show ?thesis using Some z \<open>map_of nodes ownerID = Some host\<close> o
        by (cases r) (simp_all add: Let_def case_prod_beta)
    next
      case None
      then show ?thesis using Cons.IH [OF Cons.prems(1) k] \<open>map_of nodes ownerID = Some host\<close> o by simp
    qed
  qed (use Cons o in simp)
qed simp

lemma kept_round:
  "good ev \<Longrightarrow> rel st en \<Longrightarrow> rel st (snd (cache_round R J E ev c en))"
  by (simp add: cache_round_def Let_def case_prod_beta kept_fetch kept_others)

lemma kept_message:
  assumes "good ev" "rel st en"
  shows "rel st (snd (eventLoop_message R J dial ev channel payload c en))"
proof (cases "loadTopology R J dial ev c en")
  case (fields r c' en')
  then show ?thesis using kept_load assms by (auto simp: eventLoop_message_def)
qed

lemma kept_save_left:
  "good ev \<Longrightarrow> u_PasswordHash p = [] \<Longrightarrow> rel st en \<Longrightarrow> rel st (save_left Q ev k i m p en)"
  unfolding save_left_def Let_def by (rule trans [OF kept_others saves]) simp_all

lemma kept_register:
  "good ev \<Longrightarrow> rel st en \<Longrightarrow> rel st (snd (Register_cluster Q H ev u pw confirm en))"
  by (simp add: Register_cluster_def Let_def case_prod_beta trans [OF kept_others registers])

lemma kept_enter:
  assumes "QuickEnter R J Q H E say ev u pw c en = Some (r, c', en')" "good ev" "rel st en"
  shows "rel st en'"
proof -
  obtain x en1 where x: "Register_cluster Q H ev u pw pw en = (x, en1)" by fastforce
  then have "rel st en1" using kept_register [OF assms(2,3)] by (metis snd_conv)
  with x assms(1,2) show ?thesis
    by (auto simp: QuickEnter_def intro: kept_login split: option.splits gateway_error.splits account_error.splits)
qed

lemma kept_logout:
  assumes "Logout R J Q ev u c en = Some (r, c', en')" "good ev" "rel st en"
  shows "rel st en'"
proof -
  have k: "rel st (ev_others ev 0 en)" "rel st (ev_others ev 1 (ev_others ev 0 en))"
    using assms(2,3) by (auto intro!: kept_intros)
  note drop = kept_drop [OF _ assms(2)] and called = kept_call [OF calls(2) [OF assms(2)] _ k(2)]
  show ?thesis
  proof (cases "LoadGlobalSession R J (ev_net ev 0) u (out_store (ev_others ev 0 en))")
    case (Some session)
    show ?thesis
    proof (cases "route (gl_MapID session) (gv_self ev 0 c)")
      case (Some x)
      obtain ownerID node epoch where x: "x = (ownerID, node, epoch)" by (cases x)
      let ?call = "call_node (RemovePlayer_client R J (gv_node ev 1) (ev_net ev 1) (gc_id node) (gl_MapID session) u epoch) node
         (ev_others ev 1 (ev_others ev 0 en))"
      obtain z en1 where z: "?call = Some (z, en1)"
        using assms(1) \<open>LoadGlobalSession _ _ _ _ _ = _\<close> Some x by (auto simp: Logout_def Let_def split: option.splits)
      have k1: "rel st en1" using called z by blast
      have "rel st (save_left Q ev 2 ownerID (gl_MapID session) p en1)" if "z = Inr (p, b)" for p b
        using kept_save_left [OF assms(2) _ k1] RemovePlayer_no_password z that by blast
      then show ?thesis using assms(1) \<open>LoadGlobalSession _ _ _ _ _ = _\<close> Some x z k1
        by (auto simp: Logout_def Let_def intro: drop split: sum.splits bool.splits)
    qed (use assms(1) Some k drop in \<open>auto simp: Logout_def Let_def\<close>)
  qed (use assms(1) k in \<open>auto simp: Logout_def Let_def\<close>)
qed

lemma kept_buy:
  assumes "BuyItem_cluster R J Q say ev u item c en = Some (r, c', en')" "good ev" "rel st en"
  shows "rel st en'"
  using assms(1) unfolding BuyItem_cluster_def
proof (rule kept_command [OF _ assms(2,3)])
  show "call_keeps rel (BuyItem_client R J (gv_node ev 2) (ev_net ev 2) i m u item epoch)" for i m epoch by (rule calls(6) [OF assms(2)])
next
  fix session node i m epoch x en0 c1 en1 r' c'' en''
  assume f: "(\<lambda>session (event, profile, ok) c en. if \<not> ok then (Inl GRejected, c, en)
          else let en = pushEvent R ev 3 u (event_text say event) en;
                   en = save_left Q ev 4 (gl_NodeID session) (gl_MapID session) profile en
               in SnapshotFor R J say ev 5 u c en) session x c1 en1 = (r', c'', en'')"
    and call: "call_node (BuyItem_client R J (gv_node ev 2) (ev_net ev 2) i m u item epoch) node en0 = Some (Inr x, en1)"
    and k: "rel st en1"
  obtain event profile ok where x: "x = (event, profile, ok)" by (cases x)
  have "rel st (save_left Q ev 4 (gl_NodeID session) (gl_MapID session) profile (pushEvent R ev 3 u (event_text say event) en1))"
    using kept_save_left [OF assms(2) BuyItem_no_password [OF call [unfolded x]] kept_push [OF assms(2) k]] .
  with f k show "rel st en''" using kept_snapshot [OF _ assms(2)] by (auto simp: x Let_def split: if_splits)
qed

lemma kept_confirm:
  assumes "switch_confirm R J Q say ev u m dst c en = Some (r, c', en')" "good ev" "rel st en"
  shows "rel st en'"
proof -
  obtain z en1 where z: "call_node (Profile_client (ev_now ev 6) (ev_net ev 6) m u) (snd dst) (ev_others ev 6 en) = Some (z, en1)"
    using assms(1) by (auto simp: switch_confirm_def split: option.splits)
  have k: "rel st en1" by (rule kept_call [OF reads(1) z kept_others [OF assms(2,3)]])
  obtain c2 en2 where s: "settle_session R J say ev u m (gc_id (snd dst)) c en1 = (c2, en2)" by fastforce
  have "rel st (save_left Q ev 10 (fst dst) m p en2)" if "z = Inr (p, b)" for p b
    using kept_save_left [OF assms(2) _ kept_settle [OF s assms(2) k]] Profile_no_password z that by blast
  then show ?thesis using assms(1) z k s
    by (auto simp: switch_confirm_def Let_def intro: kept_snapshot [OF _ assms(2)] split: sum.splits bool.splits)
qed

lemma kept_arrive:
  assumes "switch_arrive R J Q E say ev u m (srcMap, srcNode, srcEpoch) (dstID, dstNode, dstEpoch) p c en = Some (r, c', en')"
    and "good ev" "rel st en"
  shows "rel st en'"
proof -
  obtain z en1 where z: "call_node (AddPlayer_client R J (E (gc_addr dstNode)) (gv_node ev 4) (ev_net ev 4) (gc_id dstNode) m dstEpoch p)
      dstNode (ev_others ev 4 en) = Some (z, en1)"
    using assms(1) by (auto simp: switch_arrive_def split: option.splits)
  have k: "rel st en1" by (rule kept_call [OF calls(1) [OF assms(2)] z kept_others [OF assms(2,3)]])
  show ?thesis
  proof (cases z)
    case (Inl e)
    then show ?thesis using assms(1) z kept_call [OF calls(1) [OF assms(2)] _ kept_others [OF assms(2) k]] by (auto simp: switch_arrive_def split: option.splits)
  qed (use assms(1) z kept_confirm [OF _ assms(2) k] in \<open>auto simp: switch_arrive_def\<close>)
qed

lemma kept_transfer:
  assumes "switch_transfer R J Q E say ev u m (srcMap, srcNode, srcEpoch) dst c en = Some (r, c', en')" "good ev" "rel st en"
  shows "rel st en'"
proof -
  obtain z en1 where z: "call_node (RemovePlayer_client R J (gv_node ev 3) (ev_net ev 3) (gc_id srcNode) srcMap u srcEpoch)
      srcNode (ev_others ev 3 en) = Some (z, en1)"
    using assms(1) by (auto simp: switch_transfer_def split: option.splits)
  have k: "rel st en1" by (rule kept_call [OF calls(2) [OF assms(2)] z kept_others [OF assms(2,3)]])
  show ?thesis using assms(1) z k
    by (cases dst) (auto simp: switch_transfer_def intro: kept_arrive [OF _ assms(2) k] split: sum.splits bool.splits)
qed

lemma kept_switch:
  assumes "SwitchMap R J Q E say ev u m c en = Some (r, c', en')" "good ev" "rel st en"
  shows "rel st en'"
proof -
  obtain x c1 en1 where s: "sessionNode R J ev 0 u c en = (x, c1, en1)" by (metis prod.exhaust)
  then have k: "rel st en1" using kept_session assms(2,3) by blast
  show ?thesis
  proof (cases x)
    case (Inr y)
    obtain session srcNode srcEpoch where y: "y = (session, srcNode, srcEpoch)" by (cases y)
    obtain z en2 where z: "call_node (Profile_client (ev_now ev 2) (ev_net ev 2) (gl_MapID session) u) srcNode (ev_others ev 2 en1) = Some (z, en2)"
      using assms(1) s Inr y by (auto simp: SwitchMap_def Let_def split: option.splits)
    have k2: "rel st en2" by (rule kept_call [OF reads(1) z kept_others [OF assms(2) k]])
    show ?thesis using assms(1) s Inr y z k2
      by (auto simp: SwitchMap_def Let_def intro: kept_transfer [OF _ assms(2) k2] split: sum.splits bool.splits if_splits option.splits)
  qed (use assms(1) s k in \<open>auto simp: SwitchMap_def\<close>)
qed

lemma kept_gateway_call:
  assumes "gateway_call good R J Q H E say dial st st'"
  shows "rel (snd st) (snd st')"
  using assms
proof cases
  case (register ev u pw confirm en e en' c)
  then show ?thesis using kept_register [OF _ refl, of ev en u pw confirm] by simp
next
  case (refresh ev c en)
  then show ?thesis using kept_round [OF _ refl, of ev] by auto
next
  case (message ev channel payload c en)
  then show ?thesis using kept_message [OF _ refl, of ev] by auto
qed (cases st', auto intro: refl kept_enter kept_login kept_logout kept_move kept_attack kept_heal kept_buy kept_boss kept_switch kept_snapshot kept_load)+

lemma kept_gateway_run: "(gateway_call good R J Q H E say dial)\<^sup>*\<^sup>* st st' \<Longrightarrow> rel (snd st) (snd st')"
  by (induction rule: rtranclp_induct) (auto intro: refl trans kept_gateway_call)

end

end
