(* ===== verification/Gateway_Accounts.thy ===== *)
theory Gateway_Accounts
  imports Gateway_Props Gateway_Guarantee
begin

text \<open>
  Accounts and play. Every operation of a gateway that writes the table of users writes a profile that came from a
  node, and profiles come from nodes without a password; so no operation, and no interleaving of operations, takes
  a password away.
\<close>

section \<open>Operations keep the hashes\<close>

definition keeping :: "'t sql \<Rightarrow> ('s, 't) gio \<Rightarrow> bool" where
  "keeping Q ev \<longleftrightarrow> (\<forall>k en. hashes_kept Q (out_db en) (out_db (ev_others ev k en)))"

lemma call_keeps_db: "(\<And>en en'. out_db en' = out_db en \<Longrightarrow> rel en en') \<Longrightarrow> call_keeps rel call"
  unfolding call_keeps_def using call_node_db by blast

sublocale accounts \<subseteq> kept: gateway_guarantee R J Q H "keeping Q" "\<lambda>en en'. hashes_kept Q (out_db en) (out_db en')" for R J
  using hashes_kept_refl hashes_kept_trans save_keeps_hashes register_keeps_hashes
  by unfold_locales (auto simp: keeping_def intro!: call_keeps_db)

context accounts
begin

lemma gateway_run_keeps:
  "(gateway_call (keeping Q) R J Q H E say dial)\<^sup>*\<^sup>* st st' \<Longrightarrow> hashes_kept Q (out_db (snd st)) (out_db (snd st'))"
  by (rule kept.kept_gateway_run)

end

section \<open>Passwords survive\<close>

lemma registered_logs_in:
  assumes "accounts Q H" "Register_cluster Q H ev u pw confirm en0 = (None, en)"
  shows "\<exists>profile. Authenticate Q H False u pw (out_db en) = Inr profile"
proof -
  let ?en = "ev_others ev 0 en0"
  obtain db where r: "Register Q H (gv_down ev 0) (gv_down ev 1) u pw (out_db ?en) = (None, db)" and en: "out_db en = db"
    using assms(2) by (auto simp: Register_cluster_def Let_def split: if_splits prod.splits)
  then obtain t where "out_db ?en = Some t" by (auto simp: Register_def split: if_splits option.splits)
  with r en accounts.register_then_login [OF assms(1)] show ?thesis by metis
qed

text \<open>C15: a player who has registered, or who can log in, can log in after any sequence of operations of the gateway, by any
  players, with any losses of messages and failures of the database in between, as long as the other processes do not touch
  the hashes either: nothing that is written back while playing takes a password away.\<close>

theorem password_survives_play:
  assumes "accounts Q H"
    and "Register_cluster Q H ev u pw confirm en0 = (None, en) \<or> (\<exists>profile. Authenticate Q H False u pw (out_db en) = Inr profile)"
    and "(gateway_call (keeping Q) R J Q H E say dial)\<^sup>*\<^sup>* (c, en) (c', en')"
  shows "\<exists>profile. Authenticate Q H False u pw (out_db en') = Inr profile"
proof -
  obtain profile where "Authenticate Q H False u pw (out_db en) = Inr profile" using assms(1,2) registered_logs_in by blast
  then show ?thesis using hashes_kept_login [OF accounts.gateway_run_keeps [OF assms(1,3), simplified]] by blast
qed

text \<open>Ann, who plays on the first map of the small installation, leaves the game; her profile is saved.\<close>

definition duo_with_ann :: "(mem, (string, UserRecord) alist) backend" where
  "duo_with_ann = duo\<lparr>out_db := Some [(''ann'', toDBUser (new_profile ''ann'' ''$2pw''))]\<rparr>"

lemma ann_leaves:
  "\<exists>r c' en'. Logout mr mem_json mem_sql (quiet_gio (\<lambda>_. Delivered) 6) ''ann'' duo_gateway duo_with_ann = Some (r, c', en') \<and>
     \<not> plays ''ann'' client1 ''green'' en'"
proof -
  let ?ev = "quiet_gio (\<lambda>_. Delivered) 6 :: (mem, (string, UserRecord) alist) gio"
  have session: "LoadGlobalSession mr mem_json Delivered ''ann'' (out_store duo_with_ann) =
      Some \<lparr>gl_Username = ''ann'', gl_MapID = ''green'', gl_NodeID = ''n1'', gl_Version = 1\<rparr>"
    by (simp add: LoadGlobalSession_def rpc_def duo_with_ann_def duo_def duo_store_def mem_defs HGET_def mem_hash_def get_or_def)
  have same: "serves mr mem_json (calm 6) client1 ''green'' 1 duo_with_ann" "world_at client1 ''green'' duo_with_ann = Some small_world"
    using duo_serves(1) by (simp_all add: serves_def duo_with_ann_def world_at_def duo_def duo_nodes_def)
  obtain p where p: "map_of (w_players small_world) ''ann'' = Some p" by (simp add: small_world_def)
  let ?en = "set_world client1 ''green'' (bump_version (small_world\<lparr>w_players := AList.delete ''ann'' (w_players small_world)\<rparr>)) duo_with_ann"
  note removed = remove_call [OF same _ _ p, of Delivered, simplified lossy_def, simplified]
  have gone: "\<not> plays ''ann'' client1 ''green'' ?en" using same(2) by (simp add: plays_set bump_version_def has_key_def)
  let ?p = "FromPlayerState (Some (ToPlayerState (profileLocked small_world p)))"
  let ?out = "drop_session mr ?ev ''ann'' duo_gateway (save_left mem_sql ?ev 2 ''n1'' ''green'' ?p ?en)"
  have "out_nodes (snd (snd ?out)) = out_nodes ?en"
    by (simp add: drop_session_def at_store_def save_left_def Let_def case_prod_beta)
  then have "\<not> plays ''ann'' client1 ''green'' (snd (snd ?out))" using gone plays_nodes by blast
  moreover have "Logout mr mem_json mem_sql ?ev ''ann'' duo_gateway duo_with_ann = Some ?out"
    using session duo_routes(1) removed by (simp add: Logout_def Let_def)
  ultimately show ?thesis by (metis prod.collapse)
qed

theorem password_survives_play_witness:
  "\<exists>r c' en' profile'. Logout mr mem_json mem_sql (quiet_gio (\<lambda>_. Delivered) 6) ''ann'' duo_gateway duo_with_ann = Some (r, c', en') \<and>
     \<not> plays ''ann'' client1 ''green'' en' \<and> Authenticate mem_sql plain_hash False ''ann'' ''pw'' (out_db en') = Inr profile'"
proof -
  obtain r c' en' where out: "Logout mr mem_json mem_sql (quiet_gio (\<lambda>_. Delivered) 6) ''ann'' duo_gateway duo_with_ann = Some (r, c', en')"
      "\<not> plays ''ann'' client1 ''green'' en'"
    using ann_leaves by blast
  have "Authenticate mem_sql plain_hash False ''ann'' ''pw'' (Some [(''ann'', toDBUser (new_profile ''ann'' ''$2pw''))])
      = Inr (new_profile ''ann'' ''$2pw'')"
    by code_simp
  then have login: "Authenticate mem_sql plain_hash False ''ann'' ''pw'' (out_db duo_with_ann) = Inr (new_profile ''ann'' ''$2pw'')"
    by (simp add: duo_with_ann_def)
  have "keeping mem_sql (quiet_gio (\<lambda>_. Delivered) 6 :: (mem, (string, UserRecord) alist) gio)" by (simp add: keeping_def)
  then have "(gateway_call (keeping mem_sql) mr mem_json mem_sql plain_hash (\<lambda>_. demo_process) (\<lambda>_. []) (\<lambda>_ _. True))\<^sup>*\<^sup>*
      (duo_gateway, duo_with_ann) (c', en')"
    using gateway_call.logout out(1) by blast
  with out login password_survives_play [OF mem_accounts.accounts_axioms, of _ "''ann''" "''pw''"] show ?thesis by blast
qed

end
