(* ===== verification/Leader.thy ===== *)
theory Leader
  imports Failover_Live
begin

text \<open>
  A coordinator process as a whole (\<open>coordinator/coordinator.go\<close>, \<open>discovery.go\<close>, \<open>heartbeat.go\<close>, \<open>boss.go\<close>):
  the leader loop with its campaigns, the three loops that run while it leads, the goroutines that dial
  nodes and move maps, the renewal of the lease, and closing. \<open>leader_pc\<close> says where the leader loop is;
  \<open>Leading ws\<close> is \<open>runLeader\<close> with the loops \<open>ws\<close> not yet returned. \<open>leader_step\<close> lets any of these goroutines
  take its next step, a whole round where the round is modelled as one call. What the other goroutines do
  to the coordinator while such a round is under way is \<open>ev_self\<close>, what other processes do to the store is
  \<open>ev_others\<close>: the first is any sequence of \<open>self_step\<close>, the critical sections of the coordinator, the second
  any sequence of \<open>store_step\<close>, and every round is shown to be such a sequence itself.

  \<^item> \<open>lp_rootDone\<close> is \<open>rootCtx\<close> having been cancelled, by the goroutine that waits for \<open>stopCh\<close>.
  \<^item> A failover goroutine is the node it is for, with \<open>None\<close> before it has read the topology and then the maps
    that are left. A \<open>Promote\<close> that never returns leaves it where it is.
\<close>

section \<open>The loops\<close>

datatype leader_worker = DiscoveryLoop | HeartbeatLoop | BossLoop

datatype leader_pc =
    NotStarted | LoopHead | CallCampaign | InCampaign | CampaignFailed | Backoff | Elected | LeaderStart
  | Leading "leader_worker list" | Returned

record leader_process =
  lp_coord :: Coordinator
  lp_pc :: leader_pc
  lp_rootDone :: bool
  lp_dials :: "NodeRegistryInfo list"
  lp_failovers :: "(string \<times> string list option) list"

definition new_process :: "Coordinator \<Rightarrow> leader_process" where
  "new_process c = \<lparr>lp_coord = c, lp_pc = NotStarted, lp_rootDone = False, lp_dials = [], lp_failovers = []\<rparr>"

definition set_elector :: "elector \<Rightarrow> leader_process \<Rightarrow> leader_process" where
  "set_elector e p = p\<lparr>lp_coord := (lp_coord p)\<lparr>co_elector := e\<rparr>\<rparr>"

definition leaderLoop_head :: "leader_process \<Rightarrow> leader_process" where
  "leaderLoop_head p = p\<lparr>lp_pc := if lp_rootDone p then Returned else CallCampaign\<rparr>"

definition campaign_pc :: "elector_error + unit \<Rightarrow> leader_pc" where
  "campaign_pc r = (case r of Inl _ \<Rightarrow> CampaignFailed | Inr _ \<Rightarrow> Elected)"

definition leaderLoop_campaign :: "leader_process \<Rightarrow> leader_process" where
  "leaderLoop_campaign p =
     (case co_elector (lp_coord p) of
        ERedis e \<Rightarrow>
          let (r, e) = Campaign_begin (lp_rootDone p) e
          in (set_elector (ERedis e) p)\<lparr>lp_pc := case r of None \<Rightarrow> InCampaign | Some r \<Rightarrow> campaign_pc r\<rparr>
      | EAlways e \<Rightarrow>
          let (r, e) = Campaign_always (lp_rootDone p) e in (set_elector (EAlways e) p)\<lparr>lp_pc := campaign_pc r\<rparr>)"

text \<open>The leader context is derived from \<open>rootCtx\<close>: it is dead from the start when that one has been cancelled.\<close>

definition leaderLoop_try ::
    "('s, 'd) redis \<Rightarrow> 'd json \<Rightarrow> net \<Rightarrow> time \<Rightarrow> leader_process \<Rightarrow> 's outside \<Rightarrow> leader_process \<times> 's outside" where
  "leaderLoop_try R J n now p en =
     (case co_elector (lp_coord p) of
        ERedis e \<Rightarrow>
          let (r, e, s) = Campaign_try R J n now e (out_store en);
              e = (if lp_rootDone p then parent_cancelled e else e)
          in ((set_elector (ERedis e) p)\<lparr>lp_pc := case r of None \<Rightarrow> InCampaign | Some r \<Rightarrow> campaign_pc r\<rparr>, en\<lparr>out_store := s\<rparr>)
      | EAlways e \<Rightarrow> (p, en))"

definition leaderLoop_cancelled :: "leader_process \<Rightarrow> leader_process" where
  "leaderLoop_cancelled p =
     (case co_elector (lp_coord p) of
        ERedis e \<Rightarrow> (set_elector (ERedis (snd (Campaign_cancelled e))) p)\<lparr>lp_pc := CampaignFailed\<rparr>
      | EAlways e \<Rightarrow> p\<lparr>lp_pc := CampaignFailed\<rparr>)"

definition leaderLoop_failed :: "leader_process \<Rightarrow> leader_process" where
  "leaderLoop_failed p = p\<lparr>lp_pc := if lp_rootDone p then Returned else Backoff\<rparr>"

text \<open>Whether the timer fires; otherwise the context has ended.\<close>

definition waitForContext :: "bool \<Rightarrow> leader_process \<Rightarrow> leader_process" where
  "waitForContext fired p = p\<lparr>lp_pc := if fired then LoopHead else Returned\<rparr>"

definition leaderLoop_elected :: "'s cio \<Rightarrow> leader_process \<Rightarrow> leader_process" where
  "leaderLoop_elected ev p =
     (let ((_, ok), c) = currentLeaderTerm ev 0 (lp_coord p)
      in p\<lparr>lp_coord := c, lp_pc := if ok then LeaderStart else LoopHead\<rparr>)"

definition runLeader_start ::
    "('s, 'd) redis \<Rightarrow> 'd json \<Rightarrow> 's cio \<Rightarrow> leader_process \<Rightarrow> 's outside \<Rightarrow> leader_process \<times> 's outside" where
  "runLeader_start R J ev p en =
     (let (_, c, en) = ensureBoss R J ev (lp_coord p) en
      in (p\<lparr>lp_coord := c, lp_pc := Leading [DiscoveryLoop, HeartbeatLoop, BossLoop]\<rparr>, en))"

fun leaderCtx_live :: "elector \<Rightarrow> bool" where
  "leaderCtx_live (ERedis e) = (el_leaderCtx e = Some True)"
| "leaderCtx_live (EAlways e) = (al_leaderCtx e = Some True)"

definition discoveryLoop_tick ::
    "('s, 'd) redis \<Rightarrow> 'd json \<Rightarrow> 's cio \<Rightarrow> leader_process \<Rightarrow> 's outside \<Rightarrow> leader_process \<times> 's outside" where
  "discoveryLoop_tick R J ev p en =
     (let ((pending, moving, _), c, en) = discoverOnce R J ev (lp_coord p) en
      in (p\<lparr>lp_coord := c, lp_dials := lp_dials p @ pending, lp_failovers := lp_failovers p @ map (\<lambda>a. (a, None)) moving\<rparr>, en))"

definition heartbeatLoop_tick :: "'s cio \<Rightarrow> leader_process \<Rightarrow> 's outside \<Rightarrow> leader_process \<times> 's outside" where
  "heartbeatLoop_tick ev p en =
     (let (started, c, en) = heartbeatOnce ev (lp_coord p) en
      in (p\<lparr>lp_coord := c, lp_failovers := lp_failovers p @ map (\<lambda>a. (a, None)) started\<rparr>, en))"

definition bossLoop_tick ::
    "('s, 'd) redis \<Rightarrow> 'd json \<Rightarrow> (string \<Rightarrow> string) \<Rightarrow> 's cio \<Rightarrow> leader_process \<Rightarrow> 's outside \<Rightarrow> leader_process \<times> 's outside" where
  "bossLoop_tick R J text_of ev p en =
     (let (c, en) = restoreBossIfDue R J text_of ev (lp_coord p) en in (p\<lparr>lp_coord := c\<rparr>, en))"

fun worker_tick ::
    "('s, 'd) redis \<Rightarrow> 'd json \<Rightarrow> (string \<Rightarrow> string) \<Rightarrow> 's cio \<Rightarrow> leader_worker \<Rightarrow> leader_process \<Rightarrow> 's outside
     \<Rightarrow> leader_process \<times> 's outside" where
  "worker_tick R J text_of ev DiscoveryLoop p en = discoveryLoop_tick R J ev p en"
| "worker_tick R J text_of ev HeartbeatLoop p en = heartbeatLoop_tick ev p en"
| "worker_tick R J text_of ev BossLoop p en = bossLoop_tick R J text_of ev p en"

definition dial_goroutine ::
    "(string \<Rightarrow> string \<Rightarrow> bool) \<Rightarrow> 's cio \<Rightarrow> NodeRegistryInfo \<Rightarrow> leader_process \<Rightarrow> 's outside \<Rightarrow> leader_process \<times> 's outside" where
  "dial_goroutine dial ev info p en =
     (let (c, en) = connectDiscoveredNode dial ev info (lp_coord p) en
      in (p\<lparr>lp_coord := c, lp_dials := remove1 info (lp_dials p)\<rparr>, en))"

text \<open>A failover of a node, up to the list of its maps, and the rest of it map by map.\<close>

definition failoverNode_begin ::
    "('s, 'd) redis \<Rightarrow> 'd json \<Rightarrow> 's cio \<Rightarrow> string \<Rightarrow> Coordinator \<Rightarrow> 's outside \<Rightarrow> string list \<times> Coordinator \<times> 's outside" where
  "failoverNode_begin R J ev failedNodeID c en =
     (let ((_, leader), c) = currentLeaderTerm ev 0 c
      in if \<not> leader then ([], c, en)
         else
           let en = ev_others ev 0 en
           in case LoadTopology R J (ev_net ev 0) (out_store en) of
                Inr (Some topology) \<Rightarrow> (owned_by failedNodeID topology, c, en)
              | _ \<Rightarrow> ([], c, en))"

lemma failoverNode_parts:
  "failoverNode R J T E ev evs a c en =
     (let (ms, c, en) = failoverNode_begin R J ev a c en in failover_maps R J T E evs ms a c en)"
  by (auto simp: failoverNode_def failoverNode_begin_def Let_def split: prod.split sum.split option.split)

text \<open>\<open>stopCh\<close> is closed: \<open>rootCtx\<close> and every context derived from it end.\<close>

fun ctx_cancelled :: "elector \<Rightarrow> elector" where
  "ctx_cancelled (ERedis e) = ERedis (parent_cancelled e)"
| "ctx_cancelled (EAlways e) = EAlways (e\<lparr>al_leaderCtx := map_option (\<lambda>_. False) (al_leaderCtx e)\<rparr>)"

definition root_cancelled :: "leader_process \<Rightarrow> leader_process" where
  "root_cancelled p = (set_elector (ctx_cancelled (co_elector (lp_coord p))) p)\<lparr>lp_rootDone := True\<rparr>"

section \<open>The critical sections of a coordinator\<close>

definition joinPool :: "NodeRegistryInfo \<Rightarrow> NodeGRPCClient \<Rightarrow> Coordinator \<Rightarrow> Coordinator" where
  "joinPool info client c =
     (let c = finishNodeConnection (nr_ID info) c
      in if co_closed c \<or> has_key (co_nodes c) (nr_ID info) then c
         else c\<lparr>co_nodes := AList.update (nr_ID info) \<lparr>cn_client = client, cn_healthy = True\<rparr> (co_nodes c)\<rparr>)"

definition closePool :: "Coordinator \<Rightarrow> Coordinator" where
  "closePool c = c\<lparr>co_closed := True, co_nodes := [], co_connectingNodes := [], co_failureGenerations := [], co_failoverInFlight := []\<rparr>"

text \<open>Every elector of this program counts its terms under the key the store compares with.\<close>

fun elector_ok :: "elector \<Rightarrow> bool" where
  "elector_ok (ERedis e) = (ro_TermKey (el_options e) = CoordinatorLeaderTermRedisKey)"
| "elector_ok (EAlways e) = True"

inductive self_step :: "Coordinator \<Rightarrow> Coordinator \<Rightarrow> bool" where
  elect: "elector_ok e \<Longrightarrow> self_step c (c\<lparr>co_elector := e\<rparr>)"
| start: "self_step c (c\<lparr>co_started := True\<rparr>)"
| discover: "self_step c (snd (discoverNodes infos c))"
| finish: "self_step c (finishNodeConnection i c)"
| join: "gc_id client = nr_ID info \<Longrightarrow> self_step c (joinPool info client c)"
| health: "map_of (co_nodes c) a = Some x \<Longrightarrow> self_step c (c\<lparr>co_nodes := AList.update a (x\<lparr>cn_healthy := h\<rparr>) (co_nodes c)\<rparr>)"
| close: "self_step c (closePool c)"

abbreviation "self_run \<equiv> self_step\<^sup>*\<^sup>*"

definition orderly :: "('s, 'd) redis \<Rightarrow> 'd json \<Rightarrow> 's cio \<Rightarrow> bool" where
  "orderly R J ev \<longleftrightarrow> steady R J ev \<and> (\<forall>k c. self_run c (ev_self ev k c))"

section \<open>The process\<close>

inductive leader_step ::
    "('s, 'd) redis \<Rightarrow> 'd json \<Rightarrow> 'ts timestamppb \<Rightarrow> (string \<Rightarrow> process) \<Rightarrow> (string \<Rightarrow> string \<Rightarrow> bool) \<Rightarrow> (string \<Rightarrow> string)
     \<Rightarrow> leader_process \<times> 's outside \<Rightarrow> leader_process \<times> 's outside \<Rightarrow> bool" for R J T E dial text_of where
  start: "lp_pc p = NotStarted \<Longrightarrow> Start_coordinator (lp_coord p) = (Inr True, c) \<Longrightarrow>
    leader_step R J T E dial text_of (p, en) (p\<lparr>lp_coord := c, lp_pc := LoopHead\<rparr>, en)"
| head: "lp_pc p = LoopHead \<Longrightarrow> leader_step R J T E dial text_of (p, en) (leaderLoop_head p, en)"
| campaign: "lp_pc p = CallCampaign \<Longrightarrow> leader_step R J T E dial text_of (p, en) (leaderLoop_campaign p, en)"
| attempt: "lp_pc p = InCampaign \<Longrightarrow> leader_step R J T E dial text_of (p, en) (leaderLoop_try R J n now p en)"
| cancelled: "lp_pc p = InCampaign \<Longrightarrow> lp_rootDone p \<Longrightarrow> leader_step R J T E dial text_of (p, en) (leaderLoop_cancelled p, en)"
| failed: "lp_pc p = CampaignFailed \<Longrightarrow> leader_step R J T E dial text_of (p, en) (leaderLoop_failed p, en)"
| backoff: "lp_pc p = Backoff \<Longrightarrow> fired \<or> lp_rootDone p \<Longrightarrow> leader_step R J T E dial text_of (p, en) (waitForContext fired p, en)"
| elected: "lp_pc p = Elected \<Longrightarrow> orderly R J ev \<Longrightarrow> leader_step R J T E dial text_of (p, en) (leaderLoop_elected ev p, en)"
| lead: "lp_pc p = LeaderStart \<Longrightarrow> orderly R J ev \<Longrightarrow> leader_step R J T E dial text_of (p, en) (runLeader_start R J ev p en)"
| tick: "lp_pc p = Leading ws \<Longrightarrow> w \<in> set ws \<Longrightarrow> orderly R J ev \<Longrightarrow>
    leader_step R J T E dial text_of (p, en) (worker_tick R J text_of ev w p en)"
| stop: "lp_pc p = Leading ws \<Longrightarrow> w \<in> set ws \<Longrightarrow> \<not> leaderCtx_live (co_elector (lp_coord p)) \<Longrightarrow>
    leader_step R J T E dial text_of (p, en) (p\<lparr>lp_pc := Leading (remove1 w ws)\<rparr>, en)"
| rejoin: "lp_pc p = Leading [] \<Longrightarrow> \<not> leaderCtx_live (co_elector (lp_coord p)) \<Longrightarrow>
    leader_step R J T E dial text_of (p, en) (p\<lparr>lp_pc := LoopHead\<rparr>, en)"
| dialled: "info \<in> set (lp_dials p) \<Longrightarrow> orderly R J ev \<Longrightarrow>
    leader_step R J T E dial text_of (p, en) (dial_goroutine dial ev info p en)"
| failover: "(a, None) \<in> set (lp_failovers p) \<Longrightarrow> orderly R J ev \<Longrightarrow> failoverNode_begin R J ev a (lp_coord p) en = (ms, c, en') \<Longrightarrow>
    leader_step R J T E dial text_of (p, en)
      (p\<lparr>lp_coord := c, lp_failovers := (a, Some ms) # remove1 (a, None) (lp_failovers p)\<rparr>, en')"
| move: "(a, Some (m # ms)) \<in> set (lp_failovers p) \<Longrightarrow> orderly R J ev \<Longrightarrow>
    failoverMap R J T E ev m a (lp_coord p) en = Some (r, c, en') \<Longrightarrow>
    leader_step R J T E dial text_of (p, en)
      (p\<lparr>lp_coord := c, lp_failovers := (a, Some ms) # remove1 (a, Some (m # ms)) (lp_failovers p)\<rparr>, en')"
| moved: "(a, Some []) \<in> set (lp_failovers p) \<Longrightarrow>
    leader_step R J T E dial text_of (p, en) (p\<lparr>lp_failovers := remove1 (a, Some []) (lp_failovers p)\<rparr>, en)"
| renew: "co_elector (lp_coord p) = ERedis e \<Longrightarrow> el_leaderCtx e \<noteq> None \<Longrightarrow> renewLoop_tick R J n now e (out_store en) = (e', s) \<Longrightarrow>
    leader_step R J T E dial text_of (p, en) (set_elector (ERedis e') p, en\<lparr>out_store := s\<rparr>)"
| release: "co_elector (lp_coord p) = ERedis e \<Longrightarrow> el_leaderCtx e \<noteq> None \<Longrightarrow> lp_rootDone p \<Longrightarrow>
    renewLoop_done R J n now e (out_store en) = (e', s) \<Longrightarrow>
    leader_step R J T E dial text_of (p, en) (set_elector (ERedis e') p, en\<lparr>out_store := s\<rparr>)"
| root: "co_closed (lp_coord p) \<Longrightarrow> leader_step R J T E dial text_of (p, en) (root_cancelled p, en)"
| close: "Close R J n now (lp_coord p) en = (r, c, en') \<Longrightarrow> leader_step R J T E dial text_of (p, en) (p\<lparr>lp_coord := c\<rparr>, en')"
| others: "steps R J (out_store en) (out_store en') \<Longrightarrow> leader_step R J T E dial text_of (p, en) (p, en')"

section \<open>The sections keep the pool\<close>

text \<open>
  One connection per node, under the id of the node; no node is dialled that is connected; a closed coordinator
  has no connections.
\<close>

definition coord_ok :: "Coordinator \<Rightarrow> bool" where
  "coord_ok c \<longleftrightarrow> elector_ok (co_elector c) \<and>
     distinct (keys (co_nodes c)) \<and> list_all (\<lambda>(i, x). gc_id (cn_client x) = i) (co_nodes c) \<and>
     distinct (co_connectingNodes c) \<and> set (keys (co_nodes c)) \<inter> set (co_connectingNodes c) = {} \<and>
     (co_closed c \<longrightarrow> co_nodes c = [] \<and> co_connectingNodes c = [])"

lemma discover_pending_only_connecting:
  "\<exists>ids. snd (discover_pending infos c) = c\<lparr>co_connectingNodes := ids\<rparr>"
proof (induction infos arbitrary: c)
  case Nil
  show ?case by (rule exI [of _ "co_connectingNodes c"]) simp
next
  case (Cons i infos)
  show ?case
    using Cons.IH [of c] Cons.IH [of "c\<lparr>co_connectingNodes := nr_ID i # co_connectingNodes c\<rparr>"]
    by (auto simp: case_prod_beta Let_def)
qed

lemma discover_pending_ok:
  "coord_ok c \<Longrightarrow> \<not> co_closed c \<Longrightarrow> coord_ok (snd (discover_pending infos c))"
proof (induction infos arbitrary: c)
  case (Cons i infos)
  have "coord_ok (c\<lparr>co_connectingNodes := nr_ID i # co_connectingNodes c\<rparr>)"
    if "\<not> has_key (co_nodes c) (nr_ID i)" "nr_ID i \<notin> set (co_connectingNodes c)"
    using that Cons.prems by (auto simp: coord_ok_def has_key_def)
  then show ?case using Cons by (auto simp: case_prod_beta Let_def)
qed simp

lemma update_same_id:
  assumes "list_all (\<lambda>(i, x). gc_id (cn_client x) = i) al" "gc_id (cn_client y) = a"
  shows "list_all (\<lambda>(i, x). gc_id (cn_client x) = i) (AList.update a y al)"
  using assms by (induction al) auto

lemma finish_ok: "coord_ok c \<Longrightarrow> coord_ok (finishNodeConnection i c)"
  by (auto simp: coord_ok_def finishNodeConnection_def distinct_removeAll)

lemma self_step_ok:
  assumes "self_step c c'" "coord_ok c"
  shows "coord_ok c' \<and> (co_closed c \<longrightarrow> co_closed c')"
  using assms
proof (cases rule: self_step.cases)
  case (discover infos)
  then show ?thesis using assms(2) discover_pending_ok [of c infos] discover_pending_only_connecting [of infos c]
    by (auto simp: discoverNodes_def)
next
  case (finish i)
  then show ?thesis using finish_ok [OF assms(2)] by (simp add: finishNodeConnection_def)
next
  case (join client info)
  then show ?thesis using finish_ok [OF assms(2), of "nr_ID info"]
    by (auto simp: joinPool_def Let_def coord_ok_def update_same_id distinct_update dom_update finishNodeConnection_def)
next
  case (health a x h)
  then have "gc_id (cn_client x) = a" using assms(2) by (auto simp: coord_ok_def list_all_iff dest: map_of_SomeD)
  then show ?thesis using assms(2) health
    by (auto simp: coord_ok_def update_same_id distinct_update dom_update image_iff dest: map_of_SomeD)
qed (auto simp: coord_ok_def closePool_def)

lemma self_run_ok: "self_run c c' \<Longrightarrow> coord_ok c \<Longrightarrow> coord_ok c' \<and> (co_closed c \<longrightarrow> co_closed c')"
  by (induction rule: rtranclp_induct) (auto dest: self_step_ok)

end
