(* ===== verification/Leader_Props.thy ===== *)
theory Leader_Props
  imports Leader
begin

text \<open>
  What holds over whole runs of a coordinator process: every round of every loop moves the store by writes of
  the store and the coordinator by its critical sections, so the invariants of both hold at every moment, with
  any number of coordinators, nodes and gateways around; and a fresh cluster gets its first topology.
\<close>

section \<open>Rounds are sections and writes\<close>

lemma orderlyD:
  assumes "orderly R J ev"
  shows "self_run c (ev_self ev k c)" "self_run c0 c \<Longrightarrow> self_run c0 (ev_self ev k c)"
    "steps R J (out_store x) (out_store (ev_others ev k x))"
    "steps R J s (out_store x) \<Longrightarrow> steps R J s (out_store (ev_others ev k x))"
    "steady R J ev"
proof -
  show st: "steady R J ev" using assms by (simp add: orderly_def)
  show 1: "self_run c (ev_self ev k c)" using assms by (simp add: orderly_def)
  then show "self_run c0 c \<Longrightarrow> self_run c0 (ev_self ev k c)" by simp
  show 2: "steps R J (out_store x) (out_store (ev_others ev k x))" using steadyD [OF st] .
  then show "steps R J s (out_store x) \<Longrightarrow> steps R J s (out_store (ev_others ev k x))" by simp
qed

lemma currentLeaderTerm_self:
  assumes "orderly R J ev" "currentLeaderTerm ev k c = (r, c')"
  shows "self_run c c'"
  using assms(2) orderlyD(1,2) [OF assms(1)] by (auto simp: currentLeaderTerm_def Let_def)

lemma hasLeaderTerm_self:
  assumes "orderly R J ev" "hasLeaderTerm ev k lt c = (r, c')"
  shows "self_run c c'"
  using assms(2) orderlyD(1,2) [OF assms(1)] by (auto simp: hasLeaderTerm_def Let_def split: if_splits)

lemma standby_candidates_self:
  assumes "orderly R J ev" "standby_candidates ev k m a rs ids c = (ids', c')"
  shows "self_run c c'"
  using assms(2)
proof (induction rs arbitrary: k ids c)
  case (Cons r rs)
  show ?case using Cons.prems Cons.IH orderlyD(1) [OF assms(1), of c k]
    by (auto simp: Let_def split: if_splits intro: rtranclp_trans)
qed simp

lemma selectStandby_self:
  assumes "orderly R J ev" "selectStandby R J ev m a c en = (r, c', en')"
  shows "self_run c c'"
proof -
  let ?g = "GetActiveNodes R J (ev_net ev 1) (ev_lost ev 1) (ev_now ev 1) (out_store (ev_others ev 1 en))"
  obtain ids c1 where c1: "standby_candidates ev 10 m a (fst ?g) [] c = (ids, c1)" by fastforce
  note self = standby_candidates_self [OF assms(1) c1]
  then show ?thesis using assms(2) c1 orderlyD(2) [OF assms(1) self]
    by (auto simp: selectStandby_def Let_def case_prod_beta split: prod.splits option.splits list.splits)
qed

lemma failover_commit_self:
  assumes "orderly R J ev" "failover_commit R J ev lt t m a b e c en = (r, c', en')"
  shows "self_run c c'"
proof -
  obtain still c1 where c1: "hasLeaderTerm ev 2 lt c = (still, c1)" by fastforce
  have "c' = c1" using assms(2) c1 by (auto simp: failover_commit_def Let_def split: prod.splits if_splits option.splits)
  then show ?thesis using hasLeaderTerm_self [OF assms(1) c1] by simp
qed

lemma failover_promote_self:
  assumes "orderly R J ev" "failover_promote R J T E ev lt t m a sb c en = Some (r, c', en')"
  shows "self_run c c'"
  using assms(2) failover_commit_self [OF assms(1)]
  by (auto simp: failover_promote_def Let_def split: option.splits if_splits sum.splits prod.splits)

lemma failoverMap_self:
  assumes "orderly R J ev" "failoverMap R J T E ev m a c en = Some (r, c', en')"
  shows "self_run c c'"
proof -
  obtain lt leader c0 where c0: "currentLeaderTerm ev 0 c = ((lt, leader), c0)" by (metis prod.collapse)
  obtain sb c1 x1 where sb: "selectStandby R J ev m a c0 (ev_others ev 0 en) = (sb, c1, x1)" by (metis prod.collapse)
  have r0: "self_run c c0" by (rule currentLeaderTerm_self [OF assms(1) c0])
  have r1: "self_run c c1" by (rule rtranclp_trans [OF r0 selectStandby_self [OF assms(1) sb]])
  have "c' = c0 \<or> c' = c1 \<or> (\<exists>t q. failover_promote R J T E ev lt t m a q c1 x1 = Some (r, c', en'))"
    using assms(2) c0 sb by (auto simp: failoverMap_def Let_def split: if_splits sum.splits option.splits)
  then show ?thesis using r0 r1 rtranclp_trans [OF r1 failover_promote_self [OF assms(1)]] by blast
qed

lemma failoverNode_begin_run:
  assumes "orderly R J ev" "failoverNode_begin R J ev a c en = (ms, c', en')"
  shows "self_run c c' \<and> steps R J (out_store en) (out_store en')"
proof -
  obtain lt leader c0 where c0: "currentLeaderTerm ev 0 c = ((lt, leader), c0)" by (metis prod.collapse)
  have "c' = c0 \<and> en' \<in> {en, ev_others ev 0 en}"
    using assms(2) c0 by (auto simp: failoverNode_begin_def Let_def split: if_splits sum.splits option.splits)
  then show ?thesis using currentLeaderTerm_self [OF assms(1) c0] orderlyD(3) [OF assms(1)] by auto
qed

lemma boss_writes:
  "steps R J s (snd (InitGlobalBoss R J n hp st s))" "steps R J s (snd (TryLockBossRespawn R J n now s))"
  "steps R J s (snd (PublishEvent R n ch e s))"
  by (auto intro: r_into_rtranclp store_step.boss_init store_step.boss_lock store_step.publish)

lemma ensureBoss_run:
  assumes "orderly R J ev" "ensureBoss R J ev c en = (r, c', en')"
  shows "self_run c c' \<and> steps R J (out_store en) (out_store en')"
proof -
  obtain lt leader c0 where c0: "currentLeaderTerm ev 0 c = ((lt, leader), c0)" by (metis prod.collapse)
  let ?x0 = "ev_others ev 0 en"
  let ?x2 = "ev_others ev 2 ?x0"
  have s0: "steps R J (out_store en) (out_store ?x0)" using orderlyD(3) [OF assms(1)] .
  have s2: "steps R J (out_store en) (out_store ?x2)" using orderlyD(4) [OF assms(1) s0] .
  have "steps R J (out_store en) (snd (InitGlobalBoss R J n hp st (out_store ?x2)))" for n hp st
    by (rule rtranclp_trans [OF s2 boss_writes(1)])
  moreover have "c' = c0 \<and> (en' \<in> {en, ?x0} \<or> (\<exists>n hp st. out_store en' = snd (InitGlobalBoss R J n hp st (out_store ?x2))))"
    using assms(2) c0 by (auto simp: ensureBoss_def Let_def split: if_splits sum.splits option.splits prod.splits) (metis snd_conv)+
  ultimately show ?thesis using s0 currentLeaderTerm_self [OF assms(1) c0] by fastforce
qed

lemma restoreBoss_run:
  assumes "orderly R J ev" "restoreBossIfDue R J fmt ev c en = (c', en')"
  shows "self_run c c' \<and> steps R J (out_store en) (out_store en')"
proof -
  obtain lt leader c0 where c0: "currentLeaderTerm ev 0 c = ((lt, leader), c0)" by (metis prod.collapse)
  let ?s = "out_store en"
  let ?x0 = "ev_others ev 0 en"
  let ?x2 = "ev_others ev 2 ?x0"
  let ?l = "snd (TryLockBossRespawn R J (ev_net ev 2) (ev_now ev 2) (out_store ?x2))"
  let ?x3 = "ev_others ev 3 (?x2\<lparr>out_store := ?l\<rparr>)"
  let ?x5 = "ev_others ev 5 ?x3"
  note more = orderlyD(4) [OF assms(1)]
  have s0: "steps R J ?s (out_store ?x0)" using orderlyD(3) [OF assms(1)] .
  have l: "steps R J ?s (out_store (?x2\<lparr>out_store := ?l\<rparr>))" using rtranclp_trans [OF more [OF s0] boss_writes(2)] by simp
  have i: "steps R J ?s (out_store (?x5\<lparr>out_store := snd (InitGlobalBoss R J n hp st (out_store ?x5))\<rparr>))" for n hp st
    using rtranclp_trans [OF more [OF more [OF l]] boss_writes(1)] by simp
  have p: "steps R J ?s (snd (PublishEvent R n ch e (out_store (ev_others ev 6 (?x5\<lparr>out_store := snd (InitGlobalBoss R J n' hp st (out_store ?x5))\<rparr>)))))" for n ch e n' hp st
    by (rule rtranclp_trans [OF more [OF i] boss_writes(3)])
  have "c' = c0 \<and> steps R J ?s (out_store en')"
    using assms(2) c0 s0 l more [OF l] i p
    by (auto simp: restoreBossIfDue_def Let_def case_prod_beta split: if_splits sum.splits option.splits)
  then show ?thesis using currentLeaderTerm_self [OF assms(1) c0] by simp
qed

lemma ping_store: "call_node (Ping_client now net) cl en = Some (r, en') \<Longrightarrow> out_store en' = out_store en"
  using call_node_some rpc_call_some unfolding Ping_client_def by (fastforce simp: Ping_server_def)

lemma connect_run:
  assumes "orderly R J ev" "connectDiscoveredNode dial ev info c en = (c', en')"
  shows "self_run c c' \<and> steps R J (out_store en) (out_store en')"
proof -
  let ?c = "ev_self ev 0 c" and ?x = "ev_others ev 0 en" and ?cl = "\<lparr>gc_id = nr_ID info, gc_addr = nr_Addr info\<rparr>"
  have "c' \<in> {finishNodeConnection (nr_ID info) ?c, joinPool info ?cl ?c}"
    "out_store en' \<in> {out_store en, out_store ?x}"
    using assms(2) ping_store [of "ev_now ev 0" "ev_net ev 0" ?cl ?x]
    by (auto simp: connectDiscoveredNode_def joinPool_def Let_def split: if_splits option.splits prod.splits sum.splits)
  moreover have "self_step ?c (finishNodeConnection (nr_ID info) ?c)" "self_step ?c (joinPool info ?cl ?c)"
    by (auto intro: self_step.finish self_step.join)
  ultimately show ?thesis using orderlyD(1,3) [OF assms(1)] by (auto intro: rtranclp.rtrancl_into_rtrancl)
qed

lemma setNodeHealth_self:
  assumes "orderly R J ev" "setNodeHealth ev k a h c = (start, c')"
  shows "self_run c c'"
proof -
  obtain lt leader c0 where c0: "currentLeaderTerm ev k c = ((lt, leader), c0)" by (metis prod.collapse)
  have r0: "self_run c c0" by (rule currentLeaderTerm_self [OF assms(1) c0])
  have r1: "self_run c (ev_self ev (k + 2) c0)" using orderlyD(2) [OF assms(1) r0] .
  have "c' \<in> {c0, ev_self ev (k + 2) c0} \<or> self_step (ev_self ev (k + 2) c0) c'"
    using assms(2) c0 by (auto simp: setNodeHealth_def Let_def split: if_splits option.splits intro: self_step.health)
  then show ?thesis using r0 r1 by (auto intro: rtranclp.rtrancl_into_rtrancl)
qed

lemma heartbeat_nodes_run:
  assumes "orderly R J ev" "heartbeat_nodes ev k cs c en = (started, c', en')"
  shows "self_run c c' \<and> steps R J (out_store en) (out_store en')"
  using assms(2)
proof (induction cs arbitrary: k c en started)
  case (Cons x cs)
  let ?x = "ev_others ev k en"
  let ?call = "call_node (Ping_client (ev_now ev k) (ev_net ev k)) (cn_client x) ?x"
  obtain alive en1 where al: "(case ?call of Some (Inr _, en) \<Rightarrow> (True, en) | Some (Inl _, en) \<Rightarrow> (False, en) | None \<Rightarrow> (False, ?x)) = (alive, en1)"
    by fastforce
  obtain start c1 where st: "setNodeHealth ev (3 * k) (gc_id (cn_client x)) alive c = (start, c1)" by fastforce
  obtain more where rest: "heartbeat_nodes ev (Suc k) cs c1 en1 = (more, c', en')"
    using Cons.prems al st by (auto simp: Let_def split: prod.splits)
  have "out_store en1 = out_store ?x"
    using al ping_store [of "ev_now ev k" "ev_net ev k" "cn_client x" ?x] by (auto split: option.splits prod.splits sum.splits)
  then have "steps R J (out_store en) (out_store en1)" using orderlyD(3) [OF assms(1), of en k] by simp
  then show ?case using Cons.IH [OF rest] setNodeHealth_self [OF assms(1) st] by (auto intro: rtranclp_trans)
qed simp

lemma heartbeatOnce_run:
  assumes "orderly R J ev" "heartbeatOnce ev c en = (started, c', en')"
  shows "self_run c c' \<and> steps R J (out_store en) (out_store en')"
proof -
  obtain lt leader c0 where c0: "currentLeaderTerm ev 0 c = ((lt, leader), c0)" by (metis prod.collapse)
  have r0: "self_run c c0" by (rule currentLeaderTerm_self [OF assms(1) c0])
  have r1: "self_run c (ev_self ev 2 c0)" using orderlyD(2) [OF assms(1) r0] .
  show ?thesis using assms(2) c0 r0 rtranclp_trans [OF r1] heartbeat_nodes_run [OF assms(1)]
    by (auto simp: heartbeatOnce_def Let_def split: if_splits)
qed

lemma reconcile_run:
  assumes "orderly R J ev" "reconcileDrainingNodes R J ev infos c en = (r, c', en')"
  shows "self_run c c' \<and> steps R J (out_store en) (out_store en')"
proof -
  obtain lt leader c0 where c0: "currentLeaderTerm ev 2 c = ((lt, leader), c0)" by (metis prod.collapse)
  have "c' = c0 \<and> en' \<in> {en, ev_others ev 2 en}"
    using assms(2) c0 by (auto simp: reconcileDrainingNodes_def Let_def split: if_splits sum.splits option.splits)
  then show ?thesis using currentLeaderTerm_self [OF assms(1) c0] orderlyD(3) [OF assms(1)] by auto
qed

lemma bootstrap_run:
  assumes "orderly R J ev" "bootstrapTopologyIfAbsent R J ev nodes c en = (r, c', en')"
  shows "self_run c c' \<and> steps R J (out_store en) (out_store en')"
proof -
  obtain lt leader c0 where c0: "currentLeaderTerm ev 4 c = ((lt, leader), c0)" by (metis prod.collapse)
  obtain still c1 where c1: "hasLeaderTerm ev 6 lt c0 = (still, c1)" by fastforce
  have r0: "self_run c c0" by (rule currentLeaderTerm_self [OF assms(1) c0])
  have r1: "self_run c c1" by (rule rtranclp_trans [OF r0 hasLeaderTerm_self [OF assms(1) c1]])
  let ?x3 = "ev_others ev 3 en"
  let ?x4 = "ev_others ev 4 ?x3"
  let ?s = "\<lambda>n t. snd (CompareAndSaveTopologyForLeader R J n 0 t lt (out_store ?x4))"
  note more = orderlyD(4) [OF assms(1)]
  have s3: "steps R J (out_store en) (out_store ?x3)" using orderlyD(3) [OF assms(1)] .
  have s4: "steps R J (out_store en) (out_store (?x4\<lparr>out_store := ?s n t\<rparr>))" for n t
    using rtranclp_trans [OF more [OF s3] leader_commit_step(2)] by simp
  have s5: "steps R J (out_store en) (snd (PublishTopologyChanged R n v (out_store (ev_others ev 5 (?x4\<lparr>out_store := ?s n' t\<rparr>)))))" for n v n' t
    by (rule rtranclp_trans [OF more [OF s4] publish_changed_step])
  have "c' \<in> {c0, c1} \<and> steps R J (out_store en) (out_store en')"
    using assms(2) c0 c1 s3 s4 s5
    by (auto simp: bootstrapTopologyIfAbsent_def Let_def case_prod_beta split: if_splits sum.splits option.splits)
  then show ?thesis using r0 r1 by auto
qed

lemma discoverOnce_run:
  assumes "orderly R J ev" "discoverOnce R J ev c en = (r, c', en')"
  shows "self_run c c' \<and> steps R J (out_store en) (out_store en')"
proof -
  let ?x = "ev_others ev 1 en"
  obtain lt leader c0 where c0: "currentLeaderTerm ev 0 c = ((lt, leader), c0)" by (metis prod.collapse)
  obtain infos err where g: "GetActiveNodes R J (ev_net ev 1) (ev_lost ev 1) (ev_now ev 1) (out_store ?x) = (infos, err)" by fastforce
  obtain pending c1 where c1: "discoverNodes infos (ev_self ev 8 c0) = (pending, c1)" by fastforce
  obtain moving c2 x2 where c2: "reconcileDrainingNodes R J ev infos c1 ?x = (moving, c2, x2)" by (metis prod.collapse)
  obtain e c3 x3 where c3: "bootstrapTopologyIfAbsent R J ev (connectedNodeRegistrations infos (ev_self ev 9 c2)) (ev_self ev 9 c2) x2 = (e, c3, x3)"
    by (metis prod.collapse)
  have r0: "self_run c c0" by (rule currentLeaderTerm_self [OF assms(1) c0])
  have "self_run c (ev_self ev 8 c0)" using orderlyD(2) [OF assms(1) r0] .
  then have r1: "self_run c c1" using self_step.discover [of "ev_self ev 8 c0" infos] c1 by (auto intro: rtranclp.rtrancl_into_rtrancl)
  have s1: "steps R J (out_store en) (out_store ?x)" using orderlyD(3) [OF assms(1)] .
  have 2: "self_run c c2 \<and> steps R J (out_store en) (out_store x2)"
    using reconcile_run [OF assms(1) c2] r1 s1 by (auto intro: rtranclp_trans)
  then have "self_run c (ev_self ev 9 c2)" using orderlyD(2) [OF assms(1)] by blast
  then have 3: "self_run c c3 \<and> steps R J (out_store en) (out_store x3)"
    using bootstrap_run [OF assms(1) c3] 2 by (auto intro: rtranclp_trans)
  have "(c', en') \<in> {(c0, en), (c0, ?x), (c3, x3)}"
    using assms(2) c0 g c1 c2 c3 by (auto simp: discoverOnce_def Let_def split: if_splits option.splits)
  then show ?thesis using r0 s1 3 by auto
qed

section \<open>The elector\<close>

lemma rpc_writes: "(\<And>s. steps R J s (snd (f s))) \<Longrightarrow> steps R J s (snd (rpc n f s))"
  by (cases n) (auto simp: rpc_def case_prod_beta)

lemma acquire_writes: "steps R J s (snd (acquire_script R J now lk CoordinatorLeaderTermRedisKey tok ms s))"
proof -
  let ?s = "TSET R now lk (enc_text J tok) (ms * millisecond) s"
  have 1: "steps R J s ?s" by (intro r_into_rtranclp store_step.lease)
  have 2: "steps R J s (snd (INCRBY R CoordinatorLeaderTermRedisKey 1 ?s))"
    by (rule rtranclp.rtrancl_into_rtrancl [OF 1 store_step.next_term])
  show ?thesis using 1 2 by (simp add: acquire_script_def Let_def case_prod_beta)
qed

lemma lease_writes:
  "steps R J s (snd (renew_script R J now lk tok ms s))" "steps R J s (snd (release_script R J now lk tok s))"
  by (auto simp: renew_script_def release_script_def intro: r_into_rtranclp store_step.lease store_step.unlease)

lemma Campaign_try_run:
  assumes "Campaign_try R J n now e s = (r, e', s')" "ro_TermKey (el_options e) = CoordinatorLeaderTermRedisKey"
  shows "steps R J s s' \<and> el_options e' = el_options e"
proof -
  have "steps R J s (snd (acquire R J n now e s))"
    using rpc_writes [of R J "acquire_script R J now (ro_LeaseKey (el_options e)) CoordinatorLeaderTermRedisKey (el_token e) (ttl_ms e)" s n,
        OF acquire_writes] assms(2)
    by (auto simp: acquire_def split: prod.splits option.splits)
  then show ?thesis using assms(1) by (auto simp: Campaign_try_def split: prod.splits sum.splits if_splits)
qed

lemma release_writes: "steps R J s (snd (releaseToken R J n now e s))"
  using rpc_writes [of R J "release_script R J now (ro_LeaseKey (el_options e)) (el_token e)" s n, OF lease_writes(2)]
  by (auto simp: releaseToken_def split: prod.splits option.splits)

lemma renewLoop_tick_run:
  assumes "renewLoop_tick R J n now e s = (e', s')"
  shows "steps R J s s' \<and> el_options e' = el_options e"
proof -
  have "steps R J s (snd (snd (renew R J n now e s))) \<and> el_options (fst (snd (renew R J n now e s))) = el_options e"
    using rpc_writes [of R J "renew_script R J now (ro_LeaseKey (el_options e)) (el_token e) (ttl_ms e)" s n, OF lease_writes(1)]
    by (auto simp: renew_def split: prod.splits option.splits)
  then show ?thesis using assms by (auto simp: renewLoop_tick_def split: prod.splits option.splits if_splits)
qed

lemma elector_keeps_options [simp]:
  "el_options (snd (Campaign_begin d e)) = el_options e" "el_options (snd (Campaign_cancelled e)) = el_options e"
  "el_options (parent_cancelled e) = el_options e"
  by (simp_all add: Campaign_begin_def Campaign_cancelled_def parent_cancelled_def)

lemma elector_ok_cancelled [simp]: "elector_ok (ctx_cancelled e) = elector_ok e"
  by (cases e) simp_all

lemma elector_section: "elector_ok e \<Longrightarrow> self_run c (c\<lparr>co_elector := e\<rparr>)"
  by (intro r_into_rtranclp self_step.elect)

lemma set_elector_simps [simp]:
  "lp_coord (set_elector e p) = (lp_coord p)\<lparr>co_elector := e\<rparr>" "lp_pc (set_elector e p) = lp_pc p"
  "lp_rootDone (set_elector e p) = lp_rootDone p"
  by (simp_all add: set_elector_def)

lemma Close_run:
  assumes "Close R J n now c en = (r, c', en')" "elector_ok (co_elector c)"
  shows "self_run c c' \<and> steps R J (out_store en) (out_store en')"
proof (cases "co_closed c")
  case False
  have pool: "self_run c (closePool c)" by (intro r_into_rtranclp self_step.close)
  show ?thesis
  proof (cases "co_elector c")
    case (ERedis e)
    then have "c' = (closePool c)\<lparr>co_elector := ERedis (loseLeadership e)\<rparr>" "steps R J (out_store en) (out_store en')"
      using assms False release_writes by (auto simp: Close_def closePool_def Resign_def Let_def case_prod_beta)
    then show ?thesis using rtranclp_trans [OF pool elector_section] assms(2) ERedis by simp
  next
    case (EAlways e)
    then have "c' = (closePool c)\<lparr>co_elector := EAlways (Resign_always e)\<rparr>" "en' = en"
      using assms False by (auto simp: Close_def closePool_def)
    then show ?thesis using rtranclp_trans [OF pool elector_section] by simp
  qed
qed (use assms(1) in \<open>simp add: Close_def\<close>)

section \<open>Runs\<close>

lemma leaderLoop_campaign_self: "elector_ok (co_elector (lp_coord p)) \<Longrightarrow> self_run (lp_coord p) (lp_coord (leaderLoop_campaign p))"
  by (auto simp: leaderLoop_campaign_def case_prod_beta Let_def split: elector.split intro: elector_section)

lemma leaderLoop_try_run:
  assumes "elector_ok (co_elector (lp_coord p))" "leaderLoop_try R J n now p en = (p', en')"
  shows "self_run (lp_coord p) (lp_coord p') \<and> steps R J (out_store en) (out_store en')"
proof (cases "co_elector (lp_coord p)")
  case (ERedis e)
  obtain r e' s' where t: "Campaign_try R J n now e (out_store en) = (r, e', s')" by (metis prod.collapse)
  note q = Campaign_try_run [OF t]
  show ?thesis using assms q ERedis t by (auto simp: leaderLoop_try_def Let_def intro!: elector_section)
qed (use assms(2) in \<open>simp add: leaderLoop_try_def\<close>)

lemma worker_tick_run:
  assumes "orderly R J ev" "worker_tick R J fmt ev w p en = (p', en')"
  shows "self_run (lp_coord p) (lp_coord p') \<and> steps R J (out_store en) (out_store en')"
  using assms(2) discoverOnce_run [OF assms(1)] heartbeatOnce_run [OF assms(1)] restoreBoss_run [OF assms(1)]
  by (cases w) (auto simp: discoveryLoop_tick_def heartbeatLoop_tick_def bossLoop_tick_def Let_def split: prod.splits)

lemma leader_step_run:
  assumes "leader_step R J T E dial fmt (p, en) (p', en')" "coord_ok (lp_coord p)"
  shows "self_run (lp_coord p) (lp_coord p') \<and> steps R J (out_store en) (out_store en')"
proof -
  have ok: "elector_ok (co_elector (lp_coord p))" using assms(2) by (simp add: coord_ok_def)
  from assms(1) show ?thesis
  proof (cases rule: leader_step.cases)
    case (start c)
    then have "c = (lp_coord p)\<lparr>co_started := True\<rparr>" by (auto simp: Start_coordinator_def split: if_splits)
    then show ?thesis using start self_step.start [of "lp_coord p"] by auto
  next
    case (elected ev)
    then show ?thesis using currentLeaderTerm_self [OF elected(4)]
      by (auto simp: leaderLoop_elected_def Let_def split: prod.splits)
  next
    case (lead ev)
    then show ?thesis using ensureBoss_run [OF lead(3)] by (auto simp: runLeader_start_def Let_def split: prod.splits)
  next
    case (dialled info ev)
    then show ?thesis using connect_run [OF dialled(3)] by (auto simp: dial_goroutine_def Let_def split: prod.splits)
  next
    case (attempt n now)
    then show ?thesis using leaderLoop_try_run [OF ok, of R J n now en p' en'] by simp
  next
    case (tick ws w ev)
    then show ?thesis using worker_tick_run [OF tick(4), of fmt w p en p' en'] by simp
  next
    case (release e n now e' s)
    then show ?thesis using ok release_writes by (auto simp: renewLoop_done_def intro!: elector_section)
  next
    case (renew e n now e' s)
    then show ?thesis using ok renewLoop_tick_run [OF renew(5)] by (auto intro!: elector_section)
  next
    case (cancelled)
    then show ?thesis using ok by (auto simp: leaderLoop_cancelled_def intro!: elector_section split: elector.split)
  next
    case (failover a ev ms c)
    then show ?thesis using failoverNode_begin_run [OF failover(3,4)] by simp
  next
    case (move a m ms ev r c)
    then show ?thesis using failoverMap_self [OF move(3,4)] failoverMap_run [OF move(4) orderlyD(5) [OF move(3)]] by simp
  next
    case (close n now r c)
    then show ?thesis using Close_run [OF close(2) ok] by simp
  qed (use ok leaderLoop_campaign_self elector_section in
      \<open>auto simp: leaderLoop_head_def leaderLoop_failed_def waitForContext_def root_cancelled_def\<close>)
qed

lemma leader_run:
  assumes "(leader_step R J T E dial fmt)\<^sup>*\<^sup>* (p, en) (p', en')" "coord_ok (lp_coord p)"
  shows "self_run (lp_coord p) (lp_coord p') \<and> coord_ok (lp_coord p') \<and> steps R J (out_store en) (out_store en')"
  using assms(1)
proof (induction rule: rtranclp_induct2)
  case (step q x q' x')
  then have q: "coord_ok (lp_coord q)" "self_run (lp_coord p) (lp_coord q)" "steps R J (out_store en) (out_store x)" by blast+
  note r = leader_step_run [OF step.hyps(2) q(1)]
  show ?case using r q self_run_ok [of "lp_coord q" "lp_coord q'"] by auto
qed (use assms(2) in simp)

lemma new_coordinator_ok:
  assumes "NewWithRuntimeConfig redis env host raw rt = Inr c"
  shows "coord_ok c"
proof -
  obtain e where e: "productionElector redis env host raw (rc_LeaderElection rt) = Inr e" "co_elector c = e"
    and c: "co_nodes c = []" "co_connectingNodes c = []"
    using assms by (auto simp: NewWithRuntimeConfig_def newCoordinatorWithRuntimeConfig_def split: option.splits sum.splits)
  have "ro_TermKey o2 = CoordinatorLeaderTermRedisKey" if "normalized o1 = Inr o2" "ro_TermKey o1 = []" for o1 o2
    using that by (auto simp: normalized_def DefaultTermKey_def Let_def split: if_splits)
  then have "elector_ok e"
    using e(1) by (force simp: productionElector_def NewRedis_def Let_def split: if_splits option.splits sum.splits)
  then show ?thesis using e(2) c by (simp add: coord_ok_def)
qed

context redis_server
begin

lemma steps_version:
  assumes "steps R J s s'" "store_inv R J s" "stored_topology R J s = Some t"
  shows "\<exists>t'. stored_topology R J s' = Some t' \<and> tp_Version t \<le> tp_Version t' \<and> (tp_Version t' = tp_Version t \<longrightarrow> t' = t)"
proof -
  have "version_token R J s () = Some (t, unat (tp_Version t))" using assms(3) by (simp add: version_token_def)
  from version_clock.steps_token [OF assms(1,2) this] show ?thesis by (auto simp: version_token_def word_le_nat_alt)
qed

end

section \<open>Properties\<close>

text \<open>C8: a coordinator process may be started, lead, lose the lease, lead again and be closed at any moment, its
  loops, failovers, dials and renewals may interleave in any way with each other and with any writes of other
  processes: the invariant of the store holds at every moment; between any two moments the version of the stored
  topology does not go back, and an equal version is the same topology; two nodes that pass the fence of a map
  under the same epoch at two moments are the same node. The pool holds at most one connection per node, under
  the id of that node, and none for a node that is still being dialled; once the coordinator has been closed the
  pool stays empty, whatever goroutines are still under way.\<close>

theorem coordinator_run_safe:
  assumes R: "redis_server R J" and inv: "store_inv R J (out_store en)"
    and new: "NewWithRuntimeConfig redis env host raw rt = Inr c"
    and run: "(leader_step R J T E dial fmt)\<^sup>*\<^sup>* (new_process c, en) (p1, en1)"
    and later: "(leader_step R J T E dial fmt)\<^sup>*\<^sup>* (p1, en1) (p2, en2)"
  shows "store_inv R J (out_store en2) \<and>
    (\<forall>t. stored_topology R J (out_store en1) = Some t \<longrightarrow>
       (\<exists>t'. stored_topology R J (out_store en2) = Some t' \<and> tp_Version t \<le> tp_Version t' \<and> (tp_Version t' = tp_Version t \<longrightarrow> t' = t))) \<and>
    (\<forall>m a b e. RequireMapFence R J Delivered m a e (out_store en1) = None \<and> RequireMapFence R J Delivered m b e (out_store en2) = None
       \<longrightarrow> a = b) \<and>
    distinct (keys (co_nodes (lp_coord p2))) \<and>
    (\<forall>i x. map_of (co_nodes (lp_coord p2)) i = Some x \<longrightarrow> gc_id (cn_client x) = i \<and> i \<notin> set (co_connectingNodes (lp_coord p2))) \<and>
    (co_closed (lp_coord p1) \<longrightarrow> co_nodes (lp_coord p2) = [] \<and> co_connectingNodes (lp_coord p2) = [])"
proof -
  note r1 = leader_run [OF run, unfolded new_process_def, simplified, OF new_coordinator_ok [OF new]]
  note r2 = leader_run [OF later r1 [THEN conjunct2, THEN conjunct1]]
  have i1: "store_inv R J (out_store en1)" using redis_server.steps_inv [OF R] r1 inv by blast
  have ok: "coord_ok (lp_coord p2)" "co_closed (lp_coord p1) \<longrightarrow> co_closed (lp_coord p2)"
    using r2 self_run_ok [of "lp_coord p1" "lp_coord p2"] r1 by blast+
  have "gc_id (cn_client x) = i \<and> i \<notin> set (co_connectingNodes (lp_coord p2))" if "map_of (co_nodes (lp_coord p2)) i = Some x" for i x
    using map_of_SomeD [OF that] ok(1) by (fastforce simp: coord_ok_def list_all_iff)
  then show ?thesis
    using redis_server.steps_inv [OF R _ i1] redis_server.steps_version [OF R _ i1] redis_server.same_epoch_same_owner [OF R i1] r2 ok
    by (auto simp: coord_ok_def)
qed

end
