(* ===== verification/Leader_Boot.thy ===== *)
theory Leader_Boot
  imports Leader_Props
begin

text \<open>
  A fresh cluster: a leader and registered nodes, but no topology. The first discovery round starts to dial the
  nodes, the dials fill the pool, the second round builds the first topology from the connected nodes and
  commits it.
\<close>

section \<open>Discovery and dials\<close>

lemma quiet_orderly: "orderly R J (quiet_cio now)"
  by (simp add: orderly_def steady_def)

lemma discover_fresh:
  assumes "distinct (map nr_ID rs)" "\<forall>r \<in> set rs. \<not> nr_Draining r \<and> \<not> has_key (co_nodes c) (nr_ID r) \<and> nr_ID r \<notin> set (co_connectingNodes c)"
  shows "discover_pending rs c = (rs, c\<lparr>co_connectingNodes := rev (map nr_ID rs) @ co_connectingNodes c\<rparr>)"
  using assms
proof (induction rs arbitrary: c)
  case (Cons r rs)
  have "discover_pending rs (c\<lparr>co_connectingNodes := nr_ID r # co_connectingNodes c\<rparr>) =
      (rs, c\<lparr>co_connectingNodes := rev (map nr_ID rs) @ nr_ID r # co_connectingNodes c\<rparr>)"
    using Cons.prems by (subst Cons.IH) (auto simp: image_iff)
  then show ?case using Cons.prems by simp
qed simp

lemma discover_connected:
  "\<forall>r \<in> set rs. has_key (co_nodes c) (nr_ID r) \<Longrightarrow> discover_pending rs c = ([], c)"
  by (induction rs) auto

definition connection :: "NodeRegistryInfo \<Rightarrow> nodeConnection" where
  "connection r = \<lparr>cn_client = \<lparr>gc_id = nr_ID r, gc_addr = nr_Addr r\<rparr>, cn_healthy = True\<rparr>"

definition pool_of :: "NodeRegistryInfo list \<Rightarrow> (string, nodeConnection) alist" where
  "pool_of rs = map (\<lambda>r. (nr_ID r, connection r)) rs"

lemma map_of_pool: "distinct (map nr_ID rs) \<Longrightarrow> r \<in> set rs \<Longrightarrow> map_of (pool_of rs) (nr_ID r) = Some (connection r)"
  by (intro map_of_is_SomeI) (auto simp: pool_of_def comp_def)

lemma update_absent: "\<not> has_key al k \<Longrightarrow> AList.update k v al = al @ [(k, v)]"
  by (induction al) (auto simp: has_key_def split: if_splits)

lemma update_present: "map_of al k = Some v \<Longrightarrow> AList.update k v al = al"
  by (induction al) (auto split: if_splits)

lemma quiet_ping:
  assumes "map_of (out_nodes en) (gc_addr cl) = Some n"
  shows "call_node (Ping_client now Delivered) cl en = Some (Inr (), en)"
  using assms by (simp add: call_node_def Ping_client_def rpc_call_def Ping_server_def update_present)

lemma quiet_connect:
  assumes "dial (nr_ID r) (nr_Addr r)" "map_of (out_nodes en) (nr_Addr r) \<noteq> None" "\<not> co_closed c" "\<not> has_key (co_nodes c) (nr_ID r)"
  shows "connectDiscoveredNode dial (quiet_cio now) r c en =
    (c\<lparr>co_connectingNodes := removeAll (nr_ID r) (co_connectingNodes c), co_nodes := co_nodes c @ [(nr_ID r, connection r)]\<rparr>, en)"
proof -
  obtain n where "map_of (out_nodes en) (nr_Addr r) = Some n" using assms(2) by blast
  then have "call_node (Ping_client now Delivered) \<lparr>gc_id = nr_ID r, gc_addr = nr_Addr r\<rparr> en = Some (Inr (), en)"
    by (intro quiet_ping) simp
  with assms(1,3,4) show ?thesis
    by (simp add: connectDiscoveredNode_def finishNodeConnection_def update_absent connection_def)
qed

lemma dials_run:
  assumes "distinct (map nr_ID rs)" "\<forall>r \<in> set rs. dial (nr_ID r) (nr_Addr r) \<and> map_of (out_nodes en) (nr_Addr r) \<noteq> None"
    and "\<not> co_closed (lp_coord p)" "\<forall>r \<in> set rs. \<not> has_key (co_nodes (lp_coord p)) (nr_ID r)" "lp_dials p = rs"
  shows "\<exists>ids. (leader_step R J T E dial fmt)\<^sup>*\<^sup>* (p, en)
    (p\<lparr>lp_coord := (lp_coord p)\<lparr>co_connectingNodes := ids, co_nodes := co_nodes (lp_coord p) @ pool_of rs\<rparr>, lp_dials := []\<rparr>, en)"
  using assms
proof (induction rs arbitrary: p)
  case Nil
  then have "p\<lparr>lp_coord := (lp_coord p)\<lparr>co_connectingNodes := co_connectingNodes (lp_coord p), co_nodes := co_nodes (lp_coord p) @ pool_of []\<rparr>,
      lp_dials := []\<rparr> = p" by (simp add: pool_of_def)
  then show ?case by (metis rtranclp.rtrancl_refl)
next
  case (Cons r rs)
  let ?c = "(lp_coord p)\<lparr>co_connectingNodes := removeAll (nr_ID r) (co_connectingNodes (lp_coord p)),
      co_nodes := co_nodes (lp_coord p) @ [(nr_ID r, connection r)]\<rparr>"
  let ?p = "p\<lparr>lp_coord := ?c, lp_dials := rs\<rparr>"
  have "dial_goroutine dial (quiet_cio 0) r p en = (?p, en)"
    using Cons.prems quiet_connect [of dial r en "lp_coord p" 0] by (simp add: dial_goroutine_def)
  moreover have "leader_step R J T E dial fmt (p, en) (dial_goroutine dial (quiet_cio 0) r p en)"
    by (rule leader_step.dialled [OF _ quiet_orderly]) (simp add: Cons.prems)
  ultimately have first: "leader_step R J T E dial fmt (p, en) (?p, en)" by simp
  have "\<forall>x \<in> set rs. \<not> has_key (co_nodes ?c) (nr_ID x)"
  proof
    fix x
    assume x: "x \<in> set rs"
    then have "nr_ID x \<noteq> nr_ID r" using Cons.prems(1) by (metis distinct.simps(2) image_eqI list.set_map list.simps(9))
    then show "\<not> has_key (co_nodes ?c) (nr_ID x)" using Cons.prems(4) x by (simp add: has_key_iff)
  qed
  then obtain ids where rest: "(leader_step R J T E dial fmt)\<^sup>*\<^sup>* (?p, en)
      (?p\<lparr>lp_coord := ?c\<lparr>co_connectingNodes := ids, co_nodes := co_nodes ?c @ pool_of rs\<rparr>, lp_dials := []\<rparr>, en)"
    using Cons.IH [of ?p] Cons.prems by auto
  have "?p\<lparr>lp_coord := ?c\<lparr>co_connectingNodes := ids, co_nodes := co_nodes ?c @ pool_of rs\<rparr>, lp_dials := []\<rparr> =
      p\<lparr>lp_coord := (lp_coord p)\<lparr>co_connectingNodes := ids, co_nodes := co_nodes (lp_coord p) @ pool_of (r # rs)\<rparr>, lp_dials := []\<rparr>"
    by (simp add: pool_of_def)
  with converse_rtranclp_into_rtranclp [OF first rest] show ?case by metis
qed

section \<open>The first commit\<close>

context redis_server
begin

lemma first_commit:
  assumes "GET R TopologyRedisKey s = None" "Validate None t = None" "tp_Version t = 1" "tp_LeaderTerm t = lt" "lt \<noteq> 0"
    and "durable_term R J s = int (unat lt)"
  shows "\<exists>s1. CompareAndSaveTopologyForLeader R J Delivered 0 t lt s = (None, s1) \<and> compareAndSaveTopology R J Delivered 0 t None lt s = (None, s1)"
proof -
  have "uint lt \<noteq> 0" using assms(5) by (simp add: uint_0_iff)
  then show ?thesis using assms
    by (simp add: CompareAndSaveTopologyForLeader_def compareAndSaveTopology_def prepareTopology_Inr [THEN iffD2] rpc_def
        compareAndSetTopology_script_def dec_enc_topology durable_term_def migrate_then_commit_def commit_script_def Let_def cas_result_def)
qed

end

lemma Validate_term: "Validate k (t\<lparr>tp_LeaderTerm := lt\<rparr>) = Validate k t"
proof -
  have "validate_map k (t\<lparr>tp_LeaderTerm := lt\<rparr>) = validate_map k t" by (simp add: fun_eq_iff validate_map_def)
  then show ?thesis by (simp add: Validate_def map_ids_of_def)
qed

lemma absent_topology: "GET R TopologyRedisKey s = None \<Longrightarrow> LoadTopology R J Delivered s = Inr None"
  by (simp add: LoadTopology_def rpc_def)

lemma quiet_bootstrap:
  assumes R: "redis_server R J"
    and leader: "elector_IsLeader (co_elector c)" "elector_Term (co_elector c) = lt" "lt \<noteq> 0" "durable_term R J s = int (unat lt)"
    and fresh: "GET R TopologyRedisKey s = None"
    and built: "BuildInitialTopology (knownMapIDs c) rs now = Inr (Some t)" "Validate None (t\<lparr>tp_LeaderTerm := lt\<rparr>) = None" "tp_Version t = 1"
  shows "\<exists>s'. bootstrapTopologyIfAbsent R J (quiet_cio now) rs c \<lparr>out_store = s, out_nodes = ns\<rparr> = (None, c, \<lparr>out_store = s', out_nodes = ns\<rparr>) \<and>
    stored_topology R J s' = Some (t\<lparr>tp_LeaderTerm := lt\<rparr>) \<and>
    (\<forall>m a. map_of (tp_Owners t) m = Some a \<longrightarrow> fence_token R J s' m = Some (a, unat (get_or 0 (tp_MapEpochs t) m)))"
proof -
  let ?t = "t\<lparr>tp_LeaderTerm := lt\<rparr>"
  obtain s1 where cas: "CompareAndSaveTopologyForLeader R J Delivered 0 ?t lt s = (None, s1)"
    "compareAndSaveTopology R J Delivered 0 ?t None lt s = (None, s1)"
    using redis_server.first_commit [OF R fresh built(2) _ _ leader(3,4)] built(3) by auto
  obtain s' where pub: "PublishTopologyChanged R Delivered 1 s1 = (None, s')"
    by (simp add: PublishTopologyChanged_def rpc_def)
  note keeps = redis_server.publish_stored [OF R, of Delivered 1 s1, unfolded pub snd_conv]
  show ?thesis
    using cas(1) pub built(1,3) absent_topology [OF fresh] commit_facts [OF R cas(2)]
    by (simp add: bootstrapTopologyIfAbsent_def quiet_leader [OF leader(1-3)] keeps Let_def)
qed

section \<open>Two rounds\<close>

lemma first_round:
  assumes leader: "elector_IsLeader (co_elector c)" "elector_Term (co_elector c) = lt" "lt \<noteq> 0"
    and fresh: "GET R TopologyRedisKey (out_store en) = None" "co_nodes c = []" "co_connectingNodes c = []" "\<not> co_closed c" "knownMapIDs c \<noteq> []"
    and rs: "GetActiveNodes R J Delivered (\<lambda>_. False) now (out_store en) = (rs, None)" "distinct (map nr_ID rs)" "\<forall>r \<in> set rs. \<not> nr_Draining r"
  shows "discoverOnce R J (quiet_cio now) c en = ((rs, [], None), c\<lparr>co_connectingNodes := rev (map nr_ID rs)\<rparr>, en)"
proof -
  let ?c = "c\<lparr>co_connectingNodes := rev (map nr_ID rs)\<rparr>"
  have d: "discoverNodes rs c = (rs, ?c)"
    using discover_fresh [of rs c] fresh(2-4) rs(2,3) by (simp add: discoverNodes_def has_key_def)
  have l: "currentLeaderTerm (quiet_cio now) k ?c = ((lt, True), ?c)" for k by (rule quiet_leader) (use leader in simp_all)
  have ne: "knownMapIDs ?c \<noteq> []" using fresh(5) by (simp add: knownMapIDs_def)
  have b: "BuildInitialTopology (knownMapIDs ?c) [] now = Inr None"
    by (rule build_waits [OF ne _ _ hd_in_set [OF ne]]) (simp_all add: candidates_of_def minimumMapCandidates_def)
  have none: "connectedNodeRegistrations rs ?c = []" by (simp add: connectedNodeRegistrations_def healthyNode_def fresh(2))
  show ?thesis
    using rs(1) d b none absent_topology [OF fresh(1)]
    by (simp add: discoverOnce_def quiet_leader [OF leader] l reconcileDrainingNodes_def bootstrapTopologyIfAbsent_def Let_def)
qed

lemma second_round:
  assumes R: "redis_server R J"
    and leader: "elector_IsLeader (co_elector c)" "elector_Term (co_elector c) = lt" "lt \<noteq> 0" "durable_term R J s = int (unat lt)"
    and fresh: "GET R TopologyRedisKey s = None" and pool: "co_nodes c = pool_of rs"
    and rs: "GetActiveNodes R J Delivered (\<lambda>_. False) now s = (rs, None)" "distinct (map nr_ID rs)" "\<forall>r \<in> set rs. \<not> nr_Draining r"
    and built: "BuildInitialTopology (knownMapIDs c) rs now = Inr (Some t)" "Validate None (t\<lparr>tp_LeaderTerm := lt\<rparr>) = None" "tp_Version t = 1"
  shows "\<exists>s'. discoverOnce R J (quiet_cio now) c \<lparr>out_store = s, out_nodes = ns\<rparr> = (([], [], None), c, \<lparr>out_store = s', out_nodes = ns\<rparr>) \<and>
    stored_topology R J s' = Some (t\<lparr>tp_LeaderTerm := lt\<rparr>) \<and>
    (\<forall>m a. map_of (tp_Owners t) m = Some a \<longrightarrow> fence_token R J s' m = Some (a, unat (get_or 0 (tp_MapEpochs t) m)))"
proof -
  have in_pool: "map_of (co_nodes c) (nr_ID r) = Some (connection r)" if "r \<in> set rs" for r
    unfolding pool by (rule map_of_pool [OF rs(2) that])
  have d: "discoverNodes rs c = ([], c)" using discover_connected [of rs c] in_pool by (simp add: discoverNodes_def has_key_def)
  have all: "connectedNodeRegistrations rs c = rs"
    unfolding connectedNodeRegistrations_def by (rule filter_True) (use rs(3) in_pool in \<open>simp add: healthyNode_def connection_def\<close>)
  obtain s' where b: "bootstrapTopologyIfAbsent R J (quiet_cio now) rs c \<lparr>out_store = s, out_nodes = ns\<rparr> = (None, c, \<lparr>out_store = s', out_nodes = ns\<rparr>)"
    "stored_topology R J s' = Some (t\<lparr>tp_LeaderTerm := lt\<rparr>)"
    "\<forall>m a. map_of (tp_Owners t) m = Some a \<longrightarrow> fence_token R J s' m = Some (a, unat (get_or 0 (tp_MapEpochs t) m))"
    using quiet_bootstrap [OF R leader fresh built] by blast
  have "discoverOnce R J (quiet_cio now) c \<lparr>out_store = s, out_nodes = ns\<rparr> = (([], [], None), c, \<lparr>out_store = s', out_nodes = ns\<rparr>)"
    using rs(1) d all b(1) absent_topology [OF fresh]
    by (simp add: discoverOnce_def quiet_leader [OF leader(1-3)] reconcileDrainingNodes_def)
  with b(2,3) show ?thesis by blast
qed

lemma boot_run:
  assumes R: "redis_server R J"
    and leader: "elector_IsLeader (co_elector c)" "elector_Term (co_elector c) = lt" "lt \<noteq> 0" "durable_term R J s = int (unat lt)"
    and fresh: "GET R TopologyRedisKey s = None" "co_nodes c = []" "co_connectingNodes c = []" "\<not> co_closed c" "knownMapIDs c \<noteq> []"
    and rs: "GetActiveNodes R J Delivered (\<lambda>_. False) now s = (rs, None)" "distinct (map nr_ID rs)" "\<forall>r \<in> set rs. \<not> nr_Draining r"
      "\<forall>r \<in> set rs. dial (nr_ID r) (nr_Addr r) \<and> map_of ns (nr_Addr r) \<noteq> None"
    and p: "lp_coord p = c" "lp_pc p = Leading ws" "DiscoveryLoop \<in> set ws" "lp_dials p = []"
    and built: "BuildInitialTopology (knownMapIDs c) rs now = Inr (Some t)" "Validate None (t\<lparr>tp_LeaderTerm := lt\<rparr>) = None" "tp_Version t = 1"
  shows "\<exists>p' s'. (leader_step R J T E dial fmt)\<^sup>*\<^sup>* (p, \<lparr>out_store = s, out_nodes = ns\<rparr>) (p', \<lparr>out_store = s', out_nodes = ns\<rparr>) \<and>
    co_nodes (lp_coord p') = pool_of rs \<and> stored_topology R J s' = Some (t\<lparr>tp_LeaderTerm := lt\<rparr>) \<and>
    (\<forall>m a. map_of (tp_Owners t) m = Some a \<longrightarrow> fence_token R J s' m = Some (a, unat (get_or 0 (tp_MapEpochs t) m)))"
proof -
  let ?en = "\<lparr>out_store = s, out_nodes = ns\<rparr>" and ?step = "leader_step R J T E dial fmt"
  let ?p1 = "p\<lparr>lp_coord := c\<lparr>co_connectingNodes := rev (map nr_ID rs)\<rparr>, lp_dials := rs\<rparr>"
  have round: "?step (q, x) (discoveryLoop_tick R J (quiet_cio now) q x)" if "lp_pc q = Leading ws" for q x
    using leader_step.tick [OF that p(3) quiet_orderly [of R J now], of T E dial fmt x] by simp
  have "discoveryLoop_tick R J (quiet_cio now) p ?en = (?p1, ?en)"
    using first_round [OF leader(1-3), of R ?en J now rs] fresh rs p(1,4) by (simp add: discoveryLoop_tick_def)
  then have 1: "?step (p, ?en) (?p1, ?en)" using round [OF p(2), of ?en] by simp
  obtain ids where 2: "?step\<^sup>*\<^sup>* (?p1, ?en)
      (?p1\<lparr>lp_coord := (lp_coord ?p1)\<lparr>co_connectingNodes := ids, co_nodes := co_nodes (lp_coord ?p1) @ pool_of rs\<rparr>, lp_dials := []\<rparr>, ?en)"
    using dials_run [where p = ?p1 and rs = rs and en = ?en and dial = dial and R = R and J = J and T = T and E = E and fmt = fmt] rs fresh
    by (auto simp: has_key_def)
  let ?c2 = "c\<lparr>co_connectingNodes := ids, co_nodes := pool_of rs\<rparr>" and ?p2 = "p\<lparr>lp_coord := c\<lparr>co_connectingNodes := ids, co_nodes := pool_of rs\<rparr>, lp_dials := []\<rparr>"
  have 12: "?step\<^sup>*\<^sup>* (p, ?en) (?p2, ?en)" using converse_rtranclp_into_rtranclp [OF 1 2] fresh(2) by simp
  obtain s' where s': "discoverOnce R J (quiet_cio now) ?c2 ?en = (([], [], None), ?c2, \<lparr>out_store = s', out_nodes = ns\<rparr>)"
    "stored_topology R J s' = Some (t\<lparr>tp_LeaderTerm := lt\<rparr>)"
    "\<forall>m a. map_of (tp_Owners t) m = Some a \<longrightarrow> fence_token R J s' m = Some (a, unat (get_or 0 (tp_MapEpochs t) m))"
    using second_round [OF R, of ?c2 lt s rs now t ns] leader fresh(1) rs built by (auto simp: knownMapIDs_def)
  have "discoveryLoop_tick R J (quiet_cio now) ?p2 ?en = (?p2, \<lparr>out_store = s', out_nodes = ns\<rparr>)"
    using s'(1) by (simp add: discoveryLoop_tick_def)
  then have "?step\<^sup>*\<^sup>* (p, ?en) (?p2, \<lparr>out_store = s', out_nodes = ns\<rparr>)"
    using rtranclp.rtrancl_into_rtrancl [OF 12 round [of ?p2 ?en]] p(2) by simp
  with s'(2,3) show ?thesis by (intro exI [of _ ?p2] exI [of _ s']) simp
qed


section \<open>A cluster that boots\<close>

definition young_registry :: "NodeRegistryInfo list" where
  "young_registry = [\<lparr>nr_ID = ''n2'', nr_Addr = ''h2:1'', nr_MapID = ''green'', nr_Draining = False\<rparr>,
                     \<lparr>nr_ID = ''n1'', nr_Addr = ''h1:1'', nr_MapID = ''green'', nr_Draining = False\<rparr>]"

definition young_store :: mem where
  "young_store = mem_empty\<lparr>m_keys := [(CoordinatorLeaderTermRedisKey, DInt 1)],
     m_timed := map (\<lambda>r. (registry_prefix @ nr_ID r, (DNode r, 100))) young_registry\<rparr>"

definition young_leader :: leader_process where
  "young_leader = (new_process (lead\<lparr>co_nodes := []\<rparr>))\<lparr>lp_pc := Leading [DiscoveryLoop, HeartbeatLoop, BossLoop]\<rparr>"

abbreviation "young_nodes \<equiv> [(''h1:1'', standby_node), (''h2:1'', standby_node)]"


definition alone :: Coordinator where
  "alone = \<lparr>co_elector = EAlways NewAlwaysLeader, co_configs = fold (\<lambda>cfg. AList.update (cfg_ID cfg) cfg) AvailableMaps [],
            co_nodes = [], co_connectingNodes = [], co_failureGenerations = [], co_failoverInFlight = [],
            co_started = False, co_closed = False, co_runtime = rc_Coordinator DefaultRuntime\<rparr>"

text \<open>A coordinator that is started and then closed before its loop has got to the first campaign.\<close>

theorem coordinator_run_safe_witness:
  "co_nodes (lp_coord (root_cancelled ((new_process alone)\<lparr>lp_coord := closePool alone\<lparr>co_started := True, co_elector := EAlways (Resign_always NewAlwaysLeader)\<rparr>,
     lp_pc := CallCampaign\<rparr>))) = [] \<and> store_inv mr mem_json mem_empty"
proof -
  let ?step = "leader_step mr mem_json std_stamps (\<lambda>_. fair_process) (\<lambda>_ _. True) (\<lambda>x. x)"
  let ?en = "\<lparr>out_store = mem_empty, out_nodes = []\<rparr>" and ?p0 = "new_process alone"
  let ?p1 = "?p0\<lparr>lp_coord := alone\<lparr>co_started := True\<rparr>, lp_pc := LoopHead\<rparr>"
  let ?p2 = "?p1\<lparr>lp_pc := CallCampaign\<rparr>"
  let ?p3 = "?p0\<lparr>lp_coord := closePool alone\<lparr>co_started := True, co_elector := EAlways (Resign_always NewAlwaysLeader)\<rparr>, lp_pc := CallCampaign\<rparr>"
  have new: "NewWithRuntimeConfig False [] None None DefaultRuntime = Inr alone"
    by (simp add: DefaultRuntime_valid NewWithRuntimeConfig_def productionElector_def newCoordinatorWithRuntimeConfig_def alone_def)
  have "?step (?p0, ?en) (?p1, ?en)"
    by (rule leader_step.start) (simp_all add: new_process_def alone_def Start_coordinator_def)
  moreover have "?step (?p1, ?en) (?p2, ?en)"
    using leader_step.head [of ?p1] by (simp add: leaderLoop_head_def new_process_def)
  moreover have "?step (?p2, ?en) (?p3, ?en)"
  proof -
    have "Close mr mem_json Delivered 6 (lp_coord ?p2) ?en = ((None, []), lp_coord ?p3, ?en)"
      by (simp add: Close_def closePool_def alone_def new_process_def)
    from leader_step.close [OF this] show ?thesis by (simp add: new_process_def)
  qed
  ultimately have run: "?step\<^sup>*\<^sup>* (?p0, ?en) (?p3, ?en)" by (meson converse_rtranclp_into_rtranclp rtranclp.rtrancl_refl)
  have later: "?step\<^sup>*\<^sup>* (?p3, ?en) (root_cancelled ?p3, ?en)"
    by (intro r_into_rtranclp leader_step.root) (simp add: closePool_def)
  have "store_inv mr mem_json mem_empty" by (rule inv_empty)
  with coordinator_run_safe [OF mem.redis_server_axioms _ new run later] show ?thesis by (simp add: closePool_def)
qed

end
