(* ===== verification/Node_Process.thy ===== *)
theory Node_Process
  imports Node_Writes
begin

text \<open>
  A node process (\<open>cmd/node/main.go\<close> with the loops of \<open>node/node.go\<close>): how it starts, and then its goroutines as a
  step relation: the refresh of the topology, the tick of the worlds, the flush of the hot sessions, the
  registration, the calls it serves, drains by signal and by request, and how it ends.

  \<^item> A tick holds the read side of \<open>drainMu\<close> between its two halves: \<open>np_tick\<close> is what the first one has left for
    the second, and no drain starts in between.
  \<^item> A drain that has saved its checkpoints and waits for the handover is an entry of \<open>np_drains\<close>.
  \<^item> \<open>GracefulStop\<close> lets the calls end that have begun: calls are served until the process has exited.
  \<^item> \<open>sigCh\<close> has room for one signal; while it is registered the default action of the signals is off.
  \<^item> \<open>log.Fatalf\<close> ends the process; which call failed is the error of \<open>node_main\<close>. Flags are parsed by Go's library.
\<close>

section \<open>Start\<close>

record node_flags =
  fl_id :: string
  fl_addr :: string
  fl_map :: string
  fl_lifecycleAddr :: string
  fl_drainTimeout :: int

definition default_flags :: node_flags where
  "default_flags = \<lparr>fl_id = ''node-a'', fl_addr = ''127.0.0.1:9311'', fl_map = [], fl_lifecycleAddr = [], fl_drainTimeout = 0\<rparr>"

definition isKnownMap :: "string \<Rightarrow> bool" where
  "isKnownMap mapID \<longleftrightarrow> list_ex (\<lambda>config. cfg_ID config = mapID) AvailableMaps"

datatype node_fatal = FatalRuntime config_error | FatalMap string | FatalListen

datatype drain_caller = BySignal | ByRequest

datatype drain_signal = SigWaiting | SigDraining | SigOver

record node_process =
  np_node :: NodeService
  np_drainTimeout :: int
  np_lifecycle :: bool
  np_registry :: NodeRegistryConfig
  np_tick :: "(string \<times> u64 \<times> event list) option"
  np_lastFlush :: time
  np_drains :: "drain_caller list"
  np_signal :: drain_signal
  np_buffered :: bool
  np_serving :: bool
  np_exited :: bool

text \<open>\<open>store\<close> says whether the store could be opened: without it the node starts all the same.\<close>

definition node_main ::
    "node_flags \<Rightarrow> config_error + RuntimeConfig \<Rightarrow> bool \<Rightarrow> bool \<Rightarrow> time \<Rightarrow> node_fatal + node_process" where
  "node_main flags loaded store listen now =
     (case loaded of
        Inl e \<Rightarrow> Inl (FatalRuntime e)
      | Inr runtime \<Rightarrow>
          let drainTimeout = (if fl_drainTimeout flags = 0 then nc_DrainTimeout (rc_Node runtime) else fl_drainTimeout flags);
              declaredMap = TrimSpace (fl_map flags)
          in if \<not> isKnownMap declaredMap then Inl (FatalMap declaredMap)
             else let ns = NewNodeService now (fl_id flags) (fl_addr flags) store (rc_Node runtime) declaredMap;
                      (_, ns) = Start now ns
                  in if \<not> listen then Inl FatalListen
                     else Inr \<lparr>np_node = ns, np_drainTimeout = drainTimeout, np_lifecycle = (fl_lifecycleAddr flags \<noteq> []),
                               np_registry = rc_NodeRegistry runtime, np_tick = None, np_lastFlush = now, np_drains = [],
                               np_signal = SigWaiting, np_buffered = False, np_serving = True, np_exited = False\<rparr>)"

section \<open>Goroutines\<close>

text \<open>One beat of the registration.\<close>

definition registration :: "node_process \<Rightarrow> NodeRegistryInfo" where
  "registration p =
     \<lparr>nr_ID = ns_ID (np_node p), nr_Addr = ns_Addr (np_node p), nr_MapID = ns_candidateMapID (np_node p), nr_Draining = ns_draining (np_node p)\<rparr>"

definition register_beat :: "('s, 'd) redis \<Rightarrow> 'd json \<Rightarrow> net \<Rightarrow> time \<Rightarrow> node_process \<Rightarrow> 's \<Rightarrow> store_error option \<times> 's" where
  "register_beat R J net now p s =
     (if ns_store (np_node p) then RegisterNode R J net now (registration p) (ng_LeaseTTL (np_registry p)) s else (None, s))"

text \<open>A drain has an answer.\<close>

definition drain_over :: "drain_caller \<Rightarrow> bool \<Rightarrow> node_process \<Rightarrow> node_process" where
  "drain_over caller ok p =
     (let p = p\<lparr>np_drains := remove1 caller (np_drains p)\<rparr>
      in case caller of
           ByRequest \<Rightarrow> p
         | BySignal \<Rightarrow> if ok then p\<lparr>np_signal := SigOver, np_serving := False\<rparr> else p\<lparr>np_signal := SigOver\<rparr>)"

text \<open>The first half of a drain, up to the wait.\<close>

definition drain_enter ::
    "('s, 'd) redis \<Rightarrow> 'd json \<Rightarrow> process \<Rightarrow> 's io \<Rightarrow> drain_caller \<Rightarrow> node_process \<Rightarrow> 's \<Rightarrow> node_process \<times> 's" where
  "drain_enter R J E ev caller p s =
     (let (err, n, s) = drain_start R J E ev (np_node p) s;
          p = p\<lparr>np_node := n, np_drains := np_drains p @ [caller]\<rparr>
      in (case err of Some _ \<Rightarrow> drain_over caller False p | None \<Rightarrow> p, s))"

text \<open>One poll of a waiting drain; \<open>ctx\<close> says that its time is over.\<close>

definition drain_poll :: "time \<Rightarrow> bool \<Rightarrow> drain_caller \<Rightarrow> node_process \<Rightarrow> node_process" where
  "drain_poll now ctx caller p =
     (case OwnedMapIDs now (ns_authority (np_node p)) of
        None \<Rightarrow> drain_over caller False p
      | Some ownedMapIDs \<Rightarrow>
          if ownedMapIDs = [] then drain_over caller True p
          else if ctx then drain_over caller False p
          else p)"

inductive node_step ::
    "('s, 'd) redis \<Rightarrow> 'd json \<Rightarrow> 'ts timestamppb \<Rightarrow> process \<Rightarrow> (event \<Rightarrow> string) \<Rightarrow> node_process \<times> 's \<Rightarrow> node_process \<times> 's \<Rightarrow> bool"
  for R J T E text_of where
  refresh: "\<not> np_exited p \<Longrightarrow> steady_io R J ev \<Longrightarrow> refreshTopology R J E ev (np_node p) s = Some (r, n, s') \<Longrightarrow>
    node_step R J T E text_of (p, s) (p\<lparr>np_node := n\<rparr>, s')"
| tick: "\<not> np_exited p \<Longrightarrow> np_tick p = None \<Longrightarrow> ns_store (np_node p) \<Longrightarrow> steady_io R J ev \<Longrightarrow>
    tick_step R J E ev m (np_node p) s = (r, n, s') \<Longrightarrow>
    node_step R J T E text_of (p, s) (p\<lparr>np_node := n, np_tick := map_option (\<lambda>(e, evs). (m, e, evs)) r\<rparr>, s')"
| ticked: "\<not> np_exited p \<Longrightarrow> np_tick p = Some (m, e, evs) \<Longrightarrow> steady_io R J ev \<Longrightarrow>
    tick_save R J E text_of ev m e evs (np_node p) s = (n, s') \<Longrightarrow>
    node_step R J T E text_of (p, s) (p\<lparr>np_node := n, np_tick := None\<rparr>, s')"
| flush: "\<not> np_exited p \<Longrightarrow> steady_io R J ev \<Longrightarrow> flush_iteration R J E ev now (np_lastFlush p) (np_node p) s = (n, s') \<Longrightarrow>
    node_step R J T E text_of (p, s) (p\<lparr>np_node := n, np_lastFlush := now\<rparr>, s')"
| command: "\<not> np_exited p \<Longrightarrow> steady_io R J ev \<Longrightarrow> node_exec R J E ev m e c (np_node p) s = Some (r, n, s') \<Longrightarrow>
    node_step R J T E text_of (p, s) (p\<lparr>np_node := n\<rparr>, s')"
| promote: "\<not> np_exited p \<Longrightarrow> Promote_server T E now req (np_node p, s) = Some (r, n, s') \<Longrightarrow>
    node_step R J T E text_of (p, s) (p\<lparr>np_node := n\<rparr>, s')"
| profile: "\<not> np_exited p \<Longrightarrow> Profile_server now m u (np_node p, s) = Some (r1, n, s') \<Longrightarrow>
    node_step R J T E text_of (p, s) (p\<lparr>np_node := n\<rparr>, s')"
| snapshot: "\<not> np_exited p \<Longrightarrow> Snapshot_server E now m (np_node p, s) = Some (r2, n, s') \<Longrightarrow>
    node_step R J T E text_of (p, s) (p\<lparr>np_node := n\<rparr>, s')"
| checkpoint: "\<not> np_exited p \<Longrightarrow> Checkpoint_server T E now m (np_node p, s) = Some (r3, n, s') \<Longrightarrow>
    node_step R J T E text_of (p, s) (p\<lparr>np_node := n\<rparr>, s')"
| register: "\<not> np_exited p \<Longrightarrow> node_step R J T E text_of (p, s) (p, snd (register_beat R J net now p s))"
| signal: "\<not> np_exited p \<Longrightarrow> node_step R J T E text_of (p, s) (p\<lparr>np_buffered := True\<rparr>, s)"
| receive: "\<not> np_exited p \<Longrightarrow> np_signal p = SigWaiting \<Longrightarrow> np_buffered p \<Longrightarrow> np_tick p = None \<Longrightarrow> steady_io R J ev \<Longrightarrow>
    node_step R J T E text_of (p, s) (drain_enter R J E ev BySignal (p\<lparr>np_buffered := False, np_signal := SigDraining\<rparr>) s)"
| request: "\<not> np_exited p \<Longrightarrow> np_lifecycle p \<Longrightarrow> np_tick p = None \<Longrightarrow> steady_io R J ev \<Longrightarrow>
    node_step R J T E text_of (p, s) (drain_enter R J E ev ByRequest p s)"
| poll: "\<not> np_exited p \<Longrightarrow> caller \<in> set (np_drains p) \<Longrightarrow> node_step R J T E text_of (p, s) (drain_poll now ctx caller p, s)"
| finish: "\<not> np_exited p \<Longrightarrow> \<not> np_serving p \<Longrightarrow> node_step R J T E text_of (p, s) (p\<lparr>np_exited := True, np_node := Stop (np_node p)\<rparr>, s)"
| others: "steps R J s s' \<Longrightarrow> node_step R J T E text_of (p, s) (p, s')"

section \<open>Runs\<close>

lemma drain_over_node [simp]: "np_node (drain_over caller ok p) = np_node p"
  by (cases caller) (simp_all add: drain_over_def Let_def)

lemma drain_poll_node [simp]: "np_node (drain_poll now ctx caller p) = np_node p"
  by (simp add: drain_poll_def split: option.split)

lemma same_node_Stop [simp]: "same_node n (Stop n)"
  by (simp add: same_node_def Stop_def)

lemma Stop_moves [simp]: "node_moves R J (n, s) (Stop n, s)"
  by (simp add: node_moves_def) (simp add: Stop_def)

lemma drain_enter_moves:
  assumes "steady_io R J ev" "drain_enter R J E ev caller p s = (p', s')"
  shows "node_moves R J (np_node p, s) (np_node p', s') \<and> ns_draining (np_node p')"
proof -
  obtain err n s1 where d: "drain_start R J E ev (np_node p) s = (err, n, s1)" by (metis prod.collapse)
  then show ?thesis using assms(2) drain_start_moves [OF assms(1) d]
    by (auto simp: drain_enter_def Let_def split: option.splits)
qed

lemma register_beat_writes: "steps R J s (snd (register_beat R J net now p s))"
  by (simp add: register_beat_def attack_writes)

lemma node_step_moves:
  assumes "node_step R J T E fmt (p, s) (p', s')"
  shows "node_moves R J (np_node p, s) (np_node p', s')"
  using assms
proof (cases rule: node_step.cases)
  case (receive ev)
  then show ?thesis using drain_enter_moves [OF receive(6), of E BySignal "p\<lparr>np_buffered := False, np_signal := SigDraining\<rparr>" s p' s'] by simp
next
  case (request ev)
  then show ?thesis using drain_enter_moves [OF request(5), of E ByRequest p s p' s'] by simp
next
  case (register net now)
  then show ?thesis using register_beat_writes by (simp add: node_moves_def)
qed (auto simp: node_moves_store intro: refreshTopology_moves tick_step_moves tick_save_moves flush_iteration_moves node_exec_moves
    handler_okD [OF read_server_ok(5)] handler_okD [OF read_server_ok(1)] handler_okD [OF read_server_ok(2)] handler_okD [OF read_server_ok(4)])

lemma node_run_moves:
  "(node_step R J T E fmt)\<^sup>*\<^sup>* (p, s) (p', s') \<Longrightarrow> node_moves R J (np_node p, s) (np_node p', s')"
  by (induction rule: rtranclp_induct2) (auto intro: node_moves_trans node_step_moves)

section \<open>How a process ends\<close>

abbreviation "node_run R J T E fmt \<equiv> (node_step R J T E fmt)\<^sup>*\<^sup>*"

definition process_ok :: "node_process \<Rightarrow> bool" where
  "process_ok p \<longleftrightarrow>
     count_list (np_drains p) BySignal = (if np_signal p = SigDraining then 1 else 0) \<and>
     (np_exited p \<longrightarrow> \<not> np_serving p) \<and> (np_drains p \<noteq> [] \<or> \<not> np_serving p \<longrightarrow> ns_draining (np_node p))"

lemma count_remove1: "count_list (remove1 x xs) y = count_list xs y - (if x = y then 1 else 0)"
  by (induction xs) (auto simp: count_list_0_iff)

lemma drain_over_serving:
  "np_serving (drain_over caller ok p) \<longleftrightarrow> np_serving p \<and> (caller = ByRequest \<or> \<not> ok)"
  "np_exited (drain_over caller ok p) = np_exited p"
  by (cases caller; simp add: drain_over_def Let_def)+

lemma drain_over_ok:
  assumes "process_ok p" "caller \<in> set (np_drains p)"
  shows "process_ok (drain_over caller ok p)"
proof (cases caller)
  case BySignal
  then have "count_list (np_drains p) BySignal \<noteq> 0" using assms(2) by (simp add: count_list_0_iff)
  then have "count_list (np_drains p) BySignal = 1" using assms(1) by (simp add: process_ok_def split: if_splits)
  then have "count_list (remove1 BySignal (np_drains p)) BySignal = 0" by (simp add: count_remove1)
  moreover have "ns_draining (np_node p)" "np_exited p \<longrightarrow> \<not> np_serving p" using assms by (auto simp: process_ok_def)
  ultimately show ?thesis unfolding BySignal by (cases ok) (simp_all add: process_ok_def drain_over_def Let_def)
next
  case ByRequest
  moreover have "ns_draining (np_node p)" using assms by (auto simp: process_ok_def)
  ultimately show ?thesis using assms(1) by (simp add: process_ok_def drain_over_def count_remove1 Let_def)
qed

lemma drain_enter_ok:
  assumes "steady_io R J ev" "drain_enter R J E ev caller p s = (p', s')" "np_exited p \<longrightarrow> \<not> np_serving p"
    "count_list (np_drains p @ [caller]) BySignal = (if np_signal p = SigDraining then 1 else 0)"
  shows "process_ok p'" "np_serving p' = np_serving p" "np_exited p' = np_exited p"
proof -
  obtain err n s1 where d: "drain_start R J E ev (np_node p) s = (err, n, s1)" by (metis prod.collapse)
  let ?p = "p\<lparr>np_node := n, np_drains := np_drains p @ [caller]\<rparr>"
  have p': "p' = (case err of Some _ \<Rightarrow> drain_over caller False ?p | None \<Rightarrow> ?p)"
    using assms(2) d by (simp add: drain_enter_def Let_def)
  have ok: "process_ok ?p" using assms(3,4) drain_start_moves [OF assms(1) d] by (simp add: process_ok_def)
  show "process_ok p'" using p' ok drain_over_ok [OF ok] by (simp split: option.splits)
  show "np_serving p' = np_serving p" "np_exited p' = np_exited p" using p' by (simp_all add: drain_over_serving split: option.splits)
qed

lemma drain_poll_ok:
  assumes "process_ok p" "caller \<in> set (np_drains p)"
  shows "process_ok (drain_poll now ctx caller p)"
    and "\<not> np_serving (drain_poll now ctx caller p) \<Longrightarrow>
      \<not> np_serving p \<or> caller = BySignal \<and> OwnedMapIDs now (ns_authority (np_node p)) = Some []"
    and "np_exited (drain_poll now ctx caller p) = np_exited p"
proof -
  note over = drain_over_ok [OF assms]
  show "process_ok (drain_poll now ctx caller p)" using over assms(1) by (simp add: drain_poll_def split: option.split)
  show "\<not> np_serving p \<or> caller = BySignal \<and> OwnedMapIDs now (ns_authority (np_node p)) = Some []"
    if "\<not> np_serving (drain_poll now ctx caller p)"
    using that by (cases caller) (auto simp: drain_poll_def drain_over_serving split: option.splits if_splits)
  show "np_exited (drain_poll now ctx caller p) = np_exited p" by (simp add: drain_poll_def drain_over_serving split: option.split)
qed

lemma process_ok_node: "process_ok p \<Longrightarrow> same_node (np_node p) n \<Longrightarrow> process_ok (p\<lparr>np_node := n\<rparr>)"
  by (auto simp: process_ok_def same_node_def)

text \<open>A step keeps \<open>process_ok\<close>, and the server is told to stop only after a drain that was asked for by a signal has seen
  that no map is owned.\<close>

lemma node_step_ok:
  assumes "node_step R J T E fmt (p, s) (p', s')" "process_ok p"
  shows "process_ok p' \<and> (\<not> np_serving p' \<longrightarrow>
    \<not> np_serving p \<or> BySignal \<in> set (np_drains p) \<and> (\<exists>now. OwnedMapIDs now (ns_authority (np_node p)) = Some []))"
proof -
  note same = node_step_moves [OF assms(1), unfolded node_moves_def fst_conv, THEN conjunct1]
  from assms(1) show ?thesis
  proof (cases rule: node_step.cases)
    case (receive ev)
    note e = drain_enter_ok [OF receive(6), of E BySignal "p\<lparr>np_buffered := False, np_signal := SigDraining\<rparr>" s p' s']
    show ?thesis using e receive assms(2) by (simp add: process_ok_def)
  next
    case (request ev)
    note e = drain_enter_ok [OF request(5), of E ByRequest p s p' s']
    show ?thesis using e request assms(2) by (simp add: process_ok_def)
  next
    case (poll caller now ctx)
    show ?thesis using drain_poll_ok [OF assms(2) poll(4), of now ctx] poll(1,4) by blast
  qed (use assms(2) same in \<open>auto simp: process_ok_def same_node_def\<close>)
qed

lemma node_run_ok:
  assumes "node_run R J T E fmt (p, s) (p', s')" "process_ok p"
  shows "process_ok p'"
  using assms by (induction rule: rtranclp_induct2) (auto dest: node_step_ok)

lemma node_run_stops:
  assumes "node_run R J T E fmt (p0, s0) (p, s)" "process_ok p0" "np_serving p0" "\<not> np_serving p"
  shows "\<exists>q sq now. node_run R J T E fmt (p0, s0) (q, sq) \<and> node_run R J T E fmt (q, sq) (p, s) \<and>
    OwnedMapIDs now (ns_authority (np_node q)) = Some []"
  using assms
proof (induction rule: rtranclp_induct2)
  case (step q sq p s)
  have ok: "process_ok q" by (rule node_run_ok [OF step.hyps(1) step.prems(1)])
  show ?case
  proof (cases "np_serving q")
    case True
    with node_step_ok [OF step.hyps(2) ok] step.prems(3) step.hyps show ?thesis by (meson r_into_rtranclp)
  next
    case False
    with step show ?thesis by (meson rtranclp.rtrancl_into_rtrancl)
  qed
qed simp

text \<open>While the server runs and the goroutine of the signals has ended, nothing ends the process.\<close>

lemma node_step_stuck:
  assumes "node_step R J T E fmt (p, s) (p', s')" "process_ok p" "np_signal p = SigOver \<and> np_serving p"
  shows "np_signal p' = SigOver \<and> np_serving p'"
proof -
  have no: "BySignal \<notin> set (np_drains p)" using assms(2,3) by (simp add: process_ok_def count_list_0_iff)
  then have "np_serving p'" using node_step_ok [OF assms(1,2)] assms(3) by blast
  moreover have "np_signal p' = SigOver" using assms(1)
  proof (cases rule: node_step.cases)
    case (request ev)
    then show ?thesis using assms(3) by (auto simp: drain_enter_def drain_over_def Let_def split: prod.splits option.splits)
  next
    case (poll caller now ctx)
    then show ?thesis using assms(3) no
      by (cases caller) (auto simp: drain_poll_def drain_over_def Let_def split: option.splits)
  qed (use assms(3) in auto)
  ultimately show ?thesis by blast
qed

lemma node_run_stuck:
  assumes "node_run R J T E fmt (p, s) (p', s')" "process_ok p" "np_signal p = SigOver \<and> np_serving p"
  shows "np_signal p' = SigOver \<and> np_serving p'"
  using assms by (induction rule: rtranclp_induct2) (auto dest: node_step_stuck node_run_ok)

lemma node_main_Inr:
  assumes "node_main flags loaded store listen now = Inr p"
  shows "process_ok p" "np_serving p" "ns_ID (np_node p) = fl_id flags" "ns_store (np_node p) = store"
    "ns_candidateMapID (np_node p) = TrimSpace (fl_map flags)" "isKnownMap (TrimSpace (fl_map flags))"
    "ac_nodeID (ns_authority (np_node p)) = fl_id flags" "\<not> ac_topologyOK (ns_authority (np_node p))"
  using assms
  by (auto simp: node_main_def Start_def NewNodeService_def newAuthorityCache_def process_ok_def Let_def split: sum.splits if_splits)

text \<open>No map of a valid topology belongs to a node that owns none.\<close>

lemma owns_nothing:
  assumes "OwnedMapIDs now c = Some []" "Validate None (ac_topology c) = None"
  shows "ac_nodeID c \<notin> snd ` set (tp_Owners (ac_topology c))"
proof
  assume "ac_nodeID c \<in> snd ` set (tp_Owners (ac_topology c))"
  then obtain m where m: "(m, ac_nodeID c) \<in> set (tp_Owners (ac_topology c))" by auto
  then obtain e where "map_of (tp_MapEpochs (ac_topology c)) m = Some e" "e \<noteq> 0"
    using Validate_epoch [OF assms(2), of m] by force
  then show False using OwnedMapIDs_Some [OF assms(1)] m by (auto simp: get_or_def)
qed

text \<open>C19: a node process moves the store only by steps of the store and keeps its name and its map, which is a built-in one.
  When it has exited in order, it had a store and is draining, and during its life the store held a valid topology in which it
  owns no map.\<close>

theorem node_exits_without_maps:
  assumes "node_main flags loaded store listen start = Inr p0" "node_run R J T E fmt (p0, s0) (p, s)"
  shows "steps R J s0 s \<and> ns_ID (np_node p) = fl_id flags \<and> isKnownMap (ns_candidateMapID (np_node p)) \<and>
    (np_exited p \<longrightarrow> store \<and> ns_draining (np_node p) \<and>
       (\<exists>s1 t. steps R J s0 s1 \<and> steps R J s1 s \<and> stored_topology R J s1 = Some t \<and> Validate None t = None \<and>
          fl_id flags \<notin> snd ` set (tp_Owners t)))"
proof -
  note p0 = node_main_Inr [OF assms(1)]
  note moves = node_run_moves [OF assms(2)]
  have ok: "process_ok p" by (rule node_run_ok [OF assms(2) p0(1)])
  have "store \<and> (\<exists>s1 t. steps R J s0 s1 \<and> steps R J s1 s \<and> stored_topology R J s1 = Some t \<and> Validate None t = None \<and>
      fl_id flags \<notin> snd ` set (tp_Owners t))" if "np_exited p"
  proof -
    from that ok have "\<not> np_serving p" by (simp add: process_ok_def)
    from node_run_stops [OF assms(2) p0(1,2) this]
    obtain q sq now where q: "node_run R J T E fmt (p0, s0) (q, sq)" "node_run R J T E fmt (q, sq) (p, s)"
      "OwnedMapIDs now (ns_authority (np_node q)) = Some []" by blast
    let ?c = "ns_authority (np_node q)"
    have fresh: "ac_topologyOK ?c" using OwnedMapIDs_Some [OF q(3)] by (simp add: freshLocked_def split: if_splits)
    with node_run_moves [OF q(1)] p0 obtain s1 where s1: "steps R J s0 s1" "steps R J s1 sq"
      "stored_topology R J s1 = Some (ac_topology ?c)" "Validate None (ac_topology ?c) = None" and id: "ac_nodeID ?c = fl_id flags"
      by (auto simp: node_moves_def saw_def)
    have st: "store" using node_run_moves [OF q(1)] p0 fresh by (auto simp: node_moves_def)
    have "steps R J s1 s" using rtranclp_trans [OF s1(2)] node_run_moves [OF q(2)] by (simp add: node_moves_def)
    then show ?thesis using s1 st owns_nothing [OF q(3) s1(4)] id by auto
  qed
  moreover have "ns_draining (np_node p)" if "np_exited p" using ok that by (simp add: process_ok_def)
  ultimately show ?thesis using moves p0 by (auto simp: node_moves_def same_node_def)
qed

text \<open>A node that reads a topology without it and is then signalled can exit, whatever has happened to the store since.\<close>

lemma idle_node_exits:
  assumes "node_main flags loaded True listen start = Inr p0" "LoadTopology R J Delivered s = Inr (Some t)"
    "fl_id flags \<notin> snd ` set (tp_Owners t)" "steps R J s s'" "0 \<le> ac_grace (ns_authority (np_node p0))"
  shows "\<exists>p. node_run R J T E fmt (p0, s) (p, s') \<and> np_exited p"
proof -
  let ?io = "calm 6 :: 's io"
  have io: "steady_io R J ?io" by (simp add: steady_io_def)
  have valid: "Validate None t = None" using LoadTopology_stored [OF assms(2)] by simp
  note p0 = node_main_Inr [OF assms(1)]
  let ?n = "(np_node p0)\<lparr>ns_authority := (ns_authority (np_node p0))\<lparr>ac_topology := t, ac_loadedAt := 6, ac_topologyOK := True\<rparr>\<rparr>"
  have own: "OwnedMapIDs 6 (ns_authority ?n) = Some []"
  proof -
    have "owner \<noteq> fl_id flags" if "(m, owner) \<in> set (tp_Owners t)" for m owner using assms(3) that by force
    then have "filter (\<lambda>(m, owner). owner = fl_id flags \<and> 0 < get_or 0 (tp_MapEpochs t) m) (tp_Owners t) = []"
      by (auto simp: filter_empty_conv)
    then show ?thesis using assms(5) p0(7) by (simp add: OwnedMapIDs_def freshLocked_def IsZero_def zero_time_def)
  qed
  have fresh: "np_tick p0 = None" "np_signal p0 = SigWaiting" "\<not> np_exited p0" "np_drains p0 = []" "\<not> ns_draining (np_node p0)"
    using assms(1) by (auto simp: node_main_def Start_def NewNodeService_def Let_def split: sum.splits if_splits)
  have "refreshTopology R J E ?io (np_node p0) s = Some (None, ?n, s)"
    using p0(4,8) assms(2) valid own by (simp add: refreshTopology_def refresh_cache_def ensureOwnedMaps_def)
  from node_step.refresh [OF fresh(3) io this]
  have 1: "node_step R J T E fmt (p0, s) (p0\<lparr>np_node := ?n\<rparr>, s)" .
  have 2: "node_step R J T E fmt (p0\<lparr>np_node := ?n\<rparr>, s) (p0\<lparr>np_node := ?n\<rparr>, s')"
    by (rule node_step.others) (rule assms(4))
  have 3: "node_step R J T E fmt (p0\<lparr>np_node := ?n\<rparr>, s') (p0\<lparr>np_node := ?n, np_buffered := True\<rparr>, s')"
    using node_step.signal [of "p0\<lparr>np_node := ?n\<rparr>"] fresh by simp
  define d where "d = p0\<lparr>np_node := ?n\<lparr>ns_draining := True\<rparr>, np_buffered := False, np_signal := SigDraining, np_drains := [BySignal]\<rparr>"
  have "drain_enter R J E ?io BySignal (p0\<lparr>np_node := ?n, np_buffered := False, np_signal := SigDraining\<rparr>) s' = (d, s')"
    using own fresh p0(4) by (simp add: drain_enter_def drain_start_def saveFinalCheckpoints_def d_def)
  then have 4: "node_step R J T E fmt (p0\<lparr>np_node := ?n, np_buffered := True\<rparr>, s') (d, s')"
    using node_step.receive [of "p0\<lparr>np_node := ?n, np_buffered := True\<rparr>" R J ?io T E fmt s'] fresh io by simp
  have 5: "node_step R J T E fmt (d, s') (drain_poll 6 False BySignal d, s')"
    using node_step.poll [of d BySignal] fresh by (simp add: d_def)
  have "\<not> np_serving (drain_poll 6 False BySignal d)" "\<not> np_exited (drain_poll 6 False BySignal d)"
    using own fresh by (simp_all add: drain_poll_def drain_over_serving d_def)
  note 6 = node_step.finish [OF this(2,1), of R J T E fmt s']
  note into = converse_rtranclp_into_rtranclp [of "node_step R J T E fmt"]
  have "node_run R J T E fmt (d, s') ((drain_poll 6 False BySignal d)\<lparr>np_exited := True, np_node := Stop (np_node (drain_poll 6 False BySignal d))\<rparr>, s')"
    by (rule into [OF 5 r_into_rtranclp [of "node_step R J T E fmt", OF 6]])
  from into [OF 1 into [OF 2 into [OF 3 into [OF 4 this]]]] show ?thesis by (intro exI conjI) (assumption, simp)
qed

text \<open>A node for the map \<open>green\<close> with the default configuration.\<close>

definition green_flags :: "string \<Rightarrow> node_flags" where
  "green_flags i = default_flags\<lparr>fl_id := i, fl_map := ''green''\<rparr>"

definition green_process :: "string \<Rightarrow> bool \<Rightarrow> node_process" where
  "green_process i store =
     \<lparr>np_node = NewNodeService 5 i (fl_addr default_flags) store (rc_Node DefaultRuntime) ''green'',
      np_drainTimeout = nc_DrainTimeout (rc_Node DefaultRuntime), np_lifecycle = False, np_registry = rc_NodeRegistry DefaultRuntime,
      np_tick = None, np_lastFlush = 5, np_drains = [], np_signal = SigWaiting, np_buffered = False, np_serving = True, np_exited = False\<rparr>"

lemma green_main: "node_main (green_flags i) (Inr DefaultRuntime) store True 5 = Inr (green_process i store)"
proof -
  have "isKnownMap ''green''" by (simp add: isKnownMap_def AvailableMaps_def)
  moreover have "TrimSpace ''green'' = ''green''" by code_simp
  ultimately show ?thesis
    by (simp add: node_main_def green_flags_def default_flags_def green_process_def Start_def NewNodeService_def)
qed

lemma green_grace: "0 \<le> ac_grace (ns_authority (np_node (green_process i store)))"
  by (simp add: green_process_def NewNodeService_def newAuthorityCache_def DefaultRuntime_def second_def)

lemma run_loads:
  "LoadTopology mr mem_json Delivered run1 = Inr (Some topo1)" "LoadTopology mr mem_json Delivered run2 = Inr (Some topo2)"
  using topo_valid by (simp_all add: LoadTopology_def rpc_def run1_eq run2_eq mem_defs)

theorem node_exits_without_maps_witness:
  "\<exists>p. np_exited p \<and> ns_draining (np_node p) \<and>
     node_run mr mem_json std_stamps demo_process (\<lambda>_. []) (green_process ''n1'' True, run2) (p, run2) \<and>
     (\<exists>s1 t. steps mr mem_json run2 s1 \<and> steps mr mem_json s1 run2 \<and> stored_topology mr mem_json s1 = Some t \<and>
        ''n1'' \<notin> snd ` set (tp_Owners t))"
proof -
  have "''n1'' \<notin> snd ` set (tp_Owners topo2)" by (simp add: topo2_def)
  then obtain p where p: "node_run mr mem_json std_stamps demo_process (\<lambda>_. []) (green_process ''n1'' True, run2) (p, run2)" "np_exited p"
    using idle_node_exits [OF green_main run_loads(2) _ rtranclp.rtrancl_refl green_grace, of "''n1''" std_stamps demo_process "\<lambda>_. []"]
    by (auto simp: green_flags_def)
  from node_exits_without_maps [OF green_main p(1)] p show ?thesis by (auto simp: green_flags_def)
qed

text \<open>What the node goes by may be out of date: a node that has been given a map since its last refresh can exit, and the map
  is left without its owner.\<close>

theorem node_can_exit_owning:
  "\<exists>p. node_run mr mem_json T E fmt (green_process ''n2'' True, run1) (p, run2) \<and> np_exited p \<and>
     stored_topology mr mem_json run2 = Some topo2 \<and> map_of (tp_Owners topo2) ''m'' = Some (ns_ID (np_node p))"
proof -
  have "''n2'' \<notin> snd ` set (tp_Owners topo1)" by (simp add: topo1_def)
  then obtain p where p: "node_run mr mem_json T E fmt (green_process ''n2'' True, run1) (p, run2)" "np_exited p"
    using idle_node_exits [OF green_main run_loads(1) _ steps_run2 green_grace, of "''n2''" T E fmt]
    by (auto simp: green_flags_def)
  have "ns_ID (np_node p) = ''n2''"
    using node_run_moves [OF p(1)] by (simp add: node_moves_def same_node_def green_process_def NewNodeService_def)
  then show ?thesis using p LoadTopology_stored [OF run_loads(2)] by (auto simp: topo2_def)
qed

section \<open>Drains that fail\<close>

text \<open>C40: a node that was started without a store never exits, and neither does a node whose drain by signal has ended without
  success: later signals are ignored for ever, even when the node owns no map any more.\<close>

theorem failed_drain_is_final:
  assumes "node_main flags loaded store listen start = Inr p0" "node_run R J T E fmt (p0, s0) (p, s)"
    "np_signal p = SigOver \<and> np_serving p \<or> \<not> store" "node_run R J T E fmt (p, s) (p', s')"
  shows "\<not> np_exited p' \<and> np_serving p'"
proof (cases store)
  case True
  have ok: "process_ok p" by (rule node_run_ok [OF assms(2) node_main_Inr(1) [OF assms(1)]])
  have "np_serving p'" using node_run_stuck [OF assms(4) ok] assms(3) True by blast
  then show ?thesis using node_run_ok [OF assms(4) ok] by (auto simp: process_ok_def)
next
  case False
  note p0 = node_main_Inr [OF assms(1)]
  have run: "node_run R J T E fmt (p0, s0) (p', s')" using assms(2,4) by (rule rtranclp_trans)
  have "np_serving p'"
  proof (rule ccontr)
    assume "\<not> np_serving p'"
    from node_run_stops [OF run p0(1,2) this] obtain q sq now
      where q: "node_run R J T E fmt (p0, s0) (q, sq)" "OwnedMapIDs now (ns_authority (np_node q)) = Some []" by blast
    have "ns_authority (np_node q) = ns_authority (np_node p0)" using node_run_moves [OF q(1)] p0(4) False by (simp add: node_moves_def)
    then show False using OwnedMapIDs_Some [OF q(2)] p0(8) by (simp add: freshLocked_def)
  qed
  then show ?thesis using node_run_ok [OF run p0(1)] by (auto simp: process_ok_def)
qed

text \<open>A signal that arrives before the first topology does.\<close>

definition early_stop :: node_process where
  "early_stop = drain_over BySignal False
     ((green_process ''n1'' True)\<lparr>np_signal := SigDraining, np_drains := [BySignal],
        np_node := (np_node (green_process ''n1'' True))\<lparr>ns_draining := True\<rparr>\<rparr>)"

lemma early_stop_run: "node_run mr mem_json T E fmt (green_process ''n1'' True, run2) (early_stop, run2)"
proof -
  let ?p = "green_process ''n1'' True"
  have 1: "node_step mr mem_json T E fmt (?p, run2) (?p\<lparr>np_buffered := True\<rparr>, run2)"
    using node_step.signal [of ?p] by (simp add: green_process_def)
  have "drain_enter mr mem_json E (calm 6) BySignal (?p\<lparr>np_buffered := False, np_signal := SigDraining\<rparr>) run2 = (early_stop, run2)"
    by (simp add: drain_enter_def drain_start_def saveFinalCheckpoints_def early_stop_def drain_over_def green_process_def NewNodeService_def
        OwnedMapIDs_def freshLocked_def newAuthorityCache_def)
  then have "node_step mr mem_json T E fmt (?p\<lparr>np_buffered := True\<rparr>, run2) (early_stop, run2)"
    using node_step.receive [of "?p\<lparr>np_buffered := True\<rparr>" mr mem_json "calm 6" T E fmt run2]
    by (simp add: green_process_def steady_io_def)
  with 1 show ?thesis by (meson converse_rtranclp_into_rtranclp rtranclp.rtrancl_refl)
qed

theorem failed_drain_is_final_witness:
  "\<not> (\<exists>p' s'. node_run mr mem_json std_stamps demo_process (\<lambda>_. []) (early_stop, run2) (p', s') \<and> np_exited p')"
proof -
  have "np_signal early_stop = SigOver" "np_serving early_stop"
    by (simp_all add: early_stop_def drain_over_def green_process_def)
  then show ?thesis using failed_drain_is_final [OF green_main early_stop_run] by blast
qed

end
