(* ===== verification/System.thy ===== *)
theory System
  imports Startup Gateway_Accounts Leader_Boot Node_Process
begin

text \<open>
  The whole installation: one Redis and one database, and node, gateway and coordinator processes that are started and die at
  any time, each with its own goroutines. A state has the backend all of them share (with the \<open>NodeService\<close> behind every
  address) and the processes by address or name; a step is a step of one process, its start or its end. A process that
  dies leaves the store as it is; a node that is started again begins with nothing.
\<close>

section \<open>Gateways write by steps of the store\<close>

definition writing :: "('s, 'd) redis \<Rightarrow> 'd json \<Rightarrow> ('s, 't) gio \<Rightarrow> bool" where
  "writing R J ev \<longleftrightarrow> (\<forall>k en. steps R J (out_store en) (out_store (ev_others ev k en))) \<and> (\<forall>k. steady_io R J (gv_node ev k))"

lemma call_keeps_store:
  "handler_ok R J call \<Longrightarrow> call_keeps (\<lambda>en en'. steps R J (out_store en) (out_store en')) call"
  unfolding call_keeps_def using call_node_writes by blast

interpretation gateway_writes:
  gateway_guarantee R J Q H "writing R J" "\<lambda>en en'. steps R J (out_store en) (out_store en')" for R J Q H
  by unfold_locales (auto simp: writing_def intro: rtranclp_trans r_into_rtranclp intro!: call_keeps_store client_ok read_client_ok)

section \<open>The system\<close>

record ('s, 't) installation =
  sy_out :: "('s, 't) backend"
  sy_nodes :: "(string, node_process) alist"
  sy_gateways :: "(string, gateway_server) alist"
  sy_coords :: "(string, leader_process) alist"

text \<open>What a gateway may rely on while one of its operations is under way.\<close>

definition around :: "('s, 'd) redis \<Rightarrow> 'd json \<Rightarrow> 't sql \<Rightarrow> ('s, 't) gio \<Rightarrow> bool" where
  "around R J Q ev \<longleftrightarrow> writing R J ev \<and> keeping Q ev \<and> stepping ev"

definition set_node :: "string \<Rightarrow> node_process \<Rightarrow> 's \<Rightarrow> ('s, 't) installation \<Rightarrow> ('s, 't) installation" where
  "set_node addr p s S =
     S\<lparr>sy_nodes := AList.update addr p (sy_nodes S),
       sy_out := (sy_out S)\<lparr>out_store := s, out_nodes := AList.update addr (np_node p) (out_nodes (sy_out S))\<rparr>\<rparr>"

inductive system_step ::
    "('s, 'd) redis \<Rightarrow> 'd json \<Rightarrow> 't sql \<Rightarrow> hasher \<Rightarrow> 'ts timestamppb \<Rightarrow> (string \<Rightarrow> process) \<Rightarrow> (gateway_text \<Rightarrow> string)
     \<Rightarrow> (event \<Rightarrow> string) \<Rightarrow> (string \<Rightarrow> string) \<Rightarrow> (string \<Rightarrow> string \<Rightarrow> bool) \<Rightarrow> ('s, 't) installation \<Rightarrow> ('s, 't) installation \<Rightarrow> bool"
  for R J Q H T E say fmt text_of dial where
  node_start: "node_main flags loaded store listen now = Inr p \<Longrightarrow> map_of (sy_nodes S) (fl_addr flags) = None \<Longrightarrow>
    system_step R J Q H T E say fmt text_of dial S (set_node (fl_addr flags) p (out_store (sy_out S)) S)"
| node: "map_of (sy_nodes S) addr = Some p \<Longrightarrow> map_of (out_nodes (sy_out S)) addr = Some n \<Longrightarrow>
    node_step R J T (E addr) fmt (p\<lparr>np_node := n\<rparr>, out_store (sy_out S)) (p', s) \<Longrightarrow>
    system_step R J Q H T E say fmt text_of dial S (set_node addr p' s S)"
| node_end: "system_step R J Q H T E say fmt text_of dial S
    (S\<lparr>sy_nodes := AList.delete addr (sy_nodes S), sy_out := (sy_out S)\<lparr>out_nodes := AList.delete addr (out_nodes (sy_out S))\<rparr>\<rparr>)"
| coord_start: "NewWithRuntimeConfig redis env host raw rt = Inr c \<Longrightarrow>
    system_step R J Q H T E say fmt text_of dial S (S\<lparr>sy_coords := AList.update name (new_process c) (sy_coords S)\<rparr>)"
| coord: "map_of (sy_coords S) name = Some p \<Longrightarrow>
    leader_step R J T E dial text_of (p, \<lparr>out_store = out_store (sy_out S), out_nodes = out_nodes (sy_out S)\<rparr>) (p', en) \<Longrightarrow>
    system_step R J Q H T E say fmt text_of dial S
      (S\<lparr>sy_coords := AList.update name p' (sy_coords S), sy_out := (sy_out S)\<lparr>out_store := out_store en, out_nodes := out_nodes en\<rparr>\<rparr>)"
| coord_end: "system_step R J Q H T E say fmt text_of dial S (S\<lparr>sy_coords := AList.delete name (sy_coords S)\<rparr>)"
| gateway_start: "gateway_main R J dial ev dl env la loaded listen (sy_out S) = Inr (p, en) \<Longrightarrow> around R J Q ev \<Longrightarrow>
    system_step R J Q H T E say fmt text_of dial S (S\<lparr>sy_gateways := AList.update name p (sy_gateways S), sy_out := en\<rparr>)"
| gateway: "map_of (sy_gateways S) name = Some p \<Longrightarrow> gateway_life (around R J Q) R J Q H E say dial (p, sy_out S) (p', en) \<Longrightarrow>
    system_step R J Q H T E say fmt text_of dial S (S\<lparr>sy_gateways := AList.update name p' (sy_gateways S), sy_out := en\<rparr>)"
| gateway_end: "system_step R J Q H T E say fmt text_of dial S (S\<lparr>sy_gateways := AList.delete name (sy_gateways S)\<rparr>)"

section \<open>What a step keeps\<close>

lemma gateway_call_mono:
  assumes "gateway_call P R J Q H E say dial st st'" "\<And>ev. P ev \<Longrightarrow> P' ev"
  shows "gateway_call P' R J Q H E say dial st st'"
  using assms(1)
proof (induction rule: gateway_call.induct)
  case register
  show ?case by (rule gateway_call.register [of P', OF assms(2) [OF register(1)] register(2)])
next
  case enter
  show ?case by (rule gateway_call.enter [of P', OF assms(2) [OF enter(1)] enter(2)])
next
  case login
  show ?case by (rule gateway_call.login [of P', OF assms(2) [OF login(1)] login(2)])
next
  case logout
  show ?case by (rule gateway_call.logout [of P', OF assms(2) [OF logout(1)] logout(2)])
next
  case move
  show ?case by (rule gateway_call.move [of P', OF assms(2) [OF move(1)] move(2)])
next
  case attack
  show ?case by (rule gateway_call.attack [of P', OF assms(2) [OF attack(1)] attack(2)])
next
  case heal
  show ?case by (rule gateway_call.heal [of P', OF assms(2) [OF heal(1)] heal(2)])
next
  case buy
  show ?case by (rule gateway_call.buy [of P', OF assms(2) [OF buy(1)] buy(2)])
next
  case attack_boss
  show ?case by (rule gateway_call.attack_boss [of P', OF assms(2) [OF attack_boss(1)] attack_boss(2)])
next
  case switch
  show ?case by (rule gateway_call.switch [of P', OF assms(2) [OF switch(1)] switch(2)])
next
  case snapshot
  show ?case by (rule gateway_call.snapshot [of P', OF assms(2) [OF snapshot(1)] snapshot(2)])
next
  case load
  show ?case by (rule gateway_call.load [of P', OF assms(2) [OF load(1)] load(2)])
next
  case refresh
  show ?case by (rule gateway_call.refresh [of P', OF assms(2) [OF refresh(1)] refresh(2)])
next
  case message
  show ?case by (rule gateway_call.message [of P', OF assms(2) [OF message(1)] message(2)])
next
  case close
  show ?case by (rule gateway_call.close)
qed

lemma gateway_life_mono:
  assumes "gateway_life P R J Q H E say dial st st'" "\<And>ev. P ev \<Longrightarrow> P' ev"
  shows "gateway_life P' R J Q H E say dial st st'"
  using assms(1)
proof cases
  case (call p en c en')
  then show ?thesis using gateway_life.call [of p P', OF call(3) gateway_call_mono [where P' = P', OF call(4) assms(2)]] by simp
qed (auto intro: gateway_life.intros)

lemma gateway_life_backend:
  assumes "gateway_life P R J Q H E say dial (p, en) (p', en')"
  shows "en' = en \<or> gateway_call P R J Q H E say dial (gs_cluster p, en) (gs_cluster p', en')"
  using assms by (cases rule: gateway_life.cases) auto

lemma gateway_call_keeps:
  assumes "accounts Q H" "gateway_call (around R J Q) R J Q H E say dial (c, en) (c', en')"
  shows "steps R J (out_store en) (out_store en') \<and> hashes_kept Q (out_db en) (out_db en')"
proof
  have "gateway_call (writing R J) R J Q H E say dial (c, en) (c', en')"
    using gateway_call_mono [OF assms(2)] by (simp add: around_def)
  then show "steps R J (out_store en) (out_store en')" using gateway_writes.kept_gateway_call by fastforce
  have "gateway_call (keeping Q) R J Q H E say dial (c, en) (c', en')"
    using gateway_call_mono [OF assms(2)] by (simp add: around_def)
  then show "hashes_kept Q (out_db en) (out_db en')" using accounts.gateway_run_keeps [OF assms(1) r_into_rtranclp] by fastforce
qed

lemma gateway_life_keeps:
  assumes "accounts Q H" "gateway_life (around R J Q) R J Q H E say dial (p, en) (p', en')"
  shows "steps R J (out_store en) (out_store en') \<and> hashes_kept Q (out_db en) (out_db en')"
  using gateway_life_backend [OF assms(2)]
proof (elim disjE)
  show "en' = en \<Longrightarrow> ?thesis" by simp
qed (rule gateway_call_keeps [OF assms(1)])

lemma gateway_main_keeps:
  assumes "accounts Q H" "gateway_main R J dial ev dl env la loaded listen en = Inr (p, en')" "around R J Q ev"
  shows "steps R J (out_store en) (out_store en') \<and> hashes_kept Q (out_db en) (out_db en')"
proof -
  obtain x c c1 where l: "loadTopology R J dial ev c en = (x, c1, en')"
    using assms(2) by (auto simp: gateway_main_def split: sum.splits prod.splits if_splits)
  show ?thesis by (rule gateway_call_keeps [OF assms(1) gateway_call.load [of "around R J Q", OF assms(3) l]])
qed

text \<open>The store only moves by its own steps, and no step of the system touches a password.\<close>

lemma system_step_keeps:
  assumes "accounts Q H" "system_step R J Q H T E say fmt text_of dial S S'" "list_all (coord_ok \<circ> lp_coord \<circ> snd) (sy_coords S)"
  shows "steps R J (out_store (sy_out S)) (out_store (sy_out S')) \<and> hashes_kept Q (out_db (sy_out S)) (out_db (sy_out S'))"
  using assms(2)
proof cases
  case (node addr p n p' s)
  then show ?thesis using node_step_moves [OF node(4)] by (simp add: set_node_def node_moves_def)
next
  case (coord name p p' en)
  have "coord_ok (lp_coord p)" using assms(3) map_of_SomeD [OF coord(2)] by (auto simp: list_all_iff)
  then show ?thesis using leader_step_run [OF coord(3)] coord(1) by simp
next
  case (gateway_start ev dl env la loaded listen p en name)
  then show ?thesis using gateway_main_keeps [OF assms(1)] by simp
next
  case (gateway name p p' en)
  then show ?thesis using gateway_life_keeps [OF assms(1)] by simp
qed (simp_all add: set_node_def)

definition installation_ok :: "('s, 't) installation \<Rightarrow> bool" where
  "installation_ok S \<longleftrightarrow> list_all (coord_ok \<circ> lp_coord \<circ> snd) (sy_coords S) \<and>
     list_all (\<lambda>(_, p). server_ok p \<and> routed_inv (gs_cluster p) \<and> pool_inv (gs_cluster p) \<and> events_inv (gs_cluster p)) (sy_gateways S)"

lemma list_all_update: "list_all P al \<Longrightarrow> P (k, v) \<Longrightarrow> list_all P (AList.update k v al)"
  by (induction al) auto

lemma list_all_delete: "list_all P al \<Longrightarrow> list_all P (AList.delete k al)"
  by (auto simp: list_all_iff AList.delete_eq)

lemma cluster_invs_run:
  assumes "gateway_step\<^sup>*\<^sup>* c c'" "routed_inv c \<and> pool_inv c \<and> events_inv c"
  shows "routed_inv c' \<and> pool_inv c' \<and> events_inv c'"
  using assms by (induction rule: rtranclp_induct) (auto intro: routed_step pool_step events_step)

lemma system_step_ok:
  assumes "system_step R J Q H T E say fmt text_of dial S S'" "installation_ok S"
  shows "installation_ok S'"
  using assms(1)
proof cases
  case (coord_start redis env host raw rt c name)
  then show ?thesis using assms(2) new_coordinator_ok [OF coord_start(2)] by (simp add: installation_ok_def list_all_update new_process_def)
next
  case (coord name p p' en)
  have "coord_ok (lp_coord p)" using assms(2) map_of_SomeD [OF coord(2)] by (auto simp: installation_ok_def list_all_iff)
  then show ?thesis using leader_run [OF r_into_rtranclp [of "leader_step R J T E dial text_of", OF coord(3)]] assms(2) coord(1)
    by (simp add: installation_ok_def list_all_update)
next
  case (gateway_start ev dl env la loaded listen p en name)
  have "stepping ev" using gateway_start(3) by (simp add: around_def)
  from gateway_main_Inr [OF gateway_start(2) this] show ?thesis
    using assms(2) gateway_start(1) gateway_invs by (auto simp: installation_ok_def intro!: list_all_update)
next
  case (gateway name p p' en)
  have ok: "server_ok p" "routed_inv (gs_cluster p) \<and> pool_inv (gs_cluster p) \<and> events_inv (gs_cluster p)"
    using assms(2) map_of_SomeD [OF gateway(2)] by (auto simp: installation_ok_def list_all_iff)
  have "gateway_life stepping R J Q H E say dial (p, sy_out S) (p', en)"
    using gateway_life_mono [OF gateway(3), of stepping] by (simp add: around_def)
  note cluster_invs_run [OF gateway_life_steps [OF this] ok(2)]
  then show ?thesis using gateway_life_ok [OF gateway(3) ok(1)] assms(2) gateway(1)
    by (simp add: installation_ok_def list_all_update)
qed (use assms(2) in \<open>simp_all add: installation_ok_def set_node_def list_all_delete\<close>)

abbreviation "system_run R J Q H T E say fmt text_of dial \<equiv> (system_step R J Q H T E say fmt text_of dial)\<^sup>*\<^sup>*"

lemma system_run_keeps:
  assumes "accounts Q H" "system_run R J Q H T E say fmt text_of dial S S'" "installation_ok S"
  shows "installation_ok S' \<and> steps R J (out_store (sy_out S)) (out_store (sy_out S')) \<and>
    hashes_kept Q (out_db (sy_out S)) (out_db (sy_out S'))"
  using assms(2)
proof (induction rule: rtranclp_induct)
  case (step S1 S2)
  then have ok: "installation_ok S1" "list_all (coord_ok \<circ> lp_coord \<circ> snd) (sy_coords S1)" by (simp_all add: installation_ok_def)
  from system_step_keeps [OF assms(1) step.hyps(2) ok(2)] system_step_ok [OF step.hyps(2) ok(1)] step.IH show ?case
    by (auto intro: rtranclp_trans hashes_kept_trans)
qed (simp add: assms(3))

end
