(* ===== verification/Spec2Isabelle.thy ===== *)
theory Spec2Isabelle
  imports Checkpoint_Props Boss_Props Control_Props Gateway_Stream_Props Client_Props System
begin

text \<open>
  \<^bold>\<open>A verification development of the battle world servers.\<close>

  The program is a distributed game: players with a terminal client connect to a \<^emph>\<open>gateway\<close> by a bidirectional gRPC stream;
  the gateway keeps accounts in PostgreSQL and sessions in Redis and forwards commands to the \<^emph>\<open>node\<close> that owns the
  player's map; a node runs the worlds of its maps and saves checkpoints; one elected \<^emph>\<open>coordinator\<close> watches the nodes and
  moves maps. Who owns a map is a \<^emph>\<open>topology\<close> in Redis with an epoch for every map; every write of a node is checked
  against the \<^emph>\<open>fence\<close> of the map, which carries owner and epoch.

  \<^bold>\<open>Conventions.\<close>
  \<^item> Go structs are records (the fields of each with a prefix of its own), enums are datatypes, maps are association lists
    (in the order of insertion; where the order of a Go map iteration matters it is an argument), \<open>uint64\<close> and \<open>int32\<close> are
    words, \<open>int\<close> and \<open>int64\<close> are \<open>int\<close> where they cannot overflow, strings are the lists of their bytes.
  \<^item> A method under a mutex is one function of the state. An operation that talks to others is a function with a record
    of what happens around it: \<open>io\<close> (a node), \<open>cio\<close> (a coordinator), \<open>gio\<close> (a gateway) say for every point of the operation
    whether the network loses the request or the reply (\<open>net\<close>), what others have done to the store, the database, the nodes
    (\<open>ev_others\<close>) and to the own process (\<open>ev_self\<close>, \<open>gv_self\<close>), and the time. A theorem for all such records is a
    theorem for all interleavings and losses.
  \<^item> Loops of goroutines are one iteration each, in step relations where their interleaving is the point; the loops that may not end are \<open>partial_function (option)\<close> (world construction)
    or take a schedule (elections, streams, drains), and that they end is proved.
  \<^item> Code outside the repository is an argument: Redis (\<open>redis\<close>, with its laws in the locale \<open>redis_server\<close>), JSON (\<open>json\<close>),
    SQL (\<open>sql\<close>, locale \<open>users_table\<close>), bcrypt (\<open>hasher\<close>, locale \<open>password_hash\<close>), protobuf timestamps (\<open>timestamppb\<close>, locale
    \<open>timestamps\<close>). Each locale is interpreted on an implementation in memory, which the witnesses use.

  \<^bold>\<open>The theories.\<close>
  \<^item> \<open>Prelude\<close> (association lists, strings, time), \<open>Protocol\<close> (\<open>protocol/\<close>), \<open>Config\<close> (\<open>config/\<close>: defaults, validation, environment).
  \<^item> \<open>Maps\<close> (\<open>world/maps.go\<close>), \<open>World\<close> (\<open>world/world.go\<close>), \<open>Tick\<close> (\<open>world/tick.go\<close>), \<open>Checkpoint\<close> (\<open>world/checkpoint.go\<close>). \<open>World_Inv\<close>,
    \<open>World_Ops\<close>, \<open>World_Space\<close>, \<open>World_Boot\<close>, \<open>World_Props\<close>, \<open>Checkpoint_Props\<close>: a world stays well-formed under every sequence of
    calls, living units stay apart, the constructor returns a full world, checkpoints come back.
  \<^item> \<open>Topology\<close> (\<open>storage/topology.go\<close>, \<open>topology_bootstrap.go\<close>), \<open>Redis\<close> and \<open>Store\<close> (\<open>storage/store.go\<close> with its Lua scripts), \<open>Accounts\<close> (its
    SQL half). \<open>Fencing\<close>, \<open>Fence_Props\<close>, \<open>Boss_Props\<close>: epochs only rise over any history of the store, one owner per epoch, a
    deposed owner stays out, commits are complete or write nothing, one killing blow per boss.
  \<^item> \<open>Elector\<close> and \<open>Election\<close> (\<open>elector/\<close>): one leader per term over all histories, a stale leader cannot commit, leases exclude,
    a resignation hands over.
  \<^item> \<open>Wire\<close> and \<open>Wire_Gateway\<close> (\<open>transport/\<close>): what crosses the wire unchanged, and where 32 bits do not suffice.
  \<^item> \<open>Authority\<close>, \<open>Node\<close> (\<open>node/\<close>) and \<open>Node_Props\<close>: no split brain, a node fails closed, commands refine operations of the world, a
    drain hands the world over. \<open>Node_RPC\<close>, \<open>Node_RPC_Props\<close> (\<open>node/grpc_server.go\<close>, \<open>cluster/grpc_client.go\<close>): a remote call is
    the local one.
  \<^item> \<open>Coordinator\<close> (\<open>coordinator/\<close>), \<open>Failover\<close>, \<open>Failover_Live\<close>, \<open>Control_Props\<close>: what a successful fail-over has achieved whatever others did,
    when it succeeds, and what no round of a coordinator repairs.
  \<^item> \<open>Leader\<close>, \<open>Leader_Props\<close>, \<open>Leader_Boot\<close> (\<open>coordinator/coordinator.go\<close> and the loops of \<open>discovery.go\<close>, \<open>heartbeat.go\<close>, \<open>boss.go\<close>): a coordinator
    process as a step relation of its goroutines, in which the critical sections are both what a round may rely on and what
    every round is shown to consist of; the invariants over whole runs, and the boot of a fresh cluster.
  \<^item> \<open>Gateway_Routing\<close>, \<open>Gateway\<close> (\<open>cluster/\<close>), \<open>Gateway_Inv\<close>, \<open>Gateway_Switch\<close>, \<open>Gateway_Props\<close>, \<open>Gateway_Guarantee\<close>, \<open>Gateway_Accounts\<close>: routes follow one valid topology under
    every interleaving, the outcome of a map switch for every loss, passwords survive.
  \<^item> \<open>Stream_Sender\<close>, \<open>Stream_Props\<close> (\<open>cmd/gateway/stream_sender.go\<close>, a step relation of its goroutines), \<open>Gateway_Stream\<close>, \<open>Gateway_Stream_Props\<close>
    (\<open>gateway_handlers.go\<close>, \<open>gateway_errors.go\<close>): answers follow requests, control messages arrive, states do not go back, streams end.
  \<^item> \<open>Lifecycle\<close> (\<open>lifecycle/\<close> and the callbacks of the three processes): what a drain answers and means.
  \<^item> \<open>Node_Writes\<close>, \<open>Node_Process\<close> (\<open>cmd/node/main.go\<close> and the loops of \<open>node/node.go\<close>): a node process as a step relation of its goroutines,
    from its start to its exit: it moves the store only by steps of the store, exits only after a topology without it, and what
    a drain that fails leaves behind.
  \<^item> \<open>Startup\<close> (the constructors of the store, the main functions of gateway and coordinator, the life of a gateway process, the
    administration command): which connections a store has, when a gateway exits, what the status command prints.
  \<^item> \<open>System\<close> and this theory: all processes over one store and one database, as a step relation in which processes start and die;
    what every run of the whole installation keeps.
  \<^item> \<open>Client_UI\<close>, \<open>Client\<close>, \<open>Client_Props\<close> (\<open>cmd/client/\<close>): requests are understood, the newest state is shown, drawing does not panic.

  \<^bold>\<open>Interfaces\<close> are locales, each interpreted where its provider is defined: \<open>redis_server\<close> for the store's clients,
  \<open>users_table\<close>, \<open>password_hash\<close> and \<open>accounts\<close> for the accounts, \<open>wire_codec\<close> for every pair of mappers, \<open>timestamps\<close>,
  \<open>epoch_clock\<close> for tokens that only move forward (the fences and the version of the topology), \<open>world_operation\<close> and its extension \<open>roomy_operation\<close> for every operation of a
  world, \<open>drainable\<close> for the three processes behind the lifecycle endpoints, and \<open>gateway_guarantee\<close> for the relations all operations of
  a gateway keep (the hashes of passwords, and that the store moves by its own steps).

  \<^bold>\<open>Bounds.\<close> Numbers in Lua scripts are floating point in Redis: the store theories ask epochs, terms and points to stay below
  \<open>10 ^ 14\<close>, where they are exact. \<open>unpack_max\<close> is the number of arguments Lua's \<open>unpack\<close> takes. The boot loops use the random
  numbers of a world; \<open>NewWorld_returns\<close> asks the dice to be fair, that is to hit an open cell again and again. A stream needs at
  most 135 steps of its writer to end, by the capacity 32 of its queue.

  \<^bold>\<open>Not modelled.\<close> Generated protobuf code and the gRPC, HTTP, SQL and YAML libraries; the parsing of flags; the timers that
  call the modelled rounds of the loops; terminal modes, which are system calls; the benchmark, which keeps no state of the
  game. Data races inside one call are not modelled where the source holds a lock over it. A crash is a run that ends.
\<close>

section \<open>The whole system\<close>

text \<open>C3: however node, gateway and coordinator processes start, run, interleave, lose messages and die, from an
  installation on in which no gateway and no coordinator runs yet: the store keeps its invariant; the stored topology never goes back; if a node accepts a command on a map
  and later a node accepts one, the second epoch is at least the first, and equal only if it is the same node; who could log
  in still can; every gateway routes a map to its owner under its epoch by one valid topology; and every coordinator has at
  most one connection per node.\<close>

theorem system_safe:
  assumes R: "redis_server R J" and A: "accounts Q H"
    and start: "store_inv R J (out_store (sy_out S0))" "sy_gateways S0 = []" "sy_coords S0 = []"
    and run: "system_run R J Q H T E say fmt text_of dial S0 S1" and later: "system_run R J Q H T E say fmt text_of dial S1 S2"
  shows "store_inv R J (out_store (sy_out S2)) \<and>
    (\<forall>t. stored_topology R J (out_store (sy_out S1)) = Some t \<longrightarrow>
       (\<exists>t'. stored_topology R J (out_store (sy_out S2)) = Some t' \<and> tp_Version t \<le> tp_Version t' \<and> (tp_Version t' = tp_Version t \<longrightarrow> t' = t))) \<and>
    (\<forall>m e c a a' s ev e' c' b b' s' ev'.
       ev_others ev 0 (out_store (sy_out S1)) = out_store (sy_out S1) \<and> node_exec R J Ea ev m e c a (out_store (sy_out S1)) = Some (None, a', s) \<and>
       ev_others ev' 0 (out_store (sy_out S2)) = out_store (sy_out S2) \<and> node_exec R J Eb ev' m e' c' b (out_store (sy_out S2)) = Some (None, b', s') \<longrightarrow>
       unat e \<le> unat e' \<and> (e = e' \<longrightarrow> ns_ID a = ns_ID b)) \<and>
    (\<forall>u pw profile. Authenticate Q H False u pw (out_db (sy_out S1)) = Inr profile \<longrightarrow>
       (\<exists>profile'. Authenticate Q H False u pw (out_db (sy_out S2)) = Inr profile')) \<and>
    (\<forall>name p mapID owner node epoch.
       map_of (sy_gateways S2) name = Some p \<and> route mapID (gs_cluster p) = Some (owner, node, epoch) \<longrightarrow>
       Validate None (cl_topology (gs_cluster p)) = None \<and> map_of (tp_Owners (cl_topology (gs_cluster p))) mapID = Some owner \<and>
       map_of (tp_MapEpochs (cl_topology (gs_cluster p))) mapID = Some epoch \<and> gc_id node = owner) \<and>
    (\<forall>name p. map_of (sy_coords S2) name = Some p \<longrightarrow> distinct (keys (co_nodes (lp_coord p))))"
proof -
  have "installation_ok S0" using start(2,3) by (simp add: installation_ok_def)
  note r1 = system_run_keeps [OF A run this]
  note r2 = system_run_keeps [OF A later r1 [THEN conjunct1]]
  have i1: "store_inv R J (out_store (sy_out S1))" using redis_server.steps_inv [OF R] r1 start(1) by blast
  have accepted: "unat e \<le> unat e' \<and> (e = e' \<longrightarrow> ns_ID a = ns_ID b)"
    if "ev_others ev 0 (out_store (sy_out S1)) = out_store (sy_out S1)" "node_exec R J Ea ev m e c a (out_store (sy_out S1)) = Some (None, a', s)"
      "ev_others ev' 0 (out_store (sy_out S2)) = out_store (sy_out S2)" "node_exec R J Eb ev' m e' c' b (out_store (sy_out S2)) = Some (None, b', s')"
    for m e c a a' s ev e' c' b b' s' ev'
    using redis_server.token_forward [OF R r2 [THEN conjunct2, THEN conjunct1] i1, of m "ns_ID a" "unat e"]
      accepted_token(1) [OF that(2)] accepted_token(1) [OF that(4)] that(1,3) by (auto simp: word_unat_eq_iff)
  have routed: "Validate None (cl_topology (gs_cluster p)) = None \<and> map_of (tp_Owners (cl_topology (gs_cluster p))) mapID = Some owner \<and>
      map_of (tp_MapEpochs (cl_topology (gs_cluster p))) mapID = Some epoch \<and> gc_id node = owner"
    if "map_of (sy_gateways S2) name = Some p" "route mapID (gs_cluster p) = Some (owner, node, epoch)" for name p mapID owner node epoch
  proof -
    have "routed_inv (gs_cluster p)" "pool_inv (gs_cluster p)"
      using r2 map_of_SomeD [OF that(1)] by (auto simp: installation_ok_def list_all_iff)
    from route_facts [OF that(2) this] show ?thesis by (auto dest: Validate_weaken)
  qed
  have pools: "distinct (keys (co_nodes (lp_coord p)))" if "map_of (sy_coords S2) name = Some p" for name p
    using r2 map_of_SomeD [OF that] by (auto simp: installation_ok_def list_all_iff coord_ok_def)
  have logins: "\<exists>profile'. Authenticate Q H False u pw (out_db (sy_out S2)) = Inr profile'"
    if "Authenticate Q H False u pw (out_db (sy_out S1)) = Inr profile" for u pw profile
    using hashes_kept_login [OF _ that] r2 by blast
  have "store_inv R J (out_store (sy_out S2))" using redis_server.steps_inv [OF R _ i1] r2 by blast
  with accepted routed pools logins redis_server.steps_version [OF R r2 [THEN conjunct2, THEN conjunct1] i1] show ?thesis
    by (intro conjI) blast+
qed

text \<open>Ann has an account; a node is started and registers itself.\<close>

definition quiet_town :: "(mem, (string, UserRecord) alist) installation" where
  "quiet_town = \<lparr>sy_out = \<lparr>out_store = run1, out_nodes = [], out_db = out_db duo_with_ann\<rparr>, sy_nodes = [], sy_gateways = [], sy_coords = []\<rparr>"

abbreviation "town_step \<equiv> system_step mr mem_json mem_sql plain_hash std_stamps (\<lambda>_. demo_process) (\<lambda>_. []) (\<lambda>_. []) (\<lambda>x. x) (\<lambda>_ _. True)"

definition busy_town :: "(mem, (string, UserRecord) alist) installation" where
  "busy_town = set_node (fl_addr default_flags) (green_process ''n1'' True)
     (snd (register_beat mr mem_json Delivered 6 (green_process ''n1'' True) run1))
     (set_node (fl_addr default_flags) (green_process ''n1'' True) run1 quiet_town)"

lemma town_run: "town_step\<^sup>*\<^sup>* quiet_town busy_town"
proof -
  let ?p = "green_process ''n1'' True"
  let ?S = "set_node (fl_addr default_flags) ?p run1 quiet_town"
  have "town_step quiet_town ?S"
    using system_step.node_start [OF green_main [of "''n1''" True], of quiet_town]
    by (simp add: green_flags_def quiet_town_def)
  moreover have "town_step ?S busy_town"
  proof -
    have p: "?p\<lparr>np_node := np_node ?p\<rparr> = ?p" "\<not> np_exited ?p" by (simp_all add: green_process_def)
    have "map_of (sy_nodes ?S) (fl_addr default_flags) = Some ?p" "map_of (out_nodes (sy_out ?S)) (fl_addr default_flags) = Some (np_node ?p)"
      "out_store (sy_out ?S) = run1"
      by (simp_all add: set_node_def quiet_town_def)
    from system_step.node [OF this(1,2)] node_step.register [OF p(2)] this(3) p(1) show ?thesis unfolding busy_town_def by metis
  qed
  ultimately show ?thesis by (meson converse_rtranclp_into_rtranclp rtranclp.rtrancl_refl)
qed

theorem system_safe_witness:
  "(\<exists>profile. Authenticate mem_sql plain_hash False ''ann'' ''pw'' (out_db (sy_out busy_town)) = Inr profile) \<and>
   (\<exists>t. stored_topology mr mem_json (out_store (sy_out busy_town)) = Some t \<and> tp_Version topo1 \<le> tp_Version t)"
proof -
  have inv: "store_inv mr mem_json (out_store (sy_out quiet_town))" using inv_run1 by (simp add: quiet_town_def)
  have empty: "sy_gateways quiet_town = []" "sy_coords quiet_town = []" by (simp_all add: quiet_town_def)
  note safe = system_safe [OF mem.redis_server_axioms mem_accounts.accounts_axioms inv empty rtranclp.rtrancl_refl town_run]
  have "stored_topology mr mem_json (out_store (sy_out quiet_town)) = Some topo1"
    using LoadTopology_stored [OF run_loads(1)] by (simp add: quiet_town_def)
  moreover have "Authenticate mem_sql plain_hash False ''ann'' ''pw'' (out_db (sy_out quiet_town)) = Inr (new_profile ''ann'' ''$2pw'')"
    unfolding quiet_town_def duo_with_ann_def installation.simps backend.simps by code_simp
  ultimately show ?thesis
    using safe [THEN conjunct2, THEN conjunct1] safe [THEN conjunct2, THEN conjunct2, THEN conjunct2, THEN conjunct1] by blast
qed

end
